(* ===== verification/DagrPrelude.thy ===== *)
theory DagrPrelude
  imports Main "HOL-Library.AList" "HOL-Library.Sublist"
begin

text \<open>Shared vocabulary of the development.

  Python strings are HOL strings (code points below 256), Python dicts are association lists
  whose order is the insertion order, so that \<^theory_text>\<open>AList.update\<close> is \<^verbatim>\<open>d[k] = v\<close> (a present
  key keeps its place, a new key goes to the end) and \<^theory_text>\<open>map_of\<close> is \<^verbatim>\<open>d.get(k)\<close>. A fallible
  function returns a sum, the left side being the error of its component.\<close>

named_theorems vocab \<open>definitions of constant vocabularies, unfolded to literals\<close>
named_theorems result_simps \<open>inversion of fallible computations\<close>

type_synonym token = string
type_synonym 'v dict = "(string \<times> 'v) list"
type_synonym ('e, 'a) result = "'e + 'a"

section \<open>Results\<close>

fun rbind :: "('e, 'a) result \<Rightarrow> ('a \<Rightarrow> ('e, 'b) result) \<Rightarrow> ('e, 'b) result" where
  "rbind (Inl e) f = Inl e"
| "rbind (Inr x) f = f x"

fun map_err :: "('e \<Rightarrow> 'f) \<Rightarrow> ('e, 'a) result \<Rightarrow> ('f, 'a) result" where
  "map_err h (Inl e) = Inl (h e)"
| "map_err h (Inr x) = Inr x"

definition require :: "bool \<Rightarrow> 'e \<Rightarrow> ('e, unit) result" where
  "require b e = (if b then Inr () else Inl e)"

text \<open>A loop that checks each element in turn and stops at the first failure.\<close>

fun each :: "('a \<Rightarrow> ('e, unit) result) \<Rightarrow> 'a list \<Rightarrow> ('e, unit) result" where
  "each f [] = Inr ()"
| "each f (x # xs) = rbind (f x) (\<lambda>_. each f xs)"

text \<open>A sequence of checks, the first failure being the outcome.\<close>

definition checks :: "('e, unit) result list \<Rightarrow> ('e, unit) result" where
  "checks rs = each (\<lambda>r. r) rs"

text \<open>A loop that converts each element in turn and stops at the first failure.\<close>

fun rmap :: "('a \<Rightarrow> ('e, 'b) result) \<Rightarrow> 'a list \<Rightarrow> ('e, 'b list) result" where
  "rmap f [] = Inr []"
| "rmap f (x # xs) = rbind (f x) (\<lambda>y. rbind (rmap f xs) (\<lambda>ys. Inr (y # ys)))"

lemma rbind_Inr_iff [result_simps]:
  "(rbind r f = Inr y) = (\<exists>x. r = Inr x \<and> f x = Inr y)"
  by (cases r) auto

lemma rbind_Inl_iff [result_simps]:
  "(rbind r f = Inl e) = (r = Inl e \<or> (\<exists>x. r = Inr x \<and> f x = Inl e))"
  by (cases r) auto

lemma map_err_Inr_iff [result_simps]: "(map_err h r = Inr x) = (r = Inr x)"
  by (cases r) auto

lemma map_err_Inl_iff [result_simps]: "(map_err h r = Inl e) = (\<exists>d. r = Inl d \<and> e = h d)"
  by (cases r) auto

lemma require_Inr_iff [result_simps]: "(require b e = Inr u) = b"
  by (simp add: require_def)

lemma require_Inl_iff [result_simps]: "(require b e = Inl d) = (\<not> b \<and> d = e)"
  by (auto simp: require_def)

lemma require_simps [simp]: "require True e = Inr ()" "require False e = Inl e"
  by (simp_all add: require_def)

lemma each_Inr_iff [result_simps]: "(each f xs = Inr u) = (\<forall>x\<in>set xs. f x = Inr ())"
  by (induction xs) (auto simp: rbind_Inr_iff)

lemma checks_simps [simp]:
  "checks [] = Inr ()" "checks (r # rs) = rbind r (\<lambda>_. checks rs)"
  by (simp_all add: checks_def)

lemma checks_Inr_iff [result_simps]: "(checks rs = Inr u) = (\<forall>r\<in>set rs. r = Inr ())"
  by (simp add: checks_def each_Inr_iff)

lemma rmap_Inr_iff [result_simps]:
  "(rmap f xs = Inr ys) = list_all2 (\<lambda>x y. f x = Inr y) xs ys"
proof (induction xs arbitrary: ys)
  case Nil
  then show ?case by auto
next
  case (Cons x xs)
  then show ?case by (cases ys) (simp_all add: rbind_Inr_iff)
qed

lemma rmap_length: "rmap f xs = Inr ys \<Longrightarrow> length ys = length xs"
  by (auto simp: rmap_Inr_iff dest: list_all2_lengthD)

lemma sum_not_Inl_iff: "(\<forall>e. r \<noteq> Inl e) = (\<exists>x. r = Inr x)"
  by (cases r) auto

section \<open>Dictionaries\<close>

abbreviation dget :: "'v dict \<Rightarrow> string \<Rightarrow> 'v option" where
  "dget d k \<equiv> map_of d k"

abbreviation dset :: "string \<Rightarrow> 'v \<Rightarrow> 'v dict \<Rightarrow> 'v dict" where
  "dset k v d \<equiv> AList.update k v d"

definition dkeys :: "'v dict \<Rightarrow> string list" where
  "dkeys d = map fst d"

lemma dkeys_Nil [simp]: "dkeys [] = []"
  by (simp add: dkeys_def)

lemma dkeys_Cons [simp]: "dkeys ((k, v) # d) = k # dkeys d"
  by (simp add: dkeys_def)

definition wf_dict :: "'v dict \<Rightarrow> bool" where
  "wf_dict d = distinct (dkeys d)"

text \<open>\<^verbatim>\<open>d.update(e)\<close>: the keys of the second dictionary, in order.\<close>

fun dupdate :: "'v dict \<Rightarrow> 'v dict \<Rightarrow> 'v dict" where
  "dupdate d [] = d"
| "dupdate d ((k, v) # e) = dupdate (dset k v d) e"

lemma dget_dset [simp]: "dget (dset k v d) j = (if j = k then Some v else dget d j)"
  by (simp add: update_conv)

lemma dkeys_dset: "dkeys (dset k v d) = (if k \<in> set (dkeys d) then dkeys d else dkeys d @ [k])"
  by (simp add: dkeys_def update_keys)

lemma set_dkeys_dset [simp]: "set (dkeys (dset k v d)) = insert k (set (dkeys d))"
  by (auto simp: dkeys_dset)

lemma wf_dict_dset [simp]: "wf_dict d \<Longrightarrow> wf_dict (dset k v d)"
  by (simp add: wf_dict_def dkeys_dset)

lemma wf_dict_Nil [simp]: "wf_dict []"
  by (simp add: wf_dict_def dkeys_def)

lemma wf_dict_dupdate [simp]: "wf_dict d \<Longrightarrow> wf_dict (dupdate d e)"
  by (induction d e rule: dupdate.induct) simp_all

lemma dget_None_iff: "(dget d k = None) = (k \<notin> set (dkeys d))"
  by (auto simp: dkeys_def map_of_eq_None_iff)

lemma dget_Some_in_dkeys: "dget d k = Some v \<Longrightarrow> k \<in> set (dkeys d)"
  by (metis dget_None_iff option.simps(3))

lemma dget_dupdate:
  "wf_dict e \<Longrightarrow>
    dget (dupdate d e) k = (case dget e k of Some v \<Rightarrow> Some v | None \<Rightarrow> dget d k)"
  by (induction d e rule: dupdate.induct)
     (auto simp: wf_dict_def dkeys_def map_of_eq_None_iff image_iff split: option.splits)

lemma set_dkeys_dupdate: "set (dkeys (dupdate d e)) = set (dkeys d) \<union> set (dkeys e)"
  by (induction d e rule: dupdate.induct) auto

section \<open>Python string helpers\<close>

text \<open>The white space of \<^verbatim>\<open>str.strip\<close> and the case folding of \<^verbatim>\<open>str.lower\<close> on code points
  below 256.\<close>

definition py_space :: "char \<Rightarrow> bool" where
  "py_space c = (let n = of_char c :: nat in
     (9 \<le> n \<and> n \<le> 13) \<or> (28 \<le> n \<and> n \<le> 32) \<or> n = 133 \<or> n = 160)"

definition py_strip :: "string \<Rightarrow> string" where
  "py_strip s = rev (dropWhile py_space (rev (dropWhile py_space s)))"

definition py_lower_char :: "char \<Rightarrow> char" where
  "py_lower_char c = (let n = of_char c :: nat in
     if (65 \<le> n \<and> n \<le> 90) \<or> (192 \<le> n \<and> n \<le> 222 \<and> n \<noteq> 215)
     then char_of (n + 32) else c)"

definition py_lower :: "string \<Rightarrow> string" where
  "py_lower s = map py_lower_char s"

definition blank :: "string \<Rightarrow> bool" where
  "blank s = (py_strip s = [])"

lemma blank_iff: "blank s = (\<forall>c\<in>set s. py_space c)"
proof
  assume "blank s"
  then have "dropWhile py_space (rev (dropWhile py_space s)) = []"
    by (simp add: blank_def py_strip_def)
  then have tail: "\<forall>c\<in>set (dropWhile py_space s). py_space c"
    by (simp add: dropWhile_eq_Nil_conv)
  show "\<forall>c\<in>set s. py_space c"
  proof
    fix c assume "c \<in> set s"
    then have "c \<in> set (takeWhile py_space s) \<union> set (dropWhile py_space s)"
      by (metis set_append takeWhile_dropWhile_id)
    then show "py_space c" using tail by (auto dest: set_takeWhileD)
  qed
next
  assume "\<forall>c\<in>set s. py_space c"
  then have "dropWhile py_space s = []" by simp
  then show "blank s" unfolding blank_def py_strip_def by (metis rev.simps(1) dropWhile.simps(1))
qed

lemma blank_Nil [simp]: "blank []"
  by (simp add: blank_iff)

lemma py_strip_ends:
  "py_strip s = [] \<or> (\<not> py_space (hd (py_strip s)) \<and> \<not> py_space (last (py_strip s)))"
proof (cases "py_strip s = []")
  case False
  define t where "t = dropWhile py_space s"
  define u where "u = dropWhile py_space (rev t)"
  have strip: "py_strip s = rev u" by (simp add: py_strip_def t_def u_def)
  have une: "u \<noteq> []" using False strip by simp
  have lastns: "\<not> py_space (hd u)" using une unfolding u_def by (rule hd_dropWhile)
  have suf: "rev t = takeWhile py_space (rev t) @ u" by (simp add: u_def)
  then have "last (rev t) = last u" using une by (metis last_append)
  moreover have tne: "t \<noteq> []" using une by (auto simp: u_def)
  ultimately have "last u = hd t" by (simp add: last_rev)
  moreover have "\<not> py_space (hd t)" using tne unfolding t_def by (rule hd_dropWhile)
  ultimately show ?thesis using une lastns strip by (simp add: hd_rev last_rev)
qed simp

lemma py_strip_fixed:
  assumes "s \<noteq> []" "\<not> py_space (hd s)" "\<not> py_space (last s)"
  shows "py_strip s = s"
proof -
  have "dropWhile py_space s = s" using assms(1,2) by (cases s) auto
  moreover have "dropWhile py_space (rev s) = rev s"
    using assms(1,3) by (cases s rule: rev_cases) auto
  ultimately show ?thesis by (simp add: py_strip_def)
qed

lemma py_strip_idem [simp]: "py_strip (py_strip s) = py_strip s"
proof (cases "py_strip s = []")
  case True
  moreover have "py_strip [] = []" by (simp add: py_strip_def)
  ultimately show ?thesis by simp
next
  case False
  then show ?thesis using py_strip_ends[of s] by (intro py_strip_fixed) auto
qed

lemma py_lower_char_idem [simp]: "py_lower_char (py_lower_char c) = py_lower_char c"
  by (auto simp: py_lower_char_def Let_def)

lemma py_lower_idem [simp]: "py_lower (py_lower s) = py_lower s"
  by (simp add: py_lower_def comp_def)

text \<open>Decimal rendering of a natural number (\<^verbatim>\<open>str(n)\<close>).\<close>

definition digit_char :: "nat \<Rightarrow> char" where
  "digit_char n = char_of (48 + n)"

fun nat_str :: "nat \<Rightarrow> string" where
  "nat_str n = (if n < 10 then [digit_char n] else nat_str (n div 10) @ [digit_char (n mod 10)])"

declare nat_str.simps [simp del]

lemma nat_str_small [simp]: "n < 10 \<Longrightarrow> nat_str n = [digit_char n]"
  by (simp add: nat_str.simps)

end
