(* ===== verification/LifecycleContract.thy ===== *)
theory LifecycleContract
  imports DagrPrelude
begin

text \<open>The binding-neutral lifecycle vocabulary (\<^verbatim>\<open>src/dagr_mcp_lifecycle/contract.py\<close>). Every
  token tuple of the contract is a list of strings in the source's order; the receipt
  cardinality table is a dictionary.\<close>

section \<open>Phases, dispositions and outcomes\<close>

definition LIFECYCLE_PHASES :: "token list" where [vocab]:
  "LIFECYCLE_PHASES = [''call_admission'', ''execution'', ''outcome'']"

definition NEUTRAL_DISPOSITIONS :: "token list" where [vocab]:
  "NEUTRAL_DISPOSITIONS = [''admitted'', ''refused'', ''deferred'']"

definition NEUTRAL_REFUSAL_GROUNDS :: "token list" where [vocab]:
  "NEUTRAL_REFUSAL_GROUNDS =
     [''policy_refused'', ''unknown_tool_fail_closed'', ''required_sink_unavailable'',
      ''review_object_creation_failed'']"

definition DEFERRAL_CONTINUATION_CONTRACT :: token where [vocab]:
  "DEFERRAL_CONTINUATION_CONTRACT = ''retry_after_approval''"

definition EXECUTION_BOUNDARIES :: "token list" where [vocab]:
  "EXECUTION_BOUNDARIES = [''execution_start'', ''execution_completion'']"

definition NEUTRAL_OUTCOMES :: "token list" where [vocab]:
  "NEUTRAL_OUTCOMES =
     [''result'', ''error'', ''exception'', ''task_submitted'', ''timeout'', ''cancellation'',
      ''input_required'']"

definition INPUT_REQUIRED_MODES :: "token list" where [vocab]:
  "INPUT_REQUIRED_MODES = [''continuable'', ''interrupted'']"

definition NEUTRAL_CANCELLATION_FACTS :: "token list" where [vocab]:
  "NEUTRAL_CANCELLATION_FACTS =
     [''request_cancelled'', ''execution_state_unknown'', ''delivery_incomplete'']"

section \<open>Receipts, custody and digests\<close>

definition RECEIPT_CARDINALITY :: "nat dict" where [vocab]:
  "RECEIPT_CARDINALITY = [(''admitted'', 2), (''refused'', 1), (''deferred'', 1)]"

definition RECEIPT_REFERENCE_EDGES :: "token list" where [vocab]:
  "RECEIPT_REFERENCE_EDGES = [''outcome_to_admission'', ''parent_reference'']"

definition CUSTODY_EXCLUSION_FLAGS :: "token list" where [vocab]:
  "CUSTODY_EXCLUSION_FLAGS =
     [''raw_payload_excluded'', ''private_path_redacted'', ''tool_arguments_excluded'',
      ''credential_secret_excluded'']"

definition CUSTODY_NON_CLAIM_FLAGS :: "token list" where [vocab]:
  "CUSTODY_NON_CLAIM_FLAGS =
     [''record_admission_claimed'', ''mcp_protocol_modified'', ''mcp_authority_granted'',
      ''model_output_verified'']"

definition ATTESTATION_LIMIT_FAMILIES :: "token list" where [vocab]:
  "ATTESTATION_LIMIT_FAMILIES = [''base'', ''result'', ''task'', ''boundary'']"

definition DIGEST_CANONICALIZATION :: token where [vocab]:
  "DIGEST_CANONICALIZATION = ''RFC8785-JCS''"

definition DIGEST_HASH :: token where [vocab]: "DIGEST_HASH = ''sha256''"

definition DIGEST_PREFIX :: token where [vocab]: "DIGEST_PREFIX = ''sha256:''"

definition DIGEST_RESPONSIBILITIES :: "token list" where [vocab]:
  "DIGEST_RESPONSIBILITIES = [''argument_digest'', ''result_digest'']"

definition RESULT_DIGEST_OUTCOMES :: "token list" where [vocab]:
  "RESULT_DIGEST_OUTCOMES = [''result'', ''error'']"

definition NO_RESULT_DIGEST_OUTCOMES :: "token list" where [vocab]:
  "NO_RESULT_DIGEST_OUTCOMES = [''task_submitted'', ''exception'', ''timeout'', ''cancellation'']"

definition PROTOCOL_STAMP_FIELDS :: "token list" where [vocab]:
  "PROTOCOL_STAMP_FIELDS =
     [''protocol_binding'', ''boundary_type'', ''receipt_type'', ''profile_id'',
      ''profile_version'', ''receipt_version'']"

definition BINDING_STAMP_FIELDS :: "token list" where [vocab]:
  "BINDING_STAMP_FIELDS = [''binding_version'']"

section \<open>Parity model and event catalogue\<close>

definition PARITY_LAYERS :: "token list" where [vocab]:
  "PARITY_LAYERS = [''semantic'', ''normalized_equality'', ''exact_unsigned_bytes'']"

definition PERMITTED_NORMALIZED_DIFFERENCE_FIELDS :: "token list" where [vocab]:
  "PERMITTED_NORMALIZED_DIFFERENCE_FIELDS = [''receipt_id'', ''issued_at'', ''receipt_signature'']"

definition CUSTODY_PERMITTED_NORMALIZED_DIFFERENCE_FIELDS :: "token list" where [vocab]:
  "CUSTODY_PERMITTED_NORMALIZED_DIFFERENCE_FIELDS = [''observed_at'']"

record parity_layer_spec =
  pl_layer :: token
  pl_summary :: string
  pl_permitted_difference_fields :: "token list"

definition PARITY_MODEL :: "parity_layer_spec list" where
  "PARITY_MODEL =
     [\<lparr>pl_layer = ''semantic'',
       pl_summary = ''The behavioral facts hold independent of exact bytes: the disposition and outcome vocabularies, receipt cardinality and reference edges, the cancellation-fact posture, the digest responsibilities, the non-claim custody posture, and the protocol and binding stamps.'',
       pl_permitted_difference_fields = []\<rparr>,
      \<lparr>pl_layer = ''normalized_equality'',
       pl_summary = ''The record is byte-for-byte equal under canonicalization once the permitted-volatile fields are dropped. Only the volatile fields (identifier, wall clock, signature) may differ; every other field must match.'',
       pl_permitted_difference_fields = PERMITTED_NORMALIZED_DIFFERENCE_FIELDS\<rparr>,
      \<lparr>pl_layer = ''exact_unsigned_bytes'',
       pl_summary = ''The exact RFC 8785 canonical bytes of the unsigned envelope (the record with its signature block removed) are identical where the producing identity, identifier, and clock are pinned. This is the strictest layer and holds only for deterministic fixtures.'',
       pl_permitted_difference_fields = []\<rparr>]"

record neutral_lifecycle_event =
  ev_phase :: token
  ev_token :: token
  ev_description :: string
  ev_modes :: "token list"

definition neutral_event :: "token \<Rightarrow> token \<Rightarrow> string \<Rightarrow> neutral_lifecycle_event" where
  "neutral_event ph tok descr =
     \<lparr>ev_phase = ph, ev_token = tok, ev_description = descr, ev_modes = []\<rparr>"

definition NEUTRAL_LIFECYCLE_EVENTS :: "neutral_lifecycle_event list" where
  "NEUTRAL_LIFECYCLE_EVENTS =
     [neutral_event ''call_admission'' ''admitted''
        ''The call is admitted at the boundary and proceeds to execution.'',
      neutral_event ''call_admission'' ''refused''
        ''The call is refused at the boundary; the tool body never runs.'',
      neutral_event ''call_admission'' ''deferred''
        ''The call is deferred to a durable review object with a retry contract.'',
      neutral_event ''execution'' ''execution_start''
        ''Execution begins after admission is durably observed.'',
      neutral_event ''execution'' ''execution_completion''
        ''The boundary observes the call returning or terminating.'',
      neutral_event ''outcome'' ''result''
        ''A semantic result was returned across the boundary.'',
      neutral_event ''outcome'' ''error''
        ''An error result was returned across the boundary.'',
      neutral_event ''outcome'' ''exception''
        ''The inner handler raised; only the exception class is recorded.'',
      neutral_event ''outcome'' ''task_submitted''
        ''The call was submitted to a task backend; execution is not claimed.'',
      neutral_event ''outcome'' ''timeout''
        ''The call timed out. Neutral event with no dedicated binding disposition in the current binding.'',
      neutral_event ''outcome'' ''cancellation''
        ''The call was cooperatively cancelled; delivery state is unknown.'',
      \<lparr>ev_phase = ''outcome'', ev_token = ''input_required'',
       ev_description = ''The call paused awaiting further input.'',
       ev_modes = INPUT_REQUIRED_MODES\<rparr>]"

section \<open>Facts about the vocabulary\<close>

lemma event_catalogue_covers:
  "map ev_token NEUTRAL_LIFECYCLE_EVENTS =
     NEUTRAL_DISPOSITIONS @ EXECUTION_BOUNDARIES @ NEUTRAL_OUTCOMES"
  by (simp add: vocab NEUTRAL_LIFECYCLE_EVENTS_def neutral_event_def)

lemma digest_outcomes_partition:
  "set NEUTRAL_OUTCOMES =
     set RESULT_DIGEST_OUTCOMES \<union> set NO_RESULT_DIGEST_OUTCOMES \<union> {''input_required''}"
  "set RESULT_DIGEST_OUTCOMES \<inter> set NO_RESULT_DIGEST_OUTCOMES = {}"
  by (auto simp: vocab)

end
