(* ===== verification/LifecycleCore.thy ===== *)
theory LifecycleCore
  imports LifecycleContract
begin

text \<open>The neutral lifecycle planner (\<^verbatim>\<open>src/dagr_mcp_lifecycle/models.py\<close> and
  \<^verbatim>\<open>src/dagr_mcp_lifecycle/core.py\<close>): given a resolved admission decision and a classified
  observation it plans which governance records a call produces. Tokens stay strings, as the
  code compares them, so the \<^verbatim>\<open>ValueError\<close> branches for unknown tokens are reachable here as
  they are in the source.\<close>

section \<open>Values\<close>

definition GOVERNED_TOOL_CLASSES :: "token list" where [vocab]:
  "GOVERNED_TOOL_CLASSES = [''read'', ''write'', ''destructive'']"

definition ADMISSION_BEFORE_EXECUTION_REQUIRED :: "token list" where [vocab]:
  "ADMISSION_BEFORE_EXECUTION_REQUIRED = [''write'', ''destructive'']"

definition ADAPTER_RESPONSIBILITIES :: "token list" where [vocab]:
  "ADAPTER_RESPONSIBILITIES =
     [''mint_receipt_id'', ''mint_issued_at'', ''compute_argument_digest'',
      ''compute_result_digest'', ''mint_review_object_ref'', ''canonicalize_record'',
      ''sign_record'', ''stamp_protocol_binding'', ''stamp_binding_version'',
      ''store_custody_projection'', ''transport_record'']"

definition COMMON_RECORD_RESPONSIBILITIES :: "token list" where [vocab]:
  "COMMON_RECORD_RESPONSIBILITIES =
     [''mint_receipt_id'', ''mint_issued_at'', ''canonicalize_record'', ''sign_record'',
      ''stamp_protocol_binding'', ''stamp_binding_version'', ''transport_record'']"

record admission_request =
  ar_disposition :: token
  ar_tool_class :: token
  ar_refusal_ground :: "token option"
  ar_review_object_created :: "bool option"
  ar_emit_read_admission :: bool
  ar_has_parent_boundary :: bool

record execution_observation =
  ob_observation :: token
  ob_exception_class :: "string option"
  ob_input_required_mode :: "token option"

record admission_record_intent =
  ai_disposition :: token
  ai_reason_code :: "token option"
  ai_carries_argument_digest :: bool
  ai_carries_review_object_ref :: bool
  ai_retry_contract :: "token option"
  ai_references_parent :: bool
  ai_limit_families :: "token list"
  ai_responsibilities :: "token list"

record outcome_record_intent =
  oi_outcome :: token
  oi_subsumed_from :: "token option"
  oi_exception_class :: "string option"
  oi_carries_result_digest :: bool
  oi_references_admission :: bool
  oi_governance_facts :: "token list"
  oi_governance_facts_value :: bool
  oi_limit_families :: "token list"
  oi_responsibilities :: "token list"

record admission_plan =
  ap_requested :: token
  ap_resolved :: token
  ap_record :: "admission_record_intent option"
  ap_admission_recorded :: bool
  ap_execution_proceeds :: bool

record outcome_plan =
  op_observation :: token
  op_record :: "outcome_record_intent option"

record lifecycle_plan =
  lp_admission :: admission_plan
  lp_outcome :: "outcome_plan option"
  lp_record_count :: nat

record unsupported_result =
  un_event :: token
  un_modes :: "token list"
  un_reason :: string
  un_supported :: bool

text \<open>A planner returns a plan or an explicit unsupported result; the strict planners raise.\<close>

datatype 'p planned = Planned 'p | Unsupported unsupported_result

datatype core_error =
    RefusalGroundMissing
  | UnknownRefusalGround token
  | ReviewFlagMissing
  | UnknownDisposition token
  | UnknownObservation token
  | ExceptionClassMissing
  | UnknownOutcome token
  | UnsupportedLifecycleEvent token "token list" string

definition SUBSUMED_OUTCOMES :: "token dict" where [vocab]:
  "SUBSUMED_OUTCOMES = [(''timeout'', ''exception'')]"

definition UNSUPPORTED_OUTCOMES :: "token list" where [vocab]:
  "UNSUPPORTED_OUTCOMES = [''input_required'']"

definition TIMEOUT_EXCEPTION_CLASS :: string where [vocab]:
  "TIMEOUT_EXCEPTION_CLASS = ''TimeoutError''"

section \<open>Admission planning\<close>

definition ADMISSION_LIMIT_FAMILIES :: "token list" where [vocab]:
  "ADMISSION_LIMIT_FAMILIES = [''base'', ''boundary'']"

definition RESULT_LIMIT_FAMILIES :: "token list" where [vocab]:
  "RESULT_LIMIT_FAMILIES = [''base'', ''result'', ''boundary'']"

definition TASK_LIMIT_FAMILIES :: "token list" where [vocab]:
  "TASK_LIMIT_FAMILIES = [''base'', ''task'', ''boundary'']"

definition outcome_limit_families :: "token \<Rightarrow> token list" where
  "outcome_limit_families out =
     (if out \<in> set [''result'', ''error''] then RESULT_LIMIT_FAMILIES
      else if out = ''task_submitted'' then TASK_LIMIT_FAMILIES
      else ADMISSION_LIMIT_FAMILIES)"

definition admission_before_execution :: "admission_request \<Rightarrow> bool" where
  "admission_before_execution req =
     (if ar_tool_class req \<in> set ADMISSION_BEFORE_EXECUTION_REQUIRED then True
      else ar_emit_read_admission req)"

text \<open>The record constructor call that the four branches of \<^verbatim>\<open>plan_admission\<close> share: the
  argument digest is always due, and the extra duties follow the common ones.\<close>

definition admission_record ::
  "admission_request \<Rightarrow> token \<Rightarrow> token option \<Rightarrow> bool \<Rightarrow> token option \<Rightarrow> token list
    \<Rightarrow> admission_record_intent" where
  "admission_record req disp reason review retry extra =
     \<lparr>ai_disposition = disp, ai_reason_code = reason, ai_carries_argument_digest = True,
      ai_carries_review_object_ref = review, ai_retry_contract = retry,
      ai_references_parent = ar_has_parent_boundary req,
      ai_limit_families = ADMISSION_LIMIT_FAMILIES,
      ai_responsibilities = COMMON_RECORD_RESPONSIBILITIES @ extra\<rparr>"

definition plan_admission :: "admission_request \<Rightarrow> (core_error, admission_plan) result" where
  "plan_admission req =
    (if ar_disposition req = ''refused'' then
       (case ar_refusal_ground req of
          None \<Rightarrow> Inl RefusalGroundMissing
        | Some ground \<Rightarrow>
            if ground \<notin> set NEUTRAL_REFUSAL_GROUNDS then Inl (UnknownRefusalGround ground)
            else Inr \<lparr>ap_requested = ''refused'', ap_resolved = ''refused'',
                  ap_record = Some (admission_record req ''refused'' (Some ground) False None
                                      [''compute_argument_digest'']),
                  ap_admission_recorded = True, ap_execution_proceeds = False\<rparr>)
     else if ar_disposition req = ''deferred'' then
       (case ar_review_object_created req of
          None \<Rightarrow> Inl ReviewFlagMissing
        | Some False \<Rightarrow>
            Inr \<lparr>ap_requested = ''deferred'', ap_resolved = ''refused'',
              ap_record = Some (admission_record req ''refused''
                                  (Some ''review_object_creation_failed'') False None
                                  [''compute_argument_digest'']),
              ap_admission_recorded = True, ap_execution_proceeds = False\<rparr>
        | Some True \<Rightarrow>
            Inr \<lparr>ap_requested = ''deferred'', ap_resolved = ''deferred'',
              ap_record = Some (admission_record req ''deferred'' None True
                                  (Some DEFERRAL_CONTINUATION_CONTRACT)
                                  [''compute_argument_digest'', ''mint_review_object_ref'']),
              ap_admission_recorded = True, ap_execution_proceeds = False\<rparr>)
     else if ar_disposition req = ''admitted'' then
       (let recorded = admission_before_execution req in
        Inr \<lparr>ap_requested = ''admitted'', ap_resolved = ''admitted'',
          ap_record = (if recorded
                       then Some (admission_record req ''admitted'' None False None
                                    [''compute_argument_digest''])
                       else None),
          ap_admission_recorded = recorded, ap_execution_proceeds = True\<rparr>)
     else Inl (UnknownDisposition (ar_disposition req)))"

section \<open>Outcome planning\<close>

definition unsupported_for :: "execution_observation \<Rightarrow> unsupported_result" where
  "unsupported_for ob =
     \<lparr>un_event = ob_observation ob,
      un_modes = (case ob_input_required_mode ob of
                    Some m \<Rightarrow> [m] | None \<Rightarrow> INPUT_REQUIRED_MODES),
      un_reason = ''the frozen FastMCP binding carries no dedicated disposition for a paused call; it is neutral but unsupported and must not be normalized into a supported outcome'',
      un_supported = False\<rparr>"

definition outcome_record ::
  "execution_observation \<Rightarrow> (core_error, outcome_record_intent) result" where
  "outcome_record ob =
    (let token = ob_observation ob;
         family = (case dget SUBSUMED_OUTCOMES token of Some f \<Rightarrow> f | None \<Rightarrow> token);
         subsumed = (case dget SUBSUMED_OUTCOMES token of Some _ \<Rightarrow> Some token | None \<Rightarrow> None);
         exc = (if subsumed \<noteq> None \<and> family = ''exception'' then Some TIMEOUT_EXCEPTION_CLASS
                else ob_exception_class ob)
     in if family = ''exception'' \<and> exc = None then Inl ExceptionClassMissing
        else
          let facts = (if family = ''cancellation'' then NEUTRAL_CANCELLATION_FACTS else []);
              carries = (family \<in> set RESULT_DIGEST_OUTCOMES);
              duties = COMMON_RECORD_RESPONSIBILITIES @
                         (if carries then [''compute_result_digest''] else [])
          in Inr \<lparr>oi_outcome = family, oi_subsumed_from = subsumed,
               oi_exception_class = (if family = ''exception'' then exc else None),
               oi_carries_result_digest = carries, oi_references_admission = True,
               oi_governance_facts = facts, oi_governance_facts_value = True,
               oi_limit_families = outcome_limit_families family,
               oi_responsibilities = duties\<rparr>)"

definition plan_outcome ::
  "admission_plan \<Rightarrow> execution_observation \<Rightarrow> (core_error, outcome_plan planned) result" where
  "plan_outcome adm ob =
    (let token = ob_observation ob in
     if token \<notin> set NEUTRAL_OUTCOMES then Inl (UnknownObservation token)
     else if token \<in> set UNSUPPORTED_OUTCOMES then Inr (Unsupported (unsupported_for ob))
     else if \<not> ap_execution_proceeds adm \<or> \<not> ap_admission_recorded adm
     then Inr (Planned \<lparr>op_observation = token, op_record = None\<rparr>)
     else rbind (outcome_record ob) (\<lambda>rec.
            Inr (Planned \<lparr>op_observation = token, op_record = Some rec\<rparr>)))"

section \<open>Whole-lifecycle planning\<close>

definition record_present :: "'a option \<Rightarrow> nat" where
  "record_present r = (case r of None \<Rightarrow> 0 | Some _ \<Rightarrow> 1)"

definition plan_lifecycle ::
  "admission_request \<Rightarrow> execution_observation option
    \<Rightarrow> (core_error, lifecycle_plan planned) result" where
  "plan_lifecycle req observation =
    rbind (plan_admission req) (\<lambda>adm.
      if \<not> ap_execution_proceeds adm then
        Inr (Planned \<lparr>lp_admission = adm, lp_outcome = None,
                       lp_record_count = record_present (ap_record adm)\<rparr>)
      else case observation of
        None \<Rightarrow> Inr (Planned \<lparr>lp_admission = adm, lp_outcome = None,
                              lp_record_count = record_present (ap_record adm)\<rparr>)
      | Some ob \<Rightarrow>
          rbind (plan_outcome adm ob) (\<lambda>out.
            case out of
              Unsupported u \<Rightarrow> Inr (Unsupported u)
            | Planned outp \<Rightarrow>
                Inr (Planned \<lparr>lp_admission = adm, lp_outcome = Some outp,
                       lp_record_count = record_present (ap_record adm)
                                         + record_present (op_record outp)\<rparr>)))"

definition raise_unsupported :: "'p planned \<Rightarrow> (core_error, 'p) result" where
  "raise_unsupported p =
     (case p of Planned x \<Rightarrow> Inr x
      | Unsupported u \<Rightarrow> Inl (UnsupportedLifecycleEvent (un_event u) (un_modes u) (un_reason u)))"

definition plan_outcome_strict ::
  "admission_plan \<Rightarrow> execution_observation \<Rightarrow> (core_error, outcome_plan) result" where
  "plan_outcome_strict adm ob = rbind (plan_outcome adm ob) raise_unsupported"

definition plan_lifecycle_strict ::
  "admission_request \<Rightarrow> execution_observation option \<Rightarrow> (core_error, lifecycle_plan) result" where
  "plan_lifecycle_strict req observation = rbind (plan_lifecycle req observation) raise_unsupported"

definition core_outcome_status :: "token \<Rightarrow> (core_error, string) result" where
  "core_outcome_status out =
    (if out \<notin> set NEUTRAL_OUTCOMES then Inl (UnknownOutcome out)
     else if out \<in> set UNSUPPORTED_OUTCOMES then Inr ''unsupported''
     else if dget SUBSUMED_OUTCOMES out \<noteq> None then Inr ''subsumed''
     else Inr ''direct'')"

section \<open>Admission facts\<close>

lemmas admission_defs = plan_admission_def admission_record_def admission_before_execution_def

text \<open>Every planned admission is one of four shapes.\<close>

lemma plan_admission_cases:
  assumes "plan_admission req = Inr adm"
  obtains
    (refused) g where "ar_disposition req = ''refused''" "ar_refusal_ground req = Some g"
      "g \<in> set NEUTRAL_REFUSAL_GROUNDS" "ap_requested adm = ''refused''"
      "ap_resolved adm = ''refused''" "\<not> ap_execution_proceeds adm" "ap_admission_recorded adm"
      "ap_record adm = Some (admission_record req ''refused'' (Some g) False None
                               [''compute_argument_digest''])"
  | (review_failed) "ar_disposition req = ''deferred''" "ar_review_object_created req = Some False"
      "ap_requested adm = ''deferred''"
      "ap_resolved adm = ''refused''" "\<not> ap_execution_proceeds adm" "ap_admission_recorded adm"
      "ap_record adm = Some (admission_record req ''refused''
         (Some ''review_object_creation_failed'') False None [''compute_argument_digest''])"
  | (deferred) "ar_disposition req = ''deferred''" "ar_review_object_created req = Some True"
      "ap_requested adm = ''deferred''"
      "ap_resolved adm = ''deferred''" "\<not> ap_execution_proceeds adm" "ap_admission_recorded adm"
      "ap_record adm = Some (admission_record req ''deferred'' None True
         (Some DEFERRAL_CONTINUATION_CONTRACT)
         [''compute_argument_digest'', ''mint_review_object_ref''])"
  | (admitted) "ar_disposition req = ''admitted''" "ap_requested adm = ''admitted''"
      "ap_resolved adm = ''admitted''" "ap_execution_proceeds adm"
      "ap_admission_recorded adm = admission_before_execution req"
      "ap_record adm = (if admission_before_execution req
         then Some (admission_record req ''admitted'' None False None
                      [''compute_argument_digest'']) else None)"
proof -
  consider "ar_disposition req = ''refused''" | "ar_disposition req = ''deferred''"
    | "ar_disposition req = ''admitted''"
    using assms by (fastforce simp: plan_admission_def split: if_splits)
  then show ?thesis
  proof cases
    case 1
    then show ?thesis using assms refused
      by (auto simp: plan_admission_def split: option.splits if_splits)
  next
    case 2
    then show ?thesis using assms review_failed deferred
      by (auto simp: plan_admission_def split: option.splits bool.splits)
  next
    case 3
    then show ?thesis using assms admitted
      by (auto simp: plan_admission_def Let_def)
  qed
qed

lemma plan_admission_record_iff:
  assumes "plan_admission req = Inr adm"
  shows "(ap_record adm \<noteq> None) = ap_admission_recorded adm"
  using assms by (rule plan_admission_cases) auto

lemma plan_admission_proceeds_iff:
  assumes "plan_admission req = Inr adm"
  shows "ap_execution_proceeds adm = (ap_resolved adm = ''admitted'')"
  using assms by (rule plan_admission_cases) auto

section \<open>Outcome facts\<close>

lemma NEUTRAL_OUTCOMES_cases:
  assumes "tok \<in> set NEUTRAL_OUTCOMES"
  obtains "tok = ''result''" | "tok = ''error''" | "tok = ''exception''" | "tok = ''task_submitted''"
    | "tok = ''timeout''" | "tok = ''cancellation''" | "tok = ''input_required''"
proof -
  have "tok = ''result'' \<or> tok = ''error'' \<or> tok = ''exception'' \<or> tok = ''task_submitted''
      \<or> tok = ''timeout'' \<or> tok = ''cancellation'' \<or> tok = ''input_required''"
    using assms unfolding NEUTRAL_OUTCOMES_def by simp
  then show ?thesis by (elim disjE) (fact that)+
qed

text \<open>The outcome record of a supported observation is consistent with the contract: a
  timeout is recorded as an exception of class TimeoutError and never as its own family; a
  result digest is due for exactly the families of the contract's digest table; exactly an
  exception record carries an exception class; exactly a cancellation record carries the three
  governance facts; and every record keeps the base and boundary limits.\<close>
theorem outcome_record_consistent:
  assumes "ob_observation ob \<in> set NEUTRAL_OUTCOMES"
    and "ob_observation ob \<notin> set UNSUPPORTED_OUTCOMES"
    and "outcome_record ob = Inr rec"
  shows "oi_outcome rec = (if ob_observation ob = ''timeout'' then ''exception''
                           else ob_observation ob)
    \<and> oi_subsumed_from rec = (if ob_observation ob = ''timeout'' then Some ''timeout'' else None)
    \<and> oi_carries_result_digest rec = (ob_observation ob \<in> set RESULT_DIGEST_OUTCOMES)
    \<and> oi_carries_result_digest rec = (ob_observation ob \<notin> set NO_RESULT_DIGEST_OUTCOMES)
    \<and> oi_carries_result_digest rec = (''compute_result_digest'' \<in> set (oi_responsibilities rec))
    \<and> oi_exception_class rec =
          (if ob_observation ob = ''timeout'' then Some TIMEOUT_EXCEPTION_CLASS
           else if ob_observation ob = ''exception'' then ob_exception_class ob else None)
    \<and> (oi_exception_class rec \<noteq> None) = (oi_outcome rec = ''exception'')
    \<and> oi_governance_facts rec =
          (if ob_observation ob = ''cancellation'' then NEUTRAL_CANCELLATION_FACTS else [])
    \<and> {''base'', ''boundary''} \<subseteq> set (oi_limit_families rec)
    \<and> set (oi_limit_families rec) \<subseteq> set ATTESTATION_LIMIT_FAMILIES
    \<and> set (oi_responsibilities rec) \<subseteq> set ADAPTER_RESPONSIBILITIES"
proof -
  have rec: "rec = projr (outcome_record ob)" using assms(3) by simp
  consider "ob_observation ob = ''result''" | "ob_observation ob = ''error''"
    | "ob_observation ob = ''exception''" | "ob_observation ob = ''task_submitted''"
    | "ob_observation ob = ''timeout''" | "ob_observation ob = ''cancellation''"
    using assms(1,2) unfolding UNSUPPORTED_OUTCOMES_def by (elim NEUTRAL_OUTCOMES_cases) simp_all
  then show ?thesis
  proof cases
    case 3
    then obtain c where "ob_exception_class ob = Some c" using assms(3)
      by (cases "ob_exception_class ob") (simp_all add: outcome_record_def Let_def vocab)
    with 3 show ?thesis
      by (simp add: rec outcome_record_def Let_def vocab outcome_limit_families_def)
  qed (simp_all add: rec outcome_record_def Let_def vocab outcome_limit_families_def)
qed

theorem outcome_record_consistent_witness:
  "outcome_record \<lparr>ob_observation = ''timeout'', ob_exception_class = None,
                     ob_input_required_mode = None\<rparr> \<noteq> Inl ExceptionClassMissing
   \<and> oi_outcome (projr (outcome_record \<lparr>ob_observation = ''timeout'', ob_exception_class = None,
                     ob_input_required_mode = None\<rparr>)) = ''exception''"
proof -
  let ?ob = "\<lparr>ob_observation = ''timeout'', ob_exception_class = None,
              ob_input_required_mode = None\<rparr>"
  have r: "outcome_record ?ob = Inr (projr (outcome_record ?ob))"
    by (simp add: outcome_record_def Let_def vocab)
  have t: "ob_observation ?ob \<in> set NEUTRAL_OUTCOMES" "ob_observation ?ob \<notin> set UNSUPPORTED_OUTCOMES"
    by (simp_all add: vocab)
  show ?thesis using outcome_record_consistent[OF t r] r by (metis execution_observation.select_convs(1)
    Inl_Inr_False)
qed

section \<open>Whole-lifecycle facts\<close>

definition request_ok :: "admission_request \<Rightarrow> bool" where
  "request_ok req =
     (ar_disposition req \<in> set NEUTRAL_DISPOSITIONS
      \<and> (if ar_disposition req = ''refused''
          then (case ar_refusal_ground req of Some g \<Rightarrow> g \<in> set NEUTRAL_REFUSAL_GROUNDS
                | None \<Rightarrow> False)
          else if ar_disposition req = ''deferred'' then ar_review_object_created req \<noteq> None
          else True))"

definition observation_ok :: "admission_request \<Rightarrow> execution_observation option \<Rightarrow> bool" where
  "observation_ok req observation =
     (case observation of
        None \<Rightarrow> True
      | Some ob \<Rightarrow>
          if ar_disposition req \<noteq> ''admitted'' then True
          else if ob_observation ob \<notin> set NEUTRAL_OUTCOMES then False
          else if ob_observation ob = ''exception'' \<and> admission_before_execution req
          then ob_exception_class ob \<noteq> None
          else True)"

lemma plan_admission_ok_iff: "(\<exists>adm. plan_admission req = Inr adm) = request_ok req"
  by (auto simp: plan_admission_def request_ok_def NEUTRAL_DISPOSITIONS_def Let_def
      split: option.splits bool.splits)

lemma outcome_record_ok_iff:
  assumes "ob_observation ob \<in> set NEUTRAL_OUTCOMES"
  shows "(\<exists>rec. outcome_record ob = Inr rec)
           = (if ob_observation ob = ''exception'' then ob_exception_class ob \<noteq> None else True)"
  using assms by (elim NEUTRAL_OUTCOMES_cases) (auto simp: outcome_record_def Let_def vocab)

lemma admitted_plan:
  assumes "plan_admission req = Inr adm" "ap_execution_proceeds adm"
  shows "ar_disposition req = ''admitted''"
    and "ap_admission_recorded adm = admission_before_execution req"
    and "ap_resolved adm = ''admitted''"
  using assms by (auto elim: plan_admission_cases)

lemma not_admitted_plan:
  assumes "plan_admission req = Inr adm" "\<not> ap_execution_proceeds adm"
  shows "ar_disposition req \<noteq> ''admitted''" "ap_resolved adm \<noteq> ''admitted''"
    "ap_resolved adm = ''refused'' \<or> ap_resolved adm = ''deferred''"
    "ap_admission_recorded adm"
  using assms by (auto elim: plan_admission_cases)

lemma plan_outcome_ok_iff:
  "(\<exists>r. plan_outcome adm ob = Inr r) =
     (ob_observation ob \<in> set NEUTRAL_OUTCOMES
      \<and> (if ob_observation ob = ''exception'' \<and> ap_execution_proceeds adm
             \<and> ap_admission_recorded adm
          then ob_exception_class ob \<noteq> None else True))"
proof (cases "ob_observation ob \<in> set NEUTRAL_OUTCOMES")
  case True
  show ?thesis
  proof (cases "ob_observation ob = ''input_required''")
    case in_req: True
    with True show ?thesis by (simp add: plan_outcome_def UNSUPPORTED_OUTCOMES_def)
  next
    case False
    with True have "(\<exists>r. plan_outcome adm ob = Inr r) =
        (\<not> ap_execution_proceeds adm \<or> \<not> ap_admission_recorded adm
          \<or> (\<exists>rec. outcome_record ob = Inr rec))"
      by (cases "outcome_record ob") (simp_all add: plan_outcome_def Let_def UNSUPPORTED_OUTCOMES_def)
    with True outcome_record_ok_iff[OF True] show ?thesis by (simp split: if_splits) blast
  qed
next
  case False
  then show ?thesis by (simp add: plan_outcome_def Let_def)
qed

text \<open>C21: The planner is total exactly on well-formed input: it returns a plan or an explicit
  unsupported result iff the admission request is well formed and, for an admitted call, the
  observation is a neutral outcome token with an exception class where one must be recorded.
  For refused and deferred calls the observation is ignored.\<close>
theorem plan_lifecycle_total:
  "(\<exists>r. plan_lifecycle req observation = Inr r) =
     (request_ok req \<and> observation_ok req observation)"
proof (cases "plan_admission req")
  case (Inl e)
  then have "\<not> request_ok req" using plan_admission_ok_iff[of req] by auto
  with Inl show ?thesis by (simp add: plan_lifecycle_def)
next
  case (Inr adm)
  then have ok: "request_ok req" using plan_admission_ok_iff[of req] by auto
  show ?thesis
  proof (cases "ap_execution_proceeds adm")
    case False
    with Inr ok not_admitted_plan(1)[OF Inr False] show ?thesis
      by (simp add: plan_lifecycle_def observation_ok_def split: option.splits)
  next
    case True
    note adm = admitted_plan[OF Inr True]
    have "(\<exists>r. plan_lifecycle req (Some ob) = Inr r) = (\<exists>r. plan_outcome adm ob = Inr r)" for ob
      using Inr True
      by (cases "plan_outcome adm ob") (auto simp: plan_lifecycle_def split: planned.splits)
    with Inr True ok adm plan_outcome_ok_iff[of adm] show ?thesis
      by (cases observation) (auto simp: plan_lifecycle_def observation_ok_def)
  qed
qed

lemma plan_outcome_Planned:
  assumes "plan_outcome adm ob = Inr (Planned outp)"
  shows "op_observation outp = ob_observation ob"
    and "(op_record outp \<noteq> None) = (ap_execution_proceeds adm \<and> ap_admission_recorded adm)"
    and "\<And>rec. op_record outp = Some rec \<Longrightarrow> outcome_record ob = Inr rec"
    and "ob_observation ob \<in> set NEUTRAL_OUTCOMES" "ob_observation ob \<notin> set UNSUPPORTED_OUTCOMES"
  using assms by (auto simp: plan_outcome_def Let_def rbind_Inr_iff split: if_splits)

lemma case_planned_Inr [result_simps]:
  "((case x of Planned a \<Rightarrow> f a | Unsupported u \<Rightarrow> Inr (Unsupported u)) = Inr (Planned p)) =
     (\<exists>a. x = Planned a \<and> f a = Inr (Planned p))"
  by (cases x) auto

lemma plan_lifecycle_Planned:
  assumes "plan_lifecycle req observation = Inr (Planned p)"
  shows "plan_admission req = Inr (lp_admission p)"
    and "ap_execution_proceeds (lp_admission p) \<Longrightarrow> observation = Some ob \<Longrightarrow>
      \<exists>outp. lp_outcome p = Some outp \<and> plan_outcome (lp_admission p) ob = Inr (Planned outp)"
    and "\<not> ap_execution_proceeds (lp_admission p) \<or> observation = None \<Longrightarrow> lp_outcome p = None"
    and "lp_record_count p = record_present (ap_record (lp_admission p))
           + (case lp_outcome p of None \<Rightarrow> 0 | Some outp \<Rightarrow> record_present (op_record outp))"
  using assms
  by (auto simp: plan_lifecycle_def rbind_Inr_iff case_planned_Inr split: if_splits option.splits)

text \<open>C20: Receipt cardinality. Whenever the planner plans a call whose admission is recorded and
  whose observation (if it executes) is known, the number of planned records is the number the
  contract's table gives for the resolved disposition: two for an admitted call, one for a
  refused or deferred one.\<close>
theorem plan_cardinality:
  assumes "plan_lifecycle req (Some ob) = Inr (Planned p)"
    and "ap_admission_recorded (lp_admission p)"
  shows "dget RECEIPT_CARDINALITY (ap_resolved (lp_admission p)) = Some (lp_record_count p)"
proof -
  note P = plan_lifecycle_Planned[OF assms(1)]
  have rec: "ap_record (lp_admission p) \<noteq> None"
    using plan_admission_record_iff[OF P(1)] assms(2) by simp
  show ?thesis
  proof (cases "ap_execution_proceeds (lp_admission p)")
    case True
    then obtain outp where o: "lp_outcome p = Some outp"
        "plan_outcome (lp_admission p) ob = Inr (Planned outp)"
      using P(2) by blast
    have "op_record outp \<noteq> None" using plan_outcome_Planned(2)[OF o(2)] True assms(2) by simp
    with rec o P(4) admitted_plan(3)[OF P(1) True] show ?thesis
      by (auto simp: record_present_def RECEIPT_CARDINALITY_def)
  next
    case False
    with rec P(3,4) not_admitted_plan(3)[OF P(1) False] show ?thesis
      by (auto simp: record_present_def RECEIPT_CARDINALITY_def)
  qed
qed

abbreviation sample_request :: admission_request where
  "sample_request \<equiv> \<lparr>ar_disposition = ''admitted'', ar_tool_class = ''write'',
     ar_refusal_ground = None, ar_review_object_created = None, ar_emit_read_admission = False,
     ar_has_parent_boundary = False\<rparr>"

abbreviation sample_observation :: "token \<Rightarrow> execution_observation" where
  "sample_observation t \<equiv>
     \<lparr>ob_observation = t, ob_exception_class = None, ob_input_required_mode = None\<rparr>"

theorem plan_cardinality_witness:
  "\<exists>p. plan_lifecycle sample_request (Some (sample_observation ''result'')) = Inr (Planned p)
     \<and> lp_record_count p = 2"
proof -
  obtain p where p: "plan_lifecycle sample_request (Some (sample_observation ''result''))
      = Inr (Planned p)" and a: "ap_admission_recorded (lp_admission p)"
      "ap_resolved (lp_admission p) = ''admitted''"
    by (simp add: plan_lifecycle_def plan_admission_def admission_before_execution_def
        plan_outcome_def outcome_record_def Let_def vocab)
  from plan_cardinality[OF p a(1)] a(2) p show ?thesis by (simp add: RECEIPT_CARDINALITY_def)
qed

text \<open>An admission record never carries an invented refusal ground: its reason code is the
  requested ground verbatim, except for a deferral whose review object was not created, which
  becomes a refusal on review_object_creation_failed. In particular required_sink_unavailable is
  only ever reported when the request carried it. A record exists for every refusal and
  deferral, and neither proceeds to execution.\<close>
theorem refusal_ground_verbatim:
  assumes "plan_admission req = Inr adm"
  shows "(case ap_record adm of
            None \<Rightarrow> ar_disposition req = ''admitted'' \<and> ap_execution_proceeds adm
                      \<and> \<not> ap_admission_recorded adm
          | Some r \<Rightarrow> ai_disposition r = ap_resolved adm
              \<and> ai_reason_code r =
                  (if ar_disposition req = ''refused'' then ar_refusal_ground req
                   else if ar_disposition req = ''deferred'' \<and> ar_review_object_created req = Some False
                   then Some ''review_object_creation_failed'' else None)
              \<and> (ai_reason_code r = None) = (ai_disposition r \<noteq> ''refused'')
              \<and> ai_carries_review_object_ref r = (ai_retry_contract r \<noteq> None)
              \<and> ai_carries_review_object_ref r = (ap_resolved adm = ''deferred'')
              \<and> ap_execution_proceeds adm = (ai_disposition r = ''admitted''))"
  using assms
proof (cases rule: plan_admission_cases)
  case admitted
  then show ?thesis by (simp add: admission_record_def split: if_splits)
qed (simp_all add: admission_record_def)

theorem refusal_ground_verbatim_witness:
  "\<exists>adm. plan_admission (sample_request\<lparr>ar_disposition := ''deferred'',
       ar_review_object_created := Some False\<rparr>) = Inr adm \<and> \<not> ap_execution_proceeds adm
     \<and> map_option ai_reason_code (ap_record adm) = Some (Some ''review_object_creation_failed'')"
proof -
  let ?req = "sample_request\<lparr>ar_disposition := ''deferred'', ar_review_object_created := Some False\<rparr>"
  obtain adm where a: "plan_admission ?req = Inr adm"
    and r: "ap_record adm \<noteq> None" "ap_resolved adm = ''refused''"
    by (simp add: plan_admission_def)
  from refusal_ground_verbatim[OF a] a r show ?thesis by (auto split: option.splits)
qed

end
