(* ===== verification/PyValue.thy ===== *)
theory PyValue
  imports DagrPrelude
begin

text \<open>Python values as the program inspects them: what \<^verbatim>\<open>isinstance\<close> tells apart, with
  mappings as ordered dictionaries. A finite float is mantissa times a power of two; an object
  the code never looks into is \<^theory_text>\<open>VObj\<close> with its class name. Also the byte and text helpers
  of the standard library that several components share.\<close>

datatype pyfloat = Finite int int | PosInf | NegInf | NaN

datatype pyv =
    VNone
  | VBool bool
  | VInt int
  | VFloat pyfloat
  | VStr string
  | VBytes string
  | VList "pyv list"
  | VTuple "pyv list"
  | VMap "(string \<times> pyv) list"
  | VObj string

type_synonym pydict = "pyv dict"

definition is_vstr :: "pyv \<Rightarrow> bool" where
  "is_vstr v = (case v of VStr _ \<Rightarrow> True | _ \<Rightarrow> False)"

definition is_vbool :: "pyv \<Rightarrow> bool" where
  "is_vbool v = (case v of VBool _ \<Rightarrow> True | _ \<Rightarrow> False)"

lemma is_vstr_simps [simp]:
  "is_vstr (VStr s)" "\<not> is_vstr VNone" "\<not> is_vstr (VBool b)" "\<not> is_vstr (VInt i)"
  "\<not> is_vstr (VFloat f)" "\<not> is_vstr (VBytes y)" "\<not> is_vstr (VList l)" "\<not> is_vstr (VTuple l)"
  "\<not> is_vstr (VMap m)" "\<not> is_vstr (VObj c)"
  by (simp_all add: is_vstr_def)

lemma is_vbool_simps [simp]:
  "is_vbool (VBool b)" "\<not> is_vbool VNone" "\<not> is_vbool (VStr s)" "\<not> is_vbool (VInt i)"
  "\<not> is_vbool (VFloat f)" "\<not> is_vbool (VBytes y)" "\<not> is_vbool (VList l)" "\<not> is_vbool (VTuple l)"
  "\<not> is_vbool (VMap m)" "\<not> is_vbool (VObj c)"
  by (simp_all add: is_vbool_def)

lemma is_vstr_iff: "is_vstr v = (\<exists>s. v = VStr s)"
  by (cases v) simp_all

lemma is_vbool_iff: "is_vbool v = (\<exists>b. v = VBool b)"
  by (cases v) simp_all

text \<open>Python truth value.\<close>

fun truthy :: "pyv \<Rightarrow> bool" where
  "truthy VNone = False"
| "truthy (VBool b) = b"
| "truthy (VInt i) = (i \<noteq> 0)"
| "truthy (VFloat (Finite m e)) = (m \<noteq> 0)"
| "truthy (VFloat _) = True"
| "truthy (VStr s) = (s \<noteq> [])"
| "truthy (VBytes s) = (s \<noteq> [])"
| "truthy (VList xs) = (xs \<noteq> [])"
| "truthy (VTuple xs) = (xs \<noteq> [])"
| "truthy (VMap kvs) = (kvs \<noteq> [])"
| "truthy (VObj _) = True"

text \<open>An optional string in a condition (\<^verbatim>\<open>if x:\<close>): present and not empty.\<close>

definition given :: "string option \<Rightarrow> bool" where
  "given x = (case x of None \<Rightarrow> False | Some s \<Rightarrow> s \<noteq> [])"

lemma given_simps [simp]: "\<not> given None" "given (Some s) = (s \<noteq> [])"
  by (simp_all add: given_def)

definition vopt :: "string option \<Rightarrow> pyv" where
  "vopt x = (case x of None \<Rightarrow> VNone | Some s \<Rightarrow> VStr s)"

lemma vopt_simps [simp]: "vopt None = VNone" "vopt (Some s) = VStr s"
  by (simp_all add: vopt_def)

text \<open>\<^verbatim>\<open>if x: d[k] = x\<close> and \<^verbatim>\<open>if x is not None: d[k] = x\<close>.\<close>

definition dset_given :: "string \<Rightarrow> string option \<Rightarrow> pydict \<Rightarrow> pydict" where
  "dset_given k x d = (if given x then dset k (VStr (the x)) d else d)"

definition dset_opt :: "string \<Rightarrow> string option \<Rightarrow> pydict \<Rightarrow> pydict" where
  "dset_opt k x d = (case x of None \<Rightarrow> d | Some s \<Rightarrow> dset k (VStr s) d)"

lemma dget_dset_given [simp]:
  "dget (dset_given k x d) j = (if j = k \<and> given x then Some (VStr (the x)) else dget d j)"
  by (simp add: dset_given_def)

lemma dget_dset_opt [simp]:
  "dget (dset_opt k x d) j = (if j = k \<and> x \<noteq> None then Some (VStr (the x)) else dget d j)"
  by (auto simp: dset_opt_def split: option.splits)

lemma wf_dset_given [simp]: "wf_dict d \<Longrightarrow> wf_dict (dset_given k x d)"
  by (simp add: dset_given_def)

lemma wf_dset_opt [simp]: "wf_dict d \<Longrightarrow> wf_dict (dset_opt k x d)"
  by (simp add: dset_opt_def split: option.splits)

section \<open>Substrings\<close>

text \<open>\<^verbatim>\<open>m in s\<close> on strings.\<close>

fun contains :: "string \<Rightarrow> string \<Rightarrow> bool" where
  "contains m [] = (m = [])"
| "contains m (c # s) = (prefix m (c # s) \<or> contains m s)"

lemma contains_iff_sublist: "contains m s = sublist m s"
  by (induction s) (auto simp: sublist_Cons_right)

definition starts_with :: "string \<Rightarrow> string \<Rightarrow> bool" where
  "starts_with s p = prefix p s"

section \<open>Hexadecimal references\<close>

definition hex_char :: "char \<Rightarrow> bool" where
  "hex_char c = (let n = of_char c :: nat in (48 \<le> n \<and> n \<le> 57) \<or> (97 \<le> n \<and> n \<le> 102))"

definition newline :: string where "newline = [CHR 0x0A]"

text \<open>The pattern \<^verbatim>\<open>^sha256:[0-9a-f]{64}$\<close> under \<^verbatim>\<open>re.match\<close>: the dollar sign also matches
  before a final newline, so the pattern accepts a reference followed by one.\<close>

definition sha256_ref :: "string \<Rightarrow> bool" where
  "sha256_ref s =
     (take 7 s = ''sha256:'' \<and> length (take 64 (drop 7 s)) = 64
      \<and> list_all hex_char (take 64 (drop 7 s))
      \<and> (drop 71 s = [] \<or> drop 71 s = newline))"

lemma sha256_ref_of_hex:
  assumes "length h = 64" "list_all hex_char h"
  shows "sha256_ref (''sha256:'' @ h)"
  using assms by (simp add: sha256_ref_def)

lemma sha256_ref_newline:
  assumes "length h = 64" "list_all hex_char h"
  shows "sha256_ref (''sha256:'' @ h @ newline)"
  using assms by (simp add: sha256_ref_def)

section \<open>URL-safe base 64\<close>

definition b64_char :: "nat \<Rightarrow> char" where
  "b64_char n = (if n < 26 then char_of (65 + n) else if n < 52 then char_of (71 + n)
     else if n < 62 then char_of (n - 4) else if n = 62 then CHR ''-'' else CHR ''_'')"

text \<open>\<^verbatim>\<open>base64.urlsafe_b64encode(data).decode("ascii").rstrip("=")\<close>: three bytes become four
  characters; the padding the encoder would add is the part \<^verbatim>\<open>rstrip\<close> takes away.\<close>

fun b64url_encode :: "string \<Rightarrow> string" where
  "b64url_encode [] = []"
| "b64url_encode [a] =
     (let n = (of_char a :: nat) * 16 in [b64_char (n div 64), b64_char (n mod 64)])"
| "b64url_encode [a, b] =
     (let n = ((of_char a :: nat) * 256 + of_char b) * 4
      in [b64_char (n div 4096), b64_char (n div 64 mod 64), b64_char (n mod 64)])"
| "b64url_encode (a # b # c # rest) =
     (let n = ((of_char a :: nat) * 256 + of_char b) * 256 + of_char c
      in b64_char (n div 262144) # b64_char (n div 4096 mod 64) # b64_char (n div 64 mod 64)
           # b64_char (n mod 64) # b64url_encode rest)"

lemma b64url_encode_length:
  "length (b64url_encode s) = (4 * length s + 2) div 3"
  by (induction s rule: b64url_encode.induct) (simp_all add: Let_def)

section \<open>Walking a value\<close>

text \<open>\<^verbatim>\<open>_walk\<close> yields every key with its item below a mapping and every item below a list, in
  order, and descends only into mappings and lists.\<close>

fun walk :: "pyv \<Rightarrow> (string option \<times> pyv) list"
  and walk_map :: "(string \<times> pyv) list \<Rightarrow> (string option \<times> pyv) list"
  and walk_list :: "pyv list \<Rightarrow> (string option \<times> pyv) list" where
  "walk (VMap kvs) = walk_map kvs"
| "walk (VList xs) = walk_list xs"
| "walk VNone = []"
| "walk (VBool _) = []"
| "walk (VInt _) = []"
| "walk (VFloat _) = []"
| "walk (VStr _) = []"
| "walk (VBytes _) = []"
| "walk (VTuple _) = []"
| "walk (VObj _) = []"
| "walk_map [] = []"
| "walk_map ((k, v) # kvs) = (Some k, v) # walk v @ walk_map kvs"
| "walk_list [] = []"
| "walk_list (x # xs) = (None, x) # walk x @ walk_list xs"

text \<open>The reference notion: the entries that occur at any depth through mappings and lists.\<close>

inductive occurs :: "string option \<times> pyv \<Rightarrow> pyv \<Rightarrow> bool" where
  in_map: "(k, v) \<in> set kvs \<Longrightarrow> occurs (Some k, v) (VMap kvs)"
| in_list: "v \<in> set xs \<Longrightarrow> occurs (None, v) (VList xs)"
| deep_map: "(k, v) \<in> set kvs \<Longrightarrow> occurs e v \<Longrightarrow> occurs e (VMap kvs)"
| deep_list: "v \<in> set xs \<Longrightarrow> occurs e v \<Longrightarrow> occurs e (VList xs)"

inductive_cases occurs_MapE: "occurs e (VMap kvs)"
inductive_cases occurs_ListE: "occurs e (VList xs)"
inductive_simps occurs_atom [simp]:
  "occurs e VNone" "occurs e (VBool b)" "occurs e (VInt i)" "occurs e (VFloat f)"
  "occurs e (VStr s)" "occurs e (VBytes s)" "occurs e (VTuple t)" "occurs e (VObj c)"

lemma occurs_Map_iff:
  "occurs e (VMap kvs) = (\<exists>(k, v)\<in>set kvs. e = (Some k, v) \<or> occurs e v)"
  by (auto elim: occurs_MapE intro: in_map deep_map)

lemma occurs_List_iff: "occurs e (VList xs) = (\<exists>v\<in>set xs. e = (None, v) \<or> occurs e v)"
  by (auto elim: occurs_ListE intro: in_list deep_list)

lemma walk_iff_occurs_all:
  "(e \<in> set (walk v)) = occurs e v"
  "(e \<in> set (walk_map kvs)) = occurs e (VMap kvs)"
  "(e \<in> set (walk_list xs)) = occurs e (VList xs)"
  by (induction v and kvs and xs rule: walk_walk_map_walk_list.induct)
     (auto simp: occurs_Map_iff occurs_List_iff)

lemmas walk_iff_occurs = walk_iff_occurs_all(1)

end
