(* ===== verification/SrsReceipts.thy ===== *)
theory SrsReceipts
  imports PyValue
begin

text \<open>Signed SRS receipts (\<^verbatim>\<open>src/dagr_mcp/srs_receipts.py\<close>): the raw-content guard, envelope
  construction for admission, outcome and governed-read receipts, signing, and the file sink.

  RFC 8785 canonicalisation (\<^verbatim>\<open>rfc8785.dumps\<close>), the SHA-256 hex digest and the Ed25519
  signature are parameters (a record of functions). The values the identifier and clock
  factories return are inputs of each emission, and an operating-system failure of a sink
  write is an input of the sink.\<close>

section \<open>Constants\<close>

definition RECEIPT_VERSION :: string where "RECEIPT_VERSION = ''srs.core.v5.1''"
definition PROFILE_ID :: string where "PROFILE_ID = ''srs.mcp.sdk_enforcement''"
definition PROFILE_VERSION :: string where "PROFILE_VERSION = ''v0.1''"

definition ACTIVITY_GOVERNED_READ_PROFILE_ID :: string where
  "ACTIVITY_GOVERNED_READ_PROFILE_ID = ''srs.activity.governed_read''"
definition ACTIVITY_GOVERNED_READ_PROFILE_VERSION :: string where
  "ACTIVITY_GOVERNED_READ_PROFILE_VERSION = ''v0.1''"
definition ACTIVITY_GOVERNED_READ_RECEIPT_TYPE :: string where
  "ACTIVITY_GOVERNED_READ_RECEIPT_TYPE = ''provenance''"
definition ACTIVITY_GOVERNED_READ_RECEIPT_KIND :: string where
  "ACTIVITY_GOVERNED_READ_RECEIPT_KIND = ''governed_read''"
definition ACTIVITY_GOVERNED_READ_BOUNDARY_TYPE :: string where
  "ACTIVITY_GOVERNED_READ_BOUNDARY_TYPE = ''governed_read_boundary''"
definition ACTIVITY_GOVERNED_READ_IDENTITY_POSTURE :: string where
  "ACTIVITY_GOVERNED_READ_IDENTITY_POSTURE = ''declared''"

definition GOVERNED_READ_VISIBILITY_VALUES :: "token list" where [vocab]:
  "GOVERNED_READ_VISIBILITY_VALUES =
     [''LOCAL'', ''PRIVATE_ORG'', ''SHARED'', ''PUBLIC_CANDIDATE'', ''PUBLIC'']"
definition GOVERNED_READ_DISPOSITIONS :: "token list" where [vocab]:
  "GOVERNED_READ_DISPOSITIONS = [''admitted'', ''refused'']"
definition GOVERNED_READ_REFUSAL_CLASSES :: "token list" where [vocab]:
  "GOVERNED_READ_REFUSAL_CLASSES =
     [''POLICY_REFUSED'', ''PRINCIPAL_NOT_PERMITTED'', ''SCOPE_EXCEEDED'', ''BASIS_UNAVAILABLE'',
      ''DEFERRED_FOR_REVIEW'']"
definition GOVERNED_READ_ARTIFACT_CLASSES_COVERED :: "token list" where
  "GOVERNED_READ_ARTIFACT_CLASSES_COVERED =
     [''governed_read_record'', ''acting_principal_declaration'', ''read_basis_identity'']"
definition GOVERNED_READ_ARTIFACT_CLASSES_EXCLUDED :: "token list" where
  "GOVERNED_READ_ARTIFACT_CLASSES_EXCLUDED =
     [''read_result_bytes'', ''principal_identity_verification'']"
definition GOVERNED_READ_ATTESTATION_LIMIT :: string where
  "GOVERNED_READ_ATTESTATION_LIMIT = ''This receipt records that a governed read occurred against a declared basis under stated custody. It does not establish that the acting principal's identity was verified, that the basis content is accurate or true, that any admitted result is correct, or that any downstream reliance is warranted. A refused read is recorded as activity, not adjudicated.''"
definition GOVERNED_READ_MACHINE_LIMITATION_CODE :: string where
  "GOVERNED_READ_MACHINE_LIMITATION_CODE = ''CONTENT_NOT_VERIFIED''"

definition SIGNATURE_ALGORITHM :: string where "SIGNATURE_ALGORITHM = ''Ed25519''"
definition CANONICALIZATION :: string where "CANONICALIZATION = ''RFC8785-JCS''"
definition TRUST_BUNDLE_VERSION :: string where
  "TRUST_BUNDLE_VERSION = ''srs.trust_bundle.v0.1''"
definition RESULT_LIMIT :: string where
  "RESULT_LIMIT = ''The receipt establishes the request, admission disposition, and semantic result returned at the configured boundary. It does not independently establish that the underlying tool body executed for this invocation, because middleware such as caches may satisfy a call without handler execution.''"
definition TASK_LIMIT :: string where
  "TASK_LIMIT = ''The receipt establishes admission and submission to the configured task backend. It does not establish execution or completion.''"
definition BASE_LIMIT :: string where
  "BASE_LIMIT = ''The receipt attests only to governance conditions at the named admission boundary.''"

definition RAW_KEYS :: "string list" where
  "RAW_KEYS =
     [''prompt_text'', ''transcript'', ''raw_payload'', ''tool_arguments'', ''arguments'',
      ''result_body'', ''headers'', ''prompt'', ''raw_prompt'', ''raw_output'', ''result'',
      ''tool_result'', ''request_body'', ''response_body'', ''access_token'', ''private_key'',
      ''credential_secret'', ''client_secret'', ''refresh_token'', ''api_key'', ''password'']"

definition backslash :: char where "backslash = CHR 0x5C"

definition PRIVATE_MARKERS :: "string list" where
  "PRIVATE_MARKERS =
     [''/Users/'', ''/home/'', ''/private/var'', ''C:'' @ [backslash, backslash], ''~/garp-'',
      ''~/arcs-anchor'']"

definition EXCLUDED_CLASSES :: "string list" where
  "EXCLUDED_CLASSES = [''raw_prompt'', ''raw_output'', ''raw_tool_arguments'', ''raw_tool_result'']"

definition REGISTERED_BINDING_VERSIONS :: "string list" where
  "REGISTERED_BINDING_VERSIONS = [''direct-harness.v0.1'', ''fastmcp.middleware.v0.1'']"
definition ADDITIONAL_BINDING_VERSIONS :: "string list" where
  "ADDITIONAL_BINDING_VERSIONS = [''official-mcp-sdk.python.v0.1'', ''official-mcp-sdk.python.v0.2'']"
definition ALL_REGISTERED_BINDING_VERSIONS :: "string list" where
  "ALL_REGISTERED_BINDING_VERSIONS = REGISTERED_BINDING_VERSIONS @ ADDITIONAL_BINDING_VERSIONS"

definition SUBJECT_REF_ORIGINS :: "token list" where [vocab]:
  "SUBJECT_REF_ORIGINS =
     [''supplied_subject'', ''derived_from_session'', ''derived_from_request'',
      ''derived_from_supplied_correlation'', ''binding_minted'']"
definition SUBJECT_REF_ORIGIN_NOT_DECLARED :: token where [vocab]:
  "SUBJECT_REF_ORIGIN_NOT_DECLARED = ''not_declared''"

definition CANCELLATION_FIELD_NAMES :: "string list" where
  "CANCELLATION_FIELD_NAMES =
     [''request_cancelled'', ''execution_state_unknown'', ''delivery_incomplete'']"

definition CORE_RECEIPT_FIELDS :: "string list" where
  "CORE_RECEIPT_FIELDS =
     [''receipt_version'', ''profile_id'', ''profile_version'', ''receipt_id'',
      ''receipt_type'', ''receipt_kind'', ''boundary_type'', ''protocol_binding'',
      ''subject_ref'', ''subject_ref_origin'', ''issuer_id'', ''runtime_instance_id'',
      ''boundary_id'', ''logical_call_id'', ''issued_at'', ''artifact_classes_covered'',
      ''artifact_classes_excluded'', ''attestation_limits'', ''retention_class_applied'',
      ''extensions'', ''receipt_signature'', ''admission_receipt_ref'', ''outcome'',
      ''result_digest'']"

section \<open>Errors and parameters\<close>

datatype receipt_error =
    UnregisteredBinding string
  | OriginOutsideVocabulary pyv
  | LimitsNotASequence
  | LimitEmpty
  | CancellationFieldsMisplaced
  | CollidesWithCoreField string
  | UnknownBindingOwnedField string
  | BindingOwnedFieldNotBoolean string
  | ForbiddenRawKey string
  | PrivateReferenceMarker
  | NotCanonicalizable
  | PreimageCanonicalizationFailed
  | TrustBundlePrivateMaterial
  | DispositionOutsideVocabulary string
  | VisibilityOutsideVocabulary string
  | NotASha256Ref string string
  | AdmittedReadNeedsResultRef
  | AdmittedReadCarriesRefusal
  | RefusedReadNeedsClass
  | RefusedReadCarriesResult
  | RefusalClassOutsideVocabulary string
  | ReceiptWriteError
  | OsError
  | KeyMissing string
  | ArgumentTypeError

record crypto =
  cr_canon :: "pyv \<Rightarrow> string option"
  cr_hex :: "string \<Rightarrow> string"
  cr_sign :: "string \<Rightarrow> string"

definition sha256_digest :: "crypto \<Rightarrow> pyv \<Rightarrow> (receipt_error, string) result" where
  "sha256_digest cr v =
     (case cr_canon cr v of None \<Rightarrow> Inl NotCanonicalizable
      | Some bytes \<Rightarrow> Inr (''sha256:'' @ cr_hex cr bytes))"

definition fastmcp_tool_result_digest ::
  "crypto \<Rightarrow> pyv \<Rightarrow> pyv \<Rightarrow> pyv \<Rightarrow> bool \<Rightarrow> (receipt_error, string) result" where
  "fastmcp_tool_result_digest cr content structured meta is_error =
     sha256_digest cr (VMap [(''content'', content), (''structuredContent'', structured),
                             (''_meta'', meta), (''isError'', VBool is_error)])"

definition read_subject_ref_origin :: "pydict \<Rightarrow> (receipt_error, string) result" where
  "read_subject_ref_origin receipt =
     (case dget receipt ''subject_ref_origin'' of
        None \<Rightarrow> Inr SUBJECT_REF_ORIGIN_NOT_DECLARED
      | Some (VStr o') \<Rightarrow>
          if o' \<in> set SUBJECT_REF_ORIGINS then Inr o' else Inl (OriginOutsideVocabulary (VStr o'))
      | Some v \<Rightarrow> Inl (OriginOutsideVocabulary v))"

section \<open>The raw-content guard\<close>

definition private_marker :: "pyv \<Rightarrow> bool" where
  "private_marker v =
     (case v of VStr s \<Rightarrow> list_ex (\<lambda>m. contains m s) PRIVATE_MARKERS | _ \<Rightarrow> False)"

definition check_entry :: "string option \<times> pyv \<Rightarrow> (receipt_error, unit) result" where
  "check_entry e =
     (case e of
        (Some k, v) \<Rightarrow>
          if k \<in> set RAW_KEYS then Inl (ForbiddenRawKey k)
          else if private_marker v then Inl PrivateReferenceMarker else Inr ()
      | (None, v) \<Rightarrow> if private_marker v then Inl PrivateReferenceMarker else Inr ())"

definition enforce_raw_content_exclusion :: "pyv \<Rightarrow> (receipt_error, unit) result" where
  "enforce_raw_content_exclusion v = each check_entry (walk v)"

section \<open>Signing\<close>

record signing_identity =
  si_issuer_id :: string
  si_key_id :: string
  si_public_key :: string
  si_not_before :: string
  si_not_after :: string
  si_crypto :: crypto

definition trust_bundle :: "signing_identity \<Rightarrow> pydict" where
  "trust_bundle ident =
     [(''trust_bundle_version'', VStr TRUST_BUNDLE_VERSION),
      (''issuers'', VList [VMap
        [(''issuer_id'', VStr (si_issuer_id ident)), (''key_id'', VStr (si_key_id ident)),
         (''algorithm'', VStr SIGNATURE_ALGORITHM),
         (''public_key'', VStr (b64url_encode (si_public_key ident))),
         (''not_before'', VStr (si_not_before ident)), (''not_after'', VStr (si_not_after ident)),
         (''trusted'', VBool True)]])]"

text \<open>The signature block before signing carries an empty signature; the preimage drops that
  key, and the signed envelope carries the encoded signature in its place.\<close>

definition signature_block :: "signing_identity \<Rightarrow> pydict" where
  "signature_block ident =
     [(''algorithm'', VStr SIGNATURE_ALGORITHM), (''canonicalization'', VStr CANONICALIZATION),
      (''key_id'', VStr (si_key_id ident))]"

definition sign_envelope :: "signing_identity \<Rightarrow> pydict \<Rightarrow> (receipt_error, pydict) result" where
  "sign_envelope ident env =
    (let signed = dset ''receipt_signature''
                    (VMap (signature_block ident @ [(''signature'', VStr [])])) env;
         preimage = dset ''receipt_signature'' (VMap (signature_block ident)) signed
     in rbind (enforce_raw_content_exclusion (VMap signed)) (\<lambda>_.
        case cr_canon (si_crypto ident) (VMap preimage) of
          None \<Rightarrow> Inl PreimageCanonicalizationFailed
        | Some bytes \<Rightarrow>
            (let out = dset ''receipt_signature''
                  (VMap (signature_block ident @
                     [(''signature'', VStr (b64url_encode (cr_sign (si_crypto ident) bytes)))])) signed
             in rbind (enforce_raw_content_exclusion (VMap out)) (\<lambda>_. Inr out))))"

section \<open>The file sink\<close>

text \<open>The directory maps a file name to the envelope its JSON document holds. The sink also
  lists the envelopes it has durably accepted, in order, and the operating-system faults of
  the coming writes (a write past the end of the list does not fail), and counts the writes that
  raised, which is what an observer around the sink sees.\<close>

record sink =
  sk_files :: "pyv dict"
  sk_written :: "pydict list"
  sk_faults :: "bool list"
  sk_failed :: nat

definition safe_char :: "char \<Rightarrow> bool" where
  "safe_char c = (let n = of_char c :: nat in
     (65 \<le> n \<and> n \<le> 90) \<or> (97 \<le> n \<and> n \<le> 122) \<or> (48 \<le> n \<and> n \<le> 57)
     \<or> c = CHR ''.'' \<or> c = CHR ''_'' \<or> c = CHR ''-'')"

text \<open>\<^verbatim>\<open>_SAFE_FILE.sub("_", s)\<close>: a maximal run of other characters becomes one underscore; the
  flag says that the previous character was in such a run.\<close>

fun safe_sub :: "bool \<Rightarrow> string \<Rightarrow> string" where
  "safe_sub run [] = []"
| "safe_sub run (c # s) =
     (if safe_char c then c # safe_sub False s
      else if run then safe_sub True s else CHR ''_'' # safe_sub True s)"

definition receipt_filename :: "string \<Rightarrow> string" where
  "receipt_filename rid = safe_sub False rid @ ''.json''"

text \<open>What \<^verbatim>\<open>json.dumps\<close> serialises (it raises \<^verbatim>\<open>TypeError\<close> on bytes and foreign objects).\<close>

fun json_ok :: "pyv \<Rightarrow> bool" where
  "json_ok (VBytes _) = False"
| "json_ok (VObj _) = False"
| "json_ok (VList xs) = list_all json_ok xs"
| "json_ok (VTuple xs) = list_all json_ok xs"
| "json_ok (VMap kvs) = list_all json_ok (map snd kvs)"
| "json_ok _ = True"

definition write_failure :: "sink \<Rightarrow> sink" where
  "write_failure sk = sk\<lparr>sk_failed := Suc (sk_failed sk)\<rparr>"

lemma write_failure_simps [simp]:
  "sk_written (write_failure sk) = sk_written sk" "sk_files (write_failure sk) = sk_files sk"
  "sk_faults (write_failure sk) = sk_faults sk"
  "sk_failed (write_failure sk) = Suc (sk_failed sk)"
  by (simp_all add: write_failure_def)

definition sink_write ::
  "sink \<Rightarrow> pydict \<Rightarrow> (receipt_error, string) result \<times> sink" where
  "sink_write sk env =
    (case enforce_raw_content_exclusion (VMap env) of
       Inl e \<Rightarrow> (Inl e, write_failure sk)
     | Inr _ \<Rightarrow>
        (case dget env ''receipt_id'' of
           Some (VStr rid) \<Rightarrow>
             if \<not> json_ok (VMap env) then (Inl ArgumentTypeError, write_failure sk)
             else (case sk_faults sk of
                 True # fs \<Rightarrow> (Inl ReceiptWriteError, write_failure (sk\<lparr>sk_faults := fs\<rparr>))
               | fs \<Rightarrow> (Inr rid,
                   sk\<lparr>sk_files := dset (receipt_filename rid) (VMap env) (sk_files sk),
                      sk_written := sk_written sk @ [env], sk_faults := tl fs\<rparr>))
         | _ \<Rightarrow> (Inl (KeyMissing ''receipt_id''), write_failure sk)))"

text \<open>The trust bundle guard searches the lower-cased JSON text for three words; as none of
  them can straddle a delimiter or an escape, that is a search in every key and string.\<close>

fun texts :: "pyv \<Rightarrow> string list" where
  "texts (VStr s) = [s]"
| "texts (VList xs) = concat (map texts xs)"
| "texts (VTuple xs) = concat (map texts xs)"
| "texts (VMap kvs) = map fst kvs @ concat (map texts (map snd kvs))"
| "texts _ = []"

definition TRUST_BUNDLE_FORBIDDEN :: "string list" where
  "TRUST_BUNDLE_FORBIDDEN = [''private_key'', ''secret'', ''seed'']"

definition write_trust_bundle ::
  "sink \<Rightarrow> pydict \<Rightarrow> string \<Rightarrow> (receipt_error, string) result \<times> sink" where
  "write_trust_bundle sk bundle filename =
    (if \<not> json_ok (VMap bundle) then (Inl ArgumentTypeError, sk)
     else if list_ex (\<lambda>t. list_ex (\<lambda>w. contains w (py_lower t)) TRUST_BUNDLE_FORBIDDEN)
               (texts (VMap bundle))
     then (Inl TrustBundlePrivateMaterial, sk)
     else case sk_faults sk of
         True # fs \<Rightarrow> (Inl OsError, sk\<lparr>sk_faults := fs\<rparr>)
       | fs \<Rightarrow> (Inr filename,
           sk\<lparr>sk_files := dset filename (VMap bundle) (sk_files sk), sk_faults := tl fs\<rparr>))"

section \<open>Envelopes\<close>

record receipt_context =
  rc_runtime_instance_id :: string
  rc_boundary_id :: string
  rc_policy_pack_id :: string
  rc_policy_pack_version :: string
  rc_subject_ref :: string
  rc_logical_call_id :: string
  rc_subject_ref_origin :: pyv
  rc_actor_ref :: "string option"
  rc_tenant_id :: "string option"
  rc_workspace_id :: "string option"
  rc_binding_version :: string
  rc_parent_receipt_ref :: "string option"
  rc_dagr_constitution_id :: string

record stamp =
  st_receipt_id :: string
  st_issued_at :: string

definition origin_ok :: "pyv \<Rightarrow> bool" where
  "origin_ok orig =
     (case orig of VNone \<Rightarrow> True | VStr s \<Rightarrow> s \<in> set SUBJECT_REF_ORIGINS | _ \<Rightarrow> False)"

definition strs :: "string list \<Rightarrow> pyv" where
  "strs xs = VList (map VStr xs)"

definition common_envelope ::
  "signing_identity \<Rightarrow> receipt_context \<Rightarrow> stamp \<Rightarrow> string \<Rightarrow> string
    \<Rightarrow> (receipt_error, pydict) result" where
  "common_envelope ident ctx st kind artifact =
    (if rc_binding_version ctx \<notin> set ALL_REGISTERED_BINDING_VERSIONS
     then Inl (UnregisteredBinding (rc_binding_version ctx))
     else if \<not> origin_ok (rc_subject_ref_origin ctx)
     then Inl (OriginOutsideVocabulary (rc_subject_ref_origin ctx))
     else
      (let base =
         [(''receipt_version'', VStr RECEIPT_VERSION),
          (''profile_id'', VStr PROFILE_ID),
          (''profile_version'', VStr PROFILE_VERSION),
          (''receipt_id'', VStr (st_receipt_id st)),
          (''receipt_type'', VStr ''sdk_enforcement''),
          (''receipt_kind'', VStr kind),
          (''boundary_type'', VStr ''mcp_tool_call''),
          (''protocol_binding'', VStr ''mcp''),
          (''subject_ref'', VStr (rc_subject_ref ctx)),
          (''issuer_id'', VStr (si_issuer_id ident)),
          (''runtime_instance_id'', VStr (rc_runtime_instance_id ctx)),
          (''boundary_id'', VStr (rc_boundary_id ctx)),
          (''logical_call_id'', VStr (rc_logical_call_id ctx)),
          (''issued_at'', VStr (st_issued_at st)),
          (''artifact_classes_covered'', VList [VStr artifact]),
          (''artifact_classes_excluded'', strs EXCLUDED_CLASSES),
          (''attestation_limits'', VList [VStr BASE_LIMIT]),
          (''retention_class_applied'', VStr ''hash_only''),
          (''extensions'',
             VMap [(''mcp'', VMap [(''binding_version'', VStr (rc_binding_version ctx))])])];
        with_origin = (if rc_subject_ref_origin ctx \<noteq> VNone
                       then dset ''subject_ref_origin'' (rc_subject_ref_origin ctx) base else base)
       in Inr (dset_given ''parent_receipt_ref'' (rc_parent_receipt_ref ctx)
                (dset_given ''workspace_id'' (rc_workspace_id ctx)
                  (dset_given ''tenant_id'' (rc_tenant_id ctx)
                    (dset_given ''actor_ref'' (rc_actor_ref ctx) with_origin))))))"

definition limits_of :: "pydict \<Rightarrow> pyv list" where
  "limits_of env = (case dget env ''attestation_limits'' of Some (VList xs) \<Rightarrow> xs | _ \<Rightarrow> [])"

definition set_limits :: "pyv list \<Rightarrow> pydict \<Rightarrow> pydict" where
  "set_limits xs env = dset ''attestation_limits'' (VList xs) env"

fun add_limits :: "pyv list \<Rightarrow> pyv list \<Rightarrow> (receipt_error, pyv list) result" where
  "add_limits limits [] = Inr limits"
| "add_limits limits (VStr s # xs) =
     (if blank s then Inl LimitEmpty
      else add_limits (if VStr s \<in> set limits then limits else limits @ [VStr s]) xs)"
| "add_limits limits (x # xs) = Inl LimitEmpty"

definition append_attestation_limits ::
  "pydict \<Rightarrow> pyv \<Rightarrow> (receipt_error, pydict) result" where
  "append_attestation_limits env additions =
    (case additions of
       VStr _ \<Rightarrow> Inl LimitsNotASequence
     | VBytes _ \<Rightarrow> Inl LimitsNotASequence
     | VList xs \<Rightarrow> rbind (add_limits (limits_of env) xs) (\<lambda>ls. Inr (set_limits ls env))
     | VTuple xs \<Rightarrow> rbind (add_limits (limits_of env) xs) (\<lambda>ls. Inr (set_limits ls env))
     | VMap kvs \<Rightarrow>
         rbind (add_limits (limits_of env) (map VStr (dkeys kvs))) (\<lambda>ls. Inr (set_limits ls env))
     | _ \<Rightarrow> Inl ArgumentTypeError)"

fun apply_owned :: "pydict \<Rightarrow> pydict \<Rightarrow> (receipt_error, pydict) result" where
  "apply_owned env [] = Inr env"
| "apply_owned env ((k, v) # rest) =
     (if k \<in> set CORE_RECEIPT_FIELDS then Inl (CollidesWithCoreField k)
      else if k \<notin> set CANCELLATION_FIELD_NAMES then Inl (UnknownBindingOwnedField k)
      else if \<not> is_vbool v then Inl (BindingOwnedFieldNotBoolean k)
      else apply_owned (dset k v env) rest)"

definition apply_binding_owned_fields ::
  "pydict \<Rightarrow> string \<Rightarrow> pydict option \<Rightarrow> (receipt_error, pydict) result" where
  "apply_binding_owned_fields env outcome owned =
    (case owned of
       None \<Rightarrow> Inr env
     | Some [] \<Rightarrow> Inr env
     | Some fs \<Rightarrow> if outcome \<noteq> ''indeterminate'' then Inl CancellationFieldsMisplaced
                  else apply_owned env fs)"

definition set_mcp_extension :: "string \<Rightarrow> pyv \<Rightarrow> pydict \<Rightarrow> pydict" where
  "set_mcp_extension k v env =
     (case dget env ''extensions'' of
        Some (VMap ext) \<Rightarrow>
          (case dget ext ''mcp'' of
             Some (VMap m) \<Rightarrow> dset ''extensions'' (VMap (dset ''mcp'' (VMap (dset k v m)) ext)) env
           | _ \<Rightarrow> env)
      | _ \<Rightarrow> env)"

section \<open>Emission\<close>

record admission_args =
  aa_tool_name :: string
  aa_argument_digest :: string
  aa_disposition :: string
  aa_review_object_ref :: "string option"
  aa_retry_contract :: "string option"
  aa_reason_code :: "string option"
  aa_limits :: pyv

record outcome_args =
  oa_admission_ref :: string
  oa_outcome :: string
  oa_result_digest :: "string option"
  oa_exception_class :: "string option"
  oa_limits :: pyv
  oa_owned_fields :: "pydict option"

definition admission_envelope ::
  "signing_identity \<Rightarrow> receipt_context \<Rightarrow> stamp \<Rightarrow> admission_args
    \<Rightarrow> (receipt_error, pydict) result" where
  "admission_envelope ident ctx st a =
     rbind (common_envelope ident ctx st ''admission'' ''tool_call_admission'') (\<lambda>env.
       append_attestation_limits
         (dset_given ''reason_code'' (aa_reason_code a)
           (dset_given ''retry_contract'' (aa_retry_contract a)
             (dset_given ''review_object_ref'' (aa_review_object_ref a)
               (dupdate env
                 [(''requested_tool_name'', VStr (aa_tool_name a)),
                  (''tool_resolution_status'', VStr ''not_observed''),
                  (''argument_digest'', VStr (aa_argument_digest a)),
                  (''policy_pack_id'', VStr (rc_policy_pack_id ctx)),
                  (''policy_pack_version'', VStr (rc_policy_pack_version ctx)),
                  (''disposition'', VStr (aa_disposition a))]))))
         (aa_limits a))"

definition outcome_envelope ::
  "signing_identity \<Rightarrow> receipt_context \<Rightarrow> stamp \<Rightarrow> outcome_args
    \<Rightarrow> (receipt_error, pydict) result" where
  "outcome_envelope ident ctx st a =
     rbind (common_envelope ident ctx st ''outcome'' ''tool_call_outcome'') (\<lambda>env0.
       let env1 = dset_given ''result_digest'' (oa_result_digest a)
                    (dupdate env0 [(''admission_receipt_ref'', VStr (oa_admission_ref a)),
                                   (''outcome'', VStr (oa_outcome a))]);
           env2 = (if given (oa_exception_class a)
                   then set_mcp_extension ''exception_class'' (VStr (the (oa_exception_class a))) env1
                   else env1);
           env3 = (if oa_outcome a \<in> set [''result_returned'', ''error_returned'']
                   then set_limits (limits_of env2 @ [VStr RESULT_LIMIT]) env2 else env2);
           env4 = (if oa_outcome a = ''task_submitted''
                   then set_limits (limits_of env3 @ [VStr TASK_LIMIT]) env3 else env3)
       in rbind (append_attestation_limits env4 (oa_limits a)) (\<lambda>env5.
            apply_binding_owned_fields env5 (oa_outcome a) (oa_owned_fields a)))"

definition sign_and_write ::
  "signing_identity \<Rightarrow> pydict \<Rightarrow> sink \<Rightarrow> (receipt_error, string) result \<times> sink" where
  "sign_and_write ident env sk =
     (case sign_envelope ident env of Inl e \<Rightarrow> (Inl e, sk) | Inr signed \<Rightarrow> sink_write sk signed)"

definition guard_and_emit ::
  "signing_identity \<Rightarrow> (receipt_error, pydict) result \<Rightarrow> sink
    \<Rightarrow> (receipt_error, string) result \<times> sink" where
  "guard_and_emit ident built sk =
     (case rbind built (\<lambda>env. rbind (enforce_raw_content_exclusion (VMap env)) (\<lambda>_. Inr env)) of
        Inl e \<Rightarrow> (Inl e, sk) | Inr env \<Rightarrow> sign_and_write ident env sk)"

definition emit_admission ::
  "signing_identity \<Rightarrow> receipt_context \<Rightarrow> stamp \<Rightarrow> admission_args \<Rightarrow> sink
    \<Rightarrow> (receipt_error, string) result \<times> sink" where
  "emit_admission ident ctx st a sk = guard_and_emit ident (admission_envelope ident ctx st a) sk"

definition emit_outcome ::
  "signing_identity \<Rightarrow> receipt_context \<Rightarrow> stamp \<Rightarrow> outcome_args \<Rightarrow> sink
    \<Rightarrow> (receipt_error, string) result \<times> sink" where
  "emit_outcome ident ctx st a sk = guard_and_emit ident (outcome_envelope ident ctx st a) sk"

section \<open>Governed reads\<close>

record governed_read_args =
  gr_runtime_instance_id :: string
  gr_boundary_id :: string
  gr_acting_principal_ref :: string
  gr_read_request_ref :: string
  gr_basis_version_ref :: string
  gr_basis_snapshot_digest :: string
  gr_read_disposition :: string
  gr_visibility :: string
  gr_admitted_result_ref :: "string option"
  gr_refusal_class :: "string option"
  gr_session_ref :: "string option"
  gr_produced_receipt_refs :: "string list"
  gr_protocol_binding :: string
  gr_issued_at :: "string option"
  gr_receipt_id :: "string option"
  gr_extensions :: "pydict option"

definition require_ref :: "string \<Rightarrow> string \<Rightarrow> (receipt_error, unit) result" where
  "require_ref name r = require (sha256_ref r) (NotASha256Ref name r)"

definition governed_read_shape :: "governed_read_args \<Rightarrow> (receipt_error, unit) result" where
  "governed_read_shape a =
    (if gr_read_disposition a = ''admitted'' then
       (case gr_admitted_result_ref a of
          None \<Rightarrow> Inl AdmittedReadNeedsResultRef
        | Some r \<Rightarrow> if gr_refusal_class a \<noteq> None then Inl AdmittedReadCarriesRefusal
                    else require_ref ''admitted_result_ref'' r)
     else
       (case gr_refusal_class a of
          None \<Rightarrow> Inl RefusedReadNeedsClass
        | Some c \<Rightarrow> if gr_admitted_result_ref a \<noteq> None then Inl RefusedReadCarriesResult
                    else require (c \<in> set GOVERNED_READ_REFUSAL_CLASSES)
                           (RefusalClassOutsideVocabulary c)))"

definition governed_read_guards :: "governed_read_args \<Rightarrow> (receipt_error, unit) result" where
  "governed_read_guards a =
     rbind (require (gr_read_disposition a \<in> set GOVERNED_READ_DISPOSITIONS)
              (DispositionOutsideVocabulary (gr_read_disposition a))) (\<lambda>_.
     rbind (require (gr_visibility a \<in> set GOVERNED_READ_VISIBILITY_VALUES)
              (VisibilityOutsideVocabulary (gr_visibility a))) (\<lambda>_.
     rbind (require_ref ''read_request_ref'' (gr_read_request_ref a)) (\<lambda>_.
     rbind (require_ref ''basis_snapshot_digest'' (gr_basis_snapshot_digest a)) (\<lambda>_.
     rbind (each (require_ref ''produced_receipt_refs'') (gr_produced_receipt_refs a)) (\<lambda>_.
       governed_read_shape a)))))"

text \<open>\<^verbatim>\<open>x or default\<close> on an optional string.\<close>

definition or_else :: "string option \<Rightarrow> string \<Rightarrow> string" where
  "or_else x d = (if given x then the x else d)"

definition governed_read_envelope ::
  "signing_identity \<Rightarrow> stamp \<Rightarrow> governed_read_args \<Rightarrow> pydict" where
  "governed_read_envelope ident st a =
    (let base =
       [(''receipt_version'', VStr RECEIPT_VERSION),
        (''profile_id'', VStr ACTIVITY_GOVERNED_READ_PROFILE_ID),
        (''profile_version'', VStr ACTIVITY_GOVERNED_READ_PROFILE_VERSION),
        (''receipt_id'', VStr (or_else (gr_receipt_id a) (st_receipt_id st))),
        (''receipt_type'', VStr ACTIVITY_GOVERNED_READ_RECEIPT_TYPE),
        (''receipt_kind'', VStr ACTIVITY_GOVERNED_READ_RECEIPT_KIND),
        (''boundary_type'', VStr ACTIVITY_GOVERNED_READ_BOUNDARY_TYPE),
        (''protocol_binding'', VStr (gr_protocol_binding a)),
        (''subject_ref'', VStr (gr_basis_version_ref a)),
        (''issuer_id'', VStr (si_issuer_id ident)),
        (''runtime_instance_id'', VStr (gr_runtime_instance_id a)),
        (''boundary_id'', VStr (gr_boundary_id a)),
        (''issued_at'', VStr (or_else (gr_issued_at a) (st_issued_at st))),
        (''visibility'', VStr (gr_visibility a)),
        (''acting_principal_ref'', VStr (gr_acting_principal_ref a)),
        (''identity_posture'', VStr ACTIVITY_GOVERNED_READ_IDENTITY_POSTURE),
        (''read_request_ref'', VStr (gr_read_request_ref a)),
        (''basis_version_ref'', VStr (gr_basis_version_ref a)),
        (''basis_snapshot_digest'', VStr (gr_basis_snapshot_digest a)),
        (''read_disposition'', VStr (gr_read_disposition a)),
        (''produced_receipt_refs'', strs (gr_produced_receipt_refs a)),
        (''artifact_classes_covered'', strs GOVERNED_READ_ARTIFACT_CLASSES_COVERED),
        (''artifact_classes_excluded'', strs GOVERNED_READ_ARTIFACT_CLASSES_EXCLUDED),
        (''attestation_limits'', VList [VStr GOVERNED_READ_ATTESTATION_LIMIT]),
        (''machine_limitations'',
           VList [VMap [(''code'', VStr GOVERNED_READ_MACHINE_LIMITATION_CODE)]]),
        (''extensions'', VMap (case gr_extensions a of Some ext \<Rightarrow> ext | None \<Rightarrow> []))];
         with_session = dset_opt ''session_ref'' (gr_session_ref a) base
     in if gr_read_disposition a = ''admitted''
        then dset ''admitted_result_ref'' (vopt (gr_admitted_result_ref a)) with_session
        else dset ''refusal_class'' (vopt (gr_refusal_class a)) with_session)"

definition build_activity_governed_read ::
  "signing_identity \<Rightarrow> stamp \<Rightarrow> governed_read_args \<Rightarrow> (receipt_error, pydict) result" where
  "build_activity_governed_read ident st a =
     rbind (governed_read_guards a) (\<lambda>_.
       let env = governed_read_envelope ident st a
       in rbind (enforce_raw_content_exclusion (VMap env)) (\<lambda>_. Inr env))"

definition emit_activity_governed_read ::
  "signing_identity \<Rightarrow> stamp \<Rightarrow> governed_read_args \<Rightarrow> sink
    \<Rightarrow> (receipt_error, string) result \<times> sink" where
  "emit_activity_governed_read ident st a sk =
     (case build_activity_governed_read ident st a of
        Inl e \<Rightarrow> (Inl e, sk) | Inr env \<Rightarrow> sign_and_write ident env sk)"

end
