(* ===== verification/SrsReceiptFacts.thy ===== *)
theory SrsReceiptFacts
  imports SrsReceipts
begin

text \<open>What the receipt emitter guarantees: the raw-content guard is exactly the absence of a
  prohibited key or marker at any depth the walk reaches, every accepted write is one signed
  envelope that carries the arguments of the emission, a failed emission leaves the sink's
  accepted receipts as they were, and the signature covers exactly the unsigned envelope.\<close>

section \<open>The raw-content guard\<close>

definition prohibited :: "string option \<times> pyv \<Rightarrow> bool" where
  "prohibited e = ((case fst e of Some k \<Rightarrow> k \<in> set RAW_KEYS | None \<Rightarrow> False)
                   \<or> private_marker (snd e))"

lemma check_entry_ok_iff: "(check_entry e = Inr ()) = (\<not> prohibited e)"
  by (cases e; cases "fst e") (simp_all add: check_entry_def prohibited_def)

lemma enforce_ok_iff:
  "(enforce_raw_content_exclusion v = Inr ()) = (\<forall>e. occurs e v \<longrightarrow> \<not> prohibited e)"
  by (auto simp: enforce_raw_content_exclusion_def each_Inr_iff check_entry_ok_iff
      simp flip: walk_iff_occurs)

text \<open>C22: The raw-content guard refines its specification: a value is accepted exactly when no
  entry that occurs in it, at any depth through mappings and lists, has a prohibited key or a
  string with a private path marker.\<close>
theorem raw_content_exclusion_exact:
  "(\<exists>e. enforce_raw_content_exclusion v = Inl e) = (\<exists>e. occurs e v \<and> prohibited e)"
proof (cases "enforce_raw_content_exclusion v")
  case (Inl e)
  then have "enforce_raw_content_exclusion v \<noteq> Inr ()" by simp
  then show ?thesis using Inl enforce_ok_iff[of v] by blast
next
  case (Inr u)
  then show ?thesis using enforce_ok_iff[of v] by auto
qed

text \<open>The guard does not look inside tuples, although the sink serialises a tuple as a JSON
  array: any value, prohibited keys included, passes when it is wrapped in a tuple.\<close>
theorem tuple_hides_raw_content:
  "enforce_raw_content_exclusion (VMap [(''x'', VTuple [v])]) = Inr ()
   \<and> json_ok (VMap [(''x'', VTuple [v])]) = json_ok v"
  by (simp add: enforce_raw_content_exclusion_def check_entry_def private_marker_def RAW_KEYS_def)

section \<open>Attestation limits\<close>

lemma add_limits_ok:
  assumes "add_limits limits xs = Inr ls"
  shows "set ls = set limits \<union> set xs" and "prefix limits ls"
    and "distinct limits \<Longrightarrow> distinct ls"
    and "\<forall>x\<in>set xs. \<exists>s. x = VStr s \<and> \<not> blank s"
  using assms
  by (induction limits xs rule: add_limits.induct)
     (auto split: if_splits dest: append_prefixD)

lemma append_limits_ok:
  assumes "append_attestation_limits env additions = Inr env'"
  obtains ls xs where "env' = set_limits ls env" "add_limits (limits_of env) xs = Inr ls"
    "additions = VList xs \<or> additions = VTuple xs \<or>
      (\<exists>kvs. additions = VMap kvs \<and> xs = map VStr (dkeys kvs))"
  using assms
  by (cases additions) (auto simp: append_attestation_limits_def rbind_Inr_iff)

lemma dget_set_limits [simp]:
  "dget (set_limits ls env) k = (if k = ''attestation_limits'' then Some (VList ls) else dget env k)"
  by (simp add: set_limits_def)

lemma append_limits_dget:
  assumes "append_attestation_limits env additions = Inr env'"
  shows "k \<noteq> ''attestation_limits'' \<Longrightarrow> dget env' k = dget env k"
    and "set (limits_of env) \<subseteq> set (limits_of env')"
proof -
  obtain ls xs where ls: "env' = set_limits ls env" "add_limits (limits_of env) xs = Inr ls"
    using assms by (rule append_limits_ok)
  then show "k \<noteq> ''attestation_limits'' \<Longrightarrow> dget env' k = dget env k" by simp
  have "limits_of env' = ls" using ls(1) by (simp add: limits_of_def)
  then show "set (limits_of env) \<subseteq> set (limits_of env')" using add_limits_ok(1)[OF ls(2)] by simp
qed

section \<open>Binding-owned fields\<close>

lemma owned_names_not_core: "set CANCELLATION_FIELD_NAMES \<inter> set CORE_RECEIPT_FIELDS = {}"
  by (simp add: CANCELLATION_FIELD_NAMES_def CORE_RECEIPT_FIELDS_def)

lemma apply_owned_ok_iff:
  "(\<exists>env'. apply_owned env fs = Inr env') =
     (\<forall>(k, v)\<in>set fs. k \<in> set CANCELLATION_FIELD_NAMES \<and> is_vbool v)"
proof (induction env fs rule: apply_owned.induct)
  case (2 env k v rest)
  have "k \<in> set CANCELLATION_FIELD_NAMES \<Longrightarrow> k \<notin> set CORE_RECEIPT_FIELDS"
    using owned_names_not_core by blast
  then show ?case using 2 by auto
qed simp

lemma apply_owned_dget:
  assumes "apply_owned env fs = Inr env'" "k \<notin> set CANCELLATION_FIELD_NAMES"
  shows "dget env' k = dget env k"
  using assms by (induction env fs rule: apply_owned.induct) (auto split: if_splits)

lemma apply_owned_dupdate: "apply_owned env fs = Inr env' \<Longrightarrow> env' = dupdate env fs"
  by (induction env fs rule: apply_owned.induct) (auto split: if_splits)

text \<open>Cancellation facts stay in their lane. Binding-owned fields are accepted exactly when
  there are none, or the outcome is indeterminate and every key is one of the three neutral
  cancellation names with a Boolean value. Accepted fields never change any other key, so a core
  receipt field can never be overwritten (the core-collision error is raised for such a key).\<close>
theorem owned_fields_accepted:
  "(\<exists>env'. apply_binding_owned_fields env out owned = Inr env') =
     (case owned of None \<Rightarrow> True
      | Some fs \<Rightarrow> fs = [] \<or> (out = ''indeterminate''
          \<and> list_all (\<lambda>(k, v). k \<in> set CANCELLATION_FIELD_NAMES \<and> is_vbool v) fs))"
proof (cases owned)
  case (Some fs)
  then show ?thesis using apply_owned_ok_iff[of env fs]
    by (cases fs) (auto simp: apply_binding_owned_fields_def list_all_iff)
qed (simp add: apply_binding_owned_fields_def)

lemma owned_fields_dget:
  assumes "apply_binding_owned_fields env out owned = Inr env'"
    and "k \<notin> set CANCELLATION_FIELD_NAMES"
  shows "dget env' k = dget env k"
  using assms
  by (auto simp: apply_binding_owned_fields_def split: option.splits list.splits if_splits
      dest: apply_owned_dget)

section \<open>Signing and writing\<close>

lemma rbind_guard_Inr_iff [result_simps]:
  "(rbind r (\<lambda>_. Inr x) = Inr y) = (r = Inr () \<and> x = y)"
  by (cases r) auto

lemma sign_envelope_ok:
  assumes "sign_envelope ident env = Inr out"
  obtains bytes where
    "out = dset ''receipt_signature'' (VMap (signature_block ident @
        [(''signature'', VStr (b64url_encode (cr_sign (si_crypto ident) bytes)))])) env"
    "cr_canon (si_crypto ident)
       (VMap (dset ''receipt_signature'' (VMap (signature_block ident)) env)) = Some bytes"
    "enforce_raw_content_exclusion (VMap out) = Inr ()"
  using assms
  by (auto simp: sign_envelope_def Let_def rbind_Inr_iff split: option.splits)

lemma sink_write_ok:
  assumes "sink_write sk env = (Inr rid, sk')"
  shows "dget env ''receipt_id'' = Some (VStr rid)"
    and "sk_written sk' = sk_written sk @ [env]"
    and "sk_files sk' = dset (receipt_filename rid) (VMap env) (sk_files sk)"
    and "enforce_raw_content_exclusion (VMap env) = Inr ()"
    and "json_ok (VMap env)" and "sk_failed sk' = sk_failed sk"
  using assms by (auto simp: sink_write_def split: sum.splits option.splits pyv.splits if_splits
      list.splits bool.splits)

lemma sink_write_err:
  assumes "sink_write sk env = (Inl e, sk')"
  shows "sk_written sk' = sk_written sk" "sk_files sk' = sk_files sk"
  using assms by (auto simp: sink_write_def split: sum.splits option.splits pyv.splits if_splits
      list.splits bool.splits)

lemma guard_and_emit_ok:
  assumes "guard_and_emit ident built sk = (Inr rid, sk')"
  obtains env out where "built = Inr env" "sign_envelope ident env = Inr out"
    "sink_write sk out = (Inr rid, sk')"
  using assms
  by (auto simp: guard_and_emit_def sign_and_write_def rbind_Inr_iff split: sum.splits)

lemma guard_and_emit_err:
  assumes "guard_and_emit ident built sk = (Inl e, sk')"
  shows "sk_written sk' = sk_written sk" "sk_files sk' = sk_files sk"
  using assms
  by (auto simp: guard_and_emit_def sign_and_write_def split: sum.splits dest: sink_write_err)

section \<open>What an accepted emission says\<close>

lemma common_envelope_ok:
  assumes "common_envelope ident ctx st kind artifact = Inr env"
  shows "rc_binding_version ctx \<in> set ALL_REGISTERED_BINDING_VERSIONS"
    and "origin_ok (rc_subject_ref_origin ctx)"
    and "dget env ''receipt_id'' = Some (VStr (st_receipt_id st))"
    and "dget env ''receipt_kind'' = Some (VStr kind)"
    and "dget env ''issued_at'' = Some (VStr (st_issued_at st))"
    and "dget env ''subject_ref'' = Some (VStr (rc_subject_ref ctx))"
    and "dget env ''subject_ref_origin'' =
           (if rc_subject_ref_origin ctx = VNone then None else Some (rc_subject_ref_origin ctx))"
    and "dget env ''extensions'' =
           Some (VMap [(''mcp'', VMap [(''binding_version'', VStr (rc_binding_version ctx))])])"
    and "limits_of env = [VStr BASE_LIMIT]"
proof -
  show b: "rc_binding_version ctx \<in> set ALL_REGISTERED_BINDING_VERSIONS"
    and orig: "origin_ok (rc_subject_ref_origin ctx)"
    using assms by (auto simp: common_envelope_def split: if_splits)
  have env: "env = projr (common_envelope ident ctx st kind artifact)" using assms by simp
  show "dget env ''receipt_id'' = Some (VStr (st_receipt_id st))"
    "dget env ''receipt_kind'' = Some (VStr kind)"
    "dget env ''issued_at'' = Some (VStr (st_issued_at st))"
    "dget env ''subject_ref'' = Some (VStr (rc_subject_ref ctx))"
    "dget env ''subject_ref_origin'' =
       (if rc_subject_ref_origin ctx = VNone then None else Some (rc_subject_ref_origin ctx))"
    "dget env ''extensions'' =
       Some (VMap [(''mcp'', VMap [(''binding_version'', VStr (rc_binding_version ctx))])])"
    "limits_of env = [VStr BASE_LIMIT]"
    by (simp_all add: env common_envelope_def b orig Let_def limits_of_def)
qed

text \<open>Subject-origin disclosure round trip: what a reader renders from a built envelope is the
  declared origin when the context declares one, and not_declared exactly when it declares none;
  a value outside the closed vocabulary never reaches an envelope.\<close>
theorem subject_origin_roundtrip:
  assumes "common_envelope ident ctx st kind artifact = Inr env"
  shows "read_subject_ref_origin env =
     (case rc_subject_ref_origin ctx of
        VStr s \<Rightarrow> Inr s | _ \<Rightarrow> Inr SUBJECT_REF_ORIGIN_NOT_DECLARED)
   \<and> (read_subject_ref_origin env = Inr SUBJECT_REF_ORIGIN_NOT_DECLARED)
       = (rc_subject_ref_origin ctx = VNone)"
  using common_envelope_ok(2,7)[OF assms]
  by (cases "rc_subject_ref_origin ctx")
     (auto simp: origin_ok_def read_subject_ref_origin_def vocab)

abbreviation sample_crypto :: crypto where
  "sample_crypto \<equiv> \<lparr>cr_canon = (\<lambda>_. Some ''bytes''),
     cr_hex = (\<lambda>_. replicate 64 (CHR ''0'')), cr_sign = (\<lambda>_. ''sig'')\<rparr>"

abbreviation sample_identity :: signing_identity where
  "sample_identity \<equiv> \<lparr>si_issuer_id = ''issuer:a'', si_key_id = ''k1'', si_public_key = ''pk'',
     si_not_before = ''2026-01-01T00:00:00Z'', si_not_after = ''2036-01-01T00:00:00Z'',
     si_crypto = sample_crypto\<rparr>"

abbreviation sample_context :: receipt_context where
  "sample_context \<equiv> \<lparr>rc_runtime_instance_id = ''rt:1'', rc_boundary_id = ''b:1'',
     rc_policy_pack_id = ''pack'', rc_policy_pack_version = ''1'', rc_subject_ref = ''subject:1'',
     rc_logical_call_id = ''call:1'', rc_subject_ref_origin = VStr ''binding_minted'',
     rc_actor_ref = None, rc_tenant_id = None, rc_workspace_id = None,
     rc_binding_version = ''fastmcp.middleware.v0.1'', rc_parent_receipt_ref = None,
     rc_dagr_constitution_id = ''dagr.constitutional-contract.v0.1''\<rparr>"

abbreviation sample_stamp :: stamp where
  "sample_stamp \<equiv> \<lparr>st_receipt_id = ''urn:srs:receipt:admission:1'',
     st_issued_at = ''2026-01-01T00:00:00Z''\<rparr>"

theorem subject_origin_roundtrip_witness:
  "\<exists>env. common_envelope sample_identity sample_context sample_stamp ''admission''
           ''tool_call_admission'' = Inr env
     \<and> read_subject_ref_origin env = Inr ''binding_minted''"
proof -
  obtain env where e: "common_envelope sample_identity sample_context sample_stamp ''admission''
           ''tool_call_admission'' = Inr env"
    by (simp add: common_envelope_def Let_def origin_ok_def vocab
        ALL_REGISTERED_BINDING_VERSIONS_def REGISTERED_BINDING_VERSIONS_def)
  from subject_origin_roundtrip[OF e] e show ?thesis by simp
qed

lemma dget_dupdate_step: "dget (dupdate d ((k, v) # e)) j = dget (dupdate (dset k v d) e) j"
  by simp

lemma admission_envelope_ok:
  assumes "admission_envelope ident ctx st a = Inr env"
  shows "rc_binding_version ctx \<in> set ALL_REGISTERED_BINDING_VERSIONS"
    and "dget env ''receipt_id'' = Some (VStr (st_receipt_id st))"
    and "dget env ''receipt_kind'' = Some (VStr ''admission'')"
    and "dget env ''disposition'' = Some (VStr (aa_disposition a))"
    and "dget env ''argument_digest'' = Some (VStr (aa_argument_digest a))"
    and "dget env ''requested_tool_name'' = Some (VStr (aa_tool_name a))"
    and "given (aa_reason_code a) \<Longrightarrow>
           dget env ''reason_code'' = Some (VStr (the (aa_reason_code a)))"
    and "given (aa_review_object_ref a) \<Longrightarrow>
           dget env ''review_object_ref'' = Some (VStr (the (aa_review_object_ref a)))"
    and "VStr BASE_LIMIT \<in> set (limits_of env)"
proof -
  obtain env0 where e0: "common_envelope ident ctx st ''admission'' ''tool_call_admission'' = Inr env0"
    using assms by (auto simp: admission_envelope_def rbind_Inr_iff)
  note c = common_envelope_ok[OF e0]
  note app = append_limits_dget[OF assms[unfolded admission_envelope_def e0 rbind.simps]]
  show "rc_binding_version ctx \<in> set ALL_REGISTERED_BINDING_VERSIONS" by (rule c)
  show "dget env ''receipt_id'' = Some (VStr (st_receipt_id st))"
    "dget env ''receipt_kind'' = Some (VStr ''admission'')"
    "dget env ''disposition'' = Some (VStr (aa_disposition a))"
    "dget env ''argument_digest'' = Some (VStr (aa_argument_digest a))"
    "dget env ''requested_tool_name'' = Some (VStr (aa_tool_name a))"
    "given (aa_reason_code a) \<Longrightarrow>
       dget env ''reason_code'' = Some (VStr (the (aa_reason_code a)))"
    "given (aa_review_object_ref a) \<Longrightarrow>
       dget env ''review_object_ref'' = Some (VStr (the (aa_review_object_ref a)))"
    by (simp_all add: app(1) c)
  show "VStr BASE_LIMIT \<in> set (limits_of env)"
  proof -
    have "set (limits_of env0) \<subseteq> set (limits_of env)" using app(2) by (simp add: limits_of_def)
    then show ?thesis using c(9) by simp
  qed
qed

end
