(* ===== verification/SrsEmissionFacts.thy ===== *)
theory SrsEmissionFacts
  imports SrsReceiptFacts
begin

text \<open>The end-to-end guarantees of receipt emission: what an accepted receipt holds, where it can
  be read back, what the signature covers, and the shape of a governed-read receipt.\<close>

section \<open>Accepted emissions\<close>

definition unsigned_preimage :: "pydict \<Rightarrow> pydict" where
  "unsigned_preimage receipt =
     (case dget receipt ''receipt_signature'' of
        Some (VMap block) \<Rightarrow>
          dset ''receipt_signature'' (VMap (AList.delete ''signature'' block)) receipt
      | _ \<Rightarrow> receipt)"

definition signature_of :: "pydict \<Rightarrow> pyv option" where
  "signature_of receipt =
     (case dget receipt ''receipt_signature'' of
        Some (VMap block) \<Rightarrow> dget block ''signature'' | _ \<Rightarrow> None)"

lemma update_absorb: "AList.update k v (AList.update k w d) = AList.update k v d"
  by (induction d) auto

lemma delete_signature [simp]:
  "AList.delete ''signature'' (signature_block ident @ [(''signature'', v)]) = signature_block ident"
  by (simp add: signature_block_def)

lemma signature_covers_envelope_aux:
  assumes "sign_envelope ident env = Inr receipt"
  shows "(\<exists>bytes. cr_canon (si_crypto ident) (VMap (unsigned_preimage receipt)) = Some bytes
            \<and> signature_of receipt = Some (VStr (b64url_encode (cr_sign (si_crypto ident) bytes))))
       \<and> (\<forall>k. k = ''receipt_signature'' \<or> dget receipt k = dget env k)"
proof -
  obtain bytes where r: "receipt = dset ''receipt_signature'' (VMap (signature_block ident @
        [(''signature'', VStr (b64url_encode (cr_sign (si_crypto ident) bytes)))])) env"
    and c: "cr_canon (si_crypto ident)
       (VMap (dset ''receipt_signature'' (VMap (signature_block ident)) env)) = Some bytes"
    using assms by (rule sign_envelope_ok)
  have "unsigned_preimage receipt = dset ''receipt_signature'' (VMap (signature_block ident)) env"
    by (simp add: unsigned_preimage_def r update_absorb)
  moreover have "signature_of receipt
      = Some (VStr (b64url_encode (cr_sign (si_crypto ident) bytes)))"
    by (simp add: signature_of_def r signature_block_def)
  ultimately show ?thesis using c r by auto
qed

text \<open>The signature covers exactly the envelope. Removing the signature value from a signed
  receipt gives back the preimage whose canonical bytes were signed, so a verifier that knows
  only the receipt recomputes the signed bytes; the stored signature is the encoding of the
  signature of those bytes; and every other field is that of the unsigned envelope.\<close>
theorem signature_covers_envelope:
  assumes "sign_envelope ident env = Inr receipt"
  shows "(\<exists>bytes. cr_canon (si_crypto ident) (VMap (unsigned_preimage receipt)) = Some bytes
            \<and> signature_of receipt = Some (VStr (b64url_encode (cr_sign (si_crypto ident) bytes))))
       \<and> (\<forall>k. k = ''receipt_signature'' \<or> dget receipt k = dget env k)"
  using assms by (rule signature_covers_envelope_aux)

theorem signature_covers_envelope_witness:
  "\<exists>r. sign_envelope sample_identity [(''receipt_id'', VStr ''urn:1'')] = Inr r
     \<and> signature_of r = Some (VStr (b64url_encode ''sig''))"
proof -
  obtain r where r: "sign_envelope sample_identity [(''receipt_id'', VStr ''urn:1'')] = Inr r"
    by (simp add: sign_envelope_def Let_def enforce_raw_content_exclusion_def check_entry_def
        private_marker_def RAW_KEYS_def PRIVATE_MARKERS_def backslash_def signature_block_def
        SIGNATURE_ALGORITHM_def CANONICALIZATION_def b64_char_def)
  from signature_covers_envelope[OF r] have "\<exists>bytes. signature_of r
      = Some (VStr (b64url_encode (cr_sign sample_crypto bytes)))" by auto
  with r show ?thesis by simp
qed

definition raw_free :: "pydict \<Rightarrow> bool" where
  "raw_free d = (\<forall>e. occurs e (VMap d) \<longrightarrow> \<not> prohibited e)"

lemma guard_and_emit_accepted:
  assumes "guard_and_emit ident built sk = (Inr rid, sk')"
  obtains env receipt where "built = Inr env"
    "sk_written sk' = sk_written sk @ [receipt]"
    "dget (sk_files sk') (receipt_filename rid) = Some (VMap receipt)"
    "dget receipt ''receipt_id'' = Some (VStr rid)" "raw_free receipt"
    "\<forall>k. k = ''receipt_signature'' \<or> dget receipt k = dget env k"
    "sign_envelope ident env = Inr receipt"
proof -
  obtain env receipt where b: "built = Inr env" and s: "sign_envelope ident env = Inr receipt"
    and w: "sink_write sk receipt = (Inr rid, sk')"
    using assms by (rule guard_and_emit_ok)
  note w' = sink_write_ok[OF w]
  have "\<forall>k. k = ''receipt_signature'' \<or> dget receipt k = dget env k"
    using signature_covers_envelope_aux[OF s] by simp
  moreover have "raw_free receipt" using w'(4) by (simp add: raw_free_def enforce_ok_iff)
  ultimately show ?thesis using that[OF b w'(2)] w'(1,3) s by simp
qed

lemma admission_emission_facts:
  "case emit_admission ident ctx st a sk of
     (Inl e, sk') \<Rightarrow> sk_written sk' = sk_written sk \<and> sk_files sk' = sk_files sk
   | (Inr rid, sk') \<Rightarrow>
       rid = st_receipt_id st
     \<and> rc_binding_version ctx \<in> set ALL_REGISTERED_BINDING_VERSIONS
     \<and> (\<exists>receipt. sk_written sk' = sk_written sk @ [receipt]
          \<and> dget (sk_files sk') (receipt_filename rid) = Some (VMap receipt)
          \<and> raw_free receipt \<and> signature_of receipt \<noteq> None
          \<and> dget receipt ''receipt_id'' = Some (VStr rid)
          \<and> dget receipt ''receipt_kind'' = Some (VStr ''admission'')
          \<and> dget receipt ''requested_tool_name'' = Some (VStr (aa_tool_name a))
          \<and> dget receipt ''argument_digest'' = Some (VStr (aa_argument_digest a))
          \<and> dget receipt ''disposition'' = Some (VStr (aa_disposition a))
          \<and> (if given (aa_reason_code a)
              then dget receipt ''reason_code'' = Some (VStr (the (aa_reason_code a))) else True)
          \<and> VStr BASE_LIMIT \<in> set (limits_of receipt))"
proof (cases "emit_admission ident ctx st a sk")
  case (Pair r sk')
  show ?thesis
  proof (cases r)
    case (Inl e)
    with Pair guard_and_emit_err show ?thesis by (auto simp: emit_admission_def)
  next
    case (Inr rid)
    have g: "guard_and_emit ident (admission_envelope ident ctx st a) sk = (Inr rid, sk')"
      using Pair Inr by (simp add: emit_admission_def)
    obtain env receipt where env: "admission_envelope ident ctx st a = Inr env"
      and w: "sk_written sk' = sk_written sk @ [receipt]"
        "dget (sk_files sk') (receipt_filename rid) = Some (VMap receipt)"
        "dget receipt ''receipt_id'' = Some (VStr rid)" "raw_free receipt"
      and k: "\<forall>k. k = ''receipt_signature'' \<or> dget receipt k = dget env k"
      and s: "sign_envelope ident env = Inr receipt"
      using g by (rule guard_and_emit_accepted)
    note ok = admission_envelope_ok[OF env]
    have sig: "signature_of receipt \<noteq> None" using signature_covers_envelope_aux[OF s] by auto
    have kk: "dget receipt k = dget env k" if "k \<noteq> ''receipt_signature''" for k
      using k that by blast
    have f: "dget receipt ''receipt_id'' = dget env ''receipt_id''"
      "dget receipt ''receipt_kind'' = dget env ''receipt_kind''"
      "dget receipt ''requested_tool_name'' = dget env ''requested_tool_name''"
      "dget receipt ''argument_digest'' = dget env ''argument_digest''"
      "dget receipt ''disposition'' = dget env ''disposition''"
      "dget receipt ''reason_code'' = dget env ''reason_code''"
      "limits_of receipt = limits_of env"
      by (simp_all add: limits_of_def kk)
    then have "rid = st_receipt_id st" using w(3) ok(2) by simp
    with f sig Pair Inr w ok show ?thesis by auto
  qed
qed


section \<open>When an emission is accepted\<close>

lemma enforce_map_iff:
  "(enforce_raw_content_exclusion (VMap d) = Inr ()) =
     (\<forall>(k, v)\<in>set d. \<not> prohibited (Some k, v) \<and> enforce_raw_content_exclusion v = Inr ())"
  by (auto simp: enforce_ok_iff occurs_Map_iff)

lemma set_dset_subset: "set (dset k v d) \<subseteq> insert (k, v) (set d)"
  by (induction d) auto

lemma enforce_dset:
  assumes "enforce_raw_content_exclusion (VMap d) = Inr ()"
    and "\<not> prohibited (Some k, v)" "enforce_raw_content_exclusion v = Inr ()"
  shows "enforce_raw_content_exclusion (VMap (dset k v d)) = Inr ()"
  using assms set_dset_subset[of k v d] unfolding enforce_map_iff by blast

lemma json_ok_dset:
  "json_ok (VMap d) \<Longrightarrow> json_ok v \<Longrightarrow> json_ok (VMap (dset k v d))"
  using set_dset_subset[of k v d] by (auto simp: list_all_iff)

definition clean_text :: "string \<Rightarrow> bool" where
  "clean_text t = (\<not> private_marker (VStr t))"

lemma signature_block_clean:
  assumes "clean_text (si_key_id ident)" "clean_text sg"
  shows "enforce_raw_content_exclusion
           (VMap (signature_block ident @ [(''signature'', VStr sg)])) = Inr ()"
proof -
  have "clean_text SIGNATURE_ALGORITHM" "clean_text CANONICALIZATION"
    by (simp_all add: clean_text_def private_marker_def SIGNATURE_ALGORITHM_def
        CANONICALIZATION_def PRIVATE_MARKERS_def backslash_def)
  moreover have "enforce_raw_content_exclusion (VStr t) = Inr ()" for t
    by (simp add: enforce_raw_content_exclusion_def)
  ultimately show ?thesis using assms
    by (simp add: enforce_map_iff signature_block_def prohibited_def RAW_KEYS_def clean_text_def)
qed

text \<open>A clean, canonicalisable, serialisable envelope with an identifier is accepted by a sink that
  does not fail, whatever it was built from.\<close>

lemma guard_and_emit_accepts:
  assumes "built = Inr env" and "enforce_raw_content_exclusion (VMap env) = Inr ()"
    and "json_ok (VMap env)" and "dget env ''receipt_id'' = Some (VStr rid)"
    and "clean_text (si_key_id ident)"
    and "\<And>b. clean_text (b64url_encode (cr_sign (si_crypto ident) b))"
    and "\<And>v. cr_canon (si_crypto ident) v \<noteq> None"
    and "sk_faults sk = [] \<or> hd (sk_faults sk) = False"
  shows "\<exists>sk'. guard_and_emit ident built sk = (Inr rid, sk')"
proof -
  have blk: "\<not> prohibited (Some ''receipt_signature'', VMap b)" for b
    by (simp add: prohibited_def RAW_KEYS_def private_marker_def)
  have signed: "enforce_raw_content_exclusion (VMap (dset ''receipt_signature''
      (VMap (signature_block ident @ [(''signature'', VStr sg)])) env)) = Inr ()"
    if "clean_text sg" for sg
    by (rule enforce_dset[OF assms(2) blk signature_block_clean[OF assms(5) that]])
  have nil: "clean_text []" by (simp add: clean_text_def private_marker_def PRIVATE_MARKERS_def)
  obtain bytes where b: "cr_canon (si_crypto ident) (VMap (dset ''receipt_signature''
      (VMap (signature_block ident)) env)) = Some bytes"
    using assms(7) by fastforce
  define out where "out = dset ''receipt_signature'' (VMap (signature_block ident @
      [(''signature'', VStr (b64url_encode (cr_sign (si_crypto ident) bytes)))])) env"
  have s: "sign_envelope ident env = Inr out"
    using signed[OF nil] signed[OF assms(6)] b
    by (simp add: sign_envelope_def Let_def update_absorb out_def)
  have "json_ok (VMap out)"
    unfolding out_def by (rule json_ok_dset[OF assms(3)]) (simp add: signature_block_def)
  moreover have "enforce_raw_content_exclusion (VMap out) = Inr ()"
    unfolding out_def by (rule signed[OF assms(6)])
  moreover have "dget out ''receipt_id'' = Some (VStr rid)" using assms(4) by (simp add: out_def)
  ultimately show ?thesis using assms(1,2,8) s
    by (cases "sk_faults sk")
       (auto simp: guard_and_emit_def sign_and_write_def sink_write_def split: bool.splits)
qed

lemma dget_set_mcp_extension:
  "k \<noteq> ''extensions'' \<Longrightarrow> dget (set_mcp_extension j v env) k = dget env k"
  by (simp add: set_mcp_extension_def split: option.splits pyv.splits)

definition outcome_limits :: "string \<Rightarrow> pyv list" where
  "outcome_limits out =
     (if out \<in> set [''result_returned'', ''error_returned''] then [VStr RESULT_LIMIT] else [])
     @ (if out = ''task_submitted'' then [VStr TASK_LIMIT] else [])"

lemma outcome_envelope_ok:
  assumes "outcome_envelope ident ctx st a = Inr env"
  shows "dget env ''receipt_id'' = Some (VStr (st_receipt_id st))"
    and "dget env ''receipt_kind'' = Some (VStr ''outcome'')"
    and "dget env ''admission_receipt_ref'' = Some (VStr (oa_admission_ref a))"
    and "dget env ''outcome'' = Some (VStr (oa_outcome a))"
    and "dget env ''result_digest'' =
           (if given (oa_result_digest a) then Some (VStr (the (oa_result_digest a))) else None)"
    and "insert (VStr BASE_LIMIT) (set (outcome_limits (oa_outcome a))) \<subseteq> set (limits_of env)"
proof -
  obtain env0 where e0: "common_envelope ident ctx st ''outcome'' ''tool_call_outcome'' = Inr env0"
    using assms by (auto simp: outcome_envelope_def rbind_Inr_iff)
  note c = common_envelope_ok[OF e0]
  have nodigest: "dget env0 ''result_digest'' = None"
  proof -
    have "env0 = projr (common_envelope ident ctx st ''outcome'' ''tool_call_outcome'')"
      using e0 by simp
    then show ?thesis by (simp add: common_envelope_def c(1,2) Let_def)
  qed
  define env1 where "env1 = dset_given ''result_digest'' (oa_result_digest a)
      (dupdate env0 [(''admission_receipt_ref'', VStr (oa_admission_ref a)),
                     (''outcome'', VStr (oa_outcome a))])"
  define env2 where "env2 = (if given (oa_exception_class a)
      then set_mcp_extension ''exception_class'' (VStr (the (oa_exception_class a))) env1 else env1)"
  define env4 where "env4 = (if oa_outcome a = ''task_submitted''
      then set_limits (limits_of (if oa_outcome a \<in> set [''result_returned'', ''error_returned'']
         then set_limits (limits_of env2 @ [VStr RESULT_LIMIT]) env2 else env2) @ [VStr TASK_LIMIT])
         (if oa_outcome a \<in> set [''result_returned'', ''error_returned'']
         then set_limits (limits_of env2 @ [VStr RESULT_LIMIT]) env2 else env2)
      else (if oa_outcome a \<in> set [''result_returned'', ''error_returned'']
         then set_limits (limits_of env2 @ [VStr RESULT_LIMIT]) env2 else env2))"
  have "rbind (append_attestation_limits env4 (oa_limits a)) (\<lambda>env5.
      apply_binding_owned_fields env5 (oa_outcome a) (oa_owned_fields a)) = Inr env"
    using assms unfolding outcome_envelope_def e0 rbind.simps Let_def env4_def env2_def env1_def .
  then obtain env5 where e5: "append_attestation_limits env4 (oa_limits a) = Inr env5"
    and own: "apply_binding_owned_fields env5 (oa_outcome a) (oa_owned_fields a) = Inr env"
    by (auto simp: rbind_Inr_iff)
  have keep: "dget env k = dget env1 k"
    if "k \<notin> set CANCELLATION_FIELD_NAMES" "k \<noteq> ''attestation_limits''" "k \<noteq> ''extensions''" for k
  proof -
    have "dget env k = dget env4 k"
      using owned_fields_dget[OF own that(1)] append_limits_dget(1)[OF e5 that(2)] by simp
    also have "\<dots> = dget env1 k" using that
      by (simp add: env4_def env2_def dget_set_mcp_extension)
    finally show ?thesis .
  qed
  note ks = keep[unfolded CANCELLATION_FIELD_NAMES_def]
  show "dget env ''receipt_id'' = Some (VStr (st_receipt_id st))"
    "dget env ''receipt_kind'' = Some (VStr ''outcome'')"
    "dget env ''admission_receipt_ref'' = Some (VStr (oa_admission_ref a))"
    "dget env ''outcome'' = Some (VStr (oa_outcome a))"
    "dget env ''result_digest'' =
       (if given (oa_result_digest a) then Some (VStr (the (oa_result_digest a))) else None)"
    by (simp_all add: ks env1_def c nodigest)
  have "limits_of env2 = limits_of env0"
    by (simp add: limits_of_def env2_def env1_def dget_set_mcp_extension)
  then have "limits_of env4 = VStr BASE_LIMIT # outcome_limits (oa_outcome a)"
    using c(9) by (simp add: limits_of_def env4_def outcome_limits_def)
  moreover have "limits_of env = limits_of env5"
    using owned_fields_dget[OF own, of "''attestation_limits''"]
    by (simp add: limits_of_def CANCELLATION_FIELD_NAMES_def)
  ultimately show "insert (VStr BASE_LIMIT) (set (outcome_limits (oa_outcome a)))
      \<subseteq> set (limits_of env)"
    using append_limits_dget(2)[OF e5] by simp
qed

lemma outcome_emission_facts:
  "case emit_outcome ident ctx st a sk of
     (Inl e, sk') \<Rightarrow> sk_written sk' = sk_written sk \<and> sk_files sk' = sk_files sk
   | (Inr rid, sk') \<Rightarrow>
       rid = st_receipt_id st
     \<and> (\<exists>receipt. sk_written sk' = sk_written sk @ [receipt]
          \<and> dget (sk_files sk') (receipt_filename rid) = Some (VMap receipt)
          \<and> raw_free receipt \<and> signature_of receipt \<noteq> None
          \<and> dget receipt ''receipt_id'' = Some (VStr rid)
          \<and> dget receipt ''receipt_kind'' = Some (VStr ''outcome'')
          \<and> dget receipt ''admission_receipt_ref'' = Some (VStr (oa_admission_ref a))
          \<and> dget receipt ''outcome'' = Some (VStr (oa_outcome a))
          \<and> dget receipt ''result_digest'' =
              (if given (oa_result_digest a) then Some (VStr (the (oa_result_digest a))) else None)
          \<and> insert (VStr BASE_LIMIT) (set (outcome_limits (oa_outcome a)))
              \<subseteq> set (limits_of receipt))"
proof (cases "emit_outcome ident ctx st a sk")
  case (Pair r sk')
  show ?thesis
  proof (cases r)
    case (Inl e)
    with Pair guard_and_emit_err show ?thesis by (auto simp: emit_outcome_def)
  next
    case (Inr rid)
    have g: "guard_and_emit ident (outcome_envelope ident ctx st a) sk = (Inr rid, sk')"
      using Pair Inr by (simp add: emit_outcome_def)
    obtain env receipt where env: "outcome_envelope ident ctx st a = Inr env"
      and w: "sk_written sk' = sk_written sk @ [receipt]"
        "dget (sk_files sk') (receipt_filename rid) = Some (VMap receipt)"
        "dget receipt ''receipt_id'' = Some (VStr rid)" "raw_free receipt"
      and k: "\<forall>k. k = ''receipt_signature'' \<or> dget receipt k = dget env k"
      and s: "sign_envelope ident env = Inr receipt"
      using g by (rule guard_and_emit_accepted)
    note ok = outcome_envelope_ok[OF env]
    have sig: "signature_of receipt \<noteq> None" using signature_covers_envelope_aux[OF s] by auto
    have kk: "dget receipt k = dget env k" if "k \<noteq> ''receipt_signature''" for k
      using k that by blast
    have f: "dget receipt ''receipt_id'' = dget env ''receipt_id''"
      "dget receipt ''receipt_kind'' = dget env ''receipt_kind''"
      "dget receipt ''admission_receipt_ref'' = dget env ''admission_receipt_ref''"
      "dget receipt ''outcome'' = dget env ''outcome''"
      "dget receipt ''result_digest'' = dget env ''result_digest''"
      "limits_of receipt = limits_of env"
      by (simp_all add: limits_of_def kk)
    then have "rid = st_receipt_id st" using w(3) ok(1) by simp
    with f sig Pair Inr w ok show ?thesis by simp
  qed
qed

text \<open>An accepted outcome is one durable, signed, raw-content-free receipt that references the
  admission it completes, carries the outcome token, has a result digest exactly when one was
  given, and always states the base limit, the result limit for returned results and errors, and
  the task limit for a submitted task. A failed emission leaves the sink's receipts unchanged.\<close>
theorem outcome_emission:
  "case emit_outcome ident ctx st a sk of
     (Inl e, sk') \<Rightarrow> sk_written sk' = sk_written sk \<and> sk_files sk' = sk_files sk
   | (Inr rid, sk') \<Rightarrow>
       rid = st_receipt_id st
     \<and> (\<exists>receipt. sk_written sk' = sk_written sk @ [receipt]
          \<and> dget (sk_files sk') (receipt_filename rid) = Some (VMap receipt)
          \<and> raw_free receipt \<and> signature_of receipt \<noteq> None
          \<and> dget receipt ''receipt_id'' = Some (VStr rid)
          \<and> dget receipt ''receipt_kind'' = Some (VStr ''outcome'')
          \<and> dget receipt ''admission_receipt_ref'' = Some (VStr (oa_admission_ref a))
          \<and> dget receipt ''outcome'' = Some (VStr (oa_outcome a))
          \<and> dget receipt ''result_digest'' =
              (if given (oa_result_digest a) then Some (VStr (the (oa_result_digest a))) else None)
          \<and> insert (VStr BASE_LIMIT) (set (outcome_limits (oa_outcome a)))
              \<subseteq> set (limits_of receipt))"
  by (rule outcome_emission_facts)

section \<open>Governed reads\<close>

lemma governed_read_guards_ok:
  assumes "governed_read_guards a = Inr ()"
  shows "gr_read_disposition a \<in> set GOVERNED_READ_DISPOSITIONS"
    and "gr_visibility a \<in> set GOVERNED_READ_VISIBILITY_VALUES"
    and "sha256_ref (gr_read_request_ref a)" "sha256_ref (gr_basis_snapshot_digest a)"
    and "list_all sha256_ref (gr_produced_receipt_refs a)"
    and "governed_read_shape a = Inr ()"
  using assms
  by (auto simp: governed_read_guards_def rbind_Inr_iff require_Inr_iff require_ref_def
      each_Inr_iff list_all_iff)

text \<open>C30: A governed-read receipt has exactly one of the two shapes: an admitted read carries a
  sha256 result reference and no refusal class, a refused read carries a refusal class of the
  closed vocabulary and no result reference. The subject is bound to the basis version, the
  identity posture is declared, and the body is free of prohibited content.\<close>
theorem governed_read_shape_exact:
  assumes "build_activity_governed_read ident st a = Inr env"
  shows "dget env ''subject_ref'' = dget env ''basis_version_ref''
    \<and> dget env ''identity_posture'' = Some (VStr ''declared'')
    \<and> raw_free env
    \<and> (if gr_read_disposition a = ''admitted''
       then (\<exists>r. dget env ''admitted_result_ref'' = Some (VStr r) \<and> sha256_ref r)
            \<and> dget env ''refusal_class'' = None
       else (\<exists>c. dget env ''refusal_class'' = Some (VStr c)
               \<and> c \<in> set GOVERNED_READ_REFUSAL_CLASSES)
            \<and> dget env ''admitted_result_ref'' = None)"
proof -
  have env: "env = governed_read_envelope ident st a"
    and g: "governed_read_guards a = Inr ()"
    and free: "enforce_raw_content_exclusion (VMap env) = Inr ()"
    using assms by (auto simp: build_activity_governed_read_def Let_def rbind_Inr_iff)
  note shape = governed_read_guards_ok(6)[OF g, unfolded governed_read_shape_def]
  have "raw_free env" using free by (simp add: raw_free_def enforce_ok_iff)
  moreover have "dget env ''subject_ref'' = dget env ''basis_version_ref''"
    "dget env ''identity_posture'' = Some (VStr ''declared'')"
    by (simp_all add: env governed_read_envelope_def Let_def ACTIVITY_GOVERNED_READ_IDENTITY_POSTURE_def)
  moreover have "(if gr_read_disposition a = ''admitted''
       then (\<exists>r. dget env ''admitted_result_ref'' = Some (VStr r) \<and> sha256_ref r)
            \<and> dget env ''refusal_class'' = None
       else (\<exists>c. dget env ''refusal_class'' = Some (VStr c)
               \<and> c \<in> set GOVERNED_READ_REFUSAL_CLASSES)
            \<and> dget env ''admitted_result_ref'' = None)"
    using shape
    by (auto simp: env governed_read_envelope_def Let_def require_ref_def require_Inr_iff
        split: option.splits if_splits)
  ultimately show ?thesis by blast
qed

abbreviation sample_read :: governed_read_args where
  "sample_read \<equiv> \<lparr>gr_runtime_instance_id = ''rt:1'', gr_boundary_id = ''b:1'',
     gr_acting_principal_ref = ''p:1'',
     gr_read_request_ref = ''sha256:'' @ replicate 64 (CHR ''0''),
     gr_basis_version_ref = ''basis:1'',
     gr_basis_snapshot_digest = ''sha256:'' @ replicate 64 (CHR ''a''),
     gr_read_disposition = ''refused'', gr_visibility = ''LOCAL'', gr_admitted_result_ref = None,
     gr_refusal_class = Some ''SCOPE_EXCEEDED'', gr_session_ref = None,
     gr_produced_receipt_refs = [], gr_protocol_binding = ''governed-read-pipeline'',
     gr_issued_at = None, gr_receipt_id = None, gr_extensions = None\<rparr>"

lemma sample_read_builds: "\<not> isl (build_activity_governed_read sample_identity sample_stamp sample_read)"
  by code_simp

theorem governed_read_shape_exact_witness:
  "\<exists>env. build_activity_governed_read sample_identity sample_stamp sample_read = Inr env
     \<and> dget env ''admitted_result_ref'' = None"
proof -
  obtain env where e: "build_activity_governed_read sample_identity sample_stamp sample_read = Inr env"
    using sample_read_builds by (metis isl_def sum.exhaust)
  from governed_read_shape_exact[OF e] e show ?thesis by simp
qed

end
