(* ===== verification/FastmcpTypes.thy ===== *)
theory FastmcpTypes
  imports LifecycleCore SrsReceipts
begin

text \<open>The values of the FastMCP binding (\<^verbatim>\<open>src/dagr_mcp/fastmcp_binding.py\<close>): vocabularies, the
  request snapshot, actor, policy and configuration. The callables the configuration holds
  (resolvers, review object creator, observer) are external code: each is a function whose
  result says what the call returned or raised.\<close>

section \<open>Vocabulary\<close>

definition TOOL_CLASS_MEMBERS :: "token list" where
  "TOOL_CLASS_MEMBERS = [''read'', ''write'', ''destructive'']"
definition DISPOSITION_MEMBERS :: "token list" where
  "DISPOSITION_MEMBERS = [''admitted'', ''refused'', ''deferred_for_review'']"

definition BINDING_VERSION :: string where "BINDING_VERSION = ''fastmcp.middleware.v0.1''"
definition DEFAULT_ANONYMOUS_ACTOR_REF :: string where
  "DEFAULT_ANONYMOUS_ACTOR_REF = ''actor:anonymous_or_local''"
definition DEFAULT_BOUNDARY_LIMIT :: string where
  "DEFAULT_BOUNDARY_LIMIT = ''The middleware is installed once at the institutional trust boundary; receipts attest only to observations at that boundary.''"
definition PROXY_BOUNDARY_LIMIT :: string where
  "PROXY_BOUNDARY_LIMIT = ''The receipt attests only to what crossed and returned through the proxy boundary.''"

text \<open>The import path of the task result depends on which of the two packages is installed.\<close>

definition CREATE_TASK_RESULT_IMPORT_PATH :: "bool \<Rightarrow> string" where
  "CREATE_TASK_RESULT_IMPORT_PATH mcp_types_in_mcp =
     (if mcp_types_in_mcp then ''mcp.types.CreateTaskResult'' else ''mcp_types.CreateTaskResult'')"

section \<open>Raised exceptions\<close>

text \<open>What a call into external code can raise, as the handlers of the binding tell it apart:
  an ordinary \<^verbatim>\<open>Exception\<close> of a class, a \<^verbatim>\<open>TimeoutError\<close> (or subclass), \<^verbatim>\<open>CancelledError\<close>,
  and any other \<^verbatim>\<open>BaseException\<close>, which no handler catches.\<close>

datatype pyexc = PyException string | PyTimeout string | PyCancelled | PyBase string

definition is_exception :: "pyexc \<Rightarrow> bool" where
  "is_exception e = (case e of PyException _ \<Rightarrow> True | PyTimeout _ \<Rightarrow> True | _ \<Rightarrow> False)"

definition exc_class :: "pyexc \<Rightarrow> string" where
  "exc_class e = (case e of PyException c \<Rightarrow> c | PyTimeout c \<Rightarrow> c
                  | PyCancelled \<Rightarrow> ''CancelledError'' | PyBase c \<Rightarrow> c)"

lemma is_exception_simps [simp]:
  "is_exception (PyException c)" "is_exception (PyTimeout c)"
  "\<not> is_exception PyCancelled" "\<not> is_exception (PyBase c)"
  by (simp_all add: is_exception_def)

text \<open>A callable that may return a value, raise, or return an awaitable that takes some time.\<close>

datatype 'a call_outcome = Returns 'a | Raises pyexc | Awaits nat "pyexc + 'a"

section \<open>Snapshot, actor, policy, configuration\<close>

record request_snapshot =
  rs_tool_name :: string
  rs_arguments_digest :: string
  rs_logical_call_id :: string
  rs_subject_ref :: string
  rs_subject_ref_origin :: "string option"
  rs_session_ref :: "string option"
  rs_request_ref :: "string option"
  rs_meta_digest :: "string option"

record actor_resolution =
  ac_actor_ref :: string
  ac_tenant_id :: "string option"
  ac_workspace_id :: "string option"

record binding_policy =
  bp_disposition :: token
  bp_tool_class :: token
  bp_reason_code :: "string option"
  bp_parent_receipt_ref :: "string option"
  bp_attestation_limits :: "string list"

definition plain_policy :: "token \<Rightarrow> token \<Rightarrow> string option \<Rightarrow> binding_policy" where
  "plain_policy disp cls reason =
     \<lparr>bp_disposition = disp, bp_tool_class = cls, bp_reason_code = reason,
      bp_parent_receipt_ref = None, bp_attestation_limits = []\<rparr>"

text \<open>What an operator-admission resolver hands back: the decision class, or anything else.\<close>

datatype decision_value = OperatorDecision token "token option" | NotADecision

text \<open>A review object creator is a callable, an object with one of the two creation methods, or
  neither; the value it gives is checked by the binding.\<close>

datatype review_creator =
    CallableCreator "request_snapshot \<Rightarrow> actor_resolution \<Rightarrow> binding_policy \<Rightarrow> pyv call_outcome"
  | ReviewObjectMethod "pydict \<Rightarrow> pyv call_outcome"
  | CreateMethod "pydict \<Rightarrow> pyv call_outcome"
  | NoCreatorMethod

record mw_config =
  cf_runtime_instance_id :: string
  cf_boundary_id :: string
  cf_policy_pack_id :: string
  cf_policy_pack_version :: string
  cf_tool_classes :: "token dict"
  cf_actor_resolver :: "(request_snapshot \<Rightarrow> actor_resolution call_outcome) option"
  cf_policy_resolver ::
    "(request_snapshot \<Rightarrow> actor_resolution \<Rightarrow> binding_policy call_outcome) option"
  cf_operator_resolver ::
    "(request_snapshot \<Rightarrow> actor_resolution \<Rightarrow> decision_value call_outcome) option"
  cf_operator_timeout :: "nat option"
  cf_required_tools :: "string list"
  cf_required_tool_classes :: "token list"
  cf_review_creator :: "review_creator option"
  cf_pre_failure :: "token dict"
  cf_post_failure :: token
  cf_emit_read_admission :: bool
  cf_spool :: bool
  cf_parent_receipt_ref :: "string option"
  cf_logical_call_id_override :: "string option"
  cf_subject_ref_override :: "string option"
  cf_observer :: "(pyv \<Rightarrow> pyexc option) option"
  cf_attestation_limits :: "string list"

definition DEFAULT_PRE_FAILURE :: "token dict" where
  "DEFAULT_PRE_FAILURE =
     [(''read'', ''fail_open''), (''write'', ''fail_closed''), (''destructive'', ''fail_closed'')]"

end
