(* ===== verification/BindingMask.thy ===== *)
theory BindingMask
  imports FastmcpTypes
begin

text \<open>The mask of the FastMCP binding over the neutral contract
  (\<^verbatim>\<open>src/dagr_mcp_lifecycle/binding_mask.py\<close>): the token tables, the projections, the protocol
  stamp discipline and the two drift guards, whose assertions are results here.\<close>

section \<open>Mask tables\<close>

definition MASK_BINDING_TARGET :: string where
  "MASK_BINDING_TARGET = ''fastmcp.middleware.v0.1''"

definition BINDING_OUTCOME_TOKENS :: "token list" where
  "BINDING_OUTCOME_TOKENS =
     [''result_returned'', ''error_returned'', ''exception'', ''task_submitted'',
      ''indeterminate'']"

definition MAPPING_STATUS :: "token list" where
  "MAPPING_STATUS = [''direct'', ''subsumed'', ''unsupported'']"

record mask_entry =
  me_neutral :: token
  me_binding :: "token option"
  me_status :: token
  me_note :: string

definition entry :: "token \<Rightarrow> token option \<Rightarrow> token \<Rightarrow> string \<Rightarrow> mask_entry" where
  "entry n b s t = \<lparr>me_neutral = n, me_binding = b, me_status = s, me_note = t\<rparr>"

lemma entry_simps [simp]:
  "me_neutral (entry n b s t) = n" "me_binding (entry n b s t) = b"
  "me_status (entry n b s t) = s"
  by (simp_all add: entry_def)

definition DISPOSITION_MASK :: "mask_entry list" where
  "DISPOSITION_MASK =
     [entry ''admitted'' (Some ''admitted'') ''direct''
        ''Admitted at the boundary; an admission receipt is written before execution for governed classes.'',
      entry ''refused'' (Some ''refused'') ''direct''
        ''A single terminal refused admission receipt; the binding raises ToolError and the inner handler never runs.'',
      entry ''deferred'' (Some ''deferred_for_review'') ''direct''
        ''A deferred admission receipt carrying review_object_ref and retry_contract='retry_after_approval'. The neutral name 'deferred' is the binding token 'deferred_for_review'.'']"

definition REFUSAL_GROUND_MASK :: "mask_entry list" where
  "REFUSAL_GROUND_MASK =
     [entry ''policy_refused'' (Some ''policy_refused'') ''direct'' ''Explicit deny policy.'',
      entry ''unknown_tool_fail_closed'' (Some ''unknown_tool_fail_closed'') ''direct''
        ''No policy resolves the tool; the binding fails closed.'',
      entry ''required_sink_unavailable'' (Some ''required_sink_unavailable'') ''direct''
        (''A required sink '' @ [CHR 0xE2, CHR 0x80, CHR 0x94] @ '' including a review sink made effectively required by a review_required gate '' @ [CHR 0xE2, CHR 0x80, CHR 0x94] @ '' is unavailable at the pre-gate health check.''),
      entry ''review_object_creation_failed'' (Some ''review_object_creation_failed'') ''direct''
        ''A configured review sink is present but raises during review-object creation. Not reachable via a missing review sink; that surfaces as required_sink_unavailable.'']"

definition OUTCOME_MASK :: "mask_entry list" where
  "OUTCOME_MASK =
     [entry ''result'' (Some ''result_returned'') ''direct''
        ''A ToolResult with isError=False; carries a result_digest.'',
      entry ''error'' (Some ''error_returned'') ''direct''
        ''A ToolResult with isError=True; carries a result_digest.'',
      entry ''exception'' (Some ''exception'') ''direct''
        ''The inner handler raised; extensions.mcp.exception_class carries the class name only. No result_digest.'',
      entry ''task_submitted'' (Some ''task_submitted'') ''direct''
        (''The result is a '' @ CREATE_TASK_RESULT_IMPORT_PATH True @ ''; submission only, no execution or completion claim. No result_digest.''),
      entry ''timeout'' (Some ''exception'') ''subsumed''
        ''There is no dedicated timeout disposition. A raised TimeoutError is an ordinary inner exception and is recorded as outcome='exception' with exception_class='TimeoutError'. Cooperative cancellation is a distinct path (see 'cancellation').'',
      entry ''cancellation'' (Some ''indeterminate'') ''direct''
        ''asyncio.CancelledError maps to outcome='indeterminate' carrying the three cancellation governance Booleans. No result_digest.'',
      entry ''input_required'' None ''unsupported''
        ''The binding has no elicitation / continuation branch. It carries no dedicated disposition for a paused call, in either the continuable or interrupted mode.'']"

definition INPUT_REQUIRED_MASK :: "mask_entry list" where
  "INPUT_REQUIRED_MASK =
     [entry ''continuable'' None ''unsupported''
        ''A resumable paused call is not distinctly observed. Any object the boundary happens to return as a ToolResult would be masked by its isError flag as result_returned / error_returned, not as a continuation.'',
      entry ''interrupted'' None ''unsupported''
        ''A non-resumable paused call is not distinctly observed by the binding.'']"

definition CANCELLATION_FACT_MASK :: "mask_entry list" where
  "CANCELLATION_FACT_MASK =
     [entry ''request_cancelled'' (Some ''request_cancelled'') ''direct''
        ''Boolean, indeterminate-only.'',
      entry ''execution_state_unknown'' (Some ''execution_state_unknown'') ''direct''
        ''Boolean, indeterminate-only.'',
      entry ''delivery_incomplete'' (Some ''delivery_incomplete'') ''direct''
        ''Boolean, indeterminate-only. Deliberately not named with a result-shaped token so raw-content exclusion cannot mistake it for result material.'']"

lemmas mask_tables = DISPOSITION_MASK_def REFUSAL_GROUND_MASK_def OUTCOME_MASK_def
  INPUT_REQUIRED_MASK_def CANCELLATION_FACT_MASK_def

definition OUTCOME_TO_ADMISSION_FIELD :: string where
  "OUTCOME_TO_ADMISSION_FIELD = ''admission_receipt_ref''"
definition PARENT_REFERENCE_FIELD :: string where
  "PARENT_REFERENCE_FIELD = ''parent_receipt_ref''"

definition ATTESTATION_LIMIT_MASK :: "string dict" where
  "ATTESTATION_LIMIT_MASK =
     [(''base'', BASE_LIMIT), (''result'', RESULT_LIMIT), (''task'', TASK_LIMIT),
      (''boundary'', DEFAULT_BOUNDARY_LIMIT)]"

definition FASTMCP_RESULT_PROJECTION_KEYS :: "string list" where
  "FASTMCP_RESULT_PROJECTION_KEYS = [''content'', ''structuredContent'', ''_meta'', ''isError'']"

definition PROTOCOL_STAMPS :: "string dict" where
  "PROTOCOL_STAMPS =
     [(''protocol_binding'', ''mcp''), (''boundary_type'', ''mcp_tool_call''),
      (''receipt_type'', ''sdk_enforcement''), (''profile_id'', PROFILE_ID),
      (''profile_version'', PROFILE_VERSION), (''receipt_version'', RECEIPT_VERSION)]"
definition BINDING_STAMPS :: "string dict" where
  "BINDING_STAMPS = [(''binding_version'', BINDING_VERSION)]"
definition SIGNATURE_STAMPS :: "string dict" where
  "SIGNATURE_STAMPS =
     [(''algorithm'', SIGNATURE_ALGORITHM), (''canonicalization'', CANONICALIZATION)]"

section \<open>Protocol-stamp discipline\<close>

definition OBSERVED_PROTOCOL_BINDING :: string where "OBSERVED_PROTOCOL_BINDING = ''mcp''"
definition NEGOTIATED_MCP_PROTOCOL_VERSION_STATUS :: token where
  "NEGOTIATED_MCP_PROTOCOL_VERSION_STATUS = ''unsupported''"
definition REJECTED_PROTOCOL_STAMP_FORMS :: "string list" where
  "REJECTED_PROTOCOL_STAMP_FORMS =
     [[], ''draft'', ''latest'', ''main'', ''dev'', ''snapshot'', ''unpinned'', ''mutable'',
      ''*'', ''any'', ''inferred'']"

definition classify_protocol_stamp :: "string option \<Rightarrow> token" where
  "classify_protocol_stamp stamp =
     (if stamp = Some OBSERVED_PROTOCOL_BINDING then ''pinned'' else ''unsupported'')"

text \<open>An assertion of a drift guard fails with the part of the mask it is about.\<close>

datatype mask_error =
    EmptyStamp string
  | RejectedStamp string
  | ProtocolBindingDrift
  | InventedProtocolVersion
  | ClassifierDrift
  | DuplicateNeutralToken
  | NeutralTokensDiffer
  | InvalidStatus token
  | UnsupportedWithToken token
  | DispositionTokensDiffer
  | OutcomeTokensDiffer
  | CancellationFieldsDiffer
  | BindingTargetDrift
  | OutcomeTokenNotStamped token
  | InputRequiredDrift
  | BindingVersionDrift
  | LimitDrift
  | ProjectionKeysDrift
  | NoProjection token

definition stamp_check :: "string \<times> string \<Rightarrow> (mask_error, unit) result" where
  "stamp_check nv =
     (if snd nv = [] then Inl (EmptyStamp (fst nv))
      else require (py_lower (snd nv) \<notin> set (map py_lower REJECTED_PROTOCOL_STAMP_FORMS))
             (RejectedStamp (fst nv)))"

definition assert_protocol_stamps_pinned :: "(mask_error, unit) result" where
  "assert_protocol_stamps_pinned =
     checks
      [each stamp_check (dupdate PROTOCOL_STAMPS BINDING_STAMPS),
       require (dget PROTOCOL_STAMPS ''protocol_binding'' = Some OBSERVED_PROTOCOL_BINDING)
         ProtocolBindingDrift,
       require (dget PROTOCOL_STAMPS ''protocol_version'' = None) InventedProtocolVersion,
       require (dget PROTOCOL_STAMPS ''protocolVersion'' = None) InventedProtocolVersion,
       require (NEGOTIATED_MCP_PROTOCOL_VERSION_STATUS = ''unsupported'') InventedProtocolVersion,
       require (classify_protocol_stamp (Some OBSERVED_PROTOCOL_BINDING) = ''pinned'')
         ClassifierDrift,
       require (classify_protocol_stamp None = ''unsupported'') ClassifierDrift,
       require (list_all (\<lambda>b. classify_protocol_stamp (Some b) = ''unsupported'')
                  REJECTED_PROTOCOL_STAMP_FORMS) ClassifierDrift]"

section \<open>Projections\<close>

text \<open>The index dictionary of a table (a later entry with the same token would win).\<close>

fun entry_index :: "mask_entry list \<Rightarrow> mask_entry dict" where
  "entry_index es = foldl (\<lambda>d e. dset (me_neutral e) e d) [] es"

definition project_token ::
  "mask_entry list \<Rightarrow> token \<Rightarrow> (mask_error, token) result" where
  "project_token table tok =
     (case dget (entry_index table) tok of
        Some e \<Rightarrow> (case me_binding e of Some b \<Rightarrow> Inr b | None \<Rightarrow> Inl (NoProjection tok))
      | None \<Rightarrow> Inl (NoProjection tok))"

definition project_disposition :: "token \<Rightarrow> (mask_error, token) result" where
  "project_disposition tok = project_token DISPOSITION_MASK tok"

definition project_outcome :: "token \<Rightarrow> (mask_error, mask_entry) result" where
  "project_outcome tok =
     (case dget (entry_index OUTCOME_MASK) tok of
        Some e \<Rightarrow> Inr e | None \<Rightarrow> Inl (NoProjection tok))"

definition project_cancellation_fact :: "token \<Rightarrow> (mask_error, token) result" where
  "project_cancellation_fact tok = project_token CANCELLATION_FACT_MASK tok"

definition unsigned_envelope :: "pydict \<Rightarrow> pydict" where
  "unsigned_envelope receipt = filter (\<lambda>(k, v). k \<noteq> ''receipt_signature'') receipt"

definition unsigned_envelope_bytes :: "crypto \<Rightarrow> pydict \<Rightarrow> string option" where
  "unsigned_envelope_bytes cr receipt = cr_canon cr (VMap (unsigned_envelope receipt))"

definition normalized_projection :: "pydict \<Rightarrow> pydict" where
  "normalized_projection receipt =
     filter (\<lambda>(k, v). k \<notin> set PERMITTED_NORMALIZED_DIFFERENCE_FIELDS) receipt"

definition normalized_projection_bytes :: "crypto \<Rightarrow> pydict \<Rightarrow> string option" where
  "normalized_projection_bytes cr receipt = cr_canon cr (VMap (normalized_projection receipt))"

definition custody_normalized_projection :: "pydict \<Rightarrow> pydict" where
  "custody_normalized_projection p =
     filter (\<lambda>(k, v). k \<notin> set CUSTODY_PERMITTED_NORMALIZED_DIFFERENCE_FIELDS) p"

section \<open>Drift guards\<close>

definition entry_status_check :: "mask_entry \<Rightarrow> (mask_error, unit) result" where
  "entry_status_check e =
     (if me_status e \<notin> set MAPPING_STATUS then Inl (InvalidStatus (me_status e))
      else if me_status e = ''unsupported'' \<and> me_binding e \<noteq> None
      then Inl (UnsupportedWithToken (me_neutral e)) else Inr ())"

definition mask_partition :: "mask_entry list \<Rightarrow> token list \<Rightarrow> (mask_error, unit) result" where
  "mask_partition entries neutral =
     checks
      [require (distinct (map me_neutral entries)) DuplicateNeutralToken,
       require (set (map me_neutral entries) = set neutral) NeutralTokensDiffer,
       each entry_status_check entries]"

definition tokens_with_status :: "token list \<Rightarrow> mask_entry list \<Rightarrow> token list" where
  "tokens_with_status statuses entries =
     map (\<lambda>e. the (me_binding e))
       (filter (\<lambda>e. me_status e \<in> set statuses \<and> me_binding e \<noteq> None) entries)"

text \<open>\<^verbatim>\<open>x or default\<close> on an optional tuple: an empty tuple also takes the default.\<close>

definition tuple_or :: "'a list option \<Rightarrow> 'a list \<Rightarrow> 'a list" where
  "tuple_or x d = (case x of None \<Rightarrow> d | Some xs \<Rightarrow> if xs = [] then d else xs)"

definition set_or :: "'a list option \<Rightarrow> 'a list \<Rightarrow> 'a list" where
  "set_or x d = (case x of None \<Rightarrow> d | Some xs \<Rightarrow> xs)"

definition verify_mapping_total ::
  "token list option \<Rightarrow> token list option \<Rightarrow> token list option
    \<Rightarrow> token list option \<Rightarrow> token list option \<Rightarrow> token list option
    \<Rightarrow> (mask_error, unit) result" where
  "verify_mapping_total live_disp live_out live_canc neutral_disp neutral_out neutral_canc =
     checks
      [mask_partition DISPOSITION_MASK (tuple_or neutral_disp NEUTRAL_DISPOSITIONS),
       mask_partition OUTCOME_MASK (tuple_or neutral_out NEUTRAL_OUTCOMES),
       mask_partition CANCELLATION_FACT_MASK (tuple_or neutral_canc NEUTRAL_CANCELLATION_FACTS),
       require (set (tokens_with_status [''direct''] DISPOSITION_MASK)
                = set (set_or live_disp DISPOSITION_MEMBERS)) DispositionTokensDiffer,
       require (set (tokens_with_status [''direct'', ''subsumed''] OUTCOME_MASK)
                = set (set_or live_out BINDING_OUTCOME_TOKENS)) OutcomeTokensDiffer,
       require (set (tokens_with_status MAPPING_STATUS CANCELLATION_FACT_MASK)
                = set (set_or live_canc CANCELLATION_FIELD_NAMES)) CancellationFieldsDiffer]"

definition outcome_token_check :: "mask_entry \<Rightarrow> (mask_error, unit) result" where
  "outcome_token_check e =
     (if me_status e = ''unsupported''
      then require (me_binding e = None) (UnsupportedWithToken (me_neutral e))
      else require (me_binding e \<in> set (map Some BINDING_OUTCOME_TOKENS))
             (OutcomeTokenNotStamped (me_neutral e)))"

definition verify_mask_matches_binding :: "(mask_error, unit) result" where
  "verify_mask_matches_binding =
     checks
      [require (MASK_BINDING_TARGET = BINDING_VERSION) BindingTargetDrift,
       verify_mapping_total None None None None None None,
       assert_protocol_stamps_pinned,
       require (set (tokens_with_status [''direct''] DISPOSITION_MASK)
                = set DISPOSITION_MEMBERS) DispositionTokensDiffer,
       require (set (map me_neutral DISPOSITION_MASK) = set NEUTRAL_DISPOSITIONS)
         NeutralTokensDiffer,
       each outcome_token_check OUTCOME_MASK,
       require (set (map me_neutral OUTCOME_MASK) = set NEUTRAL_OUTCOMES) NeutralTokensDiffer,
       require (set (map me_neutral INPUT_REQUIRED_MASK) = set INPUT_REQUIRED_MODES)
         NeutralTokensDiffer,
       require (list_all (\<lambda>e. me_status e = ''unsupported'') INPUT_REQUIRED_MASK)
         InputRequiredDrift,
       rbind (project_outcome ''input_required'')
         (\<lambda>e. require (me_status e = ''unsupported'') InputRequiredDrift),
       require (set (map me_neutral CANCELLATION_FACT_MASK) = set NEUTRAL_CANCELLATION_FACTS)
         NeutralTokensDiffer,
       require (set (tokens_with_status MAPPING_STATUS CANCELLATION_FACT_MASK)
                = set CANCELLATION_FIELD_NAMES) CancellationFieldsDiffer,
       require (dget BINDING_STAMPS ''binding_version'' = Some BINDING_VERSION) BindingVersionDrift,
       require (BINDING_VERSION \<in> set REGISTERED_BINDING_VERSIONS) BindingVersionDrift,
       require (dget ATTESTATION_LIMIT_MASK ''base'' = Some BASE_LIMIT) LimitDrift,
       require (dget ATTESTATION_LIMIT_MASK ''result'' = Some RESULT_LIMIT) LimitDrift,
       require (dget ATTESTATION_LIMIT_MASK ''task'' = Some TASK_LIMIT) LimitDrift,
       require (dget ATTESTATION_LIMIT_MASK ''boundary'' = Some DEFAULT_BOUNDARY_LIMIT) LimitDrift]"

section \<open>The mask is the binding\<close>

lemmas mask_vocab = vocab DISPOSITION_MEMBERS_def BINDING_OUTCOME_TOKENS_def MAPPING_STATUS_def
  CANCELLATION_FIELD_NAMES_def mask_tables

lemma mask_partitions:
  "mask_partition DISPOSITION_MASK NEUTRAL_DISPOSITIONS = Inr ()"
  "mask_partition OUTCOME_MASK NEUTRAL_OUTCOMES = Inr ()"
  "mask_partition CANCELLATION_FACT_MASK NEUTRAL_CANCELLATION_FACTS = Inr ()"
  by (simp_all add: mask_partition_def entry_status_check_def mask_vocab insert_commute)

lemma mask_tokens:
  "set (tokens_with_status [''direct''] DISPOSITION_MASK) = set DISPOSITION_MEMBERS"
  "set (tokens_with_status [''direct'', ''subsumed''] OUTCOME_MASK) = set BINDING_OUTCOME_TOKENS"
  "set (tokens_with_status MAPPING_STATUS CANCELLATION_FACT_MASK) = set CANCELLATION_FIELD_NAMES"
  by (simp_all add: tokens_with_status_def mask_vocab insert_commute)

text \<open>The mapping guard accepts the frozen vocabularies and no other live oracle: with the
  neutral vocabulary at its default it passes exactly when the injected dispositions, outcome
  tokens and cancellation fields are, as sets, those of the binding, so a token added to or
  removed from any of the three is detected.\<close>
theorem mapping_guard_exact:
  "(verify_mapping_total (Some ld) (Some lo) (Some lc) None None None = Inr ()) =
     (set ld = set DISPOSITION_MEMBERS \<and> set lo = set BINDING_OUTCOME_TOKENS
      \<and> set lc = set CANCELLATION_FIELD_NAMES)"
  by (auto simp: verify_mapping_total_def rbind_Inr_iff require_Inr_iff tuple_or_def set_or_def
      mask_partitions mask_tokens)

lemma stamps_pinned: "assert_protocol_stamps_pinned = Inr ()"
  by code_simp

lemma entry_lookup:
  "dget (entry_index DISPOSITION_MASK) ''admitted'' = Some (DISPOSITION_MASK ! 0)"
  "dget (entry_index DISPOSITION_MASK) ''refused'' = Some (DISPOSITION_MASK ! 1)"
  "dget (entry_index DISPOSITION_MASK) ''deferred'' = Some (DISPOSITION_MASK ! 2)"
  by (simp_all add: DISPOSITION_MASK_def)

lemma project_disposition_simps [simp]:
  "project_disposition ''admitted'' = Inr ''admitted''"
  "project_disposition ''refused'' = Inr ''refused''"
  "project_disposition ''deferred'' = Inr ''deferred_for_review''"
  by (simp_all add: project_disposition_def project_token_def DISPOSITION_MASK_def)

lemma project_cancellation_fact_simps [simp]:
  "project_cancellation_fact ''request_cancelled'' = Inr ''request_cancelled''"
  "project_cancellation_fact ''execution_state_unknown'' = Inr ''execution_state_unknown''"
  "project_cancellation_fact ''delivery_incomplete'' = Inr ''delivery_incomplete''"
  by (simp_all add: project_cancellation_fact_def project_token_def CANCELLATION_FACT_MASK_def)

definition outcome_projection :: "token \<Rightarrow> (token \<times> token option) option" where
  "outcome_projection tok =
     (case project_outcome tok of Inl _ \<Rightarrow> None | Inr e \<Rightarrow> Some (me_status e, me_binding e))"

lemma outcome_projection_simps [simp]:
  "outcome_projection ''result'' = Some (''direct'', Some ''result_returned'')"
  "outcome_projection ''error'' = Some (''direct'', Some ''error_returned'')"
  "outcome_projection ''exception'' = Some (''direct'', Some ''exception'')"
  "outcome_projection ''task_submitted'' = Some (''direct'', Some ''task_submitted'')"
  "outcome_projection ''timeout'' = Some (''subsumed'', Some ''exception'')"
  "outcome_projection ''cancellation'' = Some (''direct'', Some ''indeterminate'')"
  "outcome_projection ''input_required'' = Some (''unsupported'', None)"
  by (simp_all add: outcome_projection_def project_outcome_def OUTCOME_MASK_def)

lemma outcome_lookup_None:
  "tok \<notin> set NEUTRAL_OUTCOMES \<Longrightarrow> outcome_projection tok = None"
  by (simp add: outcome_projection_def project_outcome_def OUTCOME_MASK_def NEUTRAL_OUTCOMES_def)

text \<open>The mask and the core classify the same way. A token has a mask entry exactly when the
  core knows it, with the same status (direct, subsumed or unsupported); it has a binding token
  exactly when the core plans it; and the binding token of a planned outcome is the binding token
  of the record family the core plans.\<close>
theorem mask_agrees_with_core:
  "(case core_outcome_status tok of
      Inl _ \<Rightarrow> outcome_projection tok = None
    | Inr status \<Rightarrow>
        (\<exists>b. outcome_projection tok = Some (status, b)
             \<and> (b = None) = (status = ''unsupported'')
             \<and> (case dget SUBSUMED_OUTCOMES tok of
                   None \<Rightarrow> True
                 | Some fam \<Rightarrow> outcome_projection fam = Some (''direct'', b))))"
proof (cases "tok \<in> set NEUTRAL_OUTCOMES")
  case True
  then show ?thesis
    by (elim NEUTRAL_OUTCOMES_cases) (simp_all add: core_outcome_status_def vocab)
next
  case False
  then show ?thesis by (simp add: core_outcome_status_def outcome_lookup_None)
qed

text \<open>The drift guard holds of the modelled binding: every assertion of the mask check passes
  on the constants of the FastMCP binding, the receipt emitter and the contract.\<close>
theorem mask_matches_binding: "verify_mask_matches_binding = Inr ()"
proof -
  have out: "each outcome_token_check OUTCOME_MASK = Inr ()"
    by (simp add: outcome_token_check_def mask_vocab)
  have inr: "rbind (project_outcome ''input_required'')
      (\<lambda>e. require (me_status e = ''unsupported'') InputRequiredDrift) = Inr ()"
    by (simp add: project_outcome_def OUTCOME_MASK_def)
  have tot: "verify_mapping_total None None None None None None = Inr ()"
    by (simp add: verify_mapping_total_def tuple_or_def set_or_def mask_partitions mask_tokens)
  have neutral: "set (map me_neutral DISPOSITION_MASK) = set NEUTRAL_DISPOSITIONS"
    "set (map me_neutral OUTCOME_MASK) = set NEUTRAL_OUTCOMES"
    "set (map me_neutral INPUT_REQUIRED_MASK) = set INPUT_REQUIRED_MODES"
    "set (map me_neutral CANCELLATION_FACT_MASK) = set NEUTRAL_CANCELLATION_FACTS"
    by (simp_all add: mask_vocab)
  have unsup: "list_all (\<lambda>e. me_status e = ''unsupported'') INPUT_REQUIRED_MASK"
    by (simp add: INPUT_REQUIRED_MASK_def)
  show ?thesis
    unfolding verify_mask_matches_binding_def out inr tot stamps_pinned neutral mask_tokens
    using unsup by (simp add: MASK_BINDING_TARGET_def BINDING_VERSION_def BINDING_STAMPS_def
        REGISTERED_BINDING_VERSIONS_def ATTESTATION_LIMIT_MASK_def)
qed

text \<open>The parity layers are nested: two receipts with the same unsigned envelope have the same
  normalized projection, and the normalized projection forgets exactly the identifier, the clock
  and the signature.\<close>
lemma parity_layers_nested:
  "(if unsigned_envelope r1 = unsigned_envelope r2
    then normalized_projection r1 = normalized_projection r2 else True)
   \<and> normalized_projection (unsigned_envelope r) = normalized_projection r
   \<and> dkeys (normalized_projection r) =
       filter (\<lambda>k. k \<noteq> ''receipt_id'' \<and> k \<noteq> ''issued_at'' \<and> k \<noteq> ''receipt_signature'') (dkeys r)"
proof -
  have n: "normalized_projection (unsigned_envelope x) = normalized_projection x" for x
    unfolding normalized_projection_def unsigned_envelope_def filter_filter
    by (rule filter_cong) (auto simp: vocab)
  have "dkeys (normalized_projection r) =
       filter (\<lambda>k. k \<notin> set PERMITTED_NORMALIZED_DIFFERENCE_FIELDS) (dkeys r)"
    by (induction r) (auto simp: normalized_projection_def)
  then show ?thesis using n[of r] n[of r1] n[of r2] by (auto simp: vocab)
qed

end
