(* ===== verification/FastmcpBinding.thy ===== *)
theory FastmcpBinding
  imports BindingMask "HOL-Library.List_Lexorder" "HOL-Library.Char_ord"
begin

text \<open>The FastMCP middleware (\<^verbatim>\<open>src/dagr_mcp/fastmcp_binding.py\<close>): \<^verbatim>\<open>on_call_tool\<close> and every
  method it calls. The state is the receipt sink, the telemetry list, the emergency spool and a
  trace of the observable effects (receipts accepted, handler called, review object requested).
  Identifiers, clock readings, the access token, what the resolvers return and how the inner
  handler ends are inputs.\<close>

section \<open>Inputs, state and outcomes\<close>

record access_token =
  tk_claims :: pyv
  tk_client_id :: pyv
  tk_scopes :: "string list"
  tk_resource :: pyv

record mw_env =
  en_identity :: signing_identity
  en_config :: mw_config
  en_stamps :: "nat \<Rightarrow> stamp"
  en_clock :: "nat \<Rightarrow> string"
  en_minted_id :: string
  en_token :: "pyexc + access_token option"
  en_dump :: "pyv \<Rightarrow> pyv"
  en_canon_exc :: string

abbreviation en_crypto :: "mw_env \<Rightarrow> crypto" where
  "en_crypto env \<equiv> si_crypto (en_identity env)"

record call_message =
  cm_name :: string
  cm_arguments :: pyv
  cm_meta :: pyv
  cm_request_id :: "string option"
  cm_session_id :: "string option"

text \<open>The value the inner handler returns: a submitted task, or a result with the four attributes
  the projection reads.\<close>

datatype tool_value = TaskResult | ToolValue pyv pyv pyv pyv

datatype handler_outcome = HandlerReturns tool_value | HandlerRaises pyexc

datatype mw_effect = ReviewRequested | ReceiptWritten string | HandlerCalled

record mw_state =
  mw_sink :: sink
  mw_stamp_count :: nat
  mw_telemetry :: "pydict list"
  mw_spool :: "pydict list"
  mw_spool_faults :: "(string \<times> bool) option list"
  mw_trace :: "mw_effect list"

datatype mw_result =
    Returned tool_value
  | ToolErrorRefused
  | ToolErrorReviewReceipt
  | ToolErrorDeferred "string option"
  | ToolErrorAdmissionReceipt
  | ToolErrorDiverged
  | ToolErrorNoToken
  | HandlerRaised pyexc
  | ResolverRaised pyexc
  | ReceiptErrorRaised receipt_error
  | CoreErrorRaised core_error
  | UnknownDispositionKey token
  | AssertionRaised

section \<open>Token projections\<close>

definition NEUTRAL_DISPOSITION_BY_BINDING :: "token dict" where
  "NEUTRAL_DISPOSITION_BY_BINDING =
     [(''admitted'', ''admitted''), (''refused'', ''refused''),
      (''deferred_for_review'', ''deferred'')]"

definition to_neutral_disposition :: "token \<Rightarrow> token option" where
  "to_neutral_disposition d = dget NEUTRAL_DISPOSITION_BY_BINDING d"

definition project_binding_outcome :: "token \<Rightarrow> (mw_result, token) result" where
  "project_binding_outcome tok =
     (case project_outcome tok of
        Inl _ \<Rightarrow> Inl (UnknownDispositionKey tok)
      | Inr e \<Rightarrow> (case me_binding e of Some b \<Rightarrow> Inr b | None \<Rightarrow> Inl ToolErrorNoToken))"

section \<open>Request snapshot\<close>

definition scoped_hash_ref :: "crypto \<Rightarrow> string \<Rightarrow> pyv \<Rightarrow> (receipt_error, string) result" where
  "scoped_hash_ref cr pre v =
     rbind (sha256_digest cr v) (\<lambda>d. Inr (pre @ '':sha256:'' @ drop 7 d))"

text \<open>\<^verbatim>\<open>_scoped_hash_ref(p, x) if x else None\<close>.\<close>

definition hash_ref_if ::
  "crypto \<Rightarrow> string \<Rightarrow> string option \<Rightarrow> (receipt_error, string option) result" where
  "hash_ref_if cr pre x =
     (if given x then rbind (scoped_hash_ref cr pre (VStr (the x))) (\<lambda>r. Inr (Some r))
      else Inr None)"

definition choose_subject ::
  "mw_config \<Rightarrow> string option \<Rightarrow> string option \<Rightarrow> string \<Rightarrow> string \<times> string" where
  "choose_subject cf session_ref request_ref call_id =
     (if given (cf_subject_ref_override cf)
      then (the (cf_subject_ref_override cf), ''supplied_subject'')
      else if given session_ref then (the session_ref, ''derived_from_session'')
      else if given request_ref then (the request_ref, ''derived_from_request'')
      else if given (cf_logical_call_id_override cf)
      then (''tool-call:'' @ call_id, ''derived_from_supplied_correlation'')
      else (''tool-call:'' @ call_id, ''binding_minted''))"

definition snapshot_request ::
  "mw_env \<Rightarrow> call_message \<Rightarrow> (receipt_error, request_snapshot) result" where
  "snapshot_request env msg =
    (let cf = en_config env; cr = en_crypto env;
         arguments = (if cm_arguments msg = VNone then VMap [] else cm_arguments msg) in
     rbind (hash_ref_if cr ''request'' (cm_request_id msg)) (\<lambda>request_ref.
     rbind (hash_ref_if cr ''session'' (cm_session_id msg)) (\<lambda>session_ref.
       let call_id = or_else (cf_logical_call_id_override cf)
                       (or_else request_ref (''call:'' @ en_minted_id env));
           subject = choose_subject cf session_ref request_ref call_id in
       rbind (sha256_digest cr arguments) (\<lambda>args_digest.
       rbind (if cm_meta msg = VNone then Inr None
              else rbind (sha256_digest cr (cm_meta msg)) (\<lambda>d. Inr (Some d))) (\<lambda>meta_digest.
         Inr \<lparr>rs_tool_name = cm_name msg, rs_arguments_digest = args_digest,
              rs_logical_call_id = call_id, rs_subject_ref = fst subject,
              rs_subject_ref_origin = Some (snd subject), rs_session_ref = session_ref,
              rs_request_ref = request_ref, rs_meta_digest = meta_digest\<rparr>)))))"

section \<open>Actor resolution\<close>

definition anonymous_actor :: actor_resolution where
  "anonymous_actor = \<lparr>ac_actor_ref = DEFAULT_ANONYMOUS_ACTOR_REF, ac_tenant_id = None,
                      ac_workspace_id = None\<rparr>"

fun claim_string :: "pydict \<Rightarrow> string list \<Rightarrow> string option" where
  "claim_string claims [] = None"
| "claim_string claims (k # ks) =
     (case dget claims k of
        Some (VStr s) \<Rightarrow> if s \<noteq> [] then Some s else claim_string claims ks
      | _ \<Rightarrow> claim_string claims ks)"

definition default_actor_resolution ::
  "mw_env \<Rightarrow> (receipt_error, actor_resolution) result" where
  "default_actor_resolution env =
    (case en_token env of
       Inl _ \<Rightarrow> Inr anonymous_actor
     | Inr None \<Rightarrow> Inr anonymous_actor
     | Inr (Some tk) \<Rightarrow>
        (let cr = en_crypto env;
             claims = (case tk_claims tk of VMap m \<Rightarrow> m | _ \<Rightarrow> []);
             seed = (if claims \<noteq> [] then VMap claims
                     else VMap [(''client_id'', tk_client_id tk),
                                (''scopes'', strs (sort (tk_scopes tk))),
                                (''resource'', tk_resource tk)]) in
         rbind (scoped_hash_ref cr ''actor'' seed) (\<lambda>actor.
         rbind (hash_ref_if cr ''tenant''
                  (claim_string claims [''tenant_id'', ''tid'', ''tenant''])) (\<lambda>tenant.
         rbind (hash_ref_if cr ''workspace''
                  (claim_string claims [''workspace_id'', ''wid'', ''workspace''])) (\<lambda>ws.
           Inr \<lparr>ac_actor_ref = actor, ac_tenant_id = tenant, ac_workspace_id = ws\<rparr>)))))"

text \<open>Awaiting a call, without and with the operator timeout.\<close>

definition await_call :: "'a call_outcome \<Rightarrow> pyexc + 'a" where
  "await_call c = (case c of Returns v \<Rightarrow> Inr v | Raises e \<Rightarrow> Inl e | Awaits _ r \<Rightarrow> r)"

definition await_within :: "nat option \<Rightarrow> 'a call_outcome \<Rightarrow> pyexc + 'a" where
  "await_within limit c =
     (case c of
        Awaits d r \<Rightarrow> (case limit of
                        Some t \<Rightarrow> if t < d then Inl (PyTimeout ''TimeoutError'') else r
                      | None \<Rightarrow> r)
      | _ \<Rightarrow> await_call c)"

definition resolve_actor ::
  "mw_env \<Rightarrow> request_snapshot \<Rightarrow> (mw_result, actor_resolution) result" where
  "resolve_actor env snap =
     (case cf_actor_resolver (en_config env) of
        Some f \<Rightarrow> map_err ResolverRaised (await_call (f snap))
      | None \<Rightarrow> map_err ReceiptErrorRaised (default_actor_resolution env))"

section \<open>Policy resolution\<close>

definition tool_class_of :: "mw_config \<Rightarrow> string \<Rightarrow> token" where
  "tool_class_of cf tool =
     (case dget (cf_tool_classes cf) tool of Some c \<Rightarrow> c | None \<Rightarrow> ''read'')"

definition operator_admission_required :: "mw_config \<Rightarrow> string \<Rightarrow> token \<Rightarrow> bool" where
  "operator_admission_required cf tool cls =
     (tool \<in> set (cf_required_tools cf) \<or> cls \<in> set (cf_required_tool_classes cf))"

definition project_operator_decision ::
  "decision_value \<Rightarrow> token \<Rightarrow> binding_policy \<Rightarrow> binding_policy" where
  "project_operator_decision d cls refused =
     (case d of
        NotADecision \<Rightarrow> refused
      | OperatorDecision disp ground \<Rightarrow>
          if disp = ''admitted''
          then (if ground \<noteq> None then refused else plain_policy ''admitted'' cls None)
          else refused)"

definition resolve_operator_admission ::
  "mw_config \<Rightarrow> decision_value call_outcome \<Rightarrow> token \<Rightarrow> (mw_result, binding_policy) result" where
  "resolve_operator_admission cf call cls =
    (let refused = plain_policy ''refused'' cls (Some ''policy_refused'') in
     case await_within (cf_operator_timeout cf) call of
       Inl e \<Rightarrow> if is_exception e then Inr refused else Inl (ResolverRaised e)
     | Inr d \<Rightarrow> Inr (project_operator_decision d cls refused))"

definition resolve_policy ::
  "mw_config \<Rightarrow> request_snapshot \<Rightarrow> actor_resolution \<Rightarrow> (mw_result, binding_policy) result" where
  "resolve_policy cf snap actor =
    (let cls = tool_class_of cf (rs_tool_name snap) in
     case cf_policy_resolver cf of
       Some f \<Rightarrow> map_err ResolverRaised (await_call (f snap actor))
     | None \<Rightarrow>
        (case cf_operator_resolver cf of
           Some f \<Rightarrow> resolve_operator_admission cf (f snap actor) cls
         | None \<Rightarrow>
            if operator_admission_required cf (rs_tool_name snap) cls
            then Inr (plain_policy ''refused'' cls (Some ''policy_refused''))
            else Inr (plain_policy ''admitted'' cls None)))"

section \<open>Receipt context and neutral request\<close>

definition policy_parent :: "mw_config \<Rightarrow> binding_policy \<Rightarrow> string option" where
  "policy_parent cf pol =
     (if bp_parent_receipt_ref pol \<noteq> None then bp_parent_receipt_ref pol
      else cf_parent_receipt_ref cf)"

definition mw_receipt_context ::
  "mw_config \<Rightarrow> request_snapshot \<Rightarrow> actor_resolution \<Rightarrow> binding_policy \<Rightarrow> receipt_context" where
  "mw_receipt_context cf snap actor pol =
     \<lparr>rc_runtime_instance_id = cf_runtime_instance_id cf, rc_boundary_id = cf_boundary_id cf,
      rc_policy_pack_id = cf_policy_pack_id cf,
      rc_policy_pack_version = cf_policy_pack_version cf,
      rc_subject_ref = rs_subject_ref snap, rc_logical_call_id = rs_logical_call_id snap,
      rc_subject_ref_origin = vopt (rs_subject_ref_origin snap),
      rc_actor_ref = Some (ac_actor_ref actor), rc_tenant_id = ac_tenant_id actor,
      rc_workspace_id = ac_workspace_id actor, rc_binding_version = BINDING_VERSION,
      rc_parent_receipt_ref = policy_parent cf pol,
      rc_dagr_constitution_id = ''dagr.constitutional-contract.v0.1''\<rparr>"

definition binding_refusal_reason_code :: "binding_policy \<Rightarrow> string" where
  "binding_refusal_reason_code pol = or_else (bp_reason_code pol) ''policy_refused''"

definition neutral_refusal_ground :: "binding_policy \<Rightarrow> token" where
  "neutral_refusal_ground pol =
     (let code = or_else (bp_reason_code pol) ''policy_refused''
      in if code \<in> set NEUTRAL_REFUSAL_GROUNDS then code else ''policy_refused'')"

definition neutral_admission_request ::
  "mw_config \<Rightarrow> binding_policy \<Rightarrow> token \<Rightarrow> bool option \<Rightarrow> admission_request" where
  "neutral_admission_request cf pol disp created =
     \<lparr>ar_disposition = disp, ar_tool_class = bp_tool_class pol,
      ar_refusal_ground = (if disp = ''refused'' then Some (neutral_refusal_ground pol) else None),
      ar_review_object_created = created,
      ar_emit_read_admission = cf_emit_read_admission cf,
      ar_has_parent_boundary =
        (bp_parent_receipt_ref pol \<noteq> None \<or> cf_parent_receipt_ref cf \<noteq> None)\<rparr>"

section \<open>Telemetry and spool\<close>

definition receipt_failure_class :: "receipt_error \<Rightarrow> string" where
  "receipt_failure_class e =
     (case e of ReceiptWriteError \<Rightarrow> ''receipt_sink_failure''
      | OsError \<Rightarrow> ''receipt_spool_io_failure''
      | KeyMissing _ \<Rightarrow> ''KeyError''
      | ArgumentTypeError \<Rightarrow> ''TypeError''
      | _ \<Rightarrow> ''receipt_signing_or_content_failure'')"

text \<open>An ordinary exception that is an \<^verbatim>\<open>OSError\<close> (as \<^verbatim>\<open>TimeoutError\<close> is) is a spool failure; the
  built-in subclasses are told by name.\<close>

definition OS_ERROR_CLASSES :: "string list" where
  "OS_ERROR_CLASSES =
     [''OSError'', ''BlockingIOError'', ''ChildProcessError'', ''ConnectionError'',
      ''BrokenPipeError'', ''ConnectionAbortedError'', ''ConnectionRefusedError'',
      ''ConnectionResetError'', ''FileExistsError'', ''FileNotFoundError'', ''InterruptedError'',
      ''IsADirectoryError'', ''NotADirectoryError'', ''PermissionError'', ''ProcessLookupError'']"

definition classified_exception :: "pyexc \<Rightarrow> string" where
  "classified_exception e =
     (case e of PyTimeout _ \<Rightarrow> ''receipt_spool_io_failure''
      | PyException c \<Rightarrow> if c \<in> set OS_ERROR_CLASSES then ''receipt_spool_io_failure'' else c
      | _ \<Rightarrow> exc_class e)"

definition add_telemetry :: "pydict \<Rightarrow> mw_state \<Rightarrow> mw_state" where
  "add_telemetry ev s = s\<lparr>mw_telemetry := mw_telemetry s @ [ev]\<rparr>"

definition append_emergency_spool :: "mw_env \<Rightarrow> pydict \<Rightarrow> mw_state \<Rightarrow> mw_state" where
  "append_emergency_spool env ev s =
    (if \<not> cf_spool (en_config env) then s
     else case mw_spool_faults s of
         Some (cls, appended) # fs \<Rightarrow>
           add_telemetry
             [(''event_type'', VStr ''receipt_gap_spool_failed''),
              (''occurred_at'', VStr (en_clock env (length (mw_telemetry s)))),
              (''failure_class'', VStr cls)]
             (s\<lparr>mw_spool_faults := fs,
                mw_spool := mw_spool s @ (if appended then [ev] else [])\<rparr>)
       | fs \<Rightarrow> s\<lparr>mw_spool_faults := tl fs, mw_spool := mw_spool s @ [ev]\<rparr>)"

definition record_review_failure ::
  "mw_env \<Rightarrow> receipt_context \<Rightarrow> request_snapshot \<Rightarrow> string \<Rightarrow> mw_state \<Rightarrow> mw_state" where
  "record_review_failure env ctx snap cls s =
     add_telemetry
       [(''event_type'', VStr ''review_object_creation_failed''),
        (''occurred_at'', VStr (en_clock env (length (mw_telemetry s)))),
        (''runtime_instance_id'', VStr (rc_runtime_instance_id ctx)),
        (''boundary_id'', VStr (rc_boundary_id ctx)),
        (''logical_call_id'', VStr (rs_logical_call_id snap)),
        (''requested_tool_name'', VStr (rs_tool_name snap)),
        (''failure_class'', VStr cls)] s"

definition record_receipt_failure ::
  "mw_env \<Rightarrow> receipt_context \<Rightarrow> request_snapshot \<Rightarrow> string \<Rightarrow> string option \<Rightarrow> string option
    \<Rightarrow> string \<Rightarrow> mw_state \<Rightarrow> mw_state" where
  "record_receipt_failure env ctx snap kind outcome aref cls s =
    (let ev =
       [(''event_type'', VStr ''receipt_gap''),
        (''occurred_at'', VStr (en_clock env (length (mw_telemetry s)))),
        (''runtime_instance_id'', VStr (rc_runtime_instance_id ctx)),
        (''boundary_id'', VStr (rc_boundary_id ctx)),
        (''logical_call_id'', VStr (rs_logical_call_id snap)),
        (''requested_tool_name'', VStr (rs_tool_name snap)),
        (''attempted_receipt_kind'', VStr kind),
        (''attempted_outcome'', vopt outcome),
        (''admission_receipt_ref'', vopt aref),
        (''failure_class'', VStr cls)]
     in append_emergency_spool env ev (add_telemetry ev s))"

section \<open>Emission\<close>

definition dict_fromkeys :: "'a list \<Rightarrow> 'a list" where
  "dict_fromkeys xs = foldl (\<lambda>acc x. if x \<in> set acc then acc else acc @ [x]) [] xs"

definition mw_limits :: "mw_config \<Rightarrow> binding_policy option \<Rightarrow> string list" where
  "mw_limits cf pol =
     dict_fromkeys (cf_attestation_limits cf
       @ (case pol of Some p \<Rightarrow> bp_attestation_limits p | None \<Rightarrow> []))"

definition vtuple :: "string list \<Rightarrow> pyv" where
  "vtuple xs = VTuple (map VStr xs)"

definition after_emit ::
  "(receipt_error, string) result \<times> sink \<Rightarrow> mw_state
    \<Rightarrow> (receipt_error, string) result \<times> mw_state" where
  "after_emit rsk s =
    (fst rsk,
     s\<lparr>mw_sink := snd rsk, mw_stamp_count := Suc (mw_stamp_count s),
       mw_trace := mw_trace s @ (case fst rsk of Inr rid \<Rightarrow> [ReceiptWritten rid] | Inl _ \<Rightarrow> [])\<rparr>)"

definition mw_emit_admission ::
  "mw_env \<Rightarrow> receipt_context \<Rightarrow> request_snapshot \<Rightarrow> binding_policy \<Rightarrow> token
    \<Rightarrow> string option \<Rightarrow> string option \<Rightarrow> string option \<Rightarrow> mw_state
    \<Rightarrow> (receipt_error, string) result \<times> mw_state" where
  "mw_emit_admission env ctx snap pol disp review retry reason s =
     after_emit
       (emit_admission (en_identity env) ctx (en_stamps env (mw_stamp_count s))
         \<lparr>aa_tool_name = rs_tool_name snap, aa_argument_digest = rs_arguments_digest snap,
          aa_disposition = disp, aa_review_object_ref = review, aa_retry_contract = retry,
          aa_reason_code = reason, aa_limits = vtuple (mw_limits (en_config env) (Some pol))\<rparr>
         (mw_sink s)) s"

definition mw_emit_outcome ::
  "mw_env \<Rightarrow> receipt_context \<Rightarrow> request_snapshot \<Rightarrow> string \<Rightarrow> token
    \<Rightarrow> string option \<Rightarrow> string option \<Rightarrow> pydict option \<Rightarrow> mw_state
    \<Rightarrow> (receipt_error, string) result \<times> mw_state" where
  "mw_emit_outcome env ctx snap aref out digest exc owned s =
     after_emit
       (emit_outcome (en_identity env) ctx (en_stamps env (mw_stamp_count s))
         \<lparr>oa_admission_ref = aref, oa_outcome = out, oa_result_digest = digest,
          oa_exception_class = exc, oa_limits = vtuple (mw_limits (en_config env) None),
          oa_owned_fields = owned\<rparr>
         (mw_sink s)) s"

text \<open>\<^verbatim>\<open>_emit_outcome_best_effort\<close> and \<^verbatim>\<open>_emit_post_execution_outcome\<close>: a failed outcome
  receipt is recorded, never raised.\<close>

definition emit_outcome_best_effort ::
  "mw_env \<Rightarrow> receipt_context \<Rightarrow> request_snapshot \<Rightarrow> string \<Rightarrow> token
    \<Rightarrow> string option \<Rightarrow> string option \<Rightarrow> pydict option \<Rightarrow> mw_state \<Rightarrow> mw_state" where
  "emit_outcome_best_effort env ctx snap aref out digest exc owned s =
     (case mw_emit_outcome env ctx snap aref out digest exc owned s of
        (Inr _, s1) \<Rightarrow> s1
      | (Inl e, s1) \<Rightarrow>
          record_receipt_failure env ctx snap ''outcome'' (Some out) (Some aref)
            (receipt_failure_class e) s1)"

definition tool_value_class :: "tool_value \<Rightarrow> string" where
  "tool_value_class v = (case v of TaskResult \<Rightarrow> ''CreateTaskResult'' | _ \<Rightarrow> ''ToolResult'')"

definition emit_post_execution_outcome ::
  "mw_env \<Rightarrow> receipt_context \<Rightarrow> request_snapshot \<Rightarrow> string \<Rightarrow> tool_value \<Rightarrow> token
    \<Rightarrow> string option \<Rightarrow> mw_state \<Rightarrow> mw_state" where
  "emit_post_execution_outcome env ctx snap aref v out digest s =
     (case mw_emit_outcome env ctx snap aref out digest None None s of
        (Inr _, s1) \<Rightarrow> s1
      | (Inl e, s1) \<Rightarrow>
          (let s2 = record_receipt_failure env ctx snap ''outcome'' (Some out) (Some aref)
                      (receipt_failure_class e) s1
           in if cf_post_failure (en_config env) \<noteq> ''alert_and_return_result''
              then add_telemetry
                     [(''event_type'', VStr ''unsupported_post_execution_failure_mode''),
                      (''mode'', VStr (cf_post_failure (en_config env))),
                      (''result_class'', VStr (tool_value_class v))] s2
              else s2))"

section \<open>Projecting the core's plans\<close>

text \<open>The governance facts of a record as binding-owned fields, in order.\<close>

fun project_facts :: "bool \<Rightarrow> token list \<Rightarrow> (mw_result, pydict) result" where
  "project_facts v [] = Inr []"
| "project_facts v (f # fs) =
     (case project_cancellation_fact f of
        Inl _ \<Rightarrow> Inl (UnknownDispositionKey f)
      | Inr k \<Rightarrow> rbind (project_facts v fs) (\<lambda>d. Inr ((k, VBool v) # d)))"

definition project_governance_facts ::
  "outcome_record_intent \<Rightarrow> (mw_result, pydict option) result" where
  "project_governance_facts rec =
     (if oi_governance_facts rec = [] then Inr None
      else rbind (project_facts (oi_governance_facts_value rec) (oi_governance_facts rec))
             (\<lambda>d. Inr (Some d)))"

definition emit_planned_outcome ::
  "mw_env \<Rightarrow> admission_plan \<Rightarrow> receipt_context \<Rightarrow> request_snapshot \<Rightarrow> string \<Rightarrow> tool_value
    \<Rightarrow> execution_observation \<Rightarrow> string option \<Rightarrow> mw_state
    \<Rightarrow> (mw_result, unit) result \<times> mw_state" where
  "emit_planned_outcome env plan ctx snap aref v ob digest s =
     (case plan_outcome_strict plan ob of
        Inl e \<Rightarrow> (Inl (CoreErrorRaised e), s)
      | Inr outp \<Rightarrow>
         (case op_record outp of
            None \<Rightarrow> (Inr (), s)
          | Some rec \<Rightarrow>
             (case project_binding_outcome (oi_outcome rec) of
                Inl e \<Rightarrow> (Inl e, s)
              | Inr out \<Rightarrow>
                  (Inr (), emit_post_execution_outcome env ctx snap aref v out
                             (if oi_carries_result_digest rec then digest else None) s))))"

definition project_core_outcome ::
  "mw_env \<Rightarrow> admission_plan \<Rightarrow> execution_observation \<Rightarrow> receipt_context \<Rightarrow> request_snapshot
    \<Rightarrow> string \<Rightarrow> token \<Rightarrow> string option \<Rightarrow> pydict option \<Rightarrow> mw_state
    \<Rightarrow> (mw_result, unit) result \<times> mw_state" where
  "project_core_outcome env plan ob ctx snap aref frozen exc frozen_fields s =
     (case plan_outcome_strict plan ob of
        Inl e \<Rightarrow> (Inl (CoreErrorRaised e), s)
      | Inr outp \<Rightarrow>
         (case op_record outp of
            None \<Rightarrow> (Inr (), s)
          | Some rec \<Rightarrow>
             (case project_binding_outcome (oi_outcome rec) of
                Inl e \<Rightarrow> (Inl e, s)
              | Inr out \<Rightarrow>
                  if out \<noteq> frozen then (Inl ToolErrorDiverged, s)
                  else if oi_carries_result_digest rec then (Inl ToolErrorDiverged, s)
                  else (case project_governance_facts rec of
                      Inl e \<Rightarrow> (Inl e, s)
                    | Inr facts \<Rightarrow>
                        if facts \<noteq> frozen_fields then (Inl ToolErrorDiverged, s)
                        else (Inr (), emit_outcome_best_effort env ctx snap aref out None exc
                                        facts s)))))"

section \<open>Result projection\<close>

text \<open>\<^verbatim>\<open>_jsonable\<close>: scalars stay, mappings and sequences convert their items; for bytes and other
  objects the result is what the object's own dump method or \<^verbatim>\<open>str\<close> gives, a parameter.\<close>

fun jsonable :: "(pyv \<Rightarrow> pyv) \<Rightarrow> pyv \<Rightarrow> pyv"
  and jsonable_map :: "(pyv \<Rightarrow> pyv) \<Rightarrow> (string \<times> pyv) list \<Rightarrow> (string \<times> pyv) list"
  and jsonable_list :: "(pyv \<Rightarrow> pyv) \<Rightarrow> pyv list \<Rightarrow> pyv list" where
  "jsonable dump (VMap kvs) = VMap (jsonable_map dump kvs)"
| "jsonable dump (VList xs) = VList (jsonable_list dump xs)"
| "jsonable dump (VTuple xs) = VList (jsonable_list dump xs)"
| "jsonable dump (VBytes b) = dump (VBytes b)"
| "jsonable dump (VObj c) = dump (VObj c)"
| "jsonable dump VNone = VNone"
| "jsonable dump (VBool b) = VBool b"
| "jsonable dump (VInt i) = VInt i"
| "jsonable dump (VFloat f) = VFloat f"
| "jsonable dump (VStr t) = VStr t"
| "jsonable_map dump [] = []"
| "jsonable_map dump ((k, v) # kvs) = (k, jsonable dump v) # jsonable_map dump kvs"
| "jsonable_list dump [] = []"
| "jsonable_list dump (x # xs) = jsonable dump x # jsonable_list dump xs"

definition result_projection ::
  "mw_env \<Rightarrow> pyv \<Rightarrow> pyv \<Rightarrow> pyv \<Rightarrow> pyv \<Rightarrow> pydict" where
  "result_projection env content structured meta is_error =
     [(''content'', jsonable (en_dump env) content),
      (''structuredContent'', jsonable (en_dump env) structured),
      (''_meta'', jsonable (en_dump env) meta),
      (''isError'', VBool (truthy is_error))]"

text \<open>The projection raises what the canonicaliser raises; the error is its class name.\<close>

definition project_fastmcp_tool_result ::
  "mw_env \<Rightarrow> pyv \<Rightarrow> pyv \<Rightarrow> pyv \<Rightarrow> pyv \<Rightarrow> (string, pydict) result" where
  "project_fastmcp_tool_result env content structured meta is_error =
    (let p = result_projection env content structured meta is_error in
     case cr_canon (en_crypto env) (VMap p) of
       None \<Rightarrow> Inl (en_canon_exc env) | Some _ \<Rightarrow> Inr p)"

text \<open>The block that projects, shows the projection to the observer, digests it and classifies the
  result. An ordinary exception of the observer is a failure of the block; anything else it
  raises escapes.\<close>

datatype observed = ProjectionFailed string | ObserverEscapes pyexc
  | Projected string execution_observation

definition observe_result :: "mw_env \<Rightarrow> pyv \<Rightarrow> pyv \<Rightarrow> pyv \<Rightarrow> pyv \<Rightarrow> observed" where
  "observe_result env content structured meta is_error =
    (case project_fastmcp_tool_result env content structured meta is_error of
       Inl cls \<Rightarrow> ProjectionFailed cls
     | Inr p \<Rightarrow>
        (case (case cf_observer (en_config env) of Some f \<Rightarrow> f (VMap p) | None \<Rightarrow> None) of
           Some e \<Rightarrow> if is_exception e then ProjectionFailed (classified_exception e)
                     else ObserverEscapes e
         | None \<Rightarrow>
            (case fastmcp_tool_result_digest (en_crypto env)
                    (jsonable (en_dump env) content) (jsonable (en_dump env) structured)
                    (jsonable (en_dump env) meta) (truthy is_error) of
               Inl e \<Rightarrow> ProjectionFailed (receipt_failure_class e)
             | Inr d \<Rightarrow>
                 Projected d
                   \<lparr>ob_observation = (if truthy is_error then ''error'' else ''result''),
                    ob_exception_class = None, ob_input_required_mode = None\<rparr>)))"

section \<open>Review objects\<close>

definition review_payload ::
  "mw_env \<Rightarrow> request_snapshot \<Rightarrow> actor_resolution \<Rightarrow> string \<Rightarrow> pydict" where
  "review_payload env snap actor created_at =
     [(''review_object_type'', VStr ''mcp_tool_call''),
      (''governance_state'', VStr ''pending''),
      (''context_payload'',
         VMap [(''tool_name'', VStr (rs_tool_name snap)),
               (''argument_digest'', VStr (rs_arguments_digest snap)),
               (''actor_ref'', VStr (ac_actor_ref actor)),
               (''logical_call_id'', VStr (rs_logical_call_id snap))]),
      (''allowed_actions'', strs [''approve'', ''reject'', ''defer'']),
      (''created_at'', VStr created_at),
      (''origin_event_id'', vopt (rs_request_ref snap))]"

definition review_create_payload :: "request_snapshot \<Rightarrow> actor_resolution \<Rightarrow> pydict" where
  "review_create_payload snap actor =
     [(''review_object_type'', VStr ''mcp_tool_call''),
      (''governance_state'', VStr ''pending''),
      (''tool_name'', VStr (rs_tool_name snap)),
      (''argument_digest'', VStr (rs_arguments_digest snap)),
      (''actor_ref'', VStr (ac_actor_ref actor)),
      (''logical_call_id'', VStr (rs_logical_call_id snap))]"

definition create_review_object ::
  "mw_env \<Rightarrow> request_snapshot \<Rightarrow> actor_resolution \<Rightarrow> binding_policy \<Rightarrow> pyexc + string" where
  "create_review_object env snap actor pol =
    (case cf_review_creator (en_config env) of
       None \<Rightarrow> Inl (PyException ''RuntimeError'')
     | Some c \<Rightarrow>
        (case (case c of
             CallableCreator f \<Rightarrow> await_call (f snap actor pol)
           | ReviewObjectMethod f \<Rightarrow> await_call (f (review_payload env snap actor (en_clock env 0)))
           | CreateMethod f \<Rightarrow> await_call (f (review_create_payload snap actor))
           | NoCreatorMethod \<Rightarrow> Inl (PyException ''TypeError'')) of
           Inl e \<Rightarrow> Inl e
         | Inr (VStr r) \<Rightarrow> if r = [] then Inl (PyException ''RuntimeError'') else Inr r
         | Inr _ \<Rightarrow> Inl (PyException ''RuntimeError'')))"

section \<open>The call\<close>

definition terminal_admission ::
  "mw_env \<Rightarrow> admission_plan \<Rightarrow> receipt_context \<Rightarrow> request_snapshot \<Rightarrow> binding_policy
    \<Rightarrow> string option \<Rightarrow> mw_state \<Rightarrow> mw_result \<times> mw_state" where
  "terminal_admission env plan ctx snap pol review s =
    (case ap_record plan of
       None \<Rightarrow> (AssertionRaised, s)
     | Some rec \<Rightarrow>
        (case project_disposition (ai_disposition rec) of
           Inl _ \<Rightarrow> (UnknownDispositionKey (ai_disposition rec), s)
         | Inr disp \<Rightarrow>
            if ai_disposition rec = ''refused'' then
              (let reason = (if ap_requested plan = ''deferred'' then ai_reason_code rec
                             else Some (binding_refusal_reason_code pol)) in
               case mw_emit_admission env ctx snap pol disp None None reason s of
                 (Inr _, s1) \<Rightarrow> (ToolErrorRefused, s1)
               | (Inl e, s1) \<Rightarrow>
                   (ToolErrorRefused, record_receipt_failure env ctx snap ''admission'' None None
                      (receipt_failure_class e) s1))
            else
              (case mw_emit_admission env ctx snap pol disp review (ai_retry_contract rec) None s of
                 (Inr _, s1) \<Rightarrow> (ToolErrorDeferred review, s1)
               | (Inl e, s1) \<Rightarrow>
                   (ToolErrorReviewReceipt, record_receipt_failure env ctx snap ''admission'' None
                      None (receipt_failure_class e) s1))))"

definition pre_execution_failure_mode :: "mw_config \<Rightarrow> token \<Rightarrow> token" where
  "pre_execution_failure_mode cf cls =
     (case dget (cf_pre_failure cf) cls of Some m \<Rightarrow> m | None \<Rightarrow> ''fail_closed'')"

text \<open>The review object of a deferral: its reference, whether it was created, and the state after
  a recorded failure; an exception that the handler does not catch escapes.\<close>

definition prepare_review ::
  "mw_env \<Rightarrow> receipt_context \<Rightarrow> request_snapshot \<Rightarrow> actor_resolution \<Rightarrow> binding_policy
    \<Rightarrow> token \<Rightarrow> mw_state
    \<Rightarrow> (mw_result, string option \<times> bool option) result \<times> mw_state" where
  "prepare_review env ctx snap actor pol disp s =
    (if disp \<noteq> ''deferred'' then (Inr (None, None), s)
     else
      (let s1 = s\<lparr>mw_trace := mw_trace s @ [ReviewRequested]\<rparr> in
       case create_review_object env snap actor pol of
         Inr r \<Rightarrow> (Inr (Some r, Some True), s1)
       | Inl e \<Rightarrow>
          if is_exception e
          then (Inr (None, Some False), record_review_failure env ctx snap (exc_class e) s1)
          else (Inl (ResolverRaised e), s1)))"

text \<open>The admission receipt of an admitted call: its reference (if one was accepted), or the
  fail-closed error.\<close>

definition observe_admission ::
  "mw_env \<Rightarrow> admission_plan \<Rightarrow> receipt_context \<Rightarrow> request_snapshot \<Rightarrow> binding_policy
    \<Rightarrow> mw_state \<Rightarrow> (mw_result, string option) result \<times> mw_state" where
  "observe_admission env plan ctx snap pol s =
    (if \<not> ap_admission_recorded plan then (Inr None, s)
     else
      (case mw_emit_admission env ctx snap pol ''admitted'' None None None s of
         (Inr rid, s1) \<Rightarrow> (Inr (Some rid), s1)
       | (Inl e, s1) \<Rightarrow>
           (let s2 = record_receipt_failure env ctx snap ''admission'' None None
                       (receipt_failure_class e) s1
            in if pre_execution_failure_mode (en_config env) (bp_tool_class pol) = ''fail_closed''
               then (Inl ToolErrorAdmissionReceipt, s2) else (Inr None, s2))))"

definition CANCELLATION_LITERAL :: pydict where
  "CANCELLATION_LITERAL =
     [(''request_cancelled'', VBool True), (''execution_state_unknown'', VBool True),
      (''delivery_incomplete'', VBool True)]"

definition simple_observation :: "token \<Rightarrow> string option \<Rightarrow> execution_observation" where
  "simple_observation t cls =
     \<lparr>ob_observation = t, ob_exception_class = cls, ob_input_required_mode = None\<rparr>"

definition after_raise ::
  "mw_env \<Rightarrow> admission_plan \<Rightarrow> receipt_context \<Rightarrow> request_snapshot \<Rightarrow> string option \<Rightarrow> pyexc
    \<Rightarrow> mw_state \<Rightarrow> mw_result \<times> mw_state" where
  "after_raise env plan ctx snap aref e s =
    (let projected =
       (case aref of
          None \<Rightarrow> (Inr (), s)
        | Some r \<Rightarrow>
           (case e of
              PyCancelled \<Rightarrow>
                project_core_outcome env plan (simple_observation ''cancellation'' None) ctx snap r
                  ''indeterminate'' None (Some CANCELLATION_LITERAL) s
            | PyTimeout cls \<Rightarrow>
                project_core_outcome env plan (simple_observation ''timeout'' None) ctx snap r
                  ''exception'' (Some cls) None s
            | PyException cls \<Rightarrow>
                project_core_outcome env plan (simple_observation ''exception'' (Some cls)) ctx snap
                  r ''exception'' (Some cls) None s
            | PyBase _ \<Rightarrow> (Inr (), s)))
     in (case fst projected of Inl err \<Rightarrow> err | Inr _ \<Rightarrow> HandlerRaised e, snd projected))"

definition after_return ::
  "mw_env \<Rightarrow> admission_plan \<Rightarrow> receipt_context \<Rightarrow> request_snapshot \<Rightarrow> string option
    \<Rightarrow> tool_value \<Rightarrow> mw_state \<Rightarrow> mw_result \<times> mw_state" where
  "after_return env plan ctx snap aref v s =
    (case aref of
       None \<Rightarrow> (Returned v, s)
     | Some r \<Rightarrow>
        (let finish = (\<lambda>ob digest.
               case emit_planned_outcome env plan ctx snap r v ob digest s of
                 (Inl err, s1) \<Rightarrow> (err, s1) | (Inr _, s1) \<Rightarrow> (Returned v, s1)) in
         case v of
           TaskResult \<Rightarrow> finish (simple_observation ''task_submitted'' None) None
         | ToolValue content structured meta is_error \<Rightarrow>
            (case observe_result env content structured meta is_error of
               ProjectionFailed cls \<Rightarrow>
                 (Returned v, record_receipt_failure env ctx snap ''outcome''
                    (Some ''result_returned'') (Some r) cls s)
             | ObserverEscapes e \<Rightarrow> (ResolverRaised e, s)
             | Projected digest ob \<Rightarrow> finish ob (Some digest))))"

definition execute_call ::
  "mw_env \<Rightarrow> admission_plan \<Rightarrow> receipt_context \<Rightarrow> request_snapshot \<Rightarrow> string option
    \<Rightarrow> handler_outcome \<Rightarrow> mw_state \<Rightarrow> mw_result \<times> mw_state" where
  "execute_call env plan ctx snap aref handler s =
    (let s1 = s\<lparr>mw_trace := mw_trace s @ [HandlerCalled]\<rparr> in
     case handler of
       HandlerRaises e \<Rightarrow> after_raise env plan ctx snap aref e s1
     | HandlerReturns v \<Rightarrow> after_return env plan ctx snap aref v s1)"

text \<open>The lifecycle around the inner handler under a given receipt context, and with the context the
  middleware builds.\<close>

definition governed_call_under ::
  "mw_env \<Rightarrow> receipt_context \<Rightarrow> request_snapshot \<Rightarrow> actor_resolution \<Rightarrow> binding_policy
    \<Rightarrow> handler_outcome \<Rightarrow> mw_state \<Rightarrow> mw_result \<times> mw_state" where
  "governed_call_under env ctx snap actor pol handler s =
    (case to_neutral_disposition (bp_disposition pol) of
       None \<Rightarrow> (UnknownDispositionKey (bp_disposition pol), s)
     | Some disp \<Rightarrow>
        (case prepare_review env ctx snap actor pol disp s of
           (Inl err, s1) \<Rightarrow> (err, s1)
         | (Inr (review, created), s1) \<Rightarrow>
            (case plan_admission (neutral_admission_request (en_config env) pol disp created) of
               Inl e \<Rightarrow> (CoreErrorRaised e, s1)
             | Inr plan \<Rightarrow>
                if \<not> ap_execution_proceeds plan
                then terminal_admission env plan ctx snap pol review s1
                else (case observe_admission env plan ctx snap pol s1 of
                    (Inl err, s2) \<Rightarrow> (err, s2)
                  | (Inr aref, s2) \<Rightarrow> execute_call env plan ctx snap aref handler s2))))"

definition governed_call ::
  "mw_env \<Rightarrow> request_snapshot \<Rightarrow> actor_resolution \<Rightarrow> binding_policy \<Rightarrow> handler_outcome
    \<Rightarrow> mw_state \<Rightarrow> mw_result \<times> mw_state" where
  "governed_call env snap actor pol handler s =
     governed_call_under env (mw_receipt_context (en_config env) snap actor pol) snap actor pol
       handler s"

definition on_call_tool ::
  "mw_env \<Rightarrow> call_message \<Rightarrow> handler_outcome \<Rightarrow> mw_state \<Rightarrow> mw_result \<times> mw_state" where
  "on_call_tool env msg handler s =
    (case snapshot_request env msg of
       Inl e \<Rightarrow> (ReceiptErrorRaised e, s)
     | Inr snap \<Rightarrow>
        (case resolve_actor env snap of
           Inl err \<Rightarrow> (err, s)
         | Inr actor \<Rightarrow>
            (case resolve_policy (en_config env) snap actor of
               Inl err \<Rightarrow> (err, s)
             | Inr pol \<Rightarrow> governed_call env snap actor pol handler s)))"

end
