(* ===== verification/FastmcpFacts.thy ===== *)
theory FastmcpFacts
  imports FastmcpBinding SrsEmissionFacts
begin

text \<open>What the middleware guarantees: the effects of a call form one of a few traces, the handler
  runs only after the core admitted the call, a refused or deferred call writes at most one
  receipt, the frozen literals of the outcome branches never diverge from the core's plan, and a
  call that records no failure writes exactly the receipts the neutral plan counts.\<close>

section \<open>Effects of the helpers\<close>

lemma add_telemetry_simps [simp]:
  "mw_trace (add_telemetry ev s) = mw_trace s"
  "mw_sink (add_telemetry ev s) = mw_sink s"
  "mw_telemetry (add_telemetry ev s) = mw_telemetry s @ [ev]"
  by (simp_all add: add_telemetry_def)

lemma spool_keeps [simp]:
  "mw_trace (append_emergency_spool env ev s) = mw_trace s"
  "mw_sink (append_emergency_spool env ev s) = mw_sink s"
  "length (mw_telemetry s) \<le> length (mw_telemetry (append_emergency_spool env ev s))"
  by (auto simp: append_emergency_spool_def split: list.splits option.splits prod.splits)

lemma receipt_failure_keeps [simp]:
  "mw_trace (record_receipt_failure env ctx snap kind out aref cls s) = mw_trace s"
  "mw_sink (record_receipt_failure env ctx snap kind out aref cls s) = mw_sink s"
  by (simp_all add: record_receipt_failure_def Let_def)

lemma receipt_failure_telemetry [simp]:
  "length (mw_telemetry s)
     < length (mw_telemetry (record_receipt_failure env ctx snap kind out aref cls s))"
  unfolding record_receipt_failure_def Let_def
  by (rule less_le_trans[OF _ spool_keeps(3)]) simp

lemma review_failure_simps [simp]:
  "mw_trace (record_review_failure env ctx snap cls s) = mw_trace s"
  "mw_sink (record_review_failure env ctx snap cls s) = mw_sink s"
  "length (mw_telemetry (record_review_failure env ctx snap cls s)) = Suc (length (mw_telemetry s))"
  by (simp_all add: record_review_failure_def)

text \<open>One emission: on acceptance one receipt in the trace and nothing in the telemetry, on failure
  neither.\<close>

definition one_receipt :: "mw_state \<Rightarrow> mw_state \<Rightarrow> string \<Rightarrow> bool" where
  "one_receipt s s' rid = (mw_trace s' = mw_trace s @ [ReceiptWritten rid]
     \<and> mw_telemetry s' = mw_telemetry s)"

lemma after_emit_Inr:
  assumes "after_emit rsk s = (Inr rid, s')"
  shows "one_receipt s s' rid" "rsk = (Inr rid, mw_sink s')"
  using assms by (cases rsk; auto simp: after_emit_def one_receipt_def)+

lemma after_emit_Inl:
  assumes "after_emit rsk s = (Inl e, s')"
  shows "mw_trace s' = mw_trace s" "mw_telemetry s' = mw_telemetry s" "rsk = (Inl e, mw_sink s')"
  using assms by (cases rsk; auto simp: after_emit_def)+

text \<open>An outcome attempt adds one receipt or grows the telemetry, never both.\<close>

definition tried_outcome :: "mw_state \<Rightarrow> mw_state \<Rightarrow> bool" where
  "tried_outcome s s' =
     ((\<exists>rid. one_receipt s s' rid)
      \<or> (mw_trace s' = mw_trace s \<and> length (mw_telemetry s) < length (mw_telemetry s')))"

lemma best_effort_tried:
  "tried_outcome s (emit_outcome_best_effort env ctx snap aref out digest exc owned s)"
proof (cases "mw_emit_outcome env ctx snap aref out digest exc owned s")
  case (Pair r s1)
  show ?thesis
  proof (cases r)
    case (Inl e)
    note k = after_emit_Inl[OF Pair[unfolded mw_emit_outcome_def Inl]]
    have "length (mw_telemetry s) < length (mw_telemetry
        (record_receipt_failure env ctx snap ''outcome'' (Some out) (Some aref)
          (receipt_failure_class e) s1))"
      using k(2) receipt_failure_telemetry[of s1] by simp
    with Inl Pair k show ?thesis by (simp add: emit_outcome_best_effort_def tried_outcome_def)
  next
    case (Inr rid)
    with Pair after_emit_Inr(1)[OF Pair[unfolded mw_emit_outcome_def Inr]] show ?thesis
      by (auto simp: emit_outcome_best_effort_def tried_outcome_def)
  qed
qed

lemma post_execution_tried:
  "tried_outcome s (emit_post_execution_outcome env ctx snap aref v out digest s)"
proof (cases "mw_emit_outcome env ctx snap aref out digest None None s")
  case (Pair r s1)
  show ?thesis
  proof (cases r)
    case (Inl e)
    note k = after_emit_Inl[OF Pair[unfolded mw_emit_outcome_def Inl]]
    have "length (mw_telemetry s) < length (mw_telemetry
        (record_receipt_failure env ctx snap ''outcome'' (Some out) (Some aref)
          (receipt_failure_class e) s1))"
      using k(2) receipt_failure_telemetry[of s1] by simp
    with Inl Pair k show ?thesis
      by (simp add: emit_post_execution_outcome_def tried_outcome_def Let_def)
  next
    case (Inr rid)
    with Pair after_emit_Inr(1)[OF Pair[unfolded mw_emit_outcome_def Inr]] show ?thesis
      by (auto simp: emit_post_execution_outcome_def tried_outcome_def)
  qed
qed

section \<open>The frozen literals agree with the core\<close>

definition live_plan :: "admission_plan \<Rightarrow> bool" where
  "live_plan plan = (ap_execution_proceeds plan \<and> ap_admission_recorded plan)"

lemma project_binding_outcome_simps [simp]:
  "project_binding_outcome ''result'' = Inr ''result_returned''"
  "project_binding_outcome ''error'' = Inr ''error_returned''"
  "project_binding_outcome ''exception'' = Inr ''exception''"
  "project_binding_outcome ''task_submitted'' = Inr ''task_submitted''"
  "project_binding_outcome ''cancellation'' = Inr ''indeterminate''"
  by (simp_all add: project_binding_outcome_def project_outcome_def OUTCOME_MASK_def)

lemmas planned_outcome_defs = plan_outcome_strict_def plan_outcome_def outcome_record_def
  raise_unsupported_def simple_observation_def live_plan_def Let_def

lemma core_cancellation:
  assumes "live_plan plan"
  shows "project_core_outcome env plan (simple_observation ''cancellation'' None) ctx snap r
           ''indeterminate'' None (Some CANCELLATION_LITERAL) s
       = (Inr (), emit_outcome_best_effort env ctx snap r ''indeterminate'' None None
                    (Some CANCELLATION_LITERAL) s)"
  using assms
  by (simp add: project_core_outcome_def planned_outcome_defs vocab CANCELLATION_LITERAL_def
      project_governance_facts_def)

lemma core_timeout:
  assumes "live_plan plan"
  shows "project_core_outcome env plan (simple_observation ''timeout'' None) ctx snap r
           ''exception'' cls None s
       = (Inr (), emit_outcome_best_effort env ctx snap r ''exception'' None cls None s)"
  using assms
  by (simp add: project_core_outcome_def planned_outcome_defs vocab project_governance_facts_def)

lemma core_exception:
  assumes "live_plan plan"
  shows "project_core_outcome env plan (simple_observation ''exception'' (Some c)) ctx snap r
           ''exception'' cls None s
       = (Inr (), emit_outcome_best_effort env ctx snap r ''exception'' None cls None s)"
  using assms
  by (simp add: project_core_outcome_def planned_outcome_defs vocab project_governance_facts_def)

lemma core_planned_result:
  assumes "live_plan plan" and "b \<in> {''result'', ''error'', ''task_submitted''}"
  shows "\<exists>out. emit_planned_outcome env plan ctx snap r v (simple_observation b None) digest s
       = (Inr (), emit_post_execution_outcome env ctx snap r v out
            (if b = ''task_submitted'' then None else digest) s)
     \<and> outcome_projection b = Some (''direct'', Some out)"
  using assms
  by (auto simp: emit_planned_outcome_def planned_outcome_defs vocab)

section \<open>The phases of a call\<close>

text \<open>Errors that would mean the adapter and the core disagree.\<close>

definition disagreement :: "mw_result \<Rightarrow> bool" where
  "disagreement r =
     (r = ToolErrorDiverged \<or> r = ToolErrorNoToken \<or> r = AssertionRaised
      \<or> (\<exists>e. r = CoreErrorRaised e))"

lemma after_raise_cases:
  assumes "aref = None \<or> live_plan plan"
    and "after_raise env plan ctx snap aref e s = (r, s')"
  shows "r = HandlerRaised e"
    and "if aref = None \<or> (\<exists>c. e = PyBase c) then s' = s else tried_outcome s s'"
proof -
  have "r = HandlerRaised e \<and>
      (if aref = None \<or> (\<exists>c. e = PyBase c) then s' = s else tried_outcome s s')"
  proof (cases aref)
    case None
    with assms(2) show ?thesis by (simp add: after_raise_def)
  next
    case (Some a)
    with assms(1) have live: "live_plan plan" by simp
    show ?thesis using Some assms(2) live
      by (cases e) (auto simp: after_raise_def core_exception core_timeout core_cancellation
          intro: best_effort_tried)
  qed
  then show "r = HandlerRaised e"
    "if aref = None \<or> (\<exists>c. e = PyBase c) then s' = s else tried_outcome s s'" by blast+
qed

lemma finish_result:
  assumes "live_plan plan" "b \<in> {''result'', ''error'', ''task_submitted''}"
    and "(case emit_planned_outcome env plan ctx snap a v (simple_observation b None) digest s of
            (Inl err, s1) \<Rightarrow> (err, s1) | (Inr _, s1) \<Rightarrow> (Returned v, s1)) = (r, s')"
  shows "r = Returned v \<and> tried_outcome s s'"
  using core_planned_result[OF assms(1,2), of env ctx snap a v digest s] assms(3)
  by (auto intro: post_execution_tried)

lemma observe_result_Projected:
  assumes "observe_result env c st m is_error = Projected d ob"
  shows "ob = simple_observation (if truthy is_error then ''error'' else ''result'') None"
  using assms
  by (auto simp: observe_result_def simple_observation_def split: sum.splits option.splits if_splits)

lemma after_return_cases:
  assumes "aref = None \<or> live_plan plan"
    and "after_return env plan ctx snap aref v s = (r, s')"
  shows "(r = Returned v \<and> (if aref = None then s' = s else tried_outcome s s'))
       \<or> ((\<exists>e. r = ResolverRaised e) \<and> s' = s)"
proof (cases aref)
  case None
  with assms(2) show ?thesis by (simp add: after_return_def)
next
  case (Some a)
  with assms(1) have live: "live_plan plan" by simp
  show ?thesis
  proof (cases v)
    case TaskResult
    then show ?thesis
      using Some assms(2) finish_result[OF live, of "''task_submitted''"]
      by (simp add: after_return_def Let_def)
  next
    case (ToolValue c st m is_error)
    show ?thesis
    proof (cases "observe_result env c st m is_error")
      case (ProjectionFailed cls)
      with Some ToolValue assms(2) show ?thesis
        by (auto simp: after_return_def Let_def tried_outcome_def)
    next
      case (ObserverEscapes e)
      with Some ToolValue assms(2) show ?thesis by (auto simp: after_return_def Let_def)
    next
      case (Projected d ob)
      have "r = Returned v \<and> tried_outcome s s'"
        using Some ToolValue Projected assms(2) observe_result_Projected[OF Projected]
        by (intro finish_result[OF live, where b = "if truthy is_error then ''error'' else ''result''"
              and digest = "Some d"]) (auto simp: after_return_def Let_def)
      with Some show ?thesis by simp
    qed
  qed
qed

lemma terminal_cases:
  assumes plan: "plan_admission req = Inr plan" "\<not> ap_execution_proceeds plan"
    and t: "terminal_admission env plan ctx snap pol review s = (r, s')"
  shows "r \<in> {ToolErrorRefused, ToolErrorDeferred review, ToolErrorReviewReceipt}
    \<and> tried_outcome s s'"
proof -
  obtain rec where rec: "ap_record plan = Some rec"
    using plan_admission_record_iff[OF plan(1)] not_admitted_plan(4)[OF plan] by auto
  have d: "ai_disposition rec = ''refused'' \<or> ai_disposition rec = ''deferred''"
    using plan(1) rec plan(2) by (cases rule: plan_admission_cases)
      (auto simp: admission_record_def split: if_splits)
  have em: "tried_outcome s
      (record_receipt_failure env ctx snap ''admission'' None None (receipt_failure_class e) s1)"
    if "mw_emit_admission env ctx snap pol disp a b c s = (Inl e, s1)" for disp a b c e s1
    using after_emit_Inl[OF that[unfolded mw_emit_admission_def]] receipt_failure_telemetry[of s1]
    by (simp add: tried_outcome_def)
  have ok: "tried_outcome s s1"
    if "mw_emit_admission env ctx snap pol disp a b c s = (Inr rid, s1)" for disp a b c rid s1
    using after_emit_Inr(1)[OF that[unfolded mw_emit_admission_def]] by (auto simp: tried_outcome_def)
  from d show ?thesis
  proof
    assume "ai_disposition rec = ''refused''"
    with t rec show ?thesis
      by (auto simp: terminal_admission_def Let_def split: prod.splits sum.splits
          intro: em ok)
  next
    assume "ai_disposition rec = ''deferred''"
    with t rec show ?thesis
      by (auto simp: terminal_admission_def Let_def split: prod.splits sum.splits
          intro: em ok)
  qed
qed

text \<open>Observing the admission of an admitted call either gives a reference with one receipt, or
  gives none: because the plan records none, or because a failure was recorded and the mode is
  not fail-closed; in the fail-closed mode the call stops.\<close>

lemma observe_admission_cases:
  assumes "observe_admission env plan ctx snap pol s = (r, s')"
  obtains
    (recorded) rid where "r = Inr (Some rid)" "one_receipt s s' rid" "ap_admission_recorded plan"
  | (skipped) "r = Inr None" "s' = s" "\<not> ap_admission_recorded plan"
  | (open_gap) "r = Inr None" "mw_trace s' = mw_trace s" "ap_admission_recorded plan"
      "length (mw_telemetry s) < length (mw_telemetry s')"
      "pre_execution_failure_mode (en_config env) (bp_tool_class pol) \<noteq> ''fail_closed''"
  | (closed) "r = Inl ToolErrorAdmissionReceipt" "mw_trace s' = mw_trace s"
      "ap_admission_recorded plan" "length (mw_telemetry s) < length (mw_telemetry s')"
proof (cases "ap_admission_recorded plan")
  case False
  then show ?thesis using assms skipped by (simp add: observe_admission_def)
next
  case True
  obtain q s1 where e: "mw_emit_admission env ctx snap pol ''admitted'' None None None s = (q, s1)"
    by fastforce
  show ?thesis
  proof (cases q)
    case (Inr rid)
    then show ?thesis using assms e True recorded after_emit_Inr(1)[OF e[unfolded mw_emit_admission_def Inr]]
      by (auto simp: observe_admission_def)
  next
    case (Inl err)
    define s2 where "s2 = record_receipt_failure env ctx snap ''admission'' None None
        (receipt_failure_class err) s1"
    have k: "mw_trace s2 = mw_trace s" "length (mw_telemetry s) < length (mw_telemetry s2)"
      using after_emit_Inl[OF e[unfolded mw_emit_admission_def Inl]] receipt_failure_telemetry[of s1]
      by (simp_all add: s2_def)
    show ?thesis
    proof (cases "pre_execution_failure_mode (en_config env) (bp_tool_class pol) = ''fail_closed''")
      case True
      then show ?thesis using assms e Inl \<open>ap_admission_recorded plan\<close> closed k
        by (simp add: observe_admission_def s2_def Let_def)
    next
      case False
      then show ?thesis using assms e Inl \<open>ap_admission_recorded plan\<close> open_gap k
        by (simp add: observe_admission_def s2_def Let_def)
    qed
  qed
qed

section \<open>The whole call\<close>

definition receipts_in :: "mw_effect list \<Rightarrow> nat" where
  "receipts_in tr = length (filter (\<lambda>e. case e of ReceiptWritten _ \<Rightarrow> True | _ \<Rightarrow> False) tr)"

lemma receipts_in_simps [simp]:
  "receipts_in [] = 0" "receipts_in (ReceiptWritten r # tr) = Suc (receipts_in tr)"
  "receipts_in (HandlerCalled # tr) = receipts_in tr"
  "receipts_in (ReviewRequested # tr) = receipts_in tr"
  by (simp_all add: receipts_in_def)

text \<open>The neutral observation of how the handler ended.\<close>

definition observation_of :: "handler_outcome \<Rightarrow> execution_observation" where
  "observation_of h =
     (case h of
        HandlerReturns TaskResult \<Rightarrow> simple_observation ''task_submitted'' None
      | HandlerReturns (ToolValue _ _ _ is_error) \<Rightarrow>
          simple_observation (if truthy is_error then ''error'' else ''result'') None
      | HandlerRaises PyCancelled \<Rightarrow> simple_observation ''cancellation'' None
      | HandlerRaises (PyTimeout _) \<Rightarrow> simple_observation ''timeout'' None
      | HandlerRaises (PyException c) \<Rightarrow> simple_observation ''exception'' (Some c)
      | HandlerRaises (PyBase c) \<Rightarrow> simple_observation ''exception'' (Some c))"

lemma execute_cases:
  assumes "aref = None \<or> live_plan plan"
    and "execute_call env plan ctx snap aref h s = (r, s')"
  obtains (returned) v where "h = HandlerReturns v" "r = Returned v \<or> (\<exists>e. r = ResolverRaised e)"
    | (raised) e where "h = HandlerRaises e" "r = HandlerRaised e"
proof (cases h)
  case (HandlerReturns v)
  have "r = Returned v \<or> (\<exists>e. r = ResolverRaised e)"
    using after_return_cases[OF assms(1)] assms(2) HandlerReturns
    by (fastforce simp: execute_call_def)
  with HandlerReturns show ?thesis by (rule returned)
next
  case (HandlerRaises e)
  have "r = HandlerRaised e"
    using after_raise_cases(1)[OF assms(1)] assms(2) HandlerRaises
    by (simp add: execute_call_def)
  with HandlerRaises show ?thesis by (rule raised)
qed

text \<open>The effects of the execution phase: the handler call, then at most one outcome receipt; and
  when nothing was recorded as failed, exactly one, unless there is no admission reference or
  the handler raised something no handler catches.\<close>

lemma execute_trace:
  assumes "aref = None \<or> live_plan plan"
    and "execute_call env plan ctx snap aref h s = (r, s')"
  shows "(mw_trace s' = mw_trace s @ [HandlerCalled]
           \<and> (aref = None \<or> (\<exists>c. h = HandlerRaises (PyBase c)) \<or> (\<exists>e. r = ResolverRaised e)
               \<or> length (mw_telemetry s) < length (mw_telemetry s')))
       \<or> (\<exists>rid. mw_trace s' = mw_trace s @ [HandlerCalled, ReceiptWritten rid]
             \<and> mw_telemetry s' = mw_telemetry s \<and> aref \<noteq> None)"
    and "aref = None \<Longrightarrow> mw_trace s' = mw_trace s @ [HandlerCalled]
           \<and> mw_telemetry s' = mw_telemetry s"
proof -
  let ?s1 = "s\<lparr>mw_trace := mw_trace s @ [HandlerCalled]\<rparr>"
  have "s' = ?s1 \<and> (aref = None \<or> (\<exists>c. h = HandlerRaises (PyBase c)) \<or> (\<exists>e. r = ResolverRaised e))
      \<or> tried_outcome ?s1 s' \<and> aref \<noteq> None"
  proof (cases h)
    case (HandlerReturns v)
    then have a: "after_return env plan ctx snap aref v ?s1 = (r, s')"
      using assms(2) by (simp add: execute_call_def)
    show ?thesis using after_return_cases[OF assms(1) a] by (cases aref) auto
  next
    case (HandlerRaises e)
    then have a: "after_raise env plan ctx snap aref e ?s1 = (r, s')"
      using assms(2) by (simp add: execute_call_def)
    show ?thesis using after_raise_cases(2)[OF assms(1) a] HandlerRaises
      by (cases aref) (auto split: if_splits)
  qed
  then show "(mw_trace s' = mw_trace s @ [HandlerCalled]
           \<and> (aref = None \<or> (\<exists>c. h = HandlerRaises (PyBase c)) \<or> (\<exists>e. r = ResolverRaised e)
               \<or> length (mw_telemetry s) < length (mw_telemetry s')))
       \<or> (\<exists>rid. mw_trace s' = mw_trace s @ [HandlerCalled, ReceiptWritten rid]
             \<and> mw_telemetry s' = mw_telemetry s \<and> aref \<noteq> None)"
    and "aref = None \<Longrightarrow> mw_trace s' = mw_trace s @ [HandlerCalled]
           \<and> mw_telemetry s' = mw_telemetry s"
    by (auto simp: tried_outcome_def one_receipt_def)
qed

lemma neutral_disposition_cases:
  assumes "to_neutral_disposition d = Some n"
  obtains "d = ''admitted''" "n = ''admitted''" | "d = ''refused''" "n = ''refused''"
    | "d = ''deferred_for_review''" "n = ''deferred''"
  using assms
  by (auto simp: to_neutral_disposition_def NEUTRAL_DISPOSITION_BY_BINDING_def split: if_splits)

lemma neutral_ground_known: "neutral_refusal_ground pol \<in> set NEUTRAL_REFUSAL_GROUNDS"
  by (simp add: neutral_refusal_ground_def Let_def NEUTRAL_REFUSAL_GROUNDS_def)

lemma prepare_review_cases:
  assumes "prepare_review env ctx snap actor pol d s = (r, s')"
  obtains
    (none) "d \<noteq> ''deferred''" "r = Inr (None, None)" "s' = s"
  | (created) ref where "d = ''deferred''" "r = Inr (Some ref, Some True)"
      "mw_trace s' = mw_trace s @ [ReviewRequested]" "mw_telemetry s' = mw_telemetry s"
  | (failed) "d = ''deferred''" "r = Inr (None, Some False)"
      "mw_trace s' = mw_trace s @ [ReviewRequested]"
      "length (mw_telemetry s) < length (mw_telemetry s')"
  | (escaped) e where "d = ''deferred''" "r = Inl (ResolverRaised e)"
      "mw_trace s' = mw_trace s @ [ReviewRequested]"
  using assms
  by (cases "create_review_object env snap actor pol")
     (auto simp: prepare_review_def Let_def split: if_splits)

text \<open>The neutral request the middleware builds for a policy.\<close>

abbreviation neutral_of :: "mw_env \<Rightarrow> binding_policy \<Rightarrow> token \<Rightarrow> bool option \<Rightarrow> admission_request" where
  "neutral_of env pol d created \<equiv> neutral_admission_request (en_config env) pol d created"

lemma neutral_plan_exists:
  assumes "to_neutral_disposition (bp_disposition pol) = Some d"
    and "d = ''deferred'' \<Longrightarrow> created \<noteq> None"
  shows "\<exists>plan. plan_admission (neutral_of env pol d created) = Inr plan"
  using assms(1)
proof (cases rule: neutral_disposition_cases)
  case 3
  then show ?thesis using assms(2)
    by (cases created) (auto simp: plan_admission_ok_iff request_ok_def neutral_admission_request_def
        NEUTRAL_DISPOSITIONS_def)
qed (simp_all add: plan_admission_ok_iff request_ok_def neutral_admission_request_def
       NEUTRAL_DISPOSITIONS_def neutral_ground_known)

text \<open>How a governed call can go: it stops before the admission decision, or is refused or deferred
  with one attempted receipt, or stops fail-closed, or executes.\<close>

lemma governed_call_under_cases:
  assumes "governed_call_under env ctx snap actor pol h s = (r, s')"
  obtains
    (unknown) "to_neutral_disposition (bp_disposition pol) = None"
      "r = UnknownDispositionKey (bp_disposition pol)" "s' = s"
  | (escaped) e where "bp_disposition pol = ''deferred_for_review''" "r = ResolverRaised e"
      "mw_trace s' = mw_trace s @ [ReviewRequested]"
  | (terminal) plan s1 review created d where
      "to_neutral_disposition (bp_disposition pol) = Some d"
      "prepare_review env ctx snap actor pol d s
         = (Inr (review, created), s1)"
      "plan_admission (neutral_of env pol d created) = Inr plan" "\<not> ap_execution_proceeds plan"
      "d \<noteq> ''admitted''" "tried_outcome s1 s'"
      "r \<in> {ToolErrorRefused, ToolErrorDeferred review, ToolErrorReviewReceipt}"
  | (closed) plan where "bp_disposition pol = ''admitted''"
      "plan_admission (neutral_of env pol ''admitted'' None) = Inr plan"
      "observe_admission env plan ctx snap pol s
         = (Inl ToolErrorAdmissionReceipt, s')"
      "r = ToolErrorAdmissionReceipt"
  | (executed) plan aref s1 where "bp_disposition pol = ''admitted''"
      "plan_admission (neutral_of env pol ''admitted'' None) = Inr plan"
      "ap_execution_proceeds plan" "aref = None \<or> live_plan plan"
      "observe_admission env plan ctx snap pol s
         = (Inr aref, s1)"
      "execute_call env plan ctx snap aref h s1
         = (r, s')"
proof (cases "to_neutral_disposition (bp_disposition pol)")
  case None
  then show ?thesis using assms unknown by (simp add: governed_call_under_def)
next
  case (Some d)
  obtain q s1 where prep: "prepare_review env ctx snap actor pol d s = (q, s1)" by fastforce
  show ?thesis
  proof (cases q)
    case (Inl err)
    have "bp_disposition pol = ''deferred_for_review'' \<and> (\<exists>e. err = ResolverRaised e)
        \<and> mw_trace s1 = mw_trace s @ [ReviewRequested]"
      using prep Inl Some
      by (auto elim!: prepare_review_cases elim: neutral_disposition_cases)
    then show ?thesis using assms escaped Some prep Inl by (auto simp: governed_call_under_def)
  next
    case (Inr rc)
    obtain review created where rc: "rc = (review, created)" by fastforce
    note prep' = prep[unfolded Inr rc]
    have cr: "d = ''deferred'' \<Longrightarrow> created \<noteq> None" "d \<noteq> ''deferred'' \<Longrightarrow> created = None"
      using prep' by (auto elim!: prepare_review_cases)
    obtain plan where plan: "plan_admission (neutral_of env pol d created) = Inr plan"
      using neutral_plan_exists[OF Some cr(1)] by blast
    have disp: "ar_disposition (neutral_of env pol d created) = d"
      by (simp add: neutral_admission_request_def)
    show ?thesis
    proof (cases "ap_execution_proceeds plan")
      case False
      have t: "terminal_admission env plan ctx snap pol review s1 = (r, s')"
        using assms Some prep' plan False by (simp add: governed_call_under_def)
      show ?thesis using terminal_cases[OF plan False t] not_admitted_plan(1)[OF plan False] disp
        by (intro terminal[OF Some prep' plan False]) auto
    next
      case True
      have adm: "d = ''admitted''" using admitted_plan(1)[OF plan True] disp by simp
      then have bp: "bp_disposition pol = ''admitted''" using Some
        by (auto elim: neutral_disposition_cases)
      have none: "created = None" "s1 = s" using prep' adm cr(2) by (auto elim!: prepare_review_cases)
      note plan' = plan[unfolded adm none]
      obtain q2 s2 where ob: "observe_admission env plan ctx snap pol s = (q2, s2)" by fastforce
      show ?thesis
      proof (cases q2)
        case (Inl err)
        have e: "err = ToolErrorAdmissionReceipt"
          using ob Inl by (auto elim!: observe_admission_cases)
        have "r = ToolErrorAdmissionReceipt \<and> s' = s2"
          using assms Some prep' plan True ob Inl none e by (simp add: governed_call_under_def)
        then show ?thesis using ob Inl e by (intro closed[OF bp plan']) auto
      next
        case (Inr aref)
        have ex: "execute_call env plan ctx snap aref h s2 = (r, s')"
          using assms Some prep' plan True ob Inr none by (simp add: governed_call_under_def)
        have "aref = None \<or> live_plan plan"
          using ob Inr True by (auto simp: live_plan_def elim!: observe_admission_cases)
        then show ?thesis using ob Inr ex by (intro executed[OF bp plan' True]) auto
      qed
    qed
  qed
qed

lemmas governed_call_cases [consumes 1, case_names unknown escaped terminal closed executed] =
  governed_call_under_cases [where env = env and snap = snap and actor = actor and pol = pol
    and ctx = "mw_receipt_context (en_config env) snap actor pol",
    folded governed_call_def] for env snap actor pol

end
