(* ===== verification/FastmcpProperties.thy ===== *)
theory FastmcpProperties
  imports FastmcpFacts
begin

text \<open>The properties of the FastMCP middleware.\<close>

section \<open>Traces of a call\<close>

definition call_trace :: "mw_effect list \<Rightarrow> bool" where
  "call_trace tr =
     (tr = [] \<or> tr = [HandlerCalled] \<or> tr = [ReviewRequested]
      \<or> (\<exists>a. tr = [ReceiptWritten a] \<or> tr = [ReviewRequested, ReceiptWritten a]
             \<or> tr = [ReceiptWritten a, HandlerCalled]
             \<or> (\<exists>b. tr = [ReceiptWritten a, HandlerCalled, ReceiptWritten b])))"

definition ran_handler :: "mw_result \<Rightarrow> bool" where
  "ran_handler r =
     (case r of Returned _ \<Rightarrow> True | HandlerRaised _ \<Rightarrow> True | ResolverRaised _ \<Rightarrow> True | _ \<Rightarrow> False)"

lemma tried_outcome_trace:
  "tried_outcome s s' \<Longrightarrow> \<exists>tr. mw_trace s' = mw_trace s @ tr \<and> (tr = [] \<or> (\<exists>a. tr = [ReceiptWritten a]))"
  by (auto simp: tried_outcome_def one_receipt_def)

lemma governed_call_trace:
  assumes "governed_call_under env ctx snap actor pol h s = (r, s')"
  obtains tr where "mw_trace s' = mw_trace s @ tr" "call_trace tr"
    "HandlerCalled \<in> set tr \<Longrightarrow> bp_disposition pol = ''admitted'' \<and> ran_handler r"
    "HandlerCalled \<in> set tr \<Longrightarrow>
       admission_before_execution (neutral_of env pol ''admitted'' None) \<Longrightarrow>
       pre_execution_failure_mode (en_config env) (bp_tool_class pol) = ''fail_closed'' \<Longrightarrow>
       \<exists>a rest. tr = ReceiptWritten a # HandlerCalled # rest"
  using assms
proof (cases rule: governed_call_under_cases)
  case unknown
  then show ?thesis using that[of "[]"] by (simp add: call_trace_def)
next
  case (escaped e)
  then show ?thesis using that[of "[ReviewRequested]"] by (simp add: call_trace_def)
next
  case (terminal plan s1 review created d)
  obtain pre where pre: "mw_trace s1 = mw_trace s @ pre" "pre = [] \<or> pre = [ReviewRequested]"
    using terminal(2) by (auto elim!: prepare_review_cases)
  obtain tr where "mw_trace s' = mw_trace s1 @ tr" "tr = [] \<or> (\<exists>a. tr = [ReceiptWritten a])"
    using tried_outcome_trace[OF terminal(6)] by blast
  then show ?thesis using pre by (intro that[of "pre @ tr"]) (auto simp: call_trace_def)
next
  case (closed plan)
  then have "mw_trace s' = mw_trace s" by (auto elim!: observe_admission_cases)
  then show ?thesis using that[of "[]"] by (simp add: call_trace_def)
next
  case (executed plan aref s1)
  note live = executed(4)
  have r: "ran_handler r"
    using live executed(6) by (rule execute_cases) (auto simp: ran_handler_def)
  from execute_trace(1)[OF live executed(6)]
  obtain tail where tail: "mw_trace s' = mw_trace s1 @ HandlerCalled # tail"
    "tail = [] \<or> (\<exists>b. tail = [ReceiptWritten b] \<and> aref \<noteq> None)" by auto
  show ?thesis using executed(5)
  proof (cases rule: observe_admission_cases)
    case (recorded rid)
    then show ?thesis using tail r executed(1)
      by (intro that[of "ReceiptWritten rid # HandlerCalled # tail"])
         (auto simp: one_receipt_def call_trace_def)
  next
    case skipped
    have "\<not> admission_before_execution (neutral_of env pol ''admitted'' None)"
      using admitted_plan(2)[OF executed(2,3)] skipped(3) by simp
    then show ?thesis using tail r executed(1) skipped
      by (intro that[of "HandlerCalled # tail"]) (auto simp: call_trace_def)
  next
    case open_gap
    then show ?thesis using tail r executed(1)
      by (intro that[of "HandlerCalled # tail"]) (auto simp: call_trace_def)
  next
    case closed
    then show ?thesis by simp
  qed
qed

text \<open>The effects of any call are one of eight traces: the handler is called at most once, a
  receipt is written before it or after it but never two on the same side, an outcome receipt is
  only ever written after an admission receipt and the handler call, and nothing follows a review
  request but one receipt.\<close>
theorem call_effects:
  "\<exists>tr. mw_trace (snd (on_call_tool env msg h s)) = mw_trace s @ tr \<and> call_trace tr"
proof -
  have base: "\<exists>tr. mw_trace s = mw_trace s @ tr \<and> call_trace tr"
    by (rule exI[of _ "[]"]) (simp add: call_trace_def)
  have gov: "\<exists>tr. mw_trace (snd (governed_call env snap actor pol h s)) = mw_trace s @ tr
      \<and> call_trace tr" for snap actor pol
    by (cases "governed_call env snap actor pol h s")
       (auto simp: governed_call_def elim: governed_call_trace)
  show ?thesis using base gov
    by (simp add: on_call_tool_def split: sum.splits)
qed

lemma execution_needs_admission:
  assumes "governed_call_under env ctx snap actor pol h s = (r, s')"
    and "mw_trace s' = mw_trace s @ tr" and "HandlerCalled \<in> set tr"
  shows "bp_disposition pol = ''admitted''
    \<and> (if admission_before_execution (neutral_of env pol ''admitted'' None)
          \<and> pre_execution_failure_mode (en_config env) (bp_tool_class pol) = ''fail_closed''
       then \<exists>a rest. tr = ReceiptWritten a # HandlerCalled # rest else True)"
proof -
  obtain tr' where "mw_trace s' = mw_trace s @ tr'" "call_trace tr'"
    "HandlerCalled \<in> set tr' \<Longrightarrow> bp_disposition pol = ''admitted'' \<and> ran_handler r"
    "HandlerCalled \<in> set tr' \<Longrightarrow>
       admission_before_execution (neutral_of env pol ''admitted'' None) \<Longrightarrow>
       pre_execution_failure_mode (en_config env) (bp_tool_class pol) = ''fail_closed'' \<Longrightarrow>
       \<exists>a rest. tr' = ReceiptWritten a # HandlerCalled # rest"
    using governed_call_trace[OF assms(1)] by blast
  moreover have "tr' = tr" using assms(2) calculation(1) by simp
  ultimately show ?thesis using assms(3) by auto
qed

text \<open>C12: The handler runs only for an admitted policy, and a fail-closed class never runs without
  its admission receipt: if the effects of a governed call contain the handler call, the resolved
  policy admits, and if the core requires the admission record before execution (always for write
  and destructive tools) and the class fails closed, the handler call comes right after an
  accepted admission receipt.\<close>
theorem no_execution_without_admission:
  assumes "governed_call env snap actor pol h s = (r, s')"
    and "mw_trace s' = mw_trace s @ tr" and "HandlerCalled \<in> set tr"
  shows "bp_disposition pol = ''admitted''
    \<and> (if admission_before_execution (neutral_of env pol ''admitted'' None)
          \<and> pre_execution_failure_mode (en_config env) (bp_tool_class pol) = ''fail_closed''
       then \<exists>a rest. tr = ReceiptWritten a # HandlerCalled # rest else True)"
  using assms unfolding governed_call_def by (rule execution_needs_admission)

definition sample_config :: mw_config where
  "sample_config = \<lparr>cf_runtime_instance_id = ''rt:1'', cf_boundary_id = ''b:1'',
     cf_policy_pack_id = ''pack'', cf_policy_pack_version = ''1'',
     cf_tool_classes = [(''delete_all'', ''destructive'')], cf_actor_resolver = None,
     cf_policy_resolver = None, cf_operator_resolver = None, cf_operator_timeout = None,
     cf_required_tools = [], cf_required_tool_classes = [], cf_review_creator = None,
     cf_pre_failure = DEFAULT_PRE_FAILURE, cf_post_failure = ''alert_and_return_result'',
     cf_emit_read_admission = True, cf_spool = False, cf_parent_receipt_ref = None,
     cf_logical_call_id_override = None, cf_subject_ref_override = None, cf_observer = None,
     cf_attestation_limits = [''boundary limit'']\<rparr>"

definition sample_env :: mw_env where
  "sample_env = \<lparr>en_identity = sample_identity, en_config = sample_config,
     en_stamps = (\<lambda>n. \<lparr>st_receipt_id = ''urn:1'',
                          st_issued_at = ''2026-01-01T00:00:00Z''\<rparr>),
     en_clock = (\<lambda>_. ''2026-01-01T00:00:00Z''), en_minted_id = ''id'', en_token = Inr None,
     en_dump = (\<lambda>v. VNone), en_canon_exc = ''CanonicalizationError''\<rparr>"

definition sample_snapshot :: request_snapshot where
  "sample_snapshot = \<lparr>rs_tool_name = ''delete_all'', rs_arguments_digest = ''sha256:0'',
     rs_logical_call_id = ''call:id'', rs_subject_ref = ''tool-call:call:id'',
     rs_subject_ref_origin = Some ''binding_minted'', rs_session_ref = None,
     rs_request_ref = None, rs_meta_digest = None\<rparr>"

definition sample_state :: mw_state where
  "sample_state = \<lparr>mw_sink = \<lparr>sk_files = [], sk_written = [], sk_faults = [],
      sk_failed = 0\<rparr>,
     mw_stamp_count = 0, mw_telemetry = [], mw_spool = [], mw_spool_faults = [], mw_trace = []\<rparr>"

definition sample_policy :: binding_policy where
  "sample_policy = plain_policy ''admitted'' ''destructive'' None"

abbreviation sample_args :: "token \<Rightarrow> string option \<Rightarrow> admission_args" where
  "sample_args disp reason \<equiv>
     \<lparr>aa_tool_name = ''delete_all'', aa_argument_digest = ''sha256:0'', aa_disposition = disp,
      aa_review_object_ref = None, aa_retry_contract = None, aa_reason_code = reason,
      aa_limits = VTuple [VStr ''boundary limit'']\<rparr>"

abbreviation sample_mw_context :: receipt_context where
  "sample_mw_context \<equiv>
     mw_receipt_context sample_config sample_snapshot anonymous_actor
       (plain_policy ''admitted'' ''destructive'' None)"

definition sample_built :: "token \<Rightarrow> string option \<Rightarrow> (receipt_error, pydict) result" where
  "sample_built disp reason = admission_envelope sample_identity sample_mw_context
     \<lparr>st_receipt_id = ''urn:1'', st_issued_at = ''2026-01-01T00:00:00Z''\<rparr>
     (sample_args disp reason)"

definition clean_build :: "(receipt_error, pydict) result \<Rightarrow> bool" where
  "clean_build b =
     (case b of Inl _ \<Rightarrow> False
      | Inr env \<Rightarrow> \<not> isl (enforce_raw_content_exclusion (VMap env)) \<and> json_ok (VMap env))"

lemma sample_builds_clean:
  "clean_build (sample_built ''admitted'' None)"
  "clean_build (sample_built ''refused'' (Some ''policy_refused''))"
  by code_simp+

lemma sample_emission:
  assumes "clean_build (sample_built disp reason)"
  shows "\<exists>sk'. emit_admission sample_identity sample_mw_context
      \<lparr>st_receipt_id = ''urn:1'', st_issued_at = ''2026-01-01T00:00:00Z''\<rparr>
      (sample_args disp reason) \<lparr>sk_files = [], sk_written = [], sk_faults = [],
      sk_failed = 0\<rparr>
      = (Inr ''urn:1'', sk')"
proof -
  obtain env where env: "sample_built disp reason = Inr env"
      "enforce_raw_content_exclusion (VMap env) = Inr ()" "json_ok (VMap env)"
    using assms by (auto simp: clean_build_def isl_def split: sum.splits) (metis obj_sumE old.unit.exhaust)
  have "dget env ''receipt_id'' = Some (VStr ''urn:1'')"
    using admission_envelope_ok(2)[OF env(1)[unfolded sample_built_def]] by simp
  moreover have "clean_text (si_key_id sample_identity)"
    "clean_text (b64url_encode (cr_sign (si_crypto sample_identity) b))" for b
    by (simp_all add: clean_text_def private_marker_def PRIVATE_MARKERS_def backslash_def b64_char_def)
  ultimately show ?thesis unfolding emit_admission_def
    by (intro guard_and_emit_accepts[OF env(1)[unfolded sample_built_def] env(2,3)]) simp_all
qed

lemma sample_mw_emission:
  assumes "clean_build (sample_built disp reason)"
    and "pol = plain_policy d ''destructive'' c"
  shows "\<exists>s1. mw_emit_admission sample_env (mw_receipt_context sample_config sample_snapshot
      anonymous_actor pol) sample_snapshot pol disp None None reason sample_state
        = (Inr ''urn:1'', s1)
      \<and> mw_trace s1 = [ReceiptWritten ''urn:1''] \<and> mw_telemetry s1 = []"
proof -
  have ctx: "mw_receipt_context sample_config sample_snapshot anonymous_actor pol = sample_mw_context"
    by (simp add: mw_receipt_context_def policy_parent_def assms(2) plain_policy_def)
  obtain sk' where e: "emit_admission sample_identity sample_mw_context
      \<lparr>st_receipt_id = ''urn:1'', st_issued_at = ''2026-01-01T00:00:00Z''\<rparr>
      (sample_args disp reason) \<lparr>sk_files = [], sk_written = [], sk_faults = [],
      sk_failed = 0\<rparr>
      = (Inr ''urn:1'', sk')"
    using sample_emission[OF assms(1)] by blast
  show ?thesis
    unfolding mw_emit_admission_def ctx
    using e by (simp add: after_emit_def sample_env_def sample_state_def sample_snapshot_def
        assms(2) plain_policy_def vtuple_def mw_limits_def dict_fromkeys_def sample_config_def)
qed

theorem no_execution_without_admission_witness:
  "\<exists>r s'. governed_call sample_env sample_snapshot anonymous_actor sample_policy
            (HandlerRaises (PyBase ''KeyboardInterrupt'')) sample_state = (r, s')
     \<and> mw_trace s' = [ReceiptWritten ''urn:1'', HandlerCalled]
     \<and> bp_disposition sample_policy = ''admitted''"
proof -
  obtain s1 where e: "mw_emit_admission sample_env (mw_receipt_context sample_config sample_snapshot
      anonymous_actor sample_policy) sample_snapshot sample_policy ''admitted'' None None None
      sample_state = (Inr ''urn:1'', s1)" "mw_trace s1 = [ReceiptWritten ''urn:1'']"
    using sample_mw_emission[OF sample_builds_clean(1) refl, of "''admitted''" None]
    by (auto simp: sample_policy_def)
  obtain r s' where run: "governed_call sample_env sample_snapshot anonymous_actor sample_policy
      (HandlerRaises (PyBase ''KeyboardInterrupt'')) sample_state = (r, s')" by fastforce
  have tr: "mw_trace s' = [ReceiptWritten ''urn:1'', HandlerCalled]"
    using run e by (simp add: governed_call_def governed_call_under_def Let_def sample_policy_def plain_policy_def
        to_neutral_disposition_def NEUTRAL_DISPOSITION_BY_BINDING_def prepare_review_def
        plan_admission_def neutral_admission_request_def admission_before_execution_def
        ADMISSION_BEFORE_EXECUTION_REQUIRED_def observe_admission_def execute_call_def
        after_raise_def sample_env_def) auto
  have "mw_trace s' = mw_trace sample_state @ [ReceiptWritten ''urn:1'', HandlerCalled]"
    using tr by (simp add: sample_state_def)
  from no_execution_without_admission[OF run this] run tr show ?thesis by simp
qed

lemma governed_call_agrees:
  assumes "governed_call_under env ctx snap actor pol h s = (r, s')"
  shows "\<not> disagreement r"
  using assms
proof (cases rule: governed_call_under_cases)
  case (terminal plan s1 review created d)
  then show ?thesis by (auto simp: disagreement_def)
next
  case (executed plan aref s1)
  show ?thesis using executed(4,6)
    by (rule execute_cases) (auto simp: disagreement_def)
qed (simp_all add: disagreement_def)

text \<open>Adapter and core never disagree: no call ends in a projection-divergence error, a missing
  binding token, the assertion on a missing record or an error raised by the core, whatever the
  resolvers, the handler, the observer and the sink do.\<close>
theorem no_projection_divergence: "\<not> disagreement (fst (on_call_tool env msg h s))"
proof -
  have gov: "\<not> disagreement (fst (governed_call env snap actor pol h s))" for snap actor pol
    by (cases "governed_call env snap actor pol h s")
       (auto simp: governed_call_def dest: governed_call_agrees)
  have act: "resolve_actor env snap = Inl e \<Longrightarrow> \<not> disagreement e" for snap e
    by (auto simp: resolve_actor_def disagreement_def map_err_Inl_iff split: option.splits)
  have pol: "resolve_policy cf snap actor = Inl e \<Longrightarrow> \<not> disagreement e" for cf snap actor e
    by (auto simp: resolve_policy_def resolve_operator_admission_def disagreement_def Let_def
        map_err_Inl_iff split: option.splits sum.splits if_splits)
  have "\<not> disagreement (ReceiptErrorRaised e)" for e by (simp add: disagreement_def)
  then show ?thesis using gov act pol
    by (simp add: on_call_tool_def split: sum.splits)
qed

section \<open>Refinement of the neutral plan\<close>

definition review_flag :: "token \<Rightarrow> bool option" where
  "review_flag d = (if d = ''deferred'' then Some True else None)"

lemma planned_lifecycle_terminal:
  assumes "plan_admission req = Inr plan" "\<not> ap_execution_proceeds plan"
  shows "\<exists>p. plan_lifecycle req obs = Inr (Planned p) \<and> lp_record_count p = 1"
  using assms plan_admission_record_iff[OF assms(1)] not_admitted_plan(4)[OF assms]
  by (auto simp: plan_lifecycle_def record_present_def split: option.splits)

lemma observation_of_supported:
  "ob_observation (observation_of h) \<in> set NEUTRAL_OUTCOMES - set UNSUPPORTED_OUTCOMES"
  "ob_observation (observation_of h) = ''exception'' \<Longrightarrow> ob_exception_class (observation_of h) \<noteq> None"
  by (auto simp: observation_of_def simple_observation_def vocab
      split: handler_outcome.splits tool_value.splits pyexc.splits if_splits)

lemma planned_lifecycle_executed:
  assumes "plan_admission req = Inr plan" "ap_execution_proceeds plan"
  shows "\<exists>p. plan_lifecycle req (Some (observation_of h)) = Inr (Planned p)
     \<and> lp_record_count p = (if ap_admission_recorded plan then 2 else 0)"
proof -
  let ?ob = "observation_of h"
  note sup = observation_of_supported[of h]
  obtain rec where rec: "outcome_record ?ob = Inr rec"
    using outcome_record_ok_iff[of ?ob] sup by (auto split: if_splits)
  have "plan_outcome plan ?ob = Inr (Planned \<lparr>op_observation = ob_observation ?ob,
      op_record = (if ap_admission_recorded plan then Some rec else None)\<rparr>)"
    using sup(1) assms(2) rec by (auto simp: plan_outcome_def Let_def)
  then show ?thesis using assms plan_admission_record_iff[OF assms(1)]
    by (auto simp: plan_lifecycle_def record_present_def split: option.splits)
qed

lemma terminal_counts_one:
  assumes "prepare_review env ctx snap actor pol d s = (Inr (review, created), s1)"
    and "tried_outcome s1 s'" and "mw_trace s' = mw_trace s @ tr"
    and "mw_telemetry s' = mw_telemetry s"
  shows "created = review_flag d" and "receipts_in tr = 1"
proof -
  have tel: "length (mw_telemetry s1) \<le> length (mw_telemetry s')"
    using assms(2) by (auto simp: tried_outcome_def one_receipt_def)
  then have "\<not> length (mw_telemetry s) < length (mw_telemetry s1)" using assms(4) by simp
  then obtain pre where pre: "created = review_flag d" "mw_trace s1 = mw_trace s @ pre"
      "receipts_in pre = 0" "length (mw_telemetry s) \<le> length (mw_telemetry s1)"
    using assms(1) by (auto simp: review_flag_def elim!: prepare_review_cases)
  show "created = review_flag d" by (rule pre)
  have "\<exists>rid. one_receipt s1 s' rid"
    using assms(2,4) pre(4) by (auto simp: tried_outcome_def)
  then obtain rid where "mw_trace s' = mw_trace s @ pre @ [ReceiptWritten rid]"
    using pre(2) by (auto simp: one_receipt_def)
  then show "receipts_in tr = 1" using assms(3) pre(3) by (simp add: receipts_in_def)
qed

lemma governed_call_refines_plan:
  assumes "governed_call_under env ctx snap actor pol h s = (r, s')"
    and "to_neutral_disposition (bp_disposition pol) = Some d"
    and "mw_trace s' = mw_trace s @ tr" and "mw_telemetry s' = mw_telemetry s"
    and "\<nexists>e. r = ResolverRaised e" and "\<nexists>c. h = HandlerRaises (PyBase c)"
  shows "\<exists>p. plan_lifecycle (neutral_of env pol d (review_flag d)) (Some (observation_of h))
             = Inr (Planned p)
           \<and> receipts_in tr = lp_record_count p"
  using assms(1)
proof (cases rule: governed_call_under_cases)
  case (terminal plan s1 review created d')
  have d': "d' = d" using terminal(1) assms(2) by simp
  note one = terminal_counts_one[OF terminal(2,6) assms(3,4)]
  from planned_lifecycle_terminal[OF terminal(3,4)] one show ?thesis
    unfolding d' one(1) by metis
next
  case (executed plan aref s1)
  have d: "d = ''admitted''" using assms(2) executed(1)
    by (simp add: to_neutral_disposition_def NEUTRAL_DISPOSITION_BY_BINDING_def)
  note ex = execute_trace[OF executed(4,6)]
  have count: "receipts_in tr = (if ap_admission_recorded plan then 2 else 0)"
    using executed(5)
  proof (cases rule: observe_admission_cases)
    case (recorded rid)
    then show ?thesis using ex(1) assms(3,4,5,6)
      by (auto simp: one_receipt_def)
  next
    case skipped
    then show ?thesis using ex(2) assms(3) by auto
  next
    case open_gap
    then show ?thesis using ex(2) assms(4) by auto
  next
    case closed
    then show ?thesis by simp
  qed
  from planned_lifecycle_executed[OF executed(2,3), of h] count show ?thesis
    unfolding d by (auto simp: review_flag_def)
next
  case (closed plan)
  then show ?thesis using assms(4) by (auto elim!: observe_admission_cases)
qed (use assms in auto)

text \<open>C18: The middleware implements the neutral plan. When a governed call of a known disposition
  records no failure (no receipt gap, no failed review object), does not escape through a resolver
  or observer, and the handler raises nothing outside the handlers, the number of receipts it
  writes is the number of records the neutral planner plans for the request it built and for the
  way the handler ended.\<close>
theorem middleware_refines_plan:
  assumes "governed_call env snap actor pol h s = (r, s')"
    and "to_neutral_disposition (bp_disposition pol) = Some d"
    and "mw_trace s' = mw_trace s @ tr" and "mw_telemetry s' = mw_telemetry s"
    and "\<nexists>e. r = ResolverRaised e" and "\<nexists>c. h = HandlerRaises (PyBase c)"
  shows "\<exists>p. plan_lifecycle (neutral_of env pol d (review_flag d)) (Some (observation_of h))
             = Inr (Planned p)
           \<and> receipts_in tr = lp_record_count p"
  using assms unfolding governed_call_def by (rule governed_call_refines_plan)

theorem middleware_refines_plan_witness:
  "\<exists>p s'. snd (governed_call sample_env sample_snapshot anonymous_actor
         (plain_policy ''refused'' ''destructive'' None) (HandlerReturns TaskResult) sample_state) = s'
       \<and> mw_trace s' = [ReceiptWritten ''urn:1'']
       \<and> plan_lifecycle (neutral_of sample_env (plain_policy ''refused'' ''destructive'' None)
           ''refused'' None) (Some (simple_observation ''task_submitted'' None)) = Inr (Planned p)
       \<and> lp_record_count p = 1"
proof -
  let ?pol = "plain_policy ''refused'' ''destructive'' None"
  obtain s1 where e: "mw_emit_admission sample_env (mw_receipt_context sample_config sample_snapshot
      anonymous_actor ?pol) sample_snapshot ?pol ''refused'' None None (Some ''policy_refused'')
      sample_state = (Inr ''urn:1'', s1)"
      "mw_trace s1 = [ReceiptWritten ''urn:1'']" "mw_telemetry s1 = []"
    using sample_mw_emission[OF sample_builds_clean(2) refl, of "''refused''" None] by auto
  have run: "governed_call sample_env sample_snapshot anonymous_actor ?pol (HandlerReturns TaskResult)
      sample_state = (ToolErrorRefused, s1)"
    using e(1) by (simp add: governed_call_def governed_call_under_def Let_def plain_policy_def
        to_neutral_disposition_def NEUTRAL_DISPOSITION_BY_BINDING_def prepare_review_def
        plan_admission_def neutral_admission_request_def neutral_refusal_ground_def
        NEUTRAL_REFUSAL_GROUNDS_def terminal_admission_def admission_record_def or_else_def
        binding_refusal_reason_code_def sample_env_def)
  have d: "to_neutral_disposition (bp_disposition ?pol) = Some ''refused''"
    by (simp add: plain_policy_def to_neutral_disposition_def NEUTRAL_DISPOSITION_BY_BINDING_def)
  have tr: "mw_trace s1 = mw_trace sample_state @ [ReceiptWritten ''urn:1'']"
    "mw_telemetry s1 = mw_telemetry sample_state"
    using e by (simp_all add: sample_state_def)
  have "\<exists>p. plan_lifecycle (neutral_of sample_env ?pol ''refused'' (review_flag ''refused''))
        (Some (observation_of (HandlerReturns TaskResult))) = Inr (Planned p)
      \<and> receipts_in [ReceiptWritten ''urn:1''] = lp_record_count p"
    by (rule middleware_refines_plan[OF run d tr]) simp_all
  with run e(2) show ?thesis by (auto simp: review_flag_def observation_of_def)
qed

section \<open>Fail-closed admission decisions\<close>


text \<open>A tool whose operator-admission resolver is required but absent never executes: with
  neither resolver configured, a call of a required tool or tool class ends in a refusal and its
  effects are no more than one receipt.\<close>
theorem required_resolver_absent_refuses:
  assumes "cf_policy_resolver (en_config env) = None"
    and "cf_operator_resolver (en_config env) = None"
    and "operator_admission_required (en_config env) (rs_tool_name snap)
           (tool_class_of (en_config env) (rs_tool_name snap))"
  shows "\<exists>pol. resolve_policy (en_config env) snap actor = Inr pol
     \<and> fst (governed_call env snap actor pol h s) = ToolErrorRefused
     \<and> (\<exists>tr. mw_trace (snd (governed_call env snap actor pol h s)) = mw_trace s @ tr
              \<and> HandlerCalled \<notin> set tr \<and> length tr \<le> 1)"
proof -
  let ?cls = "tool_class_of (en_config env) (rs_tool_name snap)"
  let ?pol = "plain_policy ''refused'' ?cls (Some ''policy_refused'')"
  have pol: "resolve_policy (en_config env) snap actor = Inr ?pol"
    using assms by (simp add: resolve_policy_def Let_def)
  obtain r s' where run: "governed_call env snap actor ?pol h s = (r, s')" by fastforce
  have "r = ToolErrorRefused \<and> (\<exists>tr. mw_trace s' = mw_trace s @ tr \<and> HandlerCalled \<notin> set tr
      \<and> length tr \<le> 1)" using run
  proof (cases rule: governed_call_cases)
    case (terminal plan s1 review created d)
    have d: "d = ''refused''" using terminal(1)
      by (simp add: plain_policy_def to_neutral_disposition_def NEUTRAL_DISPOSITION_BY_BINDING_def)
    have s1: "s1 = s" "review = None" "created = None" using terminal(2) d
      by (auto elim!: prepare_review_cases)
    have res: "ap_resolved plan = ''refused''" "ap_requested plan = ''refused''"
      using terminal(3) d by (auto simp: neutral_admission_request_def elim!: plan_admission_cases)
    have "terminal_admission env plan (mw_receipt_context (en_config env) snap actor ?pol) snap ?pol
        None s = (r, s')"
      using run terminal(1,2,3,4) d s1 by (simp add: governed_call_def governed_call_under_def Let_def)
    moreover have "\<exists>rec. ap_record plan = Some rec \<and> ai_disposition rec = ''refused''"
      using terminal(3) d by (auto simp: neutral_admission_request_def admission_record_def
          elim!: plan_admission_cases)
    ultimately have "r = ToolErrorRefused"
      by (auto simp: terminal_admission_def Let_def split: prod.splits sum.splits)
    then show ?thesis using tried_outcome_trace[OF terminal(6)] s1 by auto
  qed (simp_all add: plain_policy_def to_neutral_disposition_def NEUTRAL_DISPOSITION_BY_BINDING_def)
  with pol run show ?thesis by auto
qed

theorem required_resolver_absent_refuses_witness:
  "\<exists>pol. resolve_policy (sample_config\<lparr>cf_required_tools := [''delete_all'']\<rparr>) sample_snapshot
      anonymous_actor = Inr pol \<and> bp_disposition pol = ''refused''"
proof -
  let ?env = "sample_env\<lparr>en_config := sample_config\<lparr>cf_required_tools := [''delete_all'']\<rparr>\<rparr>"
  have "\<exists>pol. resolve_policy (en_config ?env) sample_snapshot anonymous_actor = Inr pol
     \<and> fst (governed_call ?env sample_snapshot anonymous_actor pol (HandlerReturns TaskResult)
              sample_state) = ToolErrorRefused
     \<and> (\<exists>tr. mw_trace (snd (governed_call ?env sample_snapshot anonymous_actor pol
                  (HandlerReturns TaskResult) sample_state)) = mw_trace sample_state @ tr
              \<and> HandlerCalled \<notin> set tr \<and> length tr \<le> 1)"
    by (rule required_resolver_absent_refuses)
       (simp_all add: sample_config_def sample_snapshot_def operator_admission_required_def)
  then show ?thesis
    by (auto simp: resolve_policy_def sample_config_def sample_snapshot_def Let_def
        operator_admission_required_def plain_policy_def)
qed

end
