(* ===== verification/FastmcpReceipts.thy ===== *)
theory FastmcpReceipts
  imports FastmcpProperties
begin

text \<open>What the receipts of a middleware call say: the sink-level counterpart of the effect traces.
  Each effect that writes a receipt adds one envelope, an admission receipt carries the digest of
  the call and an outcome receipt names the admission it completes.\<close>

section \<open>Receipts of the helpers\<close>

abbreviation written :: "mw_state \<Rightarrow> pydict list" where
  "written s \<equiv> sk_written (mw_sink s)"

definition admission_of :: "request_snapshot \<Rightarrow> token \<Rightarrow> string \<Rightarrow> pydict \<Rightarrow> bool" where
  "admission_of snap disp rid receipt =
     (dget receipt ''receipt_id'' = Some (VStr rid)
      \<and> dget receipt ''receipt_kind'' = Some (VStr ''admission'')
      \<and> dget receipt ''requested_tool_name'' = Some (VStr (rs_tool_name snap))
      \<and> dget receipt ''argument_digest'' = Some (VStr (rs_arguments_digest snap))
      \<and> dget receipt ''disposition'' = Some (VStr disp)
      \<and> raw_free receipt)"

definition outcome_for :: "string \<Rightarrow> string \<Rightarrow> pydict \<Rightarrow> bool" where
  "outcome_for aref rid receipt =
     (dget receipt ''receipt_id'' = Some (VStr rid)
      \<and> dget receipt ''receipt_kind'' = Some (VStr ''outcome'')
      \<and> dget receipt ''admission_receipt_ref'' = Some (VStr aref)
      \<and> raw_free receipt)"

lemma mw_emit_admission_written:
  assumes "mw_emit_admission env ctx snap pol disp review retry reason s = (r, s')"
  shows "case r of Inl e \<Rightarrow> written s' = written s \<and> mw_trace s' = mw_trace s
     | Inr rid \<Rightarrow> mw_trace s' = mw_trace s @ [ReceiptWritten rid]
         \<and> (\<exists>receipt. written s' = written s @ [receipt] \<and> admission_of snap disp rid receipt)"
proof (cases r)
  case (Inl e)
  note k = after_emit_Inl[OF assms[unfolded mw_emit_admission_def Inl]]
  show ?thesis using guard_and_emit_err(1)[OF k(3)[unfolded emit_admission_def]] k(1) Inl by simp
next
  case (Inr rid)
  note k = after_emit_Inr[OF assms[unfolded mw_emit_admission_def Inr]]
  let ?a = "\<lparr>aa_tool_name = rs_tool_name snap, aa_argument_digest = rs_arguments_digest snap,
      aa_disposition = disp, aa_review_object_ref = review, aa_retry_contract = retry,
      aa_reason_code = reason, aa_limits = vtuple (mw_limits (en_config env) (Some pol))\<rparr>"
  have "\<exists>receipt. written s' = written s @ [receipt] \<and> admission_of snap disp rid receipt"
    using admission_emission_facts[where ident = "en_identity env" and ctx = ctx
        and st = "en_stamps env (mw_stamp_count s)" and a = ?a and sk = "mw_sink s"] k(2)
    by (auto simp: admission_of_def)
  with k(1) Inr show ?thesis by (simp add: one_receipt_def)
qed

lemma mw_emit_outcome_written:
  assumes "mw_emit_outcome env ctx snap aref out digest exc owned s = (r, s')"
  shows "case r of Inl e \<Rightarrow> written s' = written s \<and> mw_trace s' = mw_trace s
     | Inr rid \<Rightarrow> mw_trace s' = mw_trace s @ [ReceiptWritten rid]
         \<and> (\<exists>receipt. written s' = written s @ [receipt] \<and> outcome_for aref rid receipt)"
proof (cases r)
  case (Inl e)
  note k = after_emit_Inl[OF assms[unfolded mw_emit_outcome_def Inl]]
  show ?thesis using guard_and_emit_err(1)[OF k(3)[unfolded emit_outcome_def]] k(1) Inl by simp
next
  case (Inr rid)
  note k = after_emit_Inr[OF assms[unfolded mw_emit_outcome_def Inr]]
  let ?a = "\<lparr>oa_admission_ref = aref, oa_outcome = out, oa_result_digest = digest,
      oa_exception_class = exc, oa_limits = vtuple (mw_limits (en_config env) None),
      oa_owned_fields = owned\<rparr>"
  have "\<exists>receipt. written s' = written s @ [receipt] \<and> outcome_for aref rid receipt"
    using outcome_emission_facts[where ident = "en_identity env" and ctx = ctx
        and st = "en_stamps env (mw_stamp_count s)" and a = ?a and sk = "mw_sink s"] k(2)
    by (auto simp: outcome_for_def)
  with k(1) Inr show ?thesis by (simp add: one_receipt_def)
qed

text \<open>The receipts after the handler call match the trace.\<close>

definition outcome_step :: "string \<Rightarrow> mw_state \<Rightarrow> mw_state \<Rightarrow> bool" where
  "outcome_step aref s s' =
     ((mw_trace s' = mw_trace s \<and> written s' = written s)
      \<or> (\<exists>rid receipt. mw_trace s' = mw_trace s @ [ReceiptWritten rid]
            \<and> written s' = written s @ [receipt] \<and> outcome_for aref rid receipt))"

lemma best_effort_step:
  "outcome_step aref s (emit_outcome_best_effort env ctx snap aref out digest exc owned s)"
proof (cases "mw_emit_outcome env ctx snap aref out digest exc owned s")
  case (Pair r s1)
  then show ?thesis using mw_emit_outcome_written[OF Pair]
    by (cases r) (auto simp: emit_outcome_best_effort_def outcome_step_def)
qed

lemma post_execution_step:
  "outcome_step aref s (emit_post_execution_outcome env ctx snap aref v out digest s)"
proof (cases "mw_emit_outcome env ctx snap aref out digest None None s")
  case (Pair r s1)
  then show ?thesis using mw_emit_outcome_written[OF Pair]
    by (cases r) (auto simp: emit_post_execution_outcome_def outcome_step_def Let_def)
qed

lemma outcome_step_refl [simp]: "outcome_step aref s s"
  by (simp add: outcome_step_def)

lemma project_core_step:
  "outcome_step aref s (snd (project_core_outcome env plan ob ctx snap aref fz exc ff s))"
  by (auto simp: project_core_outcome_def best_effort_step split: sum.splits option.splits)

lemma emit_planned_step:
  "outcome_step aref s (snd (emit_planned_outcome env plan ctx snap aref v ob digest s))"
  by (auto simp: emit_planned_outcome_def post_execution_step split: sum.splits option.splits)

lemma after_raise_step:
  "case aref of None \<Rightarrow> snd (after_raise env plan ctx snap aref e s) = s
   | Some a \<Rightarrow> outcome_step a s (snd (after_raise env plan ctx snap aref e s))"
  by (cases aref; cases e) (simp_all add: after_raise_def Let_def project_core_step)

lemma after_return_step:
  "case aref of None \<Rightarrow> snd (after_return env plan ctx snap aref v s) = s
   | Some a \<Rightarrow> outcome_step a s (snd (after_return env plan ctx snap aref v s))"
proof (cases aref)
  case (Some a)
  have fin: "outcome_step a s (snd (case emit_planned_outcome env plan ctx snap a v ob digest s of
      (Inl err, s1) \<Rightarrow> (err, s1) | (Inr x, s1) \<Rightarrow> (Returned v, s1)))" for ob digest
    using emit_planned_step[of a s env plan ctx snap v ob digest]
    by (cases "emit_planned_outcome env plan ctx snap a v ob digest s") (auto split: sum.splits)
  show ?thesis
    using fin Some by (auto simp: after_return_def Let_def outcome_step_def
        split: tool_value.splits observed.splits)
qed (simp add: after_return_def)

lemma execute_call_step:
  "case aref of None \<Rightarrow> written (snd (execute_call env plan ctx snap aref h s)) = written s
   | Some a \<Rightarrow> outcome_step a (s\<lparr>mw_trace := mw_trace s @ [HandlerCalled]\<rparr>)
                 (snd (execute_call env plan ctx snap aref h s))"
  using after_raise_step[of env plan ctx snap aref _ "s\<lparr>mw_trace := mw_trace s @ [HandlerCalled]\<rparr>"]
    after_return_step[of env plan ctx snap aref _ "s\<lparr>mw_trace := mw_trace s @ [HandlerCalled]\<rparr>"]
  by (cases h; cases aref) (simp_all add: execute_call_def)

section \<open>The receipts of a completed call\<close>

lemma governed_call_chain:
  assumes "governed_call_under env ctx snap actor pol h s = (r, s')"
    and "mw_trace s' = mw_trace s @ [ReceiptWritten a, HandlerCalled, ReceiptWritten b]"
  shows "\<exists>ra rb. written s' = written s @ [ra, rb]
     \<and> admission_of snap ''admitted'' a ra \<and> outcome_for a b rb"
  using assms(1)
proof (cases rule: governed_call_under_cases)
  case (executed plan aref s1)
  have ex: "snd (execute_call env plan ctx snap aref h s1) = s'" using executed(6) by simp
  note step = execute_call_step[of env plan ctx snap aref h s1, unfolded ex]
  show ?thesis using executed(5)
  proof (cases rule: observe_admission_cases)
    case (recorded rid)
    then obtain q where em: "mw_emit_admission env ctx snap pol ''admitted'' None None None s
        = (q, s1)" and q: "q = Inr rid"
      using executed(5)
      by (auto simp: observe_admission_def Let_def split: prod.splits sum.splits if_splits)
    from mw_emit_admission_written[OF em] q obtain ra where
      ra: "mw_trace s1 = mw_trace s @ [ReceiptWritten rid]" "written s1 = written s @ [ra]"
        "admission_of snap ''admitted'' rid ra" by auto
    have out: "outcome_step rid (s1\<lparr>mw_trace := mw_trace s1 @ [HandlerCalled]\<rparr>) s'"
      using step recorded by simp
    have "rid = a" using out ra(1) assms(2) by (auto simp: outcome_step_def)
    with out ra assms(2) show ?thesis by (auto simp: outcome_step_def)
  next
    case skipped
    then show ?thesis using execute_trace(2)[OF executed(4,6)] assms(2) by simp
  next
    case open_gap
    then show ?thesis using execute_trace(2)[OF executed(4,6)] assms(2) by simp
  qed simp
next
  case (escaped e)
  then show ?thesis using assms(2) by simp
next
  case (terminal plan s1 review created d)
  then show ?thesis using assms(2) tried_outcome_trace[OF terminal(6)]
    by (auto elim!: prepare_review_cases)
next
  case (closed plan)
  then show ?thesis using assms(2) by (auto elim!: observe_admission_cases)
qed (use assms in auto)

text \<open>Receipts form a chain. When the effects of a governed call are an admission receipt, the
  handler call and an outcome receipt, the sink gained exactly two envelopes: the first is the
  admitted admission of this tool and argument digest under the first identifier, and the second
  is an outcome under the second identifier that references it.\<close>
theorem receipts_form_a_chain:
  assumes "governed_call env snap actor pol h s = (r, s')"
    and "mw_trace s' = mw_trace s @ [ReceiptWritten a, HandlerCalled, ReceiptWritten b]"
  shows "\<exists>ra rb. written s' = written s @ [ra, rb]
     \<and> admission_of snap ''admitted'' a ra \<and> outcome_for a b rb"
  using assms unfolding governed_call_def by (rule governed_call_chain)

definition sample_outcome_args :: outcome_args where
  "sample_outcome_args =
     \<lparr>oa_admission_ref = ''urn:1'', oa_outcome = ''task_submitted'', oa_result_digest = None,
      oa_exception_class = None, oa_limits = VTuple [VStr ''boundary limit''],
      oa_owned_fields = None\<rparr>"

lemma sample_outcome_clean:
  "clean_build (outcome_envelope sample_identity sample_mw_context
     \<lparr>st_receipt_id = ''urn:1'', st_issued_at = ''2026-01-01T00:00:00Z''\<rparr> sample_outcome_args)"
  by code_simp

lemma guard_and_emit_faults:
  assumes "guard_and_emit ident built sk = (Inr rid, sk')"
  shows "sk_faults sk' = tl (sk_faults sk)"
proof -
  obtain out where "sink_write sk out = (Inr rid, sk')"
    using assms by (rule guard_and_emit_ok)
  then show ?thesis
    by (auto simp: sink_write_def split: sum.splits option.splits pyv.splits if_splits
        list.splits bool.splits)
qed

lemma sample_outcome_accepted:
  assumes "sk_faults sk = []"
  shows "\<exists>sk'. emit_outcome sample_identity sample_mw_context
      \<lparr>st_receipt_id = ''urn:1'', st_issued_at = ''2026-01-01T00:00:00Z''\<rparr> sample_outcome_args sk
      = (Inr ''urn:1'', sk')"
proof -
  obtain env where env: "outcome_envelope sample_identity sample_mw_context
      \<lparr>st_receipt_id = ''urn:1'', st_issued_at = ''2026-01-01T00:00:00Z''\<rparr> sample_outcome_args
        = Inr env"
      "enforce_raw_content_exclusion (VMap env) = Inr ()" "json_ok (VMap env)"
    using sample_outcome_clean
    by (auto simp: clean_build_def isl_def split: sum.splits) (metis obj_sumE old.unit.exhaust)
  have "dget env ''receipt_id'' = Some (VStr ''urn:1'')"
    using outcome_envelope_ok(1)[OF env(1)] by simp
  moreover have "clean_text (si_key_id sample_identity)"
    "clean_text (b64url_encode (cr_sign (si_crypto sample_identity) b))" for b
    by (simp_all add: clean_text_def private_marker_def PRIVATE_MARKERS_def backslash_def b64_char_def)
  ultimately show ?thesis unfolding emit_outcome_def
    by (intro guard_and_emit_accepts[OF env]) (simp_all add: assms)
qed

theorem receipts_form_a_chain_witness:
  "\<exists>s' ra rb. governed_call sample_env sample_snapshot anonymous_actor sample_policy
        (HandlerReturns TaskResult) sample_state = (Returned TaskResult, s')
     \<and> written s' = [ra, rb] \<and> admission_of sample_snapshot ''admitted'' ''urn:1'' ra
     \<and> outcome_for ''urn:1'' ''urn:1'' rb"
proof -
  let ?ctx = "mw_receipt_context sample_config sample_snapshot anonymous_actor sample_policy"
  have ctx: "?ctx = sample_mw_context" by (simp add: sample_policy_def)
  obtain s1 where e: "mw_emit_admission sample_env ?ctx sample_snapshot sample_policy ''admitted''
      None None None sample_state = (Inr ''urn:1'', s1)" "mw_trace s1 = [ReceiptWritten ''urn:1'']"
    using sample_mw_emission[OF sample_builds_clean(1) refl, of "''admitted''" None]
    by (auto simp: sample_policy_def)
  let ?plan = "\<lparr>ap_requested = ''admitted'', ap_resolved = ''admitted'',
      ap_record = Some (admission_record (neutral_of sample_env sample_policy ''admitted'' None)
        ''admitted'' None False None [''compute_argument_digest'']),
      ap_admission_recorded = True, ap_execution_proceeds = True\<rparr>"
  let ?s2 = "s1\<lparr>mw_trace := mw_trace s1 @ [HandlerCalled]\<rparr>"
  have plan: "plan_admission (neutral_of sample_env sample_policy ''admitted'' None) = Inr ?plan"
    by (simp add: plan_admission_def neutral_admission_request_def admission_before_execution_def
        ADMISSION_BEFORE_EXECUTION_REQUIRED_def sample_policy_def plain_policy_def)
  have "sk_faults (mw_sink s1) = []"
    using guard_and_emit_faults[OF after_emit_Inr(2)[OF e(1)[unfolded mw_emit_admission_def],
        unfolded emit_admission_def]] by (simp add: sample_state_def)
  then obtain sk' where "emit_outcome sample_identity sample_mw_context
      \<lparr>st_receipt_id = ''urn:1'', st_issued_at = ''2026-01-01T00:00:00Z''\<rparr> sample_outcome_args
      (mw_sink s1) = (Inr ''urn:1'', sk')"
    using sample_outcome_accepted by blast
  then obtain s3 where out: "mw_emit_outcome sample_env ?ctx sample_snapshot ''urn:1'' ''task_submitted''
      None None None ?s2 = (Inr ''urn:1'', s3)"
      "mw_trace s3 = [ReceiptWritten ''urn:1'', HandlerCalled, ReceiptWritten ''urn:1'']"
    using e(2) unfolding ctx
    by (simp add: mw_emit_outcome_def after_emit_def sample_env_def sample_outcome_args_def
        vtuple_def mw_limits_def dict_fromkeys_def sample_config_def)
  have live: "live_plan ?plan" by (simp add: live_plan_def)
  have pl: "emit_planned_outcome sample_env ?plan ?ctx sample_snapshot ''urn:1'' TaskResult
      (simple_observation ''task_submitted'' None) None ?s2 = (Inr (), s3)"
    using core_planned_result[OF live, of "''task_submitted''" sample_env ?ctx sample_snapshot
        "''urn:1''" TaskResult None ?s2] out(1)
    by (auto simp: emit_post_execution_outcome_def)
  have run: "governed_call sample_env sample_snapshot anonymous_actor sample_policy
      (HandlerReturns TaskResult) sample_state = (Returned TaskResult, s3)"
  proof -
    have cf: "en_config sample_env = sample_config" by (simp add: sample_env_def)
    have d: "to_neutral_disposition (bp_disposition sample_policy) = Some ''admitted''"
      by (simp add: sample_policy_def plain_policy_def to_neutral_disposition_def
          NEUTRAL_DISPOSITION_BY_BINDING_def)
    show ?thesis using plan e(1) pl
      by (simp add: governed_call_def governed_call_under_def Let_def cf d prepare_review_def observe_admission_def
          execute_call_def after_return_def)
  qed
  have "mw_trace s3 = mw_trace sample_state @ [ReceiptWritten ''urn:1'', HandlerCalled,
      ReceiptWritten ''urn:1'']"
    using out(2) by (simp add: sample_state_def)
  from receipts_form_a_chain[OF run this] run show ?thesis by (auto simp: sample_state_def)
qed

end
