(* ===== verification/DagrInterfaces.thy ===== *)
theory DagrInterfaces
  imports PyValue
begin

text \<open>The interfaces several components meet, as locales. Their laws are discharged by the
  interpretations in the theories of the components that provide the operations.\<close>

section \<open>Decimal references\<close>

definition str_val :: "string \<Rightarrow> nat" where
  "str_val s = foldl (\<lambda>a c. 10 * a + (of_char c - 48)) 0 s"

lemma of_char_digit: "n < 10 \<Longrightarrow> of_char (digit_char n) = (48 + n :: nat)"
  by (simp only: digit_char_def of_char_of) simp

lemma str_val_nat_str: "str_val (nat_str n) = n"
proof (induction n rule: nat_str.induct)
  case (1 n)
  show ?case
  proof (cases "n < 10")
    case True
    then show ?thesis by (simp add: str_val_def of_char_digit)
  next
    case False
    then have "str_val (nat_str n) = 10 * (n div 10) + n mod 10"
      using 1 by (subst nat_str.simps) (simp add: str_val_def of_char_digit)
    then show ?thesis by simp
  qed
qed

lemma nat_str_inj: "(nat_str m = nat_str n) = (m = n)"
  by (metis str_val_nat_str)

section \<open>Inner handlers\<close>

text \<open>What the inner handler does: it returns, raises an \<^verbatim>\<open>Exception\<close> of a class, or raises what
  \<^verbatim>\<open>except Exception\<close> does not catch.\<close>

datatype inner_outcome = InnerReturns pyv | InnerRaises string | InnerAborts

section \<open>A store keyed by the references it hands out\<close>

text \<open>A sink refuses when it is unavailable and otherwise accepts, hands out a reference, stores the
  item stamped with it, and leaves every other reference as it was.\<close>

locale keyed_sink =
  fixes available :: "'s \<Rightarrow> bool"
    and lookup :: "'s \<Rightarrow> string \<Rightarrow> 'v option"
    and put :: "'s \<Rightarrow> 'v \<Rightarrow> ('e, 's \<times> string) result"
    and stamped :: "'v \<Rightarrow> string \<Rightarrow> 'v"
  assumes refuses: "\<not> available s \<Longrightarrow> \<exists>e. put s v = Inl e"
    and accepts: "available s \<Longrightarrow> \<exists>s' r. put s v = Inr (s', r)"
    and readback: "put s v = Inr (s', r) \<Longrightarrow> lookup s' r = Some (stamped v r)"
    and frame: "put s v = Inr (s', r) \<Longrightarrow> q \<noteq> r \<Longrightarrow> lookup s' q = lookup s q"
    and stays: "put s v = Inr (s', r) \<Longrightarrow> available s'"
begin

fun put_all :: "'s \<Rightarrow> 'v list \<Rightarrow> ('e, 's \<times> string list) result" where
  "put_all s [] = Inr (s, [])"
| "put_all s (v # vs) =
     rbind (put s v) (\<lambda>(s1, r). rbind (put_all s1 vs) (\<lambda>(s2, rs). Inr (s2, r # rs)))"

lemma put_all_accepts:
  "available s \<Longrightarrow> \<exists>s' rs. put_all s vs = Inr (s', rs) \<and> length rs = length vs"
proof (induction vs arbitrary: s)
  case (Cons v vs)
  obtain s1 r where w: "put s v = Inr (s1, r)" using accepts[OF Cons.prems] by blast
  then show ?case using Cons.IH[OF stays[OF w]] by fastforce
qed simp

lemma put_all_frame:
  "put_all s vs = Inr (s', rs) \<Longrightarrow> q \<notin> set rs \<Longrightarrow> lookup s' q = lookup s q"
proof (induction vs arbitrary: s rs)
  case (Cons v vs)
  then obtain s1 r rs' where w: "put s v = Inr (s1, r)" "put_all s1 vs = Inr (s', rs')"
      "rs = r # rs'"
    by (auto simp: rbind_Inr_iff)
  with Cons show ?case using frame[OF w(1), of q] by simp
qed simp

text \<open>Under distinct references every item of a batch is stored at the end.\<close>

lemma put_all_readback:
  assumes "put_all s vs = Inr (s', rs)" "distinct rs"
  shows "list_all2 (\<lambda>v r. lookup s' r = Some (stamped v r)) vs rs"
  using assms
proof (induction vs arbitrary: s rs)
  case (Cons v vs)
  then obtain s1 r rs' where w: "put s v = Inr (s1, r)" "put_all s1 vs = Inr (s', rs')"
      "rs = r # rs'"
    by (auto simp: rbind_Inr_iff)
  with Cons have "list_all2 (\<lambda>v r. lookup s' r = Some (stamped v r)) vs rs'" by simp
  moreover have "lookup s' r = Some (stamped v r)"
    using put_all_frame[OF w(2), of r] readback[OF w(1)] Cons.prems(2) w(3) by simp
  ultimately show ?case using w(3) by simp
qed simp

end

text \<open>A sink that mints a reference from a counter for an item that brings none.\<close>

locale minting_sink = keyed_sink available lookup put stamped
  for available :: "'s \<Rightarrow> bool" and lookup :: "'s \<Rightarrow> string \<Rightarrow> 'v option"
    and put :: "'s \<Rightarrow> 'v \<Rightarrow> ('e, 's \<times> string) result" and stamped :: "'v \<Rightarrow> string \<Rightarrow> 'v" +
  fixes counter :: "'s \<Rightarrow> nat" and mint :: "nat \<Rightarrow> string" and supplied :: "'v \<Rightarrow> bool"
  assumes minted: "put s v = Inr (s', r) \<Longrightarrow> \<not> supplied v \<Longrightarrow>
        r = mint (Suc (counter s)) \<and> counter s' = Suc (counter s)"
    and mint_inj: "mint m = mint n \<Longrightarrow> m = n"
begin

lemma put_all_minted:
  "put_all s vs = Inr (s', rs) \<Longrightarrow> list_all (\<lambda>v. \<not> supplied v) vs \<Longrightarrow>
     rs = map mint [Suc (counter s)..<Suc (counter s + length vs)]"
proof (induction vs arbitrary: s rs)
  case (Cons v vs)
  then obtain s1 r rs' where w: "put s v = Inr (s1, r)" "put_all s1 vs = Inr (s', rs')"
      "rs = r # rs'"
    by (auto simp: rbind_Inr_iff)
  have m: "r = mint (Suc (counter s))" "counter s1 = Suc (counter s)"
    using minted[OF w(1)] Cons.prems(2) by auto
  have "rs' = map mint [Suc (counter s1)..<Suc (counter s1 + length vs)]"
    using Cons.IH[OF w(2)] Cons.prems(2) by simp
  then show ?case using w(3) m by (simp add: upt_conv_Cons del: upt_Suc)
qed simp

text \<open>A batch of items without references of their own is accepted and loses nothing.\<close>

lemma minted_batch_kept:
  assumes "available s" "list_all (\<lambda>v. \<not> supplied v) vs"
  shows "\<exists>s' rs. put_all s vs = Inr (s', rs) \<and> distinct rs
     \<and> list_all2 (\<lambda>v r. lookup s' r = Some (stamped v r)) vs rs"
proof -
  obtain s' rs where w: "put_all s vs = Inr (s', rs)"
    using put_all_accepts[OF assms(1)] by blast
  have "distinct rs" unfolding put_all_minted[OF w assms(2)]
    using mint_inj by (auto simp: distinct_map inj_on_def)
  with w put_all_readback[OF w] show ?thesis by blast
qed

end

section \<open>A gate in front of a handler\<close>

text \<open>A governed step runs its handler at most once, and not at all for a request it does not
  admit. The client is a session of requests.\<close>

locale handler_gate =
  fixes step :: "'w \<Rightarrow> 'req \<Rightarrow> 'w"
    and runs :: "'w \<Rightarrow> nat"
    and admits :: "'req \<Rightarrow> bool"
  assumes at_most_once: "runs (step w q) \<le> Suc (runs w)"
    and monotone: "runs w \<le> runs (step w q)"
    and gated: "\<not> admits q \<Longrightarrow> runs (step w q) = runs w"
begin

definition session :: "'w \<Rightarrow> 'req list \<Rightarrow> 'w" where
  "session w qs = foldl step w qs"

lemma session_bound: "runs (session w qs) \<le> runs w + length (filter admits qs)"
proof (induction qs arbitrary: w)
  case (Cons q qs)
  have "runs (session (step w q) qs) \<le> runs (step w q) + length (filter admits qs)" by (rule Cons)
  then show ?case using at_most_once[of w q] gated[of q w] by (auto simp: session_def)
qed (simp add: session_def)

lemma session_monotone: "runs w \<le> runs (session w qs)"
proof (induction qs arbitrary: w)
  case (Cons q qs)
  show ?case using monotone[of w q] Cons[of "step w q"] by (simp add: session_def)
qed (simp add: session_def)

lemma session_closed: "list_all (\<lambda>q. \<not> admits q) qs \<Longrightarrow> runs (session w qs) = runs w"
  using session_bound[of w qs] session_monotone[of w qs]
  by (simp add: list_all_iff filter_empty_conv)

end

section \<open>A machine with absorbing terminal states\<close>

locale terminal_machine =
  fixes step :: "'s \<Rightarrow> 's \<Rightarrow> bool" and terminal :: "'s \<Rightarrow> bool" and view :: "'s \<Rightarrow> 'v"
  assumes absorbing: "step s t \<Longrightarrow> terminal s \<Longrightarrow> terminal t \<and> view t = view s"
begin

lemma terminal_stays: "step\<^sup>*\<^sup>* s t \<Longrightarrow> terminal s \<Longrightarrow> terminal t \<and> view t = view s"
  by (induction rule: rtranclp_induct) (auto dest: absorbing)

text \<open>Two runs from a common state that has gone terminal agree on what is visible.\<close>

lemma terminal_confluent:
  assumes "step\<^sup>*\<^sup>* s t" "step\<^sup>*\<^sup>* s u" "terminal s"
  shows "view t = view u"
  using terminal_stays[OF assms(1,3)] terminal_stays[OF assms(2,3)] by simp

end

end
