(* ===== verification/FastmcpGate.thy ===== *)
theory FastmcpGate
  imports FastmcpProperties DagrInterfaces
begin

text \<open>A session of governed FastMCP calls as an instance of the handler gate: every call runs its
  handler at most once, and only for an admitted policy.\<close>

record governed_request =
  gq_env :: mw_env
  gq_snapshot :: request_snapshot
  gq_actor :: actor_resolution
  gq_policy :: binding_policy
  gq_handler :: handler_outcome

definition serve_call :: "mw_state \<Rightarrow> governed_request \<Rightarrow> mw_state" where
  "serve_call s q =
     snd (governed_call (gq_env q) (gq_snapshot q) (gq_actor q) (gq_policy q) (gq_handler q) s)"

definition handler_calls :: "mw_state \<Rightarrow> nat" where
  "handler_calls s = count_list (mw_trace s) HandlerCalled"

definition policy_admits :: "governed_request \<Rightarrow> bool" where
  "policy_admits q = (bp_disposition (gq_policy q) = ''admitted'')"

lemma call_trace_count: "call_trace tr \<Longrightarrow> count_list tr HandlerCalled \<le> 1"
  by (auto simp: call_trace_def)

lemma governed_call_count:
  assumes run: "governed_call env snap actor pol h s = (r, s')"
  shows "\<exists>n \<le> 1. count_list (mw_trace s') HandlerCalled = count_list (mw_trace s) HandlerCalled + n
     \<and> (n = 0 \<or> bp_disposition pol = ''admitted'')"
proof (rule governed_call_trace[OF run[unfolded governed_call_def]])
  fix tr
  assume tr: "mw_trace s' = mw_trace s @ tr" "call_trace tr"
    and adm: "HandlerCalled \<in> set tr \<Longrightarrow> bp_disposition pol = ''admitted'' \<and> ran_handler r"
  have "count_list tr HandlerCalled = 0 \<or> bp_disposition pol = ''admitted''"
    using adm by (cases "HandlerCalled \<in> set tr") (simp_all add: count_list_0_iff)
  then show ?thesis using tr(1) call_trace_count[OF tr(2)]
    by (intro exI[of _ "count_list tr HandlerCalled"]) simp
qed

lemma serve_call_count:
  "\<exists>n \<le> 1. handler_calls (serve_call s q) = handler_calls s + n \<and> (n = 0 \<or> policy_admits q)"
  unfolding handler_calls_def serve_call_def policy_admits_def
  by (rule governed_call_count[OF prod.collapse[symmetric]])

interpretation fastmcp_gate: handler_gate serve_call handler_calls policy_admits
proof
  fix s q
  obtain n where n: "n \<le> 1" "handler_calls (serve_call s q) = handler_calls s + n"
    "n = 0 \<or> policy_admits q" using serve_call_count by blast
  show "handler_calls (serve_call s q) \<le> Suc (handler_calls s)"
    "handler_calls s \<le> handler_calls (serve_call s q)"
    "\<not> policy_admits q \<Longrightarrow> handler_calls (serve_call s q) = handler_calls s"
    using n by auto
qed

text \<open>Over a whole session the handlers run at most as often as requests were admitted.\<close>

lemma session_handler_bound:
  "handler_calls (fastmcp_gate.session s qs)
     \<le> handler_calls s + length (filter policy_admits qs)"
  by (rule fastmcp_gate.session_bound)

end
