(* ===== verification/SdkSpine.thy ===== *)
theory SdkSpine
  imports PyValue "HOL-Library.List_Lexorder" "HOL-Library.Char_ord"
begin

text \<open>The sink vocabulary of the SDK spine (\<^verbatim>\<open>src/dagr_mcp/sdk_spine.py\<close>, lines 12 to 727): sink
  types and capabilities, the data a sink stores, and the normalisation of review states,
  decision outcomes, decision references and actor references. The in-memory sinks follow in
  \<^verbatim>\<open>SdkSinks\<close>.\<close>

section \<open>Vocabulary\<close>

definition SINK_STATUS_AVAILABLE :: token where [vocab]: "SINK_STATUS_AVAILABLE = ''available''"
definition SINK_STATUS_DEGRADED :: token where [vocab]: "SINK_STATUS_DEGRADED = ''degraded''"
definition SINK_STATUS_UNAVAILABLE :: token where [vocab]:
  "SINK_STATUS_UNAVAILABLE = ''unavailable''"
definition SINK_DURABILITY_MEMORY :: token where [vocab]: "SINK_DURABILITY_MEMORY = ''memory''"

definition SINK_TYPE_EVENT :: token where [vocab]: "SINK_TYPE_EVENT = ''event''"
definition SINK_TYPE_RECEIPT :: token where [vocab]: "SINK_TYPE_RECEIPT = ''receipt''"
definition SINK_TYPE_ARTIFACT :: token where [vocab]: "SINK_TYPE_ARTIFACT = ''artifact''"
definition SINK_TYPE_REVIEW_OBJECT :: token where [vocab]:
  "SINK_TYPE_REVIEW_OBJECT = ''review_object''"
definition SINK_TYPE_LINT_FINDING :: token where [vocab]:
  "SINK_TYPE_LINT_FINDING = ''lint_finding''"

definition SINK_CAP_EVENT_WRITE :: token where [vocab]:
  "SINK_CAP_EVENT_WRITE = ''garp.sdk.sink.event.write''"
definition SINK_CAP_EVENT_BATCH_WRITE :: token where [vocab]:
  "SINK_CAP_EVENT_BATCH_WRITE = ''garp.sdk.sink.event.batch_write''"
definition SINK_CAP_RECEIPT_WRITE :: token where [vocab]:
  "SINK_CAP_RECEIPT_WRITE = ''garp.sdk.sink.receipt.write''"
definition SINK_CAP_RECEIPT_VERIFY :: token where [vocab]:
  "SINK_CAP_RECEIPT_VERIFY = ''garp.sdk.sink.receipt.verify''"
definition SINK_CAP_ARTIFACT_WRITE :: token where [vocab]:
  "SINK_CAP_ARTIFACT_WRITE = ''garp.sdk.sink.artifact.write''"
definition SINK_CAP_ARTIFACT_READ :: token where [vocab]:
  "SINK_CAP_ARTIFACT_READ = ''garp.sdk.sink.artifact.read''"
definition SINK_CAP_ARTIFACT_LIST :: token where [vocab]:
  "SINK_CAP_ARTIFACT_LIST = ''garp.sdk.sink.artifact.list''"
definition SINK_CAP_REVIEW_CREATE :: token where [vocab]:
  "SINK_CAP_REVIEW_CREATE = ''garp.sdk.sink.review_object.create''"
definition SINK_CAP_REVIEW_RECORD_DECISION :: token where [vocab]:
  "SINK_CAP_REVIEW_RECORD_DECISION = ''garp.sdk.sink.review_object.record_decision''"
definition SINK_CAP_REVIEW_LIST_PENDING :: token where [vocab]:
  "SINK_CAP_REVIEW_LIST_PENDING = ''garp.sdk.sink.review_object.list_pending''"
definition SINK_CAP_LINT_WRITE_FINDINGS :: token where [vocab]:
  "SINK_CAP_LINT_WRITE_FINDINGS = ''garp.sdk.sink.lint.write_findings''"
definition SINK_CAP_LINT_SUMMARIZE :: token where [vocab]:
  "SINK_CAP_LINT_SUMMARIZE = ''garp.sdk.sink.lint.summarize''"

definition SINK_CAPABILITIES_WRITE :: "token list" where [vocab]:
  "SINK_CAPABILITIES_WRITE =
     [SINK_CAP_EVENT_WRITE, SINK_CAP_EVENT_BATCH_WRITE,
      SINK_CAP_RECEIPT_WRITE, SINK_CAP_ARTIFACT_WRITE,
      SINK_CAP_REVIEW_CREATE, SINK_CAP_REVIEW_RECORD_DECISION,
      SINK_CAP_LINT_WRITE_FINDINGS]"
definition SINK_CAPABILITIES_READ :: "token list" where [vocab]:
  "SINK_CAPABILITIES_READ =
     [SINK_CAP_RECEIPT_VERIFY, SINK_CAP_ARTIFACT_READ,
      SINK_CAP_ARTIFACT_LIST, SINK_CAP_REVIEW_LIST_PENDING,
      SINK_CAP_LINT_SUMMARIZE]"
definition ALL_CAPS_BY_SINK_TYPE :: "token list dict" where [vocab]:
  "ALL_CAPS_BY_SINK_TYPE =
     [(SINK_TYPE_EVENT, [SINK_CAP_EVENT_WRITE, SINK_CAP_EVENT_BATCH_WRITE]),
      (SINK_TYPE_RECEIPT, [SINK_CAP_RECEIPT_WRITE, SINK_CAP_RECEIPT_VERIFY]),
      (SINK_TYPE_ARTIFACT, [SINK_CAP_ARTIFACT_WRITE, SINK_CAP_ARTIFACT_READ,
                      SINK_CAP_ARTIFACT_LIST]),
      (SINK_TYPE_REVIEW_OBJECT, [SINK_CAP_REVIEW_CREATE,
                           SINK_CAP_REVIEW_RECORD_DECISION,
                           SINK_CAP_REVIEW_LIST_PENDING]),
      (SINK_TYPE_LINT_FINDING, [SINK_CAP_LINT_WRITE_FINDINGS,
                          SINK_CAP_LINT_SUMMARIZE])]"

definition REVIEW_OBJECT_STATES :: "token list" where [vocab]:
  "REVIEW_OBJECT_STATES =
     [''pending'', ''approved'', ''rejected'', ''deferred'', ''expired'', ''withdrawn'',
      ''superseded'']"
definition REVIEW_DECISION_OUTCOMES :: "token list" where [vocab]:
  "REVIEW_DECISION_OUTCOMES = [''approved'', ''rejected'', ''deferred'', ''expired'']"
definition ACTOR_REF_PREFIXES :: "token list" where [vocab]:
  "ACTOR_REF_PREFIXES =
     [''local_operator'', ''delegated_agent'', ''service_account'', ''external_reviewer'']"
definition REVIEW_OBJECT_STATE_ALIASES :: "token dict" where [vocab]:
  "REVIEW_OBJECT_STATE_ALIASES = [(''in_review'', ''pending''), (''escalated'', ''pending'')]"
definition APPROVED_WITH_NOTES_MODIFIER :: token where [vocab]:
  "APPROVED_WITH_NOTES_MODIFIER = ''notes_export_conditional''"
definition REVIEW_OBJECT_STATE_MODIFIER_ALIASES :: "token dict" where [vocab]:
  "REVIEW_OBJECT_STATE_MODIFIER_ALIASES = [(''approved_with_notes'', ''approved'')]"
definition REVIEW_OBJECT_STATE_MODIFIERS :: "token dict" where [vocab]:
  "REVIEW_OBJECT_STATE_MODIFIERS = [(''approved_with_notes'', APPROVED_WITH_NOTES_MODIFIER)]"
definition REVIEW_OBJECT_PENDING_STATES :: "token list" where [vocab]:
  "REVIEW_OBJECT_PENDING_STATES = [''pending'', ''deferred'']"
definition REVIEW_OBJECT_GRAPH_TERMINAL_STATES :: "token list" where [vocab]:
  "REVIEW_OBJECT_GRAPH_TERMINAL_STATES = [''superseded'']"

text \<open>The lookup table: both alias tables, then every canonical state that is not yet a key.\<close>

definition REVIEW_OBJECT_STATE_CANONICAL_LOOKUP :: "token dict" where [vocab]:
  "REVIEW_OBJECT_STATE_CANONICAL_LOOKUP =
     foldl (\<lambda>d s. if dget d s = None then dset s s d else d)
       (dupdate REVIEW_OBJECT_STATE_ALIASES REVIEW_OBJECT_STATE_MODIFIER_ALIASES)
       REVIEW_OBJECT_STATES"

section \<open>Stored data\<close>

record sink_health =
  sh_status :: token
  sh_sink_type :: token
  sh_implementation :: string
  sh_checked_at :: string
  sh_durability :: token
  sh_writable :: bool
  sh_readable :: bool
  sh_capabilities :: "token list"
  sh_degraded_reason :: "string option"
  sh_last_error :: "string option"

record event_envelope =
  ee_event_type :: string
  ee_occurred_at :: string
  ee_event_id :: "string option"
  ee_subject_ref :: "string option"
  ee_actor_ref :: "string option"
  ee_policy_ref :: "string option"
  ee_detail :: pydict
  ee_lineage_refs :: "string list"

record receipt_envelope =
  re_receipt_type :: string
  re_boundary_type :: string
  re_protocol_binding :: string
  re_issued_at :: string
  re_artifact_classes_covered :: "string list"
  re_artifact_classes_excluded :: "string list"
  re_attestation_limits :: "string list"
  re_receipt_id :: "string option"
  re_subject_ref :: "string option"
  re_policy_ref :: "string option"
  re_policy_hash :: "string option"
  re_extensions :: pydict
  re_critical_extensions :: "string list"

record governed_artifact =
  ga_artifact_type :: string
  ga_created_at :: string
  ga_private :: bool
  ga_required :: bool
  ga_optional_derived :: bool
  ga_artifact_ref :: "string option"
  ga_payload_hash :: "string option"
  ga_metadata :: pydict

record review_object =
  ro_type :: string
  ro_governance_state :: pyv
  ro_context_payload :: pydict
  ro_allowed_actions :: "string list"
  ro_created_at :: string
  ro_id :: "string option"
  ro_origin_event_id :: "string option"

record review_decision =
  rd_decision :: pyv
  rd_review_object_id :: pyv
  rd_decided_at :: string
  rd_actor_ref :: "string option"
  rd_reason :: "string option"
  rd_detail :: pydict

record review_decision_lookup =
  rl_decision_ref :: string
  rl_decision :: review_decision
  rl_terminal :: bool

record lint_finding =
  lf_rule_id :: string
  lf_severity :: string
  lf_message :: string
  lf_rule_family :: "string option"
  lf_object_ref :: "string option"
  lf_detail :: pydict

record verification_result =
  vr_ok :: bool
  vr_reason :: "string option"
  vr_detail :: pydict

datatype spine_error =
    StateNotText | StateEmpty | UnknownState string
  | OutcomeNotText | OutcomeEmpty | UnknownDecisionOutcome string
  | DecisionRefNotText | NotADecisionRef string
  | ActorNotText | ActorEmpty | ActorWhitespace | ActorEmail | ActorNoPrefix | ActorSlugEmpty
  | ActorUnknownPrefix string | ActorSlugSpace | ActorSlugShape | ActorRequired
  | SinkUnavailableError token
  | SinkReadError string
  | SinkWriteError string

section \<open>Review states\<close>

definition normalize_review_object_state :: "pyv \<Rightarrow> (spine_error, token) result" where
  "normalize_review_object_state value =
    (case value of
       VStr s \<Rightarrow>
        (let key = py_lower (py_strip s) in
         if key = [] then Inl StateEmpty
         else case dget REVIEW_OBJECT_STATE_CANONICAL_LOOKUP key of
             None \<Rightarrow> Inl (UnknownState s)
           | Some c \<Rightarrow> if c \<in> set REVIEW_OBJECT_STATES then Inr c else Inl (UnknownState s))
     | _ \<Rightarrow> Inl StateNotText)"

definition review_object_state_modifier :: "pyv \<Rightarrow> token option" where
  "review_object_state_modifier value =
    (case value of VStr s \<Rightarrow> dget REVIEW_OBJECT_STATE_MODIFIERS (py_lower (py_strip s)) | _ \<Rightarrow> None)"

definition normalize_review_object_state_with_modifier ::
  "pyv \<Rightarrow> (spine_error, token \<times> token option) result" where
  "normalize_review_object_state_with_modifier value =
     rbind (normalize_review_object_state value)
       (\<lambda>c. Inr (c, review_object_state_modifier value))"

definition is_review_object_graph_terminal :: "pyv \<Rightarrow> (spine_error, bool) result" where
  "is_review_object_graph_terminal value =
     rbind (normalize_review_object_state value)
       (\<lambda>c. Inr (c \<in> set REVIEW_OBJECT_GRAPH_TERMINAL_STATES))"

definition is_review_object_supersedable :: "pyv \<Rightarrow> (spine_error, bool) result" where
  "is_review_object_supersedable value =
     rbind (normalize_review_object_state value)
       (\<lambda>c. Inr (c \<notin> set REVIEW_OBJECT_GRAPH_TERMINAL_STATES))"

definition normalize_review_decision_outcome :: "pyv \<Rightarrow> (spine_error, token) result" where
  "normalize_review_decision_outcome value =
    (case value of
       VStr s \<Rightarrow>
        (let key = py_lower (py_strip s) in
         if key = [] then Inl OutcomeEmpty
         else if key \<notin> set REVIEW_DECISION_OUTCOMES then Inl (UnknownDecisionOutcome s)
         else Inr key)
     | _ \<Rightarrow> Inl OutcomeNotText)"

section \<open>Decision references\<close>

definition letter_char :: "char \<Rightarrow> bool" where
  "letter_char c = (let n = of_char c :: nat in (65 \<le> n \<and> n \<le> 90) \<or> (97 \<le> n \<and> n \<le> 122))"
definition dec_char :: "char \<Rightarrow> bool" where
  "dec_char c = (let n = of_char c :: nat in 48 \<le> n \<and> n \<le> 57)"

text \<open>\<^verbatim>\<open>s.partition(":")\<close>: the part before the first colon, whether there is one, and the rest.\<close>

definition partition_colon :: "string \<Rightarrow> string \<times> bool \<times> string" where
  "partition_colon s =
     (let p = takeWhile (\<lambda>c. c \<noteq> CHR '':'') s; r = dropWhile (\<lambda>c. c \<noteq> CHR '':'') s
      in (p, r \<noteq> [], tl r))"

definition decision_ns_ok :: "string \<Rightarrow> bool" where
  "decision_ns_ok ns =
     (ns \<noteq> [] \<and> letter_char (hd ns)
      \<and> list_all (\<lambda>c. letter_char c \<or> dec_char c \<or> c = CHR ''_'') (tl ns))"
definition decision_idx_ok :: "string \<Rightarrow> bool" where
  "decision_idx_ok idx = (idx \<noteq> [] \<and> list_all dec_char idx \<and> hd idx \<noteq> CHR ''0'')"

text \<open>A full match of \<^verbatim>\<open>^review_decision:(ns):(idx)$\<close>; neither group can hold a colon, so the text
  after the prefix splits at its first colon.\<close>

definition match_decision_ref :: "string \<Rightarrow> (string \<times> string) option" where
  "match_decision_ref s =
     (if \<not> starts_with s ''review_decision:'' then None
      else case partition_colon (drop 16 s) of
          (ns, colon, idx) \<Rightarrow>
            if colon \<and> decision_ns_ok ns \<and> decision_idx_ok idx then Some (ns, idx) else None)"

definition is_review_decision_ref :: "pyv \<Rightarrow> bool" where
  "is_review_decision_ref value =
     (case value of VStr s \<Rightarrow> match_decision_ref (py_strip s) \<noteq> None | _ \<Rightarrow> False)"

definition normalize_review_decision_ref :: "pyv \<Rightarrow> (spine_error, string) result" where
  "normalize_review_decision_ref value =
    (case value of
       VStr s \<Rightarrow>
        (case match_decision_ref (py_strip s) of
           None \<Rightarrow> Inl (NotADecisionRef s)
         | Some (ns, idx) \<Rightarrow> Inr (''review_decision:'' @ py_lower ns @ '':'' @ idx))
     | _ \<Rightarrow> Inl DecisionRefNotText)"

definition review_decision_ref_from_sink_ref :: "pyv \<Rightarrow> (spine_error, string) result" where
  "review_decision_ref_from_sink_ref r = normalize_review_decision_ref r"

section \<open>Actor references\<close>

definition slug_char :: "char \<Rightarrow> bool" where
  "slug_char c = (let n = of_char c :: nat in
     (97 \<le> n \<and> n \<le> 122) \<or> (48 \<le> n \<and> n \<le> 57) \<or> c = CHR ''.'' \<or> c = CHR ''_'' \<or> c = CHR ''-'')"

definition slug_ok :: "string \<Rightarrow> bool" where
  "slug_ok s = (1 \<le> length s \<and> length s \<le> 96 \<and> list_all slug_char s)"

definition blank_or_break :: "char \<Rightarrow> bool" where
  "blank_or_break c = (c = CHR '' '' \<or> c = CHR 0x09 \<or> c = CHR 0x0A)"

definition normalize_actor_ref :: "pyv \<Rightarrow> (spine_error, string) result" where
  "normalize_actor_ref value =
    (case value of
       VStr s \<Rightarrow>
        (let raw = py_strip s in
         if raw = [] then Inl ActorEmpty
         else if list_ex blank_or_break raw then Inl ActorWhitespace
         else if CHR ''@'' \<in> set raw then Inl ActorEmail
         else if CHR '':'' \<notin> set raw then Inl ActorNoPrefix
         else case partition_colon raw of
             (pre, _, slug) \<Rightarrow>
               if slug = [] then Inl ActorSlugEmpty
               else
                (let key = py_lower (py_strip pre) in
                 if key \<notin> set ACTOR_REF_PREFIXES then Inl (ActorUnknownPrefix (py_strip pre))
                 else if py_strip slug \<noteq> slug then Inl ActorSlugSpace
                 else if \<not> slug_ok slug then Inl ActorSlugShape
                 else Inr (key @ '':'' @ slug)))
     | _ \<Rightarrow> Inl ActorNotText)"

definition validate_actor_ref :: "pyv \<Rightarrow> bool \<Rightarrow> (spine_error, string option) result" where
  "validate_actor_ref value required =
     (if value = VNone then (if required then Inl ActorRequired else Inr None)
      else rbind (normalize_actor_ref value) (\<lambda>a. Inr (Some a)))"

section \<open>Capabilities and health\<close>

definition capabilities_for_sink_type :: "token \<Rightarrow> bool \<Rightarrow> bool \<Rightarrow> token list" where
  "capabilities_for_sink_type sink_type writable readable =
     filter (\<lambda>cap. \<not> (cap \<in> set SINK_CAPABILITIES_WRITE \<and> \<not> writable)
                   \<and> \<not> (cap \<in> set SINK_CAPABILITIES_READ \<and> \<not> readable))
       (case dget ALL_CAPS_BY_SINK_TYPE sink_type of Some caps \<Rightarrow> caps | None \<Rightarrow> [])"

definition make_sink_health ::
  "token \<Rightarrow> token \<Rightarrow> string \<Rightarrow> token \<Rightarrow> bool \<Rightarrow> bool \<Rightarrow> string option \<Rightarrow> string option
    \<Rightarrow> token list option \<Rightarrow> string \<Rightarrow> sink_health" where
  "make_sink_health sink_type status impl durability writable readable degraded last_error caps now =
     \<lparr>sh_status = status, sh_sink_type = sink_type, sh_implementation = impl, sh_checked_at = now,
      sh_durability = durability, sh_writable = writable, sh_readable = readable,
      sh_capabilities = (case caps of Some c \<Rightarrow> c
                         | None \<Rightarrow> capabilities_for_sink_type sink_type writable readable),
      sh_degraded_reason = degraded, sh_last_error = last_error\<rparr>"

definition maybe_assign_ref :: "string \<Rightarrow> nat \<Rightarrow> string" where
  "maybe_assign_ref pre n = pre @ '':'' @ nat_str n"

section \<open>Normalisation facts\<close>

lemma canonical_lookup_table:
  "REVIEW_OBJECT_STATE_CANONICAL_LOOKUP =
     [(''in_review'', ''pending''), (''escalated'', ''pending''),
      (''approved_with_notes'', ''approved''), (''pending'', ''pending''),
      (''approved'', ''approved''), (''rejected'', ''rejected''), (''deferred'', ''deferred''),
      (''expired'', ''expired''), (''withdrawn'', ''withdrawn''), (''superseded'', ''superseded'')]"
  by (simp add: vocab)

lemma canonical_values:
  "dget REVIEW_OBJECT_STATE_CANONICAL_LOOKUP k = Some c \<Longrightarrow> c \<in> set REVIEW_OBJECT_STATES"
  by (auto simp: canonical_lookup_table REVIEW_OBJECT_STATES_def split: if_splits)

lemma normalize_state_member:
  "normalize_review_object_state v = Inr c \<Longrightarrow> c \<in> set REVIEW_OBJECT_STATES"
  by (auto simp: normalize_review_object_state_def Let_def split: pyv.splits option.splits if_splits)

lemma normalize_states_fixed:
  "list_all (\<lambda>c. normalize_review_object_state (VStr c) = Inr c) REVIEW_OBJECT_STATES"
  by code_simp

lemma normalize_state_fixed:
  "c \<in> set REVIEW_OBJECT_STATES \<Longrightarrow> normalize_review_object_state (VStr c) = Inr c"
  using normalize_states_fixed by (simp add: list_all_iff)

lemma normalize_outcomes_fixed:
  "list_all (\<lambda>c. normalize_review_decision_outcome (VStr c) = Inr c) REVIEW_DECISION_OUTCOMES"
  by code_simp

lemma normalize_outcome_fixed:
  "c \<in> set REVIEW_DECISION_OUTCOMES \<Longrightarrow> normalize_review_decision_outcome (VStr c) = Inr c"
  using normalize_outcomes_fixed by (simp add: list_all_iff)

lemma normalize_outcome_member:
  "normalize_review_decision_outcome v = Inr c \<Longrightarrow> c \<in> set REVIEW_DECISION_OUTCOMES"
  by (auto simp: normalize_review_decision_outcome_def Let_def split: pyv.splits if_splits)

lemma partition_colon_append:
  "CHR '':'' \<notin> set p \<Longrightarrow> partition_colon (p @ CHR '':'' # r) = (p, True, r)"
proof -
  assume a: "CHR '':'' \<notin> set p"
  then have "takeWhile (\<lambda>c. c \<noteq> CHR '':'') (p @ CHR '':'' # r) = p"
    by (subst takeWhile_append2) auto
  moreover have "dropWhile (\<lambda>c. c \<noteq> CHR '':'') (p @ CHR '':'' # r) = CHR '':'' # r"
    using a by (subst dropWhile_append2) auto
  ultimately show ?thesis by (simp add: partition_colon_def Let_def)
qed

lemma partition_colon_parts:
  assumes "partition_colon s = (p, True, r)"
  shows "s = p @ CHR '':'' # r" "CHR '':'' \<notin> set p"
proof -
  let ?P = "\<lambda>c. c \<noteq> CHR '':''"
  have p: "p = takeWhile ?P s" and r: "dropWhile ?P s \<noteq> []" "r = tl (dropWhile ?P s)"
    using assms by (auto simp: partition_colon_def Let_def)
  have "\<not> ?P (hd (dropWhile ?P s))" using r(1) by (rule hd_dropWhile)
  then have "dropWhile ?P s = CHR '':'' # r" using r by (cases "dropWhile ?P s") auto
  then show "s = p @ CHR '':'' # r" using p by (metis takeWhile_dropWhile_id)
  show "CHR '':'' \<notin> set p" unfolding p by (auto dest: set_takeWhileD)
qed

lemma slug_char_facts:
  assumes "slug_char c"
  shows "\<not> py_space c" "\<not> blank_or_break c" "c \<noteq> CHR ''@''"
  using assms by (auto simp: slug_char_def py_space_def blank_or_break_def Let_def)

lemma slug_not_space: "slug_ok s \<Longrightarrow> s \<noteq> [] \<and> \<not> py_space (hd s) \<and> \<not> py_space (last s)"
proof -
  assume a: "slug_ok s"
  then have ne: "s \<noteq> []" by (auto simp: slug_ok_def)
  then have "slug_char (hd s)" "slug_char (last s)" using a by (auto simp: slug_ok_def list_all_iff)
  with ne show ?thesis by (simp add: slug_char_facts(1))
qed

lemma prefix_facts:
  assumes "key \<in> set ACTOR_REF_PREFIXES"
  shows "py_lower key = key" "py_strip key = key" "\<not> list_ex blank_or_break key"
    "CHR ''@'' \<notin> set key" "CHR '':'' \<notin> set key" "key \<noteq> []" "\<not> py_space (hd key)"
  using assms
  by (auto simp: ACTOR_REF_PREFIXES_def py_lower_def py_lower_char_def py_strip_def py_space_def
      blank_or_break_def)

text \<open>The references the actor normaliser gives back.\<close>

definition actor_ref_shape :: "string \<Rightarrow> bool" where
  "actor_ref_shape r =
     (\<exists>key slug. key \<in> set ACTOR_REF_PREFIXES \<and> slug_ok slug \<and> r = key @ '':'' @ slug)"

lemma normalize_actor_shape:
  "normalize_actor_ref v = Inr r \<Longrightarrow> actor_ref_shape r"
  by (auto simp: normalize_actor_ref_def actor_ref_shape_def Let_def
      split: pyv.splits if_splits prod.splits)

lemma normalize_actor_fixed:
  assumes "actor_ref_shape r"
  shows "normalize_actor_ref (VStr r) = Inr r"
proof -
  obtain key slug where k: "key \<in> set ACTOR_REF_PREFIXES" "slug_ok slug"
    and r: "r = key @ CHR '':'' # slug"
    using assms by (auto simp: actor_ref_shape_def)
  note pf = prefix_facts[OF k(1)]
  note sl = slug_not_space[OF k(2)]
  have strip: "py_strip r = r"
    using pf(6,7) sl by (intro py_strip_fixed) (auto simp: r)
  have slug: "\<not> list_ex blank_or_break slug" "CHR ''@'' \<notin> set slug"
    using k(2) slug_char_facts(2,3) by (auto simp: slug_ok_def list_all_iff list_ex_iff)
  have nb: "\<not> list_ex blank_or_break r" "CHR ''@'' \<notin> set r" "r \<noteq> []" "CHR '':'' \<in> set r"
    using pf(3,4) slug by (simp_all add: r blank_or_break_def)
  have part: "partition_colon r = (key, True, slug)"
    unfolding r by (rule partition_colon_append[OF pf(5)])
  have "py_strip slug = slug" using sl by (intro py_strip_fixed) auto
  then have "normalize_actor_ref (VStr r) = Inr (key @ CHR '':'' # slug)"
    using sl k by (simp add: normalize_actor_ref_def strip nb part pf)
  then show ?thesis by (simp add: r)
qed

lemma letter_lower: "letter_char c \<Longrightarrow> letter_char (py_lower_char c)"
  by (auto simp: letter_char_def py_lower_char_def Let_def)

lemma not_letter_lower: "dec_char c \<or> c = CHR ''_'' \<Longrightarrow> py_lower_char c = c"
  by (auto simp: dec_char_def py_lower_char_def Let_def)

lemma decision_ns_lower: "decision_ns_ok ns \<Longrightarrow> decision_ns_ok (py_lower ns)"
  by (cases ns) (auto simp: decision_ns_ok_def py_lower_def list_all_iff not_letter_lower
      dest: letter_lower)

lemma decision_ns_no_colon: "decision_ns_ok ns \<Longrightarrow> CHR '':'' \<notin> set ns"
  by (cases ns) (auto simp: decision_ns_ok_def letter_char_def dec_char_def list_all_iff)

lemma decision_idx_not_space:
  "decision_idx_ok idx \<Longrightarrow> idx \<noteq> [] \<and> \<not> py_space (last idx)"
proof -
  assume a: "decision_idx_ok idx"
  then have "dec_char (last idx)" by (auto simp: decision_idx_ok_def list_all_iff)
  then have "\<not> py_space (last idx)" by (auto simp: dec_char_def py_space_def Let_def)
  with a show ?thesis by (simp add: decision_idx_ok_def)
qed

lemma match_decision_ref_build:
  assumes "decision_ns_ok ns" "decision_idx_ok idx"
  shows "match_decision_ref (''review_decision:'' @ ns @ CHR '':'' # idx) = Some (ns, idx)"
    and "py_strip (''review_decision:'' @ ns @ CHR '':'' # idx)
           = ''review_decision:'' @ ns @ CHR '':'' # idx"
proof -
  show "match_decision_ref (''review_decision:'' @ ns @ CHR '':'' # idx) = Some (ns, idx)"
    using assms partition_colon_append[OF decision_ns_no_colon[OF assms(1)], of idx]
    by (simp add: match_decision_ref_def starts_with_def)
  show "py_strip (''review_decision:'' @ ns @ CHR '':'' # idx)
           = ''review_decision:'' @ ns @ CHR '':'' # idx"
    using decision_idx_not_space[OF assms(2)]
    by (intro py_strip_fixed) (auto simp: py_space_def)
qed

lemma match_decision_ref_parts:
  "match_decision_ref s = Some (ns, idx) \<Longrightarrow> decision_ns_ok ns \<and> decision_idx_ok idx"
  by (auto simp: match_decision_ref_def split: if_splits prod.splits)

lemma normalize_decision_ref_idem:
  assumes "normalize_review_decision_ref v = Inr r"
  shows "normalize_review_decision_ref (VStr r) = Inr r" "is_review_decision_ref (VStr r)"
proof -
  obtain s ns idx where m: "match_decision_ref (py_strip s) = Some (ns, idx)"
    and r: "r = ''review_decision:'' @ py_lower ns @ CHR '':'' # idx"
    using assms by (auto simp: normalize_review_decision_ref_def split: pyv.splits option.splits)
  note ok = match_decision_ref_parts[OF m]
  note b = match_decision_ref_build[OF decision_ns_lower conjunct2[OF ok], of ns]
  show "normalize_review_decision_ref (VStr r) = Inr r" "is_review_decision_ref (VStr r)"
    using b ok by (simp_all add: normalize_review_decision_ref_def is_review_decision_ref_def r)
qed

text \<open>The normalisers are idempotent: normalising what the review-state, decision-outcome,
  decision-reference or actor-reference normaliser gave back returns the same text, so a stored
  canonical value never changes when it is read and normalised again.\<close>
theorem normalisers_idempotent:
  "rbind (normalize_review_object_state v) (\<lambda>r. normalize_review_object_state (VStr r))
     = normalize_review_object_state v
   \<and> rbind (normalize_review_decision_outcome v) (\<lambda>r. normalize_review_decision_outcome (VStr r))
     = normalize_review_decision_outcome v
   \<and> rbind (normalize_review_decision_ref v) (\<lambda>r. normalize_review_decision_ref (VStr r))
     = normalize_review_decision_ref v
   \<and> rbind (normalize_actor_ref v) (\<lambda>r. normalize_actor_ref (VStr r)) = normalize_actor_ref v"
proof (intro conjI)
  show "rbind (normalize_review_object_state v) (\<lambda>r. normalize_review_object_state (VStr r))
     = normalize_review_object_state v"
    by (cases "normalize_review_object_state v")
       (simp_all add: normalize_state_fixed normalize_state_member)
  show "rbind (normalize_review_decision_outcome v)
      (\<lambda>r. normalize_review_decision_outcome (VStr r)) = normalize_review_decision_outcome v"
    by (cases "normalize_review_decision_outcome v")
       (simp_all add: normalize_outcome_fixed normalize_outcome_member)
  show "rbind (normalize_review_decision_ref v) (\<lambda>r. normalize_review_decision_ref (VStr r))
     = normalize_review_decision_ref v"
    by (cases "normalize_review_decision_ref v") (simp_all add: normalize_decision_ref_idem)
  show "rbind (normalize_actor_ref v) (\<lambda>r. normalize_actor_ref (VStr r)) = normalize_actor_ref v"
    by (cases "normalize_actor_ref v")
       (simp_all add: normalize_actor_fixed normalize_actor_shape)
qed

end
