(* ===== verification/SdkSinks.thy ===== *)
theory SdkSinks
  imports SdkSpine DagrInterfaces
begin

text \<open>The in-memory sinks of the SDK spine (\<^verbatim>\<open>src/dagr_mcp/sdk_spine.py\<close>, lines 734 to 1056). Every
  sink is a record of its availability, its counter and its dictionary; an operation returns the
  new sink with its result or the error it raises. The event, receipt and artifact sinks are
  instances of the reference-minting interface.\<close>

section \<open>Event and receipt sinks\<close>

record 'v mem_sink =
  ms_available :: bool
  ms_counter :: nat
  ms_items :: "'v dict"

definition mem_health :: "token \<Rightarrow> bool \<Rightarrow> string \<Rightarrow> sink_health" where
  "mem_health sink_type available now =
     make_sink_health sink_type
       (if available then SINK_STATUS_AVAILABLE else SINK_STATUS_UNAVAILABLE)
       ''memory'' SINK_DURABILITY_MEMORY available available None None None now"

definition mem_supports_capability :: "token \<Rightarrow> bool \<Rightarrow> string \<Rightarrow> string \<Rightarrow> bool" where
  "mem_supports_capability sink_type available now cap =
     (cap \<in> set (sh_capabilities (mem_health sink_type available now)))"

definition set_available :: "bool \<Rightarrow> ('v, 'z) mem_sink_scheme \<Rightarrow> ('v, 'z) mem_sink_scheme" where
  "set_available b s = s\<lparr>ms_available := b\<rparr>"

definition ensure_available :: "token \<Rightarrow> bool \<Rightarrow> (spine_error, unit) result" where
  "ensure_available sink_type available = require available (SinkUnavailableError sink_type)"

text \<open>\<^verbatim>\<open>ref = item.id or self._next_ref()\<close>, storing the item stamped with the reference.\<close>

definition store_item ::
  "string \<Rightarrow> ('v \<Rightarrow> string option) \<Rightarrow> ('v \<Rightarrow> string \<Rightarrow> 'v) \<Rightarrow> ('v, 'z) mem_sink_scheme \<Rightarrow> 'v
    \<Rightarrow> ('v, 'z) mem_sink_scheme \<times> string" where
  "store_item pre ident restamp s v =
    (if given (ident v)
     then (s\<lparr>ms_items := dset (the (ident v)) (restamp v (the (ident v))) (ms_items s)\<rparr>,
           the (ident v))
     else (let n = Suc (ms_counter s); r = maybe_assign_ref pre n
           in (s\<lparr>ms_counter := n, ms_items := dset r (restamp v r) (ms_items s)\<rparr>, r)))"

definition stamp_event :: "event_envelope \<Rightarrow> string \<Rightarrow> event_envelope" where
  "stamp_event e r = (if ee_event_id e = Some r then e else e\<lparr>ee_event_id := Some r\<rparr>)"

definition write_event ::
  "event_envelope mem_sink \<Rightarrow> event_envelope
    \<Rightarrow> (spine_error, event_envelope mem_sink \<times> string) result" where
  "write_event s e =
     rbind (ensure_available SINK_TYPE_EVENT (ms_available s))
       (\<lambda>_. Inr (store_item ''event'' ee_event_id stamp_event s e))"

fun write_events ::
  "event_envelope mem_sink \<Rightarrow> event_envelope list
    \<Rightarrow> (spine_error, event_envelope mem_sink \<times> string list) result" where
  "write_events s [] = Inr (s, [])"
| "write_events s (e # es) =
     rbind (write_event s e) (\<lambda>(s1, r).
       rbind (write_events s1 es) (\<lambda>(s2, rs). Inr (s2, r # rs)))"

definition stamp_receipt :: "receipt_envelope \<Rightarrow> string \<Rightarrow> receipt_envelope" where
  "stamp_receipt e r = (if re_receipt_id e = Some r then e else e\<lparr>re_receipt_id := Some r\<rparr>)"

definition write_receipt ::
  "receipt_envelope mem_sink \<Rightarrow> receipt_envelope
    \<Rightarrow> (spine_error, receipt_envelope mem_sink \<times> string) result" where
  "write_receipt s e =
     rbind (ensure_available SINK_TYPE_RECEIPT (ms_available s))
       (\<lambda>_. Inr (store_item ''receipt'' re_receipt_id stamp_receipt s e))"

definition verification_detail :: "string \<Rightarrow> string \<Rightarrow> pydict" where
  "verification_detail ref status =
     [(''receipt_ref'', VStr ref), (''signature_verification'', VStr status),
      (''cryptographic_verification'', VStr status)]"

definition verify_receipt :: "receipt_envelope mem_sink \<Rightarrow> string \<Rightarrow> verification_result" where
  "verify_receipt s ref =
    (if \<not> ms_available s
     then \<lparr>vr_ok = False, vr_reason = Some ''receipt_sink_unavailable'',
           vr_detail = verification_detail ref ''not_applicable''\<rparr>
     else if dget (ms_items s) ref = None
     then \<lparr>vr_ok = False, vr_reason = Some ''receipt_not_found'',
           vr_detail = verification_detail ref ''not_applicable''\<rparr>
     else \<lparr>vr_ok = True, vr_reason = None,
           vr_detail = verification_detail ref ''not_implemented''\<rparr>)"

section \<open>Artifact sink\<close>

record artifact_sink = "governed_artifact mem_sink" +
  as_payloads :: "pyv dict"

definition stamp_artifact :: "governed_artifact \<Rightarrow> string \<Rightarrow> governed_artifact" where
  "stamp_artifact e r = (if ga_artifact_ref e = Some r then e else e\<lparr>ga_artifact_ref := Some r\<rparr>)"

definition write_artifact ::
  "artifact_sink \<Rightarrow> governed_artifact \<Rightarrow> pyv \<Rightarrow> (spine_error, artifact_sink \<times> string) result" where
  "write_artifact s a payload =
     rbind (ensure_available SINK_TYPE_ARTIFACT (ms_available s)) (\<lambda>_.
       case store_item ''artifact'' ga_artifact_ref stamp_artifact s a of
         (s1, r) \<Rightarrow> Inr (s1\<lparr>as_payloads := dset r payload (as_payloads s1)\<rparr>, r))"

definition read_artifact :: "artifact_sink \<Rightarrow> string \<Rightarrow> (spine_error, governed_artifact) result" where
  "read_artifact s ref =
     rbind (ensure_available SINK_TYPE_ARTIFACT (ms_available s)) (\<lambda>_.
       case dget (ms_items s) ref of Some a \<Rightarrow> Inr a | None \<Rightarrow> Inl (SinkReadError ref))"

text \<open>Python equality of the values a scope compares: Booleans and integers compare as numbers and
  the order of the keys of a mapping does not matter.\<close>

fun eq_form :: "pyv \<Rightarrow> pyv"
  and eq_form_map :: "(string \<times> pyv) list \<Rightarrow> (string \<times> pyv) list"
  and eq_form_list :: "pyv list \<Rightarrow> pyv list" where
  "eq_form (VBool b) = VInt (if b then 1 else 0)"
| "eq_form (VMap kvs) = VMap (sort_key fst (eq_form_map kvs))"
| "eq_form (VList xs) = VList (eq_form_list xs)"
| "eq_form (VTuple xs) = VTuple (eq_form_list xs)"
| "eq_form (VInt i) = VInt i"
| "eq_form VNone = VNone"
| "eq_form (VFloat f) = VFloat f"
| "eq_form (VStr s) = VStr s"
| "eq_form (VBytes s) = VBytes s"
| "eq_form (VObj c) = VObj c"
| "eq_form_map [] = []"
| "eq_form_map ((k, v) # kvs) = (k, eq_form v) # eq_form_map kvs"
| "eq_form_list [] = []"
| "eq_form_list (x # xs) = eq_form x # eq_form_list xs"

definition py_eq :: "pyv \<Rightarrow> pyv \<Rightarrow> bool" where
  "py_eq a b = (eq_form a = eq_form b)"

text \<open>\<^verbatim>\<open>getattr\<close> on the fields of the data class.\<close>

definition artifact_attrs :: "governed_artifact \<Rightarrow> pydict" where
  "artifact_attrs a =
     [(''artifact_type'', VStr (ga_artifact_type a)), (''created_at'', VStr (ga_created_at a)),
      (''private'', VBool (ga_private a)), (''required'', VBool (ga_required a)),
      (''optional_derived'', VBool (ga_optional_derived a)),
      (''artifact_ref'', vopt (ga_artifact_ref a)), (''payload_hash'', vopt (ga_payload_hash a))]"

definition field_matches :: "pydict \<Rightarrow> pydict \<Rightarrow> string \<Rightarrow> string \<times> pyv \<Rightarrow> bool" where
  "field_matches attrs extra extra_name kv =
    (case kv of (key, expected) \<Rightarrow>
       if key = extra_name then py_eq (VMap extra) expected
       else case dget extra key of
           Some v \<Rightarrow> py_eq v expected
         | None \<Rightarrow> (case dget attrs key of Some v \<Rightarrow> py_eq v expected | None \<Rightarrow> False))"

definition artifact_matches_scope :: "pydict \<Rightarrow> governed_artifact \<Rightarrow> bool" where
  "artifact_matches_scope scope a =
     list_all (field_matches (artifact_attrs a) (ga_metadata a) ''metadata'') scope"

definition list_artifacts ::
  "artifact_sink \<Rightarrow> pydict option \<Rightarrow> (spine_error, governed_artifact list) result" where
  "list_artifacts s scope =
     rbind (ensure_available SINK_TYPE_ARTIFACT (ms_available s)) (\<lambda>_.
       let all = map snd (ms_items s) in
       case scope of
         None \<Rightarrow> Inr all
       | Some sc \<Rightarrow> Inr (if sc = [] then all else filter (artifact_matches_scope sc) all))"

section \<open>Review object sink\<close>

record review_sink =
  rv_available :: bool
  rv_review_counter :: nat
  rv_decision_counter :: nat
  rv_objects :: "review_object dict"
  rv_decisions :: "review_decision dict"
  rv_decided :: "string list"

definition create_review_object_mem ::
  "review_sink \<Rightarrow> review_object \<Rightarrow> (spine_error, review_sink \<times> string) result" where
  "create_review_object_mem s ro =
     rbind (ensure_available SINK_TYPE_REVIEW_OBJECT (rv_available s)) (\<lambda>_.
     rbind (normalize_review_object_state (ro_governance_state ro)) (\<lambda>state.
       if given (ro_id ro)
       then Inr (s\<lparr>rv_objects := dset (the (ro_id ro))
                     (ro\<lparr>ro_governance_state := VStr state\<rparr>) (rv_objects s)\<rparr>, the (ro_id ro))
       else
        (let n = Suc (rv_review_counter s); r = maybe_assign_ref ''review'' n in
         Inr (s\<lparr>rv_review_counter := n,
                rv_objects := dset r (ro\<lparr>ro_id := Some r, ro_governance_state := VStr state\<rparr>)
                                (rv_objects s)\<rparr>, r))))"

definition record_decision ::
  "review_sink \<Rightarrow> string \<Rightarrow> review_decision \<Rightarrow> (spine_error, review_sink \<times> string) result" where
  "record_decision s rid d =
     rbind (ensure_available SINK_TYPE_REVIEW_OBJECT (rv_available s)) (\<lambda>_.
       case dget (rv_objects s) rid of
         None \<Rightarrow> Inl (SinkReadError rid)
       | Some ro \<Rightarrow>
          if rd_review_object_id d \<noteq> VStr rid then Inl (SinkWriteError rid)
          else rbind (normalize_review_decision_outcome (rd_decision d)) (\<lambda>out.
            let n = Suc (rv_decision_counter s); r = maybe_assign_ref ''decision'' n in
            Inr (s\<lparr>rv_decision_counter := n,
                   rv_decisions := dset r (d\<lparr>rd_decision := VStr out\<rparr>) (rv_decisions s),
                   rv_decided := (if rid \<in> set (rv_decided s) then rv_decided s
                                  else rv_decided s @ [rid]),
                   rv_objects := dset rid (ro\<lparr>ro_governance_state := VStr out\<rparr>)
                                   (rv_objects s)\<rparr>, r)))"

definition list_pending ::
  "review_sink \<Rightarrow> string option \<Rightarrow> (spine_error, review_object list) result" where
  "list_pending s kind =
     rbind (ensure_available SINK_TYPE_REVIEW_OBJECT (rv_available s)) (\<lambda>_.
       Inr (filter (\<lambda>ro. (case ro_id ro of Some i \<Rightarrow> i \<notin> set (rv_decided s) | None \<Rightarrow> True)
                \<and> ro_governance_state ro \<in> set (map VStr REVIEW_OBJECT_PENDING_STATES)
                \<and> (kind = None \<or> kind = Some (ro_type ro)))
              (map snd (rv_objects s))))"

section \<open>Lint finding sink\<close>

record lint_sink =
  ls_available :: bool
  ls_counter :: nat
  ls_batches :: "lint_finding list dict"

definition lint_all :: "lint_sink \<Rightarrow> lint_finding list" where
  "lint_all s = concat (map snd (ls_batches s))"

definition write_findings ::
  "lint_sink \<Rightarrow> lint_finding list \<Rightarrow> (spine_error, lint_sink \<times> string) result" where
  "write_findings s fs =
     rbind (ensure_available SINK_TYPE_LINT_FINDING (ls_available s)) (\<lambda>_.
       let n = Suc (ls_counter s); r = maybe_assign_ref ''lint_batch'' n in
       Inr (s\<lparr>ls_counter := n, ls_batches := dset r fs (ls_batches s)\<rparr>, r))"

definition write_finding ::
  "lint_sink \<Rightarrow> lint_finding \<Rightarrow> (spine_error, lint_sink \<times> string) result" where
  "write_finding s f =
     rbind (ensure_available SINK_TYPE_LINT_FINDING (ls_available s)) (\<lambda>_.
       let n = Suc (ls_counter s); r = maybe_assign_ref ''lint_batch'' n in
       Inr (s\<lparr>ls_counter := n, ls_batches := dset r [f] (ls_batches s)\<rparr>, r))"

definition lint_attrs :: "lint_finding \<Rightarrow> pydict" where
  "lint_attrs f =
     [(''rule_id'', VStr (lf_rule_id f)), (''severity'', VStr (lf_severity f)),
      (''message'', VStr (lf_message f)), (''rule_family'', vopt (lf_rule_family f)),
      (''object_ref'', vopt (lf_object_ref f))]"

definition lint_finding_matches_scope :: "pydict \<Rightarrow> lint_finding \<Rightarrow> bool" where
  "lint_finding_matches_scope scope f =
     list_all (field_matches (lint_attrs f) (lf_detail f) ''detail'') scope"

definition findings_for_scope :: "lint_sink \<Rightarrow> pydict option \<Rightarrow> lint_finding list" where
  "findings_for_scope s scope =
     (case scope of
        None \<Rightarrow> lint_all s
      | Some sc \<Rightarrow> if sc = [] then lint_all s
                   else filter (lint_finding_matches_scope sc) (lint_all s))"

definition list_findings ::
  "lint_sink \<Rightarrow> pydict option \<Rightarrow> (spine_error, lint_finding list) result" where
  "list_findings s scope =
     rbind (ensure_available SINK_TYPE_LINT_FINDING (ls_available s))
       (\<lambda>_. Inr (findings_for_scope s scope))"

text \<open>\<^verbatim>\<open>collections.Counter\<close> as a dictionary of counts in order of first occurrence.\<close>

definition counter_of :: "string list \<Rightarrow> nat dict" where
  "counter_of xs =
     foldl (\<lambda>d x. dset x (Suc (case dget d x of Some n \<Rightarrow> n | None \<Rightarrow> 0)) d) [] xs"

record lint_summary =
  su_total :: nat
  su_by_severity :: "nat dict"
  su_by_rule_id :: "nat dict"
  su_by_rule_family :: "nat dict"

definition summarize_lint ::
  "lint_sink \<Rightarrow> pydict option \<Rightarrow> (spine_error, lint_summary) result" where
  "summarize_lint s scope =
     rbind (ensure_available SINK_TYPE_LINT_FINDING (ls_available s)) (\<lambda>_.
       let fs = findings_for_scope s scope in
       Inr \<lparr>su_total = length fs,
            su_by_severity = counter_of (map lf_severity fs),
            su_by_rule_id = counter_of (map lf_rule_id fs),
            su_by_rule_family =
              counter_of (map (\<lambda>f. the (lf_rule_family f))
                            (filter (\<lambda>f. given (lf_rule_family f)) fs))\<rparr>)"

end
