(* ===== verification/SdkSinkFacts.thy ===== *)
theory SdkSinkFacts
  imports SdkSinks
begin

text \<open>Facts about the in-memory sinks: every sink that assigns references is an instance of the
  reference-minting interface, decisions are recorded fail closed, and the lint summary counts every
  finding once. The two places where the sinks fall short of their documented contract are
  stated as theorems as well.\<close>

section \<open>The sinks as instances of the minting interface\<close>

lemma maybe_assign_ref_inj: "maybe_assign_ref p m = maybe_assign_ref p n \<Longrightarrow> m = n"
  by (simp add: maybe_assign_ref_def nat_str_inj)

lemma store_item_facts:
  assumes "store_item pre ident restamp s v = (s', r)"
  shows "dget (ms_items s') r = Some (restamp v r)"
    and "q \<noteq> r \<Longrightarrow> dget (ms_items s') q = dget (ms_items s) q"
    and "ms_available s' = ms_available s"
    and "\<not> given (ident v) \<Longrightarrow>
           r = maybe_assign_ref pre (Suc (ms_counter s)) \<and> ms_counter s' = Suc (ms_counter s)"
    and "given (ident v) \<Longrightarrow> ident v = Some r \<and> ms_counter s' = ms_counter s"
    and "wf_dict (ms_items s) \<Longrightarrow> wf_dict (ms_items s')"
  using assms by (auto simp: store_item_def Let_def given_def split: if_splits option.splits)

lemmas sink_unfold = rbind_Inr_iff ensure_available_def require_def

interpretation event_store: minting_sink ms_available "\<lambda>s. dget (ms_items s)" write_event
  stamp_event ms_counter "maybe_assign_ref ''event''" "\<lambda>e. given (ee_event_id e)"
proof unfold_locales
  show "\<And>s s' v r. write_event s v = Inr (s', r) \<Longrightarrow> ms_available s'"
    by (auto simp: write_event_def sink_unfold store_item_facts(3) split: if_splits)
qed (auto simp: write_event_def sink_unfold store_item_facts(1,2,4)
       dest: maybe_assign_ref_inj split: if_splits prod.splits intro: surj_pair)

interpretation receipt_store: minting_sink ms_available "\<lambda>s. dget (ms_items s)" write_receipt
  stamp_receipt ms_counter "maybe_assign_ref ''receipt''" "\<lambda>e. given (re_receipt_id e)"
proof unfold_locales
  show "\<And>s s' v r. write_receipt s v = Inr (s', r) \<Longrightarrow> ms_available s'"
    by (auto simp: write_receipt_def sink_unfold store_item_facts(3) split: if_splits)
qed (auto simp: write_receipt_def sink_unfold store_item_facts(1,2,4)
       dest: maybe_assign_ref_inj split: if_splits prod.splits intro: surj_pair)

text \<open>An artifact is stored together with its payload.\<close>

definition artifact_lookup :: "artifact_sink \<Rightarrow> string \<Rightarrow> (governed_artifact \<times> pyv) option" where
  "artifact_lookup s ref =
    (case dget (ms_items s) ref of
       None \<Rightarrow> None
     | Some a \<Rightarrow> (case dget (as_payloads s) ref of Some p \<Rightarrow> Some (a, p) | None \<Rightarrow> None))"

definition put_artifact ::
  "artifact_sink \<Rightarrow> governed_artifact \<times> pyv \<Rightarrow> (spine_error, artifact_sink \<times> string) result" where
  "put_artifact s ap = write_artifact s (fst ap) (snd ap)"

lemma put_artifact_facts:
  assumes "put_artifact s ap = Inr (s', r)"
  shows "artifact_lookup s' r = Some (stamp_artifact (fst ap) r, snd ap)"
    and "q \<noteq> r \<Longrightarrow> artifact_lookup s' q = artifact_lookup s q"
    and "ms_available s'"
    and "\<not> given (ga_artifact_ref (fst ap)) \<Longrightarrow>
           r = maybe_assign_ref ''artifact'' (Suc (ms_counter s))
           \<and> ms_counter s' = Suc (ms_counter s)"
proof -
  obtain s1 where a: "ms_available s"
    and st: "store_item ''artifact'' ga_artifact_ref stamp_artifact s (fst ap) = (s1, r)"
    and s': "s' = s1\<lparr>as_payloads := dset r (snd ap) (as_payloads s1)\<rparr>"
    using assms by (auto simp: put_artifact_def write_artifact_def sink_unfold
        split: if_splits prod.splits)
  have p: "as_payloads s1 = as_payloads s"
    using st by (auto simp: store_item_def Let_def split: if_splits)
  note f = store_item_facts[OF st]
  show "artifact_lookup s' r = Some (stamp_artifact (fst ap) r, snd ap)"
    using f(1) by (simp add: artifact_lookup_def s')
  show "q \<noteq> r \<Longrightarrow> artifact_lookup s' q = artifact_lookup s q"
    using f(2)[of q] p by (simp add: artifact_lookup_def s' split: option.splits)
  show "ms_available s'" using a f(3) s' by simp
  show "\<not> given (ga_artifact_ref (fst ap)) \<Longrightarrow>
           r = maybe_assign_ref ''artifact'' (Suc (ms_counter s))
           \<and> ms_counter s' = Suc (ms_counter s)"
    using f(4) s' by simp
qed

interpretation artifact_store: minting_sink ms_available artifact_lookup put_artifact
  "\<lambda>ap r. (stamp_artifact (fst ap) r, snd ap)" ms_counter "maybe_assign_ref ''artifact''"
  "\<lambda>ap. given (ga_artifact_ref (fst ap))"
proof unfold_locales
  show "\<And>s v. \<not> ms_available s \<Longrightarrow> \<exists>e. put_artifact s v = Inl e"
    "\<And>s v. ms_available s \<Longrightarrow> \<exists>s' r. put_artifact s v = Inr (s', r)"
    by (auto simp: put_artifact_def write_artifact_def ensure_available_def split: prod.splits)
qed (simp_all add: put_artifact_facts maybe_assign_ref_inj)

section \<open>Batches\<close>

lemma write_events_put_all: "write_events s es = event_store.put_all s es"
  by (induction s es rule: write_events.induct) simp_all

text \<open>A batch of events that bring no identifier of their own is accepted by an available sink and
  loses nothing: the references are pairwise distinct and each of them reads back its event,
  stamped with the reference; an unavailable sink refuses a non-empty batch.\<close>
theorem event_batch_kept:
  assumes "list_all (\<lambda>e. \<not> given (ee_event_id e)) es"
  shows "case write_events s es of
      Inl err \<Rightarrow> \<not> ms_available s \<and> es \<noteq> [] \<and> err = SinkUnavailableError SINK_TYPE_EVENT
    | Inr (s', rs) \<Rightarrow> (ms_available s \<or> es = []) \<and> distinct rs
        \<and> list_all2 (\<lambda>e r. dget (ms_items s') r = Some (stamp_event e r)) es rs"
proof (cases "ms_available s")
  case True
  then show ?thesis using event_store.minted_batch_kept[OF True assms]
    by (auto simp: write_events_put_all)
next
  case False
  then show ?thesis by (cases es) (simp_all add: write_event_def ensure_available_def)
qed

definition sample_event :: "string option \<Rightarrow> string \<Rightarrow> event_envelope" where
  "sample_event i t =
     \<lparr>ee_event_type = t, ee_occurred_at = ''t0'', ee_event_id = i, ee_subject_ref = None,
      ee_actor_ref = None, ee_policy_ref = None, ee_detail = [], ee_lineage_refs = []\<rparr>"

definition empty_sink :: "event_envelope mem_sink" where
  "empty_sink = \<lparr>ms_available = True, ms_counter = 0, ms_items = []\<rparr>"

theorem event_batch_kept_witness:
  "let es = [sample_event None ''a'', sample_event None ''b''] in
    case write_events empty_sink es of
      Inl err \<Rightarrow> \<not> ms_available empty_sink \<and> es \<noteq> [] \<and> err = SinkUnavailableError SINK_TYPE_EVENT
    | Inr (s', rs) \<Rightarrow> (ms_available empty_sink \<or> es = []) \<and> distinct rs
        \<and> list_all2 (\<lambda>e r. dget (ms_items s') r = Some (stamp_event e r)) es rs"
  unfolding Let_def by (rule event_batch_kept) (simp add: sample_event_def given_def)

lemma first_event_ref: "maybe_assign_ref ''event'' (Suc 0) = ''event:1''"
  by code_simp

text \<open>The event sink does not keep its promise for supplied identifiers: an event that brings the
  identifier \<^verbatim>\<open>event:1\<close> is silently replaced by the next event that gets a minted reference, so the
  batch reports two writes and one event is gone.\<close>
theorem supplied_event_overwritten:
  "write_events empty_sink [sample_event (Some ''event:1'') a, sample_event None b]
     = Inr (\<lparr>ms_available = True, ms_counter = 1,
              ms_items = [(''event:1'', sample_event (Some ''event:1'') b)]\<rparr>,
            [''event:1'', ''event:1''])"
  by (simp add: write_event_def ensure_available_def store_item_def sample_event_def given_def
      empty_sink_def stamp_event_def first_event_ref Let_def)

section \<open>Review objects\<close>

text \<open>Every stored object carries the key it is stored under and a canonical state, and only stored
  objects are decided.\<close>

definition review_entry_ok :: "string \<times> review_object \<Rightarrow> bool" where
  "review_entry_ok kv =
     (ro_id (snd kv) = Some (fst kv)
      \<and> (case ro_governance_state (snd kv) of VStr c \<Rightarrow> c \<in> set REVIEW_OBJECT_STATES | _ \<Rightarrow> False))"

definition review_wf :: "review_sink \<Rightarrow> bool" where
  "review_wf s =
     (wf_dict (rv_objects s) \<and> list_all review_entry_ok (rv_objects s)
      \<and> set (rv_decided s) \<subseteq> set (dkeys (rv_objects s)))"

lemma review_entry_okI:
  "ro_id ro = Some k \<Longrightarrow> ro_governance_state ro = VStr c \<Longrightarrow> c \<in> set REVIEW_OBJECT_STATES
     \<Longrightarrow> review_entry_ok (k, ro)"
  by (simp add: review_entry_ok_def)

definition pending_of :: "review_sink \<Rightarrow> string option \<Rightarrow> review_object list" where
  "pending_of s kind = (case list_pending s kind of Inr ros \<Rightarrow> ros | Inl _ \<Rightarrow> [])"

definition is_pending :: "review_sink \<Rightarrow> string option \<Rightarrow> review_object \<Rightarrow> bool" where
  "is_pending s kind ro =
     ((case ro_id ro of Some i \<Rightarrow> i \<notin> set (rv_decided s) | None \<Rightarrow> True)
      \<and> ro_governance_state ro \<in> set (map VStr REVIEW_OBJECT_PENDING_STATES)
      \<and> (kind = None \<or> kind = Some (ro_type ro)))"

lemma pending_of_listing:
  "rv_available s \<Longrightarrow> pending_of s kind = filter (is_pending s kind) (map snd (rv_objects s))"
  by (simp add: pending_of_def list_pending_def is_pending_def[abs_def] ensure_available_def)

lemma list_all_dset:
  assumes "list_all P d" "P (k, v)"
  shows "list_all P (dset k v d)"
  using assms by (induction d) auto

lemma outcome_is_state: "c \<in> set REVIEW_DECISION_OUTCOMES \<Longrightarrow> c \<in> set REVIEW_OBJECT_STATES"
  by (auto simp: vocab)

lemma review_wf_dset:
  assumes "review_wf s" "review_entry_ok (k, ro)" "rv_objects s' = dset k ro (rv_objects s)"
    "set (rv_decided s') \<subseteq> insert k (set (rv_decided s))"
  shows "review_wf s'"
  using assms by (auto simp: review_wf_def intro: list_all_dset)

lemma create_review_wf:
  assumes wf: "review_wf s" and c: "create_review_object_mem s ro = Inr (s', r)"
  shows "review_wf s'"
proof -
  obtain state where st: "normalize_review_object_state (ro_governance_state ro) = Inr state"
    using c by (auto simp: create_review_object_mem_def rbind_Inr_iff)
  define ro2 where "ro2 = ro\<lparr>ro_id := Some r, ro_governance_state := VStr state\<rparr>"
  have "rv_objects s' = dset r ro2 (rv_objects s) \<and> rv_decided s' = rv_decided s"
    using c st
    by (cases ro) (auto simp: create_review_object_mem_def rbind_Inr_iff Let_def given_def ro2_def
        split: if_splits option.splits)
  then show ?thesis
    using review_entry_okI[OF _ _ normalize_state_member[OF st], of ro2 r]
    by (intro review_wf_dset[OF wf, of r ro2]) (auto simp: ro2_def)
qed

text \<open>Replacing the object of a key, seen through a filter that the new object fails.\<close>

lemma filter_dset:
  assumes "wf_dict d" "list_all review_entry_ok d" "ro_id v = Some rid" "\<not> Q v"
    and "\<And>ro. ro_id ro \<noteq> Some rid \<Longrightarrow> Q ro = P ro"
  shows "filter Q (map snd (dset rid v d))
           = filter (\<lambda>ro. ro_id ro \<noteq> Some rid) (filter P (map snd d))"
  using assms(1,2)
proof (induction d)
  case (Cons kv d)
  obtain k ro where kv: "kv = (k, ro)" by (cases kv)
  have wf: "wf_dict d" and ids: "list_all review_entry_ok d"
    and k: "ro_id ro = Some k" "k \<notin> set (dkeys d)"
    using Cons.prems using kv by (auto simp: wf_dict_def review_entry_ok_def list_all_iff)
  show ?case
  proof (cases "k = rid")
    case True
    have "list_all (\<lambda>ro. ro_id ro \<noteq> Some rid) (map snd d)"
      using ids k(2) True by (auto simp: list_all_iff dkeys_def review_entry_ok_def)
    then have "filter Q (map snd d)
        = filter (\<lambda>ro. ro_id ro \<noteq> Some rid) (filter P (map snd d))"
      unfolding filter_filter list_all_iff by (intro filter_cong[OF refl]) (metis assms(5))
    then show ?thesis using True k(1) assms(4) by (simp add: kv)
  next
    case False
    then show ?thesis using Cons.IH[OF wf ids] k(1) assms(5)[of ro] by (simp add: kv)
  qed
qed (simp add: assms(3,4))

text \<open>C29: Recording a decision on a well-formed review sink is fail closed and settles the object: it is
  refused for an unavailable sink, an unknown object, a decision that names another object or an
  unknown outcome, and otherwise the sink stays well formed, the object carries the normalised
  outcome, the decision reads back under its new reference, and the pending list loses exactly
  that object, also when the outcome is \<^verbatim>\<open>deferred\<close>, a pending state.\<close>
theorem decision_settles:
  assumes "review_wf s"
  shows "case record_decision s rid d of
      Inl _ \<Rightarrow> \<not> rv_available s \<or> rid \<notin> set (dkeys (rv_objects s))
        \<or> rd_review_object_id d \<noteq> VStr rid
        \<or> (case normalize_review_decision_outcome (rd_decision d) of Inl _ \<Rightarrow> True | Inr _ \<Rightarrow> False)
    | Inr (s', r) \<Rightarrow> review_wf s' \<and> rv_available s \<and> rd_review_object_id d = VStr rid
        \<and> (case normalize_review_decision_outcome (rd_decision d) of
             Inl _ \<Rightarrow> False
           | Inr out \<Rightarrow>
               map_option ro_governance_state (dget (rv_objects s') rid) = Some (VStr out)
               \<and> dget (rv_decisions s') r = Some (d\<lparr>rd_decision := VStr out\<rparr>))
        \<and> pending_of s' kind = filter (\<lambda>ro. ro_id ro \<noteq> Some rid) (pending_of s kind)"
proof (cases "record_decision s rid d")
  case (Inl e)
  then show ?thesis
    by (auto simp: record_decision_def rbind_Inl_iff ensure_available_def require_def Let_def
        dget_None_iff split: if_splits option.splits)
next
  case (Inr res)
  obtain s' r where res: "res = (s', r)" by (cases res)
  obtain ro out where av: "rv_available s" and ro: "dget (rv_objects s) rid = Some ro"
    and rid: "rd_review_object_id d = VStr rid"
    and out: "normalize_review_decision_outcome (rd_decision d) = Inr out"
    and s': "s' = s\<lparr>rv_decision_counter := Suc (rv_decision_counter s),
                   rv_decisions := dset r (d\<lparr>rd_decision := VStr out\<rparr>) (rv_decisions s),
                   rv_decided := (if rid \<in> set (rv_decided s) then rv_decided s
                                  else rv_decided s @ [rid]),
                   rv_objects := dset rid (ro\<lparr>ro_governance_state := VStr out\<rparr>)
                                   (rv_objects s)\<rparr>"
    using Inr res
    by (auto simp: record_decision_def rbind_Inr_iff ensure_available_def require_def Let_def
        split: if_splits option.splits)
  have wf: "wf_dict (rv_objects s)" "list_all review_entry_ok (rv_objects s)"
    using assms by (simp_all add: review_wf_def)
  have ok: "review_entry_ok (rid, ro)"
    using wf(2) ro by (auto simp: list_all_iff dest: map_of_SomeD)
  have wf': "review_wf s'"
    using ok outcome_is_state[OF normalize_outcome_member[OF out]]
    by (intro review_wf_dset[OF assms, of rid "ro\<lparr>ro_governance_state := VStr out\<rparr>"])
       (auto simp: s' review_entry_ok_def)
  have obj: "rv_objects s' = dset rid (ro\<lparr>ro_governance_state := VStr out\<rparr>) (rv_objects s)"
    and dec: "set (rv_decided s') = insert rid (set (rv_decided s))" and av': "rv_available s'"
    using av by (auto simp: s')
  have "pending_of s' kind = filter (\<lambda>ro. ro_id ro \<noteq> Some rid) (pending_of s kind)"
    unfolding pending_of_listing[OF av] pending_of_listing[OF av'] obj
    using ok by (intro filter_dset[OF wf])
      (auto simp: review_entry_ok_def is_pending_def dec split: option.splits)
  then show ?thesis using Inr res wf' av rid out by (simp add: s')
qed

text \<open>The state a decision leaves can be a pending one.\<close>

definition sample_review :: review_object where
  "sample_review =
     \<lparr>ro_type = ''tool_call'', ro_governance_state = VStr ''pending'', ro_context_payload = [],
      ro_allowed_actions = [''approved''], ro_created_at = ''t0'', ro_id = Some ''ro'',
      ro_origin_event_id = None\<rparr>"

definition sample_review_sink :: review_sink where
  "sample_review_sink =
     \<lparr>rv_available = True, rv_review_counter = 0, rv_decision_counter = 0,
      rv_objects = [(''ro'', sample_review)], rv_decisions = [], rv_decided = []\<rparr>"

definition defer_decision :: review_decision where
  "defer_decision =
     \<lparr>rd_decision = VStr ''Deferred'', rd_review_object_id = VStr ''ro'', rd_decided_at = ''t1'',
      rd_actor_ref = None, rd_reason = None, rd_detail = []\<rparr>"

lemma sample_decision:
  "rbind (record_decision sample_review_sink ''ro'' defer_decision)
     (\<lambda>(s', r). Inr (pending_of s' None, r)) = Inr ([], ''decision:1'')
   \<and> pending_of sample_review_sink None = [sample_review]
   \<and> ''deferred'' \<in> set REVIEW_OBJECT_PENDING_STATES"
  by code_simp

lemma sample_review_wf: "review_wf sample_review_sink"
  by code_simp

theorem decision_settles_witness:
  "case record_decision sample_review_sink ''ro'' defer_decision of
      Inl _ \<Rightarrow> \<not> rv_available sample_review_sink
        \<or> ''ro'' \<notin> set (dkeys (rv_objects sample_review_sink))
        \<or> rd_review_object_id defer_decision \<noteq> VStr ''ro''
        \<or> (case normalize_review_decision_outcome (rd_decision defer_decision) of
             Inl _ \<Rightarrow> True | Inr _ \<Rightarrow> False)
    | Inr (s', r) \<Rightarrow> review_wf s' \<and> rv_available sample_review_sink
        \<and> rd_review_object_id defer_decision = VStr ''ro''
        \<and> (case normalize_review_decision_outcome (rd_decision defer_decision) of
             Inl _ \<Rightarrow> False
           | Inr out \<Rightarrow>
               map_option ro_governance_state (dget (rv_objects s') ''ro'') = Some (VStr out)
               \<and> dget (rv_decisions s') r = Some (defer_decision\<lparr>rd_decision := VStr out\<rparr>))
        \<and> pending_of s' None
            = filter (\<lambda>ro. ro_id ro \<noteq> Some ''ro'') (pending_of sample_review_sink None)"
  by (rule decision_settles[OF sample_review_wf])

section \<open>Lint findings\<close>

lemma counter_step:
  "foldl (\<lambda>d x. dset x (Suc (case dget d x of Some n \<Rightarrow> n | None \<Rightarrow> 0)) d) d xs
     = dd \<Longrightarrow> (case dget dd k of Some n \<Rightarrow> n | None \<Rightarrow> 0)
       = (case dget d k of Some n \<Rightarrow> n | None \<Rightarrow> 0) + count_list xs k"
  by (induction xs arbitrary: d) (fastforce split: option.splits if_splits)+

lemma counter_of_count: "(case dget (counter_of xs) k of Some n \<Rightarrow> n | None \<Rightarrow> 0) = count_list xs k"
  using counter_step[of "[]" xs _ k] by (simp add: counter_of_def)

definition batches_of :: "lint_sink \<Rightarrow> string \<Rightarrow> lint_finding list option" where
  "batches_of s r = dget (ls_batches s) r"

interpretation lint_store: minting_sink ls_available batches_of write_findings "\<lambda>fs _. fs"
  ls_counter "maybe_assign_ref ''lint_batch''" "\<lambda>_. False"
  by unfold_locales
    (auto simp: write_findings_def rbind_Inr_iff ensure_available_def require_def batches_of_def
      Let_def maybe_assign_ref_inj split: if_splits)

text \<open>The keys of the batches are the references the counter has handed out, in order.\<close>

definition lint_wf :: "lint_sink \<Rightarrow> bool" where
  "lint_wf s = (dkeys (ls_batches s) = map (maybe_assign_ref ''lint_batch'') [1..<Suc (ls_counter s)])"

lemma fresh_lint_ref:
  "lint_wf s \<Longrightarrow> maybe_assign_ref ''lint_batch'' (Suc (ls_counter s)) \<notin> set (dkeys (ls_batches s))"
  by (auto simp: lint_wf_def dest: maybe_assign_ref_inj)

lemma dset_fresh: "k \<notin> set (dkeys d) \<Longrightarrow> dset k v d = d @ [(k, v)]"
  by (induction d) auto

text \<open>A written batch of findings is kept whole: the sink's findings are the old ones followed by the
  batch, the reference reads back the batch and the summary counts every finding exactly once
  under its severity and its rule.\<close>
theorem findings_accumulate:
  assumes "lint_wf s" "ls_available s"
  shows "case write_findings s fs of
      Inl _ \<Rightarrow> False
    | Inr (s', r) \<Rightarrow> lint_wf s' \<and> batches_of s' r = Some fs
        \<and> list_findings s' None = Inr (lint_all s @ fs)
        \<and> (case summarize_lint s' None of
             Inl _ \<Rightarrow> False
           | Inr su \<Rightarrow> su_total su = length (lint_all s) + length fs
               \<and> (case dget (su_by_severity su) sev of Some n \<Rightarrow> n | None \<Rightarrow> 0)
                   = count_list (map lf_severity (lint_all s @ fs)) sev
               \<and> (case dget (su_by_rule_id su) rule of Some n \<Rightarrow> n | None \<Rightarrow> 0)
                   = count_list (map lf_rule_id (lint_all s @ fs)) rule)"
proof -
  define r where "r = maybe_assign_ref ''lint_batch'' (Suc (ls_counter s))"
  define s' where "s' = s\<lparr>ls_counter := Suc (ls_counter s),
                          ls_batches := ls_batches s @ [(r, fs)]\<rparr>"
  have w: "write_findings s fs = Inr (s', r)"
    using fresh_lint_ref[OF assms(1)] assms(2)
    by (simp add: write_findings_def ensure_available_def Let_def r_def s'_def dset_fresh)
  have all: "lint_all s' = lint_all s @ fs" by (simp add: lint_all_def s'_def)
  have wf: "lint_wf s'" using assms(1) by (simp add: lint_wf_def s'_def r_def dkeys_def)
  have av: "ls_available s'" using assms(2) by (simp add: s'_def)
  show ?thesis
    using lint_store.readback[OF w] wf av all
    by (simp add: w list_findings_def summarize_lint_def findings_for_scope_def
        ensure_available_def counter_of_count)
qed

definition sample_finding :: "string \<Rightarrow> lint_finding" where
  "sample_finding sev =
     \<lparr>lf_rule_id = ''r1'', lf_severity = sev, lf_message = ''m'', lf_rule_family = None,
      lf_object_ref = None, lf_detail = []\<rparr>"

definition empty_lint :: lint_sink where
  "empty_lint = \<lparr>ls_available = True, ls_counter = 0, ls_batches = []\<rparr>"

theorem findings_accumulate_witness:
  "let fs = [sample_finding ''high'', sample_finding ''low''] in
   case write_findings empty_lint fs of
      Inl _ \<Rightarrow> False
    | Inr (s', r) \<Rightarrow> lint_wf s' \<and> batches_of s' r = Some fs
        \<and> list_findings s' None = Inr (lint_all empty_lint @ fs)
        \<and> (case summarize_lint s' None of
             Inl _ \<Rightarrow> False
           | Inr su \<Rightarrow> su_total su = length (lint_all empty_lint) + length fs
               \<and> (case dget (su_by_severity su) ''high'' of Some n \<Rightarrow> n | None \<Rightarrow> 0)
                   = count_list (map lf_severity (lint_all empty_lint @ fs)) ''high''
               \<and> (case dget (su_by_rule_id su) ''r1'' of Some n \<Rightarrow> n | None \<Rightarrow> 0)
                   = count_list (map lf_rule_id (lint_all empty_lint @ fs)) ''r1'')"
  unfolding Let_def by (rule findings_accumulate) (simp_all add: empty_lint_def lint_wf_def)

end
