(* ===== verification/ToolCallDisposition.thy ===== *)
theory ToolCallDisposition
  imports SdkSinks
begin

text \<open>The helpers of \<^verbatim>\<open>tool_call_disposition\<close> review objects
  (\<^verbatim>\<open>src/dagr_mcp/tool_call_disposition.py\<close>) and the payload hash of the spine they use. The JSON
  text, the \<^verbatim>\<open>str\<close> of a value and the SHA-256 hex digest are parameters; a frozen set is walked in an
  unspecified order, so an error names no key of it.\<close>

section \<open>Payload hash\<close>

record hash_params =
  hp_dumps :: "pyv \<Rightarrow> string option"
  hp_str :: "pyv \<Rightarrow> string"
  hp_sha256 :: "string \<Rightarrow> string"

definition utf8_char :: "char \<Rightarrow> string" where
  "utf8_char c = (let n = of_char c :: nat in
     if n < 128 then [c] else [char_of (192 + n div 64), char_of (128 + n mod 64)])"

definition utf8 :: "string \<Rightarrow> string" where
  "utf8 s = concat (map utf8_char s)"

definition payload_bytes :: "hash_params \<Rightarrow> pyv \<Rightarrow> string" where
  "payload_bytes hp v =
    (case v of
       VBytes b \<Rightarrow> b
     | VStr s \<Rightarrow> utf8 s
     | VNone \<Rightarrow> ''null''
     | _ \<Rightarrow> (case hp_dumps hp v of Some t \<Rightarrow> utf8 t | None \<Rightarrow> utf8 (hp_str hp v)))"

definition stable_payload_hash :: "hash_params \<Rightarrow> pyv \<Rightarrow> string" where
  "stable_payload_hash hp v = ''sha256:'' @ hp_sha256 hp (payload_bytes hp v)"

text \<open>\<^verbatim>\<open>str(v)\<close>.\<close>

definition py_str :: "hash_params \<Rightarrow> pyv \<Rightarrow> string" where
  "py_str hp v = (case v of VStr s \<Rightarrow> s | _ \<Rightarrow> hp_str hp v)"

section \<open>Vocabulary\<close>

definition DEFAULT_ALLOWED_ACTIONS :: "token list" where [vocab]:
  "DEFAULT_ALLOWED_ACTIONS = [''approve'', ''reject'', ''defer'', ''escalate'']"
definition OPTIONAL_DISPOSITION_PAYLOAD_KEYS :: "string list" where [vocab]:
  "OPTIONAL_DISPOSITION_PAYLOAD_KEYS =
     [''context_hash'', ''context_ref'', ''reason'', ''gate_timeout_seconds'', ''profile_ref'',
      ''policy_profile_ref'', ''policy_pack_ref'', ''policy_ref'', ''event_refs'',
      ''arguments_hash'', ''harness_version'', ''adapter_type'']"
definition REQUIRED_DISPOSITION_PAYLOAD_KEYS :: "string list" where [vocab]:
  "REQUIRED_DISPOSITION_PAYLOAD_KEYS =
     [''tool_name'', ''tool_class'', ''policy_decision'', ''retention_class'', ''required_sinks'']"
definition FORBIDDEN_DISPOSITION_PAYLOAD_KEYS :: "string list" where [vocab]:
  "FORBIDDEN_DISPOSITION_PAYLOAD_KEYS =
     [''arguments'', ''raw_arguments'', ''tool_arguments'', ''result'', ''raw_result'', ''prompt'',
      ''raw_prompt'', ''output'', ''raw_output'', ''private_corpus_text'']"
definition FORBIDDEN_DECISION_DETAIL_KEYS :: "string list" where [vocab]:
  "FORBIDDEN_DECISION_DETAIL_KEYS =
     FORBIDDEN_DISPOSITION_PAYLOAD_KEYS @ [''payload'', ''metadata'']"
definition EXECUTION_READINESS_SUMMARY_KEYS :: "string list" where [vocab]:
  "EXECUTION_READINESS_SUMMARY_KEYS =
     [''status'', ''allows_execution'', ''argument_hash'', ''reviewed_argument_hash'', ''reason'']"
definition STATUS_SUMMARY_KEYS :: "string list" where [vocab]:
  "STATUS_SUMMARY_KEYS =
     [''review_object_ref'', ''status'', ''allows_execution'', ''decision_ref'', ''actor_ref'']"
definition LINKAGE_PAYLOAD_KEYS :: "string list" where [vocab]:
  "LINKAGE_PAYLOAD_KEYS =
     [''review_object_ref'', ''decision_ref'', ''argument_hash'', ''actor_ref'', ''outcome'']"

datatype disposition_error =
    NoArgumentHash | ArgumentHashDisagree
  | ArgumentsNotMapping | ContextNotMapping
  | ToolNameEmpty | ToolClassEmpty | PolicyDecisionEmpty
  | DigestPrefix string | DigestLength string | DigestNotHex string
  | DecisionNotText | DispositionValue spine_error
  | ForbiddenDetailKey string | DetailReviewType pyv
  | DetailActorNull | DetailActorNotText | DetailActorMismatch
  | ForbiddenPayloadKey | UnknownPayloadKey string | MissingPayloadKeys
  | RequiredSinksNotList | EventRefsNotList | GateTimeoutNotPositive
  | WrongReviewObjectType string | WrongGovernanceState pyv
  | DigestMismatch | UnexpectedOutcome token | UnexpectedSummaryKeys
  | RefEmpty string | NoReplay | ReplayInvariantViolated

section \<open>Digests\<close>

definition resolved_argument_hash_from_disposition_payload ::
  "hash_params \<Rightarrow> pydict \<Rightarrow> (disposition_error, string) result" where
  "resolved_argument_hash_from_disposition_payload hp payload =
    (case (dget payload ''argument_hash'', dget payload ''arguments_hash'') of
       (None, None) \<Rightarrow> Inl NoArgumentHash
     | (Some new_val, Some legacy_val) \<Rightarrow>
         if \<not> py_eq new_val legacy_val then Inl ArgumentHashDisagree
         else Inr (py_str hp new_val)
     | (Some new_val, None) \<Rightarrow> Inr (py_str hp new_val)
     | (None, Some legacy_val) \<Rightarrow> Inr (py_str hp legacy_val))"

definition timeout_decision_outcome :: token where
  "timeout_decision_outcome = ''expired''"

definition hash_tool_call_arguments ::
  "hash_params \<Rightarrow> pyv \<Rightarrow> (disposition_error, string) result" where
  "hash_tool_call_arguments hp arguments =
    (case arguments of
       VMap kvs \<Rightarrow> Inr (stable_payload_hash hp (VMap kvs))
     | _ \<Rightarrow> Inl ArgumentsNotMapping)"

definition hash_tool_call_context ::
  "hash_params \<Rightarrow> pyv \<Rightarrow> (disposition_error, string option) result" where
  "hash_tool_call_context hp ctx =
    (case ctx of
       VNone \<Rightarrow> Inr None
     | VMap kvs \<Rightarrow> Inr (Some (stable_payload_hash hp (VMap kvs)))
     | _ \<Rightarrow> Inl ContextNotMapping)"

definition argument_hash_for_tool_call ::
  "hash_params \<Rightarrow> pyv \<Rightarrow> (disposition_error, string) result" where
  "argument_hash_for_tool_call hp arguments = hash_tool_call_arguments hp arguments"

text \<open>\<^verbatim>\<open>int(s, 16)\<close> does not raise: white space around the number, a sign, the prefix \<^verbatim>\<open>0x\<close> and single
  underscores between digits are all accepted.\<close>

definition hex_digit :: "char \<Rightarrow> bool" where
  "hex_digit c = (let n = of_char c :: nat in
     (48 \<le> n \<and> n \<le> 57) \<or> (65 \<le> n \<and> n \<le> 70) \<or> (97 \<le> n \<and> n \<le> 102))"

fun hex_digits_ok :: "string \<Rightarrow> bool" where
  "hex_digits_ok [] = False"
| "hex_digits_ok [c] = hex_digit c"
| "hex_digits_ok (c # d # cs) =
     (hex_digit c \<and> (if d = CHR ''_'' then hex_digits_ok cs else hex_digits_ok (d # cs)))"

definition drop_sign :: "string \<Rightarrow> string" where
  "drop_sign s = (case s of [] \<Rightarrow> [] | c # cs \<Rightarrow> if c = CHR ''+'' \<or> c = CHR ''-'' then cs else s)"

definition drop_hex_prefix :: "string \<Rightarrow> string" where
  "drop_hex_prefix s =
    (if take 2 s = ''0x'' \<or> take 2 s = ''0X''
     then (case drop 2 s of [] \<Rightarrow> [] | c # cs \<Rightarrow> if c = CHR ''_'' then cs else c # cs)
     else s)"

definition int16_ok :: "string \<Rightarrow> bool" where
  "int16_ok s = hex_digits_ok (drop_hex_prefix (drop_sign (py_strip s)))"

definition validate_sha256_attestation ::
  "string \<Rightarrow> string \<Rightarrow> (disposition_error, unit) result" where
  "validate_sha256_attestation value field =
     checks [require (starts_with value ''sha256:'') (DigestPrefix field),
             require (length (drop 7 value) = 64) (DigestLength field),
             require (int16_ok (drop 7 value)) (DigestNotHex field)]"

section \<open>Payload and object validation\<close>

definition gate_timeout_ok :: "pyv \<Rightarrow> bool" where
  "gate_timeout_ok g = (case g of VNone \<Rightarrow> True | VInt i \<Rightarrow> 0 < i | _ \<Rightarrow> False)"

definition is_vlist :: "pyv \<Rightarrow> bool" where
  "is_vlist v = (case v of VList _ \<Rightarrow> True | _ \<Rightarrow> False)"

fun known_keys :: "string list \<Rightarrow> string list \<Rightarrow> (disposition_error, unit) result" where
  "known_keys allowed [] = Inr ()"
| "known_keys allowed (k # ks) =
     (if k \<in> set allowed then known_keys allowed ks else Inl (UnknownPayloadKey k))"

definition present_ok :: "pydict \<Rightarrow> string \<Rightarrow> (pyv \<Rightarrow> bool) \<Rightarrow> bool" where
  "present_ok payload k f = (case dget payload k of None \<Rightarrow> True | Some v \<Rightarrow> f v)"

definition validate_tool_call_disposition_payload ::
  "hash_params \<Rightarrow> pydict \<Rightarrow> (disposition_error, unit) result" where
  "validate_tool_call_disposition_payload hp payload =
     checks
       [require (list_all (\<lambda>k. k \<notin> set (dkeys payload)) FORBIDDEN_DISPOSITION_PAYLOAD_KEYS)
          ForbiddenPayloadKey,
        known_keys (REQUIRED_DISPOSITION_PAYLOAD_KEYS @ OPTIONAL_DISPOSITION_PAYLOAD_KEYS
            @ [''argument_hash'']) (dkeys payload),
        require (list_all (\<lambda>k. k \<in> set (dkeys payload)) REQUIRED_DISPOSITION_PAYLOAD_KEYS)
          MissingPayloadKeys,
        rbind (resolved_argument_hash_from_disposition_payload hp payload)
          (\<lambda>h. validate_sha256_attestation h ''argument_hash''),
        (case dget payload ''context_hash'' of
           None \<Rightarrow> Inr ()
         | Some v \<Rightarrow> validate_sha256_attestation (py_str hp v) ''context_hash''),
        require (present_ok payload ''required_sinks'' is_vlist) RequiredSinksNotList,
        require (present_ok payload ''event_refs'' is_vlist) EventRefsNotList,
        require (present_ok payload ''gate_timeout_seconds'' gate_timeout_ok)
          GateTimeoutNotPositive]"

definition validate_tool_call_disposition_review_object ::
  "hash_params \<Rightarrow> review_object \<Rightarrow> (disposition_error, unit) result" where
  "validate_tool_call_disposition_review_object hp ro =
     checks
       [require (ro_type ro = ''tool_call_disposition'') (WrongReviewObjectType (ro_type ro)),
        require (ro_governance_state ro = VStr ''pending'')
          (WrongGovernanceState (ro_governance_state ro)),
        validate_tool_call_disposition_payload hp (ro_context_payload ro)]"

definition reviewed_argument_hash_from_review_object ::
  "hash_params \<Rightarrow> review_object \<Rightarrow> (disposition_error, string) result" where
  "reviewed_argument_hash_from_review_object hp ro =
     rbind (validate_tool_call_disposition_review_object hp ro)
       (\<lambda>_. resolved_argument_hash_from_disposition_payload hp (ro_context_payload ro))"

definition arguments_match_review_object ::
  "hash_params \<Rightarrow> pyv \<Rightarrow> review_object \<Rightarrow> (disposition_error, bool) result" where
  "arguments_match_review_object hp arguments ro =
     rbind (validate_tool_call_disposition_review_object hp ro) (\<lambda>_.
     rbind (resolved_argument_hash_from_disposition_payload hp (ro_context_payload ro)) (\<lambda>reviewed.
     rbind (argument_hash_for_tool_call hp arguments) (\<lambda>submitted.
       Inr (reviewed = submitted))))"

definition require_arguments_match_review_object ::
  "hash_params \<Rightarrow> pyv \<Rightarrow> review_object \<Rightarrow> (disposition_error, unit) result" where
  "require_arguments_match_review_object hp arguments ro =
     rbind (arguments_match_review_object hp arguments ro) (\<lambda>m. require m DigestMismatch)"

section \<open>Building a review object\<close>

record disposition_input =
  di_tool_name :: string
  di_tool_class :: string
  di_policy_decision :: string
  di_arguments :: pyv
  di_context :: pyv
  di_retention_class :: string
  di_required_sinks :: "string list"
  di_reason :: "string option"
  di_gate_timeout_seconds :: pyv
  di_profile_ref :: "string option"
  di_policy_profile_ref :: "string option"
  di_policy_pack_ref :: "string option"
  di_event_refs :: "string list"
  di_review_object_id :: "string option"
  di_origin_event_id :: "string option"
  di_allowed_actions :: "string list option"
  di_created_at :: "string option"
  di_policy_ref :: "string option"
  di_harness_version :: "string option"
  di_adapter_type :: "string option"

definition opt_entry :: "string \<Rightarrow> string option \<Rightarrow> pydict" where
  "opt_entry k x = (case x of None \<Rightarrow> [] | Some s \<Rightarrow> [(k, VStr s)])"

definition disposition_payload ::
  "disposition_input \<Rightarrow> string \<Rightarrow> string option \<Rightarrow> pydict" where
  "disposition_payload inp argument_hash context_hash =
     [(''tool_name'', VStr (py_strip (di_tool_name inp))),
      (''tool_class'', VStr (py_strip (di_tool_class inp))),
      (''policy_decision'', VStr (py_strip (di_policy_decision inp))),
      (''argument_hash'', VStr argument_hash),
      (''retention_class'', VStr (di_retention_class inp)),
      (''required_sinks'', VList (map VStr (di_required_sinks inp))),
      (''reason'', vopt (di_reason inp)),
      (''gate_timeout_seconds'', di_gate_timeout_seconds inp),
      (''profile_ref'', vopt (di_profile_ref inp)),
      (''policy_profile_ref'', vopt (di_policy_profile_ref inp)),
      (''policy_pack_ref'', vopt (di_policy_pack_ref inp)),
      (''event_refs'', VList (map VStr (di_event_refs inp)))]
     @ opt_entry ''context_hash'' context_hash
     @ opt_entry ''policy_ref'' (di_policy_ref inp)
     @ opt_entry ''harness_version'' (di_harness_version inp)
     @ opt_entry ''adapter_type'' (di_adapter_type inp)"

definition disposition_object ::
  "disposition_input \<Rightarrow> string \<Rightarrow> string option \<Rightarrow> string \<Rightarrow> review_object" where
  "disposition_object inp argument_hash context_hash now =
     \<lparr>ro_type = ''tool_call_disposition'', ro_governance_state = VStr ''pending'',
      ro_context_payload = disposition_payload inp argument_hash context_hash,
      ro_allowed_actions = (case di_allowed_actions inp of
                              Some a \<Rightarrow> a | None \<Rightarrow> DEFAULT_ALLOWED_ACTIONS),
      ro_created_at = (if given (di_created_at inp) then the (di_created_at inp) else now),
      ro_id = di_review_object_id inp, ro_origin_event_id = di_origin_event_id inp\<rparr>"

definition build_tool_call_disposition_review_object ::
  "hash_params \<Rightarrow> string \<Rightarrow> disposition_input \<Rightarrow> (disposition_error, review_object) result" where
  "build_tool_call_disposition_review_object hp now inp =
     rbind (checks [require (\<not> blank (di_tool_name inp)) ToolNameEmpty,
                    require (\<not> blank (di_tool_class inp)) ToolClassEmpty,
                    require (\<not> blank (di_policy_decision inp)) PolicyDecisionEmpty]) (\<lambda>_.
     rbind (hash_tool_call_arguments hp (di_arguments inp)) (\<lambda>argument_hash.
     rbind (hash_tool_call_context hp (di_context inp)) (\<lambda>context_hash.
       let ro = disposition_object inp argument_hash context_hash now in
       rbind (validate_tool_call_disposition_review_object hp ro) (\<lambda>_. Inr ro))))"

section \<open>Decisions\<close>

definition validate_detail_actor ::
  "string option \<Rightarrow> pyv \<Rightarrow> (disposition_error, unit) result" where
  "validate_detail_actor declared detail_actor =
    (case detail_actor of
       VNone \<Rightarrow> Inl DetailActorNull
     | VStr a \<Rightarrow>
        rbind (map_err DispositionValue (validate_actor_ref (VStr a) False)) (\<lambda>normalized.
          case declared of
            None \<Rightarrow> Inr ()
          | Some t \<Rightarrow>
              rbind (map_err DispositionValue (validate_actor_ref (VStr t) False))
                (\<lambda>top_norm. require (normalized = top_norm) DetailActorMismatch))
     | _ \<Rightarrow> Inl DetailActorNotText)"

definition validate_tool_call_disposition_decision ::
  "review_decision \<Rightarrow> (disposition_error, unit) result" where
  "validate_tool_call_disposition_decision d =
     checks
       [require (is_vstr (rd_decision d)) DecisionNotText,
        rbind (map_err DispositionValue (normalize_review_decision_outcome (rd_decision d)))
          (\<lambda>_. Inr ()),
        each (\<lambda>k. require (k \<notin> set FORBIDDEN_DECISION_DETAIL_KEYS) (ForbiddenDetailKey k))
          (dkeys (rd_detail d)),
        (case dget (rd_detail d) ''review_object_type'' of
           None \<Rightarrow> Inr ()
         | Some rot \<Rightarrow> require (rot = VNone \<or> rot = VStr ''tool_call_disposition'')
                          (DetailReviewType rot)),
        (case rd_actor_ref d of
           None \<Rightarrow> Inr ()
         | Some a \<Rightarrow> rbind (map_err DispositionValue (validate_actor_ref (VStr a) False))
                       (\<lambda>_. Inr ())),
        (case dget (rd_detail d) ''actor_ref'' of
           None \<Rightarrow> Inr ()
         | Some a \<Rightarrow> validate_detail_actor (rd_actor_ref d) a)]"

definition disposition_outcome :: "review_decision \<Rightarrow> (disposition_error, token) result" where
  "disposition_outcome d =
     rbind (validate_tool_call_disposition_decision d)
       (\<lambda>_. map_err DispositionValue (normalize_review_decision_outcome (rd_decision d)))"

definition tool_call_disposition_allows_execution ::
  "review_decision option \<Rightarrow> (disposition_error, bool) result" where
  "tool_call_disposition_allows_execution decision =
    (case decision of
       None \<Rightarrow> Inr False
     | Some d \<Rightarrow> rbind (disposition_outcome d) (\<lambda>outcome. Inr (outcome = ''approved'')))"

definition readiness_row :: "string \<Rightarrow> string \<Rightarrow> token \<Rightarrow> bool \<Rightarrow> token \<Rightarrow> pydict" where
  "readiness_row submitted reviewed status allows reason =
     [(''argument_hash'', VStr submitted), (''reviewed_argument_hash'', VStr reviewed),
      (''status'', VStr status), (''allows_execution'', VBool allows), (''reason'', VStr reason)]"

definition decided_row ::
  "string \<Rightarrow> string \<Rightarrow> token \<Rightarrow> (disposition_error, pydict) result" where
  "decided_row submitted reviewed outcome =
    (if outcome = ''deferred'' then
       Inr (readiness_row submitted reviewed ''deferred'' False ''decision_deferred'')
     else if outcome = ''rejected'' then
       Inr (readiness_row submitted reviewed ''rejected'' False ''decision_rejected'')
     else if outcome = ''expired'' then
       Inr (readiness_row submitted reviewed ''expired'' False ''decision_expired'')
     else if outcome = ''approved'' then
       Inr (if submitted \<noteq> reviewed
            then readiness_row submitted reviewed ''mismatch'' False ''argument_hash_mismatch''
            else readiness_row submitted reviewed ''approved'' True ''approved_arguments_match'')
     else Inl (UnexpectedOutcome outcome))"

definition closed_row :: "string list \<Rightarrow> pydict \<Rightarrow> (disposition_error, pydict) result" where
  "closed_row allowed row =
     (if set (dkeys row) \<subseteq> set allowed then Inr row else Inl UnexpectedSummaryKeys)"

definition tool_call_disposition_execution_readiness ::
  "hash_params \<Rightarrow> review_object \<Rightarrow> review_decision option \<Rightarrow> pyv
    \<Rightarrow> (disposition_error, pydict) result" where
  "tool_call_disposition_execution_readiness hp ro decision arguments =
     rbind (reviewed_argument_hash_from_review_object hp ro) (\<lambda>reviewed.
     rbind (argument_hash_for_tool_call hp arguments) (\<lambda>submitted.
     rbind (case decision of
              None \<Rightarrow> Inr (readiness_row submitted reviewed ''pending'' False ''no_decision'')
            | Some d \<Rightarrow> rbind (disposition_outcome d) (decided_row submitted reviewed))
       (closed_row EXECUTION_READINESS_SUMMARY_KEYS)))"

section \<open>Decision status\<close>

text \<open>A review sink as far as the status helper looks: each of the four replay methods may be absent,
  and a present one is a function of the reference.\<close>

record replay_sink =
  rp_terminal_decision_lookup :: "(string \<Rightarrow> review_decision_lookup option) option"
  rp_terminal_decision :: "(string \<Rightarrow> review_decision option) option"
  rp_latest_decision_lookup :: "(string \<Rightarrow> review_decision_lookup option) option"
  rp_latest_decision :: "(string \<Rightarrow> review_decision option) option"

definition review_sink_supports_decision_replay :: "replay_sink \<Rightarrow> bool" where
  "review_sink_supports_decision_replay s =
     (rp_terminal_decision_lookup s \<noteq> None \<or> rp_terminal_decision s \<noteq> None
      \<or> rp_latest_decision_lookup s \<noteq> None \<or> rp_latest_decision s \<noteq> None)"

text \<open>The lookup row when there is one, else the plain decision without a reference.\<close>

definition replayed ::
  "(string \<Rightarrow> review_decision_lookup option) option \<Rightarrow> (string \<Rightarrow> review_decision option) option
    \<Rightarrow> string \<Rightarrow> (review_decision \<times> string option) option" where
  "replayed lookup plain rid =
    (case (case lookup of Some f \<Rightarrow> f rid | None \<Rightarrow> None) of
       Some l \<Rightarrow> Some (rl_decision l, Some (rl_decision_ref l))
     | None \<Rightarrow> (case (case plain of Some f \<Rightarrow> f rid | None \<Rightarrow> None) of
                  Some d \<Rightarrow> Some (d, None)
                | None \<Rightarrow> None))"

definition actor_ref_for_tool_disposition_status ::
  "review_decision \<Rightarrow> (disposition_error, string option) result" where
  "actor_ref_for_tool_disposition_status d =
    (case rd_actor_ref d of
       None \<Rightarrow> Inr None
     | Some a \<Rightarrow> map_err DispositionValue (validate_actor_ref (VStr a) False))"

definition status_row ::
  "string \<Rightarrow> token \<Rightarrow> bool \<Rightarrow> string option \<Rightarrow> review_decision \<Rightarrow> (disposition_error, pydict) result"
  where
  "status_row rid label allows decision_ref d =
     rbind (actor_ref_for_tool_disposition_status d) (\<lambda>actor.
       closed_row STATUS_SUMMARY_KEYS
         ([(''review_object_ref'', VStr rid), (''status'', VStr label),
           (''allows_execution'', VBool allows)]
          @ opt_entry ''decision_ref'' decision_ref @ opt_entry ''actor_ref'' actor))"

definition terminal_tool_disposition_status_row ::
  "string \<Rightarrow> token \<Rightarrow> string option \<Rightarrow> review_decision \<Rightarrow> (disposition_error, pydict) result" where
  "terminal_tool_disposition_status_row rid outcome decision_ref d =
    (if outcome = ''approved'' \<or> outcome = ''rejected'' \<or> outcome = ''expired''
     then status_row rid outcome (outcome = ''approved'') decision_ref d
     else Inl (UnexpectedOutcome outcome))"

definition latest_status_row ::
  "string \<Rightarrow> token \<Rightarrow> string option \<Rightarrow> review_decision \<Rightarrow> (disposition_error, pydict) result" where
  "latest_status_row rid outcome decision_ref d =
    (if outcome = ''deferred'' then status_row rid ''deferred'' False decision_ref d
     else Inl ReplayInvariantViolated)"

definition tool_call_disposition_decision_status ::
  "replay_sink \<Rightarrow> pyv \<Rightarrow> (disposition_error, pydict) result" where
  "tool_call_disposition_decision_status s ref =
    (case ref of
       VStr r \<Rightarrow>
        (if blank r then Inl (RefEmpty ''review_object_ref'')
         else if \<not> review_sink_supports_decision_replay s then Inl NoReplay
         else case replayed (rp_terminal_decision_lookup s) (rp_terminal_decision s) (py_strip r) of
             Some (d, dref) \<Rightarrow>
               rbind (disposition_outcome d)
                 (\<lambda>out. terminal_tool_disposition_status_row (py_strip r) out dref d)
           | None \<Rightarrow>
              (case replayed (rp_latest_decision_lookup s) (rp_latest_decision s) (py_strip r) of
                 Some (d, dref) \<Rightarrow>
                   rbind (disposition_outcome d)
                     (\<lambda>out. latest_status_row (py_strip r) out dref d)
               | None \<Rightarrow> Inr [(''review_object_ref'', VStr (py_strip r)),
                              (''status'', VStr ''pending''),
                              (''allows_execution'', VBool False)]))
     | _ \<Rightarrow> Inl (RefEmpty ''review_object_ref''))"

section \<open>Linkage\<close>

text \<open>An optional scalar of the linkage: absent, or a non-blank text that is converted.\<close>

definition linkage_field ::
  "string \<Rightarrow> pyv \<Rightarrow> (string \<Rightarrow> (disposition_error, string) result)
    \<Rightarrow> (disposition_error, pydict) result" where
  "linkage_field k v conv =
    (case v of
       VNone \<Rightarrow> Inr []
     | VStr s \<Rightarrow> (if blank s then Inl (RefEmpty k)
                  else rbind (conv s) (\<lambda>x. Inr [(k, VStr x)]))
     | _ \<Rightarrow> Inl (RefEmpty k))"

definition linkage_decision_ref :: "string \<Rightarrow> (disposition_error, string) result" where
  "linkage_decision_ref s =
     map_err DispositionValue (normalize_review_decision_ref (VStr (py_strip s)))"

definition linkage_argument_hash :: "string \<Rightarrow> (disposition_error, string) result" where
  "linkage_argument_hash s =
     rbind (validate_sha256_attestation (py_strip s) ''argument_hash'') (\<lambda>_. Inr (py_strip s))"

definition linkage_actor_ref :: "string \<Rightarrow> (disposition_error, string) result" where
  "linkage_actor_ref s = map_err DispositionValue (normalize_actor_ref (VStr (py_strip s)))"

definition linkage_outcome :: "string \<Rightarrow> (disposition_error, string) result" where
  "linkage_outcome s = map_err DispositionValue (normalize_review_decision_outcome (VStr s))"

definition build_tool_call_disposition_linkage ::
  "pyv \<Rightarrow> pyv \<Rightarrow> pyv \<Rightarrow> pyv \<Rightarrow> pyv \<Rightarrow> (disposition_error, pydict) result" where
  "build_tool_call_disposition_linkage ref decision_ref argument_hash actor_ref outcome =
    (case ref of
       VStr r \<Rightarrow>
        (if blank r then Inl (RefEmpty ''review_object_ref'')
         else
          rbind (linkage_field ''decision_ref'' decision_ref linkage_decision_ref) (\<lambda>a.
          rbind (linkage_field ''argument_hash'' argument_hash linkage_argument_hash) (\<lambda>b.
          rbind (linkage_field ''actor_ref'' actor_ref linkage_actor_ref) (\<lambda>c.
          rbind (linkage_field ''outcome'' outcome linkage_outcome) (\<lambda>d.
            closed_row LINKAGE_PAYLOAD_KEYS
              ((''review_object_ref'', VStr (py_strip r)) # a @ b @ c @ d))))))
     | _ \<Rightarrow> Inl (RefEmpty ''review_object_ref''))"

end
