(* ===== verification/DeferredBoundary.thy ===== *)
theory DeferredBoundary
  imports ToolCallDisposition
begin

text \<open>The deferred tool boundary (\<^verbatim>\<open>src/dagr_mcp/deferred_boundary.py\<close>): its slot store, \<^verbatim>\<open>defer_call\<close>,
  \<^verbatim>\<open>resume_call\<close> and the step relation of a boundary in use. A call is atomic because each slot has
  its lock. What the boundary asks of its collaborators, the identifier, the clock, the event
  sink, the review sink, the receipt bridge and the inner handler, is an input of the call; the
  calls of the inner handler are recorded in the state. The ISO parser is a parameter whose
  instants are microseconds.\<close>

section \<open>Slots\<close>

datatype slot_state = Pending | Admitted | Refused | Expired

text \<open>A slot only moves away from pending.\<close>

instantiation slot_state :: order
begin

definition less_eq_slot_state :: "slot_state \<Rightarrow> slot_state \<Rightarrow> bool" where
  "less_eq_slot_state s t = (s = t \<or> s = Pending)"

definition less_slot_state :: "slot_state \<Rightarrow> slot_state \<Rightarrow> bool" where
  "less_slot_state s t = (s \<noteq> t \<and> s = Pending)"

instance
  by standard (auto simp: less_eq_slot_state_def less_slot_state_def)

end

definition TERMINAL_STATES :: "slot_state list" where
  "TERMINAL_STATES = [Admitted, Refused, Expired]"

datatype deferred_error =
    DeferredSlotError
  | DeferredSlotNotFoundError
  | DeferredSlotTerminalError slot_state
  | DeferredArgumentMismatchError
  | DeferredActorMismatchError
  | DeferredStaleResponseError
  | DeferredTimeoutError
  | DeferredExecutionFailureError string
  | DeferredReviewObjectSinkError
  | DispositionFault disposition_error
  | TimestampInvalid
  | TimestampNotComparable
  | HandlerAborted

record deferred_slot =
  sl_correlation_ref :: string
  sl_tool_name :: string
  sl_tool_class :: string
  sl_profile_ref :: string
  sl_argument_digest :: string
  sl_created_at :: string
  sl_state :: slot_state
  sl_review_object_ref :: "string option"
  sl_gate_timeout_seconds :: "int option"
  sl_admission_receipt_ref :: "string option"
  sl_outcome_receipt_ref :: "string option"
  sl_result :: pyv
  sl_failure_reason :: "string option"
  sl_final_decision :: "review_decision option"
  sl_event_refs :: "string list"

record deferral_result =
  dr_correlation_ref :: string
  dr_review_object_ref :: string
  dr_argument_digest :: string
  dr_admission_receipt_ref :: "string option"
  dr_event_refs :: "string list"

record resume_result =
  rr_correlation_ref :: string
  rr_state :: slot_state
  rr_result :: pyv
  rr_failure_reason :: "string option"
  rr_admission_receipt_ref :: "string option"
  rr_outcome_receipt_ref :: "string option"
  rr_event_refs :: "string list"

section \<open>The boundary and its environment\<close>

datatype iso_time = Aware int | Naive int | NotIso

record boundary_params =
  bp_hash :: hash_params
  bp_iso :: "string \<Rightarrow> iso_time"
  bp_seconds :: "int \<Rightarrow> pyv"
  bp_callable :: bool
  bp_bridge :: bool
  bp_profile_ref :: string

text \<open>One call of the inner handler: the slot it is for, the tool and the arguments.\<close>

record inner_run =
  ir_ref :: string
  ir_tool :: string
  ir_arguments :: pyv

record boundary =
  db_slots :: "deferred_slot dict"
  db_events :: "(string \<times> pydict) list"
  db_runs :: "inner_run list"

record defer_env =
  de_uuid :: string
  de_now :: string
  de_review_ref :: "string option"
  de_event_ref :: "string option"
  de_admission_ref :: "string option"
  de_harness_context :: bool

record resume_env =
  re_now :: int
  re_event_ref :: "string option"
  re_inner :: inner_outcome
  re_admission_ref :: "string option"
  re_outcome_ref :: "string option"
  re_harness_context :: bool

definition get_slot :: "boundary \<Rightarrow> string \<Rightarrow> deferred_slot option" where
  "get_slot b ref = dget (db_slots b) ref"

definition pending_slots :: "boundary \<Rightarrow> deferred_slot list" where
  "pending_slots b = filter (\<lambda>s. sl_state s = Pending) (map snd (db_slots b))"

definition store_slot :: "deferred_slot \<Rightarrow> boundary \<Rightarrow> boundary" where
  "store_slot s b = b\<lparr>db_slots := dset (sl_correlation_ref s) s (db_slots b)\<rparr>"

text \<open>\<^verbatim>\<open>_write_event\<close>: a fault of the event sink gives no reference and no event.\<close>

definition write_boundary_event ::
  "string option \<Rightarrow> string \<Rightarrow> pydict \<Rightarrow> boundary \<Rightarrow> boundary" where
  "write_boundary_event ref typ detail b =
     (if ref = None then b else b\<lparr>db_events := db_events b @ [(typ, detail)]\<rparr>)"

definition ref_list :: "string option \<Rightarrow> string list" where
  "ref_list ref = (if given ref then [the ref] else [])"

definition zulu :: "string \<Rightarrow> string" where
  "zulu s = concat (map (\<lambda>c. if c = CHR ''Z'' then ''+00:00'' else [c]) s)"

definition parse_iso :: "boundary_params \<Rightarrow> string \<Rightarrow> (deferred_error, iso_time) result" where
  "parse_iso p s = (case bp_iso p (zulu s) of NotIso \<Rightarrow> Inl TimestampInvalid | t \<Rightarrow> Inr t)"

text \<open>Comparing or subtracting an aware and a naive time raises.\<close>

fun earlier :: "iso_time \<Rightarrow> iso_time \<Rightarrow> (deferred_error, bool) result" where
  "earlier (Aware a) (Aware b) = Inr (a < b)"
| "earlier (Naive a) (Naive b) = Inr (a < b)"
| "earlier _ _ = Inl TimestampNotComparable"

fun elapsed_since :: "int \<Rightarrow> iso_time \<Rightarrow> (deferred_error, int) result" where
  "elapsed_since now (Aware a) = Inr (now - a)"
| "elapsed_since now _ = Inl TimestampNotComparable"

section \<open>Deferring\<close>

definition defer_input ::
  "boundary_params \<Rightarrow> defer_env \<Rightarrow> string \<Rightarrow> pyv \<Rightarrow> string \<Rightarrow> int option \<Rightarrow> disposition_input" where
  "defer_input p e tool_name arguments tool_class gate_timeout =
     \<lparr>di_tool_name = tool_name, di_tool_class = tool_class, di_policy_decision = ''gate'',
      di_arguments = arguments, di_context = VNone, di_retention_class = ''hash_only'',
      di_required_sinks = [''event'', ''review''], di_reason = Some ''deferred_for_review'',
      di_gate_timeout_seconds = (case gate_timeout of None \<Rightarrow> VNone | Some g \<Rightarrow> VInt g),
      di_profile_ref = Some (bp_profile_ref p), di_policy_profile_ref = None,
      di_policy_pack_ref = None, di_event_refs = [], di_review_object_id = None,
      di_origin_event_id = None,
      di_allowed_actions = Some [''approve'', ''reject'', ''defer'', ''escalate''],
      di_created_at = Some (de_now e), di_policy_ref = None, di_harness_version = None,
      di_adapter_type = None\<rparr>"

definition correlation_of :: "defer_env \<Rightarrow> string" where
  "correlation_of e = ''deferred:'' @ de_uuid e"

definition deferred_slot_of ::
  "boundary_params \<Rightarrow> defer_env \<Rightarrow> string \<Rightarrow> string \<Rightarrow> int option \<Rightarrow> string \<Rightarrow> string \<Rightarrow> deferred_slot" where
  "deferred_slot_of p e tool_name tool_class gate_timeout digest review_ref =
     \<lparr>sl_correlation_ref = correlation_of e, sl_tool_name = tool_name, sl_tool_class = tool_class,
      sl_profile_ref = bp_profile_ref p, sl_argument_digest = digest, sl_created_at = de_now e,
      sl_state = Pending, sl_review_object_ref = Some review_ref,
      sl_gate_timeout_seconds = gate_timeout,
      sl_admission_receipt_ref =
        (if bp_bridge p \<and> de_harness_context e then de_admission_ref e else None),
      sl_outcome_receipt_ref = None, sl_result = VNone, sl_failure_reason = None,
      sl_final_decision = None, sl_event_refs = ref_list (de_event_ref e)\<rparr>"

definition defer_call ::
  "boundary_params \<Rightarrow> defer_env \<Rightarrow> boundary \<Rightarrow> string \<Rightarrow> pyv \<Rightarrow> string \<Rightarrow> int option
    \<Rightarrow> boundary \<times> (deferred_error, deferral_result) result" where
  "defer_call p e b tool_name arguments tool_class gate_timeout =
    (case arguments of
       VMap kvs \<Rightarrow>
        (case hash_tool_call_arguments (bp_hash p) arguments of
           Inl f \<Rightarrow> (b, Inl (DispositionFault f))
         | Inr digest \<Rightarrow>
            (case build_tool_call_disposition_review_object (bp_hash p) (de_now e)
                    (defer_input p e tool_name arguments tool_class gate_timeout) of
               Inl f \<Rightarrow> (b, Inl (DispositionFault f))
             | Inr ro \<Rightarrow>
                (case de_review_ref e of
                   None \<Rightarrow> (b, Inl DeferredReviewObjectSinkError)
                 | Some review_ref \<Rightarrow>
                    let slot = deferred_slot_of p e tool_name tool_class gate_timeout digest review_ref;
                        b1 = write_boundary_event (de_event_ref e) ''mcp.tool.call.deferred''
                          [(''tool_name'', VStr tool_name), (''argument_digest'', VStr digest),
                           (''correlation_ref'', VStr (correlation_of e)),
                           (''review_object_ref'', VStr review_ref)] b
                    in (store_slot slot b1,
                        Inr \<lparr>dr_correlation_ref = correlation_of e,
                             dr_review_object_ref = review_ref, dr_argument_digest = digest,
                             dr_admission_receipt_ref = sl_admission_receipt_ref slot,
                             dr_event_refs = ref_list (de_event_ref e)\<rparr>))))
     | _ \<Rightarrow> (b, Inl DeferredSlotError))"

section \<open>Resuming\<close>

definition resume_report ::
  "deferred_slot \<Rightarrow> slot_state \<Rightarrow> string option \<Rightarrow> string option \<Rightarrow> resume_result" where
  "resume_report s state reason outcome_ref =
     \<lparr>rr_correlation_ref = sl_correlation_ref s, rr_state = state, rr_result = sl_result s,
      rr_failure_reason = reason, rr_admission_receipt_ref = sl_admission_receipt_ref s,
      rr_outcome_receipt_ref = outcome_ref, rr_event_refs = sl_event_refs s\<rparr>"

text \<open>The wall-clock check: the elapsed microseconds when the gate has timed out.\<close>

definition timed_out ::
  "boundary_params \<Rightarrow> resume_env \<Rightarrow> deferred_slot \<Rightarrow> (deferred_error, int option) result" where
  "timed_out p e s =
    (case sl_gate_timeout_seconds s of
       None \<Rightarrow> Inr None
     | Some g \<Rightarrow> rbind (parse_iso p (sl_created_at s)) (\<lambda>created.
                  rbind (elapsed_since (re_now e) created) (\<lambda>el.
                    Inr (if g * 1000000 < el then Some el else None))))"

definition stale ::
  "boundary_params \<Rightarrow> deferred_slot \<Rightarrow> review_decision \<Rightarrow> (deferred_error, bool) result" where
  "stale p s d =
     rbind (parse_iso p (rd_decided_at d)) (\<lambda>decided.
     rbind (parse_iso p (sl_created_at s)) (\<lambda>created. earlier decided created))"

text \<open>Validation, staleness and the normalised outcome of a decision, in the order of the code.\<close>

definition resume_outcome ::
  "boundary_params \<Rightarrow> deferred_slot \<Rightarrow> review_decision \<Rightarrow> (deferred_error, token) result" where
  "resume_outcome p s d =
     rbind (map_err DispositionFault (validate_tool_call_disposition_decision d)) (\<lambda>_.
     rbind (stale p s d) (\<lambda>old.
       if old then Inl DeferredStaleResponseError
       else map_err (\<lambda>f. DispositionFault (DispositionValue f))
              (normalize_review_decision_outcome (rd_decision d))))"

definition slot_event :: "deferred_slot \<Rightarrow> pydict \<Rightarrow> pydict" where
  "slot_event s extra =
     [(''tool_name'', VStr (sl_tool_name s)),
      (''correlation_ref'', VStr (sl_correlation_ref s))] @ extra"

definition resume_expire ::
  "boundary_params \<Rightarrow> resume_env \<Rightarrow> boundary \<Rightarrow> deferred_slot \<Rightarrow> int \<Rightarrow> boundary" where
  "resume_expire p e b s el =
     write_boundary_event (re_event_ref e) ''mcp.tool.call.expired''
       (slot_event s [(''elapsed_seconds'', bp_seconds p el)])
       (store_slot (s\<lparr>sl_state := Expired, sl_failure_reason := Some ''gate_timeout_elapsed''\<rparr>) b)"

definition resume_decline ::
  "resume_env \<Rightarrow> boundary \<Rightarrow> deferred_slot \<Rightarrow> review_decision \<Rightarrow> token
    \<Rightarrow> boundary \<times> (deferred_error, resume_result) result" where
  "resume_decline e b s d outcome =
    (let state = (if outcome = ''rejected'' then Refused else Expired);
         s1 = s\<lparr>sl_state := state, sl_failure_reason := Some (''decision_'' @ outcome),
                sl_final_decision := Some d,
                sl_event_refs := sl_event_refs s @ ref_list (re_event_ref e)\<rparr>;
         b1 = write_boundary_event (re_event_ref e) ''mcp.tool.call.rejected''
                (slot_event s [(''outcome'', VStr outcome)]) b
     in (store_slot s1 b1, Inr (resume_report (s1\<lparr>sl_result := VNone\<rparr>) state
                                  (sl_failure_reason s1) None)))"

definition resume_keep ::
  "resume_env \<Rightarrow> boundary \<Rightarrow> deferred_slot \<Rightarrow> boundary \<times> (deferred_error, resume_result) result" where
  "resume_keep e b s =
    (let s1 = s\<lparr>sl_event_refs := sl_event_refs s @ ref_list (re_event_ref e)\<rparr>;
         b1 = write_boundary_event (re_event_ref e) ''mcp.tool.call.deferred''
                (slot_event s [(''outcome'', VStr ''still_deferred'')]) b
     in (store_slot s1 b1, Inr (resume_report (s1\<lparr>sl_result := VNone\<rparr>) Pending
                                  (Some ''still_deferred'') None)))"

definition resume_mismatch ::
  "resume_env \<Rightarrow> boundary \<Rightarrow> deferred_slot \<Rightarrow> review_decision \<Rightarrow> boundary" where
  "resume_mismatch e b s d =
     write_boundary_event (re_event_ref e) ''mcp.tool.call.rejected''
       (slot_event s [(''failure_reason'', VStr ''argument_digest_mismatch'')])
       (store_slot (s\<lparr>sl_state := Refused, sl_failure_reason := Some ''argument_digest_mismatch'',
                      sl_final_decision := Some d\<rparr>) b)"

definition actor_mismatch :: "deferred_slot \<Rightarrow> review_decision \<Rightarrow> bool" where
  "actor_mismatch s d =
    (case (rd_actor_ref d, sl_final_decision s) of
       (Some a, Some f) \<Rightarrow> (case rd_actor_ref f of Some x \<Rightarrow> a \<noteq> x | None \<Rightarrow> False)
     | _ \<Rightarrow> False)"

text \<open>The admitted and the outcome receipt; a fault of either is swallowed where it happens.\<close>

definition resume_receipts :: "boundary_params \<Rightarrow> resume_env \<Rightarrow> deferred_slot \<Rightarrow> deferred_slot" where
  "resume_receipts p e s =
    (if \<not> (bp_bridge p \<and> re_harness_context e) then s
     else case re_admission_ref e of
         None \<Rightarrow> s
       | Some adm \<Rightarrow>
          (case re_outcome_ref e of
             None \<Rightarrow> s\<lparr>sl_admission_receipt_ref := Some adm\<rparr>
           | Some out \<Rightarrow> s\<lparr>sl_admission_receipt_ref := Some adm, sl_outcome_receipt_ref := Some out\<rparr>))"

definition call_inner :: "boundary_params \<Rightarrow> inner_outcome \<Rightarrow> inner_outcome" where
  "call_inner p out = (if bp_callable p then out else InnerRaises ''TypeError'')"

definition record_run :: "boundary_params \<Rightarrow> deferred_slot \<Rightarrow> pyv \<Rightarrow> boundary \<Rightarrow> boundary" where
  "record_run p s arguments b =
     (if bp_callable p
      then b\<lparr>db_runs := db_runs b @ [\<lparr>ir_ref = sl_correlation_ref s, ir_tool = sl_tool_name s,
                                     ir_arguments = arguments\<rparr>]\<rparr>
      else b)"

definition resume_execute ::
  "boundary_params \<Rightarrow> resume_env \<Rightarrow> boundary \<Rightarrow> deferred_slot \<Rightarrow> review_decision \<Rightarrow> pyv
    \<Rightarrow> boundary \<times> (deferred_error, resume_result) result" where
  "resume_execute p e b s d arguments =
    (let b1 = record_run p s arguments b in
     case call_inner p (re_inner e) of
       InnerAborts \<Rightarrow> (b1, Inl HandlerAborted)
     | InnerRaises cls \<Rightarrow>
        (write_boundary_event (re_event_ref e) ''mcp.tool.call.failed''
           (slot_event s [(''exception_class'', VStr cls)])
           (store_slot (s\<lparr>sl_state := Refused, sl_failure_reason := Some ''inner_execution_failure'',
                          sl_final_decision := Some d\<rparr>) b1),
         Inl (DeferredExecutionFailureError cls))
     | InnerReturns v \<Rightarrow>
        (let s1 = resume_receipts p e
                    (s\<lparr>sl_state := Admitted, sl_result := v, sl_final_decision := Some d\<rparr>);
             s2 = s1\<lparr>sl_event_refs := sl_event_refs s1 @ ref_list (re_event_ref e)\<rparr>;
             b2 = write_boundary_event (re_event_ref e) ''mcp.tool.call.executed''
                    [(''tool_name'', VStr (sl_tool_name s)),
                     (''argument_digest'', VStr (sl_argument_digest s)),
                     (''correlation_ref'', VStr (sl_correlation_ref s))] b1
         in (store_slot s2 b2,
             Inr (resume_report s2 Admitted None
               (if bp_bridge p \<and> re_harness_context e \<and> re_admission_ref e \<noteq> None
                then re_outcome_ref e else None)))))"

definition resume_approved ::
  "boundary_params \<Rightarrow> resume_env \<Rightarrow> boundary \<Rightarrow> deferred_slot \<Rightarrow> review_decision \<Rightarrow> pyv
    \<Rightarrow> boundary \<times> (deferred_error, resume_result) result" where
  "resume_approved p e b s d arguments =
    (case hash_tool_call_arguments (bp_hash p) arguments of
       Inl f \<Rightarrow> (b, Inl (DispositionFault f))
     | Inr submitted \<Rightarrow>
        (if submitted \<noteq> sl_argument_digest s
         then (resume_mismatch e b s d, Inl DeferredArgumentMismatchError)
         else if actor_mismatch s d then (b, Inl DeferredActorMismatchError)
         else resume_execute p e b s d arguments))"

definition resume_locked ::
  "boundary_params \<Rightarrow> resume_env \<Rightarrow> boundary \<Rightarrow> deferred_slot \<Rightarrow> review_decision \<Rightarrow> pyv
    \<Rightarrow> boundary \<times> (deferred_error, resume_result) result" where
  "resume_locked p e b s d arguments =
    (if sl_state s \<in> set TERMINAL_STATES then (b, Inl (DeferredSlotTerminalError (sl_state s)))
     else case timed_out p e s of
         Inl f \<Rightarrow> (b, Inl f)
       | Inr (Some el) \<Rightarrow> (resume_expire p e b s el, Inl DeferredTimeoutError)
       | Inr None \<Rightarrow>
          (case resume_outcome p s d of
             Inl f \<Rightarrow> (b, Inl f)
           | Inr outcome \<Rightarrow>
              (if outcome = ''rejected'' \<or> outcome = ''expired'' then resume_decline e b s d outcome
               else if outcome = ''deferred'' then resume_keep e b s
               else resume_approved p e b s d arguments)))"

definition resume_call ::
  "boundary_params \<Rightarrow> resume_env \<Rightarrow> boundary \<Rightarrow> string \<Rightarrow> review_decision \<Rightarrow> pyv
    \<Rightarrow> boundary \<times> (deferred_error, resume_result) result" where
  "resume_call p e b ref d arguments =
    (case get_slot b ref of
       None \<Rightarrow> (b, Inl DeferredSlotNotFoundError)
     | Some s \<Rightarrow> resume_locked p e b s d arguments)"

section \<open>A boundary in use\<close>

definition empty_boundary :: boundary where
  "empty_boundary = \<lparr>db_slots = [], db_events = [], db_runs = []\<rparr>"

text \<open>One call from outside. The identifier of a deferral is fresh, as \<^verbatim>\<open>uuid4\<close> promises; the flag
  allows a handler that raises past \<^verbatim>\<open>except Exception\<close>.\<close>

inductive boundary_step :: "boundary_params \<Rightarrow> bool \<Rightarrow> boundary \<Rightarrow> boundary \<Rightarrow> bool"
  for p aborts where
  Defer: "get_slot b (correlation_of e) = None \<Longrightarrow>
      defer_call p e b tool_name arguments tool_class gate_timeout = (b', r) \<Longrightarrow>
      boundary_step p aborts b b'"
| Resume: "aborts \<or> re_inner e \<noteq> InnerAborts \<Longrightarrow>
      resume_call p e b ref d arguments = (b', r) \<Longrightarrow> boundary_step p aborts b b'"

inductive_cases boundary_stepE: "boundary_step p aborts b b'"

definition runs_for :: "boundary \<Rightarrow> string \<Rightarrow> inner_run list" where
  "runs_for b ref = filter (\<lambda>r. ir_ref r = ref) (db_runs b)"

end
