(* ===== verification/DispositionFacts.thy ===== *)
theory DispositionFacts
  imports ToolCallDisposition
begin

text \<open>Facts about tool-call disposition rows: a built row validates and reads back the digest of its
  arguments, readiness allows execution only for an approved decision on the reviewed arguments,
  and the decision status allows it only on a replayed terminal approval.\<close>

section \<open>Digests of hexadecimal digits\<close>

definition hash_hex :: "hash_params \<Rightarrow> bool" where
  "hash_hex hp = (\<forall>b. length (hp_sha256 hp b) = 64 \<and> list_all hex_digit (hp_sha256 hp b))"

lemma hex_digit_facts:
  assumes "hex_digit c"
  shows "\<not> py_space c" "c \<noteq> CHR ''_''" "c \<noteq> CHR ''+''" "c \<noteq> CHR ''-''" "c \<noteq> CHR ''x''"
    "c \<noteq> CHR ''X''"
  using assms by (auto simp: hex_digit_def py_space_def Let_def)

lemma hex_digits_all: "s \<noteq> [] \<Longrightarrow> list_all hex_digit s \<Longrightarrow> hex_digits_ok s"
  by (induction s rule: hex_digits_ok.induct) (auto simp: hex_digit_facts(2))

lemma int16_ok_hex:
  assumes "s \<noteq> []" "list_all hex_digit s"
  shows "int16_ok s"
proof -
  have ends: "hex_digit (hd s)" "hex_digit (last s)"
    using assms by (simp_all add: list_all_iff)
  have strip: "py_strip s = s"
    using assms(1) hex_digit_facts(1)[OF ends(1)] hex_digit_facts(1)[OF ends(2)]
    by (intro py_strip_fixed) auto
  have sign: "drop_sign s = s"
    using ends(1) assms(1) hex_digit_facts(3,4)[OF ends(1)] by (cases s) (simp_all add: drop_sign_def)
  have pre: "drop_hex_prefix s = s"
  proof -
    have "take 2 s \<noteq> ''0x'' \<and> take 2 s \<noteq> ''0X''"
    proof (rule ccontr)
      assume "\<not> ?thesis"
      then have "CHR ''x'' \<in> set s \<or> CHR ''X'' \<in> set s"
        by (metis in_set_takeD list.set_intros(1,2))
      then show False using assms(2) hex_digit_facts(5,6) by (auto simp: list_all_iff)
    qed
    then show ?thesis by (simp add: drop_hex_prefix_def)
  qed
  show ?thesis using hex_digits_all[OF assms] by (simp add: int16_ok_def strip sign pre)
qed

lemma attestation_of_hash:
  assumes "hash_hex hp"
  shows "validate_sha256_attestation (stable_payload_hash hp v) f = Inr ()"
proof -
  have h: "length (hp_sha256 hp b) = 64" "list_all hex_digit (hp_sha256 hp b)" for b
    using assms by (simp_all add: hash_hex_def)
  have "int16_ok (hp_sha256 hp b)" for b
    using h[of b] by (intro int16_ok_hex) auto
  then show ?thesis
    using h by (simp add: validate_sha256_attestation_def stable_payload_hash_def starts_with_def)
qed

text \<open>The validator takes suffixes that are not sixty-four hexadecimal digits.\<close>

lemma attestation_takes_prefixed_suffix:
  "validate_sha256_attestation (''sha256:0x'' @ replicate 62 (CHR ''a'')) f = Inr ()"
  "\<not> list_all hex_digit (''0x'' @ replicate 62 (CHR ''a''))"
proof -
  have "int16_ok (''0x'' @ replicate 62 (CHR ''a''))" by code_simp
  then show "validate_sha256_attestation (''sha256:0x'' @ replicate 62 (CHR ''a'')) f = Inr ()"
    by (simp add: validate_sha256_attestation_def starts_with_def)
  show "\<not> list_all hex_digit (''0x'' @ replicate 62 (CHR ''a''))" by (simp add: hex_digit_def)
qed

section \<open>Built rows\<close>

definition is_vmap :: "pyv \<Rightarrow> bool" where
  "is_vmap v = (case v of VMap _ \<Rightarrow> True | _ \<Rightarrow> False)"

lemma is_vmap_iff: "is_vmap v = (\<exists>kvs. v = VMap kvs)"
  by (cases v) (simp_all add: is_vmap_def)

definition disposition_input_ok :: "disposition_input \<Rightarrow> bool" where
  "disposition_input_ok inp =
     (\<not> blank (di_tool_name inp) \<and> \<not> blank (di_tool_class inp)
      \<and> \<not> blank (di_policy_decision inp) \<and> is_vmap (di_arguments inp)
      \<and> (di_context inp = VNone \<or> is_vmap (di_context inp))
      \<and> gate_timeout_ok (di_gate_timeout_seconds inp))"

definition disposition_keys :: "string list" where
  "disposition_keys =
     REQUIRED_DISPOSITION_PAYLOAD_KEYS @ OPTIONAL_DISPOSITION_PAYLOAD_KEYS @ [''argument_hash'']"

lemma known_keys_ok: "list_all (\<lambda>k. k \<in> set allowed) ks \<Longrightarrow> known_keys allowed ks = Inr ()"
  by (induction ks) auto

lemma dkeys_append: "dkeys (a @ b) = dkeys a @ dkeys b"
  by (simp add: dkeys_def)

lemma dkeys_opt_entry: "dkeys (opt_entry k x) = (if x = None then [] else [k])"
  by (cases x) (simp_all add: opt_entry_def)

lemma dget_opt_entry: "dget (opt_entry k x) j = (if j = k then map_option VStr x else None)"
  by (cases x) (simp_all add: opt_entry_def)

lemmas payload_lookup = disposition_payload_def dget_opt_entry map_of_append map_add_def

lemma payload_keys:
  "list_all (\<lambda>k. k \<in> set disposition_keys) (dkeys (disposition_payload inp h c))"
  by (simp add: disposition_payload_def dkeys_append dkeys_opt_entry disposition_keys_def vocab)

lemma payload_required:
  "list_all (\<lambda>k. k \<in> set (dkeys (disposition_payload inp h c))) REQUIRED_DISPOSITION_PAYLOAD_KEYS"
  by (simp add: disposition_payload_def dkeys_append dkeys_opt_entry vocab)

lemma forbidden_unknown:
  "list_all (\<lambda>k. k \<notin> set disposition_keys) FORBIDDEN_DISPOSITION_PAYLOAD_KEYS"
  by (simp add: disposition_keys_def vocab)

lemma payload_not_forbidden:
  "list_all (\<lambda>k. k \<notin> set (dkeys (disposition_payload inp h c))) FORBIDDEN_DISPOSITION_PAYLOAD_KEYS"
  using payload_keys[of inp h c] forbidden_unknown by (auto simp: list_all_iff)

lemma payload_gets:
  "dget (disposition_payload inp h c) ''argument_hash'' = Some (VStr h)"
  "dget (disposition_payload inp h c) ''arguments_hash'' = None"
  "dget (disposition_payload inp h c) ''context_hash'' = map_option VStr c"
  "dget (disposition_payload inp h c) ''required_sinks'' = Some (VList (map VStr (di_required_sinks inp)))"
  "dget (disposition_payload inp h c) ''event_refs'' = Some (VList (map VStr (di_event_refs inp)))"
  "dget (disposition_payload inp h c) ''gate_timeout_seconds'' = Some (di_gate_timeout_seconds inp)"
  by (auto simp: payload_lookup split: option.splits)

lemma payload_hash:
  "resolved_argument_hash_from_disposition_payload hp (disposition_payload inp h c) = Inr h"
  by (simp add: resolved_argument_hash_from_disposition_payload_def payload_gets py_str_def)

lemma validate_built_payload:
  assumes "hash_hex hp" "h = stable_payload_hash hp a" "c = None \<or> c = Some (stable_payload_hash hp x)"
  shows "validate_tool_call_disposition_payload hp (disposition_payload inp h c)
    = require (gate_timeout_ok (di_gate_timeout_seconds inp)) GateTimeoutNotPositive"
proof -
  have "(case map_option VStr c of None \<Rightarrow> Inr ()
         | Some v \<Rightarrow> validate_sha256_attestation (py_str hp v) ''context_hash'') = Inr ()"
    using assms(3) attestation_of_hash[OF assms(1)] by (auto simp: py_str_def)
  then show ?thesis
    using payload_keys[of inp h c] assms(2) attestation_of_hash[OF assms(1)]
    by (simp add: validate_tool_call_disposition_payload_def payload_not_forbidden payload_required
        known_keys_ok disposition_keys_def[symmetric] payload_hash payload_gets present_ok_def
        is_vlist_def rbind_Inr_iff require_def)
qed

lemma validate_built_object:
  assumes "hash_hex hp" "h = stable_payload_hash hp a" "c = None \<or> c = Some (stable_payload_hash hp x)"
  shows "validate_tool_call_disposition_review_object hp (disposition_object inp h c now)
    = require (gate_timeout_ok (di_gate_timeout_seconds inp)) GateTimeoutNotPositive"
  by (simp add: validate_tool_call_disposition_review_object_def disposition_object_def
      validate_built_payload[OF assms] require_def)

definition built_object :: "hash_params \<Rightarrow> string \<Rightarrow> disposition_input \<Rightarrow> review_object" where
  "built_object hp now inp =
     disposition_object inp (stable_payload_hash hp (di_arguments inp))
       (if di_context inp = VNone then None else Some (stable_payload_hash hp (di_context inp))) now"

lemma build_ok:
  assumes "hash_hex hp" "disposition_input_ok inp"
  shows "build_tool_call_disposition_review_object hp now inp = Inr (built_object hp now inp)"
proof -
  obtain kvs where a: "di_arguments inp = VMap kvs"
    using assms(2) by (auto simp: disposition_input_ok_def is_vmap_iff)
  have c: "hash_tool_call_context hp (di_context inp)
      = Inr (if di_context inp = VNone then None else Some (stable_payload_hash hp (di_context inp)))"
    using assms(2) by (auto simp: disposition_input_ok_def is_vmap_iff hash_tool_call_context_def)
  show ?thesis
    using assms(2) a c
    by (simp add: build_tool_call_disposition_review_object_def disposition_input_ok_def
        hash_tool_call_arguments_def validate_built_object[OF assms(1) refl] built_object_def Let_def)
qed

lemma build_refuses:
  assumes "hash_hex hp" "\<not> disposition_input_ok inp"
  shows "\<exists>e. build_tool_call_disposition_review_object hp now inp = Inl e"
proof (cases "build_tool_call_disposition_review_object hp now inp")
  case (Inr ro)
  then obtain h c where h: "hash_tool_call_arguments hp (di_arguments inp) = Inr h"
    and c: "hash_tool_call_context hp (di_context inp) = Inr c"
    and names: "\<not> blank (di_tool_name inp)" "\<not> blank (di_tool_class inp)"
      "\<not> blank (di_policy_decision inp)"
    and v: "validate_tool_call_disposition_review_object hp (disposition_object inp h c now) = Inr ()"
    by (auto simp: build_tool_call_disposition_review_object_def rbind_Inr_iff Let_def
        require_Inr_iff)
  have a: "is_vmap (di_arguments inp)" "h = stable_payload_hash hp (di_arguments inp)"
    using h by (auto simp: hash_tool_call_arguments_def is_vmap_def split: pyv.splits)
  have x: "di_context inp = VNone \<or> is_vmap (di_context inp)"
    "c = None \<or> c = Some (stable_payload_hash hp (di_context inp))"
    using c by (auto simp: hash_tool_call_context_def is_vmap_def split: pyv.splits)
  have "gate_timeout_ok (di_gate_timeout_seconds inp)"
    using v by (simp add: validate_built_object[OF assms(1) a(2) x(2)] require_Inr_iff)
  then show ?thesis using assms(2) names a x by (simp add: disposition_input_ok_def)
qed auto

lemma built_valid:
  assumes "hash_hex hp" "disposition_input_ok inp"
  shows "validate_tool_call_disposition_review_object hp (built_object hp now inp) = Inr ()"
    "resolved_argument_hash_from_disposition_payload hp (ro_context_payload (built_object hp now inp))
       = Inr (stable_payload_hash hp (di_arguments inp))"
  using assms(2)
  by (auto simp: built_object_def validate_built_object[OF assms(1) refl] disposition_input_ok_def)
     (simp_all add: disposition_object_def payload_hash)

lemma built_match:
  assumes "hash_hex hp" "disposition_input_ok inp"
  shows "arguments_match_review_object hp arguments (built_object hp now inp)
    = rbind (hash_tool_call_arguments hp arguments)
        (\<lambda>h. Inr (stable_payload_hash hp (di_arguments inp) = h))"
  using built_valid[OF assms] by (simp add: arguments_match_review_object_def
      argument_hash_for_tool_call_def)

text \<open>C28: With a digest of sixty-four hexadecimal digits, building a disposition row succeeds exactly on
  well-formed inputs; the row passes its own validation, reads back the digest of the arguments
  it was built from, holds none of the raw-content keys, and matches other arguments exactly when
  their digest is the same.\<close>
theorem built_row_roundtrip:
  assumes "hash_hex hp"
  shows "case build_tool_call_disposition_review_object hp now inp of
      Inl _ \<Rightarrow> \<not> disposition_input_ok inp
    | Inr ro \<Rightarrow> disposition_input_ok inp
        \<and> validate_tool_call_disposition_review_object hp ro = Inr ()
        \<and> reviewed_argument_hash_from_review_object hp ro
            = hash_tool_call_arguments hp (di_arguments inp)
        \<and> list_all (\<lambda>k. k \<notin> set (dkeys (ro_context_payload ro))) FORBIDDEN_DISPOSITION_PAYLOAD_KEYS
        \<and> arguments_match_review_object hp arguments ro
            = rbind (hash_tool_call_arguments hp arguments)
                (\<lambda>h. Inr (hash_tool_call_arguments hp (di_arguments inp) = Inr h))"
proof (cases "disposition_input_ok inp")
  case True
  then have h: "hash_tool_call_arguments hp (di_arguments inp)
      = Inr (stable_payload_hash hp (di_arguments inp))"
    by (auto simp: disposition_input_ok_def is_vmap_iff hash_tool_call_arguments_def)
  have "list_all (\<lambda>k. k \<notin> set (dkeys (ro_context_payload (built_object hp now inp))))
      FORBIDDEN_DISPOSITION_PAYLOAD_KEYS"
    by (simp add: built_object_def disposition_object_def payload_not_forbidden)
  then show ?thesis
    using True h built_valid[OF assms True]
    by (simp add: build_ok[OF assms True] built_match[OF assms True]
        reviewed_argument_hash_from_review_object_def)
next
  case False
  then show ?thesis using build_refuses[OF assms False, of now] by auto
qed

definition toy_hash :: hash_params where
  "toy_hash = \<lparr>hp_dumps = (\<lambda>v. Some (case v of VMap kvs \<Rightarrow> concat (map fst kvs) | _ \<Rightarrow> [])),
     hp_str = (\<lambda>_. []),
     hp_sha256 = (\<lambda>b. if b = [] then replicate 64 (CHR ''0'') else replicate 64 (CHR ''f''))\<rparr>"

lemma toy_digits: "list_all hex_digit (replicate 64 (CHR ''0''))"
  "list_all hex_digit (replicate 64 (CHR ''f''))"
  by code_simp+

lemma toy_hash_hex: "hash_hex toy_hash"
  using toy_digits by (simp add: hash_hex_def toy_hash_def)

definition sample_input :: disposition_input where
  "sample_input =
     \<lparr>di_tool_name = ''send'', di_tool_class = ''write'', di_policy_decision = ''gate'',
      di_arguments = VMap [(''to'', VStr ''x'')], di_context = VNone,
      di_retention_class = ''hash_only'', di_required_sinks = [''event''], di_reason = None,
      di_gate_timeout_seconds = VInt 60, di_profile_ref = None, di_policy_profile_ref = None,
      di_policy_pack_ref = None, di_event_refs = [], di_review_object_id = None,
      di_origin_event_id = None, di_allowed_actions = None, di_created_at = None,
      di_policy_ref = None, di_harness_version = None, di_adapter_type = None\<rparr>"

lemma sample_input_ok: "disposition_input_ok sample_input"
  by (simp add: disposition_input_ok_def sample_input_def is_vmap_def gate_timeout_ok_def
      blank_iff py_space_def)

theorem built_row_roundtrip_witness:
  "case build_tool_call_disposition_review_object toy_hash ''t0'' sample_input of
      Inl _ \<Rightarrow> False
    | Inr ro \<Rightarrow> validate_tool_call_disposition_review_object toy_hash ro = Inr ()"
  using built_row_roundtrip[OF toy_hash_hex, where now = "''t0''" and inp = sample_input] sample_input_ok
  by (auto split: sum.splits)

section \<open>Readiness\<close>

lemma decision_outcome_member: "disposition_outcome d = Inr out \<Longrightarrow> out \<in> set REVIEW_DECISION_OUTCOMES"
  by (auto simp: disposition_outcome_def rbind_Inr_iff map_err_Inr_iff
      intro: normalize_outcome_member)

lemma decided_row_cases:
  assumes "out \<in> set REVIEW_DECISION_OUTCOMES"
  shows "\<exists>st rs. rbind (decided_row s r out) (closed_row EXECUTION_READINESS_SUMMARY_KEYS)
     = Inr (readiness_row s r st (out = ''approved'' \<and> s = r) rs)"
  using assms by (auto simp: decided_row_def closed_row_def readiness_row_def vocab)

lemma readiness_row_gets:
  "dget (readiness_row s r st a rs) ''allows_execution'' = Some (VBool a)"
  "dkeys (readiness_row s r st a rs)
     = [''argument_hash'', ''reviewed_argument_hash'', ''status'', ''allows_execution'', ''reason'']"
  by (simp_all add: readiness_row_def)

text \<open>C27: For a row built from well-formed inputs, the readiness summary allows execution exactly when
  the decision is a valid approval and the submitted arguments have the digest of the reviewed
  ones; it fails only on arguments that are no mapping or on an invalid decision, and its row
  holds nothing but the five summary keys.\<close>
theorem readiness_exact:
  assumes "hash_hex hp" "build_tool_call_disposition_review_object hp now inp = Inr ro"
  shows "case tool_call_disposition_execution_readiness hp ro decision arguments of
      Inl _ \<Rightarrow> (case hash_tool_call_arguments hp arguments of Inl _ \<Rightarrow> True | Inr _ \<Rightarrow>
                 (case tool_call_disposition_allows_execution decision of
                    Inl _ \<Rightarrow> True | Inr _ \<Rightarrow> False))
    | Inr row \<Rightarrow>
        dget row ''allows_execution'' =
          Some (VBool (tool_call_disposition_allows_execution decision = Inr True
            \<and> hash_tool_call_arguments hp arguments = hash_tool_call_arguments hp (di_arguments inp)))
        \<and> dkeys row = [''argument_hash'', ''reviewed_argument_hash'', ''status'',
                       ''allows_execution'', ''reason'']"
proof -
  have ok: "disposition_input_ok inp" using build_refuses[OF assms(1), of inp now] assms(2) by auto
  have ro: "ro = built_object hp now inp" using build_ok[OF assms(1) ok, of now] assms(2) by simp
  have h: "hash_tool_call_arguments hp (di_arguments inp)
      = Inr (stable_payload_hash hp (di_arguments inp))"
    using ok by (auto simp: disposition_input_ok_def is_vmap_iff hash_tool_call_arguments_def)
  have r: "reviewed_argument_hash_from_review_object hp ro
      = Inr (stable_payload_hash hp (di_arguments inp))"
    using built_valid[OF assms(1) ok] by (simp add: ro reviewed_argument_hash_from_review_object_def)
  show ?thesis
  proof (cases "hash_tool_call_arguments hp arguments")
    case (Inl e)
    then show ?thesis
      by (simp add: tool_call_disposition_execution_readiness_def r argument_hash_for_tool_call_def)
  next
    case (Inr s)
    note base = tool_call_disposition_execution_readiness_def r argument_hash_for_tool_call_def Inr h
    show ?thesis
    proof (cases decision)
      case None
      then show ?thesis
        by (simp add: base tool_call_disposition_allows_execution_def closed_row_def
            readiness_row_gets vocab)
    next
      case (Some d)
      show ?thesis
      proof (cases "disposition_outcome d")
        case (Inl e)
        then show ?thesis using Some
          by (simp add: base tool_call_disposition_allows_execution_def)
      next
        case (Inr out)
        then show ?thesis
          using Some decided_row_cases[OF decision_outcome_member[OF Inr], of s
              "stable_payload_hash hp (di_arguments inp)"]
          by (auto simp: base tool_call_disposition_allows_execution_def readiness_row_gets)
      qed
    qed
  qed
qed

definition approve_decision :: review_decision where
  "approve_decision =
     \<lparr>rd_decision = VStr '' Approved '', rd_review_object_id = VStr ''ro'', rd_decided_at = ''t1'',
      rd_actor_ref = Some ''local_operator:amy'', rd_reason = None, rd_detail = []\<rparr>"

lemma approve_decision_allows: "tool_call_disposition_allows_execution (Some approve_decision) = Inr True"
  by code_simp

theorem readiness_exact_witness:
  "case tool_call_disposition_execution_readiness toy_hash (built_object toy_hash ''t0'' sample_input)
      (Some approve_decision) (VMap [(''to'', VStr ''x'')]) of
      Inl _ \<Rightarrow> False
    | Inr row \<Rightarrow> dget row ''allows_execution'' = Some (VBool True)"
  using readiness_exact[OF toy_hash_hex build_ok[OF toy_hash_hex sample_input_ok, of "''t0''"],
      of "Some approve_decision" "VMap [(''to'', VStr ''x'')]"]
  by (auto simp: approve_decision_allows hash_tool_call_arguments_def sample_input_def
      split: sum.splits)

section \<open>Decision status\<close>

lemma status_row_allows:
  "status_row rid label allows r d = Inr row \<Longrightarrow>
     dget row ''allows_execution'' = Some (VBool allows)"
  by (auto simp: status_row_def rbind_Inr_iff closed_row_def split: if_splits)

text \<open>The decision status of a review object allows execution only when the sink replays a terminal
  decision for exactly that reference and that decision is a valid approval.\<close>
theorem status_allows_only_approved:
  "case tool_call_disposition_decision_status s ref of
      Inl _ \<Rightarrow> True
    | Inr row \<Rightarrow>
       (case ref of
          VStr r \<Rightarrow> dget row ''allows_execution'' =
            Some (VBool
              (case replayed (rp_terminal_decision_lookup s) (rp_terminal_decision s) (py_strip r) of
                 None \<Rightarrow> False
               | Some (d, _) \<Rightarrow> tool_call_disposition_allows_execution (Some d) = Inr True))
        | _ \<Rightarrow> False)"
proof (cases "tool_call_disposition_decision_status s ref")
  case (Inr row)
  then obtain r where r: "ref = VStr r" "\<not> blank r" "review_sink_supports_decision_replay s"
    by (auto simp: tool_call_disposition_decision_status_def split: pyv.splits if_splits)
  show ?thesis
  proof (cases "replayed (rp_terminal_decision_lookup s) (rp_terminal_decision s) (py_strip r)")
    case None
    have "dget row ''allows_execution'' = Some (VBool False)"
      using Inr r None
      by (auto simp: tool_call_disposition_decision_status_def rbind_Inr_iff latest_status_row_def
          split: option.splits if_splits dest: status_row_allows)
    then show ?thesis using Inr r(1) None by simp
  next
    case (Some dr)
    obtain d dref where dr: "dr = (d, dref)" by (cases dr)
    obtain out where out: "disposition_outcome d = Inr out"
      and row: "terminal_tool_disposition_status_row (py_strip r) out dref d = Inr row"
      using Inr r Some dr by (auto simp: tool_call_disposition_decision_status_def rbind_Inr_iff)
    have "dget row ''allows_execution'' = Some (VBool (out = ''approved''))"
      using row status_row_allows
      by (auto simp: terminal_tool_disposition_status_row_def split: if_splits)
    then show ?thesis using Inr r(1) Some dr out
      by (simp add: tool_call_disposition_allows_execution_def)
  qed
qed simp

end
