(* ===== verification/DeferredFacts.thy ===== *)
theory DeferredFacts
  imports DeferredBoundary DispositionFacts
begin

text \<open>Facts about the deferred boundary: how one call changes one slot, the invariant of a boundary in
  use, at most one execution per slot, and terminal slots that absorb.\<close>

section \<open>What one call does to the slots\<close>

definition executed :: "deferred_slot \<Rightarrow> bool" where
  "executed s = (sl_state s = Admitted \<or> sl_failure_reason s = Some ''inner_execution_failure'')"

definition same_identity :: "deferred_slot \<Rightarrow> deferred_slot \<Rightarrow> bool" where
  "same_identity s s' =
     (sl_correlation_ref s' = sl_correlation_ref s \<and> sl_tool_name s' = sl_tool_name s
      \<and> sl_argument_digest s' = sl_argument_digest s \<and> sl_created_at s' = sl_created_at s
      \<and> sl_gate_timeout_seconds s' = sl_gate_timeout_seconds s)"

definition untouched :: "deferred_slot \<Rightarrow> deferred_slot \<Rightarrow> bool" where
  "untouched s s' =
     (sl_state s' = sl_state s \<and> sl_final_decision s' = sl_final_decision s
      \<and> sl_result s' = sl_result s \<and> sl_failure_reason s' = sl_failure_reason s)"

definition run_matches :: "boundary_params \<Rightarrow> deferred_slot \<Rightarrow> inner_run \<Rightarrow> bool" where
  "run_matches p s r =
     (ir_ref r = sl_correlation_ref s \<and> ir_tool r = sl_tool_name s
      \<and> hash_tool_call_arguments (bp_hash p) (ir_arguments r) = Inr (sl_argument_digest s))"

text \<open>The change of a slot by a resume that adds the given runs of the inner handler.\<close>

definition slot_change ::
  "boundary_params \<Rightarrow> bool \<Rightarrow> deferred_slot \<Rightarrow> deferred_slot \<Rightarrow> inner_run list \<Rightarrow> bool" where
  "slot_change p abort s s' new =
    (same_identity s s' \<and>
     (if sl_state s \<noteq> Pending then s' = s \<and> new = []
      else case new of
          [] \<Rightarrow> untouched s s'
             \<or> (sl_state s' \<noteq> Pending \<and> sl_state s' \<noteq> Admitted
                \<and> (\<not> bp_callable p \<or> \<not> executed s'))
        | [r] \<Rightarrow> run_matches p s r \<and> bp_callable p
             \<and> (s' = s \<and> abort \<or> sl_state s' \<noteq> Pending \<and> executed s')
        | _ \<Rightarrow> False))"

text \<open>A call changes the slot of one reference and adds runs for it alone.\<close>

definition touches ::
  "boundary \<Rightarrow> boundary \<Rightarrow> string \<Rightarrow> deferred_slot \<Rightarrow> inner_run list \<Rightarrow> bool" where
  "touches b b' ref s' new =
     (db_runs b' = db_runs b @ new
      \<and> list_all (\<lambda>r. ir_ref r = ref) new
      \<and> (\<forall>k. get_slot b' k = (if k = ref then Some s' else get_slot b k)))"

lemma get_slot_simps [simp]:
  "get_slot (store_slot s b) k = (if k = sl_correlation_ref s then Some s else get_slot b k)"
  "get_slot (write_boundary_event r t d b) k = get_slot b k"
  "get_slot (record_run p s a b) k = get_slot b k"
  "get_slot (b\<lparr>db_runs := rs\<rparr>) k = get_slot b k"
  by (simp_all add: get_slot_def store_slot_def write_boundary_event_def record_run_def)

lemma db_runs_simps [simp]:
  "db_runs (store_slot s b) = db_runs b"
  "db_runs (write_boundary_event r t d b) = db_runs b"
  by (simp_all add: store_slot_def write_boundary_event_def)

lemmas change_unfold = slot_change_def same_identity_def untouched_def executed_def touches_def
  run_matches_def

lemma execute_change:
  assumes "resume_execute p e b s d arguments = (b', r)" "sl_state s = Pending"
    "hash_tool_call_arguments (bp_hash p) arguments = Inr (sl_argument_digest s)"
    "get_slot b (sl_correlation_ref s) = Some s"
  shows "\<exists>s' new. touches b b' (sl_correlation_ref s) s' new
    \<and> slot_change p (re_inner e = InnerAborts) s s' new"
proof -
  define run where "run = \<lparr>ir_ref = sl_correlation_ref s, ir_tool = sl_tool_name s,
                           ir_arguments = arguments\<rparr>"
  define new where "new = (if bp_callable p then [run] else [])"
  have rec: "db_runs (record_run p s arguments b) = db_runs b @ new"
    by (simp add: record_run_def new_def run_def)
  show ?thesis
  proof (cases "call_inner p (re_inner e)")
    case (InnerReturns v)
    then have c: "bp_callable p" "re_inner e = InnerReturns v"
      by (auto simp: call_inner_def split: if_splits)
    define s' where "s' = (resume_receipts p e
        (s\<lparr>sl_state := Admitted, sl_result := v, sl_final_decision := Some d\<rparr>))"
    have f: "sl_correlation_ref s' = sl_correlation_ref s" "sl_tool_name s' = sl_tool_name s"
      "sl_argument_digest s' = sl_argument_digest s" "sl_created_at s' = sl_created_at s"
      "sl_gate_timeout_seconds s' = sl_gate_timeout_seconds s" "sl_state s' = Admitted"
      by (auto simp: s'_def resume_receipts_def split: option.splits)
    show ?thesis
      using assms InnerReturns c f rec
      by (intro exI[of _ "s'\<lparr>sl_event_refs := sl_event_refs s' @ ref_list (re_event_ref e)\<rparr>"]
            exI[of _ new])
         (auto simp: resume_execute_def Let_def change_unfold new_def run_def s'_def[symmetric])
  next
    case (InnerRaises cls)
    show ?thesis
      using assms InnerRaises rec
      by (intro exI[of _ "s\<lparr>sl_state := Refused,
              sl_failure_reason := Some ''inner_execution_failure'', sl_final_decision := Some d\<rparr>"]
            exI[of _ new])
         (auto simp: resume_execute_def Let_def change_unfold new_def run_def)
  next
    case InnerAborts
    then have c: "bp_callable p" "re_inner e = InnerAborts"
      by (auto simp: call_inner_def split: if_splits)
    show ?thesis
      using assms InnerAborts c rec
      by (intro exI[of _ s] exI[of _ new])
         (auto simp: resume_execute_def Let_def change_unfold new_def run_def)
  qed
qed

lemma no_change:
  assumes "get_slot b (sl_correlation_ref s) = Some s"
  shows "\<exists>s' new. touches b b (sl_correlation_ref s) s' new \<and> slot_change p a s s' new"
  using assms by (intro exI[of _ s] exI[of _ "[]"]) (auto simp: change_unfold)

lemma resume_change:
  assumes r: "resume_locked p e b s d arguments = (b', r)"
    and g: "get_slot b (sl_correlation_ref s) = Some s"
  shows "\<exists>s' new. touches b b' (sl_correlation_ref s) s' new
    \<and> slot_change p (re_inner e = InnerAborts) s s' new"
proof (cases "sl_state s = Pending")
  case False
  then have "b' = b" using r by (cases "sl_state s") (auto simp: resume_locked_def TERMINAL_STATES_def)
  then show ?thesis using no_change[OF g] by simp
next
  case True
  have plain: ?thesis if "db_runs b' = db_runs b" "sl_correlation_ref s1 = sl_correlation_ref s"
    "\<forall>k. get_slot b' k = (if k = sl_correlation_ref s then Some s1 else get_slot b k)"
    "slot_change p (re_inner e = InnerAborts) s s1 []" for s1
    using that by (intro exI[of _ s1] exI[of _ "[]"]) (simp add: touches_def)
  note ch = True g slot_change_def same_identity_def untouched_def executed_def
  consider "b' = b" | el where "b' = resume_expire p e b s el"
    | out where "resume_decline e b s d out = (b', r)"
    | "resume_keep e b s = (b', r)"
    | "b' = resume_mismatch e b s d"
    | "resume_execute p e b s d arguments = (b', r)"
      "hash_tool_call_arguments (bp_hash p) arguments = Inr (sl_argument_digest s)"
    using r True
    by (auto simp: resume_locked_def TERMINAL_STATES_def resume_approved_def
        split: sum.splits option.splits if_splits)
  then show ?thesis
  proof cases
    case 1
    then show ?thesis using no_change[OF g] by simp
  next
    case 2
    then show ?thesis
      by (intro plain[of "s\<lparr>sl_state := Expired, sl_failure_reason := Some ''gate_timeout_elapsed''\<rparr>"])
         (auto simp: resume_expire_def ch)
  next
    case 3
    then show ?thesis
      by (intro plain[of "s\<lparr>sl_state := (if out = ''rejected'' then Refused else Expired),
            sl_failure_reason := Some (''decision_'' @ out), sl_final_decision := Some d,
            sl_event_refs := sl_event_refs s @ ref_list (re_event_ref e)\<rparr>"])
         (auto simp: resume_decline_def Let_def ch)
  next
    case 4
    then show ?thesis
      by (intro plain[of "s\<lparr>sl_event_refs := sl_event_refs s @ ref_list (re_event_ref e)\<rparr>"])
         (auto simp: resume_keep_def Let_def ch)
  next
    case 5
    then show ?thesis
      by (intro plain[of "s\<lparr>sl_state := Refused,
            sl_failure_reason := Some ''argument_digest_mismatch'', sl_final_decision := Some d\<rparr>"])
         (auto simp: resume_mismatch_def ch)
  next
    case 6
    then show ?thesis using execute_change True g by blast
  qed
qed

section \<open>The invariant of a boundary in use\<close>

definition fresh_slot :: "deferred_slot \<Rightarrow> bool" where
  "fresh_slot s = (sl_state s = Pending \<and> sl_final_decision s = None \<and> sl_result s = VNone
     \<and> sl_failure_reason s = None)"

definition slot_inv :: "boundary_params \<Rightarrow> inner_run list \<Rightarrow> string \<Rightarrow> deferred_slot \<Rightarrow> bool" where
  "slot_inv p rs k s =
     (sl_correlation_ref s = k \<and> list_all (run_matches p s) rs
      \<and> (sl_state s = Pending \<longrightarrow> fresh_slot s))"

definition slot_once :: "boundary_params \<Rightarrow> inner_run list \<Rightarrow> deferred_slot \<Rightarrow> bool" where
  "slot_once p rs s = (length rs = (if executed s \<and> bp_callable p then 1 else 0))"

definition each_slot :: "(inner_run list \<Rightarrow> string \<Rightarrow> deferred_slot \<Rightarrow> bool) \<Rightarrow> boundary \<Rightarrow> bool" where
  "each_slot P b =
     (\<forall>k. case get_slot b k of None \<Rightarrow> runs_for b k = [] | Some s \<Rightarrow> P (runs_for b k) k s)"

lemma touches_runs_for:
  "touches b b' ref s' new \<Longrightarrow> runs_for b' k = runs_for b k @ (if k = ref then new else [])"
  by (auto simp: touches_def runs_for_def list_all_iff filter_empty_conv intro: filter_True)

lemma each_slot_touch:
  assumes "each_slot P b" "touches b b' ref s' new" "P (runs_for b ref @ new) ref s'"
  shows "each_slot P b'"
  unfolding each_slot_def
proof
  fix k
  show "case get_slot b' k of None \<Rightarrow> runs_for b' k = [] | Some s \<Rightarrow> P (runs_for b' k) k s"
  proof (cases "k = ref")
    case True
    then show ?thesis using assms(2,3) touches_runs_for[OF assms(2), of k]
      by (simp add: touches_def)
  next
    case False
    then have "get_slot b' k = get_slot b k" "runs_for b' k = runs_for b k"
      using assms(2) touches_runs_for[OF assms(2), of k] by (simp_all add: touches_def)
    note same = this
    show ?thesis unfolding same by (rule assms(1)[unfolded each_slot_def, THEN spec])
  qed
qed

lemma each_slot_get: "each_slot P b \<Longrightarrow> get_slot b k = Some s \<Longrightarrow> P (runs_for b k) k s"
  by (auto simp: each_slot_def dest: spec[of _ k])

lemma each_slot_none: "each_slot P b \<Longrightarrow> get_slot b k = None \<Longrightarrow> runs_for b k = []"
  by (auto simp: each_slot_def dest: spec[of _ k])

lemma defer_change:
  assumes "defer_call p e b tool_name arguments tool_class gate = (b', r)"
    "get_slot b (correlation_of e) = None"
  shows "b' = b \<or> (\<exists>s'. touches b b' (correlation_of e) s' [] \<and> fresh_slot s'
            \<and> sl_correlation_ref s' = correlation_of e)"
proof -
  have "b' = b \<or> (\<exists>d ref t. b' = store_slot (deferred_slot_of p e tool_name tool_class gate d ref)
      (write_boundary_event (de_event_ref e) ''mcp.tool.call.deferred'' t b))"
    using assms(1)
    by (auto simp: defer_call_def Let_def split: pyv.splits sum.splits option.splits)
  then show ?thesis
    by (auto simp: touches_def fresh_slot_def deferred_slot_of_def)
qed

definition inv_of :: "boundary_params \<Rightarrow> bool \<Rightarrow> inner_run list \<Rightarrow> string \<Rightarrow> deferred_slot \<Rightarrow> bool" where
  "inv_of p once rs k s = (slot_inv p rs k s \<and> (once \<longrightarrow> slot_once p rs s))"

lemma slot_change_inv:
  assumes ch: "slot_change p ab s s' new" and inv: "inv_of p once rs k s"
    and ab: "once \<longrightarrow> \<not> ab"
  shows "inv_of p once (rs @ new) k s'"
proof (cases "sl_state s = Pending")
  case False
  then show ?thesis using ch inv by (simp add: slot_change_def)
next
  case True
  have fresh: "fresh_slot s" and key: "sl_correlation_ref s = k"
    using inv True by (auto simp: inv_of_def slot_inv_def)
  have id: "same_identity s s'" using ch by (simp add: slot_change_def)
  have rm: "run_matches p s' = run_matches p s"
    using id by (intro ext) (simp add: run_matches_def same_identity_def)
  have nex: "\<not> executed s" using fresh True by (auto simp: executed_def fresh_slot_def)
  have ex': "untouched s s' \<Longrightarrow> fresh_slot s' \<and> \<not> executed s'"
    using fresh nex by (simp add: untouched_def fresh_slot_def executed_def)
  show ?thesis
  proof (cases new)
    case Nil
    then show ?thesis using ch inv True id rm key nex ex'
      by (auto simp: slot_change_def inv_of_def slot_inv_def slot_once_def same_identity_def)
  next
    case (Cons r rest)
    then have "rest = []" using ch True by (auto simp: slot_change_def split: list.splits)
    then show ?thesis using Cons ch inv True id rm key nex ab
      by (auto simp: slot_change_def inv_of_def slot_inv_def slot_once_def same_identity_def)
  qed
qed

lemma step_inv:
  assumes "boundary_step p aborts b b'" "each_slot (inv_of p once) b" "once \<longrightarrow> \<not> aborts"
  shows "each_slot (inv_of p once) b'"
  using assms(1)
proof (cases rule: boundary_step.cases)
  case (Defer e tool_name arguments tool_class gate r)
  consider "b' = b" | s' where "touches b b' (correlation_of e) s' []" "fresh_slot s'"
      "sl_correlation_ref s' = correlation_of e"
    using defer_change[OF Defer(2,1)] by blast
  then show ?thesis
  proof cases
    case 2
    have "inv_of p once ([] @ []) (correlation_of e) s'"
      using 2(2,3) by (auto simp: inv_of_def slot_inv_def slot_once_def executed_def fresh_slot_def)
    then show ?thesis
      using each_slot_touch[OF assms(2) 2(1)] each_slot_none[OF assms(2) Defer(1)] by simp
  qed (use assms(2) in simp)
next
  case (Resume e ref d arguments r)
  show ?thesis
  proof (cases "get_slot b ref")
    case None
    then show ?thesis using Resume(2) assms(2) by (simp add: resume_call_def)
  next
    case (Some s)
    note inv = each_slot_get[OF assms(2) Some]
    have key: "sl_correlation_ref s = ref" using inv by (simp add: inv_of_def slot_inv_def)
    have "resume_locked p e b s d arguments = (b', r)"
      using Resume(2) Some by (simp add: resume_call_def)
    from resume_change[OF this] obtain s' new where t: "touches b b' ref s' new"
      and ch: "slot_change p (re_inner e = InnerAborts) s s' new"
      using Some key by auto
    show ?thesis
      using each_slot_touch[OF assms(2) t] slot_change_inv[OF ch inv] Resume(1) assms(3) by blast
  qed
qed

lemma reachable_inv:
  assumes "(boundary_step p aborts)\<^sup>*\<^sup>* empty_boundary b" "once \<longrightarrow> \<not> aborts"
  shows "each_slot (inv_of p once) b"
  using assms(1)
proof (induction rule: rtranclp_induct)
  case base
  show ?case by (simp add: each_slot_def get_slot_def empty_boundary_def runs_for_def)
next
  case (step b b')
  then show ?case using step_inv assms(2) by blast
qed

text \<open>C24: In any use of the boundary in which no handler escapes with a non-\<^verbatim>\<open>Exception\<close>, the inner handler
  has run at most once for every correlation reference: exactly once when the slot was admitted or
  its execution failed, never for a slot that is pending or was declined, and never without a
  slot; each run was for the deferred tool and for arguments of the deferred digest.\<close>
theorem deferred_at_most_once:
  assumes "(boundary_step p False)\<^sup>*\<^sup>* empty_boundary b"
  shows "case get_slot b ref of
      None \<Rightarrow> runs_for b ref = []
    | Some s \<Rightarrow>
        length (runs_for b ref) = (if executed s \<and> bp_callable p then 1 else 0)
        \<and> list_all (run_matches p s) (runs_for b ref)
        \<and> (if sl_state s = Pending then \<not> executed s else True)"
proof (cases "get_slot b ref")
  case None
  then show ?thesis using each_slot_none[OF reachable_inv[OF assms, of True]] by simp
next
  case (Some s)
  have "inv_of p True (runs_for b ref) ref s"
    using each_slot_get[OF reachable_inv[OF assms, of True] Some] by simp
  then show ?thesis using Some
    by (auto simp: inv_of_def slot_inv_def slot_once_def executed_def fresh_slot_def)
qed

lemma timed_out_fault:
  "timed_out p e s = Inl f \<Longrightarrow> f = TimestampInvalid \<or> f = TimestampNotComparable"
proof -
  have "elapsed_since n t = Inl g \<Longrightarrow> g = TimestampNotComparable" for n t g
    by (cases t) auto
  then show "timed_out p e s = Inl f \<Longrightarrow> f = TimestampInvalid \<or> f = TimestampNotComparable"
    by (auto simp: timed_out_def parse_iso_def rbind_Inl_iff split: option.splits iso_time.splits)
qed

lemma resume_outcome_fault:
  assumes "resume_outcome p s d = Inl f"
  shows "f \<in> {TimestampInvalid, TimestampNotComparable, DeferredStaleResponseError}
         \<or> (\<exists>g. f = DispositionFault g)"
proof -
  have "earlier x t = Inl g \<Longrightarrow> g = TimestampNotComparable" for x t g
    by (cases x; cases t) auto
  moreover have "parse_iso p x = Inl g \<Longrightarrow> g = TimestampInvalid" for x g
    by (auto simp: parse_iso_def split: iso_time.splits)
  ultimately show ?thesis using assms
    by (auto simp: resume_outcome_def stale_def rbind_Inl_iff map_err_Inl_iff split: if_splits)
qed

lemma execute_fault:
  "snd (resume_execute p e b s d arguments) \<noteq> Inl DeferredActorMismatchError"
  by (simp add: resume_execute_def Let_def split: inner_outcome.splits)

text \<open>The actor-mismatch refusal of the boundary cannot happen: in no reachable boundary, aborting
  handlers included, does a resume end in \<^verbatim>\<open>DeferredActorMismatchError\<close>, because a slot that is not
  yet terminal has no earlier decision to compare with.\<close>
theorem actor_mismatch_unreachable:
  assumes "(boundary_step p aborts)\<^sup>*\<^sup>* empty_boundary b"
  shows "snd (resume_call p e b ref d arguments) \<noteq> Inl DeferredActorMismatchError"
proof (cases "get_slot b ref")
  case None
  then show ?thesis by (simp add: resume_call_def)
next
  case (Some s)
  have inv: "inv_of p False (runs_for b ref) ref s"
    using each_slot_get[OF reachable_inv[OF assms, of False] Some] by simp
  show ?thesis
  proof (cases "sl_state s = Pending")
    case True
    then have "\<not> actor_mismatch s d" using inv
      by (auto simp: inv_of_def slot_inv_def fresh_slot_def actor_mismatch_def split: option.splits)
    then have ap: "snd (resume_approved p e b s d arguments) \<noteq> Inl DeferredActorMismatchError"
      using execute_fault by (simp add: resume_approved_def split: sum.splits)
    show ?thesis
    proof (cases "timed_out p e s")
      case (Inl f)
      then show ?thesis using Some True timed_out_fault[OF Inl]
        by (auto simp: resume_call_def resume_locked_def TERMINAL_STATES_def)
    next
      case (Inr el)
      show ?thesis
      proof (cases "resume_outcome p s d")
        case (Inl f)
        then show ?thesis using Some True Inr resume_outcome_fault[OF Inl]
          by (cases el) (auto simp: resume_call_def resume_locked_def TERMINAL_STATES_def)
      next
        case r: (Inr out)
        show ?thesis using Some True Inr r ap
          by (cases el) (simp_all add: resume_call_def resume_locked_def TERMINAL_STATES_def
              resume_decline_def resume_keep_def Let_def)
      qed
    qed
  next
    case False
    then have "sl_state s \<in> set TERMINAL_STATES"
      by (cases "sl_state s") (auto simp: TERMINAL_STATES_def)
    then show ?thesis using Some by (simp add: resume_call_def resume_locked_def)
  qed
qed

section \<open>When a resume runs the handler\<close>

definition may_execute ::
  "boundary_params \<Rightarrow> resume_env \<Rightarrow> deferred_slot \<Rightarrow> review_decision \<Rightarrow> pyv \<Rightarrow> bool" where
  "may_execute p e s d arguments =
     (bp_callable p \<and> sl_state s = Pending \<and> timed_out p e s = Inr None
      \<and> tool_call_disposition_allows_execution (Some d) = Inr True \<and> stale p s d = Inr False
      \<and> hash_tool_call_arguments (bp_hash p) arguments = Inr (sl_argument_digest s)
      \<and> \<not> actor_mismatch s d)"

lemma resume_outcome_Inr:
  "(resume_outcome p s d = Inr out) = (stale p s d = Inr False \<and> disposition_outcome d = Inr out)"
  by (cases "normalize_review_decision_outcome (rd_decision d)")
     (auto simp: resume_outcome_def disposition_outcome_def rbind_Inr_iff map_err_Inr_iff)

lemma allows_outcome:
  "(tool_call_disposition_allows_execution (Some d) = Inr True) = (disposition_outcome d = Inr ''approved'')"
  by (auto simp: tool_call_disposition_allows_execution_def rbind_Inr_iff)

lemma resume_outcome_approved:
  "(stale p s d = Inr False \<and> tool_call_disposition_allows_execution (Some d) = Inr True)
     = (resume_outcome p s d = Inr ''approved'')"
  by (simp add: resume_outcome_Inr allows_outcome)

lemma may_execute_outcome:
  "may_execute p e s d arguments =
     (bp_callable p \<and> sl_state s = Pending \<and> timed_out p e s = Inr None
      \<and> resume_outcome p s d = Inr ''approved''
      \<and> hash_tool_call_arguments (bp_hash p) arguments = Inr (sl_argument_digest s)
      \<and> \<not> actor_mismatch s d)"
  using resume_outcome_approved[of p s d] by (auto simp: may_execute_def)

lemma resume_outcome_member: "resume_outcome p s d = Inr out \<Longrightarrow> out \<in> set REVIEW_DECISION_OUTCOMES"
  by (auto simp: resume_outcome_Inr intro: decision_outcome_member)

lemma db_runs_branches [simp]:
  "db_runs (resume_expire p e b s el) = db_runs b"
  "db_runs (fst (resume_decline e b s d out)) = db_runs b"
  "db_runs (fst (resume_keep e b s)) = db_runs b"
  "db_runs (resume_mismatch e b s d) = db_runs b"
  "db_runs (fst (resume_execute p e b s d arguments)) = db_runs (record_run p s arguments b)"
  by (simp_all add: resume_expire_def resume_decline_def resume_keep_def resume_mismatch_def
      resume_execute_def Let_def split: inner_outcome.splits)

definition run_of :: "deferred_slot \<Rightarrow> pyv \<Rightarrow> inner_run" where
  "run_of s arguments =
     \<lparr>ir_ref = sl_correlation_ref s, ir_tool = sl_tool_name s, ir_arguments = arguments\<rparr>"

lemma approved_runs:
  "db_runs (fst (resume_approved p e b s d arguments)) = db_runs b @
     (if bp_callable p \<and> hash_tool_call_arguments (bp_hash p) arguments = Inr (sl_argument_digest s)
         \<and> \<not> actor_mismatch s d
      then [run_of s arguments] else [])"
  by (auto simp: resume_approved_def record_run_def run_of_def split: sum.splits)

lemma resume_runs:
  "case get_slot b ref of
      None \<Rightarrow> resume_call p e b ref d arguments = (b, Inl DeferredSlotNotFoundError)
    | Some s \<Rightarrow> db_runs (fst (resume_call p e b ref d arguments)) =
        db_runs b @ (if may_execute p e s d arguments then [run_of s arguments] else [])"
proof (cases "get_slot b ref")
  case (Some s)
  show ?thesis
  proof (cases "sl_state s = Pending")
    case False
    then have "sl_state s \<in> set TERMINAL_STATES" by (cases "sl_state s") (auto simp: TERMINAL_STATES_def)
    then show ?thesis using Some False by (simp add: resume_call_def resume_locked_def may_execute_def)
  next
    case True
    then have nt: "sl_state s \<notin> set TERMINAL_STATES" by (simp add: TERMINAL_STATES_def)
    consider f where "timed_out p e s = Inl f" | el where "timed_out p e s = Inr (Some el)"
      | f where "timed_out p e s = Inr None" "resume_outcome p s d = Inl f"
      | out where "timed_out p e s = Inr None" "resume_outcome p s d = Inr out"
      by (metis Inl_Inr_False old.sum.exhaust option.exhaust)
    then show ?thesis
    proof cases
      case 4
      then have "out \<in> set REVIEW_DECISION_OUTCOMES" by (simp add: resume_outcome_member)
      then show ?thesis using Some nt True 4 approved_runs[of p e b s d arguments]
        by (auto simp: resume_call_def resume_locked_def may_execute_outcome
            REVIEW_DECISION_OUTCOMES_def)
    qed (use Some nt in \<open>simp_all add: resume_call_def resume_locked_def may_execute_outcome\<close>)
  qed
qed (simp add: resume_call_def)

text \<open>C25: A resume calls the inner handler exactly when the slot is pending and not timed out, the
  decision is a valid approval that is not stale, and the arguments have the deferred digest; then
  it is called once, for the tool of the slot, and in every other case not at all. An unknown
  reference is refused and changes nothing.\<close>
theorem resume_executes_exactly:
  "case get_slot b ref of
      None \<Rightarrow> resume_call p e b ref d arguments = (b, Inl DeferredSlotNotFoundError)
    | Some s \<Rightarrow> db_runs (fst (resume_call p e b ref d arguments)) =
        db_runs b @ (if may_execute p e s d arguments then [run_of s arguments] else [])"
  by (rule resume_runs)

text \<open>A boundary behind a session of resumes is a gate: the handler runs at most once per request and
  only for a request whose decision allows execution.\<close>

record resume_request =
  rq_env :: resume_env
  rq_ref :: string
  rq_decision :: review_decision
  rq_arguments :: pyv

definition serve_resume :: "boundary_params \<Rightarrow> boundary \<Rightarrow> resume_request \<Rightarrow> boundary" where
  "serve_resume p b q = fst (resume_call p (rq_env q) b (rq_ref q) (rq_decision q) (rq_arguments q))"

definition request_approved :: "resume_request \<Rightarrow> bool" where
  "request_approved q = (tool_call_disposition_allows_execution (Some (rq_decision q)) = Inr True)"

interpretation resume_gate: handler_gate "serve_resume p" "\<lambda>b. length (db_runs b)" request_approved
  for p
proof
  fix b q
  have r: "db_runs (serve_resume p b q) = db_runs b \<or>
      (request_approved q \<and> (\<exists>x. db_runs (serve_resume p b q) = db_runs b @ [x]))"
    using resume_runs[where b = b and ref = "rq_ref q" and p = p and e = "rq_env q"
        and d = "rq_decision q" and arguments = "rq_arguments q"]
    by (cases "get_slot b (rq_ref q)")
       (auto simp: serve_resume_def request_approved_def may_execute_def)
  show "length (db_runs (serve_resume p b q)) \<le> Suc (length (db_runs b))"
    "length (db_runs b) \<le> length (db_runs (serve_resume p b q))"
    "\<not> request_approved q \<Longrightarrow> length (db_runs (serve_resume p b q)) = length (db_runs b)"
    using r by auto
qed

lemma session_without_approval:
  "list_all (\<lambda>q. \<not> request_approved q) qs \<Longrightarrow>
     length (db_runs (resume_gate.session p b qs)) = length (db_runs b)"
  by (rule resume_gate.session_closed)

section \<open>Terminal slots\<close>

definition settled :: "boundary_params \<Rightarrow> string \<Rightarrow> boundary \<Rightarrow> bool" where
  "settled p ref b =
     (each_slot (inv_of p False) b
      \<and> (case get_slot b ref of None \<Rightarrow> False | Some s \<Rightarrow> sl_state s \<in> set TERMINAL_STATES))"

lemma not_pending_terminal: "(s \<in> set TERMINAL_STATES) = (s \<noteq> Pending)"
  by (cases s) (simp_all add: TERMINAL_STATES_def)

lemma step_settled:
  assumes st: "boundary_step p aborts b b'" and set: "settled p ref b"
  shows "get_slot b' ref = get_slot b ref \<and> runs_for b' ref = runs_for b ref"
proof -
  have inv: "each_slot (inv_of p False) b" using set by (simp add: settled_def)
  obtain s where s: "get_slot b ref = Some s" "sl_state s \<noteq> Pending"
    using set by (auto simp: settled_def not_pending_terminal split: option.splits)
  show ?thesis using st
  proof (cases rule: boundary_step.cases)
    case (Defer e tool_name arguments tool_class gate r)
    then have "ref \<noteq> correlation_of e" using s(1) by auto
    then show ?thesis using defer_change[OF Defer(2,1)] touches_runs_for[of b b' "correlation_of e" _ "[]" ref]
      by (auto simp: touches_def)
  next
    case (Resume e ref2 d arguments r)
    show ?thesis
    proof (cases "get_slot b ref2")
      case None
      then show ?thesis using Resume(2) by (simp add: resume_call_def)
    next
      case (Some s2)
      have key: "sl_correlation_ref s2 = ref2"
        using each_slot_get[OF inv Some] by (simp add: inv_of_def slot_inv_def)
      have "resume_locked p e b s2 d arguments = (b', r)"
        using Resume(2) Some by (simp add: resume_call_def)
      from resume_change[OF this] obtain s' new where t: "touches b b' ref2 s' new"
        and ch: "slot_change p (re_inner e = InnerAborts) s2 s' new"
        using Some key by auto
      show ?thesis using t ch s Some touches_runs_for[OF t, of ref]
        by (cases "ref = ref2") (simp_all add: touches_def slot_change_def)
    qed
  qed
qed

interpretation settled_slot: terminal_machine "boundary_step p aborts" "settled p ref"
  "\<lambda>b. (get_slot b ref, runs_for b ref)" for p aborts ref
proof
  fix b b' assume st: "boundary_step p aborts b b'" and set: "settled p ref b"
  note same = step_settled[OF st set]
  have "each_slot (inv_of p False) b'"
    using step_inv[OF st, of False] set by (simp add: settled_def)
  then show "settled p ref b' \<and> (get_slot b' ref, runs_for b' ref) = (get_slot b ref, runs_for b ref)"
    using same set by (simp add: settled_def)
qed

text \<open>Replay protection: once a slot is admitted, refused or expired, no later use of the boundary
  changes the slot or runs its handler again, and every further resume is refused with the
  terminal-slot error and changes nothing.\<close>
theorem terminal_slot_absorbs:
  assumes "(boundary_step p aborts)\<^sup>*\<^sup>* empty_boundary b" "get_slot b ref = Some s"
    "sl_state s \<in> set TERMINAL_STATES" "(boundary_step p aborts)\<^sup>*\<^sup>* b b'"
  shows "get_slot b' ref = Some s \<and> runs_for b' ref = runs_for b ref
    \<and> resume_call p e b' ref d arguments = (b', Inl (DeferredSlotTerminalError (sl_state s)))"
proof -
  have "settled p ref b"
    using reachable_inv[OF assms(1), of False] assms(2,3) by (simp add: settled_def)
  from settled_slot.terminal_stays[OF assms(4) this]
  have "get_slot b' ref = Some s" "runs_for b' ref = runs_for b ref" using assms(2) by simp_all
  then show ?thesis using assms(3) by (simp add: resume_call_def resume_locked_def)
qed

section \<open>Deferring and approving\<close>

text \<open>C26: A deferral runs nothing, and what it deferred can be executed: a deferral that is accepted
  leaves the runs as they were, and its resume with a valid approval that is neither stale nor
  late, on arguments of the same digest, runs the handler once and hands back its result under an
  admitted slot.\<close>
theorem deferral_then_approval:
  assumes "defer_call p e b tool_name arguments tool_class gate = (b1, Inr dr)"
    "bp_callable p" "re_inner e2 = InnerReturns v"
    "get_slot b1 (dr_correlation_ref dr) = Some s" "timed_out p e2 s = Inr None"
    "stale p s d = Inr False" "tool_call_disposition_allows_execution (Some d) = Inr True"
    "hash_tool_call_arguments (bp_hash p) arguments2 = hash_tool_call_arguments (bp_hash p) arguments"
  shows "db_runs b1 = db_runs b \<and>
    (case resume_call p e2 b1 (dr_correlation_ref dr) d arguments2 of
       (b2, Inr rr) \<Rightarrow> rr_state rr = Admitted \<and> rr_result rr = v
          \<and> db_runs b2 = db_runs b @ [\<lparr>ir_ref = dr_correlation_ref dr, ir_tool = tool_name,
                                     ir_arguments = arguments2\<rparr>]
     | (b2, Inl _) \<Rightarrow> False)"
proof -
  obtain digest review where dg: "hash_tool_call_arguments (bp_hash p) arguments = Inr digest"
    and b1: "b1 = store_slot (deferred_slot_of p e tool_name tool_class gate digest review)
        (write_boundary_event (de_event_ref e) ''mcp.tool.call.deferred''
          [(''tool_name'', VStr tool_name), (''argument_digest'', VStr digest),
           (''correlation_ref'', VStr (correlation_of e)),
           (''review_object_ref'', VStr review)] b)"
    and dr: "dr_correlation_ref dr = correlation_of e"
    using assms(1)
    by (auto simp: defer_call_def Let_def split: pyv.splits sum.splits option.splits)
  have s: "s = deferred_slot_of p e tool_name tool_class gate digest review"
    using assms(4) by (simp add: b1 dr deferred_slot_of_def)
  have sf: "sl_state s = Pending" "sl_argument_digest s = digest" "sl_final_decision s = None"
    "sl_correlation_ref s = correlation_of e" "sl_tool_name s = tool_name"
    by (simp_all add: s deferred_slot_of_def)
  have out: "resume_outcome p s d = Inr ''approved''"
    using assms(6,7) resume_outcome_approved[of p s d] by simp
  have runs: "db_runs b1 = db_runs b" by (simp add: b1)
  have ex: "resume_call p e2 b1 (dr_correlation_ref dr) d arguments2
      = resume_execute p e2 b1 s d arguments2"
    using assms(4,5,8) dg sf out
    by (simp add: resume_call_def resume_locked_def TERMINAL_STATES_def resume_approved_def
        actor_mismatch_def split: option.splits)
  have res: "sl_result (resume_receipts p e2 s') = sl_result s'" for s'
    by (simp add: resume_receipts_def split: option.splits)
  show ?thesis unfolding ex
    using assms(2,3) runs sf dr res
    by (simp add: resume_execute_def Let_def call_inner_def record_run_def resume_report_def)
qed

text \<open>A handler that raises past \<^verbatim>\<open>except Exception\<close> (an interrupt or a cancellation) defeats the
  replay protection: it has run, but its slot stays pending, so an approved resume runs it again.\<close>
theorem aborted_run_can_repeat:
  assumes "get_slot b ref = Some s" "may_execute p e s d arguments" "re_inner e = InnerAborts"
  shows "case resume_call p e b ref d arguments of (b1, r) \<Rightarrow>
      r = Inl HandlerAborted \<and> get_slot b1 ref = Some s
      \<and> db_runs (fst (resume_call p e b1 ref d arguments))
          = db_runs b @ [run_of s arguments, run_of s arguments]"
proof -
  have ex: "resume_call p e b2 ref d arguments = resume_execute p e b2 s d arguments"
    if "get_slot b2 ref = Some s" for b2
    using that assms(2)
    by (simp add: resume_call_def resume_locked_def TERMINAL_STATES_def may_execute_outcome
        resume_approved_def)
  have call: "bp_callable p" using assms(2) by (simp add: may_execute_def)
  show ?thesis
    using assms(1,3) call
    by (simp add: ex resume_execute_def call_inner_def record_run_def run_of_def Let_def)
qed

section \<open>A sample use\<close>

definition toy_params :: boundary_params where
  "toy_params =
     \<lparr>bp_hash = toy_hash, bp_iso = (\<lambda>s. if s = ''t0'' then Aware 0 else Aware 1000000),
      bp_seconds = (\<lambda>_. VNone), bp_callable = True, bp_bridge = True, bp_profile_ref = ''p''\<rparr>"

definition toy_defer :: defer_env where
  "toy_defer = \<lparr>de_uuid = ''1'', de_now = ''t0'', de_review_ref = Some ''review:1'',
     de_event_ref = Some ''event:1'', de_admission_ref = Some ''adm:1'', de_harness_context = True\<rparr>"

definition toy_resume :: "inner_outcome \<Rightarrow> resume_env" where
  "toy_resume out = \<lparr>re_now = 2000000, re_event_ref = None, re_inner = out,
     re_admission_ref = Some ''adm:2'', re_outcome_ref = Some ''out:2'', re_harness_context = True\<rparr>"

definition toy_arguments :: pyv where
  "toy_arguments = VMap [(''to'', VStr ''x'')]"

definition toy_digest :: string where
  "toy_digest = stable_payload_hash toy_hash toy_arguments"

definition toy_slot :: deferred_slot where
  "toy_slot = deferred_slot_of toy_params toy_defer ''send'' ''write'' (Some 60) toy_digest ''review:1''"

definition toy_deferred :: boundary where
  "toy_deferred = fst (defer_call toy_params toy_defer empty_boundary ''send'' toy_arguments ''write'' (Some 60))"

definition toy_report :: deferral_result where
  "toy_report = \<lparr>dr_correlation_ref = ''deferred:1'', dr_review_object_ref = ''review:1'',
     dr_argument_digest = toy_digest, dr_admission_receipt_ref = Some ''adm:1'',
     dr_event_refs = [''event:1'']\<rparr>"

lemma toy_input_ok:
  "disposition_input_ok (defer_input toy_params toy_defer ''send'' toy_arguments ''write'' (Some 60))"
  by (simp add: disposition_input_ok_def defer_input_def is_vmap_def toy_arguments_def
      gate_timeout_ok_def blank_iff py_space_def)

lemma toy_defer_call:
  "defer_call toy_params toy_defer empty_boundary ''send'' toy_arguments ''write'' (Some 60)
     = (toy_deferred, Inr toy_report)"
  "get_slot toy_deferred ''deferred:1'' = Some toy_slot" "db_runs toy_deferred = []"
  using build_ok[OF toy_hash_hex toy_input_ok, of "''t0''"]
  by (simp_all add: toy_deferred_def defer_call_def toy_params_def toy_arguments_def toy_defer_def
      toy_report_def toy_digest_def hash_tool_call_arguments_def Let_def correlation_of_def
      deferred_slot_of_def ref_list_def given_def toy_slot_def empty_boundary_def)

lemma toy_may_execute:
  "may_execute toy_params (toy_resume out) toy_slot approve_decision toy_arguments"
proof -
  have iso: "zulu ''t0'' = ''t0''" "zulu ''t1'' = ''t1''" by code_simp+
  show ?thesis
    using approve_decision_allows iso
    by (simp add: may_execute_def toy_params_def toy_resume_def toy_slot_def deferred_slot_of_def
        timed_out_def stale_def parse_iso_def toy_defer_def approve_decision_def toy_digest_def
        hash_tool_call_arguments_def toy_arguments_def actor_mismatch_def)
qed

lemma toy_reachable: "(boundary_step toy_params aborts)\<^sup>*\<^sup>* empty_boundary toy_deferred"
  by (rule r_into_rtranclp, rule boundary_step.Defer[OF _ toy_defer_call(1)])
     (simp add: get_slot_def empty_boundary_def)

definition toy_admitted :: boundary where
  "toy_admitted = fst (resume_call toy_params (toy_resume (InnerReturns (VInt 1))) toy_deferred
     ''deferred:1'' approve_decision toy_arguments)"

lemma toy_admit_step: "boundary_step toy_params aborts toy_deferred toy_admitted"
  by (rule boundary_step.Resume[where e = "toy_resume (InnerReturns (VInt 1))"])
     (simp_all add: toy_resume_def toy_admitted_def prod_eq_iff)

lemma toy_admitted_reachable: "(boundary_step toy_params aborts)\<^sup>*\<^sup>* empty_boundary toy_admitted"
  using toy_reachable toy_admit_step by (rule rtranclp.rtrancl_into_rtrancl)

lemma toy_admitted_slot:
  "\<exists>s. get_slot toy_admitted ''deferred:1'' = Some s \<and> sl_state s = Admitted"
proof -
  have "resume_call toy_params (toy_resume (InnerReturns (VInt 1))) toy_deferred ''deferred:1''
      approve_decision toy_arguments
    = resume_execute toy_params (toy_resume (InnerReturns (VInt 1))) toy_deferred toy_slot
      approve_decision toy_arguments"
    using toy_may_execute[of "InnerReturns (VInt 1)"] toy_defer_call(2)
    by (simp add: resume_call_def resume_locked_def TERMINAL_STATES_def may_execute_outcome
        resume_approved_def)
  then show ?thesis
    by (simp add: toy_admitted_def resume_execute_def call_inner_def toy_resume_def toy_params_def
        resume_receipts_def Let_def toy_slot_def deferred_slot_of_def correlation_of_def toy_defer_def)
qed

theorem deferred_at_most_once_witness:
  "case get_slot toy_admitted ''deferred:1'' of
      None \<Rightarrow> False
    | Some s \<Rightarrow> length (runs_for toy_admitted ''deferred:1'') = 1"
  using deferred_at_most_once[OF toy_admitted_reachable, of "''deferred:1''"] toy_admitted_slot
  by (auto simp: executed_def toy_params_def)

theorem actor_mismatch_unreachable_witness:
  "snd (resume_call toy_params (toy_resume InnerAborts) toy_admitted ''deferred:1'' approve_decision
     toy_arguments) \<noteq> Inl DeferredActorMismatchError"
  by (rule actor_mismatch_unreachable[OF toy_admitted_reachable])

theorem terminal_slot_absorbs_witness:
  "resume_call toy_params (toy_resume InnerAborts) toy_admitted ''deferred:1'' approve_decision
     toy_arguments = (toy_admitted, Inl (DeferredSlotTerminalError Admitted))"
proof -
  obtain s where s: "get_slot toy_admitted ''deferred:1'' = Some s" "sl_state s = Admitted"
    using toy_admitted_slot by blast
  show ?thesis
    using terminal_slot_absorbs[OF toy_admitted_reachable s(1) _ rtranclp.rtrancl_refl] s(2)
    by (simp add: TERMINAL_STATES_def)
qed

theorem deferral_then_approval_witness:
  "case resume_call toy_params (toy_resume (InnerReturns (VInt 1))) toy_deferred ''deferred:1''
      approve_decision toy_arguments of
     (b2, Inr rr) \<Rightarrow> rr_state rr = Admitted \<and> rr_result rr = VInt 1
   | (b2, Inl _) \<Rightarrow> False"
proof -
  have ref: "dr_correlation_ref toy_report = ''deferred:1''" by (simp add: toy_report_def)
  have m: "timed_out toy_params (toy_resume (InnerReturns (VInt 1))) toy_slot = Inr None"
    "stale toy_params toy_slot approve_decision = Inr False"
    using toy_may_execute[of "InnerReturns (VInt 1)"] by (simp_all add: may_execute_def)
  have "bp_callable toy_params" by (simp add: toy_params_def)
  from deferral_then_approval[OF toy_defer_call(1) this _ _ m approve_decision_allows refl,
      of "VInt 1"] toy_defer_call(2)
  show ?thesis by (auto simp: ref toy_resume_def split: sum.splits prod.splits)
qed

theorem aborted_run_can_repeat_witness:
  "case resume_call toy_params (toy_resume InnerAborts) toy_deferred ''deferred:1'' approve_decision
      toy_arguments of (b1, r) \<Rightarrow>
      length (db_runs (fst (resume_call toy_params (toy_resume InnerAborts) b1 ''deferred:1''
        approve_decision toy_arguments))) = 2"
  using aborted_run_can_repeat[OF toy_defer_call(2) toy_may_execute, of InnerAborts]
    toy_defer_call(3)
  by (auto simp: toy_resume_def split: prod.splits)

end
