(* ===== verification/PolicyProfile.thy ===== *)
theory PolicyProfile
  imports PyValue
begin

text \<open>Projection of a policy profile (\<^verbatim>\<open>src/dagr_mcp/policy_profile.py\<close>): the sink requirements, with
  the nested block over the top-level one, and the harness group. The matter-scope part of the
  projection and the file reading of \<^verbatim>\<open>load_policy_profile\<close> are left out.\<close>

section \<open>Data\<close>

definition HEALTH_CHECK_MODES :: "token list" where [vocab]:
  "HEALTH_CHECK_MODES =
     [''startup'', ''per_operation'', ''scheduled'', ''explicit'', ''none_for_advisory'']"
definition FAILURE_BEHAVIORS :: "token list" where [vocab]:
  "FAILURE_BEHAVIORS = [''fail_closed'', ''degraded'', ''pending'', ''advisory'']"

datatype profile_error =
    ProfileNotMapping | SinkRequirementsNotMapping | NestedSinkRequirementsNotMapping
  | HarnessNotMapping | NotABoolean string | NotAStringOrNull | HealthCheckModeNotText
  | InvalidHealthCheckMode string | FailureBehaviorNotText | InvalidFailureBehavior string
  | GateTimeoutInvalid

record sink_requirements =
  sq_event_sink_required :: bool
  sq_receipt_sink_required :: bool
  sq_artifact_sink_required :: bool
  sq_review_object_sink_required :: bool
  sq_lint_finding_sink_required :: bool
  sq_health_check_mode :: token
  sq_required_sink_failure_behavior :: token

definition default_sink_requirements :: sink_requirements where
  "default_sink_requirements =
     \<lparr>sq_event_sink_required = False, sq_receipt_sink_required = False,
      sq_artifact_sink_required = False, sq_review_object_sink_required = False,
      sq_lint_finding_sink_required = False, sq_health_check_mode = ''explicit'',
      sq_required_sink_failure_behavior = ''fail_closed''\<rparr>"

record harness_projection =
  hj_tool_policy_group :: "string option"
  hj_read_write_class :: "string option"
  hj_review_required :: bool
  hj_retention :: "string option"
  hj_emit_receipt :: bool
  hj_required_receipt_variant :: "string option"
  hj_gate_timeout_seconds :: "int option"
  hj_sink_requirements :: sink_requirements

record profile_projection =
  pj_profile_id :: "string option"
  pj_profile_version :: "string option"
  pj_source_schema_version :: "string option"
  pj_harness :: harness_projection
  pj_warnings :: "token list"

section \<open>Field parsers\<close>

definition require_bool :: "pyv \<Rightarrow> string \<Rightarrow> (profile_error, bool) result" where
  "require_bool v name = (case v of VBool b \<Rightarrow> Inr b | _ \<Rightarrow> Inl (NotABoolean name))"

definition optional_str :: "pyv \<Rightarrow> (profile_error, string option) result" where
  "optional_str v =
     (case v of VNone \<Rightarrow> Inr None | VStr s \<Rightarrow> Inr (Some s) | _ \<Rightarrow> Inl NotAStringOrNull)"

definition meta_optional_str :: "pydict \<Rightarrow> string \<Rightarrow> (profile_error, string option) result" where
  "meta_optional_str d key =
     (case dget d key of None \<Rightarrow> Inr None | Some v \<Rightarrow> optional_str v)"

definition parse_gate_timeout_seconds :: "pyv \<Rightarrow> (profile_error, int option) result" where
  "parse_gate_timeout_seconds v =
     (case v of
        VNone \<Rightarrow> Inr None
      | VInt i \<Rightarrow> if i < 1 then Inl GateTimeoutInvalid else Inr (Some i)
      | _ \<Rightarrow> Inl GateTimeoutInvalid)"

text \<open>A Boolean key that overrides the base when it is present.\<close>

definition bool_field :: "pydict \<Rightarrow> string \<Rightarrow> bool \<Rightarrow> (profile_error, bool) result" where
  "bool_field d key base =
     (case dget d key of None \<Rightarrow> Inr base | Some v \<Rightarrow> require_bool v key)"

definition token_field ::
  "pydict \<Rightarrow> string \<Rightarrow> token list \<Rightarrow> profile_error \<Rightarrow> (string \<Rightarrow> profile_error) \<Rightarrow> token
    \<Rightarrow> (profile_error, token) result" where
  "token_field d key allowed not_text invalid base =
     (case dget d key of
        None \<Rightarrow> Inr base
      | Some (VStr s) \<Rightarrow> if s \<in> set allowed then Inr s else Inl (invalid s)
      | Some _ \<Rightarrow> Inl not_text)"

definition parse_sink_flags ::
  "pydict \<Rightarrow> sink_requirements \<Rightarrow> (profile_error, sink_requirements) result" where
  "parse_sink_flags d base =
     rbind (bool_field d ''event_sink_required'' (sq_event_sink_required base)) (\<lambda>e.
     rbind (bool_field d ''receipt_sink_required'' (sq_receipt_sink_required base)) (\<lambda>r.
     rbind (bool_field d ''artifact_sink_required'' (sq_artifact_sink_required base)) (\<lambda>a.
     rbind (bool_field d ''review_object_sink_required'' (sq_review_object_sink_required base)) (\<lambda>v.
     rbind (bool_field d ''lint_finding_sink_required'' (sq_lint_finding_sink_required base)) (\<lambda>l.
       Inr (base\<lparr>sq_event_sink_required := e, sq_receipt_sink_required := r,
                 sq_artifact_sink_required := a, sq_review_object_sink_required := v,
                 sq_lint_finding_sink_required := l\<rparr>))))))"

definition parse_sink_requirements_mapping ::
  "pydict \<Rightarrow> sink_requirements \<Rightarrow> (profile_error, sink_requirements) result" where
  "parse_sink_requirements_mapping d base =
     rbind (parse_sink_flags d base) (\<lambda>flags.
     rbind (token_field d ''health_check_mode'' HEALTH_CHECK_MODES HealthCheckModeNotText
              InvalidHealthCheckMode (sq_health_check_mode base)) (\<lambda>mode.
     rbind (token_field d ''required_sink_failure_behavior'' FAILURE_BEHAVIORS
              FailureBehaviorNotText InvalidFailureBehavior
              (sq_required_sink_failure_behavior base)) (\<lambda>behavior.
       Inr (flags\<lparr>sq_health_check_mode := mode,
                  sq_required_sink_failure_behavior := behavior\<rparr>))))"

text \<open>An optional mapping: absent or null, or a mapping.\<close>

definition optional_block ::
  "pyv option \<Rightarrow> profile_error \<Rightarrow> (profile_error, pydict option) result" where
  "optional_block v err =
     (case v of
        None \<Rightarrow> Inr None
      | Some VNone \<Rightarrow> Inr None
      | Some (VMap m) \<Rightarrow> Inr (Some m)
      | Some _ \<Rightarrow> Inl err)"

definition apply_block ::
  "pydict option \<Rightarrow> sink_requirements \<Rightarrow> (profile_error, sink_requirements) result" where
  "apply_block block base =
     (case block of None \<Rightarrow> Inr base | Some d \<Rightarrow> parse_sink_requirements_mapping d base)"

definition resolve_sink_requirements ::
  "pydict \<Rightarrow> (profile_error, sink_requirements \<times> bool) result" where
  "resolve_sink_requirements profile =
     rbind (optional_block (dget profile ''sink_requirements'') SinkRequirementsNotMapping) (\<lambda>outer.
     rbind (case dget profile ''harness'' of
              Some (VMap h) \<Rightarrow> optional_block (dget h ''sink_requirements'')
                                NestedSinkRequirementsNotMapping
            | _ \<Rightarrow> Inr None) (\<lambda>nested.
     rbind (apply_block outer default_sink_requirements) (\<lambda>merged1.
     rbind (apply_block nested merged1) (\<lambda>merged2.
       Inr (merged2, outer \<noteq> None \<and> nested \<noteq> None)))))"

definition empty_harness_projection :: "sink_requirements \<Rightarrow> harness_projection" where
  "empty_harness_projection sinks =
     \<lparr>hj_tool_policy_group = None, hj_read_write_class = None, hj_review_required = False,
      hj_retention = None, hj_emit_receipt = False, hj_required_receipt_variant = None,
      hj_gate_timeout_seconds = None, hj_sink_requirements = sinks\<rparr>"

definition build_harness_flags ::
  "pydict \<Rightarrow> harness_projection \<Rightarrow> (profile_error, harness_projection) result" where
  "build_harness_flags raw base =
     rbind (bool_field raw ''review_required'' False) (\<lambda>review.
     rbind (bool_field raw ''emit_receipt'' False) (\<lambda>emit.
     rbind (case dget raw ''gate_timeout_seconds'' of
              None \<Rightarrow> Inr None | Some v \<Rightarrow> parse_gate_timeout_seconds v) (\<lambda>timeout.
       Inr (base\<lparr>hj_review_required := review, hj_emit_receipt := emit,
                 hj_gate_timeout_seconds := timeout\<rparr>))))"

definition build_harness_projection ::
  "pydict \<Rightarrow> sink_requirements \<Rightarrow> (profile_error, harness_projection) result" where
  "build_harness_projection profile sinks =
    (case dget profile ''harness'' of
       None \<Rightarrow> Inr (empty_harness_projection sinks)
     | Some VNone \<Rightarrow> Inr (empty_harness_projection sinks)
     | Some (VMap raw) \<Rightarrow>
         rbind (meta_optional_str raw ''tool_policy_group'') (\<lambda>group.
         rbind (meta_optional_str raw ''read_write_class'') (\<lambda>class.
         rbind (meta_optional_str raw ''retention'') (\<lambda>retention.
         rbind (meta_optional_str raw ''required_receipt_variant'') (\<lambda>variant.
           build_harness_flags raw
             ((empty_harness_projection sinks)
                \<lparr>hj_tool_policy_group := group, hj_read_write_class := class,
                 hj_retention := retention, hj_required_receipt_variant := variant\<rparr>)))))
     | Some _ \<Rightarrow> Inl HarnessNotMapping)"

definition project_policy_profile :: "pyv \<Rightarrow> (profile_error, profile_projection) result" where
  "project_policy_profile value =
    (case value of
       VMap profile \<Rightarrow>
         rbind (resolve_sink_requirements profile) (\<lambda>(sinks, nested_over_top).
         rbind (build_harness_projection profile sinks) (\<lambda>harness.
         rbind (meta_optional_str profile ''profile_id'') (\<lambda>pid.
         rbind (meta_optional_str profile ''profile_version'') (\<lambda>version.
         rbind (meta_optional_str profile ''schema_version'') (\<lambda>schema.
           Inr \<lparr>pj_profile_id = pid, pj_profile_version = version,
                pj_source_schema_version = schema, pj_harness = harness,
                pj_warnings =
                  (if dget profile ''harness'' \<in> {None, Some VNone}
                   then [''missing_harness_group''] else [])
                  @ (if nested_over_top
                     then [''sink_requirements_nested_overrides_top_level''] else [])\<rparr>)))))
     | _ \<Rightarrow> Inl ProfileNotMapping)"

definition sink_requirements_from_profile :: "pyv \<Rightarrow> (profile_error, sink_requirements) result" where
  "sink_requirements_from_profile value =
    (case value of
       VMap profile \<Rightarrow> rbind (resolve_sink_requirements profile) (\<lambda>(sinks, _). Inr sinks)
     | _ \<Rightarrow> Inl ProfileNotMapping)"

definition harness_projection_from_profile ::
  "pyv \<Rightarrow> (profile_error, harness_projection) result" where
  "harness_projection_from_profile value =
    (case value of
       VMap profile \<Rightarrow>
         rbind (resolve_sink_requirements profile)
           (\<lambda>(sinks, _). build_harness_projection profile sinks)
     | _ \<Rightarrow> Inl ProfileNotMapping)"

section \<open>Facts\<close>

definition sink_requirements_ok :: "sink_requirements \<Rightarrow> bool" where
  "sink_requirements_ok q =
     (sq_health_check_mode q \<in> set HEALTH_CHECK_MODES
      \<and> sq_required_sink_failure_behavior q \<in> set FAILURE_BEHAVIORS)"

lemma token_field_member:
  "token_field d k allowed e f base = Inr t \<Longrightarrow> base \<in> set allowed \<Longrightarrow> t \<in> set allowed"
  by (auto simp: token_field_def split: option.splits pyv.splits if_splits)

lemma apply_block_ok:
  "apply_block block base = Inr q \<Longrightarrow> sink_requirements_ok base \<Longrightarrow> sink_requirements_ok q"
  by (auto simp: apply_block_def parse_sink_requirements_mapping_def rbind_Inr_iff
      sink_requirements_ok_def dest: token_field_member split: option.splits)

lemma default_ok: "sink_requirements_ok default_sink_requirements"
  by (simp add: sink_requirements_ok_def default_sink_requirements_def vocab)

text \<open>Whatever a profile says, resolved requirements name a known mode and a known failure behaviour.\<close>

lemma resolved_requirements_ok:
  assumes "resolve_sink_requirements profile = Inr (q, w)"
  shows "sink_requirements_ok q"
proof -
  obtain outer nested m where "apply_block outer default_sink_requirements = Inr m"
    "apply_block nested m = Inr q"
    using assms by (auto simp: resolve_sink_requirements_def rbind_Inr_iff)
  then show ?thesis using apply_block_ok default_ok by blast
qed

lemma built_harness_sinks:
  "build_harness_projection profile sinks = Inr h \<Longrightarrow> hj_sink_requirements h = sinks"
  by (auto simp: build_harness_projection_def build_harness_flags_def empty_harness_projection_def
      rbind_Inr_iff split: pyv.splits option.splits)

lemma project_requirements_ok:
  assumes "project_policy_profile v = Inr p"
  shows "sink_requirements_ok (hj_sink_requirements (pj_harness p))"
proof -
  obtain profile q w h where "resolve_sink_requirements profile = Inr (q, w)"
    "build_harness_projection profile q = Inr h" "pj_harness p = h"
    using assms by (cases v) (auto simp: project_policy_profile_def rbind_Inr_iff)
  then show ?thesis using resolved_requirements_ok built_harness_sinks by simp
qed

end
