(* ===== verification/SrsBridge.thy ===== *)
theory SrsBridge
  imports SrsEmissionFacts SdkSpine
begin

text \<open>The bridge from the synchronous harness to signed receipts (\<^verbatim>\<open>src/dagr_mcp/srs_bridge.py\<close>) and
  the harness context it reads (\<^verbatim>\<open>src/dagr_mcp/enforcement_harness.py\<close>, lines 94 to 115). The
  identifier it mints for a call without a request reference is an input.\<close>

section \<open>Data\<close>

record harness_context =
  hc_harness_version :: string
  hc_adapter_type :: string
  hc_module_id :: string
  hc_module_version :: string
  hc_profile_ref :: string
  hc_policy_ref :: string
  hc_tool_name :: string
  hc_arguments_hash :: string
  hc_actor_ref :: "string option"
  hc_session_ref :: "string option"
  hc_request_ref :: "string option"
  hc_raw_arguments_allowed :: bool
  hc_result_hash :: "string option"
  hc_raw_result_allowed :: bool
  hc_event_chain_refs :: "string list"
  hc_receipt_refs :: "string list"
  hc_review_object_ref :: "string option"
  hc_admission_receipt_ref :: "string option"
  hc_sink_health_snapshot :: "sink_health dict"
  hc_attestation_limits :: "string list"

record bridge_config =
  bc_runtime_instance_id :: string
  bc_boundary_id :: string
  bc_policy_pack_id :: string
  bc_policy_pack_version :: string
  bc_binding_version :: string
  bc_parent_receipt_ref :: "string option"

section \<open>The receipt context of a harness context\<close>

definition bridge_logical :: "string \<Rightarrow> harness_context \<Rightarrow> string" where
  "bridge_logical uuid hc =
     (if given (hc_request_ref hc) then the (hc_request_ref hc) else ''call-'' @ uuid)"

definition bridge_subject :: "string \<Rightarrow> harness_context \<Rightarrow> string \<times> token" where
  "bridge_subject uuid hc =
    (if given (hc_session_ref hc) then (the (hc_session_ref hc), ''derived_from_session'')
     else if given (hc_request_ref hc) then (the (hc_request_ref hc), ''derived_from_request'')
     else (''tool-call:'' @ bridge_logical uuid hc, ''binding_minted''))"

definition DAGR_CONSTITUTIONAL_CONTRACT_ID :: string where
  "DAGR_CONSTITUTIONAL_CONTRACT_ID = ''dagr.constitutional-contract.v0.1''"

text \<open>The tenant, the workspace and the constitution keep the defaults of the receipt context.\<close>

definition bridge_context ::
  "bridge_config \<Rightarrow> string \<Rightarrow> harness_context \<Rightarrow> string option \<Rightarrow> string option
    \<Rightarrow> receipt_context" where
  "bridge_context bc uuid hc binding_version parent =
     \<lparr>rc_runtime_instance_id = bc_runtime_instance_id bc, rc_boundary_id = bc_boundary_id bc,
      rc_policy_pack_id = bc_policy_pack_id bc,
      rc_policy_pack_version = bc_policy_pack_version bc,
      rc_subject_ref = fst (bridge_subject uuid hc),
      rc_logical_call_id = bridge_logical uuid hc,
      rc_subject_ref_origin = VStr (snd (bridge_subject uuid hc)),
      rc_actor_ref = hc_actor_ref hc, rc_tenant_id = None, rc_workspace_id = None,
      rc_binding_version = (case binding_version of None \<Rightarrow> bc_binding_version bc | Some v \<Rightarrow> v),
      rc_parent_receipt_ref =
        (case parent of None \<Rightarrow> bc_parent_receipt_ref bc | Some p \<Rightarrow> Some p),
      rc_dagr_constitution_id = DAGR_CONSTITUTIONAL_CONTRACT_ID\<rparr>"

section \<open>Emission\<close>

definition bridge_emit_admission ::
  "signing_identity \<Rightarrow> bridge_config \<Rightarrow> string \<Rightarrow> stamp \<Rightarrow> harness_context \<Rightarrow> admission_args
    \<Rightarrow> string option \<Rightarrow> string option \<Rightarrow> sink \<Rightarrow> (receipt_error, string) result \<times> sink" where
  "bridge_emit_admission ident bc uuid st hc a binding_version parent sk =
     emit_admission ident (bridge_context bc uuid hc binding_version parent) st
       (a\<lparr>aa_argument_digest := hc_arguments_hash hc\<rparr>) sk"

definition bridge_result_digest ::
  "crypto \<Rightarrow> outcome_args \<Rightarrow> pyv \<Rightarrow> (receipt_error, string option) result" where
  "bridge_result_digest cr a result_value =
    (if oa_result_digest a = None
        \<and> (oa_outcome a = ''result_returned'' \<or> oa_outcome a = ''error_returned'')
     then rbind (fastmcp_tool_result_digest cr VNone result_value VNone
                   (oa_outcome a = ''error_returned'')) (\<lambda>d. Inr (Some d))
     else Inr (oa_result_digest a))"

definition bridge_emit_outcome ::
  "signing_identity \<Rightarrow> bridge_config \<Rightarrow> string \<Rightarrow> stamp \<Rightarrow> harness_context \<Rightarrow> outcome_args \<Rightarrow> pyv
    \<Rightarrow> string option \<Rightarrow> string option \<Rightarrow> sink \<Rightarrow> (receipt_error, string) result \<times> sink" where
  "bridge_emit_outcome ident bc uuid st hc a result_value binding_version parent sk =
    (case bridge_result_digest (si_crypto ident) a result_value of
       Inl e \<Rightarrow> (Inl e, sk)
     | Inr d \<Rightarrow> emit_outcome ident (bridge_context bc uuid hc binding_version parent) st
                  (a\<lparr>oa_result_digest := d\<rparr>) sk)"

section \<open>Facts\<close>

text \<open>The origin a bridge context declares is a registered one.\<close>

lemma bridge_origin_registered: "snd (bridge_subject uuid hc) \<in> set SUBJECT_REF_ORIGINS"
  by (simp add: bridge_subject_def SUBJECT_REF_ORIGINS_def)

text \<open>Without a request reference each emission mints its own logical call, so the admission and the
  outcome of one call are not linked by it.\<close>

lemma bridge_calls_unlinked:
  "\<not> given (hc_request_ref hc) \<Longrightarrow> u \<noteq> v \<Longrightarrow>
     rc_logical_call_id (bridge_context bc u hc b p) \<noteq> rc_logical_call_id (bridge_context bc v hc b p)"
  by (simp add: bridge_context_def bridge_logical_def)

end
