(* ===== verification/EnforcementHarness.thy ===== *)
theory EnforcementHarness
  imports SrsBridge PolicyProfile ToolCallDisposition
begin

text \<open>The enforcement harness (\<^verbatim>\<open>src/dagr_mcp/enforcement_harness.py\<close>): the governed boundary that
  \<^verbatim>\<open>wrap_handler\<close> puts around an inner tool handler. The mutable harness context and everything
  the call leaves behind (events, receipts, review objects, signed receipts, runs of the inner
  handler) is one state record threaded through the steps; a fault that the harness does not
  catch escapes as an error. What the sinks, the bridge and the inner handler answer is the
  environment, the event and health answers being indexed by the number of the call.\<close>

section \<open>Data\<close>

definition DEFAULT_ATTESTATION_LIMITS :: "string list" where
  "DEFAULT_ATTESTATION_LIMITS =
     [''Receipt attests only to governance conditions at the harness boundary.'',
      ''Receipt does not attest to MCP server internal retention.'',
      ''Receipt does not prove model or provider non-retention.'']"

definition RAW_ARTIFACT_CLASSES_EXCLUDED :: "string list" where
  "RAW_ARTIFACT_CLASSES_EXCLUDED =
     [''raw_prompt'', ''raw_output'', ''raw_tool_arguments'', ''raw_tool_result'']"

record harness_config =
  hg_harness_version :: string
  hg_module_id :: string
  hg_module_version :: string
  hg_profile_ref :: string
  hg_policy_ref :: string
  hg_adapter_type :: string
  hg_policy_hash :: "string option"
  hg_default_receipt_required :: bool
  hg_fail_closed_on_unknown_tool :: bool

record tool_policy =
  tp_tool_name :: string
  tp_tool_class :: token
  tp_decision :: token
  tp_receipt_required :: bool
  tp_review_required :: bool
  tp_retention_class :: string
  tp_required_sinks :: "string list"
  tp_reason :: "string option"
  tp_gate_timeout_seconds :: "int option"

record policy_decision =
  pd_decision :: token
  pd_reason :: string
  pd_policy_ref :: string
  pd_required_sinks :: "string list"
  pd_receipt_required :: bool
  pd_review_required :: bool
  pd_retention_class :: string
  pd_attestation_limits :: "string list"
  pd_policy_hash :: "string option"

record governed_result =
  gv_ok :: bool
  gv_result :: pyv
  gv_failure_reason :: "string option"
  gv_event_refs :: "string list"
  gv_receipt_refs :: "string list"
  gv_review_object_ref :: "string option"
  gv_policy_decision :: "policy_decision option"
  gv_context :: harness_context

datatype policies_input =
    NoPolicies
  | PolicyMapping "tool_policy dict"
  | PolicySequence "tool_policy list"

section \<open>Environment, state and steps\<close>

datatype write_outcome = Wrote string | WriteUnavailable | WriteRaised string

datatype srs_emission =
    SrsAdmission token "string option" "string option" "string option"
  | SrsOutcome string token "string option"

record harness_env =
  he_hash :: hash_params
  he_now :: string
  he_event :: "nat \<Rightarrow> write_outcome"
  he_health :: "nat \<Rightarrow> string \<Rightarrow> sink_health option"
  he_receipt_sink :: bool
  he_review_sink :: bool
  he_artifact_sink :: bool
  he_lint_sink :: bool
  he_receipt :: write_outcome
  he_review :: "string option"
  he_bridge :: bool
  he_admission :: "string option"
  he_outcome :: "string option"
  he_callable :: bool
  he_inner :: inner_outcome

record harness_state =
  hx_context :: harness_context
  hx_events :: "event_envelope list"
  hx_event_calls :: nat
  hx_health_calls :: nat
  hx_receipts :: "receipt_envelope list"
  hx_reviews :: "review_object list"
  hx_srs :: "srs_emission list"
  hx_runs :: "(string \<times> pyv) list"

datatype harness_escape = EventSinkFault string | ReceiptSinkFault string | InnerAborted

type_synonym 'a harness = "harness_state \<Rightarrow> (harness_escape, 'a) result \<times> harness_state"

definition hreturn :: "'a \<Rightarrow> 'a harness" where
  "hreturn x s = (Inr x, s)"

definition hbind :: "'a harness \<Rightarrow> ('a \<Rightarrow> 'b harness) \<Rightarrow> 'b harness" where
  "hbind m f s = (case m s of (Inl e, s1) \<Rightarrow> (Inl e, s1) | (Inr x, s1) \<Rightarrow> f x s1)"

definition update_context :: "(harness_context \<Rightarrow> harness_context) \<Rightarrow> unit harness" where
  "update_context f s = (Inr (), s\<lparr>hx_context := f (hx_context s)\<rparr>)"

section \<open>Policies\<close>

definition normalize_policies :: "policies_input \<Rightarrow> tool_policy dict" where
  "normalize_policies policies =
    (case policies of
       NoPolicies \<Rightarrow> []
     | PolicyMapping m \<Rightarrow> m
     | PolicySequence ps \<Rightarrow> foldl (\<lambda>d p. dset (tp_tool_name p) p d) [] ps)"

text \<open>The caller context is the mapping, or the attributes of the object, that is looked up.\<close>

definition context_value :: "hash_params \<Rightarrow> pydict \<Rightarrow> string \<Rightarrow> string option" where
  "context_value hp ctx key =
    (case dget ctx key of
       None \<Rightarrow> None
     | Some VNone \<Rightarrow> None
     | Some v \<Rightarrow> Some (py_str hp v))"

definition build_context ::
  "hash_params \<Rightarrow> harness_config \<Rightarrow> string \<Rightarrow> string \<Rightarrow> pydict \<Rightarrow> harness_context" where
  "build_context hp cfg tool_name arguments_hash ctx =
     \<lparr>hc_harness_version = hg_harness_version cfg, hc_adapter_type = hg_adapter_type cfg,
      hc_module_id = hg_module_id cfg, hc_module_version = hg_module_version cfg,
      hc_profile_ref = hg_profile_ref cfg, hc_policy_ref = hg_policy_ref cfg,
      hc_tool_name = tool_name, hc_arguments_hash = arguments_hash,
      hc_actor_ref = context_value hp ctx ''actor_ref'',
      hc_session_ref = context_value hp ctx ''session_ref'',
      hc_request_ref = context_value hp ctx ''request_ref'',
      hc_raw_arguments_allowed = False, hc_result_hash = None, hc_raw_result_allowed = False,
      hc_event_chain_refs = [], hc_receipt_refs = [], hc_review_object_ref = None,
      hc_admission_receipt_ref = None, hc_sink_health_snapshot = [],
      hc_attestation_limits = []\<rparr>"

definition append_unique :: "string list \<Rightarrow> string \<Rightarrow> string list" where
  "append_unique vs v = (if v \<in> set vs then vs else vs @ [v])"

definition normalize_sink_name :: "string \<Rightarrow> string" where
  "normalize_sink_name n =
    (if n = ''review_object'' \<or> n = ''review_object_sink'' then ''review''
     else if suffix ''_sink'' n then take (length n - 5) n
     else n)"

definition normalized_required_sinks :: "string list \<Rightarrow> bool \<Rightarrow> bool \<Rightarrow> string list" where
  "normalized_required_sinks required receipt_required review_required =
    (let base = foldl (\<lambda>vs n. append_unique vs (normalize_sink_name n)) [] (''event'' # required);
         with_receipt = (if receipt_required then append_unique base ''receipt'' else base)
     in if review_required then append_unique with_receipt ''review'' else with_receipt)"

definition evaluate_policy ::
  "string \<Rightarrow> harness_config \<Rightarrow> tool_policy option \<Rightarrow> policy_decision" where
  "evaluate_policy tool_name cfg policy =
    (case policy of
       None \<Rightarrow>
        (if hg_fail_closed_on_unknown_tool cfg
         then \<lparr>pd_decision = ''fail_closed'', pd_reason = ''unknown_tool'',
               pd_policy_ref = hg_policy_ref cfg, pd_required_sinks = [''event''],
               pd_receipt_required = False, pd_review_required = False,
               pd_retention_class = ''hash_only'',
               pd_attestation_limits = DEFAULT_ATTESTATION_LIMITS,
               pd_policy_hash = hg_policy_hash cfg\<rparr>
         else \<lparr>pd_decision = ''allow'', pd_reason = ''unknown_tool_allowed:'' @ tool_name,
               pd_policy_ref = hg_policy_ref cfg,
               pd_required_sinks =
                 [''event''] @ (if hg_default_receipt_required cfg then [''receipt''] else []),
               pd_receipt_required = hg_default_receipt_required cfg, pd_review_required = False,
               pd_retention_class = ''hash_only'',
               pd_attestation_limits = DEFAULT_ATTESTATION_LIMITS,
               pd_policy_hash = hg_policy_hash cfg\<rparr>)
     | Some p \<Rightarrow>
        (let receipt_required = (tp_receipt_required p \<or> hg_default_receipt_required cfg);
             review_required = (tp_review_required p \<or> tp_decision p = ''gate'')
         in \<lparr>pd_decision = tp_decision p,
             pd_reason = (if given (tp_reason p) then the (tp_reason p)
                          else ''policy_'' @ tp_decision p),
             pd_policy_ref = hg_policy_ref cfg,
             pd_required_sinks =
               normalized_required_sinks (tp_required_sinks p) receipt_required review_required,
             pd_receipt_required = receipt_required, pd_review_required = review_required,
             pd_retention_class = tp_retention_class p,
             pd_attestation_limits = DEFAULT_ATTESTATION_LIMITS,
             pd_policy_hash = hg_policy_hash cfg\<rparr>))"

definition profile_sinks :: "sink_requirements \<Rightarrow> string list" where
  "profile_sinks q =
     (if sq_event_sink_required q then [''event''] else [])
     @ (if sq_receipt_sink_required q then [''receipt''] else [])
     @ (if sq_artifact_sink_required q then [''artifact''] else [])
     @ (if sq_review_object_sink_required q then [''review''] else [])
     @ (if sq_lint_finding_sink_required q then [''lint''] else [])"

definition effective_required_sinks ::
  "policy_decision \<Rightarrow> profile_projection option \<Rightarrow> string list" where
  "effective_required_sinks d profile =
    (let merged = foldl (\<lambda>vs n. append_unique vs (normalize_sink_name n)) [] (pd_required_sinks d)
     in case profile of
          None \<Rightarrow> merged
        | Some p \<Rightarrow> foldl append_unique merged
                     (profile_sinks (hj_sink_requirements (pj_harness p))))"

definition failure_reason_for_decision :: "policy_decision \<Rightarrow> string" where
  "failure_reason_for_decision d =
    (if pd_reason d = ''unknown_tool'' then ''unknown_tool''
     else if pd_decision d = ''deny'' then ''denied''
     else if pd_decision d = ''defer'' then ''deferred''
     else ''fail_closed'')"

section \<open>Sink health\<close>

definition sink_present :: "harness_env \<Rightarrow> string \<Rightarrow> bool" where
  "sink_present env n =
    (if n = ''event'' then True
     else if n = ''receipt'' then he_receipt_sink env
     else if n = ''review'' then he_review_sink env
     else if n = ''artifact'' then he_artifact_sink env
     else if n = ''lint'' \<or> n = ''lint_finding'' then he_lint_sink env
     else False)"

definition sink_failure_reason :: "string \<Rightarrow> string" where
  "sink_failure_reason n =
    (if n = ''review'' then ''review_object_sink_unavailable''
     else if n = ''lint'' \<or> n = ''lint_finding'' then ''lint_finding_sink_unavailable''
     else n @ ''_sink_unavailable'')"

definition health_failure :: "token \<Rightarrow> string \<Rightarrow> sink_health \<Rightarrow> string option" where
  "health_failure behavior n h =
    (if sh_status h = SINK_STATUS_AVAILABLE \<and> sh_writable h then None
     else if sh_status h = SINK_STATUS_DEGRADED then
       (if (behavior = ''degraded'' \<or> behavior = ''advisory'') \<and> sh_writable h then None
        else Some (n @ ''_sink_degraded''))
     else Some (sink_failure_reason n))"

definition check_required_sink :: "harness_env \<Rightarrow> token \<Rightarrow> string \<Rightarrow> string option harness" where
  "check_required_sink env behavior name s =
    (let n = normalize_sink_name name in
     if \<not> sink_present env n then (Inr (Some (sink_failure_reason n)), s)
     else
      (let s1 = s\<lparr>hx_health_calls := Suc (hx_health_calls s)\<rparr> in
       case he_health env (hx_health_calls s) n of
         None \<Rightarrow> (Inr (Some (sink_failure_reason n)), s1)
       | Some h \<Rightarrow>
           (Inr (health_failure behavior n h),
            s1\<lparr>hx_context := (hx_context s1)
                 \<lparr>hc_sink_health_snapshot := dset n h (hc_sink_health_snapshot (hx_context s1))\<rparr>\<rparr>)))"

fun check_effective_required_sinks ::
  "harness_env \<Rightarrow> token \<Rightarrow> string list \<Rightarrow> string option harness" where
  "check_effective_required_sinks env behavior [] = hreturn None"
| "check_effective_required_sinks env behavior (n # ns) =
     hbind (check_required_sink env behavior n) (\<lambda>failure.
       if failure \<noteq> None \<and> failure \<noteq> Some [] then hreturn failure
       else check_effective_required_sinks env behavior ns)"

section \<open>Events and receipts\<close>

definition event_argument_hash_fields :: "string \<Rightarrow> pydict" where
  "event_argument_hash_fields h = [(''argument_hash'', VStr h), (''arguments_hash'', VStr h)]"

definition or_ref :: "string option \<Rightarrow> string option \<Rightarrow> string option" where
  "or_ref a b = (if given a then a else b)"

definition harness_event :: "harness_env \<Rightarrow> harness_config \<Rightarrow> harness_context \<Rightarrow> string \<Rightarrow> pydict
    \<Rightarrow> event_envelope" where
  "harness_event env cfg c typ detail =
     \<lparr>ee_event_type = typ, ee_occurred_at = he_now env, ee_event_id = None,
      ee_subject_ref = or_ref (hc_session_ref c) (hc_request_ref c),
      ee_actor_ref = hc_actor_ref c, ee_policy_ref = Some (hg_policy_ref cfg),
      ee_detail = detail, ee_lineage_refs = hc_event_chain_refs c\<rparr>"

definition safe_write_event ::
  "harness_env \<Rightarrow> harness_config \<Rightarrow> string \<Rightarrow> pydict \<Rightarrow> string option harness" where
  "safe_write_event env cfg typ detail s =
    (let e = harness_event env cfg (hx_context s) typ detail;
         s1 = s\<lparr>hx_event_calls := Suc (hx_event_calls s)\<rparr> in
     case he_event env (hx_event_calls s) of
       Wrote ref \<Rightarrow> (Inr (Some ref), s1\<lparr>hx_events := hx_events s1 @ [e]\<rparr>)
     | WriteUnavailable \<Rightarrow> (Inr None, s1)
     | WriteRaised cls \<Rightarrow> (Inl (EventSinkFault cls), s1))"

definition chain_event :: "string option \<Rightarrow> unit harness" where
  "chain_event ref =
    (case ref of
       None \<Rightarrow> hreturn ()
     | Some r \<Rightarrow> update_context (\<lambda>c. c\<lparr>hc_event_chain_refs := hc_event_chain_refs c @ [r]\<rparr>))"

definition append_event_if_available ::
  "harness_env \<Rightarrow> harness_config \<Rightarrow> string \<Rightarrow> pydict \<Rightarrow> unit harness" where
  "append_event_if_available env cfg typ detail =
     hbind (safe_write_event env cfg typ detail) chain_event"

definition covered_artifact_classes :: "string option \<Rightarrow> string list" where
  "covered_artifact_classes h =
     [''mcp_tool_call_metadata'', ''mcp_argument_hash''] @ (if h \<noteq> None then [''mcp_result_hash''] else [])"

definition mcp_receipt_extension :: "string \<Rightarrow> harness_context \<Rightarrow> policy_decision \<Rightarrow> pydict" where
  "mcp_receipt_extension tool_name c d =
     [(''mcp_tool_name'', VStr tool_name), (''mcp_arguments_hash'', VStr (hc_arguments_hash c)),
      (''mcp_policy_decision_ref'',
       VStr (''policy_decision:'' @ pd_policy_ref d @ '':'' @ pd_decision d))]
     @ opt_entry ''mcp_result_hash'' (hc_result_hash c)
     @ opt_entry ''mcp_review_object_ref'' (hc_review_object_ref c)"

definition harness_receipt ::
  "harness_env \<Rightarrow> string \<Rightarrow> harness_context \<Rightarrow> policy_decision \<Rightarrow> receipt_envelope" where
  "harness_receipt env tool_name c d =
     \<lparr>re_receipt_type = ''sdk_enforcement'', re_boundary_type = ''mcp_tool_call'',
      re_protocol_binding = ''mcp'', re_issued_at = he_now env,
      re_artifact_classes_covered = covered_artifact_classes (hc_result_hash c),
      re_artifact_classes_excluded = RAW_ARTIFACT_CLASSES_EXCLUDED,
      re_attestation_limits = pd_attestation_limits d, re_receipt_id = None,
      re_subject_ref = or_ref (hc_session_ref c) (hc_request_ref c),
      re_policy_ref = Some (pd_policy_ref d), re_policy_hash = pd_policy_hash d,
      re_extensions = [(''mcp'', VMap (mcp_receipt_extension tool_name c d))],
      re_critical_extensions = [''mcp'']\<rparr>"

definition write_harness_receipt ::
  "harness_env \<Rightarrow> string \<Rightarrow> policy_decision \<Rightarrow> string option harness" where
  "write_harness_receipt env tool_name d s =
    (if \<not> he_receipt_sink env then (Inr None, s)
     else case he_receipt env of
         Wrote ref \<Rightarrow>
           (Inr (Some ref),
            s\<lparr>hx_receipts := hx_receipts s @ [harness_receipt env tool_name (hx_context s) d]\<rparr>)
       | WriteUnavailable \<Rightarrow> (Inr None, s)
       | WriteRaised cls \<Rightarrow> (Inl (ReceiptSinkFault cls), s))"

text \<open>Admission and outcome through the bridge; the flag tells whether it was accepted.\<close>

definition bridge_admission :: "harness_env \<Rightarrow> srs_emission \<Rightarrow> bool harness" where
  "bridge_admission env em s =
    (case he_admission env of
       None \<Rightarrow> (Inr False, s)
     | Some ref \<Rightarrow>
         (Inr True, s\<lparr>hx_srs := hx_srs s @ [em],
                      hx_context := (hx_context s)\<lparr>hc_admission_receipt_ref := Some ref\<rparr>\<rparr>))"

definition bridge_outcome ::
  "harness_env \<Rightarrow> token \<Rightarrow> string option \<Rightarrow> string option harness" where
  "bridge_outcome env outcome cls s =
    (if \<not> he_bridge env then (Inr None, s)
     else case hc_admission_receipt_ref (hx_context s) of
         None \<Rightarrow> (Inr None, s)
       | Some adm \<Rightarrow>
          (case he_outcome env of
             None \<Rightarrow> (Inr None, s)
           | Some ref \<Rightarrow> (Inr (Some ref), s\<lparr>hx_srs := hx_srs s @ [SrsOutcome adm outcome cls]\<rparr>)))"

section \<open>The gate\<close>

definition governed_failure ::
  "string \<Rightarrow> policy_decision option \<Rightarrow> governed_result harness" where
  "governed_failure reason decision s =
    (let c = hx_context s in
     (Inr \<lparr>gv_ok = False, gv_result = VNone, gv_failure_reason = Some reason,
           gv_event_refs = hc_event_chain_refs c, gv_receipt_refs = hc_receipt_refs c,
           gv_review_object_ref = hc_review_object_ref c, gv_policy_decision = decision,
           gv_context = c\<rparr>, s))"

definition call_event ::
  "harness_context \<Rightarrow> pydict \<Rightarrow> pydict" where
  "call_event c extra =
     [(''tool_name'', VStr (hc_tool_name c))]
     @ event_argument_hash_fields (hc_arguments_hash c) @ extra"

definition gate_input ::
  "harness_config \<Rightarrow> harness_context \<Rightarrow> pyv \<Rightarrow> policy_decision \<Rightarrow> tool_policy option
    \<Rightarrow> disposition_input" where
  "gate_input cfg c arguments d policy =
     \<lparr>di_tool_name = hc_tool_name c,
      di_tool_class = (case policy of Some p \<Rightarrow> tp_tool_class p | None \<Rightarrow> ''unknown''),
      di_policy_decision = pd_decision d, di_arguments = arguments, di_context = VNone,
      di_retention_class = pd_retention_class d, di_required_sinks = pd_required_sinks d,
      di_reason = Some (pd_reason d),
      di_gate_timeout_seconds =
        (case policy of
           None \<Rightarrow> VNone
         | Some p \<Rightarrow> (case tp_gate_timeout_seconds p of None \<Rightarrow> VNone | Some g \<Rightarrow> VInt g)),
      di_profile_ref = Some (hg_profile_ref cfg), di_policy_profile_ref = None,
      di_policy_pack_ref = None, di_event_refs = hc_event_chain_refs c,
      di_review_object_id = None,
      di_origin_event_id = (case hc_event_chain_refs c of [] \<Rightarrow> None | r # _ \<Rightarrow> Some r),
      di_allowed_actions = Some [''approve'', ''reject'', ''defer'', ''escalate''],
      di_created_at = None, di_policy_ref = Some (pd_policy_ref d),
      di_harness_version = Some (hg_harness_version cfg),
      di_adapter_type = Some (hg_adapter_type cfg)\<rparr>"

text \<open>A refused admission whose own failure is swallowed.\<close>

definition refused_quietly :: "harness_env \<Rightarrow> string \<Rightarrow> unit harness" where
  "refused_quietly env reason_code =
    (if he_bridge env
     then hbind (bridge_admission env (SrsAdmission ''refused'' (Some reason_code) None None))
            (\<lambda>_. hreturn ())
     else hreturn ())"

definition gate_receipt ::
  "harness_env \<Rightarrow> policy_decision \<Rightarrow> governed_result harness" where
  "gate_receipt env d s =
    (if \<not> pd_receipt_required d then governed_failure ''gated_pending'' (Some d) s
     else hbind (write_harness_receipt env (hc_tool_name (hx_context s)) d) (\<lambda>ref.
         case ref of
           None \<Rightarrow> governed_failure ''receipt_write_failed'' (Some d)
         | Some r \<Rightarrow>
             hbind (update_context (\<lambda>c. c\<lparr>hc_receipt_refs := hc_receipt_refs c @ [r]\<rparr>))
               (\<lambda>_. governed_failure ''gated_pending'' (Some d))) s)"

definition gate_events ::
  "harness_env \<Rightarrow> harness_config \<Rightarrow> policy_decision \<Rightarrow> string \<Rightarrow> governed_result harness" where
  "gate_events env cfg d review_ref s =
     hbind (append_event_if_available env cfg ''mcp.tool.call.gated''
              (call_event (hx_context s)
                 [(''policy_decision'', VStr (pd_decision d)),
                  (''review_object_ref'', VStr review_ref), (''reason'', VStr (pd_reason d))]))
       (\<lambda>_. gate_receipt env d) s"

definition append_admission_ref :: "harness_context \<Rightarrow> harness_context" where
  "append_admission_ref c =
    (case hc_admission_receipt_ref c of
       None \<Rightarrow> c
     | Some r \<Rightarrow> c\<lparr>hc_receipt_refs := hc_receipt_refs c @ [r]\<rparr>)"

definition gate_reviewed ::
  "harness_env \<Rightarrow> harness_config \<Rightarrow> policy_decision \<Rightarrow> string \<Rightarrow> governed_result harness" where
  "gate_reviewed env cfg d review_ref =
     hbind (update_context (\<lambda>c. c\<lparr>hc_review_object_ref := Some review_ref\<rparr>)) (\<lambda>_.
       if \<not> he_bridge env then gate_events env cfg d review_ref
       else hbind (bridge_admission env
                    (SrsAdmission ''deferred_for_review'' None (Some review_ref)
                       (Some ''retry_after_approval''))) (\<lambda>ok.
              if \<not> ok then governed_failure ''pre_execution_receipt_failure'' (Some d)
              else hbind (update_context append_admission_ref)
                     (\<lambda>_. gate_events env cfg d review_ref)))"

definition gate_call ::
  "harness_env \<Rightarrow> harness_config \<Rightarrow> pyv \<Rightarrow> policy_decision \<Rightarrow> tool_policy option
    \<Rightarrow> governed_result harness" where
  "gate_call env cfg arguments d policy s =
    (if \<not> he_review_sink env
     then hbind (refused_quietly env ''review_object_creation_failed'')
            (\<lambda>_. governed_failure ''review_object_sink_unavailable'' (Some d)) s
     else
      (case build_tool_call_disposition_review_object (he_hash env) (he_now env)
              (gate_input cfg (hx_context s) arguments d policy) of
         Inl _ \<Rightarrow> governed_failure ''tool_call_disposition_invalid'' (Some d) s
       | Inr ro \<Rightarrow>
          (case he_review env of
             None \<Rightarrow> hbind (refused_quietly env ''review_object_creation_failed'')
                       (\<lambda>_. governed_failure ''review_object_sink_unavailable'' (Some d)) s
           | Some ref \<Rightarrow>
               gate_reviewed env cfg d ref (s\<lparr>hx_reviews := hx_reviews s @ [ro]\<rparr>))))"

section \<open>Execution\<close>

definition call_harness_inner :: "harness_env \<Rightarrow> pyv \<Rightarrow> inner_outcome harness" where
  "call_harness_inner env arguments s =
    (if he_callable env
     then (Inr (he_inner env),
           s\<lparr>hx_runs := hx_runs s @ [(hc_tool_name (hx_context s), arguments)]\<rparr>)
     else (Inr (InnerRaises ''TypeError''), s))"

definition governed_success :: "pyv \<Rightarrow> policy_decision \<Rightarrow> governed_result harness" where
  "governed_success v d s =
    (let c = hx_context s in
     (Inr \<lparr>gv_ok = True, gv_result = v, gv_failure_reason = None,
           gv_event_refs = hc_event_chain_refs c, gv_receipt_refs = hc_receipt_refs c,
           gv_review_object_ref = hc_review_object_ref c, gv_policy_decision = Some d,
           gv_context = c\<rparr>, s))"

definition inner_failed ::
  "harness_env \<Rightarrow> harness_config \<Rightarrow> policy_decision \<Rightarrow> string \<Rightarrow> governed_result harness" where
  "inner_failed env cfg d cls =
     hbind (bridge_outcome env ''exception'' (Some cls)) (\<lambda>_ s.
     hbind (append_event_if_available env cfg ''mcp.tool.call.failed''
              (call_event (hx_context s) [(''policy_decision'', VStr (pd_decision d)),
                                          (''failure_class'', VStr cls)]))
       (\<lambda>_. governed_failure ''inner_exception'' (Some d)) s)"

text \<open>The enforcement receipt after the executed event.\<close>

definition enforcement_receipt ::
  "harness_env \<Rightarrow> harness_config \<Rightarrow> policy_decision \<Rightarrow> pyv \<Rightarrow> string \<Rightarrow> governed_result harness" where
  "enforcement_receipt env cfg d v result_hash s =
    (if \<not> pd_receipt_required d then governed_success v d s
     else hbind (write_harness_receipt env (hc_tool_name (hx_context s)) d) (\<lambda>ref s1.
         case ref of
           None \<Rightarrow>
             hbind (append_event_if_available env cfg ''mcp.tool.call.failed''
                      (call_event (hx_context s1)
                         [(''result_hash'', VStr result_hash),
                          (''policy_decision'', VStr (pd_decision d)),
                          (''failure_class'', VStr ''ReceiptWriteFailure'')]))
               (\<lambda>_. governed_failure ''receipt_write_failed'' (Some d)) s1
         | Some r \<Rightarrow>
             hbind (update_context (\<lambda>c. c\<lparr>hc_receipt_refs := hc_receipt_refs c @ [r]\<rparr>))
               (\<lambda>_. governed_success v d) s1) s)"

definition outcome_refs :: "string option \<Rightarrow> harness_context \<Rightarrow> harness_context" where
  "outcome_refs ref c =
    (case ref of
       None \<Rightarrow> c
     | Some out \<Rightarrow>
        (case hc_admission_receipt_ref c of
           None \<Rightarrow> c
         | Some adm \<Rightarrow> c\<lparr>hc_receipt_refs := hc_receipt_refs c @ [adm, out]\<rparr>))"

definition inner_returned ::
  "harness_env \<Rightarrow> harness_config \<Rightarrow> policy_decision \<Rightarrow> pyv \<Rightarrow> governed_result harness" where
  "inner_returned env cfg d v =
    (let h = stable_payload_hash (he_hash env) v in
     hbind (update_context (\<lambda>c. c\<lparr>hc_result_hash := Some h\<rparr>)) (\<lambda>_.
     hbind (bridge_outcome env ''result_returned'' None) (\<lambda>ref.
     hbind (update_context (outcome_refs ref)) (\<lambda>_ s.
     hbind (append_event_if_available env cfg ''mcp.tool.call.executed''
              (call_event (hx_context s) [(''result_hash'', VStr h),
                                          (''policy_decision'', VStr (pd_decision d))]))
       (\<lambda>_. enforcement_receipt env cfg d v h) s))))"

definition run_inner ::
  "harness_env \<Rightarrow> harness_config \<Rightarrow> policy_decision \<Rightarrow> pyv \<Rightarrow> governed_result harness" where
  "run_inner env cfg d arguments =
     hbind (call_harness_inner env arguments) (\<lambda>out.
       case out of
         InnerAborts \<Rightarrow> (\<lambda>s. (Inl InnerAborted, s))
       | InnerRaises cls \<Rightarrow> inner_failed env cfg d cls
       | InnerReturns v \<Rightarrow> inner_returned env cfg d v)"

definition admit_and_run ::
  "harness_env \<Rightarrow> harness_config \<Rightarrow> policy_decision \<Rightarrow> pyv \<Rightarrow> governed_result harness" where
  "admit_and_run env cfg d arguments =
    (if \<not> he_bridge env then run_inner env cfg d arguments
     else hbind (bridge_admission env (SrsAdmission ''admitted'' None None None)) (\<lambda>ok.
            if \<not> ok then governed_failure ''pre_execution_receipt_failure'' (Some d)
            else run_inner env cfg d arguments))"

section \<open>The wrapped handler\<close>

definition refuse_unhealthy ::
  "harness_env \<Rightarrow> harness_config \<Rightarrow> policy_decision \<Rightarrow> string \<Rightarrow> governed_result harness" where
  "refuse_unhealthy env cfg d reason =
     hbind (refused_quietly env ''required_sink_unavailable'') (\<lambda>_ s.
     hbind (append_event_if_available env cfg ''mcp.tool.call.rejected''
              (call_event (hx_context s) [(''policy_decision'', VStr (pd_decision d)),
                                          (''reason'', VStr reason)]))
       (\<lambda>_. governed_failure reason (Some d)) s)"

definition refuse_event ::
  "harness_env \<Rightarrow> harness_config \<Rightarrow> policy_decision \<Rightarrow> governed_result harness" where
  "refuse_event env cfg d s =
     hbind (append_event_if_available env cfg ''mcp.tool.call.rejected''
              (call_event (hx_context s) [(''policy_decision'', VStr (pd_decision d)),
                                          (''reason'', VStr (pd_reason d))]))
       (\<lambda>_. governed_failure (failure_reason_for_decision d) (Some d)) s"

definition refuse_by_policy ::
  "harness_env \<Rightarrow> harness_config \<Rightarrow> policy_decision \<Rightarrow> governed_result harness" where
  "refuse_by_policy env cfg d =
    (if \<not> he_bridge env then refuse_event env cfg d
     else hbind (bridge_admission env
                  (SrsAdmission ''refused''
                     (Some (if pd_reason d = ''unknown_tool'' then ''unknown_tool_fail_closed''
                            else ''policy_refused'')) None None)) (\<lambda>ok.
            if \<not> ok then governed_failure ''pre_execution_receipt_failure'' (Some d)
            else refuse_event env cfg d))"

definition dispatch_decision ::
  "harness_env \<Rightarrow> harness_config \<Rightarrow> pyv \<Rightarrow> policy_decision \<Rightarrow> tool_policy option
    \<Rightarrow> governed_result harness" where
  "dispatch_decision env cfg arguments d policy =
    (if pd_decision d \<in> set [''deny'', ''defer'', ''fail_closed''] then refuse_by_policy env cfg d
     else if pd_decision d = ''gate'' then
       (case arguments of
          VMap kvs \<Rightarrow> gate_call env cfg arguments d policy
        | _ \<Rightarrow> governed_failure ''tool_call_arguments_not_mapping'' (Some d))
     else admit_and_run env cfg d arguments)"

definition failure_behavior_of :: "profile_projection option \<Rightarrow> token" where
  "failure_behavior_of profile =
    (case profile of
       None \<Rightarrow> ''fail_closed''
     | Some p \<Rightarrow> sq_required_sink_failure_behavior (hj_sink_requirements (pj_harness p)))"

definition decide_and_dispatch ::
  "harness_env \<Rightarrow> harness_config \<Rightarrow> tool_policy dict \<Rightarrow> profile_projection option \<Rightarrow> string \<Rightarrow> pyv
    \<Rightarrow> governed_result harness" where
  "decide_and_dispatch env cfg policies profile tool_name arguments =
    (let policy = dget policies tool_name; d = evaluate_policy tool_name cfg policy in
     hbind (update_context (\<lambda>c. c\<lparr>hc_attestation_limits := pd_attestation_limits d\<rparr>)) (\<lambda>_.
     hbind (check_effective_required_sinks env (failure_behavior_of profile)
              (effective_required_sinks d profile)) (\<lambda>failure.
       case failure of
         Some reason \<Rightarrow> refuse_unhealthy env cfg d reason
       | None \<Rightarrow> dispatch_decision env cfg arguments d policy)))"

definition announce_and_decide ::
  "harness_env \<Rightarrow> harness_config \<Rightarrow> tool_policy dict \<Rightarrow> profile_projection option \<Rightarrow> string \<Rightarrow> pyv
    \<Rightarrow> governed_result harness" where
  "announce_and_decide env cfg policies profile tool_name arguments s =
     hbind (safe_write_event env cfg ''mcp.tool.call.requested''
              (call_event (hx_context s) [(''adapter_type'', VStr (hg_adapter_type cfg)),
                                          (''module_id'', VStr (hg_module_id cfg))])) (\<lambda>ref.
       case ref of
         None \<Rightarrow> governed_failure ''event_sink_unavailable'' None
       | Some r \<Rightarrow>
           hbind (chain_event (Some r))
             (\<lambda>_. decide_and_dispatch env cfg policies profile tool_name arguments)) s"

definition initial_state ::
  "harness_env \<Rightarrow> harness_config \<Rightarrow> string \<Rightarrow> pyv \<Rightarrow> pydict \<Rightarrow> harness_state" where
  "initial_state env cfg tool_name arguments ctx =
     \<lparr>hx_context = build_context (he_hash env) cfg tool_name
        (stable_payload_hash (he_hash env) arguments) ctx,
      hx_events = [], hx_event_calls = 0, hx_health_calls = 0, hx_receipts = [], hx_reviews = [],
      hx_srs = [], hx_runs = []\<rparr>"

definition wrapped ::
  "harness_env \<Rightarrow> harness_config \<Rightarrow> policies_input \<Rightarrow> profile_projection option \<Rightarrow> string \<Rightarrow> pyv
    \<Rightarrow> pydict \<Rightarrow> (harness_escape, governed_result) result \<times> harness_state" where
  "wrapped env cfg policies profile tool_name arguments ctx =
     hbind (check_required_sink env (failure_behavior_of profile) ''event'') (\<lambda>failure.
       case failure of
         Some reason \<Rightarrow> governed_failure reason None
       | None \<Rightarrow> announce_and_decide env cfg (normalize_policies policies) profile tool_name
                  arguments)
       (initial_state env cfg tool_name arguments ctx)"

end
