(* ===== verification/HarnessFacts.thy ===== *)
theory HarnessFacts
  imports EnforcementHarness DispositionFacts
begin

text \<open>Facts about the enforcement harness: when the inner handler runs, which signed receipts a call
  leaves, and that nothing but the run of the handler depends on more of the arguments than their
  hash. The steps compose through \<^verbatim>\<open>hbind\<close>, so each fact is a small calculus with one rule per
  step, collected for the automation.\<close>

named_theorems keeps \<open>steps that do not run the inner handler\<close>

section \<open>Views of the state that steps keep\<close>

text \<open>A view that looks at nothing the unsigned sinks and the checks touch is kept by every step but
  the bridge and the call of the handler.\<close>

locale harness_frame =
  fixes view :: "harness_state \<Rightarrow> 'p"
  assumes view_context:
      "hc_tool_name c = hc_tool_name (hx_context s) \<Longrightarrow>
       hc_admission_receipt_ref c = hc_admission_receipt_ref (hx_context s) \<Longrightarrow>
       view (s\<lparr>hx_context := c\<rparr>) = view s"
    and view_events: "view (s\<lparr>hx_event_calls := n, hx_events := es\<rparr>) = view s"
    and view_calls: "view (s\<lparr>hx_event_calls := n\<rparr>) = view s"
    and view_health: "view (s\<lparr>hx_health_calls := n\<rparr>) = view s"
    and view_receipts: "view (s\<lparr>hx_receipts := rs\<rparr>) = view s"
    and view_reviews: "view (s\<lparr>hx_reviews := rv\<rparr>) = view s"
begin

definition kept :: "'a harness \<Rightarrow> bool" where
  "kept m = (\<forall>s. view (snd (m s)) = view s)"

lemma keptD: "kept m \<Longrightarrow> view (snd (m s)) = view s"
  by (simp add: kept_def)

lemma keptD2: "kept m \<Longrightarrow> m s = (r, s') \<Longrightarrow> view s' = view s"
  using keptD[of m s] by simp

lemma kept_hreturn [keeps]: "kept (hreturn x)"
  by (simp add: kept_def hreturn_def)

lemma kept_hbind [keeps]:
  assumes "kept m" "\<And>x. kept (f x)"
  shows "kept (hbind m f)"
  unfolding kept_def
proof
  fix s
  obtain r s1 where m: "m s = (r, s1)" by fastforce
  show "view (snd (hbind m f s)) = view s"
    using keptD2[OF assms(1) m] keptD[OF assms(2)] by (cases r) (simp_all add: hbind_def m)
qed

lemma kept_state: "(\<And>s. kept (m s)) \<Longrightarrow> kept (\<lambda>s. m s s)"
  by (simp add: kept_def)

lemma kept_hbind_at [keeps]:
  assumes "\<And>s. kept (m s)" "\<And>x. kept (f x)"
  shows "kept (\<lambda>s. hbind (m s) f s)"
  by (rule kept_state) (intro kept_hbind assms)

lemma kept_case_option [keeps]:
  "kept m \<Longrightarrow> (\<And>x. kept (f x)) \<Longrightarrow> kept (case r of None \<Rightarrow> m | Some x \<Rightarrow> f x)"
  "kept m \<Longrightarrow> (\<And>x. kept (f x)) \<Longrightarrow> kept (\<lambda>s. case r of None \<Rightarrow> m s | Some x \<Rightarrow> f x s)"
  by (cases r; simp)+

lemma kept_if [keeps]:
  "kept m \<Longrightarrow> kept n \<Longrightarrow> kept (if b then m else n)"
  "kept m \<Longrightarrow> kept n \<Longrightarrow> kept (\<lambda>s. if b then m s else n s)"
  by (cases b; simp)+

lemma kept_update [keeps]:
  "(\<And>c. hc_tool_name (f c) = hc_tool_name c) \<Longrightarrow>
   (\<And>c. hc_admission_receipt_ref (f c) = hc_admission_receipt_ref c) \<Longrightarrow> kept (update_context f)"
  by (simp add: kept_def update_context_def view_context)

lemma kept_failure [keeps]: "kept (governed_failure r d)"
  by (simp add: kept_def governed_failure_def Let_def)

lemma kept_success [keeps]: "kept (governed_success v d)"
  by (simp add: kept_def governed_success_def Let_def)

lemma kept_required_sink [keeps]: "kept (check_required_sink env b n)"
  by (simp add: kept_def check_required_sink_def Let_def view_context view_health split: option.splits)

lemma kept_effective [keeps]: "kept (check_effective_required_sinks env b ns)"
  by (induction env b ns rule: check_effective_required_sinks.induct) (auto intro!: keeps)

lemma kept_write_event [keeps]: "kept (safe_write_event env cfg t d)"
  by (simp add: kept_def safe_write_event_def Let_def view_events view_calls
      split: write_outcome.splits)

lemma kept_chain [keeps]: "kept (chain_event r)"
  by (cases r) (auto simp: chain_event_def intro!: keeps)

lemma kept_append_event [keeps]: "kept (append_event_if_available env cfg t d)"
  by (auto simp: append_event_if_available_def intro!: keeps)

lemma kept_write_receipt [keeps]: "kept (write_harness_receipt env t d)"
  by (simp add: kept_def write_harness_receipt_def view_receipts split: write_outcome.splits)

lemma kept_gate_receipt [keeps]: "kept (gate_receipt env d)"
  unfolding gate_receipt_def[abs_def] by (auto intro!: keeps)

lemma kept_gate_events [keeps]: "kept (gate_events env cfg d ref)"
  unfolding gate_events_def[abs_def] by (auto intro!: keeps)

lemma kept_refuse_event [keeps]: "kept (refuse_event env cfg d)"
  unfolding refuse_event_def[abs_def] by (auto intro!: keeps)

lemma append_admission_keeps [simp]:
  "hc_tool_name (append_admission_ref c) = hc_tool_name c"
  "hc_admission_receipt_ref (append_admission_ref c) = hc_admission_receipt_ref c"
  by (simp_all add: append_admission_ref_def split: option.splits)

lemma outcome_refs_keeps [simp]:
  "hc_tool_name (outcome_refs r c) = hc_tool_name c"
  "hc_admission_receipt_ref (outcome_refs r c) = hc_admission_receipt_ref c"
  by (simp_all add: outcome_refs_def split: option.splits)

lemma kept_enforcement_receipt [keeps]: "kept (enforcement_receipt env cfg d v h)"
  unfolding enforcement_receipt_def[abs_def] by (auto intro!: keeps)

end

text \<open>A view that does not look at the signed receipts either is kept by the bridge too.\<close>

locale harness_bridge_frame = harness_frame view for view :: "harness_state \<Rightarrow> 'p" +
  assumes view_admission: "hc_tool_name c = hc_tool_name (hx_context s) \<Longrightarrow>
      view (s\<lparr>hx_srs := es, hx_context := c\<rparr>) = view s"
    and view_srs: "view (s\<lparr>hx_srs := es\<rparr>) = view s"
begin

lemma kept_admission [keeps]: "kept (bridge_admission env em)"
  by (simp add: kept_def bridge_admission_def view_admission split: option.splits)

lemma kept_outcome [keeps]: "kept (bridge_outcome env out cls)"
  by (simp add: kept_def bridge_outcome_def view_srs split: option.splits)

lemma kept_quiet [keeps]: "kept (refused_quietly env r)"
  by (auto simp: refused_quietly_def intro!: keeps)

lemma kept_gate_reviewed [keeps]: "kept (gate_reviewed env cfg d ref)"
  by (auto simp: gate_reviewed_def intro!: keeps)

lemma kept_gate_call [keeps]: "kept (gate_call env cfg a d p)"
proof -
  have "kept (hbind (refused_quietly env r) (\<lambda>_. governed_failure q (Some d)))"
    "kept (governed_failure q (Some d))" "kept (gate_reviewed env cfg d ref)" for r q ref
    by (auto intro!: keeps)
  then show ?thesis
    by (auto simp: kept_def gate_call_def view_reviews split: sum.splits option.splits)
qed

lemma kept_unhealthy [keeps]: "kept (refuse_unhealthy env cfg d r)"
  by (auto simp: refuse_unhealthy_def intro!: keeps)

lemma kept_policy [keeps]: "kept (refuse_by_policy env cfg d)"
  by (auto simp: refuse_by_policy_def intro!: keeps)

lemma kept_inner_failed [keeps]: "kept (inner_failed env cfg d cls)"
  by (auto simp: inner_failed_def intro!: keeps)

lemma kept_inner_returned [keeps]: "kept (inner_returned env cfg d v)"
  unfolding inner_returned_def Let_def by (auto intro!: keeps)

end

interpretation runs_view: harness_bridge_frame
  "\<lambda>s. (hx_runs s, hc_tool_name (hx_context s))"
  by unfold_locales simp_all

interpretation srs_view: harness_frame
  "\<lambda>s. (hx_srs s, hx_runs s, hc_admission_receipt_ref (hx_context s))"
  by unfold_locales simp_all

lemma keeps_runsD:
  "runs_view.kept m \<Longrightarrow> hx_runs (snd (m s)) = hx_runs s"
  "runs_view.kept m \<Longrightarrow> hc_tool_name (hx_context (snd (m s))) = hc_tool_name (hx_context s)"
  using runs_view.keptD[of m s] by simp_all

section \<open>When the handler runs\<close>

lemma run_inner_runs:
  "hx_runs (snd (run_inner env cfg d a s)) =
     hx_runs s @ (if he_callable env then [(hc_tool_name (hx_context s), a)] else [])"
  using keeps_runsD(1)[OF runs_view.kept_inner_failed] keeps_runsD(1)[OF runs_view.kept_inner_returned]
  by (auto simp: run_inner_def hbind_def call_harness_inner_def split: inner_outcome.splits)

lemma admit_runs:
  "hx_runs (snd (admit_and_run env cfg d a s)) =
     hx_runs s @ (if he_callable env \<and> (\<not> he_bridge env \<or> he_admission env \<noteq> None)
                  then [(hc_tool_name (hx_context s), a)] else [])"
  using keeps_runsD(1)[OF runs_view.kept_failure]
  by (auto simp: admit_and_run_def run_inner_runs hbind_def bridge_admission_def
      split: option.splits)

definition decision_runs :: "policy_decision \<Rightarrow> bool" where
  "decision_runs d = (pd_decision d \<notin> set [''deny'', ''defer'', ''fail_closed'', ''gate''])"

lemma dispatch_runs:
  "hx_runs (snd (dispatch_decision env cfg a d p s)) =
     hx_runs s @ (if decision_runs d \<and> he_callable env \<and> (\<not> he_bridge env \<or> he_admission env \<noteq> None)
                  then [(hc_tool_name (hx_context s), a)] else [])"
  using keeps_runsD(1)[OF runs_view.kept_policy] keeps_runsD(1)[OF runs_view.kept_gate_call]
    keeps_runsD(1)[OF runs_view.kept_failure]
  by (auto simp: dispatch_decision_def decision_runs_def admit_runs split: pyv.splits)

text \<open>All named sinks are present and answer that they are usable, the health calls being numbered
  from the given one.\<close>

fun sinks_healthy :: "harness_env \<Rightarrow> token \<Rightarrow> nat \<Rightarrow> string list \<Rightarrow> bool" where
  "sinks_healthy env behavior k [] = True"
| "sinks_healthy env behavior k (n # ns) =
     (sink_present env (normalize_sink_name n)
      \<and> (case he_health env k (normalize_sink_name n) of
           None \<Rightarrow> False
         | Some h \<Rightarrow> health_failure behavior (normalize_sink_name n) h = None)
      \<and> sinks_healthy env behavior (Suc k) ns)"

lemma failure_reason_nonempty:
  "sink_failure_reason n \<noteq> []" "health_failure b n h \<noteq> Some []"
  by (simp_all add: sink_failure_reason_def health_failure_def)

lemma required_sink_cases:
  obtains s' where "check_required_sink env b n s = (Inr None, s')"
    "sinks_healthy env b (hx_health_calls s) [n]" "hx_health_calls s' = Suc (hx_health_calls s)"
    "hx_event_calls s' = hx_event_calls s"
  | s' r where "check_required_sink env b n s = (Inr (Some r), s')" "r \<noteq> []"
    "\<not> sinks_healthy env b (hx_health_calls s) [n]" "hx_event_calls s' = hx_event_calls s"
proof (cases "check_required_sink env b n s")
  case (Pair out s')
  define m where "m = normalize_sink_name n"
  show ?thesis
  proof (cases "sink_present env m")
    case False
    then show ?thesis using that(2) Pair failure_reason_nonempty(1)
      by (simp add: check_required_sink_def Let_def m_def)
  next
    case True
    show ?thesis
    proof (cases "he_health env (hx_health_calls s) m")
      case None
      then show ?thesis using that(2) Pair True failure_reason_nonempty(1)
        by (auto simp: check_required_sink_def Let_def m_def)
    next
      case (Some h)
      have eq: "out = Inr (health_failure b m h)" "hx_health_calls s' = Suc (hx_health_calls s)"
        "hx_event_calls s' = hx_event_calls s"
        using Pair True Some by (auto simp: check_required_sink_def Let_def m_def)
      have h: "sinks_healthy env b (hx_health_calls s) [n] = (health_failure b m h = None)"
        using True Some by (simp add: m_def)
      show ?thesis
      proof (cases "health_failure b m h")
        case None
        show ?thesis by (rule that(1)[of s']) (use None Pair eq h in simp_all)
      next
        case (Some r)
        have "r \<noteq> []" using Some failure_reason_nonempty(2)[of b m h] by auto
        then show ?thesis by (intro that(2)[of r s']) (use Some Pair eq h in simp_all)
      qed
    qed
  qed
qed

lemma effective_sinks_cases:
  obtains s' where "check_effective_required_sinks env b ns s = (Inr None, s')"
    "sinks_healthy env b (hx_health_calls s) ns"
  | s' r where "check_effective_required_sinks env b ns s = (Inr (Some r), s')"
    "\<not> sinks_healthy env b (hx_health_calls s) ns"
proof (induction ns arbitrary: s thesis)
  case Nil
  then show ?case by (simp add: hreturn_def)
next
  case (Cons n ns)
  show ?case
  proof (cases rule: required_sink_cases[of env b n s])
    case (1 s1)
    show ?thesis
      by (rule Cons.IH[of s1]) (use 1 Cons.prems in \<open>auto simp: hbind_def\<close>)
  next
    case (2 s1 r)
    then show ?thesis using Cons.prems(2) by (auto simp: hbind_def hreturn_def)
  qed
qed

definition harness_admits ::
  "harness_env \<Rightarrow> harness_config \<Rightarrow> policies_input \<Rightarrow> profile_projection option \<Rightarrow> string \<Rightarrow> bool" where
  "harness_admits env cfg policies profile tool_name =
    (let d = evaluate_policy tool_name cfg (dget (normalize_policies policies) tool_name);
         b = failure_behavior_of profile in
     sinks_healthy env b 0 [''event'']
     \<and> (case he_event env 0 of Wrote _ \<Rightarrow> True | _ \<Rightarrow> False)
     \<and> sinks_healthy env b 1 (effective_required_sinks d profile)
     \<and> decision_runs d \<and> (\<not> he_bridge env \<or> he_admission env \<noteq> None) \<and> he_callable env)"

lemma decide_runs:
  assumes "hx_health_calls s = 1" "hc_tool_name (hx_context s) = tool_name"
  shows "hx_runs (snd (decide_and_dispatch env cfg pols profile tool_name a s)) = hx_runs s @
    (let d = evaluate_policy tool_name cfg (dget pols tool_name) in
     if sinks_healthy env (failure_behavior_of profile) 1 (effective_required_sinks d profile)
        \<and> decision_runs d \<and> (\<not> he_bridge env \<or> he_admission env \<noteq> None) \<and> he_callable env
     then [(tool_name, a)] else [])"
proof -
  define d where "d = evaluate_policy tool_name cfg (dget pols tool_name)"
  define b where "b = failure_behavior_of profile"
  define s0 where "s0 = s\<lparr>hx_context := (hx_context s)\<lparr>hc_attestation_limits := pd_attestation_limits d\<rparr>\<rparr>"
  have s0: "hx_runs s0 = hx_runs s" "hx_health_calls s0 = 1" "hc_tool_name (hx_context s0) = tool_name"
    using assms by (simp_all add: s0_def)
  have run: "decide_and_dispatch env cfg pols profile tool_name a s =
     hbind (check_effective_required_sinks env b (effective_required_sinks d profile)) (\<lambda>failure.
       case failure of Some reason \<Rightarrow> refuse_unhealthy env cfg d reason
       | None \<Rightarrow> dispatch_decision env cfg a d (dget pols tool_name)) s0"
    unfolding decide_and_dispatch_def Let_def d_def[symmetric] b_def[symmetric]
    by (simp add: hbind_def update_context_def s0_def)
  have kp: "hx_runs s' = hx_runs s \<and> hc_tool_name (hx_context s') = tool_name"
    if "check_effective_required_sinks env b (effective_required_sinks d profile) s0 = (r, s')" for r s'
    using keeps_runsD[OF runs_view.kept_effective, of env b "effective_required_sinks d profile" s0] that s0
    by simp
  show ?thesis
  proof (cases rule: effective_sinks_cases[of env b "effective_required_sinks d profile" s0])
    case (1 s1)
    then show ?thesis using kp[OF 1(1)] s0(2)
      by (simp add: run hbind_def dispatch_runs d_def[symmetric] b_def[symmetric] Let_def)
  next
    case (2 s1 r)
    then show ?thesis using kp[OF 2(1)] s0(2) keeps_runsD(1)[OF runs_view.kept_unhealthy]
      by (simp add: run hbind_def d_def[symmetric] b_def[symmetric] Let_def)
  qed
qed

lemma announce_runs:
  assumes "hx_health_calls s = 1" "hx_event_calls s = 0" "hc_tool_name (hx_context s) = tool_name"
  shows "hx_runs (snd (announce_and_decide env cfg pols profile tool_name a s)) = hx_runs s @
    (let d = evaluate_policy tool_name cfg (dget pols tool_name) in
     if (case he_event env 0 of Wrote _ \<Rightarrow> True | _ \<Rightarrow> False)
        \<and> sinks_healthy env (failure_behavior_of profile) 1 (effective_required_sinks d profile)
        \<and> decision_runs d \<and> (\<not> he_bridge env \<or> he_admission env \<noteq> None) \<and> he_callable env
     then [(tool_name, a)] else [])"
  using assms keeps_runsD(1)[OF runs_view.kept_failure]
  by (cases "he_event env 0")
     (simp_all add: announce_and_decide_def hbind_def safe_write_event_def Let_def chain_event_def
       update_context_def decide_runs)

lemma wrapped_runs:
  "hx_runs (snd (wrapped env cfg policies profile tool_name a ctx)) =
     (if harness_admits env cfg policies profile tool_name then [(tool_name, a)] else [])"
proof -
  define s0 where "s0 = initial_state env cfg tool_name a ctx"
  have s0: "hx_runs s0 = []" "hx_health_calls s0 = 0" "hx_event_calls s0 = 0"
    "hc_tool_name (hx_context s0) = tool_name"
    by (simp_all add: s0_def initial_state_def build_context_def)
  define b where "b = failure_behavior_of profile"
  have kp: "hx_runs s' = [] \<and> hc_tool_name (hx_context s') = tool_name"
    if "check_required_sink env b ''event'' s0 = (r, s')" for r s'
    using keeps_runsD[OF runs_view.kept_required_sink, of env b "''event''" s0] that s0 by simp
  show ?thesis
  proof (cases rule: required_sink_cases[of env b "''event''" s0])
    case (1 s1)
    then show ?thesis using kp[OF 1(1)] s0
      by (simp add: wrapped_def hbind_def announce_runs harness_admits_def Let_def
          s0_def[symmetric] b_def[symmetric] del: sinks_healthy.simps)
  next
    case (2 s1 r)
    then show ?thesis using kp[OF 2(1)] s0 keeps_runsD(1)[OF runs_view.kept_failure]
      by (simp add: wrapped_def hbind_def harness_admits_def Let_def s0_def[symmetric]
          b_def[symmetric] del: sinks_healthy.simps)
  qed
qed

text \<open>C10: The harness calls the inner handler exactly when the event sink is healthy and took the
  request event, every sink the policy or the profile requires is present and healthy, the
  decision is none of deny, defer, fail_closed and gate, and the admission receipt was accepted
  where a bridge is wired; then it is called once, with the tool and the arguments of the call.
  A decision outside the vocabulary therefore runs the handler.\<close>
theorem harness_runs_exactly:
  "hx_runs (snd (wrapped env cfg policies profile tool_name arguments ctx)) =
     (if harness_admits env cfg policies profile tool_name then [(tool_name, arguments)] else [])"
  by (rule wrapped_runs)

section \<open>The signed receipts of a call\<close>

text \<open>The signed receipts a call may leave: none, one admission, or an admitted admission followed by the
  outcome of the run that references it.\<close>

definition outcome_matches :: "inner_outcome \<Rightarrow> token \<Rightarrow> string option \<Rightarrow> bool" where
  "outcome_matches out o' cls =
    (case out of
       InnerReturns _ \<Rightarrow> o' = ''result_returned'' \<and> cls = None
     | InnerRaises c \<Rightarrow> o' = ''exception'' \<and> cls = Some c
     | InnerAborts \<Rightarrow> False)"

definition effective_inner :: "harness_env \<Rightarrow> inner_outcome" where
  "effective_inner env = (if he_callable env then he_inner env else InnerRaises ''TypeError'')"

definition srs_outcomes :: "harness_env \<Rightarrow> srs_emission list \<Rightarrow> bool" where
  "srs_outcomes env es =
    (case es of
       [] \<Rightarrow> True
     | [SrsOutcome adm o' cls] \<Rightarrow>
         he_bridge env \<and> he_admission env = Some adm \<and> outcome_matches (effective_inner env) o' cls
     | _ \<Rightarrow> False)"

definition srs_trace :: "harness_env \<Rightarrow> srs_emission list \<Rightarrow> bool" where
  "srs_trace env es =
    (case es of
       [] \<Rightarrow> True
     | SrsAdmission d reason ref retry # rest \<Rightarrow>
         he_bridge env \<and>
         (if d = ''admitted'' then reason = None \<and> ref = None \<and> retry = None \<and> srs_outcomes env rest
          else rest = [] \<and> (d = ''refused'' \<and> reason \<noteq> None \<and> ref = None
                 \<or> d = ''deferred_for_review'' \<and> reason = None \<and> ref = he_review env \<and> ref \<noteq> None))
     | _ \<Rightarrow> False)"

text \<open>The traces of a whole call, and of the part of it after the admission: the signed receipts and
  the runs of the handler. With a bridge the handler runs only behind an admitted admission.\<close>

type_synonym trace_pred = "srs_emission list \<Rightarrow> (string \<times> pyv) list \<Rightarrow> bool"

definition harness_trace :: "harness_env \<Rightarrow> trace_pred" where
  "harness_trace env new runs =
    (srs_trace env new
     \<and> (if he_bridge env \<and> runs \<noteq> [] then take 1 new = [SrsAdmission ''admitted'' None None None]
        else True))"

definition outcome_trace :: "harness_env \<Rightarrow> trace_pred" where
  "outcome_trace env new runs = srs_outcomes env new"

text \<open>A step adds receipts and runs for which the predicate holds.\<close>

definition adds :: "trace_pred \<Rightarrow> harness_state \<Rightarrow> 'a harness \<Rightarrow> bool" where
  "adds P s m = (\<exists>new runs. hx_srs (snd (m s)) = hx_srs s @ new
     \<and> hx_runs (snd (m s)) = hx_runs s @ runs \<and> P new runs)"

lemma addsI:
  "hx_srs (snd (m s)) = hx_srs s @ new \<Longrightarrow> hx_runs (snd (m s)) = hx_runs s @ runs \<Longrightarrow> P new runs \<Longrightarrow>
     adds P s m"
  by (auto simp: adds_def)

lemma adds_kept:
  assumes "srs_view.kept m" "P [] []"
  shows "adds P s m"
  using srs_view.keptD[OF assms(1), of s] assms(2) by (intro addsI[of m s "[]" "[]"]) simp_all

text \<open>Only the first step of a sequence adds receipts.\<close>

lemma adds_first:
  assumes "adds P s m" "\<And>x. srs_view.kept (f x)" "\<And>new runs. P new runs \<Longrightarrow> Q new runs"
  shows "adds Q s (hbind m f)"
proof -
  obtain r s1 where m: "m s = (r, s1)" by fastforce
  obtain new runs where new: "hx_srs s1 = hx_srs s @ new" "hx_runs s1 = hx_runs s @ runs" "P new runs"
    using assms(1) m by (auto simp: adds_def)
  have "hx_srs (snd (hbind m f s)) = hx_srs s1 \<and> hx_runs (snd (hbind m f s)) = hx_runs s1"
    using srs_view.keptD[OF assms(2)] by (cases r) (simp_all add: hbind_def m)
  then show ?thesis using new assms(3) by (auto simp: adds_def)
qed

text \<open>Only the later steps of a sequence add receipts.\<close>

lemma adds_later:
  assumes "srs_view.kept m"
    and "\<And>x s1. m s = (Inr x, s1) \<Longrightarrow>
           hc_admission_receipt_ref (hx_context s1) = hc_admission_receipt_ref (hx_context s) \<Longrightarrow>
           adds P s1 (f x)"
    and "P [] []"
  shows "adds P s (hbind m f)"
proof -
  obtain r s1 where m: "m s = (r, s1)" by fastforce
  have same: "hx_srs s1 = hx_srs s" "hx_runs s1 = hx_runs s"
    "hc_admission_receipt_ref (hx_context s1) = hc_admission_receipt_ref (hx_context s)"
    using srs_view.keptD2[OF assms(1) m] by simp_all
  show ?thesis
  proof (cases r)
    case (Inl e)
    then show ?thesis using same assms(3) by (intro addsI[of _ _ "[]" "[]"]) (simp_all add: hbind_def m)
  next
    case (Inr x)
    then show ?thesis using assms(2)[of x s1] same m by (auto simp: adds_def hbind_def)
  qed
qed

lemma outcome_adds:
  assumes "hc_admission_receipt_ref (hx_context s) = (if he_bridge env then he_admission env else None)"
    "outcome_matches (effective_inner env) o' cls"
  shows "adds (outcome_trace env) s (bridge_outcome env o' cls)"
proof (cases "he_bridge env \<and> he_admission env \<noteq> None \<and> he_outcome env \<noteq> None")
  case True
  then obtain adm ref where "he_admission env = Some adm" "he_outcome env = Some ref" by auto
  then show ?thesis using True assms
    by (intro addsI[of _ _ "[SrsOutcome adm o' cls]" "[]"])
       (auto simp: bridge_outcome_def srs_outcomes_def outcome_trace_def)
next
  case False
  then show ?thesis using assms(1)
    by (intro addsI[of _ _ "[]" "[]"])
       (auto simp: bridge_outcome_def srs_outcomes_def outcome_trace_def split: option.splits)
qed

lemma run_inner_adds:
  assumes "hc_admission_receipt_ref (hx_context s) = (if he_bridge env then he_admission env else None)"
  shows "adds (outcome_trace env) s (run_inner env cfg d a)"
proof -
  have nil: "outcome_trace env [] []" by (simp add: outcome_trace_def srs_outcomes_def)
  define s1 where "s1 = snd (call_harness_inner env a s)"
  have s1: "call_harness_inner env a s = (Inr (effective_inner env), s1)" "hx_srs s1 = hx_srs s"
    "hx_context s1 = hx_context s"
    "\<exists>runs. hx_runs s1 = hx_runs s @ runs"
    by (simp_all add: s1_def call_harness_inner_def effective_inner_def)
  have "adds (outcome_trace env) s1 (case effective_inner env of
         InnerAborts \<Rightarrow> (\<lambda>s. (Inl InnerAborted, s))
       | InnerRaises cls \<Rightarrow> inner_failed env cfg d cls
       | InnerReturns v \<Rightarrow> inner_returned env cfg d v)"
  proof (cases "effective_inner env")
    case (InnerReturns v)
    have "adds (outcome_trace env) s2 (bridge_outcome env ''result_returned'' None)"
      if "hc_admission_receipt_ref (hx_context s2) = hc_admission_receipt_ref (hx_context s1)" for s2
      using that assms s1(3) InnerReturns by (intro outcome_adds) (simp_all add: outcome_matches_def)
    then show ?thesis unfolding InnerReturns inner_returned_def Let_def inner_outcome.case
      by (intro adds_later[OF _ adds_first]) (auto intro!: keeps nil)
  next
    case (InnerRaises cls)
    have "adds (outcome_trace env) s1 (bridge_outcome env ''exception'' (Some cls))"
      using assms s1(3) InnerRaises by (intro outcome_adds) (simp_all add: outcome_matches_def)
    then show ?thesis unfolding InnerRaises inner_failed_def inner_outcome.case
      by (rule adds_first) (auto intro!: keeps)
  qed (auto simp: adds_def nil)
  then show ?thesis using s1 by (auto simp: adds_def run_inner_def hbind_def outcome_trace_def)
qed

text \<open>The admission of the bridge, and what may follow it.\<close>

lemma admission_adds:
  assumes "he_bridge env" "P [] []"
    and "\<And>ref s1. he_admission env = Some ref \<Longrightarrow>
           hc_admission_receipt_ref (hx_context s1) = Some ref \<Longrightarrow>
           adds (\<lambda>new. P (em # new)) s1 (f True)"
    and "srs_view.kept (f False)"
  shows "adds P s (hbind (bridge_admission env em) f)"
proof (cases "he_admission env")
  case None
  then show ?thesis using srs_view.keptD[OF assms(4), of s] assms(2)
    by (intro addsI[of _ _ "[]" "[]"]) (simp_all add: hbind_def bridge_admission_def)
next
  case (Some ref)
  define s1 where "s1 = s\<lparr>hx_srs := hx_srs s @ [em],
      hx_context := (hx_context s)\<lparr>hc_admission_receipt_ref := Some ref\<rparr>\<rparr>"
  have "adds (\<lambda>new. P (em # new)) s1 (f True)" using assms(3)[OF Some, of s1] by (simp add: s1_def)
  then show ?thesis using Some
    by (auto simp: adds_def hbind_def bridge_admission_def s1_def)
qed

lemma trace_nil: "harness_trace env [] []"
  by (simp add: harness_trace_def srs_trace_def)

lemma refused_adds:
  assumes "\<And>x. srs_view.kept (f x)"
  shows "adds (harness_trace env) s (hbind (refused_quietly env r) f)"
proof -
  have "adds (harness_trace env) s (hbind (bridge_admission env (SrsAdmission ''refused'' (Some r) None None))
      (\<lambda>_. hreturn ()))" if "he_bridge env"
    by (rule admission_adds) (auto simp: harness_trace_def srs_trace_def that intro!: adds_kept keeps)
  moreover have "adds (harness_trace env) s (hreturn ())"
    by (intro adds_kept keeps trace_nil)
  ultimately have "adds (harness_trace env) s (refused_quietly env r)"
    by (simp add: refused_quietly_def)
  then show ?thesis by (rule adds_first) (auto intro: assms)
qed

lemma gate_reviewed_adds:
  assumes "he_review env = Some ref"
  shows "adds (harness_trace env) s (gate_reviewed env cfg d ref)"
proof -
  have bridged: "adds (harness_trace env) s1 (hbind (bridge_admission env
      (SrsAdmission ''deferred_for_review'' None (Some ref) (Some ''retry_after_approval'')))
      (\<lambda>ok. if \<not> ok then governed_failure ''pre_execution_receipt_failure'' (Some d)
             else hbind (update_context append_admission_ref) (\<lambda>_. gate_events env cfg d ref)))"
    if "he_bridge env" for s1
    by (rule admission_adds)
       (auto simp: harness_trace_def srs_trace_def that assms intro!: adds_kept keeps)
  have plain: "adds (harness_trace env) s1 (gate_events env cfg d ref)" for s1
    by (intro adds_kept keeps trace_nil)
  show ?thesis unfolding gate_reviewed_def
    by (rule adds_later) (use bridged plain in \<open>auto intro!: keeps trace_nil\<close>)
qed

lemma gate_adds: "adds (harness_trace env) s (gate_call env cfg a d p)"
proof -
  have quiet: "adds (harness_trace env) s (hbind (refused_quietly env ''review_object_creation_failed'')
      (\<lambda>_. governed_failure ''review_object_sink_unavailable'' (Some d)))"
    by (intro refused_adds) (auto intro!: keeps)
  have fail: "adds (harness_trace env) s (governed_failure ''tool_call_disposition_invalid'' (Some d))"
    by (intro adds_kept keeps trace_nil)
  have rev: "adds (harness_trace env) (s\<lparr>hx_reviews := rs\<rparr>) (gate_reviewed env cfg d ref)"
    if "he_review env = Some ref" for ref rs
    by (rule gate_reviewed_adds[OF that])
  show ?thesis
    using quiet fail rev
    by (auto simp: adds_def gate_call_def split: sum.splits option.splits)
qed

lemma policy_adds: "adds (harness_trace env) s (refuse_by_policy env cfg d)"
proof (cases "he_bridge env")
  case True
  have "adds (harness_trace env) s (hbind (bridge_admission env (SrsAdmission ''refused'' (Some r) None None))
      (\<lambda>ok. if \<not> ok then governed_failure ''pre_execution_receipt_failure'' (Some d)
             else refuse_event env cfg d))" for r
    by (rule admission_adds) (auto simp: harness_trace_def srs_trace_def True intro!: adds_kept keeps)
  then show ?thesis using True by (simp add: refuse_by_policy_def)
next
  case False
  have "adds (harness_trace env) s (refuse_event env cfg d)" by (intro adds_kept keeps trace_nil)
  then show ?thesis using False by (simp add: refuse_by_policy_def)
qed

lemma no_outcomes_unbridged: "\<not> he_bridge env \<Longrightarrow> srs_outcomes env es \<Longrightarrow> es = []"
  by (cases es; cases "tl es") (auto simp: srs_outcomes_def split: srs_emission.splits)

lemma admit_adds:
  assumes "hc_admission_receipt_ref (hx_context s) = None"
  shows "adds (harness_trace env) s (admit_and_run env cfg d a)"
proof (cases "he_bridge env")
  case True
  have "adds (\<lambda>new. harness_trace env (SrsAdmission ''admitted'' None None None # new)) s1
      (run_inner env cfg d a)"
    if "he_admission env = Some ref" "hc_admission_receipt_ref (hx_context s1) = Some ref" for ref s1
    using run_inner_adds[of s1 env cfg d a] that True
    by (auto simp: adds_def harness_trace_def outcome_trace_def srs_trace_def)
  then have "adds (harness_trace env) s
      (hbind (bridge_admission env (SrsAdmission ''admitted'' None None None)) (\<lambda>ok.
            if \<not> ok then governed_failure ''pre_execution_receipt_failure'' (Some d)
            else run_inner env cfg d a))"
    by (intro admission_adds) (auto intro!: keeps trace_nil simp: True)
  then show ?thesis using True by (simp add: admit_and_run_def)
next
  case False
  have "adds (outcome_trace env) s (run_inner env cfg d a)"
    using run_inner_adds[of s env cfg d a] assms False by simp
  then obtain new runs where "srs_outcomes env new"
    "hx_srs (snd (run_inner env cfg d a s)) = hx_srs s @ new"
    "hx_runs (snd (run_inner env cfg d a s)) = hx_runs s @ runs"
    by (auto simp: adds_def outcome_trace_def)
  then show ?thesis using False no_outcomes_unbridged[OF False, of new]
    by (intro addsI[of _ _ "[]" runs]) (simp_all add: admit_and_run_def harness_trace_def srs_trace_def)
qed

lemma dispatch_adds:
  assumes "hc_admission_receipt_ref (hx_context s) = None"
  shows "adds (harness_trace env) s (dispatch_decision env cfg a d p)"
proof -
  have "adds (harness_trace env) s (governed_failure r (Some d))" for r
    by (intro adds_kept keeps trace_nil)
  then show ?thesis using gate_adds policy_adds admit_adds[OF assms]
    by (auto simp: dispatch_decision_def split: pyv.splits)
qed

lemma wrapped_adds:
  "harness_trace env (hx_srs (snd (wrapped env cfg policies profile tool_name a ctx)))
     (hx_runs (snd (wrapped env cfg policies profile tool_name a ctx)))"
proof -
  have unhealthy: "adds (harness_trace env) s (refuse_unhealthy env cfg d r)" for s d r
    unfolding refuse_unhealthy_def by (intro refused_adds) (auto intro!: keeps)
  have decide: "adds (harness_trace env) s (decide_and_dispatch env cfg pols profile tool_name a)"
    if "hc_admission_receipt_ref (hx_context s) = None" for s pols
    unfolding decide_and_dispatch_def Let_def
    by (intro adds_later)
       (auto intro!: keeps trace_nil unhealthy dispatch_adds that split: option.splits)
  have announce: "adds (harness_trace env) s (announce_and_decide env cfg pols profile tool_name a)"
    if "hc_admission_receipt_ref (hx_context s) = None" for s pols
  proof -
    have "adds (harness_trace env) s (hbind (safe_write_event env cfg t dt) (\<lambda>ref.
       case ref of
         None \<Rightarrow> governed_failure ''event_sink_unavailable'' None
       | Some r \<Rightarrow>
           hbind (chain_event (Some r))
             (\<lambda>_. decide_and_dispatch env cfg pols profile tool_name a)))" for t dt
    proof (rule adds_later)
      fix x and s1 :: harness_state
      assume a: "hc_admission_receipt_ref (hx_context s1) = hc_admission_receipt_ref (hx_context s)"
      have "adds (harness_trace env) s1 (governed_failure ''event_sink_unavailable'' None)"
        by (intro adds_kept keeps trace_nil)
      moreover have "adds (harness_trace env) s1 (hbind (chain_event (Some r))
          (\<lambda>_. decide_and_dispatch env cfg pols profile tool_name a))" for r
        by (rule adds_later) (use a that in \<open>auto intro!: keeps trace_nil decide\<close>)
      ultimately show "adds (harness_trace env) s1 (case x of
         None \<Rightarrow> governed_failure ''event_sink_unavailable'' None
       | Some r \<Rightarrow> hbind (chain_event (Some r))
             (\<lambda>_. decide_and_dispatch env cfg pols profile tool_name a))"
        by (cases x) simp_all
    qed (auto intro!: keeps trace_nil)
    then show ?thesis by (simp add: adds_def announce_and_decide_def)
  qed
  define s0 where "s0 = initial_state env cfg tool_name a ctx"
  have s0: "hx_srs s0 = []" "hx_runs s0 = []" "hc_admission_receipt_ref (hx_context s0) = None"
    by (simp_all add: s0_def initial_state_def build_context_def)
  have "adds (harness_trace env) s0 (hbind (check_required_sink env (failure_behavior_of profile) ''event'')
     (\<lambda>failure. case failure of
         Some reason \<Rightarrow> governed_failure reason None
       | None \<Rightarrow> announce_and_decide env cfg (normalize_policies policies) profile tool_name a))"
    using s0(3) by (intro adds_later)
      (auto intro!: keeps trace_nil adds_kept announce split: option.splits)
  then show ?thesis using s0(1,2) by (auto simp: adds_def wrapped_def s0_def)
qed

text \<open>C11: the signed receipts of a governed call. Whatever the sinks, the bridge, the policy and the
  inner handler do, a call leaves no signed receipt, one admission that refuses (with a reason) or
  defers to the review object that was written, or an admitted admission, followed by at most one
  outcome that references that admission and tells what the handler did. With a bridge the handler
  never runs unless an admitted admission was signed first; without one nothing is signed.\<close>
theorem harness_receipt_trace:
  "case wrapped env cfg policies profile tool_name arguments ctx of
     (_, s) \<Rightarrow>
       harness_trace env (hx_srs s) (hx_runs s) \<and> (he_bridge env \<or> hx_srs s = [])"
proof -
  have "srs_trace env es \<Longrightarrow> he_bridge env \<or> es = []" for es
    by (cases es) (auto simp: srs_trace_def split: srs_emission.splits)
  then show ?thesis using wrapped_adds[of env cfg policies profile tool_name arguments ctx]
    by (fastforce simp: harness_trace_def split: prod.splits)
qed

end
