(* ===== verification/GovernedAction.thy ===== *)
theory GovernedAction
  imports SrsEmissionFacts LifecycleCore "HOL-Library.List_Lexorder" "HOL-Library.Char_ord"
begin

text \<open>The product-neutral governed action
  (\<^verbatim>\<open>packages/dagr-mcp-core/src/dagr_mcp_core/lifecycle/governed_action.py\<close>): a request whose
  arguments are frozen before an identity is derived, a deterministic decision, and the receipts of
  one run. The receipt machinery and the planner it imports are verbatim forks of
  \<^verbatim>\<open>srs_receipts.py\<close> and \<^verbatim>\<open>dagr_mcp_lifecycle\<close>, so their definitions are used here. The
  executor's answer, the identifiers and the clock are inputs; text fields are typed, so the
  \<^verbatim>\<open>isinstance\<close> refusals of non-strings and non-frozensets have no branch.\<close>

section \<open>Vocabulary and validation\<close>

definition GOVERNED_ACTION_DECISION_LABELS :: "token list" where [vocab]:
  "GOVERNED_ACTION_DECISION_LABELS = [''allow'', ''refuse'', ''defer'']"

definition GOVERNED_ACTION_REASON_CODES :: "token list" where [vocab]:
  "GOVERNED_ACTION_REASON_CODES =
     [''policy_refused'', ''unknown_tool_fail_closed'', ''unknown_capability_fail_closed'',
      ''capability_mismatch'', ''scope_widening_attempt'', ''malformed_principal'',
      ''unknown_policy_fail_closed'', ''malformed_policy'', ''policy_version_mismatch'']"

datatype action_error =
    EmptyText string
  | NotPrincipalShaped string
  | NotPolicyShaped string
  | UnsupportedSemanticValue
  | UnknownActionDecision token
  | UnknownActionReason token
  | DigestFault receipt_error
  | AdmissionFault receipt_error
  | OutcomeFault receipt_error
  | PlanFault core_error
  | PlannedRecordMissing
  | ExecutorAborted

definition validate_non_empty_text :: "string \<Rightarrow> string \<Rightarrow> (action_error, unit) result" where
  "validate_non_empty_text name v = require (\<not> blank v) (EmptyText name)"

definition validate_principal_ref :: "string \<Rightarrow> string \<Rightarrow> (action_error, unit) result" where
  "validate_principal_ref name v =
     rbind (validate_non_empty_text name v) (\<lambda>_. require (CHR '':'' \<in> set v) (NotPrincipalShaped name))"

definition validate_policy_ref :: "string \<Rightarrow> string \<Rightarrow> (action_error, unit) result" where
  "validate_policy_ref name v =
     rbind (validate_non_empty_text name v) (\<lambda>_. require (CHR '':'' \<in> set v) (NotPolicyShaped name))"

section \<open>Freezing caller values\<close>

definition frozen_mapping :: "pydict \<Rightarrow> pyv" where
  "frozen_mapping kvs =
     VTuple [VStr ''__mapping__'', VTuple (map (\<lambda>(k, v). VTuple [VStr k, v]) (sort_key fst kvs))]"

definition frozen_sequence :: "pyv list \<Rightarrow> pyv" where
  "frozen_sequence xs = VTuple [VStr ''__sequence__'', VTuple xs]"

fun freeze_value :: "pyv \<Rightarrow> (action_error, pyv) result"
  and freeze_items :: "(string \<times> pyv) list \<Rightarrow> (action_error, (string \<times> pyv) list) result"
  and freeze_list :: "pyv list \<Rightarrow> (action_error, pyv list) result" where
  "freeze_value (VMap kvs) = rbind (freeze_items kvs) (\<lambda>fs. Inr (frozen_mapping fs))"
| "freeze_value (VList xs) = rbind (freeze_list xs) (\<lambda>ys. Inr (frozen_sequence ys))"
| "freeze_value (VTuple xs) = rbind (freeze_list xs) (\<lambda>ys. Inr (frozen_sequence ys))"
| "freeze_value (VBytes _) = Inl UnsupportedSemanticValue"
| "freeze_value (VObj _) = Inl UnsupportedSemanticValue"
| "freeze_value VNone = Inr VNone"
| "freeze_value (VBool b) = Inr (VBool b)"
| "freeze_value (VInt i) = Inr (VInt i)"
| "freeze_value (VFloat x) = Inr (VFloat x)"
| "freeze_value (VStr s) = Inr (VStr s)"
| "freeze_items [] = Inr []"
| "freeze_items ((k, v) # kvs) =
     rbind (freeze_value v) (\<lambda>f. rbind (freeze_items kvs) (\<lambda>fs. Inr ((k, f) # fs)))"
| "freeze_list [] = Inr []"
| "freeze_list (x # xs) = rbind (freeze_value x) (\<lambda>y. rbind (freeze_list xs) (\<lambda>ys. Inr (y # ys)))"

text \<open>Thawing a frozen value. Items of a tagged mapping that are not pairs make the code raise, which
  is the outcome \<^theory_text>\<open>None\<close> here; the freezer never produces them.\<close>

fun thaw_value :: "pyv \<Rightarrow> pyv option"
  and thaw_items :: "pyv list \<Rightarrow> pydict option"
  and thaw_list :: "pyv list \<Rightarrow> pyv list option" where
  "thaw_value (VTuple ts) =
    (case ts of
       [VStr tag, VTuple xs] \<Rightarrow>
         if tag = ''__mapping__'' then
           (case thaw_items xs of None \<Rightarrow> None | Some kvs \<Rightarrow> Some (VMap (dupdate [] kvs)))
         else if tag = ''__sequence__'' then
           (case thaw_list xs of None \<Rightarrow> None | Some ys \<Rightarrow> Some (VList ys))
         else Some (VTuple ts)
     | _ \<Rightarrow> Some (VTuple ts))"
| "thaw_value VNone = Some VNone"
| "thaw_value (VBool b) = Some (VBool b)"
| "thaw_value (VInt i) = Some (VInt i)"
| "thaw_value (VFloat x) = Some (VFloat x)"
| "thaw_value (VStr s) = Some (VStr s)"
| "thaw_value (VBytes s) = Some (VBytes s)"
| "thaw_value (VList xs) = Some (VList xs)"
| "thaw_value (VMap kvs) = Some (VMap kvs)"
| "thaw_value (VObj c) = Some (VObj c)"
| "thaw_items [] = Some []"
| "thaw_items (p # ps) =
    (case p of
       VTuple [VStr k, v] \<Rightarrow>
         (case thaw_value v of
            None \<Rightarrow> None
          | Some w \<Rightarrow> (case thaw_items ps of None \<Rightarrow> None | Some kvs \<Rightarrow> Some ((k, w) # kvs)))
     | _ \<Rightarrow> None)"
| "thaw_list [] = Some []"
| "thaw_list (x # xs) =
    (case thaw_value x of
       None \<Rightarrow> None
     | Some y \<Rightarrow> (case thaw_list xs of None \<Rightarrow> None | Some ys \<Rightarrow> Some (y # ys)))"

text \<open>Correlation metadata: the frozen pairs of the dictionary built from the given pairs.\<close>

definition freeze_correlation_metadata :: "pydict \<Rightarrow> (action_error, pydict) result" where
  "freeze_correlation_metadata pairs =
     rbind (freeze_items (dupdate [] pairs)) (\<lambda>fs. Inr (sort_key fst fs))"

section \<open>Requests\<close>

record action_config =
  gc_policy_ref :: string
  gc_policy_version :: string
  gc_known :: "string list"
  gc_admitted :: "string list"
  gc_deferred :: "string list"
  gc_scopes :: "string list"
  gc_boundary_id :: string
  gc_runtime_instance_id :: string
  gc_policy_pack_id :: string
  gc_policy_pack_version :: string

definition validate_action_config :: "action_config \<Rightarrow> (action_error, unit) result" where
  "validate_action_config c =
     rbind (validate_policy_ref ''policy_ref'' (gc_policy_ref c)) (\<lambda>_.
       validate_non_empty_text ''policy_version'' (gc_policy_version c))"

record action_input =
  qi_request_ref :: string
  qi_principal_ref :: string
  qi_tool_name :: string
  qi_action_name :: string
  qi_requested_scope :: string
  qi_policy_ref :: string
  qi_policy_version :: string
  qi_arguments :: pyv
  qi_session_ref :: "string option"
  qi_correlation :: pydict

record action_request =
  aq_input :: action_input
  aq_snapshot :: pyv
  aq_correlation :: pydict
  aq_argument_digest :: string
  aq_identity :: string

definition digest :: "crypto \<Rightarrow> pyv \<Rightarrow> (action_error, string) result" where
  "digest cr v = map_err DigestFault (sha256_digest cr v)"

definition identity_payload :: "action_input \<Rightarrow> pyv \<Rightarrow> pyv" where
  "identity_payload q arguments =
     VMap [(''request_ref'', VStr (qi_request_ref q)),
           (''principal_ref'', VStr (qi_principal_ref q)),
           (''tool_name'', VStr (qi_tool_name q)), (''action_name'', VStr (qi_action_name q)),
           (''requested_scope'', VStr (qi_requested_scope q)),
           (''policy_ref'', VStr (qi_policy_ref q)),
           (''policy_version'', VStr (qi_policy_version q)),
           (''session_ref'', vopt (qi_session_ref q)),
           (''arguments_snapshot'', arguments)]"

definition validate_action_input :: "action_input \<Rightarrow> (action_error, unit) result" where
  "validate_action_input q =
     checks [validate_non_empty_text ''request_ref'' (qi_request_ref q),
             validate_principal_ref ''principal_ref'' (qi_principal_ref q),
             validate_non_empty_text ''tool_name'' (qi_tool_name q),
             validate_non_empty_text ''action_name'' (qi_action_name q),
             validate_non_empty_text ''requested_scope'' (qi_requested_scope q),
             validate_policy_ref ''policy_ref'' (qi_policy_ref q),
             validate_non_empty_text ''policy_version'' (qi_policy_version q)]"

definition validate_session :: "string option \<Rightarrow> (action_error, unit) result" where
  "validate_session s =
     (case s of None \<Rightarrow> Inr () | Some r \<Rightarrow> validate_non_empty_text ''session_ref'' r)"

text \<open>What the code reads back from a snapshot; a snapshot always thaws.\<close>

definition thawed :: "pyv \<Rightarrow> pyv" where
  "thawed f = (case thaw_value f of Some v \<Rightarrow> v | None \<Rightarrow> VNone)"

definition make_action_request :: "crypto \<Rightarrow> action_input \<Rightarrow> (action_error, action_request) result" where
  "make_action_request cr q =
     rbind (validate_action_input q) (\<lambda>_.
     rbind (freeze_value (qi_arguments q)) (\<lambda>snap.
     rbind (freeze_correlation_metadata (qi_correlation q)) (\<lambda>corr.
     rbind (validate_session (qi_session_ref q)) (\<lambda>_.
     rbind (digest cr (thawed snap)) (\<lambda>ad.
     rbind (digest cr (identity_payload q (thawed snap))) (\<lambda>ident.
       Inr \<lparr>aq_input = q, aq_snapshot = snap, aq_correlation = corr, aq_argument_digest = ad,
            aq_identity = ident\<rparr>))))))"

section \<open>Decisions\<close>

record action_decision =
  dn_request_identity :: string
  dn_decision :: token
  dn_capability :: string
  dn_scope :: string
  dn_policy_ref :: string
  dn_policy_version :: string
  dn_reason_code :: "token option"
  dn_correlation :: pydict
  dn_identity :: string

definition decision_payload :: "action_decision \<Rightarrow> pyv" where
  "decision_payload d =
     VMap [(''request_identity'', VStr (dn_request_identity d)),
           (''decision'', VStr (dn_decision d)), (''reason_code'', vopt (dn_reason_code d)),
           (''policy_ref'', VStr (dn_policy_ref d)),
           (''policy_version'', VStr (dn_policy_version d)),
           (''considered_capability'', VStr (dn_capability d)),
           (''considered_scope'', VStr (dn_scope d))]"

text \<open>The constructor of a decision: vocabulary, texts, metadata frozen again, identity.\<close>

definition make_decision :: "crypto \<Rightarrow> action_decision \<Rightarrow> (action_error, action_decision) result" where
  "make_decision cr d =
     rbind (require (dn_decision d \<in> set GOVERNED_ACTION_DECISION_LABELS)
              (UnknownActionDecision (dn_decision d))) (\<lambda>_.
     rbind (case dn_reason_code d of
              None \<Rightarrow> Inr ()
            | Some r \<Rightarrow> require (r \<in> set GOVERNED_ACTION_REASON_CODES) (UnknownActionReason r)) (\<lambda>_.
     rbind (checks [validate_non_empty_text ''considered_capability'' (dn_capability d),
                    validate_non_empty_text ''considered_scope'' (dn_scope d),
                    validate_non_empty_text ''policy_ref'' (dn_policy_ref d),
                    validate_non_empty_text ''policy_version'' (dn_policy_version d)]) (\<lambda>_.
     rbind (freeze_correlation_metadata (dn_correlation d)) (\<lambda>corr.
     rbind (digest cr (decision_payload d)) (\<lambda>ident.
       Inr (d\<lparr>dn_correlation := corr, dn_identity := ident\<rparr>))))))"

definition neutral_disposition :: "action_decision \<Rightarrow> token" where
  "neutral_disposition d =
     (if dn_decision d = ''allow'' then ''admitted''
      else if dn_decision d = ''refuse'' then ''refused'' else ''deferred'')"

definition classify_action :: "action_request \<Rightarrow> action_config \<Rightarrow> token \<times> token option" where
  "classify_action rq c =
    (let q = aq_input rq in
     if qi_policy_ref q \<noteq> gc_policy_ref c then (''refuse'', Some ''unknown_policy_fail_closed'')
     else if qi_policy_version q \<noteq> gc_policy_version c
     then (''refuse'', Some ''policy_version_mismatch'')
     else if qi_tool_name q \<notin> set (gc_known c)
     then (''refuse'', Some ''unknown_tool_fail_closed'')
     else if qi_tool_name q \<in> set (gc_deferred c) then (''defer'', None)
     else if qi_tool_name q \<notin> set (gc_admitted c) then (''refuse'', Some ''capability_mismatch'')
     else if gc_scopes c \<noteq> [] \<and> qi_requested_scope q \<notin> set (gc_scopes c)
     then (''refuse'', Some ''scope_widening_attempt'')
     else (''allow'', None))"

definition decide_governed_action ::
  "crypto \<Rightarrow> action_request \<Rightarrow> action_config \<Rightarrow> (action_error, action_decision) result" where
  "decide_governed_action cr rq c =
    (case classify_action rq c of
       (label, reason) \<Rightarrow>
         make_decision cr
           \<lparr>dn_request_identity = aq_identity rq, dn_decision = label,
            dn_capability = qi_tool_name (aq_input rq),
            dn_scope = qi_requested_scope (aq_input rq), dn_policy_ref = gc_policy_ref c,
            dn_policy_version = gc_policy_version c, dn_reason_code = reason,
            dn_correlation = aq_correlation rq, dn_identity = []\<rparr>)"

section \<open>Receipts and the run\<close>

datatype executor_outcome =
    ExecReturns pyv
  | ExecTimesOut string
  | ExecRaises string
  | ExecAborts

record action_env =
  an_identity :: signing_identity
  an_context :: receipt_context
  an_admission_stamp :: stamp
  an_outcome_stamp :: stamp
  an_executor :: executor_outcome

record action_result =
  ax_request :: action_request
  ax_decision :: action_decision
  ax_performed :: bool
  ax_outcome :: "token option"
  ax_exception_class :: "string option"
  ax_summary_digest :: "string option"
  ax_admission_ref :: string
  ax_outcome_ref :: "string option"
  ax_persisted :: bool
  ax_gap :: bool
  ax_identity :: string

record action_state =
  as_sink :: sink
  as_runs :: "pyv list"

definition action_crypto :: "action_env \<Rightarrow> crypto" where
  "action_crypto env = si_crypto (an_identity env)"

definition action_admission_args :: "action_request \<Rightarrow> action_decision \<Rightarrow> admission_args" where
  "action_admission_args rq d =
     \<lparr>aa_tool_name = qi_tool_name (aq_input rq), aa_argument_digest = aq_argument_digest rq,
      aa_disposition = neutral_disposition d, aa_review_object_ref = None,
      aa_retry_contract =
        (if dn_decision d = ''defer'' then Some ''retry_after_approval'' else None),
      aa_reason_code = dn_reason_code d, aa_limits = VTuple []\<rparr>"

definition action_emit_admission ::
  "action_env \<Rightarrow> action_request \<Rightarrow> action_decision \<Rightarrow> sink
    \<Rightarrow> (action_error, string) result \<times> sink" where
  "action_emit_admission env rq d sk =
    (case emit_admission (an_identity env) (an_context env) (an_admission_stamp env)
            (action_admission_args rq d) sk of
       (r, sk') \<Rightarrow> (map_err AdmissionFault r, sk'))"

definition ACTION_OUTCOME_TOKENS :: "token dict" where [vocab]:
  "ACTION_OUTCOME_TOKENS =
     [(''result'', ''result_returned''), (''error'', ''error_returned''),
      (''exception'', ''exception''), (''task_submitted'', ''task_submitted''),
      (''timeout'', ''exception''), (''cancellation'', ''indeterminate''),
      (''input_required'', ''indeterminate'')]"

definition admitted_plan :: admission_plan where
  "admitted_plan =
     \<lparr>ap_requested = ''admitted'', ap_resolved = ''admitted'', ap_record = None,
      ap_admission_recorded = True, ap_execution_proceeds = True\<rparr>"

definition action_observation :: "token \<Rightarrow> string option \<Rightarrow> execution_observation" where
  "action_observation out cls =
     \<lparr>ob_observation = out, ob_exception_class = cls, ob_input_required_mode = None\<rparr>"

text \<open>The arguments of the outcome receipt; the planned record exists because the plan proceeds.\<close>

definition action_outcome_args ::
  "crypto \<Rightarrow> string \<Rightarrow> token \<Rightarrow> pyv \<Rightarrow> string option \<Rightarrow> (action_error, outcome_args) result" where
  "action_outcome_args cr adm out v cls =
     rbind (map_err PlanFault (plan_outcome_strict admitted_plan (action_observation out cls))) (\<lambda>p.
     case op_record p of
       None \<Rightarrow> Inl PlannedRecordMissing
     | Some rec \<Rightarrow>
         rbind (if oi_carries_result_digest rec \<and> v \<noteq> VNone
                then rbind (digest cr v) (\<lambda>d. Inr (Some d)) else Inr None) (\<lambda>rd.
           Inr \<lparr>oa_admission_ref = adm,
                oa_outcome = (case dget ACTION_OUTCOME_TOKENS out of Some t \<Rightarrow> t | None \<Rightarrow> out),
                oa_result_digest = rd, oa_exception_class = oi_exception_class rec,
                oa_limits = VTuple [], oa_owned_fields = None\<rparr>))"

definition action_emit_outcome ::
  "action_env \<Rightarrow> string \<Rightarrow> token \<Rightarrow> pyv \<Rightarrow> string option \<Rightarrow> sink
    \<Rightarrow> (action_error, string) result \<times> sink" where
  "action_emit_outcome env adm out v cls sk =
    (case action_outcome_args (action_crypto env) adm out v cls of
       Inl e \<Rightarrow> (Inl e, sk)
     | Inr a \<Rightarrow>
        (case emit_outcome (an_identity env) (an_context env) (an_outcome_stamp env) a sk of
           (r, sk') \<Rightarrow> (map_err OutcomeFault r, sk')))"

definition receipt_payload ::
  "action_request \<Rightarrow> action_decision \<Rightarrow> bool \<Rightarrow> token option \<Rightarrow> string option \<Rightarrow> pyv" where
  "receipt_payload rq d performed out summary =
     VMap [(''request_identity'', VStr (aq_identity rq)),
           (''decision_identity'', VStr (dn_identity d)), (''decision'', VStr (dn_decision d)),
           (''execution_performed'', VBool performed), (''execution_outcome'', vopt out),
           (''execution_summary_digest'', vopt summary)]"

text \<open>The constructor of a result derives its identity from the other fields.\<close>

definition make_result :: "crypto \<Rightarrow> action_result \<Rightarrow> (action_error, action_result) result" where
  "make_result cr x =
     rbind (digest cr (receipt_payload (ax_request x) (ax_decision x) (ax_performed x)
              (ax_outcome x) (ax_summary_digest x)))
       (\<lambda>ident. Inr (x\<lparr>ax_identity := ident\<rparr>))"

definition not_performed :: "action_request \<Rightarrow> action_decision \<Rightarrow> string \<Rightarrow> action_result" where
  "not_performed rq d adm =
     \<lparr>ax_request = rq, ax_decision = d, ax_performed = False, ax_outcome = None,
      ax_exception_class = None, ax_summary_digest = None, ax_admission_ref = adm,
      ax_outcome_ref = None, ax_persisted = True, ax_gap = False, ax_identity = []\<rparr>"

definition summary_value :: "token \<Rightarrow> pyv \<Rightarrow> string option \<Rightarrow> pyv" where
  "summary_value out v cls =
     (if out = ''result'' \<or> out = ''error'' then v
      else VMap [(''execution_outcome'', VStr out), (''exception_class'', vopt cls)])"

text \<open>After the executor has answered: the summary digest, whose fault escapes, then the outcome
  receipt, whose fault is a gap.\<close>

definition settle_action ::
  "action_env \<Rightarrow> action_request \<Rightarrow> action_decision \<Rightarrow> string \<Rightarrow> token \<Rightarrow> pyv \<Rightarrow> string option
    \<Rightarrow> action_state \<Rightarrow> (action_error, action_result) result \<times> action_state" where
  "settle_action env rq d adm out v cls s =
    (case digest (action_crypto env) (summary_value out v cls) of
       Inl e \<Rightarrow> (Inl e, s)
     | Inr summary \<Rightarrow>
        (case action_emit_outcome env adm out v cls (as_sink s) of
           (r, sk) \<Rightarrow>
             (make_result (action_crypto env)
                \<lparr>ax_request = rq, ax_decision = d, ax_performed = True, ax_outcome = Some out,
                 ax_exception_class = cls, ax_summary_digest = Some summary,
                 ax_admission_ref = adm,
                 ax_outcome_ref = (case r of Inl _ \<Rightarrow> None | Inr ref \<Rightarrow> Some ref),
                 ax_persisted = (case r of Inl _ \<Rightarrow> False | Inr _ \<Rightarrow> True),
                 ax_gap = (case r of Inl _ \<Rightarrow> True | Inr _ \<Rightarrow> False), ax_identity = []\<rparr>,
              s\<lparr>as_sink := sk\<rparr>)))"

definition run_governed_action ::
  "action_env \<Rightarrow> action_config \<Rightarrow> action_request \<Rightarrow> action_state
    \<Rightarrow> (action_error, action_result) result \<times> action_state" where
  "run_governed_action env c rq s =
    (case decide_governed_action (action_crypto env) rq c of
       Inl e \<Rightarrow> (Inl e, s)
     | Inr d \<Rightarrow>
        (case action_emit_admission env rq d (as_sink s) of
           (Inl e, sk) \<Rightarrow> (Inl e, s\<lparr>as_sink := sk\<rparr>)
         | (Inr adm, sk) \<Rightarrow>
             if dn_decision d \<noteq> ''allow''
             then (make_result (action_crypto env) (not_performed rq d adm), s\<lparr>as_sink := sk\<rparr>)
             else
              (let s1 = s\<lparr>as_sink := sk, as_runs := as_runs s @ [thawed (aq_snapshot rq)]\<rparr> in
               case an_executor env of
                 ExecReturns v \<Rightarrow> settle_action env rq d adm ''result'' v None s1
               | ExecTimesOut cls \<Rightarrow> settle_action env rq d adm ''timeout'' VNone (Some cls) s1
               | ExecRaises cls \<Rightarrow> settle_action env rq d adm ''exception'' VNone (Some cls) s1
               | ExecAborts \<Rightarrow> (Inl ExecutorAborted, s1))))"

end
