(* ===== verification/GovernedActionFacts.thy ===== *)
theory GovernedActionFacts
  imports GovernedAction
begin

text \<open>Facts about governed actions: freezing loses only the order of keys and the difference between
  lists and tuples, a decision is exactly the closed policy table, and a run leaves one admission
  and at most one outcome that references it.\<close>

section \<open>Sorting by key\<close>

lemma insort_key_map_snd:
  "map (\<lambda>(k, v). (k, g v)) (insort_key fst x xs) =
     insort_key fst (fst x, g (snd x)) (map (\<lambda>(k, v). (k, g v)) xs)"
  by (induction xs) (auto split: prod.splits)

lemma sort_key_map_snd:
  "map (\<lambda>(k, v). (k, g v)) (sort_key fst xs) = sort_key fst (map (\<lambda>(k, v). (k, g v)) xs)"
proof (induction xs)
  case (Cons x xs)
  then show ?case by (cases x) (simp add: insort_key_map_snd)
qed simp

lemma set_insort_key_fst: "set (insort_key fst x xs) = insert x (set xs)"
  by (induction xs) auto

lemma dupdate_fresh:
  "distinct (dkeys d @ dkeys e) \<Longrightarrow> dupdate d e = d @ e"
proof (induction d e rule: dupdate.induct)
  case (2 d k v e)
  then have "k \<notin> set (dkeys d)" by simp
  then have "dset k v d = d @ [(k, v)]"
    by (induction d) auto
  then show ?case using 2 by (simp add: dkeys_def)
qed simp

lemma dupdate_wf: "wf_dict e \<Longrightarrow> dupdate [] e = e"
  by (rule dupdate_fresh[of "[]", simplified]) (simp add: wf_dict_def)

lemma dkeys_sort_key: "set (dkeys (sort_key fst d)) = set (dkeys d)" "wf_dict (sort_key fst d) = wf_dict d"
  by (simp_all add: dkeys_def wf_dict_def distinct_map)

section \<open>Freezing and thawing\<close>

text \<open>What a frozen value stands for: keys in order, tuples as lists.\<close>

fun normal_value :: "pyv \<Rightarrow> pyv"
  and normal_items :: "(string \<times> pyv) list \<Rightarrow> (string \<times> pyv) list"
  and normal_list :: "pyv list \<Rightarrow> pyv list" where
  "normal_value (VMap kvs) = VMap (sort_key fst (normal_items kvs))"
| "normal_value (VList xs) = VList (normal_list xs)"
| "normal_value (VTuple xs) = VList (normal_list xs)"
| "normal_value VNone = VNone"
| "normal_value (VBool b) = VBool b"
| "normal_value (VInt i) = VInt i"
| "normal_value (VFloat x) = VFloat x"
| "normal_value (VStr s) = VStr s"
| "normal_value (VBytes s) = VBytes s"
| "normal_value (VObj c) = VObj c"
| "normal_items [] = []"
| "normal_items ((k, v) # kvs) = (k, normal_value v) # normal_items kvs"
| "normal_list [] = []"
| "normal_list (x # xs) = normal_value x # normal_list xs"

lemma normal_items_map: "normal_items kvs = map (\<lambda>(k, v). (k, normal_value v)) kvs"
  by (induction kvs) auto

lemma normal_list_map: "normal_list xs = map normal_value xs"
  by (induction xs) auto

text \<open>Every mapping in the value has distinct keys, as a Python dictionary has.\<close>

fun dicts_ok :: "pyv \<Rightarrow> bool" where
  "dicts_ok (VMap kvs) = (wf_dict kvs \<and> list_all dicts_ok (map snd kvs))"
| "dicts_ok (VList xs) = list_all dicts_ok xs"
| "dicts_ok (VTuple xs) = list_all dicts_ok xs"
| "dicts_ok _ = True"

text \<open>Bytes or a foreign object occur in the value.\<close>

fun opaque :: "pyv \<Rightarrow> bool" where
  "opaque (VMap kvs) = list_ex opaque (map snd kvs)"
| "opaque (VList xs) = list_ex opaque xs"
| "opaque (VTuple xs) = list_ex opaque xs"
| "opaque (VBytes _) = True"
| "opaque (VObj _) = True"
| "opaque _ = False"

text \<open>Nothing in the value can be changed in place.\<close>

fun immutable :: "pyv \<Rightarrow> bool" where
  "immutable (VTuple xs) = list_all immutable xs"
| "immutable (VList _) = False"
| "immutable (VMap _) = False"
| "immutable (VObj _) = False"
| "immutable _ = True"

lemma freeze_items_Inr:
  "freeze_items kvs = Inr fs \<Longrightarrow>
     list_all2 (\<lambda>(k, v) (j, f). j = k \<and> freeze_value v = Inr f) kvs fs"
  by (induction kvs arbitrary: fs) (auto simp: rbind_Inr_iff)

lemma freeze_list_Inr:
  "freeze_list xs = Inr ys \<Longrightarrow> list_all2 (\<lambda>x y. freeze_value x = Inr y) xs ys"
  by (induction xs arbitrary: ys) (auto simp: rbind_Inr_iff)

lemma freeze_error_iff:
  "(\<exists>e. freeze_value v = Inl e) = opaque v"
  "(\<exists>e. freeze_items kvs = Inl e) = list_ex opaque (map snd kvs)"
  "(\<exists>e. freeze_list xs = Inl e) = list_ex opaque xs"
proof (induction v and kvs and xs rule: freeze_value_freeze_items_freeze_list.induct)
  case (12 k v kvs)
  then show ?case by (cases "freeze_value v"; cases "freeze_items kvs") auto
next
  case (14 x xs)
  then show ?case by (cases "freeze_value x"; cases "freeze_list xs") auto
next
  case (1 kvs)
  then show ?case by (cases "freeze_items kvs") auto
next
  case (2 xs)
  then show ?case by (cases "freeze_list xs") auto
next
  case (3 xs)
  then show ?case by (cases "freeze_list xs") auto
qed simp_all

lemma thaw_pairs:
  "list_all2 (\<lambda>(k, f) (j, w). j = k \<and> thaw_value f = Some w) fs ws \<Longrightarrow>
     thaw_items (map (\<lambda>(k, v). VTuple [VStr k, v]) fs) = Some ws"
  by (induction rule: list_all2_induct) auto

lemma thaw_sequence:
  assumes "list_all2 (\<lambda>y x. thaw_value y = Some (normal_value x) \<and> immutable y \<and> \<not> opaque y) ys xs"
  shows "thaw_value (frozen_sequence ys) = Some (VList (normal_list xs))"
    "immutable (frozen_sequence ys)" "\<not> opaque (frozen_sequence ys)"
proof -
  have "thaw_list ys = Some (normal_list xs) \<and> list_all immutable ys \<and> \<not> list_ex opaque ys"
    using assms by (induction rule: list_all2_induct) auto
  then show "thaw_value (frozen_sequence ys) = Some (VList (normal_list xs))"
    "immutable (frozen_sequence ys)" "\<not> opaque (frozen_sequence ys)"
    by (simp_all add: frozen_sequence_def)
qed

lemma freeze_thaw:
  "freeze_value v = Inr f \<Longrightarrow> dicts_ok v \<Longrightarrow>
     thaw_value f = Some (normal_value v) \<and> immutable f \<and> \<not> opaque f"
  "freeze_items kvs = Inr fs \<Longrightarrow> list_all dicts_ok (map snd kvs) \<Longrightarrow>
     dkeys fs = dkeys kvs \<and> normal_items kvs = map (\<lambda>(k, f). (k, the (thaw_value f))) fs \<and>
     list_all (\<lambda>f. thaw_value f \<noteq> None \<and> immutable f \<and> \<not> opaque f) (map snd fs)"
  "freeze_list xs = Inr ys \<Longrightarrow> list_all dicts_ok xs \<Longrightarrow>
     list_all2 (\<lambda>y x. thaw_value y = Some (normal_value x) \<and> immutable y \<and> \<not> opaque y) ys xs"
proof (induction v and kvs and xs arbitrary: f and fs and ys
    rule: freeze_value_freeze_items_freeze_list.induct)
  case (1 kvs)
  then obtain fs where fs: "freeze_items kvs = Inr fs" "f = frozen_mapping fs"
    by (auto simp: rbind_Inr_iff)
  with 1 have ih: "dkeys fs = dkeys kvs" "normal_items kvs = map (\<lambda>(k, f). (k, the (thaw_value f))) fs"
    "list_all (\<lambda>f. thaw_value f \<noteq> None \<and> immutable f \<and> \<not> opaque f) (map snd fs)"
    by auto
  have ok: "list_all (\<lambda>p. thaw_value (snd p) \<noteq> None \<and> immutable (snd p) \<and> \<not> opaque (snd p)) (sort_key fst fs)"
    using ih(3) by (simp add: list_all_iff)
  have "thaw_items (map (\<lambda>(k, v). VTuple [VStr k, v]) gs)
      = Some (map (\<lambda>(k, f). (k, the (thaw_value f))) gs)"
    if "list_all (\<lambda>p. thaw_value (snd p) \<noteq> None \<and> immutable (snd p) \<and> \<not> opaque (snd p)) gs" for gs
    using that by (intro thaw_pairs) (induction gs, auto)
  from this[OF ok] have t: "thaw_items (map (\<lambda>(k, v). VTuple [VStr k, v]) (sort_key fst fs))
      = Some (sort_key fst (normal_items kvs))"
    by (simp add: ih(2) sort_key_map_snd)
  have "wf_dict (sort_key fst (normal_items kvs))"
    using 1(3) by (simp add: dkeys_sort_key)
      (simp add: wf_dict_def normal_items_map dkeys_def case_prod_beta comp_def)
  then show ?case using t ok
    by (auto simp: fs(2) frozen_mapping_def dupdate_wf list_all_iff list_ex_iff split: prod.splits)
next
  case (2 xs)
  then obtain ys where ys: "freeze_list xs = Inr ys" "f = frozen_sequence ys"
    by (auto simp: rbind_Inr_iff)
  with 2 have ih: "list_all2 (\<lambda>y x. thaw_value y = Some (normal_value x) \<and> immutable y \<and> \<not> opaque y) ys xs"
    by auto
  then show ?case using thaw_sequence[OF ih] by (simp add: ys(2))
next
  case (3 xs)
  then obtain ys where ys: "freeze_list xs = Inr ys" "f = frozen_sequence ys"
    by (auto simp: rbind_Inr_iff)
  with 3 have ih: "list_all2 (\<lambda>y x. thaw_value y = Some (normal_value x) \<and> immutable y \<and> \<not> opaque y) ys xs"
    by auto
  then show ?case using thaw_sequence[OF ih] by (simp add: ys(2))
next
  case (12 k v kvs)
  then show ?case by (auto simp: rbind_Inr_iff)
next
  case (14 x xs)
  then show ?case by (auto simp: rbind_Inr_iff)
qed auto

text \<open>Freezing looks at a value only up to its normal form.\<close>

lemma sort_key_idem: "sort_key fst (sort_key fst xs) = sort_key fst xs"
  by (rule sort_key_id_if_sorted) (rule sorted_sort_key)

lemma freeze_items_total:
  "\<not> list_ex opaque (map snd kvs) \<Longrightarrow>
     freeze_items kvs = Inr (map (\<lambda>(k, v). (k, projr (freeze_value v))) kvs)"
proof (induction kvs)
  case (Cons p kvs)
  then show ?case using freeze_error_iff(1)[of "snd p"]
    by (cases p; cases "freeze_value (snd p)") (auto simp: list_ex_iff)
qed simp

lemma freeze_list_total:
  "\<not> list_ex opaque xs \<Longrightarrow> freeze_list xs = Inr (map (\<lambda>x. projr (freeze_value x)) xs)"
proof (induction xs)
  case (Cons x xs)
  then show ?case using freeze_error_iff(1)[of x]
    by (cases "freeze_value x") (auto simp: list_ex_iff)
qed simp

lemma opaque_normal:
  "opaque (normal_value v) = opaque v"
  "list_ex opaque (map snd (normal_items kvs)) = list_ex opaque (map snd kvs)"
  "list_ex opaque (normal_list xs) = list_ex opaque xs"
  by (induction v and kvs and xs rule: normal_value_normal_items_normal_list.induct)
     (auto simp: list_ex_iff)

lemma freeze_normal:
  "\<not> opaque v \<Longrightarrow> freeze_value (normal_value v) = freeze_value v"
  "\<not> list_ex opaque (map snd kvs) \<Longrightarrow>
     map (\<lambda>(k, v). (k, projr (freeze_value v))) (normal_items kvs)
       = map (\<lambda>(k, v). (k, projr (freeze_value v))) kvs"
  "\<not> list_ex opaque xs \<Longrightarrow> freeze_list (normal_list xs) = freeze_list xs"
proof (induction v and kvs and xs rule: normal_value_normal_items_normal_list.induct)
  case (1 kvs)
  have n: "\<not> list_ex opaque (map snd (sort_key fst (normal_items kvs)))"
    using 1(2) opaque_normal(2)[of kvs] by (simp add: list_ex_iff)
  have f: "freeze_items kvs = Inr (map (\<lambda>(k, v). (k, projr (freeze_value v))) kvs)"
    using 1(2) by (intro freeze_items_total) simp
  have g: "freeze_items (sort_key fst (normal_items kvs))
      = Inr (sort_key fst (map (\<lambda>(k, v). (k, projr (freeze_value v))) (normal_items kvs)))"
    using freeze_items_total[OF n] by (simp add: sort_key_map_snd)
  show ?case using 1 f g by (simp add: frozen_mapping_def sort_key_idem)
qed simp_all

lemma freeze_normal_iff:
  assumes "freeze_value v = Inr f" "freeze_value w = Inr g" "dicts_ok v" "dicts_ok w"
  shows "(f = g) = (normal_value v = normal_value w)"
proof
  assume "f = g"
  then show "normal_value v = normal_value w"
    using freeze_thaw(1)[OF assms(1,3)] freeze_thaw(1)[OF assms(2,4)] by simp
next
  assume n: "normal_value v = normal_value w"
  have "\<not> opaque v" "\<not> opaque w" using assms(1,2) freeze_error_iff(1) by (metis Inl_Inr_False)+
  then have "freeze_value v = freeze_value w" using freeze_normal(1)[of v] freeze_normal(1)[of w] n by simp
  then show "f = g" using assms(1,2) by simp
qed

text \<open>C32: Freezing caller arguments is a round trip up to the normal form. It fails exactly when bytes
  or a foreign object occur in the value; otherwise the snapshot is immutable at every depth, thaws
  to the value with its keys sorted and its tuples as lists, and two values have the same snapshot
  exactly when they have the same normal form.\<close>
theorem freeze_roundtrip:
  assumes "dicts_ok v" "dicts_ok w"
  shows "case freeze_value v of
      Inl e \<Rightarrow> e = UnsupportedSemanticValue \<and> opaque v
    | Inr f \<Rightarrow> \<not> opaque v \<and> immutable f \<and> thaw_value f = Some (normal_value v)
        \<and> (case freeze_value w of
             Inl _ \<Rightarrow> opaque w
           | Inr g \<Rightarrow> (f = g) = (normal_value v = normal_value w))"
proof -
  have err: "freeze_value x = Inl e \<Longrightarrow> e = UnsupportedSemanticValue" 
    "freeze_items ks = Inl e \<Longrightarrow> e = UnsupportedSemanticValue"
    "freeze_list xs = Inl e \<Longrightarrow> e = UnsupportedSemanticValue" for x ks xs e
    by (induction x and ks and xs rule: freeze_value_freeze_items_freeze_list.induct)
       (auto simp: rbind_Inl_iff)
  have op: "opaque x = (\<exists>e. freeze_value x = Inl e)" for x by (simp add: freeze_error_iff(1))
  show ?thesis
  proof (cases "freeze_value v")
    case (Inl e)
    then show ?thesis using err(1)[OF Inl] by (simp add: op)
  next
    case (Inr f)
    note t = freeze_thaw(1)[OF Inr assms(1)]
    show ?thesis
    proof (cases "freeze_value w")
      case (Inl e)
      then show ?thesis using Inr t by (simp add: op)
    next
      case (Inr g)
      then show ?thesis using \<open>freeze_value v = Inr f\<close> t
          freeze_normal_iff[OF \<open>freeze_value v = Inr f\<close> Inr assms] by (simp add: op)
    qed
  qed
qed

theorem freeze_roundtrip_witness:
  "\<exists>f. freeze_value (VMap [(''b'', VTuple [VInt 1]), (''a'', VNone)]) = Inr f
     \<and> thaw_value f = Some (VMap [(''a'', VNone), (''b'', VList [VInt 1])])"
proof -
  define v where "v = VMap [(''b'', VTuple [VInt 1]), (''a'', VNone)]"
  have ok: "dicts_ok v" by (simp add: v_def wf_dict_def)
  obtain f where f: "freeze_value v = Inr f" by (simp add: v_def)
  have "thaw_value f = Some (normal_value v)" using freeze_roundtrip[OF ok ok] f by simp
  moreover have "normal_value v = VMap [(''a'', VNone), (''b'', VList [VInt 1])]"
    by (simp add: v_def)
  ultimately show ?thesis using f by (auto simp: v_def)
qed

text \<open>The decision freezes the metadata of its request a second time, which wraps a nested value
  again: the metadata of the decision is not that of the request.\<close>

lemma metadata_frozen_twice:
  "freeze_correlation_metadata [(''t'', VList [VInt 1])] = Inr [(''t'', frozen_sequence [VInt 1])]"
  "freeze_correlation_metadata [(''t'', frozen_sequence [VInt 1])]
     = Inr [(''t'', frozen_sequence [VStr ''__sequence__'', frozen_sequence [VInt 1]])]"
  by (simp_all add: freeze_correlation_metadata_def frozen_sequence_def)

section \<open>Decisions\<close>

definition action_allowed :: "action_request \<Rightarrow> action_config \<Rightarrow> bool" where
  "action_allowed rq c =
    (let q = aq_input rq in
     qi_policy_ref q = gc_policy_ref c \<and> qi_policy_version q = gc_policy_version c
     \<and> qi_tool_name q \<in> set (gc_known c) \<and> qi_tool_name q \<in> set (gc_admitted c)
     \<and> qi_tool_name q \<notin> set (gc_deferred c)
     \<and> (gc_scopes c = [] \<or> qi_requested_scope q \<in> set (gc_scopes c)))"

lemma classify_action_facts:
  "case classify_action rq c of (label, reason) \<Rightarrow>
     label \<in> set GOVERNED_ACTION_DECISION_LABELS \<and> (label = ''allow'') = action_allowed rq c
     \<and> (reason \<noteq> None) = (label = ''refuse'')
     \<and> (case reason of None \<Rightarrow> True | Some r \<Rightarrow> r \<in> set GOVERNED_ACTION_REASON_CODES)"
  by (auto simp: classify_action_def action_allowed_def Let_def vocab)

lemma make_decision_fields:
  assumes "make_decision cr d = Inr d'"
  shows "dn_decision d' = dn_decision d" "dn_reason_code d' = dn_reason_code d"
    "dn_request_identity d' = dn_request_identity d" "dn_policy_ref d' = dn_policy_ref d"
    "dn_policy_version d' = dn_policy_version d"
    "digest cr (decision_payload d) = Inr (dn_identity d')"
    "decision_payload d' = decision_payload d"
  using assms by (auto simp: make_decision_def rbind_Inr_iff decision_payload_def)

lemma decided_label:
  assumes "decide_governed_action cr rq c = Inr d"
  shows "(dn_decision d = ''allow'') = action_allowed rq c"
    "dn_decision d \<in> set GOVERNED_ACTION_DECISION_LABELS"
    "(dn_reason_code d \<noteq> None) = (dn_decision d = ''refuse'')"
    "classify_action rq c = (dn_decision d, dn_reason_code d)"
proof -
  obtain l r where c: "classify_action rq c = (l, r)" by fastforce
  with assms have "dn_decision d = l" "dn_reason_code d = r"
    by (auto simp: decide_governed_action_def dest: make_decision_fields(1,2))
  then show "(dn_decision d = ''allow'') = action_allowed rq c"
    "dn_decision d \<in> set GOVERNED_ACTION_DECISION_LABELS"
    "(dn_reason_code d \<noteq> None) = (dn_decision d = ''refuse'')"
    "classify_action rq c = (dn_decision d, dn_reason_code d)"
    using classify_action_facts[of rq c] c by auto
qed

text \<open>A decision of a valid request under a valid configuration is never an error.\<close>

lemma freeze_correlation_ok:
  assumes "\<not> list_ex opaque (map snd kvs)"
  obtains fs where "freeze_correlation_metadata kvs = Inr fs"
proof -
  have "set (dupdate d e) \<subseteq> set d \<union> set e" for d e :: pydict
  proof (induction d e rule: dupdate.induct)
    case (2 d k v e)
    then show ?case using set_dset_subset[of k v d] by auto
  qed simp
  from this[of "[]" kvs] have "\<not> list_ex opaque (map snd (dupdate [] kvs))"
    using assms by (auto simp: list_ex_iff)
  then show ?thesis using that
    by (auto simp: freeze_correlation_metadata_def freeze_items_total)
qed

text \<open>The values of correlation metadata are dictionaries as Python has them.\<close>

lemma request_fields:
  assumes "make_action_request cr q = Inr rq"
  shows "aq_input rq = q" "\<not> blank (qi_tool_name q)" "\<not> blank (qi_requested_scope q)"
    "freeze_value (qi_arguments q) = Inr (aq_snapshot rq)"
    "freeze_correlation_metadata (qi_correlation q) = Inr (aq_correlation rq)"
    "digest cr (thawed (aq_snapshot rq)) = Inr (aq_argument_digest rq)"
    "digest cr (identity_payload q (thawed (aq_snapshot rq))) = Inr (aq_identity rq)"
  using assms
  by (auto simp: make_action_request_def validate_action_input_def validate_non_empty_text_def
      rbind_Inr_iff require_Inr_iff checks_def each_Inr_iff)

lemma correlation_clean:
  assumes "freeze_correlation_metadata kvs = Inr fs" "list_all dicts_ok (map snd kvs)"
  shows "\<not> list_ex opaque (map snd fs)"
proof -
  obtain gs where gs: "freeze_items (dupdate [] kvs) = Inr gs" "fs = sort_key fst gs"
    using assms(1) by (auto simp: freeze_correlation_metadata_def rbind_Inr_iff)
  have "list_all dicts_ok (map snd (dupdate d e))"
    if "list_all dicts_ok (map snd d)" "list_all dicts_ok (map snd e)" for d e :: pydict
    using that
  proof (induction d e rule: dupdate.induct)
    case (2 d k v e)
    then show ?case using set_dset_subset[of k v d] by (fastforce simp: list_all_iff)
  qed simp
  from this[of "[]" kvs] have "list_all dicts_ok (map snd (dupdate [] kvs))" using assms(2) by simp
  from freeze_thaw(2)[OF gs(1) this] show ?thesis
    by (auto simp: gs(2) list_all_iff list_ex_iff)
qed

text \<open>The decision is total and follows the closed policy table. For a request and a
  configuration that were accepted the decision never raises; it allows exactly when policy
  reference and version agree, the capability is known, admitted and not deferred, and the scope is
  admitted or no scope is listed; a reason code of the vocabulary is given exactly with a refusal;
  and the decision is bound to the request by its identity.\<close>
theorem decision_exact:
  assumes "make_action_request cr q = Inr rq" "validate_action_config c = Inr ()"
    and "list_all dicts_ok (map snd (qi_correlation q))" "\<And>v. cr_canon cr v \<noteq> None"
  shows "case decide_governed_action cr rq c of
      Inl _ \<Rightarrow> False
    | Inr d \<Rightarrow> (dn_decision d = ''allow'') = action_allowed rq c
        \<and> (dn_reason_code d \<noteq> None) = (dn_decision d = ''refuse'')
        \<and> (dn_decision d, dn_reason_code d) = classify_action rq c
        \<and> dn_request_identity d = aq_identity rq
        \<and> digest cr (decision_payload d) = Inr (dn_identity d)"
proof -
  note rq = request_fields[OF assms(1)]
  obtain l r where c: "classify_action rq c = (l, r)" by fastforce
  note f = classify_action_facts[of rq c, unfolded c prod.case]
  obtain fs where fs: "freeze_correlation_metadata (aq_correlation rq) = Inr fs"
    using freeze_correlation_ok[OF correlation_clean[OF rq(5) assms(3)]] .
  have dig: "\<exists>h. digest cr v = Inr h" for v
    using assms(4)[of v] by (auto simp: digest_def sha256_digest_def split: option.splits)
  have cfg: "\<not> blank (gc_policy_ref c)" "\<not> blank (gc_policy_version c)"
    using assms(2)
    by (auto simp: validate_action_config_def validate_policy_ref_def validate_non_empty_text_def
        rbind_Inr_iff require_Inr_iff)
  have reason: "(case r of None \<Rightarrow> Inr ()
      | Some r \<Rightarrow> require (r \<in> set GOVERNED_ACTION_REASON_CODES) (UnknownActionReason r)) = Inr ()"
    using f by (auto split: option.splits)
  have "\<exists>d. make_decision cr d0 = Inr d" if "dn_decision d0 = l" "dn_reason_code d0 = r"
    "dn_correlation d0 = aq_correlation rq" "\<not> blank (dn_capability d0)" "\<not> blank (dn_scope d0)"
    "\<not> blank (dn_policy_ref d0)" "\<not> blank (dn_policy_version d0)" for d0
    using that f fs reason dig[of "decision_payload d0"]
    by (auto simp: make_decision_def validate_non_empty_text_def)
  from this[of "\<lparr>dn_request_identity = aq_identity rq, dn_decision = l,
            dn_capability = qi_tool_name (aq_input rq),
            dn_scope = qi_requested_scope (aq_input rq), dn_policy_ref = gc_policy_ref c,
            dn_policy_version = gc_policy_version c, dn_reason_code = r,
            dn_correlation = aq_correlation rq, dn_identity = []\<rparr>"]
  obtain d where d: "decide_governed_action cr rq c = Inr d"
    using cfg rq(1-3) by (auto simp: decide_governed_action_def c)
  have id: "dn_request_identity d = aq_identity rq" "digest cr (decision_payload d) = Inr (dn_identity d)"
    using d make_decision_fields by (fastforce simp: decide_governed_action_def c)+
  show ?thesis using d id decided_label[OF d] by simp
qed

definition sample_action_input :: action_input where
  "sample_action_input =
     \<lparr>qi_request_ref = ''r1'', qi_principal_ref = ''user:1'', qi_tool_name = ''pay'',
      qi_action_name = ''transfer'', qi_requested_scope = ''team'', qi_policy_ref = ''policy:1'',
      qi_policy_version = ''v1'', qi_arguments = VMap [(''amount'', VInt 5)],
      qi_session_ref = None, qi_correlation = []\<rparr>"

definition sample_action_config :: action_config where
  "sample_action_config =
     \<lparr>gc_policy_ref = ''policy:1'', gc_policy_version = ''v1'', gc_known = [''pay''],
      gc_admitted = [''pay''], gc_deferred = [], gc_scopes = [''team''],
      gc_boundary_id = ''b'', gc_runtime_instance_id = ''i'', gc_policy_pack_id = ''p'',
      gc_policy_pack_version = ''v0.1''\<rparr>"

lemma sample_action:
  obtains rq where "make_action_request sample_crypto sample_action_input = Inr rq"
    "validate_action_config sample_action_config = Inr ()"
    "action_allowed rq sample_action_config"
proof -
  have "\<not> blank ''r1''" "\<not> blank ''user:1''" "\<not> blank ''pay''" "\<not> blank ''transfer''"
    "\<not> blank ''team''" "\<not> blank ''policy:1''" "\<not> blank ''v1''"
    by (simp_all add: blank_iff py_space_def)
  then have "\<exists>rq. make_action_request sample_crypto sample_action_input = Inr rq"
    "validate_action_config sample_action_config = Inr ()"
    by (simp_all add: make_action_request_def validate_action_input_def
      validate_action_config_def validate_policy_ref_def validate_principal_ref_def
      validate_non_empty_text_def sample_action_input_def sample_action_config_def
      freeze_correlation_metadata_def validate_session_def digest_def sha256_digest_def)
  then show ?thesis using that request_fields(1)
    by (fastforce simp: action_allowed_def sample_action_input_def sample_action_config_def)
qed

theorem decision_exact_witness:
  "\<exists>rq d. decide_governed_action sample_crypto rq sample_action_config = Inr d
     \<and> dn_decision d = ''allow'' \<and> dn_request_identity d = aq_identity rq"
proof -
  obtain rq where rq: "make_action_request sample_crypto sample_action_input = Inr rq"
    "validate_action_config sample_action_config = Inr ()" "action_allowed rq sample_action_config"
    by (rule sample_action)
  have "list_all dicts_ok (map snd (qi_correlation sample_action_input))"
    "cr_canon sample_crypto v \<noteq> None" for v
    by (simp_all add: sample_action_input_def)
  from decision_exact[OF rq(1,2) this] rq(3) show ?thesis
    by (auto split: sum.splits)
qed

section \<open>Runs\<close>

definition action_admission_receipt ::
  "action_request \<Rightarrow> action_decision \<Rightarrow> string \<Rightarrow> pydict \<Rightarrow> bool" where
  "action_admission_receipt rq d adm receipt =
     (raw_free receipt \<and> dget receipt ''receipt_id'' = Some (VStr adm)
      \<and> dget receipt ''receipt_kind'' = Some (VStr ''admission'')
      \<and> dget receipt ''requested_tool_name'' = Some (VStr (qi_tool_name (aq_input rq)))
      \<and> dget receipt ''argument_digest'' = Some (VStr (aq_argument_digest rq))
      \<and> dget receipt ''disposition'' = Some (VStr (neutral_disposition d)))"

definition action_outcome_receipt :: "string \<Rightarrow> token \<Rightarrow> pydict \<Rightarrow> bool" where
  "action_outcome_receipt adm out receipt =
     (raw_free receipt \<and> dget receipt ''receipt_kind'' = Some (VStr ''outcome'')
      \<and> dget receipt ''admission_receipt_ref'' = Some (VStr adm)
      \<and> dget receipt ''outcome'' =
          Some (VStr (if out = ''result'' then ''result_returned'' else ''exception'')))"

lemma action_admission_cases:
  obtains adm sk' receipt where "action_emit_admission env rq d sk = (Inr adm, sk')"
    "sk_written sk' = sk_written sk @ [receipt]" "action_admission_receipt rq d adm receipt"
  | e sk' where "action_emit_admission env rq d sk = (Inl e, sk')" "sk_written sk' = sk_written sk"
proof -
  obtain r sk' where em: "emit_admission (an_identity env) (an_context env) (an_admission_stamp env)
      (action_admission_args rq d) sk = (r, sk')" by fastforce
  note f = admission_emission_facts[where ident = "an_identity env" and ctx = "an_context env"
      and st = "an_admission_stamp env" and a = "action_admission_args rq d" and sk = sk,
      unfolded em prod.case]
  show ?thesis
  proof (cases r)
    case (Inl e)
    then show ?thesis using that(2) em f by (simp add: action_emit_admission_def)
  next
    case (Inr adm)
    then show ?thesis using that(1) em f
      by (auto simp: action_emit_admission_def action_admission_receipt_def
          action_admission_args_def)
  qed
qed

lemma action_outcome_args_fields:
  assumes "action_outcome_args cr adm out v cls = Inr a" "out \<in> set [''result'', ''timeout'', ''exception'']"
  shows "oa_admission_ref a = adm"
    "oa_outcome a = (if out = ''result'' then ''result_returned'' else ''exception'')"
  using assms by (auto simp: action_outcome_args_def rbind_Inr_iff ACTION_OUTCOME_TOKENS_def
      split: option.splits)

lemma action_outcome_cases:
  assumes "out \<in> set [''result'', ''timeout'', ''exception'']"
  obtains ref sk' receipt where "action_emit_outcome env adm out v cls sk = (Inr ref, sk')"
    "sk_written sk' = sk_written sk @ [receipt]" "action_outcome_receipt adm out receipt"
  | e sk' where "action_emit_outcome env adm out v cls sk = (Inl e, sk')"
    "sk_written sk' = sk_written sk"
proof (cases "action_outcome_args (action_crypto env) adm out v cls")
  case (Inl e)
  then show ?thesis using that(2) by (simp add: action_emit_outcome_def)
next
  case (Inr a)
  note fields = action_outcome_args_fields[OF Inr assms]
  obtain r sk' where em: "emit_outcome (an_identity env) (an_context env) (an_outcome_stamp env)
      a sk = (r, sk')" by fastforce
  note f = outcome_emission_facts[where ident = "an_identity env" and ctx = "an_context env"
      and st = "an_outcome_stamp env" and a = a and sk = sk, unfolded em prod.case]
  show ?thesis
  proof (cases r)
    case (Inl e)
    then show ?thesis using that(2) em f Inr by (simp add: action_emit_outcome_def)
  next
    case (Inr ref)
    then show ?thesis using that(1) em f fields \<open>action_outcome_args _ _ _ _ _ = Inr a\<close>
      by (auto simp: action_emit_outcome_def action_outcome_receipt_def)
  qed
qed

definition executor_answer :: "executor_outcome \<Rightarrow> (token \<times> pyv \<times> string option) option" where
  "executor_answer x =
    (case x of
       ExecReturns v \<Rightarrow> Some (''result'', v, None)
     | ExecTimesOut cls \<Rightarrow> Some (''timeout'', VNone, Some cls)
     | ExecRaises cls \<Rightarrow> Some (''exception'', VNone, Some cls)
     | ExecAborts \<Rightarrow> None)"

text \<open>What a run that got past the admission leaves after it.\<close>

definition run_settled ::
  "action_env \<Rightarrow> action_request \<Rightarrow> action_decision \<Rightarrow> string
    \<Rightarrow> (action_error, action_result) result \<Rightarrow> pydict list \<Rightarrow> bool" where
  "run_settled env rq d adm r new =
    (case executor_answer (an_executor env) of
       None \<Rightarrow> new = [] \<and> r = Inl ExecutorAborted
     | Some (out, v, cls) \<Rightarrow>
        (case digest (action_crypto env) (summary_value out v cls) of
           Inl e \<Rightarrow> new = [] \<and> r = Inl e
         | Inr summary \<Rightarrow>
            (new = [] \<or> (\<exists>receipt. new = [receipt] \<and> action_outcome_receipt adm out receipt))
            \<and> (case r of
                 Inl _ \<Rightarrow> True
               | Inr x \<Rightarrow> ax_performed x \<and> ax_outcome x = Some out \<and> ax_exception_class x = cls
                   \<and> ax_summary_digest x = Some summary \<and> ax_decision x = d
                   \<and> ax_admission_ref x = adm \<and> ax_gap x = (new = [])
                   \<and> ax_persisted x = (new \<noteq> []) \<and> (ax_outcome_ref x = None) = (new = []))))"

lemma settle_facts:
  assumes "out \<in> set [''result'', ''timeout'', ''exception'']"
    and "executor_answer (an_executor env) = Some (out, v, cls)"
    and "settle_action env rq d adm out v cls s = (r, s')"
  shows "as_runs s' = as_runs s
    \<and> (\<exists>new. sk_written (as_sink s') = sk_written (as_sink s) @ new \<and> run_settled env rq d adm r new)"
proof (cases "digest (action_crypto env) (summary_value out v cls)")
  case (Inl e)
  then show ?thesis using assms(2,3) by (simp add: settle_action_def run_settled_def)
next
  case (Inr summary)
  note dig = this
  show ?thesis
  proof (cases rule: action_outcome_cases[OF assms(1), of env adm v cls "as_sink s"])
    case (1 ref sk' receipt)
    then have "sk_written (as_sink s') = sk_written (as_sink s) @ [receipt]" "as_runs s' = as_runs s"
      "run_settled env rq d adm r [receipt]"
      using assms(2,3) dig
      by (auto simp: settle_action_def run_settled_def make_result_def rbind_Inr_iff split: sum.splits)
    then show ?thesis by blast
  next
    case (2 e sk')
    then have "sk_written (as_sink s') = sk_written (as_sink s) @ []" "as_runs s' = as_runs s"
      "run_settled env rq d adm r []"
      using assms(2,3) dig
      by (auto simp: settle_action_def run_settled_def make_result_def rbind_Inr_iff split: sum.splits)
    then show ?thesis by blast
  qed
qed

text \<open>C31: A governed action leaves a chain. A run whose decision or admission fails writes no receipt
  and runs nothing; otherwise it writes one admission of the request's tool, digest and disposition.
  The executor is called exactly when the decision allows, once, with the thawed snapshot of the
  arguments. After it at most one outcome is written, which references the admission and names the
  answer, and the result tells whether it was: a gap is reported exactly when the outcome was not
  written. A result that cannot be digested ends the run in an error although the executor ran,
  leaving the admission without an outcome.\<close>
theorem governed_action_chain:
  "case run_governed_action env c rq s of
     (r, s') \<Rightarrow>
      (case decide_governed_action (action_crypto env) rq c of
         Inl e \<Rightarrow> r = Inl e \<and> s' = s
       | Inr d \<Rightarrow>
          (case action_emit_admission env rq d (as_sink s) of
             (Inl e, sk) \<Rightarrow> r = Inl e \<and> as_runs s' = as_runs s
               \<and> sk_written (as_sink s') = sk_written (as_sink s)
           | (Inr adm, sk) \<Rightarrow>
               as_runs s' = as_runs s @ (if action_allowed rq c then [thawed (aq_snapshot rq)] else [])
               \<and> (\<exists>receipt new. sk_written (as_sink s') = sk_written (as_sink s) @ receipt # new
                   \<and> action_admission_receipt rq d adm receipt
                   \<and> (if action_allowed rq c then run_settled env rq d adm r new
                      else new = [] \<and> (case r of Inl _ \<Rightarrow> True
                             | Inr x \<Rightarrow> \<not> ax_performed x \<and> ax_outcome_ref x = None \<and> \<not> ax_gap x)))))"
proof (cases "decide_governed_action (action_crypto env) rq c")
  case (Inl e)
  then show ?thesis by (simp add: run_governed_action_def)
next
  case (Inr d)
  note dec = this
  note label = decided_label(1)[OF dec]
  show ?thesis
  proof (cases rule: action_admission_cases[of env rq d "as_sink s"])
    case (2 e sk')
    then show ?thesis using dec by (simp add: run_governed_action_def)
  next
    case (1 adm sk' receipt)
    show ?thesis
    proof (cases "action_allowed rq c")
      case False
      then show ?thesis using dec 1 label
        by (auto simp: run_governed_action_def not_performed_def make_result_def rbind_Inr_iff
            split: sum.splits)
    next
      case True
      define s1 where "s1 = s\<lparr>as_sink := sk', as_runs := as_runs s @ [thawed (aq_snapshot rq)]\<rparr>"
      obtain r s' where run: "run_governed_action env c rq s = (r, s')" by fastforce
      have "as_runs s' = as_runs s1 \<and> (\<exists>new. sk_written (as_sink s') = sk_written (as_sink s1) @ new
          \<and> run_settled env rq d adm r new)"
      proof (cases "executor_answer (an_executor env)")
        case None
        then have "an_executor env = ExecAborts"
          by (simp add: executor_answer_def split: executor_outcome.splits)
        then show ?thesis using run dec 1 True label
          by (simp add: run_governed_action_def run_settled_def executor_answer_def s1_def Let_def)
      next
        case (Some p)
        obtain out v cls where p: "p = (out, v, cls)" by (cases p)
        have "out \<in> set [''result'', ''timeout'', ''exception'']"
          "run_governed_action env c rq s = settle_action env rq d adm out v cls s1"
          using Some p dec 1 True label
          by (auto simp: executor_answer_def run_governed_action_def s1_def Let_def
              split: executor_outcome.splits)
        then show ?thesis using settle_facts[OF _ Some[unfolded p], of rq d adm s1 r s'] run by simp
      qed
      then show ?thesis using dec 1 True run by (auto simp: s1_def)
    qed
  qed
qed

end
