(* ===== verification/Coverage.thy ===== *)
theory Coverage
  imports PyValue
begin

text \<open>Coverage artefacts: the execution coverage of a plan
  (\<^verbatim>\<open>src/dagr_mcp/execution_coverage.py\<close>), with its builder, digest and validation, and the
  coverage posture of one action (\<^verbatim>\<open>src/dagr_mcp/coverage.py\<close>). The hexadecimal SHA-256 digest of
  a text is a parameter; the JSON text that is hashed is spelled out.\<close>

section \<open>Execution coverage\<close>

definition VALID_ACTION_OUTCOMES :: "token list" where [vocab]:
  "VALID_ACTION_OUTCOMES =
     [''admitted_and_executed_successfully'', ''admitted_and_execution_failed'',
      ''admitted_and_not_attempted'', ''refused'', ''deferred'']"

definition DIGEST_PROJECTION_KEYS :: "string list" where
  "DIGEST_PROJECTION_KEYS =
     [''planned_action_count'', ''attempted_action_count'', ''admitted_count'', ''refused_count'',
      ''deferred_count'', ''executed_successfully_count'', ''execution_failed_count'',
      ''not_attempted_count'']"

datatype coverage_error =
    UnknownActionOutcome string
  | CountNotInt string
  | CountNegative string
  | AttemptedMismatch
  | AdmittedMismatch
  | PlannedMismatch
  | DigestNotText
  | DigestPrefixMissing
  | CoverageDigestMismatch
  | DomainEmpty
  | SubjectRefEmpty
  | UnknownPosture string
  | ReasonsMissing
  | ToolNameEmpty

record execution_coverage =
  ec_planned :: pyv
  ec_attempted :: pyv
  ec_admitted :: pyv
  ec_refused :: pyv
  ec_deferred :: pyv
  ec_executed :: pyv
  ec_failed :: pyv
  ec_not_attempted :: pyv
  ec_digest :: pyv

definition coverage_as_dict :: "execution_coverage \<Rightarrow> pydict" where
  "coverage_as_dict c =
     [(''planned_action_count'', ec_planned c), (''attempted_action_count'', ec_attempted c),
      (''admitted_count'', ec_admitted c), (''refused_count'', ec_refused c),
      (''deferred_count'', ec_deferred c), (''executed_successfully_count'', ec_executed c),
      (''execution_failed_count'', ec_failed c), (''not_attempted_count'', ec_not_attempted c),
      (''coverage_digest'', ec_digest c)]"

text \<open>Decimal text of an integer (\<^verbatim>\<open>json.dumps\<close> of an int).\<close>

definition int_text :: "int \<Rightarrow> string" where
  "int_text i = (if i < 0 then CHR ''-'' # nat_str (nat (- i)) else nat_str (nat i))"

definition quote :: string where "quote = [CHR 0x22]"

fun counts_text :: "(string \<times> int) list \<Rightarrow> string" where
  "counts_text [] = []"
| "counts_text [(k, i)] = quote @ k @ quote @ '':'' @ int_text i"
| "counts_text ((k, i) # p # ps) = quote @ k @ quote @ '':'' @ int_text i @ '','' @ counts_text (p # ps)"

definition coverage_digest :: "(string \<Rightarrow> string) \<Rightarrow> int list \<Rightarrow> string" where
  "coverage_digest sha counts =
     ''sha256:'' @ sha (''{'' @ counts_text (zip DIGEST_PROJECTION_KEYS counts) @ ''}'')"

subsection \<open>The builder\<close>

record coverage_builder =
  cb_planned :: int
  cb_admitted :: int
  cb_refused :: int
  cb_deferred :: int
  cb_executed :: int
  cb_failed :: int
  cb_not_attempted :: int

definition new_builder :: coverage_builder where
  "new_builder = \<lparr>cb_planned = 0, cb_admitted = 0, cb_refused = 0, cb_deferred = 0,
     cb_executed = 0, cb_failed = 0, cb_not_attempted = 0\<rparr>"

definition record_action_outcome ::
  "string \<Rightarrow> coverage_builder \<Rightarrow> (coverage_error, coverage_builder) result" where
  "record_action_outcome out b =
    (if out \<notin> set VALID_ACTION_OUTCOMES then Inl (UnknownActionOutcome out)
     else
      (let b1 = b\<lparr>cb_planned := cb_planned b + 1\<rparr> in
       Inr (if out = ''admitted_and_executed_successfully''
            then b1\<lparr>cb_admitted := cb_admitted b1 + 1, cb_executed := cb_executed b1 + 1\<rparr>
            else if out = ''admitted_and_execution_failed''
            then b1\<lparr>cb_admitted := cb_admitted b1 + 1, cb_failed := cb_failed b1 + 1\<rparr>
            else if out = ''admitted_and_not_attempted''
            then b1\<lparr>cb_admitted := cb_admitted b1 + 1,
                    cb_not_attempted := cb_not_attempted b1 + 1\<rparr>
            else if out = ''refused'' then b1\<lparr>cb_refused := cb_refused b1 + 1\<rparr>
            else if out = ''deferred'' then b1\<lparr>cb_deferred := cb_deferred b1 + 1\<rparr>
            else b1)))"

definition build_coverage :: "(string \<Rightarrow> string) \<Rightarrow> coverage_builder \<Rightarrow> execution_coverage" where
  "build_coverage sha b =
    (let attempted = cb_executed b + cb_failed b in
     \<lparr>ec_planned = VInt (cb_planned b), ec_attempted = VInt attempted,
      ec_admitted = VInt (cb_admitted b), ec_refused = VInt (cb_refused b),
      ec_deferred = VInt (cb_deferred b), ec_executed = VInt (cb_executed b),
      ec_failed = VInt (cb_failed b), ec_not_attempted = VInt (cb_not_attempted b),
      ec_digest = VStr (coverage_digest sha
        [cb_planned b, attempted, cb_admitted b, cb_refused b, cb_deferred b, cb_executed b,
         cb_failed b, cb_not_attempted b])\<rparr>)"

fun record_outcomes ::
  "string list \<Rightarrow> coverage_builder \<Rightarrow> (coverage_error, coverage_builder) result" where
  "record_outcomes [] b = Inr b"
| "record_outcomes (out # outs) b = rbind (record_action_outcome out b) (record_outcomes outs)"

definition build_execution_coverage ::
  "(string \<Rightarrow> string) \<Rightarrow> string list \<Rightarrow> (coverage_error, execution_coverage) result" where
  "build_execution_coverage sha outs =
     rbind (record_outcomes outs new_builder) (\<lambda>b. Inr (build_coverage sha b))"

subsection \<open>Validation\<close>

definition count_ok :: "string \<Rightarrow> pyv \<Rightarrow> (coverage_error, unit) result" where
  "count_ok name v =
    (case v of
       VInt i \<Rightarrow> require (0 \<le> i) (CountNegative name)
     | _ \<Rightarrow> Inl (CountNotInt name))"

definition count_of :: "pyv \<Rightarrow> int" where
  "count_of v = (case v of VInt i \<Rightarrow> i | _ \<Rightarrow> 0)"

definition coverage_counts :: "execution_coverage \<Rightarrow> (string \<times> pyv) list" where
  "coverage_counts c =
     zip DIGEST_PROJECTION_KEYS
       [ec_planned c, ec_attempted c, ec_admitted c, ec_refused c, ec_deferred c, ec_executed c,
        ec_failed c, ec_not_attempted c]"

definition digest_ok :: "(string \<Rightarrow> string) \<Rightarrow> execution_coverage \<Rightarrow> (coverage_error, unit) result" where
  "digest_ok sha c =
    (case ec_digest c of
       VStr d \<Rightarrow>
         if \<not> starts_with d ''sha256:'' then Inl DigestPrefixMissing
         else require (d = coverage_digest sha (map (count_of \<circ> snd) (coverage_counts c)))
                CoverageDigestMismatch
     | _ \<Rightarrow> Inl DigestNotText)"

definition validate_execution_coverage ::
  "(string \<Rightarrow> string) \<Rightarrow> execution_coverage \<Rightarrow> (coverage_error, unit) result" where
  "validate_execution_coverage sha c =
     rbind (each (\<lambda>(n, v). count_ok n v) (coverage_counts c)) (\<lambda>_.
     rbind (require (count_of (ec_attempted c) = count_of (ec_executed c) + count_of (ec_failed c))
              AttemptedMismatch) (\<lambda>_.
     rbind (require (count_of (ec_executed c) + count_of (ec_failed c)
                     + count_of (ec_not_attempted c) = count_of (ec_admitted c))
              AdmittedMismatch) (\<lambda>_.
     rbind (require (count_of (ec_admitted c) + count_of (ec_refused c)
                     + count_of (ec_deferred c) = count_of (ec_planned c))
              PlannedMismatch) (\<lambda>_. digest_ok sha c))))"

section \<open>Coverage posture\<close>

definition COVERAGE_CONTRACT_ID :: string where "COVERAGE_CONTRACT_ID = ''dagr.coverage.v0.1''"

definition COVERAGE_POSTURES :: "token list" where [vocab]:
  "COVERAGE_POSTURES = [''complete'', ''partial'', ''not_evaluated'', ''incomparable'']"

definition REASONS_REQUIRED_POSTURES :: "token list" where [vocab]:
  "REASONS_REQUIRED_POSTURES = [''partial'', ''not_evaluated'', ''incomparable'']"

record coverage_observation =
  co_domain :: string
  co_subject_ref :: string
  co_expected :: "bool option"
  co_attempted :: "bool option"
  co_executed :: "bool option"
  co_evaluated :: "bool option"
  co_posture :: token
  co_reasons :: "string list"

text \<open>The checks of the constructor.\<close>

definition make_observation ::
  "coverage_observation \<Rightarrow> (coverage_error, coverage_observation) result" where
  "make_observation ob =
    (if co_domain ob = [] then Inl DomainEmpty
     else if co_subject_ref ob = [] then Inl SubjectRefEmpty
     else if co_posture ob \<notin> set COVERAGE_POSTURES then Inl (UnknownPosture (co_posture ob))
     else if co_posture ob \<in> set REASONS_REQUIRED_POSTURES \<and> co_reasons ob = []
     then Inl ReasonsMissing
     else Inr ob)"

type_synonym phases = "(string \<times> bool option) list"

definition phase_list :: "bool option \<Rightarrow> bool option \<Rightarrow> bool option \<Rightarrow> bool option \<Rightarrow> phases" where
  "phase_list expected attempted executed evaluated =
     [(''expected'', expected), (''attempted'', attempted), (''executed'', executed),
      (''evaluated'', evaluated)]"

definition is_unrun_token :: "string option \<Rightarrow> bool" where
  "is_unrun_token t = (t = Some ''mcp_action:refused'' \<or> t = Some ''mcp_action:deferred'')"

definition derive_mcp_action_posture :: "phases \<Rightarrow> string option \<Rightarrow> token \<times> string list" where
  "derive_mcp_action_posture ps admission =
    (if list_all (\<lambda>(n, v). v = Some True) ps then (''complete'', [])
     else if list_ex (\<lambda>(n, v). v = Some False) ps then
       (''partial'',
        map (\<lambda>(n, v). ''phase_'' @ n @ ''_false'') (filter (\<lambda>(n, v). v = Some False) ps)
        @ (if is_unrun_token admission then [''admission_outcome:'' @ the admission] else []))
     else if list_ex (\<lambda>(n, v). v = None) ps then
       (''not_evaluated'',
        map (\<lambda>(n, v). ''phase_'' @ n @ ''_unknown'') (filter (\<lambda>(n, v). v = None) ps))
     else (''incomparable'', [''phase_combination_not_comparable'']))"

definition action_phases :: "string option \<Rightarrow> bool option \<Rightarrow> phases" where
  "action_phases admission succeeded =
    (if admission = Some ''mcp_action:admitted''
     then phase_list (Some True) (Some True) succeeded
            (if succeeded = Some True then Some True else None)
     else if is_unrun_token admission
     then phase_list (Some True) (Some True) (Some False) (Some False)
     else phase_list None None None None)"

definition phase_of :: "string \<Rightarrow> phases \<Rightarrow> bool option" where
  "phase_of n ps = (case map_of ps n of None \<Rightarrow> None | Some v \<Rightarrow> v)"

definition create_mcp_action_observation ::
  "string \<Rightarrow> string option \<Rightarrow> bool option \<Rightarrow> string list option
    \<Rightarrow> (coverage_error, coverage_observation) result" where
  "create_mcp_action_observation tool_name admission succeeded extra =
    (if tool_name = [] \<or> blank tool_name then Inl ToolNameEmpty
     else
      (let ps = action_phases admission succeeded in
       case derive_mcp_action_posture ps admission of
         (posture, reasons) \<Rightarrow>
           make_observation
             \<lparr>co_domain = ''mcp_action'', co_subject_ref = ''tool:'' @ py_strip tool_name,
              co_expected = phase_of ''expected'' ps, co_attempted = phase_of ''attempted'' ps,
              co_executed = phase_of ''executed'' ps, co_evaluated = phase_of ''evaluated'' ps,
              co_posture = posture,
              co_reasons =
                reasons @ (case extra of None \<Rightarrow> [] | Some rs \<Rightarrow> filter (\<lambda>r. r \<noteq> []) rs)\<rparr>))"

section \<open>The builder counts\<close>

definition times :: "string \<Rightarrow> string list \<Rightarrow> int" where
  "times out outs = int (length (filter ((=) out) outs))"

lemma times_simps [simp]:
  "times out [] = 0" "times out (o' # outs) = (if o' = out then 1 else 0) + times out outs"
  "times out (outs @ outs') = times out outs + times out outs'"
  by (auto simp: times_def)

lemma times_nonneg [simp]: "0 \<le> times out outs"
  by (simp add: times_def)

lemma times_replicate [simp]: "times out (replicate n o') = (if o' = out then int n else 0)"
  by (induction n) auto

definition builder_after :: "string list \<Rightarrow> coverage_builder \<Rightarrow> coverage_builder" where
  "builder_after outs b =
    (let ok = times ''admitted_and_executed_successfully'' outs;
         bad = times ''admitted_and_execution_failed'' outs;
         non = times ''admitted_and_not_attempted'' outs in
     \<lparr>cb_planned = cb_planned b + int (length outs),
      cb_admitted = cb_admitted b + ok + bad + non,
      cb_refused = cb_refused b + times ''refused'' outs,
      cb_deferred = cb_deferred b + times ''deferred'' outs,
      cb_executed = cb_executed b + ok, cb_failed = cb_failed b + bad,
      cb_not_attempted = cb_not_attempted b + non\<rparr>)"

lemma record_action_outcome_after:
  "record_action_outcome out b =
     (if out \<in> set VALID_ACTION_OUTCOMES then Inr (builder_after [out] b)
      else Inl (UnknownActionOutcome out))"
  by (simp add: record_action_outcome_def builder_after_def Let_def vocab)

lemma builder_after_after: "builder_after outs (builder_after [out] b) = builder_after (out # outs) b"
  by (simp add: builder_after_def Let_def)

lemma record_outcomes_after:
  "record_outcomes outs b =
     (case filter (\<lambda>out. out \<notin> set VALID_ACTION_OUTCOMES) outs of
        [] \<Rightarrow> Inr (builder_after outs b)
      | bad # _ \<Rightarrow> Inl (UnknownActionOutcome bad))"
proof (induction outs arbitrary: b)
  case Nil
  then show ?case by (simp add: builder_after_def Let_def)
next
  case (Cons out outs)
  then show ?case by (simp add: record_action_outcome_after builder_after_after split: list.splits)
qed

lemma length_by_kind:
  "list_all (\<lambda>out. out \<in> set VALID_ACTION_OUTCOMES) outs \<Longrightarrow>
     int (length outs) = times ''admitted_and_executed_successfully'' outs
       + times ''admitted_and_execution_failed'' outs + times ''admitted_and_not_attempted'' outs
       + times ''refused'' outs + times ''deferred'' outs"
  by (induction outs) (auto simp: vocab)

definition coverage_of :: "(string \<Rightarrow> string) \<Rightarrow> string list \<Rightarrow> execution_coverage" where
  "coverage_of sha outs = build_coverage sha (builder_after outs new_builder)"

lemma validate_iff:
  "(validate_execution_coverage sha c = Inr ()) =
     (\<exists>ok bad non ref def. c = build_coverage sha
        \<lparr>cb_planned = int ok + int bad + int non + int ref + int def,
         cb_admitted = int ok + int bad + int non, cb_refused = int ref, cb_deferred = int def,
         cb_executed = int ok, cb_failed = int bad, cb_not_attempted = int non\<rparr>)"
proof
  assume v: "validate_execution_coverage sha c = Inr ()"
  have cnt: "count_ok n w = Inr () \<Longrightarrow> \<exists>k. w = VInt (int k)" for n w
    by (cases w) (auto simp: count_ok_def require_Inr_iff dest: nonneg_int_cases)
  have "list_all (\<lambda>w. \<exists>k. w = VInt (int k))
      [ec_planned c, ec_attempted c, ec_admitted c, ec_refused c, ec_deferred c, ec_executed c,
        ec_failed c, ec_not_attempted c]"
    using v cnt by (auto simp: validate_execution_coverage_def rbind_Inr_iff each_Inr_iff
        coverage_counts_def DIGEST_PROJECTION_KEYS_def)
  then obtain p a m r d e f n where fields: "ec_planned c = VInt (int p)"
    "ec_attempted c = VInt (int a)" "ec_admitted c = VInt (int m)" "ec_refused c = VInt (int r)"
    "ec_deferred c = VInt (int d)" "ec_executed c = VInt (int e)" "ec_failed c = VInt (int f)"
    "ec_not_attempted c = VInt (int n)"
    by auto
  have "int a = int e + int f" "int m = int e + int f + int n" "int p = int m + int r + int d"
    "digest_ok sha c = Inr ()"
    using v by (auto simp: validate_execution_coverage_def rbind_Inr_iff require_Inr_iff fields
        count_of_def)
  then have "c = build_coverage sha
        \<lparr>cb_planned = int e + int f + int n + int r + int d,
         cb_admitted = int e + int f + int n, cb_refused = int r, cb_deferred = int d,
         cb_executed = int e, cb_failed = int f, cb_not_attempted = int n\<rparr>"
    by (intro execution_coverage.equality)
       (auto simp: fields build_coverage_def Let_def digest_ok_def coverage_counts_def
         DIGEST_PROJECTION_KEYS_def count_of_def require_Inr_iff split: pyv.splits if_splits)
  then show "\<exists>ok bad non ref def. c = build_coverage sha
        \<lparr>cb_planned = int ok + int bad + int non + int ref + int def,
         cb_admitted = int ok + int bad + int non, cb_refused = int ref, cb_deferred = int def,
         cb_executed = int ok, cb_failed = int bad, cb_not_attempted = int non\<rparr>" by blast
next
  assume "\<exists>ok bad non ref def. c = build_coverage sha
        \<lparr>cb_planned = int ok + int bad + int non + int ref + int def,
         cb_admitted = int ok + int bad + int non, cb_refused = int ref, cb_deferred = int def,
         cb_executed = int ok, cb_failed = int bad, cb_not_attempted = int non\<rparr>"
  then show "validate_execution_coverage sha c = Inr ()"
    by (auto simp: validate_execution_coverage_def build_coverage_def Let_def coverage_counts_def
        DIGEST_PROJECTION_KEYS_def count_ok_def count_of_def digest_ok_def starts_with_def
        coverage_digest_def)
qed

lemma built_coverage:
  "filter (\<lambda>out. out \<notin> set VALID_ACTION_OUTCOMES) outs = [] \<Longrightarrow>
     build_execution_coverage sha outs = Inr (coverage_of sha outs)"
  by (simp add: build_execution_coverage_def record_outcomes_after coverage_of_def)

lemma coverage_of_valid:
  assumes "filter (\<lambda>out. out \<notin> set VALID_ACTION_OUTCOMES) outs = []"
  shows "validate_execution_coverage sha (coverage_of sha outs) = Inr ()"
proof -
  have "list_all (\<lambda>out. out \<in> set VALID_ACTION_OUTCOMES) outs"
    using assms by (simp add: filter_empty_conv list_all_iff)
  note len = length_by_kind[OF this]
  define k where "k out = nat (times out outs)" for out
  have "times out outs = int (k out)" for out by (simp add: k_def)
  then show ?thesis unfolding validate_iff using len
    by (intro exI[of _ "k ''admitted_and_executed_successfully''"]
        exI[of _ "k ''admitted_and_execution_failed''"]
        exI[of _ "k ''admitted_and_not_attempted''"] exI[of _ "k ''refused''"]
        exI[of _ "k ''deferred''"])
      (simp add: coverage_of_def builder_after_def new_builder_def Let_def)
qed

lemma valid_has_plan:
  assumes "validate_execution_coverage sha c = Inr ()"
  shows "\<exists>plan. build_execution_coverage sha plan = Inr c"
proof -
  obtain ok bad non ref def where c: "c = build_coverage sha
      \<lparr>cb_planned = int ok + int bad + int non + int ref + int def,
       cb_admitted = int ok + int bad + int non, cb_refused = int ref, cb_deferred = int def,
       cb_executed = int ok, cb_failed = int bad, cb_not_attempted = int non\<rparr>"
    using assms unfolding validate_iff by blast
  define plan where "plan = replicate ok ''admitted_and_executed_successfully''
    @ replicate bad ''admitted_and_execution_failed'' @ replicate non ''admitted_and_not_attempted''
    @ replicate ref ''refused'' @ replicate def ''deferred''"
  have "filter (\<lambda>out. out \<notin> set VALID_ACTION_OUTCOMES) plan = []"
    by (auto simp: plan_def filter_empty_conv vocab)
  moreover have "coverage_of sha plan = c"
    by (simp add: c coverage_of_def builder_after_def new_builder_def plan_def Let_def add.assoc)
  ultimately show ?thesis using built_coverage by blast
qed

text \<open>C33: Execution coverage is the exact distribution of a plan. Building from a list of outcomes
  fails exactly at its first unknown outcome; otherwise every count is the number of times its
  outcome occurs and the artefact validates. Conversely every artefact that validates is the
  coverage of some plan, so validation accepts nothing a builder could not have produced.\<close>
theorem coverage_validation_complete:
  "(case filter (\<lambda>out. out \<notin> set VALID_ACTION_OUTCOMES) outs of
      bad # _ \<Rightarrow> build_execution_coverage sha outs = Inl (UnknownActionOutcome bad)
    | [] \<Rightarrow> build_execution_coverage sha outs = Inr (coverage_of sha outs)
        \<and> validate_execution_coverage sha (coverage_of sha outs) = Inr ()
        \<and> ec_planned (coverage_of sha outs) = VInt (int (length outs))
        \<and> ec_refused (coverage_of sha outs) = VInt (times ''refused'' outs))
   \<and> (validate_execution_coverage sha c = Inr ()) =
       (\<exists>plan. build_execution_coverage sha plan = Inr c)"
proof -
  have sound: "validate_execution_coverage sha c = Inr ()"
    if "build_execution_coverage sha plan = Inr c" for plan
    using that built_coverage[of plan sha] coverage_of_valid[of plan sha]
    by (auto simp: build_execution_coverage_def record_outcomes_after split: list.splits)
  have plan: "(validate_execution_coverage sha c = Inr ()) = (\<exists>plan. build_execution_coverage sha plan = Inr c)"
    using valid_has_plan[of sha c] sound by blast
  show ?thesis
  proof (cases "filter (\<lambda>out. out \<notin> set VALID_ACTION_OUTCOMES) outs")
    case Nil
    have "ec_planned (coverage_of sha outs) = VInt (int (length outs))"
      "ec_refused (coverage_of sha outs) = VInt (times ''refused'' outs)"
      by (simp_all add: coverage_of_def build_coverage_def builder_after_def new_builder_def Let_def)
    then show ?thesis
      unfolding plan Nil list.case using built_coverage[OF Nil] coverage_of_valid[OF Nil] by simp
  next
    case (Cons bad rest)
    show ?thesis unfolding plan Cons list.case
      by (simp add: build_execution_coverage_def record_outcomes_after Cons)
  qed
qed

section \<open>Postures\<close>

lemma derived_posture_cases:
  "derive_mcp_action_posture ps adm = (posture, reasons) \<Longrightarrow> posture \<noteq> ''incomparable''"
  by (induction ps) (auto simp: derive_mcp_action_posture_def split: if_splits)

text \<open>The posture of an action. Creating an observation fails exactly on a blank tool name; the
  posture is complete exactly for an admitted action that is known to have succeeded, partial
  exactly for a refused or deferred action or a failed execution, otherwise not evaluated; the
  fourth posture of the vocabulary, incomparable, is never derived; and a posture other than
  complete always gives a reason.\<close>
theorem action_posture_exact:
  "case create_mcp_action_observation tool_name admission succeeded extra of
     Inl e \<Rightarrow> e = ToolNameEmpty \<and> blank tool_name
   | Inr ob \<Rightarrow> \<not> blank tool_name
       \<and> co_posture ob =
          (if admission = Some ''mcp_action:admitted'' \<and> succeeded = Some True then ''complete''
           else if is_unrun_token admission
                   \<or> (admission = Some ''mcp_action:admitted'' \<and> succeeded = Some False)
           then ''partial'' else ''not_evaluated'')
       \<and> co_posture ob \<noteq> ''incomparable''
       \<and> (co_posture ob = ''complete'' \<or> co_reasons ob \<noteq> [])"
proof -
  consider "admission = Some ''mcp_action:admitted''" | "admission = Some ''mcp_action:refused''"
    | "admission = Some ''mcp_action:deferred''"
    | "admission \<noteq> Some ''mcp_action:admitted''" "\<not> is_unrun_token admission"
    by (auto simp: is_unrun_token_def)
  then show ?thesis
    by cases (auto simp: create_mcp_action_observation_def action_phases_def phase_list_def
        derive_mcp_action_posture_def make_observation_def is_unrun_token_def vocab Let_def
        split: option.splits)
qed

end
