(* ===== verification/ObsGovernance.thy ===== *)
theory ObsGovernance
  imports PyValue
begin

text \<open>Governed broadcast control (\<^verbatim>\<open>src/dagr_obs_governance/\<close>): a time-bounded delegation, the policy
  over it, the governed call with its receipt, and the receipt that links an observed event. The
  JSON text, \<^verbatim>\<open>str\<close>, the SHA-256 of a text or of bytes and the ISO parser are parameters; the
  clock, the identifiers and what the downstream function does are inputs. A parsed time is either
  aware or naive, and comparing the two kinds raises, as it does in Python.\<close>

section \<open>Delegations\<close>

datatype moment = Aware int | Naive int

record delegation =
  dl_delegation_id :: string
  dl_actor_ref :: string
  dl_obs_instance_ref :: string
  dl_scene_collection :: "string option"
  dl_operation_family :: "string list"
  dl_subject_ids :: "string list option"
  dl_valid_from :: string
  dl_valid_until :: string
  dl_revoked :: bool

datatype obs_error = NaiveAwareComparison | DownstreamRaised string

type_synonym iso_parser = "string \<Rightarrow> moment option"

definition replace_z :: "string \<Rightarrow> string" where
  "replace_z ts = concat (map (\<lambda>c. if c = CHR ''Z'' then ''+00:00'' else [c]) ts)"

definition obs_parse_iso :: "iso_parser \<Rightarrow> string \<Rightarrow> moment option" where
  "obs_parse_iso isop ts = isop (replace_z ts)"

fun moment_le :: "moment \<Rightarrow> moment \<Rightarrow> (obs_error, bool) result" where
  "moment_le (Aware a) (Aware b) = Inr (a \<le> b)"
| "moment_le (Naive a) (Naive b) = Inr (a \<le> b)"
| "moment_le _ _ = Inl NaiveAwareComparison"

text \<open>The chained comparison stops at a first comparison that is false.\<close>

definition is_valid_at :: "iso_parser \<Rightarrow> delegation \<Rightarrow> string \<Rightarrow> (obs_error, bool) result" where
  "is_valid_at isop dl ts =
    (if dl_revoked dl then Inr False
     else case (obs_parse_iso isop ts, obs_parse_iso isop (dl_valid_from dl), obs_parse_iso isop (dl_valid_until dl)) of
         (Some t, Some from, Some until) \<Rightarrow>
           rbind (moment_le from t) (\<lambda>ok. if ok then moment_le t until else Inr False)
       | _ \<Rightarrow> Inr False)"

definition allows_operation :: "delegation \<Rightarrow> string \<Rightarrow> bool" where
  "allows_operation dl op = (op \<in> set (dl_operation_family dl))"

definition allows_subject :: "delegation \<Rightarrow> string option \<Rightarrow> bool" where
  "allows_subject dl subject =
    (case dl_subject_ids dl of
       None \<Rightarrow> True
     | Some ids \<Rightarrow> (case subject of None \<Rightarrow> True | Some s \<Rightarrow> s \<in> set ids))"

section \<open>Policy\<close>

definition HARD_DENY_OPS :: "string list" where
  "HARD_DENY_OPS =
     [''toggle'', ''toggle-mute'', ''toggle-stream'', ''toggle-record'', ''toggle-scene-item'',
      ''toggle-virtual-camera'', ''toggle-replay-buffer'', ''arbitrary_vendor_request'',
      ''arbitrary-vendor-request'', ''custom_event'', ''custom-event'', ''arbitrary_hotkey'',
      ''arbitrary-hotkey'', ''arbitrary_settings'', ''arbitrary-settings'',
      ''persistent_data_write'', ''persistent-data-write'', ''stop-stream'']"

definition ALLOWED_SCENE_OPS :: "string list" where
  "ALLOWED_SCENE_OPS = [''set-current-scene'', ''set-preview-scene'', ''trigger-studio-transition'']"

definition ALLOWED_MIXED_OPS :: "string list" where
  "ALLOWED_MIXED_OPS = [''set-input-mute'', ''set-scene-item-enabled'']"

definition HIGHER_SCOPE_OPS :: "string list" where
  "HIGHER_SCOPE_OPS = [''start-stream'', ''start-record'', ''stop-record'']"

record obs_decision =
  od_decision :: token
  od_reason :: string

definition is_admitted :: "obs_decision \<Rightarrow> bool" where
  "is_admitted d = (od_decision d = ''admitted'')"

text \<open>The text of an optional string in an f-string.\<close>

definition opt_text :: "string option \<Rightarrow> string" where
  "opt_text s = (case s of None \<Rightarrow> ''None'' | Some t \<Rightarrow> t)"

definition obs_evaluate_policy ::
  "iso_parser \<Rightarrow> delegation \<Rightarrow> string \<Rightarrow> string option \<Rightarrow> string \<Rightarrow> (obs_error, obs_decision) result" where
  "obs_evaluate_policy isop dl op subject ts =
    (if dl_revoked dl
     then Inr \<lparr>od_decision = ''refused_revoked'', od_reason = ''delegation_revoked''\<rparr>
     else rbind (is_valid_at isop dl ts) (\<lambda>valid. Inr
       (if \<not> valid
        then \<lparr>od_decision = ''refused'', od_reason = ''delegation_not_valid_at_timestamp''\<rparr>
        else if op \<in> set HARD_DENY_OPS
        then \<lparr>od_decision = ''refused_hard_deny'', od_reason = ''operation_hard_denied:'' @ op\<rparr>
        else if \<not> allows_operation dl op
        then \<lparr>od_decision = ''refused_out_of_scope'',
              od_reason = ''operation_not_in_delegation_family:'' @ op\<rparr>
        else if \<not> allows_subject dl subject
        then \<lparr>od_decision = ''refused_out_of_scope'',
              od_reason = ''subject_not_in_delegation_scope:'' @ opt_text subject\<rparr>
        else \<lparr>od_decision = ''admitted'', od_reason = ''policy_admitted''\<rparr>)))"

section \<open>Receipts\<close>

definition OBS_PROFILE_ID :: string where "OBS_PROFILE_ID = ''srs.broadcast_control''"
definition OBS_PROFILE_VERSION :: string where "OBS_PROFILE_VERSION = ''v0.1''"
definition OBS_RECEIPT_VERSION :: string where "OBS_RECEIPT_VERSION = ''srs.core.v5.1''"

definition BROADCAST_ATTESTATION_LIMITS :: string where
  "BROADCAST_ATTESTATION_LIMITS = ''The receipt declares a governed broadcast control operation under the srs.broadcast_control profile. It does not independently establish that the broadcast product received, executed, or entered the declared target state. MCP call success does not establish delivery; delivery requires a correlated native product state event.''"

definition FORBIDDEN_RECEIPT_FIELDS :: "string list" where
  "FORBIDDEN_RECEIPT_FIELDS =
     [''raw_arguments'', ''arguments'', ''raw_result'', ''result_body'', ''raw_payload'',
      ''raw_event'', ''stream_key'', ''password'', ''credentials'']"

record obs_hash =
  oh_bytes :: "string \<Rightarrow> string"
  oh_text :: "string \<Rightarrow> string"
  oh_json :: "pyv \<Rightarrow> string option"
  oh_str :: "pyv \<Rightarrow> string"

definition obs_stable_hash :: "obs_hash \<Rightarrow> pyv \<Rightarrow> string" where
  "obs_stable_hash oh v =
     ''sha256:'' @
     (case v of
        VBytes b \<Rightarrow> oh_bytes oh b
      | VStr s \<Rightarrow> oh_text oh s
      | VNone \<Rightarrow> oh_bytes oh ''null''
      | _ \<Rightarrow> (case oh_json oh v of Some t \<Rightarrow> oh_text oh t | None \<Rightarrow> oh_text oh (oh_str oh v)))"

definition obs_receipt_id :: "string \<Rightarrow> string" where
  "obs_receipt_id uuid = ''urn:srs:receipt:obs-governance:'' @ uuid"

definition garp_extension :: "pydict \<Rightarrow> pyv" where
  "garp_extension extra =
     VMap [(''garp'',
       VMap ([(''mcp_success_proves_delivery'', VBool False), (''profile_id'', VStr OBS_PROFILE_ID),
              (''profile_version'', VStr OBS_PROFILE_VERSION)] @ extra))]"

definition with_subject_hash :: "obs_hash \<Rightarrow> string option \<Rightarrow> pydict \<Rightarrow> pydict" where
  "with_subject_hash oh subject receipt =
    (case subject of
       None \<Rightarrow> receipt
     | Some s \<Rightarrow> dset ''subject_id_hash'' (VStr (obs_stable_hash oh (VStr s))) receipt)"

definition build_refused_receipt ::
  "obs_hash \<Rightarrow> string \<Rightarrow> delegation \<Rightarrow> string \<Rightarrow> string option \<Rightarrow> string \<Rightarrow> obs_decision \<Rightarrow> string
    \<Rightarrow> pydict" where
  "build_refused_receipt oh uuid dl op subject arguments_hash d issued_at =
     with_subject_hash oh subject
       [(''receipt_id'', VStr (obs_receipt_id uuid)),
        (''receipt_version'', VStr OBS_RECEIPT_VERSION), (''profile_id'', VStr OBS_PROFILE_ID),
        (''profile_version'', VStr OBS_PROFILE_VERSION), (''receipt_kind'', VStr ''request''),
        (''capture_posture'', VStr ''dagr_governed''),
        (''boundary_type'', VStr ''broadcast_control_boundary''),
        (''receipt_type'', VStr ''provenance''), (''issued_at'', VStr issued_at),
        (''disposition'', VStr ''refused''), (''refusal_reason'', VStr (od_reason d)),
        (''delegation_id'', VStr (dl_delegation_id dl)), (''actor_ref'', VStr (dl_actor_ref dl)),
        (''obs_instance_ref'', VStr (dl_obs_instance_ref dl)), (''operation_name'', VStr op),
        (''arguments_hash'', VStr arguments_hash),
        (''attestation_limits'', VList [VStr BROADCAST_ATTESTATION_LIMITS]),
        (''retention_class_applied'', VStr ''hash_only''), (''requires_signing'', VBool False),
        (''extensions'', garp_extension [])]"

definition build_admitted_receipt ::
  "obs_hash \<Rightarrow> string \<Rightarrow> delegation \<Rightarrow> string \<Rightarrow> string option \<Rightarrow> string \<Rightarrow> string \<Rightarrow> string \<Rightarrow> string
    \<Rightarrow> pydict" where
  "build_admitted_receipt oh uuid dl op subject arguments_hash target result_hash issued_at =
     with_subject_hash oh subject
       [(''receipt_id'', VStr (obs_receipt_id uuid)),
        (''receipt_version'', VStr OBS_RECEIPT_VERSION), (''profile_id'', VStr OBS_PROFILE_ID),
        (''profile_version'', VStr OBS_PROFILE_VERSION), (''receipt_kind'', VStr ''execution''),
        (''capture_posture'', VStr ''dagr_governed''),
        (''boundary_type'', VStr ''broadcast_control_boundary''),
        (''receipt_type'', VStr ''provenance''), (''issued_at'', VStr issued_at),
        (''disposition'', VStr ''admitted''), (''delegation_id'', VStr (dl_delegation_id dl)),
        (''actor_ref'', VStr (dl_actor_ref dl)),
        (''obs_instance_ref'', VStr (dl_obs_instance_ref dl)), (''operation_name'', VStr op),
        (''arguments_hash'', VStr arguments_hash), (''target_state'', VStr target),
        (''downstream_result_hash'', VStr result_hash),
        (''attestation_limits'', VList [VStr BROADCAST_ATTESTATION_LIMITS]),
        (''retention_class_applied'', VStr ''hash_only''), (''requires_signing'', VBool False),
        (''extensions'', garp_extension [])]"

section \<open>The governed call\<close>

datatype downstream = Returned pyv | Raised string

record obs_env =
  oe_hash :: obs_hash
  oe_iso :: iso_parser
  oe_now :: string
  oe_uuid :: string
  oe_downstream :: downstream

record obs_result =
  or_disposition :: token
  or_refusal_reason :: "string option"
  or_invocations :: nat
  or_result :: "pyv option"
  or_receipt :: pydict

definition target_state_hash :: "obs_hash \<Rightarrow> string \<Rightarrow> string option \<Rightarrow> string \<Rightarrow> string" where
  "target_state_hash oh op subject arguments_hash =
     obs_stable_hash oh (VMap [(''op'', VStr op), (''subject'', vopt subject),
                               (''arguments'', VStr arguments_hash)])"

text \<open>The second component lists the calls of the downstream function.\<close>

definition run_obs_governed_call ::
  "obs_env \<Rightarrow> delegation \<Rightarrow> string \<Rightarrow> string option \<Rightarrow> pyv \<Rightarrow> string option
    \<Rightarrow> (obs_error, obs_result) result \<times> (string \<times> pyv) list" where
  "run_obs_governed_call env dl op subject arguments issued_at =
    (let ts = (if given issued_at then the issued_at else oe_now env);
         h = obs_stable_hash (oe_hash env) arguments in
     case obs_evaluate_policy (oe_iso env) dl op subject ts of
       Inl e \<Rightarrow> (Inl e, [])
     | Inr d \<Rightarrow>
        if \<not> is_admitted d
        then (Inr \<lparr>or_disposition = ''refused'', or_refusal_reason = Some (od_reason d),
                or_invocations = 0, or_result = None,
                or_receipt = build_refused_receipt (oe_hash env) (oe_uuid env) dl op subject h d ts\<rparr>,
              [])
        else
         (case oe_downstream env of
            Raised cls \<Rightarrow> (Inl (DownstreamRaised cls), [(op, arguments)])
          | Returned v \<Rightarrow>
             (Inr \<lparr>or_disposition = ''admitted'', or_refusal_reason = None, or_invocations = 1,
                or_result = Some v,
                or_receipt = build_admitted_receipt (oe_hash env) (oe_uuid env) dl op subject h
                   (target_state_hash (oe_hash env) op subject h)
                   (obs_stable_hash (oe_hash env) v) ts\<rparr>,
              [(op, arguments)])))"

section \<open>Observed consequences\<close>

definition consequence_receipt_id :: "string \<Rightarrow> string" where
  "consequence_receipt_id uuid = ''urn:srs:receipt:obs-consequence:'' @ uuid"

definition carried :: "pydict \<Rightarrow> string \<Rightarrow> pyv" where
  "carried receipt k = (case dget receipt k of None \<Rightarrow> VNone | Some v \<Rightarrow> v)"

definition link_consequence ::
  "obs_hash \<Rightarrow> string \<Rightarrow> string \<Rightarrow> pydict \<Rightarrow> pyv \<Rightarrow> int \<Rightarrow> pydict" where
  "link_consequence oh uuid now receipt event window =
     [(''receipt_id'', VStr (consequence_receipt_id uuid)),
      (''receipt_version'', VStr OBS_RECEIPT_VERSION), (''profile_id'', VStr OBS_PROFILE_ID),
      (''profile_version'', VStr OBS_PROFILE_VERSION),
      (''receipt_kind'', VStr ''observed_consequence''),
      (''capture_posture'', VStr ''dagr_governed''),
      (''boundary_type'', VStr ''broadcast_control_boundary''),
      (''receipt_type'', VStr ''provenance''), (''issued_at'', VStr now),
      (''execution_receipt_id'', carried receipt ''receipt_id''),
      (''delegation_id'', carried receipt ''delegation_id''),
      (''actor_ref'', carried receipt ''actor_ref''),
      (''obs_instance_ref'', carried receipt ''obs_instance_ref''),
      (''operation_name'', carried receipt ''operation_name''),
      (''native_event_ref'', VStr (obs_stable_hash oh event)),
      (''consequence_window_ms'', VInt window), (''target_state'', carried receipt ''target_state''),
      (''attestation_limits'', VList [VStr BROADCAST_ATTESTATION_LIMITS]),
      (''retention_class_applied'', VStr ''hash_only''), (''requires_signing'', VBool False),
      (''extensions'', garp_extension [(''consequence_correlated'', VBool True)])]"

section \<open>Facts\<close>

text \<open>The delegation covers the time, which needs all three stamps to parse and to be of one kind.\<close>

definition within_window :: "iso_parser \<Rightarrow> delegation \<Rightarrow> string \<Rightarrow> bool" where
  "within_window isop dl ts =
    (case (obs_parse_iso isop ts, obs_parse_iso isop (dl_valid_from dl), obs_parse_iso isop (dl_valid_until dl)) of
       (Some (Aware t), Some (Aware from), Some (Aware until)) \<Rightarrow> from \<le> t \<and> t \<le> until
     | (Some (Naive t), Some (Naive from), Some (Naive until)) \<Rightarrow> from \<le> t \<and> t \<le> until
     | _ \<Rightarrow> False)"

definition delegation_covers :: "iso_parser \<Rightarrow> delegation \<Rightarrow> string \<Rightarrow> string option \<Rightarrow> string \<Rightarrow> bool" where
  "delegation_covers isop dl op subject ts =
    (\<not> dl_revoked dl \<and> within_window isop dl ts \<and> op \<notin> set HARD_DENY_OPS
     \<and> op \<in> set (dl_operation_family dl)
     \<and> (case (dl_subject_ids dl, subject) of (Some ids, Some s) \<Rightarrow> s \<in> set ids | _ \<Rightarrow> True))"

lemma valid_iff_window:
  "is_valid_at isop dl ts = Inr True \<longleftrightarrow> \<not> dl_revoked dl \<and> within_window isop dl ts"
  by (auto simp: is_valid_at_def within_window_def split: option.splits moment.splits)

lemma policy_admits_iff:
  "(\<exists>d. obs_evaluate_policy isop dl op subject ts = Inr d \<and> is_admitted d)
     = delegation_covers isop dl op subject ts"
proof (cases "is_valid_at isop dl ts = Inr True")
  case True
  then show ?thesis using valid_iff_window[of isop dl ts]
    by (auto simp: obs_evaluate_policy_def delegation_covers_def is_admitted_def
        allows_operation_def allows_subject_def split: option.splits)
next
  case False
  then show ?thesis using valid_iff_window[of isop dl ts]
    by (cases "is_valid_at isop dl ts")
       (auto simp: obs_evaluate_policy_def delegation_covers_def is_admitted_def split: if_splits)
qed

text \<open>A refused call reports the raw subject identifier in its reason although the receipt is
  declared to hold it as a hash only.\<close>

lemma refusal_reveals_subject:
  assumes "is_valid_at isop dl ts = Inr True" "op \<notin> set HARD_DENY_OPS"
    "op \<in> set (dl_operation_family dl)" "dl_subject_ids dl = Some ids" "s \<notin> set ids"
  shows "obs_evaluate_policy isop dl op (Some s) ts = Inr \<lparr>od_decision = ''refused_out_of_scope'',
      od_reason = ''subject_not_in_delegation_scope:'' @ s\<rparr>"
  using assms valid_iff_window[of isop dl ts]
  by (simp add: obs_evaluate_policy_def allows_operation_def allows_subject_def opt_text_def)

lemma refused_receipt_fields [simp]:
  "dget (build_refused_receipt oh u dl op subject h d ts) ''disposition'' = Some (VStr ''refused'')"
  "dget (build_refused_receipt oh u dl op subject h d ts) ''arguments_hash'' = Some (VStr h)"
  "dget (build_refused_receipt oh u dl op subject h d ts) ''delegation_id''
     = Some (VStr (dl_delegation_id dl))"
  "dget (build_refused_receipt oh u dl op subject h d ts) ''receipt_id'' = Some (VStr (obs_receipt_id u))"
  by (simp_all add: build_refused_receipt_def with_subject_hash_def split: option.splits)

lemma admitted_receipt_fields [simp]:
  "dget (build_admitted_receipt oh u dl op subject h t rh ts) ''disposition'' = Some (VStr ''admitted'')"
  "dget (build_admitted_receipt oh u dl op subject h t rh ts) ''arguments_hash'' = Some (VStr h)"
  "dget (build_admitted_receipt oh u dl op subject h t rh ts) ''delegation_id''
     = Some (VStr (dl_delegation_id dl))"
  "dget (build_admitted_receipt oh u dl op subject h t rh ts) ''receipt_id''
     = Some (VStr (obs_receipt_id u))"
  by (simp_all add: build_admitted_receipt_def with_subject_hash_def split: option.splits)

lemma link_execution [simp]:
  "dget receipt ''receipt_id'' = Some v \<Longrightarrow>
     dget (link_consequence oh u now receipt event w) ''execution_receipt_id'' = Some v"
  by (simp add: link_consequence_def carried_def)


end
