(* ===== verification/NeutralEdges.thy ===== *)
theory NeutralEdges
  imports HarnessFacts
begin

text \<open>Small edges of the system: the continuation contract (\<^verbatim>\<open>src/dagr_mcp_continuation/\<close>), the
  translation of an operator decision into a tool policy
  (\<^verbatim>\<open>src/dagr_mcp/operator_admission_resolver.py\<close>), the caller principal
  (\<^verbatim>\<open>src/dagr_mcp/caller_principal.py\<close>) and the execution-packet extension of a receipt
  (\<^verbatim>\<open>src/dagr_mcp/cg_extension.py\<close>).\<close>

section \<open>Continuations\<close>

datatype continuation_error =
    IdentityNotText string
  | InteractionEqualsRequest
  | RequestEqualsParent
  | RoundNotInt
  | RoundTooSmall
  | AdmissionRefusal
  | OutcomeIneligible

record continuation_identity =
  ci_interaction_id :: pyv
  ci_request_id :: pyv
  ci_parent_request_id :: pyv
  ci_round_number :: pyv

record neutral_continuation =
  nc_identity :: continuation_identity
  nc_outcome :: token

definition ELIGIBLE_OUTCOME :: token where "ELIGIBLE_OUTCOME = ''continuable''"

definition identity_text :: "string \<Rightarrow> pyv \<Rightarrow> (continuation_error, unit) result" where
  "identity_text name v =
     (case v of VStr s \<Rightarrow> require (\<not> blank s) (IdentityNotText name) | _ \<Rightarrow> Inl (IdentityNotText name))"

definition round_ok :: "pyv \<Rightarrow> (continuation_error, unit) result" where
  "round_ok v = (case v of VInt i \<Rightarrow> require (1 \<le> i) RoundTooSmall | _ \<Rightarrow> Inl RoundNotInt)"

definition make_continuation_identity ::
  "continuation_identity \<Rightarrow> (continuation_error, continuation_identity) result" where
  "make_continuation_identity ci =
     rbind (checks [identity_text ''interaction_id'' (ci_interaction_id ci),
                    identity_text ''request_id'' (ci_request_id ci),
                    identity_text ''parent_request_id'' (ci_parent_request_id ci)]) (\<lambda>_.
     rbind (require (ci_interaction_id ci \<noteq> ci_request_id ci) InteractionEqualsRequest) (\<lambda>_.
     rbind (require (ci_request_id ci \<noteq> ci_parent_request_id ci) RequestEqualsParent) (\<lambda>_.
     rbind (round_ok (ci_round_number ci)) (\<lambda>_. Inr ci))))"

definition make_neutral_continuation ::
  "continuation_identity \<Rightarrow> token \<Rightarrow> (continuation_error, neutral_continuation) result" where
  "make_neutral_continuation ci out =
     (if out \<noteq> ELIGIBLE_OUTCOME then Inl OutcomeIneligible
      else Inr \<lparr>nc_identity = ci, nc_outcome = out\<rparr>)"

text \<open>The two conditions are identity with \<^verbatim>\<open>True\<close>, not truth.\<close>

definition require_continuation_admission ::
  "pyv \<Rightarrow> pyv \<Rightarrow> pyv \<Rightarrow> (continuation_error, unit) result" where
  "require_continuation_admission proceeds recorded admission =
     require (proceeds = VBool True \<and> recorded = VBool True \<and> admission \<noteq> VNone) AdmissionRefusal"

definition build_neutral_continuation ::
  "token \<Rightarrow> continuation_identity \<Rightarrow> pyv \<Rightarrow> pyv \<Rightarrow> pyv
    \<Rightarrow> (continuation_error, neutral_continuation) result" where
  "build_neutral_continuation out ci proceeds recorded admission =
     rbind (require_continuation_admission proceeds recorded admission)
       (\<lambda>_. make_neutral_continuation ci out)"

text \<open>A continuation exists only for a continuable outcome of an admitted and recorded call; the
  identity of an accepted one has three texts, the attempt differing from the interaction and from
  its parent, and a positive round.\<close>

lemma continuation_admitted:
  "build_neutral_continuation out ci p r a = Inr c \<longleftrightarrow>
     out = ''continuable'' \<and> p = VBool True \<and> r = VBool True \<and> a \<noteq> VNone
     \<and> c = \<lparr>nc_identity = ci, nc_outcome = ''continuable''\<rparr>"
  by (auto simp: build_neutral_continuation_def make_neutral_continuation_def ELIGIBLE_OUTCOME_def
      require_continuation_admission_def rbind_Inr_iff require_Inr_iff)

lemma continuation_identity_iff:
  "make_continuation_identity ci = Inr ci' \<longleftrightarrow> ci' = ci \<and>
     (\<exists>i q p n. ci = \<lparr>ci_interaction_id = VStr i, ci_request_id = VStr q,
                    ci_parent_request_id = VStr p, ci_round_number = VInt n\<rparr>
        \<and> \<not> blank i \<and> \<not> blank q \<and> \<not> blank p \<and> i \<noteq> q \<and> q \<noteq> p \<and> 1 \<le> n)"
  by (cases ci) (auto simp: make_continuation_identity_def rbind_Inr_iff require_Inr_iff
      identity_text_def round_ok_def split: pyv.splits)

section \<open>Operator decisions\<close>

datatype operator_error = OperatorToolNameEmpty | UnknownOperatorDecision string

definition DEFAULT_REFUSAL_REASON :: string where "DEFAULT_REFUSAL_REASON = ''policy_refused''"

definition DECISION_TO_POLICY_DECISION :: "token dict" where
  "DECISION_TO_POLICY_DECISION = [(''admitted'', ''allow''), (''refused'', ''deny'')]"

definition resolve_operator_policy ::
  "string \<Rightarrow> token \<Rightarrow> token \<Rightarrow> string option \<Rightarrow> int option \<Rightarrow> (operator_error, tool_policy) result" where
  "resolve_operator_policy tool_name tool_class decision reason gate_timeout =
    (if blank tool_name then Inl OperatorToolNameEmpty
     else case dget DECISION_TO_POLICY_DECISION decision of
         None \<Rightarrow> Inl (UnknownOperatorDecision decision)
       | Some d \<Rightarrow>
           Inr \<lparr>tp_tool_name = tool_name, tp_tool_class = tool_class, tp_decision = d,
                tp_receipt_required = False, tp_review_required = False,
                tp_retention_class = ''hash_only'', tp_required_sinks = [''event''],
                tp_reason = Some (case reason of
                     Some r \<Rightarrow> r
                   | None \<Rightarrow> if decision = ''refused'' then DEFAULT_REFUSAL_REASON
                             else ''operator_'' @ decision),
                tp_gate_timeout_seconds = gate_timeout\<rparr>)"

section \<open>Caller principals\<close>

text \<open>The authentication context is a value of \<^verbatim>\<open>dagr_sdk\<close>; of it the adapter reads the
  principal reference, whether it is authenticated, and its wire form.\<close>

record caller_auth =
  ca_principal_ref :: "string option"
  ca_is_authenticated :: bool
  ca_wire_state :: pyv
  ca_wire_principal_ref :: pyv
  ca_wire_scope_refs :: pyv

definition to_caller_context :: "caller_auth \<Rightarrow> string option \<Rightarrow> string option \<Rightarrow> pydict" where
  "to_caller_context ca session_ref request_ref =
     [(''actor_ref'', vopt (if ca_is_authenticated ca then ca_principal_ref ca else None)),
      (''session_ref'', vopt session_ref), (''request_ref'', vopt request_ref)]"

definition for_policy_resolver :: "caller_auth \<Rightarrow> pydict" where
  "for_policy_resolver ca =
     [(''principal_state'', ca_wire_state ca), (''principal_ref'', ca_wire_principal_ref ca),
      (''scopes'', ca_wire_scope_refs ca)]"

lemma principal_reaches_harness:
  "hc_actor_ref (build_context hp cfg tool h (to_caller_context ca session request))
     = (if ca_is_authenticated ca then map_option (\<lambda>r. py_str hp (VStr r)) (ca_principal_ref ca) else None)"
  by (simp add: build_context_def context_value_def to_caller_context_def vopt_def split: option.splits)

text \<open>An operator decision governs the harness. Only the two decisions of the closed vocabulary
  become a policy, never by default; under the policy of a refusal the harness does not run the
  handler of that tool, whatever the arguments, the profile and the sinks; and under the policy of
  an admission it runs it exactly when the sinks are healthy, the event is written and the admission
  receipt, where one is due, is accepted.\<close>
theorem operator_decision_governs:
  "case resolve_operator_policy tool_name tool_class decision reason timeout of
     Inl e \<Rightarrow> (if blank tool_name then True else decision \<notin> set [''admitted'', ''refused''])
   | Inr p \<Rightarrow> decision \<in> set [''admitted'', ''refused'']
       \<and> (let (r, s) = wrapped env cfg (PolicySequence [p]) profile tool_name arguments ctx;
              d = evaluate_policy tool_name cfg (Some p);
              b = failure_behavior_of profile
          in hx_runs s =
             (if decision = ''admitted'' \<and> sinks_healthy env b 0 [''event'']
                 \<and> (case he_event env 0 of Wrote _ \<Rightarrow> True | _ \<Rightarrow> False)
                 \<and> sinks_healthy env b 1 (effective_required_sinks d profile)
                 \<and> (if he_bridge env then he_admission env \<noteq> None else True) \<and> he_callable env
              then [(tool_name, arguments)] else []))"
proof (cases "resolve_operator_policy tool_name tool_class decision reason timeout")
  case (Inl e)
  then show ?thesis
    by (auto simp: resolve_operator_policy_def DECISION_TO_POLICY_DECISION_def split: if_splits)
next
  case (Inr p)
  then have p: "decision \<in> set [''admitted'', ''refused'']" "tp_tool_name p = tool_name"
    "tp_decision p = (if decision = ''admitted'' then ''allow'' else ''deny'')"
    by (auto simp: resolve_operator_policy_def DECISION_TO_POLICY_DECISION_def split: if_splits)
  have n: "dget (normalize_policies (PolicySequence [p])) tool_name = Some p"
    by (simp add: normalize_policies_def p(2))
  have d: "decision_runs (evaluate_policy tool_name cfg (Some p)) = (decision = ''admitted'')"
    by (simp add: evaluate_policy_def decision_runs_def Let_def p(3))
  obtain r s where w: "wrapped env cfg (PolicySequence [p]) profile tool_name arguments ctx = (r, s)"
    by fastforce
  have "hx_runs s = (if harness_admits env cfg (PolicySequence [p]) profile tool_name
      then [(tool_name, arguments)] else [])"
    using wrapped_runs[of env cfg "PolicySequence [p]" profile tool_name arguments ctx] w by simp
  then show ?thesis using p(1) d unfolding Inr sum.case w Let_def prod.case
    by (auto simp: harness_admits_def Let_def n)
qed

section \<open>Execution packets\<close>

datatype cg_error =
    CgDigestMalformed
  | CgPacketIdMalformed
  | CgHexMismatch
  | CgNotDict
  | CgRefNotDict
  | CgExtraKeys

definition SHA256_PREFIX :: string where "SHA256_PREFIX = ''sha256:''"
definition PACKET_ID_PREFIX :: string where "PACKET_ID_PREFIX = ''cg:execution-packet:sha256:''"

text \<open>The pattern of a packet identifier, the dollar sign matching before a final newline.\<close>

definition packet_id_ok :: "string \<Rightarrow> bool" where
  "packet_id_ok s =
     (take 27 s = PACKET_ID_PREFIX \<and> length (take 64 (drop 27 s)) = 64
      \<and> list_all hex_char (take 64 (drop 27 s)) \<and> (drop 91 s = [] \<or> drop 91 s = newline))"

definition cg_ref :: "string \<Rightarrow> string \<Rightarrow> pydict" where
  "cg_ref d p = [(''execution_packet_digest'', VStr d), (''packet_id'', VStr p)]"

definition build_cg_extension :: "pyv \<Rightarrow> pyv \<Rightarrow> (cg_error, pydict) result" where
  "build_cg_extension digest packet_id =
    (case digest of
       VStr d \<Rightarrow>
        if \<not> sha256_ref d then Inl CgDigestMalformed
        else
         (case packet_id of
            VStr p \<Rightarrow>
              if \<not> packet_id_ok p then Inl CgPacketIdMalformed
              else if drop (length SHA256_PREFIX) d \<noteq> drop (length PACKET_ID_PREFIX) p
              then Inl CgHexMismatch
              else Inr [(''cg'', VMap [(''execution_packet_ref'', VMap (cg_ref d p))])]
          | _ \<Rightarrow> Inl CgPacketIdMalformed)
     | _ \<Rightarrow> Inl CgDigestMalformed)"

definition validate_packet_ref :: "pydict \<Rightarrow> (cg_error, unit) result" where
  "validate_packet_ref ref =
    (case dget ref ''execution_packet_digest'' of
       Some (VStr d) \<Rightarrow>
        if \<not> sha256_ref d then Inl CgDigestMalformed
        else
         (case dget ref ''packet_id'' of
            Some (VStr p) \<Rightarrow>
              if \<not> packet_id_ok p then Inl CgPacketIdMalformed
              else if drop (length SHA256_PREFIX) d \<noteq> drop (length PACKET_ID_PREFIX) p
              then Inl CgHexMismatch
              else require (list_all (\<lambda>k. k = ''execution_packet_digest'' \<or> k = ''packet_id'') (dkeys ref))
                     CgExtraKeys
          | _ \<Rightarrow> Inl CgPacketIdMalformed)
     | _ \<Rightarrow> Inl CgDigestMalformed)"

definition validate_cg_extension :: "pydict option \<Rightarrow> (cg_error, unit) result" where
  "validate_cg_extension extensions =
    (case extensions of
       None \<Rightarrow> Inr ()
     | Some ext \<Rightarrow>
        (case dget ext ''cg'' of
           None \<Rightarrow> Inr ()
         | Some VNone \<Rightarrow> Inr ()
         | Some (VMap cg) \<Rightarrow>
            (case dget cg ''execution_packet_ref'' of
               None \<Rightarrow> Inr ()
             | Some VNone \<Rightarrow> Inr ()
             | Some (VMap ref) \<Rightarrow> validate_packet_ref ref
             | Some _ \<Rightarrow> Inl CgRefNotDict)
         | Some _ \<Rightarrow> Inl CgNotDict))"

lemma packet_ref_valid_iff:
  assumes "wf_dict ref"
  shows "validate_packet_ref ref = Inr () \<longleftrightarrow>
     (\<exists>d p ext. build_cg_extension (VStr d) (VStr p) = Inr ext
        \<and> (\<forall>k. dget ref k = dget (cg_ref d p) k))"
proof
  assume v: "validate_packet_ref ref = Inr ()"
  then obtain d p where dp: "dget ref ''execution_packet_digest'' = Some (VStr d)"
    "dget ref ''packet_id'' = Some (VStr p)" "sha256_ref d" "packet_id_ok p"
    "drop (length SHA256_PREFIX) d = drop (length PACKET_ID_PREFIX) p"
    "list_all (\<lambda>k. k = ''execution_packet_digest'' \<or> k = ''packet_id'') (dkeys ref)"
    by (auto simp: validate_packet_ref_def require_Inr_iff split: option.splits pyv.splits if_splits)
  have "dget ref k = None" if "k \<noteq> ''execution_packet_digest''" "k \<noteq> ''packet_id''" for k
    using dp(6) that by (auto simp: dget_None_iff list_all_iff)
  then have "\<forall>k. dget ref k = dget (cg_ref d p) k" using dp(1,2) by (simp add: cg_ref_def)
  moreover have "\<exists>ext. build_cg_extension (VStr d) (VStr p) = Inr ext"
    using dp by (simp add: build_cg_extension_def)
  ultimately show "\<exists>d p ext. build_cg_extension (VStr d) (VStr p) = Inr ext
        \<and> (\<forall>k. dget ref k = dget (cg_ref d p) k)" by blast
next
  assume "\<exists>d p ext. build_cg_extension (VStr d) (VStr p) = Inr ext
        \<and> (\<forall>k. dget ref k = dget (cg_ref d p) k)"
  then obtain d p ext where b: "build_cg_extension (VStr d) (VStr p) = Inr ext"
    and k: "\<And>k. dget ref k = dget (cg_ref d p) k" by blast
  have "list_all (\<lambda>k. k = ''execution_packet_digest'' \<or> k = ''packet_id'') (dkeys ref)"
  proof (unfold list_all_iff, intro ballI)
    fix j assume "j \<in> set (dkeys ref)"
    then have "dget ref j \<noteq> None" by (simp add: dget_None_iff)
    then show "j = ''execution_packet_digest'' \<or> j = ''packet_id''"
      by (simp add: k cg_ref_def split: if_splits)
  qed
  then show "validate_packet_ref ref = Inr ()"
    using b k[of "''execution_packet_digest''"] k[of "''packet_id''"]
    by (auto simp: validate_packet_ref_def build_cg_extension_def cg_ref_def require_def
        split: if_splits)
qed

text \<open>The execution-packet extension has a closed shape. What the builder builds validates, and
  a packet reference inside an extension validates exactly when it has the two keys the builder
  writes, with values the builder accepts, so no further key can ride along.\<close>
theorem cg_extension_closed:
  assumes "wf_dict ref"
  shows "(case build_cg_extension dg pid of
            Inl _ \<Rightarrow> True | Inr ext \<Rightarrow> validate_cg_extension (Some ext) = Inr ())
    \<and> (validate_cg_extension (Some [(''cg'', VMap [(''execution_packet_ref'', VMap ref)])]) = Inr ()) =
        (\<exists>d p ext. build_cg_extension (VStr d) (VStr p) = Inr ext
           \<and> (\<forall>k. dget ref k = dget (cg_ref d p) k))"
proof -
  have "validate_packet_ref (cg_ref d p) = Inr ()"
    if "build_cg_extension (VStr d) (VStr p) = Inr ext" for d p ext
    using that packet_ref_valid_iff[of "cg_ref d p"] by (auto simp: cg_ref_def wf_dict_def)
  then have "case build_cg_extension dg pid of
      Inl _ \<Rightarrow> True | Inr ext \<Rightarrow> validate_cg_extension (Some ext) = Inr ()"
    by (auto simp: build_cg_extension_def validate_cg_extension_def split: pyv.splits)
  then show ?thesis using packet_ref_valid_iff[OF assms] by (simp add: validate_cg_extension_def)
qed

theorem cg_extension_closed_witness:
  "validate_cg_extension (Some [(''cg'', VMap [(''execution_packet_ref'',
      VMap [(''execution_packet_digest'', VStr (''sha256:'' @ replicate 64 CHR ''a'')),
            (''packet_id'', VStr (PACKET_ID_PREFIX @ replicate 64 CHR ''a''))])])]) = Inr ()"
proof -
  let ?d = "''sha256:'' @ replicate 64 CHR ''a''" and ?p = "PACKET_ID_PREFIX @ replicate 64 CHR ''a''"
  have wf: "wf_dict (cg_ref ?d ?p)" by (simp add: cg_ref_def wf_dict_def)
  have "packet_id_ok ?p" by (simp add: packet_id_ok_def PACKET_ID_PREFIX_def hex_char_def list_all_iff)
  moreover have "sha256_ref ?d" by (rule sha256_ref_of_hex) (simp_all add: hex_char_def list_all_iff)
  ultimately have "\<exists>ext. build_cg_extension (VStr ?d) (VStr ?p) = Inr ext"
    by (simp add: build_cg_extension_def SHA256_PREFIX_def PACKET_ID_PREFIX_def)
  then show ?thesis using cg_extension_closed[OF wf] unfolding cg_ref_def by blast
qed

end
