(* ===== verification/SdkBindingMask.thy ===== *)
theory SdkBindingMask
  imports FastmcpFacts
begin

text \<open>The mask of the official-SDK binding over the neutral contract
  (\<^verbatim>\<open>src/dagr_mcp_sdk_binding/mask.py\<close>), with its own tables, projections and drift guards, and
  the relation to the FastMCP mask: the two classify alike except for submitted tasks, and the
  receipts of the two bindings agree up to the binding stamp. Notes with characters outside ASCII
  are given as UTF-8 bytes. What the guard reads of the installed SDK types is an input.\<close>

section \<open>Constants and tables\<close>

definition SDK_BINDING_VERSION :: string where
  "SDK_BINDING_VERSION = ''official-mcp-sdk.python.v0.1''"
definition SDK_MASK_BINDING_TARGET :: string where
  "SDK_MASK_BINDING_TARGET = ''official-mcp-sdk.python.v0.1''"

definition SDK_BINDING_OUTCOME_TOKENS :: "token list" where
  "SDK_BINDING_OUTCOME_TOKENS =
     [''result_returned'', ''error_returned'', ''exception'', ''task_submitted'',
      ''indeterminate'']"
definition BINDING_UNSUPPORTED_OUTCOME_TOKENS :: "token list" where
  "BINDING_UNSUPPORTED_OUTCOME_TOKENS = [''task_submitted'']"
definition SDK_DISPOSITION_TOKENS :: "token list" where
  "SDK_DISPOSITION_TOKENS = [''admitted'', ''refused'', ''deferred_for_review'']"

definition SDK_DISPOSITION_MASK :: "mask_entry list" where
  "SDK_DISPOSITION_MASK =
     [entry ''admitted'' (Some ''admitted'') ''direct''
        ''Admitted at the boundary; an admission receipt is written before the delegated tool dispatch for governed classes.'',
      entry ''refused'' (Some ''refused'') ''direct''
        ''A single terminal refused admission receipt; the adapter never calls the delegated tool and projects a transport-native error.'',
      entry ''deferred'' (Some ''deferred_for_review'') ''direct''
        ''A deferred admission receipt carrying review_object_ref and retry_contract='retry_after_approval'. The neutral name 'deferred' is the binding token 'deferred_for_review'.'']"

definition SDK_REFUSAL_GROUND_MASK :: "mask_entry list" where
  "SDK_REFUSAL_GROUND_MASK =
     [entry ''policy_refused'' (Some ''policy_refused'') ''direct''
        ''Explicit deny policy (also the default when a binding reason code is opaque/out-of-vocabulary; the opaque code is emitted verbatim).'',
      entry ''unknown_tool_fail_closed'' (Some ''unknown_tool_fail_closed'') ''direct''
        ''No policy resolves the tool; the binding fails closed.'',
      entry ''required_sink_unavailable'' (Some ''required_sink_unavailable'') ''direct''
        ''A required sink is unavailable at the pre-gate health check; preserved verbatim and never repaired into another ground.'',
      entry ''review_object_creation_failed'' (Some ''review_object_creation_failed'') ''direct''
        ''A configured review sink is present but raises during review-object creation. Not reachable via a missing review sink (that surfaces as required_sink_unavailable).'']"

definition SDK_OUTCOME_MASK :: "mask_entry list" where
  "SDK_OUTCOME_MASK =
     [entry ''result'' (Some ''result_returned'') ''direct''
        ''A mcp.types.CallToolResult with isError=False (or content/dict/tuple normalized to one); carries a result_digest over the four-member MCP tool-result projection.'',
      entry ''error'' (Some ''error_returned'') ''direct''
        ''A mcp.types.CallToolResult with isError=True; carries a result_digest. Includes the SDK's own conversion of a handler-raised exception into an isError result when the adapter did not observe the raise first.'',
      entry ''exception'' (Some ''exception'') ''direct''
        ''The delegated tool raised and the adapter observed it before the SDK wrapper converted it; extensions.mcp.exception_class carries the class name only. No result_digest.'',
      entry ''task_submitted'' None ''unsupported''
        ''Explicit binding capability difference. The mcp.types.CreateTaskResult type exists and the lowlevel Server.call_tool handler wraps a returned CreateTaskResult in a ServerResult, but the bound tools/call CLIENT seam (ClientSession.call_tool) hardcodes result_type=CallToolResult and validates the response against it; CallToolResult.content is required and a serialized CreateTaskResult has none, so the client raises a pydantic ValidationError. CreateTaskResult is genuinely received only through the SEPARATE, deprecated experimental tasks extension (ClientSession.experimental.call_tool_as_task, a task-augmented CallToolRequest parsed as CreateTaskResult). This binding therefore does not observe task_submitted through tools/call; the adapter fails closed and never coerces it into result/error. FastMCP task_submitted is unchanged (a genuine capability difference, not a normalization).'',
      entry ''timeout'' (Some ''exception'') ''subsumed''
        (''There is no dedicated SDK timeout state. A raised TimeoutError is an ordinary inner exception and is recorded as outcome='exception' with exception_class='TimeoutError' (frozen '' @ [CHR 0xC2, CHR 0xA7] @ ''14). Cooperative cancellation is a distinct path (see 'cancellation').''),
      entry ''cancellation'' (Some ''indeterminate'') ''direct''
        ''anyio/asyncio CancelledError (a BaseException that propagates past the SDK call_tool wrapper) maps to outcome='indeterminate' carrying the three cancellation governance Booleans. No result_digest.'',
      entry ''input_required'' None ''unsupported''
        ''The official SDK exposes elicitation (mcp.types.ElicitRequest/ElicitResult and UrlElicitationRequiredError), but the neutral contract marks input_required unsupported for this binding. The adapter fails explicitly and never normalizes it into result/error/exception.'']"

definition SDK_INPUT_REQUIRED_MASK :: "mask_entry list" where
  "SDK_INPUT_REQUIRED_MASK =
     [entry ''continuable'' None ''unsupported''
        (''A resumable paused call '' @ [CHR 0xE2, CHR 0x80, CHR 0x94] @ '' the SDK's session-driven elicitation (mcp.types.ElicitRequest/ElicitResult) '' @ [CHR 0xE2, CHR 0x80, CHR 0x94] @ '' is not carried as a DAGR disposition. It fails explicitly rather than being coerced.''),
      entry ''interrupted'' None ''unsupported''
        (''A non-resumable paused call '' @ [CHR 0xE2, CHR 0x80, CHR 0x94] @ '' the SDK's UrlElicitationRequiredError (protocol error -32042) '' @ [CHR 0xE2, CHR 0x80, CHR 0x94] @ '' is not carried as a DAGR disposition. It fails explicitly rather than being coerced.'')]"

definition SDK_CANCELLATION_FACT_MASK :: "mask_entry list" where
  "SDK_CANCELLATION_FACT_MASK =
     [entry ''request_cancelled'' (Some ''request_cancelled'') ''direct''
        ''Boolean, indeterminate-only.'',
      entry ''execution_state_unknown'' (Some ''execution_state_unknown'') ''direct''
        ''Boolean, indeterminate-only.'',
      entry ''delivery_incomplete'' (Some ''delivery_incomplete'') ''direct''
        ''Boolean, indeterminate-only. Deliberately not named with a result-shaped token so raw-content exclusion cannot mistake it for result material.'']"

lemmas sdk_mask_tables = SDK_DISPOSITION_MASK_def SDK_REFUSAL_GROUND_MASK_def
  SDK_OUTCOME_MASK_def SDK_INPUT_REQUIRED_MASK_def SDK_CANCELLATION_FACT_MASK_def

definition SDK_ATTESTATION_LIMIT_MASK :: "string dict" where
  "SDK_ATTESTATION_LIMIT_MASK =
     [(''base'', BASE_LIMIT), (''result'', RESULT_LIMIT), (''task'', TASK_LIMIT),
      (''boundary'', DEFAULT_BOUNDARY_LIMIT)]"

definition SDK_RESULT_PROJECTION_KEYS :: "string list" where
  "SDK_RESULT_PROJECTION_KEYS = [''content'', ''structuredContent'', ''_meta'', ''isError'']"

definition SDK_PROTOCOL_STAMPS :: "string dict" where
  "SDK_PROTOCOL_STAMPS =
     [(''protocol_binding'', ''mcp''), (''boundary_type'', ''mcp_tool_call''),
      (''receipt_type'', ''sdk_enforcement''), (''profile_id'', PROFILE_ID),
      (''profile_version'', PROFILE_VERSION), (''receipt_version'', RECEIPT_VERSION)]"
definition SDK_BINDING_STAMPS :: "string dict" where
  "SDK_BINDING_STAMPS = [(''binding_version'', SDK_BINDING_VERSION)]"

section \<open>Protocol-stamp discipline\<close>

definition SDK_NEGOTIATED_VERSION_STATUS :: token where
  "SDK_NEGOTIATED_VERSION_STATUS = ''unsupported''"
definition SDK_REJECTED_STAMP_FORMS :: "string list" where
  "SDK_REJECTED_STAMP_FORMS =
     [[], ''draft'', ''latest'', ''main'', ''dev'', ''snapshot'', ''unpinned'', ''mutable'',
      ''*'', ''any'', ''inferred'']"

definition sdk_classify_protocol_stamp :: "string option \<Rightarrow> token" where
  "sdk_classify_protocol_stamp stamp = (if stamp = Some ''mcp'' then ''pinned'' else ''unsupported'')"

definition sdk_stamp_check :: "string \<times> string \<Rightarrow> (mask_error, unit) result" where
  "sdk_stamp_check nv =
     (if snd nv = [] then Inl (EmptyStamp (fst nv))
      else require (py_lower (snd nv) \<notin> set (map py_lower SDK_REJECTED_STAMP_FORMS))
             (RejectedStamp (fst nv)))"

definition sdk_assert_protocol_stamps_pinned :: "(mask_error, unit) result" where
  "sdk_assert_protocol_stamps_pinned =
     checks
      [each sdk_stamp_check (dupdate SDK_PROTOCOL_STAMPS SDK_BINDING_STAMPS),
       require (dget SDK_PROTOCOL_STAMPS ''protocol_binding'' = Some ''mcp'') ProtocolBindingDrift,
       require (dget SDK_PROTOCOL_STAMPS ''protocol_version'' = None) InventedProtocolVersion,
       require (dget SDK_PROTOCOL_STAMPS ''protocolVersion'' = None) InventedProtocolVersion,
       require (SDK_NEGOTIATED_VERSION_STATUS = ''unsupported'') InventedProtocolVersion,
       require (sdk_classify_protocol_stamp (Some ''mcp'') = ''pinned'') ClassifierDrift,
       require (sdk_classify_protocol_stamp None = ''unsupported'') ClassifierDrift,
       require (list_all (\<lambda>b. sdk_classify_protocol_stamp (Some b) = ''unsupported'')
                  SDK_REJECTED_STAMP_FORMS) ClassifierDrift]"

section \<open>Projections\<close>

definition sdk_project_disposition :: "token \<Rightarrow> (mask_error, token) result" where
  "sdk_project_disposition tok =
     (case dget (entry_index SDK_DISPOSITION_MASK) tok of
        Some e \<Rightarrow> (case me_binding e of Some b \<Rightarrow> Inr b | None \<Rightarrow> Inl (NoProjection tok))
      | None \<Rightarrow> Inl (NoProjection tok))"

definition sdk_project_outcome :: "token \<Rightarrow> (mask_error, mask_entry) result" where
  "sdk_project_outcome tok =
     (case dget (entry_index SDK_OUTCOME_MASK) tok of
        Some e \<Rightarrow> Inr e | None \<Rightarrow> Inl (NoProjection tok))"

definition sdk_project_cancellation_fact :: "token \<Rightarrow> (mask_error, token) result" where
  "sdk_project_cancellation_fact tok =
     (case dget (entry_index SDK_CANCELLATION_FACT_MASK) tok of
        Some e \<Rightarrow> (case me_binding e of Some b \<Rightarrow> Inr b | None \<Rightarrow> Inl (NoProjection tok))
      | None \<Rightarrow> Inl (NoProjection tok))"

definition sdk_unsigned_envelope :: "pydict \<Rightarrow> pydict" where
  "sdk_unsigned_envelope receipt = filter (\<lambda>(k, v). k \<noteq> ''receipt_signature'') receipt"

definition sdk_normalized_projection :: "pydict \<Rightarrow> pydict" where
  "sdk_normalized_projection receipt =
     filter (\<lambda>(k, v). k \<notin> set PERMITTED_NORMALIZED_DIFFERENCE_FIELDS) receipt"

text \<open>\<^verbatim>\<open>strip_binding_stamp\<close>: the copy of a receipt without \<^verbatim>\<open>extensions.mcp.binding_version\<close>, where
  the two enclosing values are mappings.\<close>

definition strip_mcp :: "pyv \<Rightarrow> pyv" where
  "strip_mcp v = (case v of VMap m \<Rightarrow> VMap (filter (\<lambda>(k, _). k \<noteq> ''binding_version'') m) | _ \<Rightarrow> v)"

definition strip_extensions :: "pyv \<Rightarrow> pyv" where
  "strip_extensions v =
     (case v of VMap ext \<Rightarrow> VMap (map (\<lambda>(k, x). (k, if k = ''mcp'' then strip_mcp x else x)) ext)
      | _ \<Rightarrow> v)"

definition strip_binding_stamp :: "pydict \<Rightarrow> pydict" where
  "strip_binding_stamp receipt =
     map (\<lambda>(k, x). (k, if k = ''extensions'' then strip_extensions x else x)) receipt"

section \<open>Drift guards\<close>

datatype sdk_mask_error = MaskError mask_error | UnsupportedTokensDrift | SdkTypesDrift

definition unsupported_token_check :: "token \<Rightarrow> (sdk_mask_error, unit) result" where
  "unsupported_token_check tok =
     (case dget (entry_index SDK_OUTCOME_MASK) tok of
        Some e \<Rightarrow> require (me_status e = ''unsupported'') UnsupportedTokensDrift
      | None \<Rightarrow> Inl UnsupportedTokensDrift)"

definition sdk_verify_mapping_total ::
  "token list option \<Rightarrow> token list option \<Rightarrow> token list option
    \<Rightarrow> token list option \<Rightarrow> token list option \<Rightarrow> token list option
    \<Rightarrow> (sdk_mask_error, unit) result" where
  "sdk_verify_mapping_total live_disp live_out live_canc neutral_disp neutral_out neutral_canc =
    (let outs = set_or live_out SDK_BINDING_OUTCOME_TOKENS in
     checks
      [map_err MaskError (checks
         [mask_partition SDK_DISPOSITION_MASK (tuple_or neutral_disp NEUTRAL_DISPOSITIONS),
          mask_partition SDK_OUTCOME_MASK (tuple_or neutral_out NEUTRAL_OUTCOMES),
          mask_partition SDK_CANCELLATION_FACT_MASK
            (tuple_or neutral_canc NEUTRAL_CANCELLATION_FACTS),
          require (set (tokens_with_status [''direct''] SDK_DISPOSITION_MASK)
                   = set (set_or live_disp SDK_DISPOSITION_TOKENS)) DispositionTokensDiffer]),
       require (set BINDING_UNSUPPORTED_OUTCOME_TOKENS \<subseteq> set outs) UnsupportedTokensDrift,
       each unsupported_token_check BINDING_UNSUPPORTED_OUTCOME_TOKENS,
       map_err MaskError (checks
         [require (set (tokens_with_status [''direct'', ''subsumed''] SDK_OUTCOME_MASK)
                   = set outs - set BINDING_UNSUPPORTED_OUTCOME_TOKENS) OutcomeTokensDiffer,
          require (set (tokens_with_status MAPPING_STATUS SDK_CANCELLATION_FACT_MASK)
                   = set (set_or live_canc CANCELLATION_FIELD_NAMES)) CancellationFieldsDiffer])])"

text \<open>What the guard reads of the installed SDK: whether the two result types and the elicitation
  result exist, and which fields they have.\<close>

record sdk_types =
  ty_result_fields :: "string list"
  ty_result_required :: "string list"
  ty_has_elicit_result :: bool
  ty_task_fields :: "string list option"

definition sdk_outcome_token_check :: "mask_entry \<Rightarrow> (mask_error, unit) result" where
  "sdk_outcome_token_check e =
     (if me_status e = ''unsupported''
      then require (me_binding e = None) (UnsupportedWithToken (me_neutral e))
      else require (me_binding e \<in> set (map Some SDK_BINDING_OUTCOME_TOKENS))
             (OutcomeTokenNotStamped (me_neutral e)))"

definition sdk_types_check :: "sdk_types \<Rightarrow> (sdk_mask_error, unit) result" where
  "sdk_types_check ty =
     checks
      [require (''isError'' \<in> set (ty_result_fields ty)) SdkTypesDrift,
       require (ty_has_elicit_result ty) SdkTypesDrift,
       require (ty_task_fields ty \<noteq> None) SdkTypesDrift,
       require (''content'' \<in> set (ty_result_required ty)) SdkTypesDrift,
       require (case ty_task_fields ty of Some fs \<Rightarrow> ''content'' \<notin> set fs | None \<Rightarrow> False)
         SdkTypesDrift]"

definition sdk_verify_mask_matches_binding :: "sdk_types \<Rightarrow> (sdk_mask_error, unit) result" where
  "sdk_verify_mask_matches_binding ty =
     checks
      [map_err MaskError (checks
         [require (SDK_MASK_BINDING_TARGET = SDK_BINDING_VERSION) BindingTargetDrift,
          require (SDK_BINDING_VERSION \<in> set ALL_REGISTERED_BINDING_VERSIONS) BindingVersionDrift,
          require (SDK_BINDING_VERSION \<in> set ADDITIONAL_BINDING_VERSIONS) BindingVersionDrift,
          require (SDK_BINDING_VERSION \<notin> set REGISTERED_BINDING_VERSIONS) BindingVersionDrift,
          require (SDK_BINDING_VERSION \<noteq> ''fastmcp.middleware.v0.1'') BindingVersionDrift]),
       sdk_verify_mapping_total None None None None None None,
       map_err MaskError (checks
         [sdk_assert_protocol_stamps_pinned,
          require (set (tokens_with_status [''direct''] SDK_DISPOSITION_MASK)
                   = set SDK_DISPOSITION_TOKENS) DispositionTokensDiffer,
          require (set (map me_neutral SDK_DISPOSITION_MASK) = set NEUTRAL_DISPOSITIONS)
            NeutralTokensDiffer,
          each sdk_outcome_token_check SDK_OUTCOME_MASK,
          require (set (map me_neutral SDK_OUTCOME_MASK) = set NEUTRAL_OUTCOMES)
            NeutralTokensDiffer]),
       require (set BINDING_UNSUPPORTED_OUTCOME_TOKENS \<subseteq> set SDK_BINDING_OUTCOME_TOKENS)
         UnsupportedTokensDrift,
       require (''task_submitted'' \<in> set BINDING_UNSUPPORTED_OUTCOME_TOKENS) UnsupportedTokensDrift,
       rbind (map_err MaskError (sdk_project_outcome ''task_submitted''))
         (\<lambda>e. require (me_status e = ''unsupported'' \<and> me_binding e = None) UnsupportedTokensDrift),
       map_err MaskError (checks
         [require (set (map me_neutral SDK_INPUT_REQUIRED_MASK) = set INPUT_REQUIRED_MODES)
            NeutralTokensDiffer,
          require (list_all (\<lambda>e. me_status e = ''unsupported'') SDK_INPUT_REQUIRED_MASK)
            InputRequiredDrift,
          rbind (sdk_project_outcome ''input_required'')
            (\<lambda>e. require (me_status e = ''unsupported'') InputRequiredDrift),
          require (set (map me_neutral SDK_CANCELLATION_FACT_MASK)
                   = set NEUTRAL_CANCELLATION_FACTS) NeutralTokensDiffer,
          require (set (tokens_with_status MAPPING_STATUS SDK_CANCELLATION_FACT_MASK)
                   = set CANCELLATION_FIELD_NAMES) CancellationFieldsDiffer,
          require (dget SDK_ATTESTATION_LIMIT_MASK ''base'' = Some BASE_LIMIT) LimitDrift,
          require (dget SDK_ATTESTATION_LIMIT_MASK ''result'' = Some RESULT_LIMIT) LimitDrift,
          require (dget SDK_ATTESTATION_LIMIT_MASK ''task'' = Some TASK_LIMIT) LimitDrift,
          require (dget SDK_ATTESTATION_LIMIT_MASK ''boundary'' = Some DEFAULT_BOUNDARY_LIMIT)
            LimitDrift]),
       sdk_types_check ty]"

section \<open>The mask and the binding\<close>

lemmas sdk_mask_vocab = vocab SDK_DISPOSITION_TOKENS_def SDK_BINDING_OUTCOME_TOKENS_def
  BINDING_UNSUPPORTED_OUTCOME_TOKENS_def MAPPING_STATUS_def CANCELLATION_FIELD_NAMES_def
  sdk_mask_tables

lemma sdk_project_disposition_eq [simp]: "sdk_project_disposition tok = project_disposition tok"
  by (simp add: sdk_project_disposition_def project_disposition_def project_token_def
      SDK_DISPOSITION_MASK_def DISPOSITION_MASK_def)

lemma sdk_project_cancellation_fact_eq [simp]:
  "sdk_project_cancellation_fact tok = project_cancellation_fact tok"
  by (simp add: sdk_project_cancellation_fact_def project_cancellation_fact_def project_token_def
      SDK_CANCELLATION_FACT_MASK_def CANCELLATION_FACT_MASK_def)

definition sdk_outcome_projection :: "token \<Rightarrow> (token \<times> token option) option" where
  "sdk_outcome_projection tok =
     (case sdk_project_outcome tok of Inl _ \<Rightarrow> None | Inr e \<Rightarrow> Some (me_status e, me_binding e))"

lemma sdk_outcome_projection_eq:
  "sdk_outcome_projection tok =
     (if tok = ''task_submitted'' then Some (''unsupported'', None) else outcome_projection tok)"
  by (simp add: sdk_outcome_projection_def sdk_project_outcome_def outcome_projection_def
      project_outcome_def SDK_OUTCOME_MASK_def OUTCOME_MASK_def)

lemma sdk_partitions:
  "mask_partition SDK_DISPOSITION_MASK NEUTRAL_DISPOSITIONS = Inr ()"
  "mask_partition SDK_OUTCOME_MASK NEUTRAL_OUTCOMES = Inr ()"
  "mask_partition SDK_CANCELLATION_FACT_MASK NEUTRAL_CANCELLATION_FACTS = Inr ()"
  by (simp_all add: mask_partition_def entry_status_check_def sdk_mask_vocab insert_commute)

lemma sdk_tokens:
  "set (tokens_with_status [''direct''] SDK_DISPOSITION_MASK) = set SDK_DISPOSITION_TOKENS"
  "set (tokens_with_status [''direct'', ''subsumed''] SDK_OUTCOME_MASK)
     = set SDK_BINDING_OUTCOME_TOKENS - set BINDING_UNSUPPORTED_OUTCOME_TOKENS"
  "set (tokens_with_status MAPPING_STATUS SDK_CANCELLATION_FACT_MASK) = set CANCELLATION_FIELD_NAMES"
  by (simp_all add: tokens_with_status_def sdk_mask_vocab) auto

lemma sdk_unsupported_subset:
  "set BINDING_UNSUPPORTED_OUTCOME_TOKENS \<subseteq> set SDK_BINDING_OUTCOME_TOKENS"
  by (simp add: SDK_BINDING_OUTCOME_TOKENS_def BINDING_UNSUPPORTED_OUTCOME_TOKENS_def)

lemma difference_exact: "U \<subseteq> S \<Longrightarrow> (U \<subseteq> T \<and> S - U = T - U) = (T = S)"
  by blast

lemma sdk_mapping_guard:
  "(sdk_verify_mapping_total (Some ld) (Some lo) (Some lc) None None None = Inr ()) =
     (set ld = set SDK_DISPOSITION_TOKENS \<and> set lo = set SDK_BINDING_OUTCOME_TOKENS
      \<and> set lc = set CANCELLATION_FIELD_NAMES)"
proof -
  have u: "each unsupported_token_check BINDING_UNSUPPORTED_OUTCOME_TOKENS = Inr ()"
    by (simp add: unsupported_token_check_def BINDING_UNSUPPORTED_OUTCOME_TOKENS_def
        SDK_OUTCOME_MASK_def)
  show ?thesis
    unfolding difference_exact[OF sdk_unsupported_subset, symmetric] sdk_verify_mapping_total_def
      Let_def checks_simps rbind_Inr_iff require_Inr_iff map_err_Inr_iff tuple_or_def set_or_def
      option.case sdk_partitions sdk_tokens u
    by blast
qed

lemma sdk_stamps_pinned: "sdk_assert_protocol_stamps_pinned = Inr ()"
  by code_simp

lemma sdk_mapping_total: "sdk_verify_mapping_total None None None None None None = Inr ()"
  using sdk_mapping_guard[of SDK_DISPOSITION_TOKENS SDK_BINDING_OUTCOME_TOKENS
      CANCELLATION_FIELD_NAMES]
  by (simp add: sdk_verify_mapping_total_def tuple_or_def set_or_def)

lemma sdk_version_registered: "SDK_MASK_BINDING_TARGET = SDK_BINDING_VERSION"
  "SDK_BINDING_VERSION \<in> set ALL_REGISTERED_BINDING_VERSIONS"
  "SDK_BINDING_VERSION \<in> set ADDITIONAL_BINDING_VERSIONS"
  "SDK_BINDING_VERSION \<notin> set REGISTERED_BINDING_VERSIONS"
  "SDK_BINDING_VERSION \<noteq> ''fastmcp.middleware.v0.1''"
  by (simp_all add: SDK_MASK_BINDING_TARGET_def SDK_BINDING_VERSION_def
        ALL_REGISTERED_BINDING_VERSIONS_def ADDITIONAL_BINDING_VERSIONS_def
        REGISTERED_BINDING_VERSIONS_def)

lemma sdk_mask_covers_contract: "set (map me_neutral SDK_DISPOSITION_MASK) = set NEUTRAL_DISPOSITIONS"
  "set (map me_neutral SDK_OUTCOME_MASK) = set NEUTRAL_OUTCOMES"
  "set (map me_neutral SDK_INPUT_REQUIRED_MASK) = set INPUT_REQUIRED_MODES"
  "set (map me_neutral SDK_CANCELLATION_FACT_MASK) = set NEUTRAL_CANCELLATION_FACTS"
  by (simp_all add: sdk_mask_vocab)

lemma sdk_outcome_tokens_stamped: "each sdk_outcome_token_check SDK_OUTCOME_MASK = Inr ()"
  by (simp add: sdk_outcome_token_check_def sdk_mask_vocab)

lemma sdk_input_modes_unsupported: "list_all (\<lambda>e. me_status e = ''unsupported'') SDK_INPUT_REQUIRED_MASK"
  by (simp add: SDK_INPUT_REQUIRED_MASK_def)

lemma sdk_unsupported_outcomes: "\<exists>e. sdk_project_outcome ''task_submitted'' = Inr e \<and> me_status e = ''unsupported''
    \<and> me_binding e = None"
  "\<exists>e. sdk_project_outcome ''input_required'' = Inr e \<and> me_status e = ''unsupported''"
  by (simp_all add: sdk_project_outcome_def SDK_OUTCOME_MASK_def)

lemma sdk_task_unsupported: "''task_submitted'' \<in> set BINDING_UNSUPPORTED_OUTCOME_TOKENS"
  by (simp add: BINDING_UNSUPPORTED_OUTCOME_TOKENS_def)

lemma sdk_limit_strings: "dget SDK_ATTESTATION_LIMIT_MASK ''base'' = Some BASE_LIMIT"
  "dget SDK_ATTESTATION_LIMIT_MASK ''result'' = Some RESULT_LIMIT"
  "dget SDK_ATTESTATION_LIMIT_MASK ''task'' = Some TASK_LIMIT"
  "dget SDK_ATTESTATION_LIMIT_MASK ''boundary'' = Some DEFAULT_BOUNDARY_LIMIT"
  by (simp_all add: SDK_ATTESTATION_LIMIT_MASK_def)

lemma rbind_Inr_id [simp]: "rbind r Inr = r"
  by (cases r) simp_all

lemma sdk_guard_reduces: "sdk_verify_mask_matches_binding ty = sdk_types_check ty"
  using sdk_unsupported_outcomes
  by (elim exE conjE) (simp only: sdk_verify_mask_matches_binding_def sdk_mapping_total
      sdk_version_registered sdk_mask_covers_contract sdk_outcome_tokens_stamped sdk_stamps_pinned
      sdk_tokens sdk_limit_strings sdk_task_unsupported sdk_input_modes_unsupported
      sdk_unsupported_subset require_simps checks_simps rbind.simps map_err.simps simp_thms
      not_True_eq_False not_False_eq_True, simp)

text \<open>The drift guard of the official-SDK mask. Every assertion about the mask's own tables,
  stamps and limits holds, so the guard passes exactly on an installed SDK whose call result has
  the error flag and requires its content, whose elicitation result exists, and whose task result
  exists without a content field; and the mapping guard accepts no live vocabulary but the
  profile's.\<close>
theorem sdk_mask_guard_exact:
  "(sdk_verify_mask_matches_binding ty = Inr ()) =
     (''isError'' \<in> set (ty_result_fields ty) \<and> ''content'' \<in> set (ty_result_required ty)
      \<and> ty_has_elicit_result ty
      \<and> (case ty_task_fields ty of Some fs \<Rightarrow> ''content'' \<notin> set fs | None \<Rightarrow> False))
   \<and> (sdk_verify_mapping_total (Some ld) (Some lo) (Some lc) None None None = Inr ()) =
     (set ld = set SDK_DISPOSITION_TOKENS \<and> set lo = set SDK_BINDING_OUTCOME_TOKENS
      \<and> set lc = set CANCELLATION_FIELD_NAMES)"
proof -
  have types: "(sdk_types_check ty = Inr ()) =
     (''isError'' \<in> set (ty_result_fields ty) \<and> ''content'' \<in> set (ty_result_required ty)
      \<and> ty_has_elicit_result ty
      \<and> (case ty_task_fields ty of Some fs \<Rightarrow> ''content'' \<notin> set fs | None \<Rightarrow> False))"
    unfolding sdk_types_check_def checks_simps rbind_Inr_iff require_Inr_iff
    by (cases "ty_task_fields ty") auto
  show ?thesis unfolding sdk_guard_reduces types sdk_mapping_guard by blast
qed

section \<open>Receipts of the two bindings agree up to the stamp\<close>

definition strip_value :: "string \<Rightarrow> pyv \<Rightarrow> pyv" where
  "strip_value k x = (if k = ''extensions'' then strip_extensions x else x)"

lemma strip_value_other [simp]: "k \<noteq> ''extensions'' \<Longrightarrow> strip_value k x = x"
  by (simp add: strip_value_def)

lemma strip_dset: "strip_binding_stamp (dset k x d) = dset k (strip_value k x) (strip_binding_stamp d)"
  by (induction d) (auto simp: strip_binding_stamp_def strip_value_def)

lemma dget_strip: "dget (strip_binding_stamp d) k = map_option (strip_value k) (dget d k)"
  by (induction d) (auto simp: strip_binding_stamp_def strip_value_def)

definition same_but_stamp :: "pydict \<Rightarrow> pydict \<Rightarrow> bool" where
  "same_but_stamp d e = (strip_binding_stamp d = strip_binding_stamp e)"

lemma same_dset: "same_but_stamp d e \<Longrightarrow> same_but_stamp (dset k x d) (dset k x e)"
  by (simp add: same_but_stamp_def strip_dset)

lemma same_dset_given: "same_but_stamp d e \<Longrightarrow> same_but_stamp (dset_given k x d) (dset_given k x e)"
  by (simp add: dset_given_def same_dset)

lemma same_dupdate: "same_but_stamp d e \<Longrightarrow> same_but_stamp (dupdate d f) (dupdate e f)"
  by (induction d f arbitrary: e rule: dupdate.induct) (simp_all add: same_dset)

lemma strip_value_id: "k \<noteq> ''extensions'' \<Longrightarrow> strip_value k = id"
  by (simp add: fun_eq_iff)

lemma same_dget: "same_but_stamp d e \<Longrightarrow> k \<noteq> ''extensions'' \<Longrightarrow> dget d k = dget e k"
  using dget_strip[of d k] dget_strip[of e k]
  by (simp add: same_but_stamp_def strip_value_id option.map_id)

lemma same_limits: "same_but_stamp d e \<Longrightarrow> limits_of d = limits_of e"
  by (simp add: limits_of_def same_dget)

lemma same_set_limits: "same_but_stamp d e \<Longrightarrow> same_but_stamp (set_limits xs d) (set_limits xs e)"
  by (simp add: set_limits_def same_dset)

definition same_result ::
  "(receipt_error, pydict) result \<Rightarrow> (receipt_error, pydict) result \<Rightarrow> bool" where
  "same_result a b = (case (a, b) of
      (Inl e, Inl f) \<Rightarrow> e = f | (Inr x, Inr y) \<Rightarrow> same_but_stamp x y | _ \<Rightarrow> False)"

lemma same_result_simps [simp]:
  "same_result (Inl e) (Inl f) = (e = f)" "same_result (Inr x) (Inr y) = same_but_stamp x y"
  "\<not> same_result (Inl e) (Inr y)" "\<not> same_result (Inr x) (Inl f)"
  by (simp_all add: same_result_def)

lemma same_rbind:
  assumes "same_result a b" "\<And>x y. same_but_stamp x y \<Longrightarrow> same_result (f x) (g y)"
  shows "same_result (rbind a f) (rbind b g)"
  using assms by (cases a; cases b) simp_all

lemma same_add_limits:
  assumes "same_but_stamp d e"
  shows "same_result (rbind (add_limits (limits_of d) xs) (\<lambda>ls. Inr (set_limits ls d)))
                     (rbind (add_limits (limits_of e) xs) (\<lambda>ls. Inr (set_limits ls e)))"
  using assms by (cases "add_limits (limits_of e) xs")
    (simp_all add: same_limits[OF assms] same_set_limits)

lemma same_append_limits:
  "same_but_stamp d e \<Longrightarrow>
     same_result (append_attestation_limits d xs) (append_attestation_limits e xs)"
  by (simp add: append_attestation_limits_def same_add_limits split: pyv.split)

lemma same_apply_owned: "same_but_stamp d e \<Longrightarrow> same_result (apply_owned d fs) (apply_owned e fs)"
  by (induction d fs arbitrary: e rule: apply_owned.induct) (simp_all add: same_dset)

lemma same_owned_fields:
  "same_but_stamp d e \<Longrightarrow>
     same_result (apply_binding_owned_fields d out fs) (apply_binding_owned_fields e out fs)"
  by (simp add: apply_binding_owned_fields_def same_apply_owned del: apply_owned.simps
      split: option.split list.split)

lemma stamp_filter_dset: "P (k, x) \<Longrightarrow> (\<And>y. P (k, y)) \<Longrightarrow> filter P (dset k x m) = dset k x (filter P m)"
  by (induction m) auto

lemma strip_ext_dset:
  "map (\<lambda>(k, x). (k, if k = ''mcp'' then strip_mcp x else x)) (dset ''mcp'' v ext)
     = dset ''mcp'' (strip_mcp v) (map (\<lambda>(k, x). (k, if k = ''mcp'' then strip_mcp x else x)) ext)"
  by (induction ext) auto

lemma strip_ext_dget:
  "dget (map (\<lambda>(k, x). (k, if k = ''mcp'' then strip_mcp x else x)) ext) ''mcp''
     = map_option strip_mcp (dget ext ''mcp'')"
  by (induction ext) auto

text \<open>Stripping commutes with setting another key of the extension, so what is set after the stamp
  is set alike in both bindings.\<close>

lemma strip_set_mcp_extension:
  assumes "k \<noteq> ''binding_version''"
  shows "strip_binding_stamp (set_mcp_extension k v d) = set_mcp_extension k v (strip_binding_stamp d)"
proof -
  have m: "strip_mcp (VMap (dset k v m)) = VMap (dset k v (filter (\<lambda>(k, _). k \<noteq> ''binding_version'') m))"
    for m using assms by (simp add: strip_mcp_def stamp_filter_dset)
  show ?thesis
  proof (cases "dget d ''extensions''")
    case None
    then show ?thesis by (simp add: set_mcp_extension_def dget_strip)
  next
    case (Some x)
    note ext = Some
    show ?thesis
    proof (cases x)
      case (VMap e)
      have g: "dget (strip_binding_stamp d) ''extensions''
          = Some (VMap (map (\<lambda>(k, x). (k, if k = ''mcp'' then strip_mcp x else x)) e))"
        by (simp add: dget_strip ext VMap strip_value_def strip_extensions_def)
      show ?thesis
      proof (cases "dget e ''mcp''")
        case None
        then show ?thesis using ext VMap g by (simp add: set_mcp_extension_def strip_ext_dget)
      next
        case (Some y)
        then show ?thesis using ext VMap g
          by (cases y) (simp_all add: set_mcp_extension_def strip_ext_dget strip_dset strip_ext_dset
              strip_value_def strip_extensions_def m, simp_all add: strip_mcp_def)
      qed
    qed (simp_all add: set_mcp_extension_def dget_strip ext strip_value_def strip_extensions_def)
  qed
qed

lemma same_set_mcp:
  "same_but_stamp d e \<Longrightarrow> k \<noteq> ''binding_version'' \<Longrightarrow>
     same_but_stamp (set_mcp_extension k v d) (set_mcp_extension k v e)"
  by (simp add: same_but_stamp_def strip_set_mcp_extension)

lemma same_common_envelope:
  "same_result (common_envelope ident (ctx\<lparr>rc_binding_version := BINDING_VERSION\<rparr>) st kind art)
     (common_envelope ident (ctx\<lparr>rc_binding_version := SDK_BINDING_VERSION\<rparr>) st kind art)"
proof -
  have reg: "BINDING_VERSION \<in> set ALL_REGISTERED_BINDING_VERSIONS"
    "SDK_BINDING_VERSION \<in> set ALL_REGISTERED_BINDING_VERSIONS"
    by (simp_all add: BINDING_VERSION_def SDK_BINDING_VERSION_def ALL_REGISTERED_BINDING_VERSIONS_def
        REGISTERED_BINDING_VERSIONS_def ADDITIONAL_BINDING_VERSIONS_def)
  show ?thesis
    by (cases "origin_ok (rc_subject_ref_origin ctx)")
       (simp_all add: common_envelope_def reg Let_def same_dset_given same_dset same_but_stamp_def[of "_ # _"]
          strip_binding_stamp_def strip_extensions_def strip_mcp_def)
qed

lemma same_admission:
  "same_result (admission_envelope ident (ctx\<lparr>rc_binding_version := BINDING_VERSION\<rparr>) st a)
     (admission_envelope ident (ctx\<lparr>rc_binding_version := SDK_BINDING_VERSION\<rparr>) st a)"
  unfolding admission_envelope_def
  by (intro same_rbind[OF same_common_envelope] same_append_limits)
     (simp add: same_dset_given same_dupdate del: dupdate.simps)

lemma same_outcome:
  "same_result (outcome_envelope ident (ctx\<lparr>rc_binding_version := BINDING_VERSION\<rparr>) st a)
     (outcome_envelope ident (ctx\<lparr>rc_binding_version := SDK_BINDING_VERSION\<rparr>) st a)"
proof -
  have step: "same_but_stamp x y \<Longrightarrow> same_but_stamp (set_limits (limits_of x @ l) x) (set_limits (limits_of y @ l) y)"
    for x y l by (simp add: same_limits same_set_limits)
  show ?thesis
    unfolding outcome_envelope_def Let_def
    by (intro same_rbind[OF same_common_envelope] same_rbind same_append_limits same_owned_fields)
       (auto intro!: step same_set_mcp same_dset_given same_dupdate simp del: dupdate.simps)
qed

lemma same_result_iff: "same_result a b = (map_sum (\<lambda>e. e) strip_binding_stamp a = map_sum (\<lambda>e. e) strip_binding_stamp b)"
  by (cases a; cases b) (simp_all add: same_but_stamp_def)

text \<open>Cross-binding parity of receipts. For the same signing identity, receipt context, stamp and
  arguments, the envelopes that the FastMCP binding and the official-SDK binding build fail with
  the same error, or are equal once the binding stamp is stripped; stripping keeps every key of
  the receipt and is idempotent.\<close>
theorem cross_binding_parity:
  "map_sum (\<lambda>e. e) strip_binding_stamp
      (admission_envelope ident (ctx\<lparr>rc_binding_version := BINDING_VERSION\<rparr>) st a)
    = map_sum (\<lambda>e. e) strip_binding_stamp
      (admission_envelope ident (ctx\<lparr>rc_binding_version := SDK_BINDING_VERSION\<rparr>) st a)
   \<and> map_sum (\<lambda>e. e) strip_binding_stamp
      (outcome_envelope ident (ctx\<lparr>rc_binding_version := BINDING_VERSION\<rparr>) st b)
    = map_sum (\<lambda>e. e) strip_binding_stamp
      (outcome_envelope ident (ctx\<lparr>rc_binding_version := SDK_BINDING_VERSION\<rparr>) st b)
   \<and> dkeys (strip_binding_stamp r) = dkeys r
   \<and> strip_binding_stamp (strip_binding_stamp r) = strip_binding_stamp r"
proof (intro conjI)
  have m: "strip_mcp (strip_mcp v) = strip_mcp v" for v
    by (cases v) (simp_all add: strip_mcp_def)
  have e: "strip_extensions (strip_extensions v) = strip_extensions v" for v
    by (cases v) (auto simp: strip_extensions_def m)
  show "strip_binding_stamp (strip_binding_stamp r) = strip_binding_stamp r"
    by (induction r) (auto simp: strip_binding_stamp_def e)
  show "dkeys (strip_binding_stamp r) = dkeys r"
    by (induction r) (auto simp: strip_binding_stamp_def)
qed (use same_admission same_outcome in \<open>simp_all add: same_result_iff\<close>)

end
