(* ===== verification/SdkBinding.thy ===== *)
theory SdkBinding
  imports SdkBindingMask
begin

text \<open>The official-SDK binding (\<^verbatim>\<open>src/dagr_mcp_sdk_binding/adapter.py\<close>) and its neutral layer
  (\<^verbatim>\<open>src/dagr_mcp_sdk_binding/neutral.py\<close>): \<^verbatim>\<open>governed_call\<close> and every method it calls. Snapshot,
  actor and policy are the value types of the FastMCP model, which the neutral layer repeats; the
  adapter's state (sink, telemetry, spool) has the same shape. What resolvers, review creator,
  observer and delegate answer, identifiers, clock and access token are inputs.\<close>

section \<open>The neutral layer\<close>

definition SDK_NEUTRAL_DISPOSITION_BY_BINDING :: "token dict" where
  "SDK_NEUTRAL_DISPOSITION_BY_BINDING =
     [(''admitted'', ''admitted''), (''refused'', ''refused''),
      (''deferred_for_review'', ''deferred'')]"

definition sdk_to_neutral_disposition :: "token \<Rightarrow> token option" where
  "sdk_to_neutral_disposition d = dget SDK_NEUTRAL_DISPOSITION_BY_BINDING d"

definition sdk_neutral_refusal_ground :: "binding_policy \<Rightarrow> token" where
  "sdk_neutral_refusal_ground pol =
     (let code = or_else (bp_reason_code pol) ''policy_refused''
      in if code \<in> set NEUTRAL_REFUSAL_GROUNDS then code else ''policy_refused'')"

definition sdk_binding_refusal_reason_code :: "binding_policy \<Rightarrow> string" where
  "sdk_binding_refusal_reason_code pol = or_else (bp_reason_code pol) ''policy_refused''"

definition sdk_neutral_admission_request ::
  "binding_policy \<Rightarrow> token \<Rightarrow> bool option \<Rightarrow> bool \<Rightarrow> bool \<Rightarrow> admission_request" where
  "sdk_neutral_admission_request pol disp created emit_read has_parent =
     \<lparr>ar_disposition = disp, ar_tool_class = bp_tool_class pol,
      ar_refusal_ground =
        (if disp = ''refused'' then Some (sdk_neutral_refusal_ground pol) else None),
      ar_review_object_created = created, ar_emit_read_admission = emit_read,
      ar_has_parent_boundary = has_parent\<rparr>"

definition sdk_scoped_hash_ref :: "crypto \<Rightarrow> string \<Rightarrow> pyv \<Rightarrow> (receipt_error, string) result" where
  "sdk_scoped_hash_ref cr pre v =
     rbind (sha256_digest cr v) (\<lambda>d. Inr (pre @ '':sha256:'' @ drop 7 d))"

fun sdk_claim_string :: "pydict \<Rightarrow> string list \<Rightarrow> string option" where
  "sdk_claim_string claims [] = None"
| "sdk_claim_string claims (k # ks) =
     (case dget claims k of
        Some (VStr s) \<Rightarrow> if s \<noteq> [] then Some s else sdk_claim_string claims ks
      | _ \<Rightarrow> sdk_claim_string claims ks)"

fun sdk_jsonable :: "(pyv \<Rightarrow> pyv) \<Rightarrow> pyv \<Rightarrow> pyv" where
  "sdk_jsonable dump (VMap kvs) = VMap (map (\<lambda>(k, v). (k, sdk_jsonable dump v)) kvs)"
| "sdk_jsonable dump (VList xs) = VList (map (sdk_jsonable dump) xs)"
| "sdk_jsonable dump (VTuple xs) = VList (map (sdk_jsonable dump) xs)"
| "sdk_jsonable dump (VBytes b) = dump (VBytes b)"
| "sdk_jsonable dump (VObj c) = dump (VObj c)"
| "sdk_jsonable dump v = v"

definition sdk_failure_class :: "receipt_error \<Rightarrow> string" where
  "sdk_failure_class e =
     (case e of ReceiptWriteError \<Rightarrow> ''receipt_sink_failure''
      | OsError \<Rightarrow> ''receipt_spool_io_failure''
      | KeyMissing _ \<Rightarrow> ''KeyError''
      | ArgumentTypeError \<Rightarrow> ''TypeError''
      | _ \<Rightarrow> ''receipt_signing_or_content_failure'')"

definition sdk_exception_failure_class :: "pyexc \<Rightarrow> string" where
  "sdk_exception_failure_class e =
     (case e of PyTimeout _ \<Rightarrow> ''receipt_spool_io_failure''
      | PyException c \<Rightarrow> if c \<in> set OS_ERROR_CLASSES then ''receipt_spool_io_failure'' else c
      | _ \<Rightarrow> exc_class e)"

section \<open>Configuration, inputs and results\<close>

text \<open>The trusted request context: the request identifier as text (absent also where reading it
  raises), the two session identifiers of the session if there is one, and the metadata.\<close>

datatype sdk_meta = NoMeta | DumpedMeta "pyexc + pyv" | PlainMeta pyv

record sdk_request_context =
  sc_request_id :: "string option"
  sc_session :: "(string option \<times> string option) option"
  sc_meta :: sdk_meta

record sdk_config =
  sf_runtime_instance_id :: string
  sf_boundary_id :: string
  sf_policy_pack_id :: string
  sf_policy_pack_version :: string
  sf_tool_classes :: "token dict"
  sf_actor_resolver ::
    "(sdk_request_context option \<Rightarrow> request_snapshot \<Rightarrow> actor_resolution call_outcome) option"
  sf_policy_resolver ::
    "(request_snapshot \<Rightarrow> actor_resolution \<Rightarrow> binding_policy call_outcome) option"
  sf_review_creator :: "review_creator option"
  sf_pre_failure :: "token dict"
  sf_emit_read_admission :: bool
  sf_spool :: bool
  sf_parent_receipt_ref :: "string option"
  sf_logical_call_id_override :: "string option"
  sf_subject_ref_override :: "string option"
  sf_observer :: "(pyv \<Rightarrow> pyexc option) option"
  sf_attestation_limits :: "string list"

record sdk_env =
  se_identity :: signing_identity
  se_config :: sdk_config
  se_stamps :: "nat \<Rightarrow> stamp"
  se_clock :: "nat \<Rightarrow> string"
  se_minted_id :: string
  se_token :: "pyexc + access_token option"
  se_dump :: "pyv \<Rightarrow> pyv"
  se_canon_exc :: string

text \<open>What a delegate returns: the unsupported task result, a mapping, a sequence, or any other
  object, of which the attributes count.\<close>

datatype sdk_value = SdkTask | SdkMapping pydict | SdkSequence "pyv list" | SdkObject pydict

datatype sdk_handler = DelegateReturns sdk_value | DelegateRaises pyexc

datatype sdk_result =
    SdkReturned sdk_value
  | ToolRefused
  | ToolDeferred "string option"
  | ReviewReceiptUnavailable
  | AdmissionReceiptUnavailable
  | TaskSubmissionUnsupported
  | SdkDiverged
  | SdkNoToken
  | DelegateRaised pyexc
  | SdkResolverRaised pyexc
  | SdkReceiptError receipt_error
  | SdkCoreError core_error
  | SdkUnknownKey token
  | SdkAssertion

section \<open>Trusted-context extraction\<close>

definition rc_attr_request_id :: "sdk_request_context option \<Rightarrow> string option" where
  "rc_attr_request_id rc = (case rc of None \<Rightarrow> None | Some c \<Rightarrow> sc_request_id c)"

definition session_id_of :: "sdk_request_context option \<Rightarrow> string option" where
  "session_id_of rc =
     (case rc of None \<Rightarrow> None
      | Some c \<Rightarrow> (case sc_session c of None \<Rightarrow> None
                  | Some (a, b) \<Rightarrow> if given a then a else if given b then b else None))"

definition rc_meta :: "(pyv \<Rightarrow> pyv) \<Rightarrow> sdk_request_context option \<Rightarrow> pyexc + pyv" where
  "rc_meta dump rc =
     (case rc of None \<Rightarrow> Inr VNone
      | Some c \<Rightarrow> (case sc_meta c of
            NoMeta \<Rightarrow> Inr VNone
          | DumpedMeta (Inr v) \<Rightarrow> Inr v
          | DumpedMeta (Inl e) \<Rightarrow> if is_exception e then Inr VNone else Inl e
          | PlainMeta v \<Rightarrow> Inr (sdk_jsonable dump v)))"

definition sdk_hash_ref_if ::
  "crypto \<Rightarrow> string \<Rightarrow> string option \<Rightarrow> (receipt_error, string option) result" where
  "sdk_hash_ref_if cr pre x =
     (if given x then rbind (sdk_scoped_hash_ref cr pre (VStr (the x))) (\<lambda>r. Inr (Some r))
      else Inr None)"

definition sdk_choose_subject ::
  "sdk_config \<Rightarrow> string option \<Rightarrow> string option \<Rightarrow> string \<Rightarrow> string \<times> string" where
  "sdk_choose_subject cf session_ref request_ref call_id =
     (if given (sf_subject_ref_override cf)
      then (the (sf_subject_ref_override cf), ''supplied_subject'')
      else if given session_ref then (the session_ref, ''derived_from_session'')
      else if given request_ref then (the request_ref, ''derived_from_request'')
      else if given (sf_logical_call_id_override cf)
      then (''tool-call:'' @ call_id, ''derived_from_supplied_correlation'')
      else (''tool-call:'' @ call_id, ''binding_minted''))"

definition sdk_snapshot_request ::
  "sdk_env \<Rightarrow> string \<Rightarrow> pydict option \<Rightarrow> sdk_request_context option
    \<Rightarrow> (sdk_result, request_snapshot) result" where
  "sdk_snapshot_request env tool arguments rc =
    (let cf = se_config env; cr = si_crypto (se_identity env);
         args = (case arguments of None \<Rightarrow> [] | Some a \<Rightarrow> a) in
     rbind (map_err SdkResolverRaised (rc_meta (se_dump env) rc)) (\<lambda>meta.
     map_err SdkReceiptError (
       rbind (sdk_hash_ref_if cr ''request'' (rc_attr_request_id rc)) (\<lambda>request_ref.
       rbind (sdk_hash_ref_if cr ''session'' (session_id_of rc)) (\<lambda>session_ref.
         let call_id = or_else (sf_logical_call_id_override cf)
                         (or_else request_ref (''call:'' @ se_minted_id env));
             subject = sdk_choose_subject cf session_ref request_ref call_id in
         rbind (sha256_digest cr (VMap args)) (\<lambda>args_digest.
         rbind (if meta = VNone then Inr None
                else rbind (sha256_digest cr meta) (\<lambda>d. Inr (Some d))) (\<lambda>meta_digest.
           Inr \<lparr>rs_tool_name = tool, rs_arguments_digest = args_digest,
                rs_logical_call_id = call_id, rs_subject_ref = fst subject,
                rs_subject_ref_origin = Some (snd subject), rs_session_ref = session_ref,
                rs_request_ref = request_ref, rs_meta_digest = meta_digest\<rparr>)))))))"

section \<open>Actor, policy and receipt context\<close>

definition default_sdk_actor_resolution ::
  "sdk_env \<Rightarrow> (receipt_error, actor_resolution) result" where
  "default_sdk_actor_resolution env =
    (case se_token env of
       Inl _ \<Rightarrow> Inr anonymous_actor
     | Inr None \<Rightarrow> Inr anonymous_actor
     | Inr (Some tk) \<Rightarrow>
        (let cr = si_crypto (se_identity env);
             claims = (case tk_claims tk of VMap m \<Rightarrow> m | _ \<Rightarrow> []);
             seed = (if claims \<noteq> [] then VMap claims
                     else VMap [(''client_id'', tk_client_id tk),
                                (''scopes'', strs (sort (tk_scopes tk))),
                                (''resource'', tk_resource tk)]) in
         rbind (sdk_scoped_hash_ref cr ''actor'' seed) (\<lambda>actor.
         rbind (sdk_hash_ref_if cr ''tenant''
                  (sdk_claim_string claims [''tenant_id'', ''tid'', ''tenant''])) (\<lambda>tenant.
         rbind (sdk_hash_ref_if cr ''workspace''
                  (sdk_claim_string claims [''workspace_id'', ''wid'', ''workspace''])) (\<lambda>ws.
           Inr \<lparr>ac_actor_ref = actor, ac_tenant_id = tenant, ac_workspace_id = ws\<rparr>)))))"

definition sdk_resolve_actor ::
  "sdk_env \<Rightarrow> sdk_request_context option \<Rightarrow> request_snapshot
    \<Rightarrow> (sdk_result, actor_resolution) result" where
  "sdk_resolve_actor env rc snap =
     (case sf_actor_resolver (se_config env) of
        Some f \<Rightarrow> map_err SdkResolverRaised (await_call (f rc snap))
      | None \<Rightarrow> map_err SdkReceiptError (default_sdk_actor_resolution env))"

definition sdk_resolve_policy ::
  "sdk_config \<Rightarrow> request_snapshot \<Rightarrow> actor_resolution \<Rightarrow> (sdk_result, binding_policy) result" where
  "sdk_resolve_policy cf snap actor =
     (case sf_policy_resolver cf of
        Some f \<Rightarrow> map_err SdkResolverRaised (await_call (f snap actor))
      | None \<Rightarrow> Inr (plain_policy ''admitted''
                 (case dget (sf_tool_classes cf) (rs_tool_name snap) of
                    Some c \<Rightarrow> c | None \<Rightarrow> ''read'') None))"

definition sdk_receipt_context ::
  "sdk_config \<Rightarrow> request_snapshot \<Rightarrow> actor_resolution \<Rightarrow> binding_policy \<Rightarrow> receipt_context" where
  "sdk_receipt_context cf snap actor pol =
     \<lparr>rc_runtime_instance_id = sf_runtime_instance_id cf, rc_boundary_id = sf_boundary_id cf,
      rc_policy_pack_id = sf_policy_pack_id cf,
      rc_policy_pack_version = sf_policy_pack_version cf,
      rc_subject_ref = rs_subject_ref snap, rc_logical_call_id = rs_logical_call_id snap,
      rc_subject_ref_origin = vopt (rs_subject_ref_origin snap),
      rc_actor_ref = Some (ac_actor_ref actor), rc_tenant_id = ac_tenant_id actor,
      rc_workspace_id = ac_workspace_id actor, rc_binding_version = SDK_BINDING_VERSION,
      rc_parent_receipt_ref =
        (if bp_parent_receipt_ref pol \<noteq> None then bp_parent_receipt_ref pol
         else sf_parent_receipt_ref cf),
      rc_dagr_constitution_id = ''dagr.constitutional-contract.v0.1''\<rparr>"

section \<open>Telemetry, spool and emission\<close>

definition sdk_append_emergency_spool :: "sdk_env \<Rightarrow> pydict \<Rightarrow> mw_state \<Rightarrow> mw_state" where
  "sdk_append_emergency_spool env ev s =
    (if \<not> sf_spool (se_config env) then s
     else case mw_spool_faults s of
         Some (cls, appended) # fs \<Rightarrow>
           add_telemetry
             [(''event_type'', VStr ''receipt_gap_spool_failed''),
              (''occurred_at'', VStr (se_clock env (length (mw_telemetry s)))),
              (''failure_class'', VStr cls)]
             (s\<lparr>mw_spool_faults := fs,
                mw_spool := mw_spool s @ (if appended then [ev] else [])\<rparr>)
       | fs \<Rightarrow> s\<lparr>mw_spool_faults := tl fs, mw_spool := mw_spool s @ [ev]\<rparr>)"

definition sdk_record_review_failure ::
  "sdk_env \<Rightarrow> receipt_context \<Rightarrow> request_snapshot \<Rightarrow> string \<Rightarrow> mw_state \<Rightarrow> mw_state" where
  "sdk_record_review_failure env ctx snap cls s =
     add_telemetry
       [(''event_type'', VStr ''review_object_creation_failed''),
        (''occurred_at'', VStr (se_clock env (length (mw_telemetry s)))),
        (''runtime_instance_id'', VStr (rc_runtime_instance_id ctx)),
        (''boundary_id'', VStr (rc_boundary_id ctx)),
        (''logical_call_id'', VStr (rs_logical_call_id snap)),
        (''requested_tool_name'', VStr (rs_tool_name snap)),
        (''failure_class'', VStr cls)] s"

definition sdk_record_receipt_failure ::
  "sdk_env \<Rightarrow> receipt_context \<Rightarrow> request_snapshot \<Rightarrow> string \<Rightarrow> string option \<Rightarrow> string option
    \<Rightarrow> string \<Rightarrow> mw_state \<Rightarrow> mw_state" where
  "sdk_record_receipt_failure env ctx snap kind outcome aref cls s =
    (let ev =
       [(''event_type'', VStr ''receipt_gap''),
        (''occurred_at'', VStr (se_clock env (length (mw_telemetry s)))),
        (''runtime_instance_id'', VStr (rc_runtime_instance_id ctx)),
        (''boundary_id'', VStr (rc_boundary_id ctx)),
        (''logical_call_id'', VStr (rs_logical_call_id snap)),
        (''requested_tool_name'', VStr (rs_tool_name snap)),
        (''attempted_receipt_kind'', VStr kind),
        (''attempted_outcome'', vopt outcome),
        (''admission_receipt_ref'', vopt aref),
        (''failure_class'', VStr cls)]
     in sdk_append_emergency_spool env ev (add_telemetry ev s))"

definition sdk_limits :: "sdk_config \<Rightarrow> binding_policy option \<Rightarrow> string list" where
  "sdk_limits cf pol =
     dict_fromkeys (sf_attestation_limits cf
       @ (case pol of Some p \<Rightarrow> bp_attestation_limits p | None \<Rightarrow> []))"

definition sdk_emit_admission ::
  "sdk_env \<Rightarrow> receipt_context \<Rightarrow> request_snapshot \<Rightarrow> binding_policy \<Rightarrow> token
    \<Rightarrow> string option \<Rightarrow> string option \<Rightarrow> string option \<Rightarrow> mw_state
    \<Rightarrow> (receipt_error, string) result \<times> mw_state" where
  "sdk_emit_admission env ctx snap pol disp review retry reason s =
     after_emit
       (emit_admission (se_identity env) ctx (se_stamps env (mw_stamp_count s))
         \<lparr>aa_tool_name = rs_tool_name snap, aa_argument_digest = rs_arguments_digest snap,
          aa_disposition = disp, aa_review_object_ref = review, aa_retry_contract = retry,
          aa_reason_code = reason, aa_limits = vtuple (sdk_limits (se_config env) (Some pol))\<rparr>
         (mw_sink s)) s"

definition sdk_emit_outcome ::
  "sdk_env \<Rightarrow> receipt_context \<Rightarrow> string \<Rightarrow> token \<Rightarrow> string option \<Rightarrow> string option
    \<Rightarrow> pydict option \<Rightarrow> mw_state \<Rightarrow> (receipt_error, string) result \<times> mw_state" where
  "sdk_emit_outcome env ctx aref out digest exc owned s =
     after_emit
       (emit_outcome (se_identity env) ctx (se_stamps env (mw_stamp_count s))
         \<lparr>oa_admission_ref = aref, oa_outcome = out, oa_result_digest = digest,
          oa_exception_class = exc, oa_limits = vtuple (sdk_limits (se_config env) None),
          oa_owned_fields = owned\<rparr>
         (mw_sink s)) s"

definition sdk_emit_outcome_best_effort ::
  "sdk_env \<Rightarrow> receipt_context \<Rightarrow> request_snapshot \<Rightarrow> string \<Rightarrow> token
    \<Rightarrow> string option \<Rightarrow> string option \<Rightarrow> pydict option \<Rightarrow> mw_state \<Rightarrow> mw_state" where
  "sdk_emit_outcome_best_effort env ctx snap aref out digest exc owned s =
     (case sdk_emit_outcome env ctx aref out digest exc owned s of
        (Inr _, s1) \<Rightarrow> s1
      | (Inl e, s1) \<Rightarrow>
          sdk_record_receipt_failure env ctx snap ''outcome'' (Some out) (Some aref)
            (sdk_failure_class e) s1)"

definition sdk_emit_post_execution_outcome ::
  "sdk_env \<Rightarrow> receipt_context \<Rightarrow> request_snapshot \<Rightarrow> string \<Rightarrow> token
    \<Rightarrow> string option \<Rightarrow> mw_state \<Rightarrow> mw_state" where
  "sdk_emit_post_execution_outcome env ctx snap aref out digest s =
     (case sdk_emit_outcome env ctx aref out digest None None s of
        (Inr _, s1) \<Rightarrow> s1
      | (Inl e, s1) \<Rightarrow>
          sdk_record_receipt_failure env ctx snap ''outcome'' (Some out) (Some aref)
            (sdk_failure_class e) s1)"

section \<open>Projecting the core's plans\<close>

definition sdk_project_binding_outcome :: "token \<Rightarrow> (sdk_result, token) result" where
  "sdk_project_binding_outcome tok =
     (case sdk_project_outcome tok of
        Inl _ \<Rightarrow> Inl (SdkUnknownKey tok)
      | Inr e \<Rightarrow> (case me_binding e of Some b \<Rightarrow> Inr b | None \<Rightarrow> Inl SdkNoToken))"

fun sdk_project_facts :: "bool \<Rightarrow> token list \<Rightarrow> (sdk_result, pydict) result" where
  "sdk_project_facts v [] = Inr []"
| "sdk_project_facts v (f # fs) =
     (case sdk_project_cancellation_fact f of
        Inl _ \<Rightarrow> Inl (SdkUnknownKey f)
      | Inr k \<Rightarrow> rbind (sdk_project_facts v fs) (\<lambda>d. Inr ((k, VBool v) # d)))"

definition sdk_project_governance_facts ::
  "outcome_record_intent \<Rightarrow> (sdk_result, pydict option) result" where
  "sdk_project_governance_facts rec =
     (if oi_governance_facts rec = [] then Inr None
      else rbind (sdk_project_facts (oi_governance_facts_value rec) (oi_governance_facts rec))
             (\<lambda>d. Inr (Some d)))"

definition sdk_emit_planned_outcome ::
  "sdk_env \<Rightarrow> admission_plan \<Rightarrow> receipt_context \<Rightarrow> request_snapshot \<Rightarrow> string
    \<Rightarrow> execution_observation \<Rightarrow> string option \<Rightarrow> mw_state
    \<Rightarrow> (sdk_result, unit) result \<times> mw_state" where
  "sdk_emit_planned_outcome env plan ctx snap aref ob digest s =
     (case plan_outcome_strict plan ob of
        Inl e \<Rightarrow> (Inl (SdkCoreError e), s)
      | Inr outp \<Rightarrow>
         (case op_record outp of
            None \<Rightarrow> (Inr (), s)
          | Some rec \<Rightarrow>
             (case sdk_project_binding_outcome (oi_outcome rec) of
                Inl e \<Rightarrow> (Inl e, s)
              | Inr out \<Rightarrow>
                  (Inr (), sdk_emit_post_execution_outcome env ctx snap aref out
                             (if oi_carries_result_digest rec then digest else None) s))))"

definition sdk_project_core_outcome ::
  "sdk_env \<Rightarrow> admission_plan \<Rightarrow> execution_observation \<Rightarrow> receipt_context \<Rightarrow> request_snapshot
    \<Rightarrow> string \<Rightarrow> token \<Rightarrow> string option \<Rightarrow> pydict option \<Rightarrow> mw_state
    \<Rightarrow> (sdk_result, unit) result \<times> mw_state" where
  "sdk_project_core_outcome env plan ob ctx snap aref frozen exc frozen_fields s =
     (case plan_outcome_strict plan ob of
        Inl e \<Rightarrow> (Inl (SdkCoreError e), s)
      | Inr outp \<Rightarrow>
         (case op_record outp of
            None \<Rightarrow> (Inr (), s)
          | Some rec \<Rightarrow>
             (case sdk_project_binding_outcome (oi_outcome rec) of
                Inl e \<Rightarrow> (Inl e, s)
              | Inr out \<Rightarrow>
                  if out \<noteq> frozen then (Inl SdkDiverged, s)
                  else if oi_carries_result_digest rec then (Inl SdkDiverged, s)
                  else (case sdk_project_governance_facts rec of
                      Inl e \<Rightarrow> (Inl e, s)
                    | Inr facts \<Rightarrow>
                        if facts \<noteq> frozen_fields then (Inl SdkDiverged, s)
                        else (Inr (), sdk_emit_outcome_best_effort env ctx snap aref out None exc
                                        facts s)))))"

section \<open>Result projection\<close>

text \<open>The four members of a returned value: its content, its structured content, its metadata and
  its error flag; an attribute is read under its first name that the object has.\<close>

definition attr_or :: "pydict \<Rightarrow> string \<Rightarrow> string \<Rightarrow> pyv \<Rightarrow> pyv" where
  "attr_or attrs name name2 dflt =
     (case dget attrs name of Some v \<Rightarrow> v
      | None \<Rightarrow> (case dget attrs name2 of Some v \<Rightarrow> v | None \<Rightarrow> dflt))"

fun sdk_members :: "sdk_value \<Rightarrow> pyv \<times> pyv \<times> pyv \<times> pyv" where
  "sdk_members SdkTask = (VList [], VNone, VNone, VBool False)"
| "sdk_members (SdkMapping m) = (VList [], VMap m, VNone, VBool False)"
| "sdk_members (SdkSequence xs) = (VList xs, VNone, VNone, VBool False)"
| "sdk_members (SdkObject attrs) =
     (let c = (case dget attrs ''content'' of Some v \<Rightarrow> v | None \<Rightarrow> VList []) in
      (if truthy c then c else VList [],
       attr_or attrs ''structured_content'' ''structuredContent'' VNone,
       attr_or attrs ''meta'' ''_meta'' VNone,
       attr_or attrs ''is_error'' ''isError'' (VBool False)))"

definition project_sdk_tool_result :: "sdk_env \<Rightarrow> sdk_value \<Rightarrow> (string, pydict) result" where
  "project_sdk_tool_result env v =
    (case sdk_members v of (content, structured, meta, is_error) \<Rightarrow>
      (let p = [(''content'', sdk_jsonable (se_dump env) content),
                (''structuredContent'', sdk_jsonable (se_dump env) structured),
                (''_meta'', sdk_jsonable (se_dump env) meta),
                (''isError'', VBool (truthy is_error))] in
       case cr_canon (si_crypto (se_identity env)) (VMap p) of
         None \<Rightarrow> Inl (se_canon_exc env) | Some _ \<Rightarrow> Inr p))"

definition projection_error_flag :: "pydict \<Rightarrow> bool" where
  "projection_error_flag p = (case dget p ''isError'' of Some v \<Rightarrow> truthy v | None \<Rightarrow> False)"

definition sdk_observe_result :: "sdk_env \<Rightarrow> sdk_value \<Rightarrow> observed" where
  "sdk_observe_result env v =
    (case project_sdk_tool_result env v of
       Inl cls \<Rightarrow> ProjectionFailed cls
     | Inr p \<Rightarrow>
        (case (case sf_observer (se_config env) of Some f \<Rightarrow> f (VMap p) | None \<Rightarrow> None) of
           Some e \<Rightarrow> if is_exception e then ProjectionFailed (sdk_exception_failure_class e)
                     else ObserverEscapes e
         | None \<Rightarrow>
            (case sha256_digest (si_crypto (se_identity env)) (VMap p) of
               Inl e \<Rightarrow> ProjectionFailed (sdk_failure_class e)
             | Inr d \<Rightarrow>
                 Projected d (simple_observation
                   (if projection_error_flag p then ''error'' else ''result'') None))))"

section \<open>Review objects\<close>

definition sdk_review_payload ::
  "request_snapshot \<Rightarrow> actor_resolution \<Rightarrow> string \<Rightarrow> pydict" where
  "sdk_review_payload snap actor created_at =
     [(''review_object_type'', VStr ''mcp_tool_call''),
      (''governance_state'', VStr ''pending''),
      (''context_payload'',
         VMap [(''tool_name'', VStr (rs_tool_name snap)),
               (''argument_digest'', VStr (rs_arguments_digest snap)),
               (''actor_ref'', VStr (ac_actor_ref actor)),
               (''logical_call_id'', VStr (rs_logical_call_id snap))]),
      (''allowed_actions'', strs [''approve'', ''reject'', ''defer'']),
      (''created_at'', VStr created_at),
      (''origin_event_id'', vopt (rs_request_ref snap))]"

definition sdk_review_create_payload :: "request_snapshot \<Rightarrow> actor_resolution \<Rightarrow> pydict" where
  "sdk_review_create_payload snap actor =
     [(''review_object_type'', VStr ''mcp_tool_call''),
      (''governance_state'', VStr ''pending''),
      (''tool_name'', VStr (rs_tool_name snap)),
      (''argument_digest'', VStr (rs_arguments_digest snap)),
      (''actor_ref'', VStr (ac_actor_ref actor)),
      (''logical_call_id'', VStr (rs_logical_call_id snap))]"

definition sdk_create_review_object ::
  "sdk_env \<Rightarrow> request_snapshot \<Rightarrow> actor_resolution \<Rightarrow> binding_policy \<Rightarrow> pyexc + string" where
  "sdk_create_review_object env snap actor pol =
    (case sf_review_creator (se_config env) of
       None \<Rightarrow> Inl (PyException ''RuntimeError'')
     | Some c \<Rightarrow>
        (case (case c of
             CallableCreator f \<Rightarrow> await_call (f snap actor pol)
           | ReviewObjectMethod f \<Rightarrow> await_call (f (sdk_review_payload snap actor (se_clock env 0)))
           | CreateMethod f \<Rightarrow> await_call (f (sdk_review_create_payload snap actor))
           | NoCreatorMethod \<Rightarrow> Inl (PyException ''TypeError'')) of
           Inl e \<Rightarrow> Inl e
         | Inr (VStr r) \<Rightarrow> if r = [] then Inl (PyException ''RuntimeError'') else Inr r
         | Inr _ \<Rightarrow> Inl (PyException ''RuntimeError'')))"

section \<open>The call\<close>

definition sdk_terminal_admission ::
  "sdk_env \<Rightarrow> admission_plan \<Rightarrow> receipt_context \<Rightarrow> request_snapshot \<Rightarrow> binding_policy
    \<Rightarrow> string option \<Rightarrow> mw_state \<Rightarrow> sdk_result \<times> mw_state" where
  "sdk_terminal_admission env plan ctx snap pol review s =
    (case ap_record plan of
       None \<Rightarrow> (SdkAssertion, s)
     | Some rec \<Rightarrow>
        (case sdk_project_disposition (ai_disposition rec) of
           Inl _ \<Rightarrow> (SdkUnknownKey (ai_disposition rec), s)
         | Inr disp \<Rightarrow>
            if ai_disposition rec = ''refused'' then
              (let reason = (if ap_requested plan = ''deferred'' then ai_reason_code rec
                             else Some (sdk_binding_refusal_reason_code pol)) in
               case sdk_emit_admission env ctx snap pol disp None None reason s of
                 (Inr _, s1) \<Rightarrow> (ToolRefused, s1)
               | (Inl e, s1) \<Rightarrow>
                   (ToolRefused, sdk_record_receipt_failure env ctx snap ''admission'' None None
                      (sdk_failure_class e) s1))
            else
              (case sdk_emit_admission env ctx snap pol disp review (ai_retry_contract rec) None s of
                 (Inr _, s1) \<Rightarrow> (ToolDeferred review, s1)
               | (Inl e, s1) \<Rightarrow>
                   (ReviewReceiptUnavailable, sdk_record_receipt_failure env ctx snap ''admission''
                      None None (sdk_failure_class e) s1))))"

definition sdk_pre_execution_failure_mode :: "sdk_config \<Rightarrow> token \<Rightarrow> token" where
  "sdk_pre_execution_failure_mode cf cls =
     (case dget (sf_pre_failure cf) cls of Some m \<Rightarrow> m | None \<Rightarrow> ''fail_closed'')"

definition sdk_prepare_review ::
  "sdk_env \<Rightarrow> receipt_context \<Rightarrow> request_snapshot \<Rightarrow> actor_resolution \<Rightarrow> binding_policy
    \<Rightarrow> token \<Rightarrow> mw_state
    \<Rightarrow> (sdk_result, string option \<times> bool option) result \<times> mw_state" where
  "sdk_prepare_review env ctx snap actor pol disp s =
    (if disp \<noteq> ''deferred'' then (Inr (None, None), s)
     else
      (let s1 = s\<lparr>mw_trace := mw_trace s @ [ReviewRequested]\<rparr> in
       case sdk_create_review_object env snap actor pol of
         Inr r \<Rightarrow> (Inr (Some r, Some True), s1)
       | Inl e \<Rightarrow>
          if is_exception e
          then (Inr (None, Some False), sdk_record_review_failure env ctx snap (exc_class e) s1)
          else (Inl (SdkResolverRaised e), s1)))"

definition sdk_observe_admission ::
  "sdk_env \<Rightarrow> admission_plan \<Rightarrow> receipt_context \<Rightarrow> request_snapshot \<Rightarrow> binding_policy
    \<Rightarrow> mw_state \<Rightarrow> (sdk_result, string option) result \<times> mw_state" where
  "sdk_observe_admission env plan ctx snap pol s =
    (if \<not> ap_admission_recorded plan then (Inr None, s)
     else
      (case sdk_emit_admission env ctx snap pol ''admitted'' None None None s of
         (Inr rid, s1) \<Rightarrow> (Inr (Some rid), s1)
       | (Inl e, s1) \<Rightarrow>
           (let s2 = sdk_record_receipt_failure env ctx snap ''admission'' None None
                       (sdk_failure_class e) s1
            in if sdk_pre_execution_failure_mode (se_config env) (bp_tool_class pol) = ''fail_closed''
               then (Inl AdmissionReceiptUnavailable, s2) else (Inr None, s2))))"

definition sdk_after_raise ::
  "sdk_env \<Rightarrow> admission_plan \<Rightarrow> receipt_context \<Rightarrow> request_snapshot \<Rightarrow> string option \<Rightarrow> pyexc
    \<Rightarrow> mw_state \<Rightarrow> sdk_result \<times> mw_state" where
  "sdk_after_raise env plan ctx snap aref e s =
    (let projected =
       (case aref of
          None \<Rightarrow> (Inr (), s)
        | Some r \<Rightarrow>
           (case e of
              PyCancelled \<Rightarrow>
                sdk_project_core_outcome env plan (simple_observation ''cancellation'' None) ctx snap
                  r ''indeterminate'' None (Some CANCELLATION_LITERAL) s
            | PyTimeout cls \<Rightarrow>
                sdk_project_core_outcome env plan (simple_observation ''timeout'' None) ctx snap r
                  ''exception'' (Some cls) None s
            | PyException cls \<Rightarrow>
                sdk_project_core_outcome env plan (simple_observation ''exception'' (Some cls)) ctx
                  snap r ''exception'' (Some cls) None s
            | PyBase _ \<Rightarrow> (Inr (), s)))
     in (case fst projected of Inl err \<Rightarrow> err | Inr _ \<Rightarrow> DelegateRaised e, snd projected))"

definition sdk_after_return ::
  "sdk_env \<Rightarrow> admission_plan \<Rightarrow> receipt_context \<Rightarrow> request_snapshot \<Rightarrow> string option
    \<Rightarrow> sdk_value \<Rightarrow> mw_state \<Rightarrow> sdk_result \<times> mw_state" where
  "sdk_after_return env plan ctx snap aref v s =
    (if v = SdkTask then (TaskSubmissionUnsupported, s)
     else case aref of
       None \<Rightarrow> (SdkReturned v, s)
     | Some r \<Rightarrow>
         (case sdk_observe_result env v of
            ProjectionFailed cls \<Rightarrow>
              (SdkReturned v, sdk_record_receipt_failure env ctx snap ''outcome''
                 (Some ''result_returned'') (Some r) cls s)
          | ObserverEscapes e \<Rightarrow> (SdkResolverRaised e, s)
          | Projected digest ob \<Rightarrow>
              (case sdk_emit_planned_outcome env plan ctx snap r ob (Some digest) s of
                 (Inl err, s1) \<Rightarrow> (err, s1) | (Inr _, s1) \<Rightarrow> (SdkReturned v, s1))))"

definition sdk_execute_call ::
  "sdk_env \<Rightarrow> admission_plan \<Rightarrow> receipt_context \<Rightarrow> request_snapshot \<Rightarrow> string option
    \<Rightarrow> sdk_handler \<Rightarrow> mw_state \<Rightarrow> sdk_result \<times> mw_state" where
  "sdk_execute_call env plan ctx snap aref handler s =
    (let s1 = s\<lparr>mw_trace := mw_trace s @ [HandlerCalled]\<rparr> in
     case handler of
       DelegateRaises e \<Rightarrow> sdk_after_raise env plan ctx snap aref e s1
     | DelegateReturns v \<Rightarrow> sdk_after_return env plan ctx snap aref v s1)"

definition sdk_lifecycle ::
  "sdk_env \<Rightarrow> request_snapshot \<Rightarrow> actor_resolution \<Rightarrow> binding_policy \<Rightarrow> sdk_handler
    \<Rightarrow> mw_state \<Rightarrow> sdk_result \<times> mw_state" where
  "sdk_lifecycle env snap actor pol handler s =
    (let cf = se_config env; ctx = sdk_receipt_context cf snap actor pol in
     case sdk_to_neutral_disposition (bp_disposition pol) of
       None \<Rightarrow> (SdkUnknownKey (bp_disposition pol), s)
     | Some disp \<Rightarrow>
        (case sdk_prepare_review env ctx snap actor pol disp s of
           (Inl err, s1) \<Rightarrow> (err, s1)
         | (Inr (review, created), s1) \<Rightarrow>
            (case plan_admission (sdk_neutral_admission_request pol disp created
                    (sf_emit_read_admission cf)
                    (bp_parent_receipt_ref pol \<noteq> None \<or> sf_parent_receipt_ref cf \<noteq> None)) of
               Inl e \<Rightarrow> (SdkCoreError e, s1)
             | Inr plan \<Rightarrow>
                if \<not> ap_execution_proceeds plan
                then sdk_terminal_admission env plan ctx snap pol review s1
                else (case sdk_observe_admission env plan ctx snap pol s1 of
                    (Inl err, s2) \<Rightarrow> (err, s2)
                  | (Inr aref, s2) \<Rightarrow> sdk_execute_call env plan ctx snap aref handler s2))))"

definition sdk_governed_call ::
  "sdk_env \<Rightarrow> string \<Rightarrow> pydict option \<Rightarrow> (pydict \<Rightarrow> sdk_handler) \<Rightarrow> sdk_request_context option
    \<Rightarrow> mw_state \<Rightarrow> sdk_result \<times> mw_state" where
  "sdk_governed_call env tool arguments delegate rc s =
    (case sdk_snapshot_request env tool arguments rc of
       Inl err \<Rightarrow> (err, s)
     | Inr snap \<Rightarrow>
        (case sdk_resolve_actor env rc snap of
           Inl err \<Rightarrow> (err, s)
         | Inr actor \<Rightarrow>
            (case sdk_resolve_policy (se_config env) snap actor of
               Inl err \<Rightarrow> (err, s)
             | Inr pol \<Rightarrow>
                 sdk_lifecycle env snap actor pol
                   (delegate (case arguments of None \<Rightarrow> [] | Some a \<Rightarrow> a)) s)))"

end
