(* ===== verification/SdkBindingFacts.thy ===== *)
theory SdkBindingFacts
  imports SdkBinding FastmcpReceipts
begin

text \<open>The official-SDK binding is the FastMCP binding under another stamp: every operation of the
  SDK adapter is the corresponding one of the middleware on a translated environment, a delegate
  that returns the task result being one that raises something no handler catches. The facts of
  the middleware carry over.\<close>

section \<open>Translation\<close>

definition mw_config_of :: "sdk_config \<Rightarrow> mw_config" where
  "mw_config_of cf =
     \<lparr>cf_runtime_instance_id = sf_runtime_instance_id cf, cf_boundary_id = sf_boundary_id cf,
      cf_policy_pack_id = sf_policy_pack_id cf,
      cf_policy_pack_version = sf_policy_pack_version cf,
      cf_tool_classes = sf_tool_classes cf, cf_actor_resolver = None,
      cf_policy_resolver = sf_policy_resolver cf, cf_operator_resolver = None,
      cf_operator_timeout = None, cf_required_tools = [], cf_required_tool_classes = [],
      cf_review_creator = sf_review_creator cf, cf_pre_failure = sf_pre_failure cf,
      cf_post_failure = ''alert_and_return_result'',
      cf_emit_read_admission = sf_emit_read_admission cf, cf_spool = sf_spool cf,
      cf_parent_receipt_ref = sf_parent_receipt_ref cf,
      cf_logical_call_id_override = sf_logical_call_id_override cf,
      cf_subject_ref_override = sf_subject_ref_override cf, cf_observer = sf_observer cf,
      cf_attestation_limits = sf_attestation_limits cf\<rparr>"

definition mw_env_of :: "sdk_env \<Rightarrow> mw_env" where
  "mw_env_of env =
     \<lparr>en_identity = se_identity env, en_config = mw_config_of (se_config env),
      en_stamps = se_stamps env, en_clock = se_clock env, en_minted_id = se_minted_id env,
      en_token = se_token env, en_dump = se_dump env, en_canon_exc = se_canon_exc env\<rparr>"

abbreviation task_unsupported :: pyexc where
  "task_unsupported \<equiv> PyBase ''TaskSubmissionUnsupported''"

definition mw_value_of :: "sdk_value \<Rightarrow> tool_value" where
  "mw_value_of v = (case sdk_members v of (c, st, m, e) \<Rightarrow> ToolValue c st m e)"

definition mw_handler_of :: "sdk_handler \<Rightarrow> handler_outcome" where
  "mw_handler_of h =
     (case h of
        DelegateReturns v \<Rightarrow>
          if v = SdkTask then HandlerRaises task_unsupported else HandlerReturns (mw_value_of v)
      | DelegateRaises e \<Rightarrow> HandlerRaises e)"

fun mw_result_of :: "sdk_result \<Rightarrow> mw_result" where
  "mw_result_of (SdkReturned v) = Returned (mw_value_of v)"
| "mw_result_of ToolRefused = ToolErrorRefused"
| "mw_result_of (ToolDeferred r) = ToolErrorDeferred r"
| "mw_result_of ReviewReceiptUnavailable = ToolErrorReviewReceipt"
| "mw_result_of AdmissionReceiptUnavailable = ToolErrorAdmissionReceipt"
| "mw_result_of TaskSubmissionUnsupported = HandlerRaised task_unsupported"
| "mw_result_of SdkDiverged = ToolErrorDiverged"
| "mw_result_of SdkNoToken = ToolErrorNoToken"
| "mw_result_of (DelegateRaised e) = HandlerRaised e"
| "mw_result_of (SdkResolverRaised e) = ResolverRaised e"
| "mw_result_of (SdkReceiptError e) = ReceiptErrorRaised e"
| "mw_result_of (SdkCoreError e) = CoreErrorRaised e"
| "mw_result_of (SdkUnknownKey t) = UnknownDispositionKey t"
| "mw_result_of SdkAssertion = AssertionRaised"

lemma env_fields [simp]:
  "en_identity (mw_env_of env) = se_identity env"
  "en_config (mw_env_of env) = mw_config_of (se_config env)"
  "en_stamps (mw_env_of env) = se_stamps env" "en_clock (mw_env_of env) = se_clock env"
  "en_minted_id (mw_env_of env) = se_minted_id env" "en_token (mw_env_of env) = se_token env"
  "en_dump (mw_env_of env) = se_dump env" "en_canon_exc (mw_env_of env) = se_canon_exc env"
  by (simp_all add: mw_env_of_def)

lemma config_fields [simp]:
  "cf_pre_failure (mw_config_of cf) = sf_pre_failure cf"
  "cf_post_failure (mw_config_of cf) = ''alert_and_return_result''"
  "cf_emit_read_admission (mw_config_of cf) = sf_emit_read_admission cf"
  "cf_spool (mw_config_of cf) = sf_spool cf"
  "cf_parent_receipt_ref (mw_config_of cf) = sf_parent_receipt_ref cf"
  "cf_observer (mw_config_of cf) = sf_observer cf"
  "cf_review_creator (mw_config_of cf) = sf_review_creator cf"
  "cf_attestation_limits (mw_config_of cf) = sf_attestation_limits cf"
  "cf_logical_call_id_override (mw_config_of cf) = sf_logical_call_id_override cf"
  "cf_subject_ref_override (mw_config_of cf) = sf_subject_ref_override cf"
  by (simp_all add: mw_config_of_def)

section \<open>The neutral layer repeats the middleware's helpers\<close>

lemma jsonable_parts:
  "jsonable_map dump kvs = map (\<lambda>(k, v). (k, jsonable dump v)) kvs"
  "jsonable_list dump xs = map (jsonable dump) xs"
  by (induction kvs, auto) (induction xs, auto)

lemma sdk_jsonable_eq: "sdk_jsonable dump v = jsonable dump v"
  by (induction dump v rule: sdk_jsonable.induct) (auto simp: jsonable_parts)

lemma sdk_claim_string_eq: "sdk_claim_string c ks = claim_string c ks"
  by (induction c ks rule: claim_string.induct) (auto split: option.splits pyv.splits)

lemma sdk_neutral_eq:
  "sdk_to_neutral_disposition d = to_neutral_disposition d"
  "sdk_binding_refusal_reason_code pol = binding_refusal_reason_code pol"
  "sdk_neutral_refusal_ground pol = neutral_refusal_ground pol"
  "sdk_scoped_hash_ref cr pre v = scoped_hash_ref cr pre v"
  "sdk_hash_ref_if cr pre x = hash_ref_if cr pre x"
  "sdk_failure_class e = receipt_failure_class e"
  "sdk_exception_failure_class x' = classified_exception x'"
  by (simp_all add: sdk_to_neutral_disposition_def SDK_NEUTRAL_DISPOSITION_BY_BINDING_def
      to_neutral_disposition_def NEUTRAL_DISPOSITION_BY_BINDING_def
      sdk_binding_refusal_reason_code_def binding_refusal_reason_code_def
      sdk_neutral_refusal_ground_def neutral_refusal_ground_def sdk_scoped_hash_ref_def
      scoped_hash_ref_def sdk_hash_ref_if_def hash_ref_if_def sdk_failure_class_def
      receipt_failure_class_def sdk_exception_failure_class_def classified_exception_def)

lemma sdk_admission_request_eq:
  "sdk_neutral_admission_request pol disp created (sf_emit_read_admission cf)
     (bp_parent_receipt_ref pol \<noteq> None \<or> sf_parent_receipt_ref cf \<noteq> None)
   = neutral_admission_request (mw_config_of cf) pol disp created"
  by (simp add: sdk_neutral_admission_request_def neutral_admission_request_def sdk_neutral_eq)

lemma sdk_default_actor_eq:
  "default_sdk_actor_resolution env = default_actor_resolution (mw_env_of env)"
  unfolding default_sdk_actor_resolution_def default_actor_resolution_def sdk_neutral_eq
    sdk_claim_string_eq env_fields ..

lemma sdk_choose_subject_eq:
  "sdk_choose_subject cf sess req call = choose_subject (mw_config_of cf) sess req call"
  by (simp add: sdk_choose_subject_def choose_subject_def)

text \<open>The snapshot is the middleware's snapshot of the same request facts.\<close>

lemma sdk_snapshot_eq:
  assumes "rc_meta (se_dump env) rc = Inr meta"
  shows "map_err mw_result_of (sdk_snapshot_request env tool args rc)
    = map_err ReceiptErrorRaised (snapshot_request (mw_env_of env)
        \<lparr>cm_name = tool, cm_arguments = VMap (case args of None \<Rightarrow> [] | Some a \<Rightarrow> a),
         cm_meta = meta, cm_request_id = rc_attr_request_id rc, cm_session_id = session_id_of rc\<rparr>)"
proof -
  have two: "map_err mw_result_of (map_err SdkReceiptError r) = map_err ReceiptErrorRaised r" for r
    by (cases r) simp_all
  show ?thesis
    by (simp add: sdk_snapshot_request_def snapshot_request_def Let_def assms two sdk_neutral_eq
        sdk_choose_subject_eq)
qed

section \<open>Telemetry and emission\<close>

lemma sdk_telemetry_eq:
  "sdk_append_emergency_spool env ev s = append_emergency_spool (mw_env_of env) ev s"
  "sdk_record_review_failure env ctx snap cls s = record_review_failure (mw_env_of env) ctx snap cls s"
  unfolding sdk_append_emergency_spool_def append_emergency_spool_def
    sdk_record_review_failure_def record_review_failure_def env_fields config_fields by (rule refl)+

lemma sdk_receipt_failure_eq:
  "sdk_record_receipt_failure env ctx snap kind out aref cls s
     = record_receipt_failure (mw_env_of env) ctx snap kind out aref cls s"
  by (simp add: sdk_record_receipt_failure_def record_receipt_failure_def sdk_telemetry_eq)

lemma sdk_emission_eq:
  "sdk_emit_admission env ctx snap pol disp rv rt rs s
     = mw_emit_admission (mw_env_of env) ctx snap pol disp rv rt rs s"
  "sdk_emit_outcome env ctx aref out dg exc ow s
     = mw_emit_outcome (mw_env_of env) ctx snap aref out dg exc ow s"
  by (simp_all add: sdk_emit_admission_def mw_emit_admission_def sdk_emit_outcome_def
      mw_emit_outcome_def sdk_limits_def mw_limits_def)

lemma sdk_best_effort_eq:
  "sdk_emit_outcome_best_effort env ctx snap aref out dg exc ow s
     = emit_outcome_best_effort (mw_env_of env) ctx snap aref out dg exc ow s"
  unfolding sdk_emit_outcome_best_effort_def emit_outcome_best_effort_def
    sdk_emission_eq(2)[where snap = snap] sdk_neutral_eq sdk_receipt_failure_eq ..

lemma sdk_post_execution_eq:
  "sdk_emit_post_execution_outcome env ctx snap aref out dg s
     = emit_post_execution_outcome (mw_env_of env) ctx snap aref v out dg s"
  unfolding sdk_emit_post_execution_outcome_def emit_post_execution_outcome_def Let_def
    sdk_emission_eq(2)[where snap = snap] sdk_neutral_eq sdk_receipt_failure_eq env_fields
    config_fields by (auto split: sum.split prod.split)

section \<open>The core's plans\<close>

text \<open>A token the core plans for anything but a submitted task has the same binding token.\<close>

lemma sdk_project_outcome_eq:
  "tok \<noteq> ''task_submitted'' \<Longrightarrow>
     project_binding_outcome tok = map_err mw_result_of (sdk_project_binding_outcome tok)"
  by (simp add: project_binding_outcome_def sdk_project_binding_outcome_def project_outcome_def
      sdk_project_outcome_def OUTCOME_MASK_def SDK_OUTCOME_MASK_def)

lemma sdk_project_facts_eq:
  "project_facts v fs = map_err mw_result_of (sdk_project_facts v fs)"
proof (induction fs)
  case (Cons f fs)
  then show ?case
    by (cases "project_cancellation_fact f"; cases "sdk_project_facts v fs") simp_all
qed simp

lemma sdk_governance_facts_eq:
  "project_governance_facts rec = map_err mw_result_of (sdk_project_governance_facts rec)"
  by (cases "sdk_project_facts (oi_governance_facts_value rec) (oi_governance_facts rec)")
     (simp_all add: project_governance_facts_def sdk_project_governance_facts_def
        sdk_project_facts_eq)

lemma planned_record_not_task:
  assumes "plan_outcome_strict plan ob = Inr outp" "op_record outp = Some rec"
    and "ob_observation ob \<noteq> ''task_submitted''"
  shows "oi_outcome rec \<noteq> ''task_submitted''"
  using assms
  by (auto simp: plan_outcome_strict_def plan_outcome_def raise_unsupported_def Let_def
      outcome_record_def vocab split: sum.splits if_splits planned.splits option.splits)

section \<open>The call\<close>

lemma sdk_members_not_task:
  "v \<noteq> SdkTask \<Longrightarrow> projection_error_flag [(''content'', a), (''structuredContent'', b), (''_meta'', c),
     (''isError'', VBool e)] = e"
  by (simp add: projection_error_flag_def)

lemma sdk_observe_eq:
  assumes "sdk_members v = (c, st, m, e)"
  shows "sdk_observe_result env v = observe_result (mw_env_of env) c st m e"
  unfolding sdk_observe_result_def observe_result_def project_sdk_tool_result_def
    project_fastmcp_tool_result_def result_projection_def fastmcp_tool_result_digest_def
    simple_observation_def assms prod.case Let_def env_fields config_fields sdk_neutral_eq
    sdk_jsonable_eq
  by (cases "cr_canon (si_crypto (se_identity env))
      (VMap [(''content'', jsonable (se_dump env) c), (''structuredContent'', jsonable (se_dump env) st),
             (''_meta'', jsonable (se_dump env) m), (''isError'', VBool (truthy e))])")
     (simp_all add: projection_error_flag_def split: option.split sum.split)

lemma sdk_core_outcome_eq:
  assumes "ob_observation ob \<noteq> ''task_submitted''"
  shows "project_core_outcome (mw_env_of env) plan ob ctx snap aref fz exc ff s
    = map_prod (map_err mw_result_of) id (sdk_project_core_outcome env plan ob ctx snap aref fz exc ff s)"
proof (cases "plan_outcome_strict plan ob")
  case (Inr outp)
  show ?thesis
  proof (cases "op_record outp")
    case (Some rec)
    note nt = planned_record_not_task[OF Inr Some assms]
    show ?thesis
    proof (cases "sdk_project_binding_outcome (oi_outcome rec)")
      case (Inr out)
      with Some \<open>plan_outcome_strict plan ob = Inr outp\<close> show ?thesis
        by (cases "sdk_project_governance_facts rec")
           (simp_all add: project_core_outcome_def sdk_project_core_outcome_def
              sdk_project_outcome_eq[OF nt] sdk_governance_facts_eq sdk_best_effort_eq)
    qed (use Some Inr in \<open>simp add: project_core_outcome_def sdk_project_core_outcome_def
          sdk_project_outcome_eq[OF nt]\<close>)
  qed (simp add: project_core_outcome_def sdk_project_core_outcome_def Inr)
qed (simp add: project_core_outcome_def sdk_project_core_outcome_def)

lemma sdk_planned_outcome_eq:
  assumes "ob_observation ob \<noteq> ''task_submitted''"
  shows "emit_planned_outcome (mw_env_of env) plan ctx snap aref v ob dg s
    = map_prod (map_err mw_result_of) id (sdk_emit_planned_outcome env plan ctx snap aref ob dg s)"
proof (cases "plan_outcome_strict plan ob")
  case (Inr outp)
  show ?thesis
  proof (cases "op_record outp")
    case (Some rec)
    note nt = planned_record_not_task[OF Inr Some assms]
    show ?thesis using Some Inr
      by (cases "sdk_project_binding_outcome (oi_outcome rec)")
         (simp_all add: emit_planned_outcome_def sdk_emit_planned_outcome_def
            sdk_project_outcome_eq[OF nt] sdk_post_execution_eq[where v = v])
  qed (simp add: emit_planned_outcome_def sdk_emit_planned_outcome_def Inr)
qed (simp add: emit_planned_outcome_def sdk_emit_planned_outcome_def)

lemma sdk_after_raise_eq:
  "after_raise (mw_env_of env) plan ctx snap aref e s
    = map_prod mw_result_of id (sdk_after_raise env plan ctx snap aref e s)"
proof (cases aref)
  case (Some a)
  have fin: "(case map_err mw_result_of x of Inl err \<Rightarrow> err | Inr _ \<Rightarrow> HandlerRaised e)
      = mw_result_of (case x of Inl err \<Rightarrow> err | Inr _ \<Rightarrow> DelegateRaised e)"
    for x :: "(sdk_result, unit) result" and e by (cases x) simp_all
  have obs: "t \<noteq> ''task_submitted'' \<Longrightarrow>
      project_core_outcome (mw_env_of env) plan (simple_observation t c) ctx snap a fz exc ff s
      = map_prod (map_err mw_result_of) id
          (sdk_project_core_outcome env plan (simple_observation t c) ctx snap a fz exc ff s)"
    for t c fz exc ff by (rule sdk_core_outcome_eq) (simp add: simple_observation_def)
  show ?thesis
    by (cases e) (simp_all add: after_raise_def sdk_after_raise_def Some Let_def obs fin)
qed (simp add: after_raise_def sdk_after_raise_def)

lemma sdk_task_return [simp]:
  "sdk_after_return env plan ctx snap aref SdkTask s = (TaskSubmissionUnsupported, s)"
  "sdk_after_raise env plan ctx snap aref (PyBase c) s = (DelegateRaised (PyBase c), s)"
  by (simp_all add: sdk_after_return_def sdk_after_raise_def split: option.split)

lemma sdk_after_return_eq:
  assumes "v \<noteq> SdkTask"
  shows "after_return (mw_env_of env) plan ctx snap aref (mw_value_of v) s
    = map_prod mw_result_of id (sdk_after_return env plan ctx snap aref v s)"
proof (cases aref)
  case (Some a)
  obtain c st m e where mem: "sdk_members v = (c, st, m, e)" by (cases "sdk_members v") auto
  note val = mw_value_of_def[of v, unfolded mem prod.case]
  note ob = sdk_observe_eq[OF mem, of env]
  show ?thesis
  proof (cases "observe_result (mw_env_of env) c st m e")
    case (Projected d obs)
    have obs: "ob_observation obs \<noteq> ''task_submitted''"
      by (simp add: observe_result_Projected[OF Projected] simple_observation_def)
    show ?thesis
      using Some assms Projected
      by (cases "sdk_emit_planned_outcome env plan ctx snap a obs (Some d) s")
         (auto simp: after_return_def sdk_after_return_def val ob sdk_planned_outcome_eq[OF obs]
            split: sum.split)
  qed (use Some assms in \<open>simp_all add: after_return_def sdk_after_return_def val ob
        sdk_receipt_failure_eq\<close>)
qed (simp add: after_return_def sdk_after_return_def assms)

lemma sdk_execute_eq:
  "execute_call (mw_env_of env) plan ctx snap aref (mw_handler_of h) s
    = map_prod mw_result_of id (sdk_execute_call env plan ctx snap aref h s)"
  by (cases h) (simp_all add: execute_call_def sdk_execute_call_def mw_handler_of_def Let_def
      sdk_after_raise_eq sdk_task_return sdk_after_return_eq)

lemma sdk_terminal_eq:
  "terminal_admission (mw_env_of env) plan ctx snap pol rv s
    = map_prod mw_result_of id (sdk_terminal_admission env plan ctx snap pol rv s)"
  unfolding terminal_admission_def sdk_terminal_admission_def sdk_emission_eq sdk_neutral_eq
    sdk_receipt_failure_eq sdk_project_disposition_eq
  by (simp add: Let_def split: option.split sum.split prod.split)

lemma sdk_pre_mode_eq:
  "pre_execution_failure_mode (mw_config_of cf) cls = sdk_pre_execution_failure_mode cf cls"
  by (simp add: pre_execution_failure_mode_def sdk_pre_execution_failure_mode_def)

lemma sdk_observe_admission_eq:
  "observe_admission (mw_env_of env) plan ctx snap pol s
    = map_prod (map_err mw_result_of) id (sdk_observe_admission env plan ctx snap pol s)"
  unfolding observe_admission_def sdk_observe_admission_def sdk_emission_eq sdk_neutral_eq
    sdk_receipt_failure_eq env_fields sdk_pre_mode_eq
  by (simp add: Let_def split: sum.split prod.split)

lemma sdk_review_object_eq:
  "sdk_create_review_object env snap actor pol = create_review_object (mw_env_of env) snap actor pol"
  unfolding sdk_create_review_object_def create_review_object_def env_fields config_fields
    sdk_review_payload_def review_payload_def sdk_review_create_payload_def
    review_create_payload_def ..

lemma sdk_prepare_review_eq:
  "prepare_review (mw_env_of env) ctx snap actor pol d s
    = map_prod (map_err mw_result_of) id (sdk_prepare_review env ctx snap actor pol d s)"
  unfolding prepare_review_def sdk_prepare_review_def sdk_review_object_eq sdk_telemetry_eq
  by (simp add: Let_def split: sum.split)

lemma sdk_context_eq:
  "sdk_receipt_context cf snap actor pol
     = mw_receipt_context (mw_config_of cf) snap actor pol\<lparr>rc_binding_version := SDK_BINDING_VERSION\<rparr>"
  by (simp add: sdk_receipt_context_def mw_receipt_context_def policy_parent_def mw_config_of_def)

lemma sdk_lifecycle_middleware:
  "governed_call_under (mw_env_of env) (sdk_receipt_context (se_config env) snap actor pol) snap
      actor pol (mw_handler_of h) s
    = map_prod mw_result_of id (sdk_lifecycle env snap actor pol h s)"
  unfolding governed_call_under_def sdk_lifecycle_def Let_def
    sdk_neutral_eq sdk_admission_request_eq env_fields sdk_prepare_review_eq
  by (auto simp: sdk_terminal_eq sdk_observe_admission_eq sdk_execute_eq
      split: option.split sum.split prod.split)

text \<open>C35: The official-SDK binding is the FastMCP binding under another stamp. Whatever the
  configuration, the policy, the sink and the delegate do, the SDK lifecycle has the state, the
  receipts, the telemetry and the result of the middleware's lifecycle under a receipt context
  that differs in the binding version only; a delegate that returns a task submission counts as
  one that raises past every handler.\<close>
theorem sdk_mirrors_middleware:
  "governed_call_under (mw_env_of env)
      (mw_receipt_context (mw_config_of (se_config env)) snap actor pol
         \<lparr>rc_binding_version := SDK_BINDING_VERSION\<rparr>) snap actor pol (mw_handler_of h) s
    = map_prod mw_result_of id (sdk_lifecycle env snap actor pol h s)"
  using sdk_lifecycle_middleware by (simp only: sdk_context_eq)

section \<open>What carries over\<close>

definition sdk_request ::
  "sdk_env \<Rightarrow> binding_policy \<Rightarrow> token \<Rightarrow> bool option \<Rightarrow> admission_request" where
  "sdk_request env pol d created =
     (sdk_neutral_admission_request pol d created (sf_emit_read_admission (se_config env))
       (bp_parent_receipt_ref pol \<noteq> None \<or> sf_parent_receipt_ref (se_config env) \<noteq> None))"

lemma sdk_request_eq:
  "sdk_request env pol d created
     = neutral_admission_request (mw_config_of (se_config env)) pol d created"
  unfolding sdk_request_def by (rule sdk_admission_request_eq)

lemma sdk_as_middleware:
  assumes "sdk_lifecycle env snap actor pol h s = (r, s')"
  shows "governed_call_under (mw_env_of env) (sdk_receipt_context (se_config env) snap actor pol)
    snap actor pol (mw_handler_of h) s = (mw_result_of r, s')"
  using sdk_lifecycle_middleware[of env snap actor pol h s] assms by simp

text \<open>A call of the official-SDK binding is safe. Its effects are one of the traces of the
  middleware; it never ends in a disagreement of adapter and core; the delegate runs only for an
  admitting policy, and a class that fails closed only right after its accepted admission receipt;
  and a completed call leaves exactly its admitted admission and an outcome that references it.\<close>
theorem sdk_call_safe:
  "case sdk_lifecycle env snap actor pol h s of (r, s') \<Rightarrow>
     \<not> disagreement (mw_result_of r)
     \<and> (\<exists>tr. mw_trace s' = mw_trace s @ tr \<and> call_trace tr
         \<and> (if HandlerCalled \<in> set tr then bp_disposition pol = ''admitted'' else True)
         \<and> (if HandlerCalled \<in> set tr
               \<and> admission_before_execution (sdk_request env pol ''admitted'' None)
               \<and> sdk_pre_execution_failure_mode (se_config env) (bp_tool_class pol) = ''fail_closed''
            then \<exists>a rest. tr = ReceiptWritten a # HandlerCalled # rest else True)
         \<and> (case tr of
              [ReceiptWritten a, HandlerCalled, ReceiptWritten b] \<Rightarrow>
                (\<exists>ra rb. written s' = written s @ [ra, rb]
                    \<and> admission_of snap ''admitted'' a ra \<and> outcome_for a b rb)
            | _ \<Rightarrow> True))"
proof -
  obtain r s' where run: "sdk_lifecycle env snap actor pol h s = (r, s')" by fastforce
  note mw = sdk_as_middleware[OF run]
  obtain tr where tr: "mw_trace s' = mw_trace s @ tr" "call_trace tr"
    using governed_call_trace[OF mw] by blast
  have chain: "\<exists>ra rb. written s' = written s @ [ra, rb]
      \<and> admission_of snap ''admitted'' a ra \<and> outcome_for a b rb"
    if "tr = [ReceiptWritten a, HandlerCalled, ReceiptWritten b]" for a b
    using governed_call_chain[OF mw] tr(1) that by simp
  have need: "bp_disposition pol = ''admitted''
      \<and> (if admission_before_execution (sdk_request env pol ''admitted'' None)
          \<and> sdk_pre_execution_failure_mode (se_config env) (bp_tool_class pol) = ''fail_closed''
         then \<exists>a rest. tr = ReceiptWritten a # HandlerCalled # rest else True)"
    if "HandlerCalled \<in> set tr"
    using execution_needs_admission[OF mw tr(1) that]
    unfolding env_fields sdk_pre_mode_eq sdk_request_eq .
  have "case tr of [ReceiptWritten a, HandlerCalled, ReceiptWritten b] \<Rightarrow>
      (\<exists>ra rb. written s' = written s @ [ra, rb]
          \<and> admission_of snap ''admitted'' a ra \<and> outcome_for a b rb) | _ \<Rightarrow> True"
    using chain by (auto split: list.splits mw_effect.splits)
  with tr need governed_call_agrees[OF mw] show ?thesis unfolding run prod.case by auto
qed

lemma sdk_task_never_raised:
  assumes "sdk_lifecycle env snap actor pol (DelegateReturns SdkTask) s = (DelegateRaised e, s')"
  shows False
  using assms
  by (auto simp: sdk_lifecycle_def sdk_execute_call_def sdk_prepare_review_def
      sdk_observe_admission_def sdk_terminal_admission_def Let_def
      split: option.splits sum.splits prod.splits if_splits)

lemma sdk_task_cases:
  assumes run: "sdk_lifecycle env snap actor pol (DelegateReturns SdkTask) s = (r, s')"
    and adm: "bp_disposition pol = ''admitted''"
  obtains (closed) "r = AdmissionReceiptUnavailable" "mw_trace s' = mw_trace s"
    | (ran) plan aref s1 where "r = TaskSubmissionUnsupported"
      "plan_admission (sdk_request env pol ''admitted'' None) = Inr plan"
      "ap_execution_proceeds plan"
      "observe_admission (mw_env_of env) plan (sdk_receipt_context (se_config env) snap actor pol)
         snap pol s = (Inr aref, s1)"
      "s' = s1\<lparr>mw_trace := mw_trace s1 @ [HandlerCalled]\<rparr>"
  using sdk_as_middleware[OF run]
proof (cases rule: governed_call_under_cases)
  case (closed plan)
  then have "r = AdmissionReceiptUnavailable" by (cases r) simp_all
  moreover have "mw_trace s' = mw_trace s" using closed(3) by (auto elim!: observe_admission_cases)
  ultimately show ?thesis by (rule that(1))
next
  case (executed plan aref s1)
  have "mw_result_of r = HandlerRaised task_unsupported"
    and s': "s' = s1\<lparr>mw_trace := mw_trace s1 @ [HandlerCalled]\<rparr>"
    using executed(6) by (cases aref; auto simp: mw_handler_of_def execute_call_def after_raise_def
        Let_def)+
  then have "r = TaskSubmissionUnsupported"
    using sdk_task_never_raised run by (cases r) auto
  then show ?thesis using executed(2,3,5) s' unfolding env_fields sdk_request_eq[symmetric]
    by (rule that(2))
qed (simp_all add: adm to_neutral_disposition_def NEUTRAL_DISPOSITION_BY_BINDING_def)

text \<open>A task submission leaves a gap. When an admitted delegate returns the task result, the call
  is stopped before it because its required admission receipt failed, or it has run and ends in
  the unsupported-task error with at most the admission receipt written and, when that was
  accepted, nothing recorded as missing, although the neutral planner plans an outcome record for
  exactly this observation.\<close>
theorem sdk_task_submission_gap:
  "case sdk_lifecycle env snap actor (pol\<lparr>bp_disposition := ''admitted''\<rparr>)
          (DelegateReturns SdkTask) s of (r, s') \<Rightarrow>
     (r = AdmissionReceiptUnavailable \<and> mw_trace s' = mw_trace s)
     \<or> (r = TaskSubmissionUnsupported
        \<and> (mw_trace s' = mw_trace s @ [HandlerCalled]
           \<or> (\<exists>a plan. mw_trace s' = mw_trace s @ [ReceiptWritten a, HandlerCalled]
                \<and> mw_telemetry s' = mw_telemetry s
                \<and> plan_lifecycle (sdk_request env pol ''admitted'' None)
                    (Some (simple_observation ''task_submitted'' None)) = Inr (Planned plan)
                \<and> lp_record_count plan = 2)))"
proof -
  let ?pol = "pol\<lparr>bp_disposition := ''admitted''\<rparr>"
  obtain r s' where run: "sdk_lifecycle env snap actor ?pol (DelegateReturns SdkTask) s = (r, s')"
    by fastforce
  have req: "sdk_request env ?pol ''admitted'' None = sdk_request env pol ''admitted'' None"
    by (simp add: sdk_request_def sdk_neutral_admission_request_def)
  have task: "observation_of (HandlerReturns TaskResult) = simple_observation ''task_submitted'' None"
    by (simp add: observation_of_def)
  have ran: "mw_trace s' = mw_trace s @ [HandlerCalled]
      \<or> (\<exists>a pl. mw_trace s' = mw_trace s @ [ReceiptWritten a, HandlerCalled]
            \<and> mw_telemetry s' = mw_telemetry s
            \<and> plan_lifecycle (sdk_request env pol ''admitted'' None)
                (Some (simple_observation ''task_submitted'' None)) = Inr (Planned pl)
            \<and> lp_record_count pl = 2)"
    if plan: "plan_admission (sdk_request env ?pol ''admitted'' None) = Inr plan"
        "ap_execution_proceeds plan"
      and obs: "observe_admission (mw_env_of env) plan ctx snap ?pol s = (Inr aref, s1)"
      and s': "s' = s1\<lparr>mw_trace := mw_trace s1 @ [HandlerCalled]\<rparr>" for plan ctx aref s1
    using obs
  proof (cases rule: observe_admission_cases)
    case (recorded rid)
    then show ?thesis using planned_lifecycle_executed[OF plan, of "HandlerReturns TaskResult"] s'
      unfolding req task by (auto simp: one_receipt_def)
  qed (use s' in simp_all)
  show ?thesis unfolding run prod.case
    by (rule sdk_task_cases[OF run]; use ran in force)
qed

end
