(* ===== verification/GatewayContract.thy ===== *)
theory GatewayContract
  imports SdkBindingMask
begin

text \<open>The neutral gateway contract (\<^verbatim>\<open>src/dagr_mcp_service/contract.py\<close>) and binding selection
  (\<^verbatim>\<open>src/dagr_mcp_service/resolution.py\<close>): the caller's request and its closed deserialiser, the
  service's resolved request, the response with its consistency checks, and the selector lookup.
  A constructor that may raise is a function to a sum.\<close>

section \<open>Binding selection\<close>

definition FASTMCP_BINDING_VERSION :: string where
  "FASTMCP_BINDING_VERSION = ''fastmcp.middleware.v0.1''"
definition SUPPORTED_BINDING_VERSIONS :: "string list" where
  "SUPPORTED_BINDING_VERSIONS = [FASTMCP_BINDING_VERSION, SDK_BINDING_VERSION]"
definition BINDING_LIBRARY_PROBE_MODULES :: "string dict" where
  "BINDING_LIBRARY_PROBE_MODULES =
     [(FASTMCP_BINDING_VERSION, ''fastmcp''), (SDK_BINDING_VERSION, ''mcp'')]"

text \<open>The default availability probe, over the modules that can be located.\<close>

definition binding_library_importable :: "(string \<Rightarrow> bool) \<Rightarrow> string \<Rightarrow> bool" where
  "binding_library_importable located version =
     (case dget BINDING_LIBRARY_PROBE_MODULES version of Some m \<Rightarrow> located m | None \<Rightarrow> False)"

datatype binding_resolution = BindingHandle string | BindingRefused string token

definition select_binding ::
  "string dict \<Rightarrow> string \<Rightarrow> (string \<Rightarrow> bool) \<Rightarrow> binding_resolution" where
  "select_binding registry key available =
     (case dget registry key of
        None \<Rightarrow> BindingRefused key ''unknown_binding''
      | Some v \<Rightarrow>
          if v \<notin> set SUPPORTED_BINDING_VERSIONS then BindingRefused key ''unknown_binding''
          else if \<not> available v then BindingRefused key ''binding_unavailable''
          else BindingHandle v)"

section \<open>Vocabulary and errors\<close>

definition BOUNDARY_TYPE :: token where "BOUNDARY_TYPE = ''mcp_tool_call''"

definition GATEWAY_DIAGNOSTIC_CODES :: "token list" where
  "GATEWAY_DIAGNOSTIC_CODES =
     [''unknown_binding'', ''binding_unavailable'', ''malformed_request'', ''remote_unavailable'',
      ''tool_error'', ''remote_exception'', ''deferred_for_review'', ''cancelled'',
      ''unsupported_lifecycle_state'']"
definition ALL_DIAGNOSTIC_CODES :: "token list" where
  "ALL_DIAGNOSTIC_CODES = GATEWAY_DIAGNOSTIC_CODES @ NEUTRAL_REFUSAL_GROUNDS"

definition CALLER_REQUIRED_KEYS :: "string list" where
  "CALLER_REQUIRED_KEYS =
     [''request_ref'', ''binding_selector'', ''target_server_ref'', ''tool_name'',
      ''argument_digest'', ''policy_profile_ref'']"
definition CALLER_OPTIONAL_KEYS :: "string list" where
  "CALLER_OPTIONAL_KEYS = [''boundary_type'', ''parent_receipt_ref'', ''session_ref'', ''meta_digest'']"
definition CALLER_ALLOWED_KEYS :: "string list" where
  "CALLER_ALLOWED_KEYS = CALLER_REQUIRED_KEYS @ CALLER_OPTIONAL_KEYS"
definition PROHIBITED_CALLER_AUTHORITY_KEYS :: "string list" where
  "PROHIBITED_CALLER_AUTHORITY_KEYS =
     [''actor_ref'', ''tenant_ref'', ''role'', ''policy_decision'', ''policy_outcome'',
      ''disposition'', ''credential'', ''credentials'', ''signing_identity'', ''signer'',
      ''binding_version'', ''receipt_id'', ''custody_status'', ''custody_disposition'']"

datatype contract_error =
    EmptyField string
  | NotADigest
  | BoundaryTypeNotPinned
  | PayloadNotMapping
  | AssertsAuthority "string list"
  | UnrecognizedFields "string list"
  | MissingFields "string list"
  | FieldNotAString string
  | UnknownDispositionToken token
  | UnknownOutcomeToken token
  | OutcomeWithoutAdmission
  | BadReceiptKind token
  | BadResultKind token
  | UnknownDiagnostic token
  | DecisionMissing
  | UnsupportedCarries string
  | TooManyReceipts nat
  | MisplacedBusinessResult
  | MisplacedCancellationFacts
  | MisplacedRetry

definition non_empty_str :: "string \<Rightarrow> pyv \<Rightarrow> (contract_error, string) result" where
  "non_empty_str field v =
     (case v of VStr s \<Rightarrow> if blank s then Inl (EmptyField field) else Inr s
      | _ \<Rightarrow> Inl (EmptyField field))"

definition optional_text :: "string \<Rightarrow> pyv \<Rightarrow> (contract_error, string option) result" where
  "optional_text field v =
     (if v = VNone then Inr None else rbind (non_empty_str field v) (\<lambda>s. Inr (Some s)))"

section \<open>Requests\<close>

record caller_request =
  cq_request_ref :: string
  cq_binding_selector :: string
  cq_target_handle :: string
  cq_tool_name :: string
  cq_argument_digest :: string
  cq_policy_profile_ref :: string
  cq_boundary_type :: string
  cq_parent_receipt_ref :: "string option"
  cq_session_ref :: "string option"
  cq_meta_digest :: "string option"

definition digest_field :: "pyv \<Rightarrow> (contract_error, string) result" where
  "digest_field v =
     rbind (non_empty_str ''argument_digest'' v)
       (\<lambda>d. if prefix DIGEST_PREFIX d then Inr d else Inl NotADigest)"

definition boundary_field :: "pyv \<Rightarrow> (contract_error, string) result" where
  "boundary_field v =
     (if v = VStr BOUNDARY_TYPE then Inr BOUNDARY_TYPE else Inl BoundaryTypeNotPinned)"

text \<open>The checks of the caller request on the values it is given, in the order of the code.\<close>

definition make_caller_request ::
  "string \<Rightarrow> string \<Rightarrow> pyv \<Rightarrow> pyv \<Rightarrow> pyv \<Rightarrow> pyv \<Rightarrow> pyv \<Rightarrow> pyv \<Rightarrow> pyv \<Rightarrow> pyv
    \<Rightarrow> (contract_error, caller_request) result" where
  "make_caller_request selector target ref tool digest profile boundary parent session meta =
     rbind (non_empty_str ''request_ref'' ref) (\<lambda>ref'.
     rbind (non_empty_str ''tool_name'' tool) (\<lambda>tool'.
     rbind (non_empty_str ''policy_profile_ref'' profile) (\<lambda>profile'.
     rbind (optional_text ''parent_receipt_ref'' parent) (\<lambda>parent'.
     rbind (optional_text ''session_ref'' session) (\<lambda>session'.
     rbind (optional_text ''meta_digest'' meta) (\<lambda>meta'.
     rbind (digest_field digest) (\<lambda>digest'.
     rbind (boundary_field boundary) (\<lambda>boundary'.
       Inr \<lparr>cq_request_ref = ref', cq_binding_selector = selector, cq_target_handle = target,
            cq_tool_name = tool', cq_argument_digest = digest',
            cq_policy_profile_ref = profile', cq_boundary_type = boundary',
            cq_parent_receipt_ref = parent', cq_session_ref = session',
            cq_meta_digest = meta'\<rparr>))))))))"

definition selector_key :: "string \<Rightarrow> string \<Rightarrow> (contract_error, string) result" where
  "selector_key field s = (if blank s then Inl (EmptyField field) else Inr s)"

definition payload_get :: "pydict \<Rightarrow> string \<Rightarrow> pyv \<Rightarrow> pyv" where
  "payload_get p k d = (case dget p k of Some v \<Rightarrow> v | None \<Rightarrow> d)"

definition from_untrusted_mapping :: "pyv \<Rightarrow> (contract_error, caller_request) result" where
  "from_untrusted_mapping payload =
    (case payload of
       VMap p \<Rightarrow>
        (let unknown = filter (\<lambda>k. k \<notin> set CALLER_ALLOWED_KEYS) (dkeys p);
             smuggled = filter (\<lambda>k. k \<in> set PROHIBITED_CALLER_AUTHORITY_KEYS) unknown;
             missing = filter (\<lambda>k. k \<notin> set (dkeys p)) CALLER_REQUIRED_KEYS;
             get = payload_get p in
         if smuggled \<noteq> [] then Inl (AssertsAuthority smuggled)
         else if unknown \<noteq> [] then Inl (UnrecognizedFields unknown)
         else if missing \<noteq> [] then Inl (MissingFields missing)
         else (case get ''binding_selector'' VNone of
             VStr sel \<Rightarrow>
              (case get ''target_server_ref'' VNone of
                 VStr target \<Rightarrow>
                   rbind (selector_key ''key'' sel) (\<lambda>sel'.
                   rbind (selector_key ''handle'' target) (\<lambda>target'.
                     make_caller_request sel' target' (get ''request_ref'' VNone)
                       (get ''tool_name'' VNone) (get ''argument_digest'' VNone)
                       (get ''policy_profile_ref'' VNone)
                       (get ''boundary_type'' (VStr BOUNDARY_TYPE))
                       (get ''parent_receipt_ref'' VNone) (get ''session_ref'' VNone)
                       (get ''meta_digest'' VNone)))
               | _ \<Rightarrow> Inl (FieldNotAString ''target_server_ref''))
           | _ \<Rightarrow> Inl (FieldNotAString ''binding_selector'')))
     | _ \<Rightarrow> Inl PayloadNotMapping)"

text \<open>The service's request: the caller's facts and the separately resolved actor and tenant.\<close>

record governed_call_request =
  gq_caller :: caller_request
  gq_actor_ref :: string
  gq_tenant_ref :: "string option"

definition trusted_ref :: "string \<Rightarrow> string \<Rightarrow> (contract_error, string) result" where
  "trusted_ref field s = non_empty_str field (VStr s)"

definition from_caller_request ::
  "caller_request \<Rightarrow> string \<Rightarrow> string option \<Rightarrow> (contract_error, governed_call_request) result" where
  "from_caller_request cq actor tenant =
     rbind (trusted_ref ''TrustedActorRef.ref'' actor) (\<lambda>actor'.
     rbind (case tenant of None \<Rightarrow> Inr None
              | Some t \<Rightarrow> rbind (trusted_ref ''TrustedTenantRef.ref'' t) (\<lambda>t'. Inr (Some t'))) (\<lambda>tenant'.
     rbind (make_caller_request (cq_binding_selector cq) (cq_target_handle cq)
              (VStr (cq_request_ref cq)) (VStr (cq_tool_name cq)) (VStr (cq_argument_digest cq))
              (VStr (cq_policy_profile_ref cq)) (VStr (cq_boundary_type cq))
              (vopt (cq_parent_receipt_ref cq)) (vopt (cq_session_ref cq))
              (vopt (cq_meta_digest cq))) (\<lambda>cq'.
       Inr \<lparr>gq_caller = cq', gq_actor_ref = actor', gq_tenant_ref = tenant'\<rparr>)))"

section \<open>Responses\<close>

record governed_decision =
  gd_disposition :: token
  gd_outcome :: "token option"

definition make_governed_decision :: "token \<Rightarrow> token option \<Rightarrow> (contract_error, governed_decision) result" where
  "make_governed_decision disp outcome =
    (if disp \<notin> set NEUTRAL_DISPOSITIONS then Inl (UnknownDispositionToken disp)
     else case outcome of
         None \<Rightarrow> Inr \<lparr>gd_disposition = disp, gd_outcome = None\<rparr>
       | Some out \<Rightarrow>
           if out \<notin> set NEUTRAL_OUTCOMES then Inl (UnknownOutcomeToken out)
           else if disp \<noteq> ''admitted'' then Inl OutcomeWithoutAdmission
           else Inr \<lparr>gd_disposition = disp, gd_outcome = Some out\<rparr>)"

record receipt_handle =
  rh_receipt_id :: string
  rh_receipt_kind :: token

definition make_receipt_handle :: "pyv \<Rightarrow> token \<Rightarrow> (contract_error, receipt_handle) result" where
  "make_receipt_handle rid kind =
     rbind (non_empty_str ''receipt_id'' rid) (\<lambda>rid'.
       if kind = ''admission'' \<or> kind = ''outcome''
       then Inr \<lparr>rh_receipt_id = rid', rh_receipt_kind = kind\<rparr> else Inl (BadReceiptKind kind))"

record 'p business_result =
  bu_kind :: token
  bu_payload :: 'p

definition make_business_result :: "token \<Rightarrow> 'p \<Rightarrow> (contract_error, 'p business_result) result" where
  "make_business_result kind payload =
     (if kind = ''result'' \<or> kind = ''error''
      then Inr \<lparr>bu_kind = kind, bu_payload = payload\<rparr> else Inl (BadResultKind kind))"

record cancellation_facts =
  cx_request_cancelled :: bool
  cx_execution_state_unknown :: bool
  cx_delivery_incomplete :: bool

record 'p governed_response =
  gr_request_ref :: string
  gr_logical_call_id :: string
  gr_decision :: "governed_decision option"
  gr_business_result :: "'p business_result option"
  gr_receipts :: "receipt_handle list"
  gr_review_object_ref :: "string option"
  gr_custody_ref :: "string option"
  gr_parent_ref :: "string option"
  gr_retry_instruction :: "string option"
  gr_diagnostic_code :: "string option"
  gr_cancellation_facts :: "cancellation_facts option"

definition unsupported_response_checks ::
  "'p governed_response \<Rightarrow> (contract_error, unit) result" where
  "unsupported_response_checks r =
     checks
      [require (gr_diagnostic_code r = Some ''unsupported_lifecycle_state'') DecisionMissing,
       require (gr_business_result r = None) (UnsupportedCarries ''business_result''),
       require (gr_cancellation_facts r = None) (UnsupportedCarries ''cancellation_facts''),
       require (gr_receipts r = []) (UnsupportedCarries ''receipts'')]"

definition decided_response_checks ::
  "governed_decision \<Rightarrow> 'p governed_response \<Rightarrow> (contract_error, unit) result" where
  "decided_response_checks d r =
    (case dget RECEIPT_CARDINALITY (gd_disposition d) of
       None \<Rightarrow> Inl (UnknownDispositionToken (gd_disposition d))
     | Some n \<Rightarrow>
        checks
         [require (length (gr_receipts r) \<le> n) (TooManyReceipts (length (gr_receipts r))),
          require (gr_business_result r = None
                   \<or> gd_disposition d = ''admitted''
                     \<and> gd_outcome d \<in> {Some ''result'', Some ''error''}) MisplacedBusinessResult,
          require (gr_cancellation_facts r = None \<or> gd_outcome d = Some ''cancellation'')
            MisplacedCancellationFacts,
          require (gr_retry_instruction r \<noteq> Some DEFERRAL_CONTINUATION_CONTRACT
                   \<or> gd_disposition d = ''deferred'') MisplacedRetry])"

definition make_response ::
  "'p governed_response \<Rightarrow> (contract_error, 'p governed_response) result" where
  "make_response r =
     rbind (non_empty_str ''request_ref'' (VStr (gr_request_ref r))) (\<lambda>_.
     rbind (non_empty_str ''logical_call_id'' (VStr (gr_logical_call_id r))) (\<lambda>_.
     rbind (optional_text ''review_object_ref'' (vopt (gr_review_object_ref r))) (\<lambda>_.
     rbind (optional_text ''custody_ref'' (vopt (gr_custody_ref r))) (\<lambda>_.
     rbind (optional_text ''parent_receipt_ref'' (vopt (gr_parent_ref r))) (\<lambda>_.
     rbind (optional_text ''retry_instruction'' (vopt (gr_retry_instruction r))) (\<lambda>_.
     rbind (case gr_diagnostic_code r of
              None \<Rightarrow> Inr ()
            | Some c \<Rightarrow> rbind (non_empty_str ''diagnostic_code'' (VStr c))
                (\<lambda>c'. require (c' \<in> set ALL_DIAGNOSTIC_CODES) (UnknownDiagnostic c'))) (\<lambda>_.
     rbind (case gr_decision r of
              None \<Rightarrow> unsupported_response_checks r
            | Some d \<Rightarrow> decided_response_checks d r) (\<lambda>_. Inr r))))))))"

end
