(* ===== verification/GatewayAdapter.thy ===== *)
theory GatewayAdapter
  imports GatewayContract SdkBindingFacts
begin

text \<open>The in-process gateway operation (\<^verbatim>\<open>src/dagr_mcp_service/adapter.py\<close>) over the models of the two
  bindings, and the in-memory connector (\<^verbatim>\<open>src/dagr_mcp_service/connectors/memory.py\<close>). The decoder
  of canonical JSON text, the connector, the resolved target, the availability probe and the inputs
  of the bindings are arguments. The capturing sink is read off the sink: what it captured are the
  envelopes written during the call, and a failed write is counted by the sink.\<close>

section \<open>The in-memory connector\<close>

type_synonym 'h target_registry = "'h dict dict"

definition memory_resolve :: "'h target_registry \<Rightarrow> string \<Rightarrow> string \<Rightarrow> token + 'h" where
  "memory_resolve targets handle tool =
     (case dget targets handle of
        None \<Rightarrow> Inl ''remote_unavailable''
      | Some tools \<Rightarrow> (case dget tools tool of
            None \<Rightarrow> Inl ''unknown_tool_fail_closed'' | Some h \<Rightarrow> Inr h))"

section \<open>Configuration\<close>

type_synonym tool_target = "pydict \<Rightarrow> sdk_handler"

record trusted_context =
  tx_target_handle :: string
  tx_tool_name :: string
  tx_actor_ref :: string
  tx_tenant_ref :: "string option"
  tx_parent_receipt_ref :: "string option"
  tx_request_ref :: string

record gateway_config =
  gc_binding_registry :: "string dict"
  gc_resolve :: "string \<Rightarrow> string \<Rightarrow> token + tool_target"
  gc_bind_trusted :: "(tool_target \<Rightarrow> trusted_context \<Rightarrow> tool_target) option"
  gc_identity :: signing_identity
  gc_runtime_instance_id :: string
  gc_boundary_id :: string
  gc_policy_pack_id :: string
  gc_policy_pack_version :: string
  gc_tool_classes :: "token dict"
  gc_policy_resolver ::
    "(request_snapshot \<Rightarrow> actor_resolution \<Rightarrow> binding_policy call_outcome) option"
  gc_review_creator :: "review_creator option"
  gc_pre_failure :: "token dict"
  gc_post_failure :: token
  gc_emit_read_admission :: bool
  gc_spool :: bool
  gc_parent_receipt_ref :: "string option"
  gc_attestation_limits :: "string list"
  gc_available :: "string \<Rightarrow> bool"

record gateway_env =
  ge_config :: gateway_config
  ge_decode :: "string \<Rightarrow> pydict"
  ge_stamps :: "nat \<Rightarrow> stamp"
  ge_clock :: "nat \<Rightarrow> string"
  ge_minted_id :: string
  ge_token :: "pyexc + access_token option"
  ge_dump :: "pyv \<Rightarrow> pyv"
  ge_canon_exc :: string

abbreviation ge_crypto :: "gateway_env \<Rightarrow> crypto" where
  "ge_crypto env \<equiv> si_crypto (gc_identity (ge_config env))"

definition request_actor :: "governed_call_request \<Rightarrow> actor_resolution" where
  "request_actor rq =
     \<lparr>ac_actor_ref = gq_actor_ref rq, ac_tenant_id = gq_tenant_ref rq, ac_workspace_id = None\<rparr>"

definition request_parent :: "governed_call_request \<Rightarrow> gateway_config \<Rightarrow> string option" where
  "request_parent rq cf =
     (if cq_parent_receipt_ref (gq_caller rq) \<noteq> None then cq_parent_receipt_ref (gq_caller rq)
      else gc_parent_receipt_ref cf)"

text \<open>The configuration each binding gets; the fields the adapter leaves out have their defaults.\<close>

definition fastmcp_config :: "governed_call_request \<Rightarrow> gateway_config \<Rightarrow> mw_config" where
  "fastmcp_config rq cf =
     \<lparr>cf_runtime_instance_id = gc_runtime_instance_id cf, cf_boundary_id = gc_boundary_id cf,
      cf_policy_pack_id = gc_policy_pack_id cf,
      cf_policy_pack_version = gc_policy_pack_version cf,
      cf_tool_classes = gc_tool_classes cf,
      cf_actor_resolver = Some (\<lambda>_. Returns (request_actor rq)),
      cf_policy_resolver = gc_policy_resolver cf, cf_operator_resolver = None,
      cf_operator_timeout = None, cf_required_tools = [], cf_required_tool_classes = [],
      cf_review_creator = gc_review_creator cf, cf_pre_failure = gc_pre_failure cf,
      cf_post_failure = gc_post_failure cf, cf_emit_read_admission = gc_emit_read_admission cf,
      cf_spool = gc_spool cf, cf_parent_receipt_ref = request_parent rq cf,
      cf_logical_call_id_override = Some (cq_request_ref (gq_caller rq)),
      cf_subject_ref_override = cq_session_ref (gq_caller rq), cf_observer = None,
      cf_attestation_limits = gc_attestation_limits cf\<rparr>"

definition fastmcp_env :: "gateway_env \<Rightarrow> governed_call_request \<Rightarrow> mw_env" where
  "fastmcp_env env rq =
     \<lparr>en_identity = gc_identity (ge_config env), en_config = fastmcp_config rq (ge_config env),
      en_stamps = ge_stamps env, en_clock = ge_clock env, en_minted_id = ge_minted_id env,
      en_token = ge_token env, en_dump = ge_dump env, en_canon_exc = ge_canon_exc env\<rparr>"

definition official_config :: "governed_call_request \<Rightarrow> gateway_config \<Rightarrow> sdk_config" where
  "official_config rq cf =
     \<lparr>sf_runtime_instance_id = gc_runtime_instance_id cf, sf_boundary_id = gc_boundary_id cf,
      sf_policy_pack_id = gc_policy_pack_id cf,
      sf_policy_pack_version = gc_policy_pack_version cf,
      sf_tool_classes = gc_tool_classes cf,
      sf_actor_resolver = Some (\<lambda>_ _. Returns (request_actor rq)),
      sf_policy_resolver = gc_policy_resolver cf, sf_review_creator = gc_review_creator cf,
      sf_pre_failure = gc_pre_failure cf, sf_emit_read_admission = gc_emit_read_admission cf,
      sf_spool = gc_spool cf, sf_parent_receipt_ref = request_parent rq cf,
      sf_logical_call_id_override = Some (cq_request_ref (gq_caller rq)),
      sf_subject_ref_override = cq_session_ref (gq_caller rq), sf_observer = None,
      sf_attestation_limits = gc_attestation_limits cf\<rparr>"

definition official_env :: "gateway_env \<Rightarrow> governed_call_request \<Rightarrow> sdk_env" where
  "official_env env rq =
     \<lparr>se_identity = gc_identity (ge_config env), se_config = official_config rq (ge_config env),
      se_stamps = ge_stamps env, se_clock = ge_clock env, se_minted_id = ge_minted_id env,
      se_token = ge_token env, se_dump = ge_dump env, se_canon_exc = ge_canon_exc env\<rparr>"

section \<open>Captured receipts\<close>

record captured_receipt =
  ca_receipt_id :: string
  ca_receipt_kind :: string
  ca_disposition :: "string option"
  ca_outcome :: "string option"
  ca_reason_code :: "string option"
  ca_review_object_ref :: "string option"

definition envelope_text :: "pydict \<Rightarrow> string \<Rightarrow> string option" where
  "envelope_text env k = (case dget env k of Some (VStr s) \<Rightarrow> Some s | _ \<Rightarrow> None)"

definition capture :: "pydict \<Rightarrow> captured_receipt" where
  "capture env =
     \<lparr>ca_receipt_id = (case envelope_text env ''receipt_id'' of Some s \<Rightarrow> s | None \<Rightarrow> []),
      ca_receipt_kind = (case envelope_text env ''receipt_kind'' of Some s \<Rightarrow> s | None \<Rightarrow> []),
      ca_disposition = envelope_text env ''disposition'',
      ca_outcome = envelope_text env ''outcome'',
      ca_reason_code = envelope_text env ''reason_code'',
      ca_review_object_ref = envelope_text env ''review_object_ref''\<rparr>"

definition captured_in :: "mw_state \<Rightarrow> mw_state \<Rightarrow> captured_receipt list" where
  "captured_in s s' = map capture (drop (length (written s)) (written s'))"

definition write_failed_in :: "mw_state \<Rightarrow> mw_state \<Rightarrow> bool" where
  "write_failed_in s s' = (sk_failed (mw_sink s') \<noteq> sk_failed (mw_sink s))"

section \<open>Classification\<close>

datatype gateway_end =
    Responded "sdk_value governed_response"
  | ResponseRejected contract_error
  | GatewayRaised pyexc

definition response_for ::
  "governed_call_request \<Rightarrow> (contract_error, governed_decision) result \<Rightarrow> receipt_handle list
    \<Rightarrow> string option \<Rightarrow> (contract_error, sdk_value governed_response) result" where
  "response_for rq decision receipts diagnostic =
     rbind decision (\<lambda>d.
       Inr \<lparr>gr_request_ref = cq_request_ref (gq_caller rq),
            gr_logical_call_id = cq_request_ref (gq_caller rq), gr_decision = Some d,
            gr_business_result = None, gr_receipts = receipts, gr_review_object_ref = None,
            gr_custody_ref = None, gr_parent_ref = None, gr_retry_instruction = None,
            gr_diagnostic_code = diagnostic, gr_cancellation_facts = None\<rparr>)"

definition respond :: "(contract_error, sdk_value governed_response) result \<Rightarrow> gateway_end" where
  "respond built = (case rbind built make_response of Inl e \<Rightarrow> ResponseRejected e | Inr r \<Rightarrow> Responded r)"

definition refusal_diagnostic :: "string option \<Rightarrow> string" where
  "refusal_diagnostic reason =
     (case reason of Some c \<Rightarrow> if c \<in> set NEUTRAL_REFUSAL_GROUNDS then c else ''policy_refused''
      | None \<Rightarrow> ''policy_refused'')"

definition CONNECTION_ERROR_CLASSES :: "string list" where
  "CONNECTION_ERROR_CLASSES =
     [''ConnectionError'', ''BrokenPipeError'', ''ConnectionAbortedError'',
      ''ConnectionRefusedError'', ''ConnectionResetError'']"

definition is_connection_error :: "pyexc \<Rightarrow> bool" where
  "is_connection_error e = (case e of PyException c \<Rightarrow> c \<in> set CONNECTION_ERROR_CLASSES | _ \<Rightarrow> False)"

text \<open>The error flag of a raw result, which only an object has.\<close>

definition raw_error_flag :: "sdk_value \<Rightarrow> bool" where
  "raw_error_flag v =
     (case v of SdkObject attrs \<Rightarrow> truthy (attr_or attrs ''is_error'' ''isError'' (VBool False))
      | _ \<Rightarrow> False)"

definition classify_returned ::
  "governed_call_request \<Rightarrow> captured_receipt list \<Rightarrow> receipt_handle list \<Rightarrow> sdk_value
    \<Rightarrow> gateway_end" where
  "classify_returned rq captured receipts v =
    (let outcome = (case captured of
            _ # b # _ \<Rightarrow> if ca_receipt_kind b = ''outcome'' then Some (ca_outcome b) else None
          | _ \<Rightarrow> None) in
     if outcome = Some (Some ''task_submitted'')
     then respond (response_for rq (make_governed_decision ''admitted'' (Some ''task_submitted'')) receipts None)
     else
       (let is_error = (case outcome of Some out \<Rightarrow> out = Some ''error_returned''
                        | None \<Rightarrow> raw_error_flag v);
            kind = (if is_error then ''error'' else ''result'') in
        respond (rbind (make_business_result kind v) (\<lambda>b.
          rbind (response_for rq (make_governed_decision ''admitted'' (Some kind)) receipts None) (\<lambda>r.
            Inr (r\<lparr>gr_business_result := Some b\<rparr>))))))"

definition classify_raised ::
  "governed_call_request \<Rightarrow> captured_receipt list \<Rightarrow> receipt_handle list \<Rightarrow> pyexc \<Rightarrow> gateway_end" where
  "classify_raised rq captured receipts e =
    (if e = PyCancelled then
       respond (rbind (response_for rq (make_governed_decision ''admitted'' (Some ''cancellation'')) receipts
                         (Some ''cancelled'')) (\<lambda>r.
         Inr (r\<lparr>gr_cancellation_facts := Some \<lparr>cx_request_cancelled = True,
                  cx_execution_state_unknown = True, cx_delivery_incomplete = True\<rparr>\<rparr>)))
     else case captured of
       [] \<Rightarrow> respond (response_for rq (make_governed_decision ''refused'' None) []
               (Some ''required_sink_unavailable''))
     | a # _ \<Rightarrow>
        if ca_disposition a = Some ''refused''
        then respond (response_for rq (make_governed_decision ''refused'' None) receipts
               (Some (refusal_diagnostic (ca_reason_code a))))
        else if ca_disposition a = Some ''deferred_for_review''
        then respond (rbind (response_for rq (make_governed_decision ''deferred'' None) receipts
                               (Some ''deferred_for_review'')) (\<lambda>r.
               Inr (r\<lparr>gr_review_object_ref := ca_review_object_ref a,
                      gr_retry_instruction := Some DEFERRAL_CONTINUATION_CONTRACT\<rparr>)))
        else if ca_disposition a = Some ''admitted''
        then respond (response_for rq (make_governed_decision ''admitted'' (Some ''exception'')) receipts
               (Some (if is_connection_error e then ''remote_unavailable'' else ''remote_exception'')))
        else GatewayRaised (PyException ''RuntimeError''))"

definition classify_call ::
  "governed_call_request \<Rightarrow> captured_receipt list \<Rightarrow> pyexc + sdk_value \<Rightarrow> gateway_end" where
  "classify_call rq captured ending =
    (case rmap (\<lambda>c. make_receipt_handle (VStr (ca_receipt_id c)) (ca_receipt_kind c)) captured of
       Inl err \<Rightarrow> ResponseRejected err
     | Inr receipts \<Rightarrow>
        (case ending of
           Inr v \<Rightarrow> classify_returned rq captured receipts v
         | Inl e \<Rightarrow> classify_raised rq captured receipts e))"

section \<open>Driving a binding\<close>

text \<open>How a binding call ends: the value the target returned, the explicit task error, or an
  exception; of the binding's own errors only the class counts.\<close>

datatype binding_end = EndReturned sdk_value | EndTaskUnsupported | EndRaised pyexc

definition core_error_class :: "core_error \<Rightarrow> string" where
  "core_error_class e =
     (case e of UnsupportedLifecycleEvent _ _ _ \<Rightarrow> ''UnsupportedLifecycleEvent'' | _ \<Rightarrow> ''ValueError'')"

definition receipt_error_class :: "receipt_error \<Rightarrow> string" where
  "receipt_error_class e =
     (case e of ReceiptWriteError \<Rightarrow> ''ReceiptWriteError'' | OsError \<Rightarrow> ''OSError''
      | KeyMissing _ \<Rightarrow> ''KeyError'' | ArgumentTypeError \<Rightarrow> ''TypeError''
      | _ \<Rightarrow> ''ReceiptContentError'')"

definition fastmcp_end :: "sdk_handler \<Rightarrow> mw_result \<Rightarrow> binding_end" where
  "fastmcp_end answer r =
    (case r of
       Returned _ \<Rightarrow> (case answer of DelegateReturns v \<Rightarrow> EndReturned v | DelegateRaises e \<Rightarrow> EndRaised e)
     | HandlerRaised e \<Rightarrow> EndRaised e
     | ResolverRaised e \<Rightarrow> EndRaised e
     | ReceiptErrorRaised e \<Rightarrow> EndRaised (PyException (receipt_error_class e))
     | CoreErrorRaised e \<Rightarrow> EndRaised (PyException (core_error_class e))
     | UnknownDispositionKey _ \<Rightarrow> EndRaised (PyException ''KeyError'')
     | AssertionRaised \<Rightarrow> EndRaised (PyException ''AssertionError'')
     | _ \<Rightarrow> EndRaised (PyException ''ToolError''))"

definition official_end :: "sdk_result \<Rightarrow> binding_end" where
  "official_end r =
    (case r of
       SdkReturned v \<Rightarrow> EndReturned v
     | TaskSubmissionUnsupported \<Rightarrow> EndTaskUnsupported
     | ToolRefused \<Rightarrow> EndRaised (PyException ''ToolRefused'')
     | ToolDeferred _ \<Rightarrow> EndRaised (PyException ''ToolDeferred'')
     | ReviewReceiptUnavailable \<Rightarrow> EndRaised (PyException ''AdmissionReceiptUnavailable'')
     | AdmissionReceiptUnavailable \<Rightarrow> EndRaised (PyException ''AdmissionReceiptUnavailable'')
     | DelegateRaised e \<Rightarrow> EndRaised e
     | SdkResolverRaised e \<Rightarrow> EndRaised e
     | SdkReceiptError e \<Rightarrow> EndRaised (PyException (receipt_error_class e))
     | SdkCoreError e \<Rightarrow> EndRaised (PyException (core_error_class e))
     | SdkUnknownKey _ \<Rightarrow> EndRaised (PyException ''KeyError'')
     | SdkAssertion \<Rightarrow> EndRaised (PyException ''AssertionError'')
     | _ \<Rightarrow> EndRaised (PyException ''SDKBindingError''))"

definition finish_call ::
  "governed_call_request \<Rightarrow> mw_state \<Rightarrow> binding_end \<times> mw_state \<Rightarrow> gateway_end \<times> mw_state" where
  "finish_call rq s run =
    (let captured = captured_in s (snd run) in
     (case fst run of
        EndReturned v \<Rightarrow> classify_call rq captured (Inr v)
      | EndTaskUnsupported \<Rightarrow>
          (case rmap (\<lambda>c. make_receipt_handle (VStr (ca_receipt_id c)) (ca_receipt_kind c)) captured of
             Inl err \<Rightarrow> ResponseRejected err
           | Inr receipts \<Rightarrow> respond (response_for rq (make_governed_decision ''admitted'' None) receipts
                (Some ''unsupported_lifecycle_state'')))
      | EndRaised e \<Rightarrow>
          if e = PyCancelled then classify_call rq captured (Inl e)
          else if \<not> is_exception e then GatewayRaised e
          else if captured = [] \<and> \<not> write_failed_in s (snd run) then GatewayRaised e
          else classify_call rq captured (Inl e),
      snd run))"

text \<open>What the FastMCP binding reads of a returned value.\<close>

definition fastmcp_value :: "sdk_value \<Rightarrow> tool_value" where
  "fastmcp_value v =
    (case v of
       SdkTask \<Rightarrow> TaskResult
     | SdkObject attrs \<Rightarrow>
         ToolValue (case dget attrs ''content'' of Some c \<Rightarrow> c | None \<Rightarrow> VList [])
           (attr_or attrs ''structured_content'' ''structuredContent'' VNone)
           (attr_or attrs ''meta'' ''_meta'' VNone)
           (attr_or attrs ''is_error'' ''isError'' (VBool False))
     | _ \<Rightarrow> ToolValue (VList []) VNone VNone (VBool False))"

definition fastmcp_handler :: "sdk_handler \<Rightarrow> handler_outcome" where
  "fastmcp_handler h =
     (case h of DelegateReturns v \<Rightarrow> HandlerReturns (fastmcp_value v)
      | DelegateRaises e \<Rightarrow> HandlerRaises e)"

text \<open>A call makes its own adapter, whose telemetry starts empty.\<close>

definition fresh_adapter :: "mw_state \<Rightarrow> mw_state" where
  "fresh_adapter s = s\<lparr>mw_telemetry := []\<rparr>"

definition execute_via_fastmcp ::
  "gateway_env \<Rightarrow> governed_call_request \<Rightarrow> pydict \<Rightarrow> tool_target \<Rightarrow> mw_state
    \<Rightarrow> gateway_end \<times> mw_state" where
  "execute_via_fastmcp env rq args target s =
    (let answer = target args;
         msg = \<lparr>cm_name = cq_tool_name (gq_caller rq), cm_arguments = VMap args, cm_meta = VNone,
                cm_request_id = None, cm_session_id = None\<rparr>;
         run = on_call_tool (fastmcp_env env rq) msg (fastmcp_handler answer) (fresh_adapter s)
     in finish_call rq s (fastmcp_end answer (fst run), snd run))"

definition execute_via_sdk ::
  "gateway_env \<Rightarrow> governed_call_request \<Rightarrow> pydict \<Rightarrow> tool_target \<Rightarrow> mw_state
    \<Rightarrow> gateway_end \<times> mw_state" where
  "execute_via_sdk env rq args target s =
    (let run = sdk_governed_call (official_env env rq) (cq_tool_name (gq_caller rq)) (Some args)
                 target None (fresh_adapter s)
     in finish_call rq s (official_end (fst run), snd run))"

section \<open>The operation\<close>

definition gateway_refusal :: "governed_call_request \<Rightarrow> token \<Rightarrow> gateway_end" where
  "gateway_refusal rq code = respond (response_for rq (make_governed_decision ''refused'' None) [] (Some code))"

definition bound_target :: "gateway_config \<Rightarrow> governed_call_request \<Rightarrow> tool_target \<Rightarrow> tool_target" where
  "bound_target cf rq target =
    (case gc_bind_trusted cf of
       None \<Rightarrow> target
     | Some f \<Rightarrow> f target
         \<lparr>tx_target_handle = cq_target_handle (gq_caller rq),
          tx_tool_name = cq_tool_name (gq_caller rq), tx_actor_ref = gq_actor_ref rq,
          tx_tenant_ref = gq_tenant_ref rq,
          tx_parent_receipt_ref = cq_parent_receipt_ref (gq_caller rq),
          tx_request_ref = cq_request_ref (gq_caller rq)\<rparr>)"

definition freeze_arguments :: "gateway_env \<Rightarrow> pydict \<Rightarrow> (receipt_error, pydict) result" where
  "freeze_arguments env arguments =
     (case cr_canon (ge_crypto env) (VMap arguments) of
        None \<Rightarrow> Inl NotCanonicalizable | Some text \<Rightarrow> Inr (ge_decode env text))"

definition execute_governed_call ::
  "gateway_env \<Rightarrow> governed_call_request \<Rightarrow> pydict \<Rightarrow> mw_state \<Rightarrow> gateway_end \<times> mw_state" where
  "execute_governed_call env rq arguments s =
    (let cf = ge_config env; cq = gq_caller rq in
     case rbind (freeze_arguments env arguments)
            (\<lambda>args. rbind (sha256_digest (ge_crypto env) (VMap args)) (\<lambda>d. Inr (args, d))) of
       Inl e \<Rightarrow> (GatewayRaised (PyException (receipt_error_class e)), s)
     | Inr (args, digest) \<Rightarrow>
        if digest \<noteq> cq_argument_digest cq then (gateway_refusal rq ''malformed_request'', s)
        else (case select_binding (gc_binding_registry cf) (cq_binding_selector cq) (gc_available cf) of
            BindingRefused _ reason \<Rightarrow> (gateway_refusal rq reason, s)
          | BindingHandle version \<Rightarrow>
             (case gc_resolve cf (cq_target_handle cq) (cq_tool_name cq) of
                Inl reason \<Rightarrow>
                  if reason \<in> set ALL_DIAGNOSTIC_CODES then (gateway_refusal rq reason, s)
                  else (GatewayRaised (PyException ''AssertionError''), s)
              | Inr resolved \<Rightarrow>
                 (let target = bound_target cf rq resolved in
                  if version = FASTMCP_BINDING_VERSION then execute_via_fastmcp env rq args target s
                  else if version = SDK_BINDING_VERSION then execute_via_sdk env rq args target s
                  else (GatewayRaised (PyException ''RuntimeError''), s)))))"

end
