(* ===== verification/GatewayFacts.thy ===== *)
theory GatewayFacts
  imports GatewayAdapter
begin

text \<open>What a gateway call does and says: the caller's boundary, the checks before a binding is driven,
  and a response that matches the receipts and the execution it stands for.\<close>

section \<open>The caller's boundary\<close>

lemma non_empty_str_iff [result_simps]:
  "(non_empty_str f v = Inr s) = (v = VStr s \<and> \<not> blank s)"
  "(non_empty_str f (VStr t) = Inl e) = (blank t \<and> e = EmptyField f)"
  by (cases v) (auto simp: non_empty_str_def)

lemma optional_text_iff [result_simps]:
  "(optional_text f v = Inr x) = (v = vopt x \<and> (case x of None \<Rightarrow> True | Some s \<Rightarrow> \<not> blank s))"
  by (cases x) (auto simp: optional_text_def rbind_Inr_iff non_empty_str_iff)

lemma make_caller_request_iff:
  "(make_caller_request sel target ref tool digest profile boundary parent session meta = Inr cq) =
     (ref = VStr (cq_request_ref cq) \<and> tool = VStr (cq_tool_name cq)
      \<and> profile = VStr (cq_policy_profile_ref cq) \<and> digest = VStr (cq_argument_digest cq)
      \<and> boundary = VStr BOUNDARY_TYPE \<and> cq_boundary_type cq = BOUNDARY_TYPE
      \<and> parent = vopt (cq_parent_receipt_ref cq) \<and> session = vopt (cq_session_ref cq)
      \<and> meta = vopt (cq_meta_digest cq)
      \<and> cq_binding_selector cq = sel \<and> cq_target_handle cq = target
      \<and> \<not> blank (cq_request_ref cq) \<and> \<not> blank (cq_tool_name cq)
      \<and> \<not> blank (cq_policy_profile_ref cq) \<and> \<not> blank (cq_argument_digest cq)
      \<and> prefix DIGEST_PREFIX (cq_argument_digest cq)
      \<and> list_all (\<lambda>x. case x of None \<Rightarrow> True | Some s \<Rightarrow> \<not> blank s)
          [cq_parent_receipt_ref cq, cq_session_ref cq, cq_meta_digest cq])"
  unfolding make_caller_request_def digest_field_def boundary_field_def
  by (cases cq) (auto simp: rbind_Inr_iff non_empty_str_iff optional_text_iff split: if_splits)

lemma selector_key_iff [result_simps]: "(selector_key f s = Inr t) = (t = s \<and> \<not> blank s)"
  by (auto simp: selector_key_def)

text \<open>The request a payload gives, with every field taken from the payload as it is.\<close>

definition payload_field :: "pydict \<Rightarrow> string \<Rightarrow> string \<Rightarrow> bool" where
  "payload_field p k s = (dget p k = Some (VStr s) \<and> \<not> blank s)"

definition payload_option :: "pydict \<Rightarrow> string \<Rightarrow> string option \<Rightarrow> bool" where
  "payload_option p k x =
     (case x of None \<Rightarrow> payload_get p k VNone = VNone | Some s \<Rightarrow> payload_field p k s)"

definition request_of_payload :: "pydict \<Rightarrow> caller_request \<Rightarrow> bool" where
  "request_of_payload p cq =
     (payload_field p ''request_ref'' (cq_request_ref cq)
      \<and> payload_field p ''binding_selector'' (cq_binding_selector cq)
      \<and> payload_field p ''target_server_ref'' (cq_target_handle cq)
      \<and> payload_field p ''tool_name'' (cq_tool_name cq)
      \<and> payload_field p ''argument_digest'' (cq_argument_digest cq)
      \<and> prefix DIGEST_PREFIX (cq_argument_digest cq)
      \<and> payload_field p ''policy_profile_ref'' (cq_policy_profile_ref cq)
      \<and> payload_get p ''boundary_type'' (VStr BOUNDARY_TYPE) = VStr BOUNDARY_TYPE
      \<and> cq_boundary_type cq = BOUNDARY_TYPE
      \<and> payload_option p ''parent_receipt_ref'' (cq_parent_receipt_ref cq)
      \<and> payload_option p ''session_ref'' (cq_session_ref cq)
      \<and> payload_option p ''meta_digest'' (cq_meta_digest cq))"

lemma payload_get_simps:
  "(payload_get p k VNone = VStr s) = (dget p k = Some (VStr s))"
  "(payload_get p k VNone = vopt x \<and> (case x of None \<Rightarrow> True | Some s \<Rightarrow> \<not> blank s))
     = payload_option p k x"
  by (auto simp: payload_get_def payload_option_def payload_field_def vopt_def split: option.splits)

definition payload_shape :: "pydict \<Rightarrow> bool" where
  "payload_shape p =
     (list_all (\<lambda>k. k \<in> set CALLER_ALLOWED_KEYS) (dkeys p)
      \<and> list_all (\<lambda>k. k \<in> set (dkeys p)) CALLER_REQUIRED_KEYS)"

lemma prohibited_not_allowed:
  "list_all (\<lambda>k. k \<notin> set CALLER_ALLOWED_KEYS) PROHIBITED_CALLER_AUTHORITY_KEYS"
  by code_simp

abbreviation fields_request :: "pydict \<Rightarrow> string \<Rightarrow> string \<Rightarrow> (contract_error, caller_request) result" where
  "fields_request p sel target \<equiv>
     make_caller_request sel target (payload_get p ''request_ref'' VNone)
       (payload_get p ''tool_name'' VNone) (payload_get p ''argument_digest'' VNone)
       (payload_get p ''policy_profile_ref'' VNone)
       (payload_get p ''boundary_type'' (VStr BOUNDARY_TYPE))
       (payload_get p ''parent_receipt_ref'' VNone) (payload_get p ''session_ref'' VNone)
       (payload_get p ''meta_digest'' VNone)"

lemma untrusted_shape:
  assumes "payload_shape p"
  shows "from_untrusted_mapping (VMap p) =
    (case payload_get p ''binding_selector'' VNone of
       VStr sel \<Rightarrow>
        (case payload_get p ''target_server_ref'' VNone of
           VStr target \<Rightarrow>
             rbind (selector_key ''key'' sel) (\<lambda>sel'.
             rbind (selector_key ''handle'' target) (\<lambda>target'. fields_request p sel' target'))
         | _ \<Rightarrow> Inl (FieldNotAString ''target_server_ref''))
     | _ \<Rightarrow> Inl (FieldNotAString ''binding_selector''))"
proof -
  have "filter (\<lambda>k. k \<notin> set CALLER_ALLOWED_KEYS) (dkeys p) = []"
    "filter (\<lambda>k. k \<notin> set (dkeys p)) CALLER_REQUIRED_KEYS = []"
    using assms by (auto simp: payload_shape_def list_all_iff filter_empty_conv)
  then show ?thesis by (simp add: from_untrusted_mapping_def Let_def)
qed

lemma untrusted_refused:
  assumes "\<not> payload_shape p" "from_untrusted_mapping (VMap p) = r"
  shows "\<exists>e. r = Inl e"
  using assms by (auto simp: payload_shape_def from_untrusted_mapping_def Let_def list_all_iff
      filter_empty_conv)

lemma fields_request_iff:
  "(fields_request p sel target = Inr cq) =
     (cq_binding_selector cq = sel \<and> cq_target_handle cq = target
      \<and> payload_field p ''request_ref'' (cq_request_ref cq)
      \<and> payload_field p ''tool_name'' (cq_tool_name cq)
      \<and> payload_field p ''argument_digest'' (cq_argument_digest cq)
      \<and> prefix DIGEST_PREFIX (cq_argument_digest cq)
      \<and> payload_field p ''policy_profile_ref'' (cq_policy_profile_ref cq)
      \<and> payload_get p ''boundary_type'' (VStr BOUNDARY_TYPE) = VStr BOUNDARY_TYPE
      \<and> cq_boundary_type cq = BOUNDARY_TYPE
      \<and> payload_option p ''parent_receipt_ref'' (cq_parent_receipt_ref cq)
      \<and> payload_option p ''session_ref'' (cq_session_ref cq)
      \<and> payload_option p ''meta_digest'' (cq_meta_digest cq))"
  unfolding make_caller_request_iff payload_get_simps(2)[symmetric] payload_field_def
    payload_get_simps(1) by auto

lemma from_untrusted_mapping_iff:
  "(from_untrusted_mapping (VMap p) = Inr cq) = (payload_shape p \<and> request_of_payload p cq)"
proof (cases "payload_shape p")
  case True
  show ?thesis
  proof (cases "\<exists>s t. dget p ''binding_selector'' = Some (VStr s)
      \<and> dget p ''target_server_ref'' = Some (VStr t)")
    case strs: True
    then obtain st where "dget p ''binding_selector'' = Some (VStr (fst st))"
      "dget p ''target_server_ref'' = Some (VStr (snd st))" by auto
    moreover from this have "payload_get p ''binding_selector'' VNone = VStr (fst st)"
      "payload_get p ''target_server_ref'' VNone = VStr (snd st)" by (simp_all add: payload_get_def)
    ultimately show ?thesis unfolding untrusted_shape[OF True] request_of_payload_def
      by (auto simp: True rbind_Inr_iff selector_key_iff fields_request_iff payload_field_def)
  next
    case False
    have "\<nexists>cq. from_untrusted_mapping (VMap p) = Inr cq"
      using False unfolding untrusted_shape[OF True]
      by (auto simp: payload_get_simps(1) split: pyv.split)
    then show ?thesis using False by (auto simp: request_of_payload_def payload_field_def)
  qed
next
  case False
  then show ?thesis using untrusted_refused by force
qed

lemma untrusted_mapping_only: "from_untrusted_mapping v = Inr cq \<Longrightarrow> \<exists>p. v = VMap p"
  by (cases v) (simp_all add: from_untrusted_mapping_def)

lemma caller_request_again:
  assumes "from_untrusted_mapping v = Inr cq"
  shows "make_caller_request (cq_binding_selector cq) (cq_target_handle cq)
       (VStr (cq_request_ref cq)) (VStr (cq_tool_name cq)) (VStr (cq_argument_digest cq))
       (VStr (cq_policy_profile_ref cq)) (VStr (cq_boundary_type cq))
       (vopt (cq_parent_receipt_ref cq)) (vopt (cq_session_ref cq)) (vopt (cq_meta_digest cq)) = Inr cq"
proof -
  obtain p where "request_of_payload p cq"
    using assms untrusted_mapping_only[OF assms] from_untrusted_mapping_iff by blast
  then show ?thesis
    by (auto simp: make_caller_request_iff request_of_payload_def payload_field_def
        payload_option_def split: option.splits)
qed

text \<open>C2: The caller's boundary is closed. A payload gives a caller request exactly if it is a
  mapping of the allowed keys with every required key, so with no key that claims authority, and
  each field is a string taken over as it is; a payload with such a key is refused with the list of
  these keys. The service's request has the caller's facts unchanged, and its actor and tenant
  are those supplied separately.\<close>
theorem caller_boundary_exact:
  "case from_untrusted_mapping v of
     Inr cq \<Rightarrow>
       (case v of VMap p \<Rightarrow> payload_shape p \<and> request_of_payload p cq
            \<and> list_all (\<lambda>k. k \<notin> set PROHIBITED_CALLER_AUTHORITY_KEYS) (dkeys p)
        | _ \<Rightarrow> False)
       \<and> (case from_caller_request cq actor tenant of
            Inr rq \<Rightarrow> rq = \<lparr>gq_caller = cq, gq_actor_ref = actor, gq_tenant_ref = tenant\<rparr>
              \<and> \<not> blank actor \<and> (case tenant of None \<Rightarrow> True | Some t \<Rightarrow> \<not> blank t)
          | Inl e \<Rightarrow> e = EmptyField ''TrustedActorRef.ref'' \<and> blank actor
              \<or> e = EmptyField ''TrustedTenantRef.ref'' \<and> (case tenant of None \<Rightarrow> False | Some t \<Rightarrow> blank t))
   | Inl e \<Rightarrow>
       (case v of VMap p \<Rightarrow>
            (\<nexists>cq. payload_shape p \<and> request_of_payload p cq)
            \<and> (if list_ex (\<lambda>k. k \<in> set PROHIBITED_CALLER_AUTHORITY_KEYS) (dkeys p)
               then e = AssertsAuthority
                      (filter (\<lambda>k. k \<in> set PROHIBITED_CALLER_AUTHORITY_KEYS) (dkeys p)) else True)
        | _ \<Rightarrow> e = PayloadNotMapping)"
proof (cases "from_untrusted_mapping v")
  case (Inl e)
  have *: "filter (\<lambda>k. k \<in> set PROHIBITED_CALLER_AUTHORITY_KEYS)
      (filter (\<lambda>k. k \<notin> set CALLER_ALLOWED_KEYS) ks)
    = filter (\<lambda>k. k \<in> set PROHIBITED_CALLER_AUTHORITY_KEYS) ks" for ks
    using prohibited_not_allowed by (auto simp: list_all_iff intro!: filter_cong)
  have "\<nexists>cq. payload_shape p \<and> request_of_payload p cq" if "v = VMap p" for p
    using Inl from_untrusted_mapping_iff[of p] unfolding that by simp
  moreover have "e = AssertsAuthority
        (filter (\<lambda>k. k \<in> set PROHIBITED_CALLER_AUTHORITY_KEYS) (dkeys p))"
    if "v = VMap p" "list_ex (\<lambda>k. k \<in> set PROHIBITED_CALLER_AUTHORITY_KEYS) (dkeys p)" for p
    using Inl that(2) unfolding that(1) from_untrusted_mapping_def pyv.case Let_def *
    by (auto simp: filter_empty_conv list_ex_iff split: if_splits)
  ultimately show ?thesis using Inl by (cases v) (auto simp: from_untrusted_mapping_def)
next
  case (Inr cq)
  then obtain p where v: "v = VMap p" using untrusted_mapping_only by blast
  have shape: "payload_shape p \<and> request_of_payload p cq"
    using Inr from_untrusted_mapping_iff unfolding v by blast
  then have "list_all (\<lambda>k. k \<notin> set PROHIBITED_CALLER_AUTHORITY_KEYS) (dkeys p)"
    using prohibited_not_allowed by (auto simp: payload_shape_def list_all_iff)
  then show ?thesis using shape Inr caller_request_again[OF Inr]
    by (auto simp: v from_caller_request_def trusted_ref_def non_empty_str_def
        split: option.split)
qed

section \<open>The receipts of a binding call\<close>

definition receipt_ids :: "mw_effect list \<Rightarrow> string list" where
  "receipt_ids tr = concat (map (\<lambda>e. case e of ReceiptWritten rid \<Rightarrow> [rid] | _ \<Rightarrow> []) tr)"

lemma receipt_ids_simps [simp]:
  "receipt_ids [] = []" "receipt_ids (ReceiptWritten r # tr) = r # receipt_ids tr"
  "receipt_ids (HandlerCalled # tr) = receipt_ids tr"
  "receipt_ids (ReviewRequested # tr) = receipt_ids tr"
  "receipt_ids (tr @ tr') = receipt_ids tr @ receipt_ids tr'"
  by (simp_all add: receipt_ids_def)

definition leaves :: "mw_state \<Rightarrow> mw_state \<Rightarrow> mw_effect list \<Rightarrow> captured_receipt list \<Rightarrow> bool" where
  "leaves s s' tr cs =
     (mw_trace s' = mw_trace s @ tr \<and> captured_in s s' = cs
      \<and> (\<exists>rs. written s' = written s @ rs) \<and> map ca_receipt_id cs = receipt_ids tr)"

lemma captured_in_append: "written s' = written s @ rs \<Longrightarrow> captured_in s s' = map capture rs"
  by (simp add: captured_in_def)

lemma leavesI:
  "mw_trace s' = mw_trace s @ tr \<Longrightarrow> written s' = written s @ rs \<Longrightarrow>
     map (ca_receipt_id \<circ> capture) rs = receipt_ids tr \<Longrightarrow> leaves s s' tr (map capture rs)"
  by (auto simp: leaves_def captured_in_append)

lemma leaves_written: "leaves s s' tr cs \<Longrightarrow> \<exists>rs. written s' = written s @ rs \<and> cs = map capture rs"
  by (auto simp: leaves_def captured_in_append)

lemma leaves_nil: "mw_trace s' = mw_trace s @ tr \<Longrightarrow> written s' = written s \<Longrightarrow>
    receipt_ids tr = [] \<Longrightarrow> leaves s s' tr []"
  using leavesI[of s' s tr "[]"] by simp

lemma leaves_trans:
  assumes "leaves s s1 tr cs" "leaves s1 s' tr' cs'"
  shows "leaves s s' (tr @ tr') (cs @ cs')"
proof -
  obtain rs rs' where rs: "written s1 = written s @ rs" "cs = map capture rs"
    "written s' = written s1 @ rs'" "cs' = map capture rs'"
    using leaves_written[OF assms(1)] leaves_written[OF assms(2)] by blast
  have "map (ca_receipt_id \<circ> capture) (rs @ rs') = receipt_ids (tr @ tr')"
    using assms rs by (simp add: leaves_def)
  then show ?thesis using assms rs leavesI[of s' s "tr @ tr'" "rs @ rs'"]
    by (simp add: leaves_def)
qed

lemma capture_admission:
  "admission_of snap d rid ra \<Longrightarrow> ca_receipt_id (capture ra) = rid
     \<and> ca_receipt_kind (capture ra) = ''admission'' \<and> ca_disposition (capture ra) = Some d"
  by (simp add: admission_of_def capture_def envelope_text_def)

lemma capture_outcome:
  "outcome_for a rid rb \<Longrightarrow> ca_receipt_id (capture rb) = rid
     \<and> ca_receipt_kind (capture rb) = ''outcome''"
  by (simp add: outcome_for_def capture_def envelope_text_def)

text \<open>A call that stops before execution leaves nothing or one admission that is not admitted; a call
  that executes leaves nothing, its admission, or its admission and an outcome.\<close>

definition stopped :: "mw_effect list \<Rightarrow> captured_receipt list \<Rightarrow> bool" where
  "stopped tr cs =
     (HandlerCalled \<notin> set tr
      \<and> (cs = [] \<or> (\<exists>a. cs = [a] \<and> ca_receipt_kind a = ''admission''
            \<and> (ca_disposition a = Some ''refused'' \<or> ca_disposition a = Some ''deferred_for_review''))))"

definition executed :: "mw_effect list \<Rightarrow> captured_receipt list \<Rightarrow> bool" where
  "executed tr cs =
     (HandlerCalled \<in> set tr
      \<and> (cs = [] \<and> tr = [HandlerCalled]
         \<or> (\<exists>a rest. cs = a # rest \<and> ca_receipt_kind a = ''admission''
              \<and> ca_disposition a = Some ''admitted''
              \<and> (rest = [] \<or> (\<exists>b. rest = [b] \<and> ca_receipt_kind b = ''outcome'')))))"

lemma stopped_nil [simp]: "stopped [] []"
  by (simp add: stopped_def)

lemma emit_admission_leaves:
  assumes "mw_emit_admission env ctx snap pol disp rv rt rs s = (q, s')"
  shows "case q of Inl _ \<Rightarrow> leaves s s' [] []
     | Inr rid \<Rightarrow> \<exists>a. leaves s s' [ReceiptWritten rid] [a] \<and> ca_receipt_kind a = ''admission''
         \<and> ca_disposition a = Some disp"
proof (cases q)
  case (Inl e)
  then show ?thesis using mw_emit_admission_written[OF assms] by (simp add: leaves_nil)
next
  case (Inr rid)
  obtain r where r: "mw_trace s' = mw_trace s @ [ReceiptWritten rid]" "written s' = written s @ [r]"
      "admission_of snap disp rid r"
    using mw_emit_admission_written[OF assms] Inr by auto
  note c = capture_admission[OF r(3)]
  have "leaves s s' [ReceiptWritten rid] [capture r]" using leavesI[OF r(1,2)] c by simp
  with Inr c show ?thesis by auto
qed

lemma failure_leaves:
  "leaves s s1 [] [] \<Longrightarrow> leaves s (record_receipt_failure env ctx snap k out aref cls s1) [] []"
  using leaves_trans[OF _ leaves_nil, of s s1 "[]" "[]" "record_receipt_failure env ctx snap k out aref cls s1" "[]"]
  by (simp add: record_receipt_failure_def append_emergency_spool_def add_telemetry_def Let_def
      split: list.split option.split prod.split)

lemma review_leaves:
  assumes "prepare_review env ctx snap actor pol d s = (q, s1)"
  shows "\<exists>tr. leaves s s1 tr [] \<and> HandlerCalled \<notin> set tr"
proof -
  have "written s1 = written s"
    using assms by (auto simp: prepare_review_def Let_def record_review_failure_def add_telemetry_def
        split: if_splits sum.splits)
  moreover have "mw_trace s1 = mw_trace s \<or> mw_trace s1 = mw_trace s @ [ReviewRequested]"
    using assms by (auto elim: prepare_review_cases)
  ultimately show ?thesis
    using leaves_nil[of s1 s "[]"] leaves_nil[of s1 s "[ReviewRequested]"] by fastforce
qed

lemma terminal_leaves:
  assumes "terminal_admission env plan ctx snap pol review s = (r, s')"
    and "plan_admission req = Inr plan" "\<not> ap_execution_proceeds plan"
  shows "\<exists>tr cs. leaves s s' tr cs \<and> stopped tr cs"
proof -
  obtain rec where rec: "ap_record plan = Some rec"
    using plan_admission_record_iff[OF assms(2)] not_admitted_plan(4)[OF assms(2,3)] by auto
  have d: "ai_disposition rec = ''refused'' \<or> ai_disposition rec = ''deferred''"
    using assms(2,3) rec by (cases rule: plan_admission_cases)
      (auto simp: admission_record_def split: if_splits)
  have emit: "\<exists>tr cs. leaves s s'' tr cs \<and> stopped tr cs"
    if e: "mw_emit_admission env ctx snap pol disp rv rt rs s = (q, s1)"
      and disp: "disp = ''refused'' \<or> disp = ''deferred_for_review''"
      and s'': "s'' = (case q of Inr _ \<Rightarrow> s1 | Inl e \<Rightarrow> record_receipt_failure env ctx snap ''admission'' None
                None (receipt_failure_class e) s1)" for disp rv rt rs q s1 s''
  proof (cases q)
    case (Inl e)
    then have "leaves s s'' [] []" using emit_admission_leaves[OF e] s'' failure_leaves by simp
    moreover have "stopped [] []" by (simp add: stopped_def)
    ultimately show ?thesis by blast
  next
    case (Inr rid)
    then obtain a where "leaves s s'' [ReceiptWritten rid] [a]" "ca_receipt_kind a = ''admission''"
        "ca_disposition a = Some disp"
      using emit_admission_leaves[OF e] s'' by auto
    moreover have "stopped [ReceiptWritten rid] [a]" using calculation(2,3) disp
      by (auto simp: stopped_def)
    ultimately show ?thesis by blast
  qed
  from d show ?thesis
  proof
    assume "ai_disposition rec = ''refused''"
    then show ?thesis using assms(1) rec
      by (auto simp: terminal_admission_def Let_def intro!: emit split: prod.splits sum.splits)
  next
    assume "ai_disposition rec = ''deferred''"
    then show ?thesis using assms(1) rec
      by (auto simp: terminal_admission_def Let_def intro!: emit split: prod.splits sum.splits)
  qed
qed

lemma execute_leaves:
  assumes "aref = None \<or> live_plan plan"
    and "execute_call env plan ctx snap aref h s = (r, s')"
  shows "leaves s s' [HandlerCalled] []
    \<or> (\<exists>rid b. aref \<noteq> None \<and> leaves s s' [HandlerCalled, ReceiptWritten rid] [b]
          \<and> ca_receipt_kind b = ''outcome'')"
proof (cases aref)
  case None
  then show ?thesis
    using execute_trace(2)[OF assms] execute_call_step[of env plan ctx snap aref h s] assms(2)
    by (auto intro!: leaves_nil)
next
  case (Some a)
  let ?s = "s\<lparr>mw_trace := mw_trace s @ [HandlerCalled]\<rparr>"
  have "outcome_step a ?s s'"
    using execute_call_step[of env plan ctx snap aref h s] assms(2) Some by simp
  then show ?thesis unfolding outcome_step_def
  proof
    assume "mw_trace s' = mw_trace ?s \<and> written s' = written ?s"
    then show ?thesis using leaves_nil[of s' s "[HandlerCalled]"] by simp
  next
    assume "\<exists>rid receipt. mw_trace s' = mw_trace ?s @ [ReceiptWritten rid]
        \<and> written s' = written ?s @ [receipt] \<and> outcome_for a rid receipt"
    then obtain rid receipt where r: "mw_trace s' = mw_trace s @ [HandlerCalled, ReceiptWritten rid]"
        "written s' = written s @ [receipt]" "outcome_for a rid receipt" by auto
    then show ?thesis using leavesI[OF r(1,2)] capture_outcome[OF r(3)] Some by auto
  qed
qed

lemma observe_leaves:
  assumes "observe_admission env plan ctx snap pol s = (q, s1)"
  shows "case q of
      Inr (Some rid) \<Rightarrow> \<exists>a. leaves s s1 [ReceiptWritten rid] [a] \<and> ca_receipt_kind a = ''admission''
        \<and> ca_disposition a = Some ''admitted''
    | _ \<Rightarrow> leaves s s1 [] []"
proof -
  obtain q0 s0 where e: "mw_emit_admission env ctx snap pol ''admitted'' None None None s = (q0, s0)"
    by fastforce
  note l = emit_admission_leaves[OF e]
  show ?thesis
  proof (cases "ap_admission_recorded plan")
    case False
    then show ?thesis using assms leaves_nil[of s s "[]"] by (auto simp: observe_admission_def)
  next
    case True
    then show ?thesis using assms e l failure_leaves
      by (cases q0) (auto simp: observe_admission_def Let_def split: if_splits)
  qed
qed

text \<open>A governed call under any context, by what it leaves and how it ends.\<close>

definition from_handler :: "mw_result \<Rightarrow> bool" where
  "from_handler r = (case r of Returned _ \<Rightarrow> True | HandlerRaised _ \<Rightarrow> True | _ \<Rightarrow> False)"

lemma governed_call_leaves:
  assumes run: "governed_call_under env ctx snap actor pol h s = (r, s')"
  shows "\<exists>tr cs. leaves s s' tr cs
    \<and> (if from_handler r then executed tr cs else executed tr cs \<or> stopped tr cs)"
  using run
proof (cases rule: governed_call_under_cases)
  case unknown
  then have "leaves s s' [] []" using leaves_nil[of s' s "[]"] by simp
  moreover have "\<not> from_handler r" using unknown(2) by (simp add: from_handler_def)
  ultimately show ?thesis using stopped_nil by metis
next
  case (escaped e)
  have d: "to_neutral_disposition (bp_disposition pol) = Some ''deferred''" using escaped(1)
    by (simp add: to_neutral_disposition_def NEUTRAL_DISPOSITION_BY_BINDING_def)
  obtain q s1 where p: "prepare_review env ctx snap actor pol ''deferred'' s = (q, s1)" by fastforce
  obtain pre where pre: "leaves s s1 pre []" "HandlerCalled \<notin> set pre"
    using review_leaves[OF p] by blast
  have "s' = s1"
  proof (cases q)
    case (Inr rc)
    obtain review created where rc: "rc = (review, created)" by fastforce
    have "created \<noteq> None" using p Inr rc by (auto elim!: prepare_review_cases)
    then obtain plan where plan: "plan_admission (neutral_of env pol ''deferred'' created) = Inr plan"
      using neutral_plan_exists[OF d] by blast
    have np: "\<not> ap_execution_proceeds plan"
      using admitted_plan(1)[OF plan] by (auto simp: neutral_admission_request_def)
    have "terminal_admission env plan ctx snap pol review s1 = (r, s')"
      using run d p Inr rc plan np by (simp add: governed_call_under_def)
    from terminal_cases[OF plan np this] escaped(2) show ?thesis by simp
  qed (use run d p in \<open>simp add: governed_call_under_def\<close>)
  with pre escaped(2) show ?thesis by (auto simp: stopped_def from_handler_def)
next
  case (terminal plan s1 review created d)
  obtain pre where pre: "leaves s s1 pre []" "HandlerCalled \<notin> set pre"
    using review_leaves[OF terminal(2)] by blast
  have "terminal_admission env plan ctx snap pol review s1 = (r, s')"
    using run terminal(1-4) by (simp add: governed_call_under_def)
  from terminal_leaves[OF this terminal(3,4)] obtain tr cs where
    t: "leaves s1 s' tr cs" "stopped tr cs" by blast
  have "leaves s s' (pre @ tr) cs" "stopped (pre @ tr) cs"
    using leaves_trans[OF pre(1) t(1)] t(2) pre(2) by (simp_all add: stopped_def)
  moreover have "\<not> from_handler r" using terminal(7) by (auto simp: from_handler_def)
  ultimately show ?thesis by metis
next
  case (closed plan)
  have "leaves s s' [] []" using observe_leaves[OF closed(3)] by simp
  moreover have "\<not> from_handler r" using closed(4) by (simp add: from_handler_def)
  ultimately show ?thesis using stopped_nil by metis
next
  case (executed plan aref s1)
  note o = observe_leaves[OF executed(5)]
  note x = execute_leaves[OF executed(4,6)]
  show ?thesis
  proof (cases aref)
    case None
    then have "leaves s s' [HandlerCalled] []" using o x leaves_trans[of s s1 "[]" "[]"] by auto
    moreover have "executed [HandlerCalled] []" by (simp add: executed_def)
    ultimately show ?thesis by metis
  next
    case (Some rid)
    then obtain a where a: "leaves s s1 [ReceiptWritten rid] [a]" "ca_receipt_kind a = ''admission''"
        "ca_disposition a = Some ''admitted''" using o by auto
    from x show ?thesis
    proof
      assume "leaves s1 s' [HandlerCalled] []"
      from leaves_trans[OF a(1) this] have "leaves s s' [ReceiptWritten rid, HandlerCalled] [a]" by simp
      moreover have "executed [ReceiptWritten rid, HandlerCalled] [a]" using a by (simp add: executed_def)
      ultimately show ?thesis by metis
    next
      assume "\<exists>rid b. aref \<noteq> None \<and> leaves s1 s' [HandlerCalled, ReceiptWritten rid] [b]
          \<and> ca_receipt_kind b = ''outcome''"
      then obtain rid' b where b: "leaves s1 s' [HandlerCalled, ReceiptWritten rid'] [b]"
        "ca_receipt_kind b = ''outcome''" by blast
      from leaves_trans[OF a(1) b(1)]
      have "leaves s s' [ReceiptWritten rid, HandlerCalled, ReceiptWritten rid'] [a, b]" by simp
      moreover have "executed [ReceiptWritten rid, HandlerCalled, ReceiptWritten rid'] [a, b]"
        using a b by (simp add: executed_def)
      ultimately show ?thesis by metis
    qed
  qed
qed

section \<open>What a binding reports\<close>

text \<open>What a call through a binding leaves, and how it may end.\<close>

definition reported :: "mw_effect list \<Rightarrow> captured_receipt list \<Rightarrow> binding_end \<Rightarrow> bool" where
  "reported tr cs e =
     (case e of EndRaised _ \<Rightarrow> executed tr cs \<or> stopped tr cs | _ \<Rightarrow> executed tr cs)"

lemma reported_stopped: "stopped tr cs \<Longrightarrow> reported tr cs (EndRaised x)"
  by (simp add: reported_def)

lemma reported_executed: "executed tr cs \<Longrightarrow> reported tr cs e"
  by (simp add: reported_def split: binding_end.split)

lemma fastmcp_reported:
  "(if from_handler r then executed tr cs else executed tr cs \<or> stopped tr cs) \<Longrightarrow>
     reported tr cs (fastmcp_end answer r)"
  by (cases "from_handler r")
     (auto simp: reported_executed fastmcp_end_def from_handler_def reported_stopped
       split: mw_result.splits)

lemma official_reported:
  "(if from_handler (mw_result_of r) then executed tr cs else executed tr cs \<or> stopped tr cs) \<Longrightarrow>
     reported tr cs (official_end r)"
  by (cases r) (auto simp: reported_executed official_end_def from_handler_def reported_stopped)

text \<open>What stops a call before its lifecycle never comes from the handler.\<close>

lemma early_errors:
  "resolve_actor env snap = Inl e \<Longrightarrow> \<not> from_handler e"
  "resolve_policy cf snap actor = Inl e \<Longrightarrow> \<not> from_handler e"
  by (auto simp: resolve_actor_def resolve_policy_def resolve_operator_admission_def
      from_handler_def Let_def map_err_Inl_iff split: option.splits sum.splits if_splits)

lemma sdk_early_errors:
  "sdk_snapshot_request env' tool args rc = Inl e' \<Longrightarrow> \<not> from_handler (mw_result_of e')"
  "sdk_resolve_actor env' rc snap = Inl e' \<Longrightarrow> \<not> from_handler (mw_result_of e')"
  "sdk_resolve_policy cf' snap actor = Inl e' \<Longrightarrow> \<not> from_handler (mw_result_of e')"
  by (auto simp: sdk_snapshot_request_def sdk_resolve_actor_def sdk_resolve_policy_def from_handler_def
      Let_def map_err_Inl_iff rbind_Inl_iff split: option.splits)

definition shaped :: "mw_state \<Rightarrow> mw_state \<Rightarrow> mw_result \<Rightarrow> bool" where
  "shaped s s' r = (\<exists>tr cs. leaves s s' tr cs
     \<and> (if from_handler r then executed tr cs else executed tr cs \<or> stopped tr cs))"

lemma shaped_early: "\<not> from_handler r \<Longrightarrow> shaped s s r"
proof -
  have "leaves s s [] []" by (rule leaves_nil) simp_all
  then show "\<not> from_handler r \<Longrightarrow> shaped s s r" using stopped_nil unfolding shaped_def by metis
qed

lemma shaped_governed: "governed_call_under env ctx snap actor pol h s = (r, s') \<Longrightarrow> shaped s s' r"
  using governed_call_leaves unfolding shaped_def .

lemma on_call_tool_shaped:
  assumes "on_call_tool env msg h s = (r, s')"
  shows "shaped s s' r"
proof -
  have "\<not> from_handler (ReceiptErrorRaised e)" for e by (simp add: from_handler_def)
  then show ?thesis
    using assms shaped_early shaped_governed early_errors unfolding on_call_tool_def governed_call_def
    by (auto split: sum.splits)
qed

lemma sdk_call_shaped:
  assumes "sdk_governed_call env tool args f rc s = (r, s')"
  shows "shaped s s' (mw_result_of r)"
  using assms shaped_early shaped_governed[OF sdk_as_middleware] sdk_early_errors
  unfolding sdk_governed_call_def by (auto split: sum.splits)

section \<open>Faithful responses\<close>

text \<open>What a response may say about a call of these effects.\<close>

definition response_faithful ::
  "governed_call_request \<Rightarrow> mw_effect list \<Rightarrow> sdk_value governed_response \<Rightarrow> bool" where
  "response_faithful rq tr r =
    (gr_request_ref r = cq_request_ref (gq_caller rq)
     \<and> map rh_receipt_id (gr_receipts r) = receipt_ids tr
     \<and> (case gr_decision r of None \<Rightarrow> False
        | Some d \<Rightarrow>
           (if gd_disposition d = ''admitted''
            then HandlerCalled \<in> set tr \<or> gd_outcome d = Some ''cancellation''
            else HandlerCalled \<notin> set tr
              \<or> tr = [HandlerCalled] \<and> gr_diagnostic_code r = Some ''required_sink_unavailable''))
     \<and> (if gr_business_result r = None then True else HandlerCalled \<in> set tr))"

definition end_faithful :: "governed_call_request \<Rightarrow> mw_effect list \<Rightarrow> gateway_end \<Rightarrow> bool" where
  "end_faithful rq tr out =
    (case out of
       Responded r \<Rightarrow> response_faithful rq tr r
     | ResponseRejected e \<Rightarrow>
         e \<in> {EmptyField ''receipt_id'', EmptyField ''request_ref'', EmptyField ''review_object_ref''}
     | GatewayRaised e \<Rightarrow> receipt_ids tr = [] \<or> \<not> is_exception e)"

lemma diagnostics_known:
  "list_all (\<lambda>c. \<not> blank c) ALL_DIAGNOSTIC_CODES"
  "c \<in> set NEUTRAL_REFUSAL_GROUNDS \<Longrightarrow> c \<in> set ALL_DIAGNOSTIC_CODES"
  "refusal_diagnostic x \<in> set ALL_DIAGNOSTIC_CODES"
  subgoal by code_simp
  subgoal by (simp add: ALL_DIAGNOSTIC_CODES_def)
  subgoal by (auto simp: refusal_diagnostic_def ALL_DIAGNOSTIC_CODES_def NEUTRAL_REFUSAL_GROUNDS_def
        split: option.split)
  done

text \<open>A response that the adapter builds is accepted, unless a reference it carries is blank.\<close>

lemma make_response_decided:
  assumes "gr_decision r = Some d" "decided_response_checks d r = Inr ()"
    and "case gr_diagnostic_code r of None \<Rightarrow> True | Some c \<Rightarrow> c \<in> set ALL_DIAGNOSTIC_CODES"
    and "gr_logical_call_id r = gr_request_ref r" "gr_custody_ref r = None" "gr_parent_ref r = None"
      "gr_retry_instruction r = None \<or> gr_retry_instruction r = Some DEFERRAL_CONTINUATION_CONTRACT"
  shows "make_response r = Inr r
    \<or> (\<exists>f. make_response r = Inl (EmptyField f) \<and> f \<in> {''request_ref'', ''review_object_ref''})"
proof -
  have nb: "c \<in> set ALL_DIAGNOSTIC_CODES \<Longrightarrow> \<not> blank c" for c
    using diagnostics_known(1) by (auto simp: list_all_iff)
  have def: "\<not> blank DEFERRAL_CONTINUATION_CONTRACT" by code_simp
  show ?thesis using assms nb def
    by (cases "gr_diagnostic_code r"; cases "gr_review_object_ref r")
       (auto simp: make_response_def non_empty_str_def optional_text_def require_def)
qed

text \<open>The handles of what was captured.\<close>

definition receipt_kinds_ok :: "captured_receipt list \<Rightarrow> bool" where
  "receipt_kinds_ok cs =
     (length cs \<le> 2 \<and> list_all (\<lambda>c. ca_receipt_kind c \<in> {''admission'', ''outcome''}) cs)"

lemma shape_kinds:
  "executed tr cs \<Longrightarrow> receipt_kinds_ok cs" "stopped tr cs \<Longrightarrow> receipt_kinds_ok cs \<and> length cs \<le> 1"
  by (auto simp: executed_def stopped_def receipt_kinds_ok_def)

abbreviation handles :: "captured_receipt list \<Rightarrow> (contract_error, receipt_handle list) result" where
  "handles cs \<equiv> rmap (\<lambda>c. make_receipt_handle (VStr (ca_receipt_id c)) (ca_receipt_kind c)) cs"

lemma handles_cases:
  assumes "receipt_kinds_ok cs"
  obtains (bad) "handles cs = Inl (EmptyField ''receipt_id'')"
    | (ok) rs where "handles cs = Inr rs" "map rh_receipt_id rs = map ca_receipt_id cs"
proof -
  have "list_all (\<lambda>c. ca_receipt_kind c \<in> {''admission'', ''outcome''}) cs \<Longrightarrow>
      handles cs = Inl (EmptyField ''receipt_id'')
      \<or> (\<exists>rs. handles cs = Inr rs \<and> map rh_receipt_id rs = map ca_receipt_id cs)"
    by (induction cs) (auto simp: make_receipt_handle_def non_empty_str_def)
  with assms that show ?thesis by (auto simp: receipt_kinds_ok_def)
qed

text \<open>A decided answer without a business result.\<close>

abbreviation answer ::
  "governed_call_request \<Rightarrow> token \<Rightarrow> token option \<Rightarrow> receipt_handle list \<Rightarrow> string option
    \<Rightarrow> sdk_value governed_response" where
  "answer rq disp outc rs diag \<equiv>
     \<lparr>gr_request_ref = cq_request_ref (gq_caller rq),
      gr_logical_call_id = cq_request_ref (gq_caller rq),
      gr_decision = Some \<lparr>gd_disposition = disp, gd_outcome = outc\<rparr>, gr_business_result = None,
      gr_receipts = rs, gr_review_object_ref = None, gr_custody_ref = None, gr_parent_ref = None,
      gr_retry_instruction = None, gr_diagnostic_code = diag, gr_cancellation_facts = None\<rparr>"

lemma respond_cases:
  assumes "gr_decision r = Some d" "decided_response_checks d r = Inr ()"
    and "case gr_diagnostic_code r of None \<Rightarrow> True | Some c \<Rightarrow> c \<in> set ALL_DIAGNOSTIC_CODES"
    and "gr_logical_call_id r = gr_request_ref r" "gr_custody_ref r = None" "gr_parent_ref r = None"
      "gr_retry_instruction r = None \<or> gr_retry_instruction r = Some DEFERRAL_CONTINUATION_CONTRACT"
    and "response_faithful rq tr r"
  shows "end_faithful rq tr (respond (Inr r))"
  using make_response_decided[OF assms(1-7)] assms(8)
  by (auto simp: respond_def end_faithful_def)

lemmas decision_simps = response_for_def make_governed_decision_def make_business_result_def
  NEUTRAL_DISPOSITIONS_def NEUTRAL_OUTCOMES_def

lemma cardinalities:
  "dget RECEIPT_CARDINALITY ''admitted'' = Some 2" "dget RECEIPT_CARDINALITY ''refused'' = Some 1"
  "dget RECEIPT_CARDINALITY ''deferred'' = Some 1"
  by code_simp+

lemma returned_faithful:
  assumes "executed tr cs" "handles cs = Inr rs" "map rh_receipt_id rs = receipt_ids tr"
  shows "end_faithful rq tr (classify_returned rq cs rs v)"
proof -
  have "length rs \<le> 2" using shape_kinds(1)[OF assms(1)] rmap_length[OF assms(2)]
    by (simp add: receipt_kinds_ok_def)
  moreover have "HandlerCalled \<in> set tr" using assms(1) by (simp add: executed_def)
  ultimately show ?thesis using assms(3)
    by (auto simp: classify_returned_def Let_def decision_simps cardinalities decided_response_checks_def
        response_faithful_def checks_Inr_iff intro!: respond_cases)
qed

lemma raised_faithful:
  assumes "executed tr cs \<or> stopped tr cs" "handles cs = Inr rs" "map rh_receipt_id rs = receipt_ids tr"
    and "is_exception e \<or> e = PyCancelled"
  shows "end_faithful rq tr (classify_raised rq cs rs e)"
proof (cases "e = PyCancelled")
  case True
  have "length rs \<le> 2" using shape_kinds assms(1) rmap_length[OF assms(2)]
    by (auto simp: receipt_kinds_ok_def)
  then show ?thesis using True assms(3)
    by (auto simp: classify_raised_def decision_simps cardinalities decided_response_checks_def
        response_faithful_def checks_Inr_iff ALL_DIAGNOSTIC_CODES_def GATEWAY_DIAGNOSTIC_CODES_def
        intro!: respond_cases)
next
  case False
  note simps = classify_raised_def decision_simps cardinalities decided_response_checks_def
    response_faithful_def checks_Inr_iff diagnostics_known ALL_DIAGNOSTIC_CODES_def
    GATEWAY_DIAGNOSTIC_CODES_def NEUTRAL_REFUSAL_GROUNDS_def
  show ?thesis
  proof (cases cs)
    case Nil
    then have "tr = [HandlerCalled] \<or> HandlerCalled \<notin> set tr" "receipt_ids tr = []"
      using assms by (auto simp: executed_def stopped_def)
    then show ?thesis using False Nil by (auto simp: simps intro!: respond_cases)
  next
    case (Cons a rest)
    from assms(1) show ?thesis
    proof
      assume x: "executed tr cs"
      then have "length rs \<le> 2" "HandlerCalled \<in> set tr" "ca_disposition a = Some ''admitted''"
        using shape_kinds(1)[OF x] rmap_length[OF assms(2)] Cons
        by (auto simp: receipt_kinds_ok_def executed_def)
      then show ?thesis using False Cons assms(3) by (auto simp: simps intro!: respond_cases)
    next
      assume x: "stopped tr cs"
      then have "length rs \<le> 1" "HandlerCalled \<notin> set tr"
        "ca_disposition a = Some ''refused'' \<or> ca_disposition a = Some ''deferred_for_review''"
        using shape_kinds(2)[OF x] rmap_length[OF assms(2)] Cons by (auto simp: stopped_def)
      then show ?thesis using False Cons assms(3) diagnostics_known(3)
        by (auto simp: classify_raised_def decision_simps cardinalities decided_response_checks_def
            response_faithful_def checks_Inr_iff intro!: respond_cases)
          (simp_all add: ALL_DIAGNOSTIC_CODES_def GATEWAY_DIAGNOSTIC_CODES_def)
    qed
  qed
qed

lemma unsupported_faithful:
  assumes "executed tr cs" "handles cs = Inr rs" "map rh_receipt_id rs = receipt_ids tr"
  shows "end_faithful rq tr (respond (response_for rq (make_governed_decision ''admitted'' None) rs
    (Some ''unsupported_lifecycle_state'')))"
proof -
  have "length rs \<le> 2" "HandlerCalled \<in> set tr"
    using shape_kinds(1)[OF assms(1)] rmap_length[OF assms(2)] assms(1)
    by (auto simp: receipt_kinds_ok_def executed_def)
  then show ?thesis using assms(3)
    by (auto simp: decision_simps cardinalities decided_response_checks_def response_faithful_def
        checks_Inr_iff ALL_DIAGNOSTIC_CODES_def GATEWAY_DIAGNOSTIC_CODES_def intro!: respond_cases)
qed

lemma refusal_faithful:
  "c \<in> set ALL_DIAGNOSTIC_CODES \<Longrightarrow> end_faithful rq [] (gateway_refusal rq c)"
  by (auto simp: gateway_refusal_def decision_simps cardinalities decided_response_checks_def
      response_faithful_def checks_Inr_iff intro!: respond_cases)

lemma finish_faithful:
  assumes "leaves s s' tr cs" "reported tr cs e"
  shows "end_faithful rq tr (fst (finish_call rq s (e, s')))" "snd (finish_call rq s (e, s')) = s'"
proof -
  have cs: "captured_in s s' = cs" "map ca_receipt_id cs = receipt_ids tr"
    using assms(1) by (simp_all add: leaves_def)
  have "executed tr cs \<or> stopped tr cs"
    using assms(2) by (auto simp: reported_def split: binding_end.splits)
  then have ok: "receipt_kinds_ok cs" using shape_kinds by blast
  have raised: "end_faithful rq tr (GatewayRaised x)" if "cs = [] \<or> \<not> is_exception x" for x
    using that cs by (auto simp: end_faithful_def)
  show "end_faithful rq tr (fst (finish_call rq s (e, s')))"
    using ok
  proof (cases rule: handles_cases)
    case bad
    then show ?thesis using cs raised
      by (auto simp: finish_call_def classify_call_def end_faithful_def split: binding_end.split)
  next
    case (ok rs)
    note ids = ok(2)[unfolded cs(2)]
    show ?thesis
    proof (cases e)
      case (EndReturned v)
      then show ?thesis using assms(2) cs ok returned_faithful[OF _ ok(1) ids]
        by (simp add: finish_call_def classify_call_def reported_def)
    next
      case EndTaskUnsupported
      then show ?thesis using assms(2) cs ok unsupported_faithful[OF _ ok(1) ids]
        by (simp add: finish_call_def reported_def)
    next
      case (EndRaised x)
      then show ?thesis using assms(2) cs ok raised[of x] raised_faithful[OF _ ok(1) ids, of x]
        by (auto simp: finish_call_def classify_call_def reported_def)
    qed
  qed
qed (simp add: finish_call_def Let_def)

lemma shaped_fresh: "shaped (fresh_adapter s) s' r = shaped s s' r"
  by (simp add: shaped_def leaves_def captured_in_def fresh_adapter_def)

lemma via_fastmcp_faithful:
  "\<exists>tr. mw_trace (snd (execute_via_fastmcp env rq args target s)) = mw_trace s @ tr
     \<and> end_faithful rq tr (fst (execute_via_fastmcp env rq args target s))"
proof -
  let ?msg = "\<lparr>cm_name = cq_tool_name (gq_caller rq), cm_arguments = VMap args, cm_meta = VNone,
    cm_request_id = None, cm_session_id = None\<rparr>"
  obtain r s' where run: "on_call_tool (fastmcp_env env rq) ?msg (fastmcp_handler (target args))
      (fresh_adapter s) = (r, s')" by fastforce
  obtain tr cs where "leaves s s' tr cs"
      "if from_handler r then executed tr cs else executed tr cs \<or> stopped tr cs"
    using on_call_tool_shaped[OF run, unfolded shaped_fresh, unfolded shaped_def] by blast
  note this(1) finish_faithful[OF this(1) fastmcp_reported[OF this(2)]]
  then show ?thesis unfolding execute_via_fastmcp_def Let_def run
    by (auto simp: leaves_def)
qed

lemma via_sdk_faithful:
  "\<exists>tr. mw_trace (snd (execute_via_sdk env rq args target s)) = mw_trace s @ tr
     \<and> end_faithful rq tr (fst (execute_via_sdk env rq args target s))"
proof -
  obtain r s' where run: "sdk_governed_call (official_env env rq) (cq_tool_name (gq_caller rq))
      (Some args) target None (fresh_adapter s) = (r, s')" by fastforce
  obtain tr cs where "leaves s s' tr cs"
      "if from_handler (mw_result_of r) then executed tr cs else executed tr cs \<or> stopped tr cs"
    using sdk_call_shaped[OF run, unfolded shaped_fresh, unfolded shaped_def] by blast
  note this(1) finish_faithful[OF this(1) official_reported[OF this(2)]]
  then show ?thesis unfolding execute_via_sdk_def Let_def run
    by (auto simp: leaves_def)
qed

section \<open>The gateway call\<close>

text \<open>The checks that come before a binding is driven.\<close>

definition gateway_ready :: "gateway_env \<Rightarrow> governed_call_request \<Rightarrow> pydict \<Rightarrow> bool" where
  "gateway_ready env rq arguments =
     (let cf = ge_config env; cq = gq_caller rq in
      (case freeze_arguments env arguments of
         Inl _ \<Rightarrow> False
       | Inr args \<Rightarrow> sha256_digest (ge_crypto env) (VMap args) = Inr (cq_argument_digest cq))
      \<and> (case select_binding (gc_binding_registry cf) (cq_binding_selector cq) (gc_available cf) of
           BindingHandle _ \<Rightarrow> True | _ \<Rightarrow> False)
      \<and> (case gc_resolve cf (cq_target_handle cq) (cq_tool_name cq) of
           Inl _ \<Rightarrow> False | Inr _ \<Rightarrow> True))"

text \<open>C1: A gateway response tells the truth about the call. The binding is driven, and the tool can
  only run, after the digest of the frozen arguments matched the request, the selector named an
  available binding and the target was found; otherwise nothing is written. A response echoes the
  request reference and lists exactly the receipts that were written, in order; it says admitted
  only if the tool was called or the call was cancelled, and otherwise the tool was not called,
  except for the fail-open read whose admission could not be written; a business result means that
  the tool was called. The response is rejected only for a blank reference, and an exception
  leaves the gateway only when no receipt was written or when it is no ordinary exception.\<close>
theorem gateway_call_faithful:
  "case execute_governed_call env rq arguments s of (out, s') \<Rightarrow>
     (\<exists>tr. mw_trace s' = mw_trace s @ tr \<and> end_faithful rq tr out
        \<and> (if gateway_ready env rq arguments then True else s' = s))"
proof -
  have refuse: "\<exists>tr. mw_trace s = mw_trace s @ tr \<and> end_faithful rq tr (gateway_refusal rq c)"
    if "c \<in> set ALL_DIAGNOSTIC_CODES" for c
    using refusal_faithful[OF that] by (intro exI[of _ "[]"]) simp
  have raise: "\<exists>tr. mw_trace s = mw_trace s @ tr \<and> end_faithful rq tr (GatewayRaised e)" for e
    by (intro exI[of _ "[]"]) (simp add: end_faithful_def)
  have known: "''malformed_request'' \<in> set ALL_DIAGNOSTIC_CODES"
    "select_binding reg key av = BindingRefused k c \<Longrightarrow> c \<in> set ALL_DIAGNOSTIC_CODES" for reg key av k c
    by (auto simp: select_binding_def ALL_DIAGNOSTIC_CODES_def GATEWAY_DIAGNOSTIC_CODES_def
        split: option.splits if_splits)
  show ?thesis
    using refuse raise known via_fastmcp_faithful via_sdk_faithful
    unfolding execute_governed_call_def gateway_ready_def Let_def prod.case_eq_if
    by (auto split: sum.split binding_resolution.split simp: rbind_Inr_iff rbind_Inl_iff)
qed

end
