(* ===== verification/ReceiptAccess.thy ===== *)
theory ReceiptAccess
  imports GatewayContract SdkSinks FastmcpTypes
begin

text \<open>Resolving a receipt handle to its verified envelope (\<^verbatim>\<open>src/dagr_mcp_service/access.py\<close>): the
  file source over the sink's directory, the checks of an envelope and the composition of an
  admission with its outcome. The JSON decoder, the RFC 8785 canonicalisation, the Ed25519
  verification, the reading of a time stamp and the provider are arguments.\<close>

section \<open>Diagnostics\<close>

definition RECEIPT_ACCESS_DIAGNOSTIC_CODES :: "token list" where
  "RECEIPT_ACCESS_DIAGNOSTIC_CODES =
     [''unknown_handle'', ''receipt_unavailable'', ''malformed_envelope'', ''schema_failure'',
      ''signature_failure'', ''identifier_mismatch'', ''family_mismatch'', ''association_mismatch'',
      ''access_unauthorized'', ''provider_failure'']"

section \<open>Providers and the file source\<close>

record access_context =
  xc_actor_ref :: "string option"
  xc_tenant_ref :: "string option"
  xc_request_ref :: "string option"

datatype 'b fetched = Fetched 'b | ReceiptNotFound | ReceiptSourceUnavailable | FetchRaises pyexc

type_synonym 'b provider = "receipt_handle \<Rightarrow> access_context \<Rightarrow> 'b fetched"

text \<open>What a directory entry is to \<^verbatim>\<open>os.open\<close> and \<^verbatim>\<open>os.fstat\<close>: a regular file with the size the
  status reports and the bytes the reads see, another kind of file, or one that does not open (a
  symbolic link under \<^verbatim>\<open>O_NOFOLLOW\<close>, a missing permission).\<close>

datatype dir_node = RegularFile nat string | OtherKind | Unopenable

text \<open>One \<^verbatim>\<open>os.read\<close> of a regular file gives at least one byte unless the file is at its end, and
  at most the bytes asked for; how many is the operating system's choice.\<close>

definition os_read :: "nat \<Rightarrow> nat \<Rightarrow> string \<Rightarrow> string" where
  "os_read available remaining content = take (min (max 1 available) remaining) content"

function read_loop :: "(nat \<Rightarrow> nat) \<Rightarrow> nat \<Rightarrow> nat \<Rightarrow> string \<Rightarrow> string list" where
  "read_loop avail i remaining content =
    (if remaining = 0 then []
     else let chunk = os_read (avail i) remaining content in
       if chunk = [] then []
       else chunk # read_loop avail (Suc i) (remaining - length chunk) (drop (length chunk) content))"
  by pat_completeness auto

termination
  by (relation "measure (\<lambda>(avail, i, remaining, content). remaining)") (auto simp: os_read_def)

declare read_loop.simps [simp del]

definition single_component :: "string \<Rightarrow> bool" where
  "single_component name = (CHR ''/'' \<notin> set name \<and> name \<noteq> [] \<and> name \<noteq> ''.'')"

definition filesystem_fetch :: "(nat \<Rightarrow> nat) \<Rightarrow> dir_node dict \<Rightarrow> string provider" where
  "filesystem_fetch avail dir handle ctx =
    (let filename = safe_sub False (rh_receipt_id handle) @ ''.json'' in
     if \<not> single_component filename then ReceiptNotFound
     else case dget dir filename of
         Some (RegularFile bytes content) \<Rightarrow> Fetched (concat (read_loop avail 0 bytes content))
       | _ \<Rightarrow> ReceiptNotFound)"

section \<open>Configuration\<close>

record 'b access_config =
  ac_provider :: "'b provider"
  ac_trust_bundle :: pyv
  ac_require_actor :: bool
  ac_require_tenant :: bool

record 'b access_tools =
  at_parse :: "'b \<Rightarrow> pyv option"
  at_canon :: "pyv \<Rightarrow> string option"
  at_verify :: "string \<Rightarrow> string \<Rightarrow> string \<Rightarrow> bool"
  at_instant :: "pyv \<Rightarrow> int option"

section \<open>The structural check\<close>

definition REQUIRED_BASE_FIELDS :: "string list" where
  "REQUIRED_BASE_FIELDS =
     [''receipt_version'', ''profile_id'', ''profile_version'', ''receipt_id'', ''receipt_type'',
      ''receipt_kind'', ''boundary_type'', ''protocol_binding'', ''subject_ref'', ''issuer_id'',
      ''runtime_instance_id'', ''boundary_id'', ''logical_call_id'', ''issued_at'',
      ''artifact_classes_covered'', ''artifact_classes_excluded'', ''attestation_limits'',
      ''retention_class_applied'', ''extensions'', ''receipt_signature'']"
definition REQUIRED_ADMISSION_FIELDS :: "string list" where
  "REQUIRED_ADMISSION_FIELDS =
     [''requested_tool_name'', ''tool_resolution_status'', ''argument_digest'', ''policy_pack_id'',
      ''policy_pack_version'', ''disposition'']"
definition REQUIRED_OUTCOME_FIELDS :: "string list" where
  "REQUIRED_OUTCOME_FIELDS = [''admission_receipt_ref'', ''outcome'']"
definition KNOWN_DISPOSITIONS :: "token list" where
  "KNOWN_DISPOSITIONS = [''admitted'', ''refused'', ''deferred_for_review'']"
definition KNOWN_OUTCOMES :: "token list" where
  "KNOWN_OUTCOMES =
     [''result_returned'', ''error_returned'', ''exception'', ''task_submitted'', ''indeterminate'']"
definition SIGNATURE_MEMBERS :: "string list" where
  "SIGNATURE_MEMBERS = [''algorithm'', ''canonicalization'', ''key_id'', ''signature'']"

text \<open>Membership of a value in a \<^verbatim>\<open>frozenset\<close> of strings, which raises on an unhashable value.\<close>

fun hashable :: "pyv \<Rightarrow> bool" where
  "hashable (VList _) = False"
| "hashable (VMap _) = False"
| "hashable (VTuple xs) = list_all hashable xs"
| "hashable _ = True"

abbreviation type_error :: pyexc where "type_error \<equiv> PyException ''TypeError''"

definition in_frozenset :: "pyv \<Rightarrow> string list \<Rightarrow> (pyexc, bool) result" where
  "in_frozenset v names =
     (if \<not> hashable v then Inl type_error
      else Inr (case v of VStr s \<Rightarrow> s \<in> set names | _ \<Rightarrow> False))"

abbreviation env_get :: "pydict \<Rightarrow> string \<Rightarrow> pyv" where
  "env_get env k \<equiv> payload_get env k VNone"

definition lacks :: "pydict \<Rightarrow> string list \<Rightarrow> bool" where
  "lacks env names = list_ex (\<lambda>f. f \<notin> set (dkeys env)) names"

definition signature_shape_error :: "pydict \<Rightarrow> bool" where
  "signature_shape_error env =
     (case env_get env ''receipt_signature'' of
        VMap sg \<Rightarrow>
          set (dkeys sg) \<noteq> set SIGNATURE_MEMBERS
          \<or> env_get sg ''algorithm'' \<noteq> VStr ''Ed25519''
          \<or> env_get sg ''canonicalization'' \<noteq> VStr ''RFC8785-JCS''
      | _ \<Rightarrow> True)"

definition profile_constants :: "(string \<times> string) list" where
  "profile_constants =
     [(''receipt_version'', RECEIPT_VERSION), (''profile_id'', PROFILE_ID),
      (''profile_version'', PROFILE_VERSION), (''receipt_type'', ''sdk_enforcement''),
      (''boundary_type'', ''mcp_tool_call''), (''protocol_binding'', ''mcp'')]"

definition kind_shape_error :: "pydict \<Rightarrow> (pyexc, bool) result" where
  "kind_shape_error env =
    (if env_get env ''receipt_kind'' = VStr ''admission'' then
       (if lacks env REQUIRED_ADMISSION_FIELDS then Inr True
        else rbind (in_frozenset (env_get env ''disposition'') KNOWN_DISPOSITIONS) (\<lambda>ok. Inr (\<not> ok)))
     else if env_get env ''receipt_kind'' = VStr ''outcome'' then
       (if lacks env REQUIRED_OUTCOME_FIELDS then Inr True
        else rbind (in_frozenset (env_get env ''outcome'') KNOWN_OUTCOMES) (\<lambda>ok. Inr (\<not> ok)))
     else Inr True)"

definition envelope_schema_error :: "pydict \<Rightarrow> (pyexc, bool) result" where
  "envelope_schema_error env =
    (if lacks env REQUIRED_BASE_FIELDS then Inr True
     else if list_ex (\<lambda>(k, c). env_get env k \<noteq> VStr c) profile_constants then Inr True
     else rbind (kind_shape_error env)
       (\<lambda>bad. Inr (bad \<or> signature_shape_error env)))"

section \<open>The signature\<close>

text \<open>\<^verbatim>\<open>base64.urlsafe_b64decode\<close> of the padded text: the decoder skips characters outside the
  alphabet, takes both spellings of the last two digits, stops at a complete padding and raises
  on an incomplete group.\<close>

definition b64_value :: "char \<Rightarrow> nat option" where
  "b64_value c = (let n = of_char c :: nat in
     if 65 \<le> n \<and> n \<le> 90 then Some (n - 65)
     else if 97 \<le> n \<and> n \<le> 122 then Some (n - 71)
     else if 48 \<le> n \<and> n \<le> 57 then Some (n + 4)
     else if c = CHR ''-'' \<or> c = CHR ''+'' then Some 62
     else if c = CHR ''_'' \<or> c = CHR ''/'' then Some 63 else None)"

definition emit_byte :: "nat \<Rightarrow> string option \<Rightarrow> string option" where
  "emit_byte n rest = map_option ((#) (char_of n)) rest"

fun a2b_base64 :: "nat \<Rightarrow> nat \<Rightarrow> nat \<Rightarrow> string \<Rightarrow> string option" where
  "a2b_base64 quad left pads [] = (if quad = 0 then Some [] else None)"
| "a2b_base64 quad left pads (c # cs) =
    (if c = CHR ''='' then
       (if 2 \<le> quad \<and> 4 \<le> quad + Suc pads then Some []
        else a2b_base64 quad left (if 2 \<le> quad then Suc pads else pads) cs)
     else case b64_value c of
         None \<Rightarrow> a2b_base64 quad left pads cs
       | Some v \<Rightarrow>
           (if quad = 0 then a2b_base64 1 v 0 cs
            else if quad = 1 then emit_byte (left * 4 + v div 16) (a2b_base64 2 (v mod 16) 0 cs)
            else if quad = 2 then emit_byte (left * 16 + v div 4) (a2b_base64 3 (v mod 4) 0 cs)
            else emit_byte (left * 64 + v) (a2b_base64 0 0 0 cs)))"

definition b64_pad :: "string \<Rightarrow> string" where
  "b64_pad s = s @ replicate ((4 - length s mod 4) mod 4) (CHR ''='')"

definition b64url_decode :: "pyv \<Rightarrow> string option" where
  "b64url_decode v =
    (case v of
       VStr s \<Rightarrow>
         if s = [] \<or> list_ex (\<lambda>c. (of_char c :: nat) \<ge> 128) s then None
         else a2b_base64 0 0 0 (b64_pad s)
     | _ \<Rightarrow> None)"

text \<open>The issuer entries of a bundle, where iterating over a number or an object raises.\<close>

definition bundle_entries :: "pyv \<Rightarrow> (pyexc, pydict list) result" where
  "bundle_entries bundle =
    (case bundle of
       VMap b \<Rightarrow>
        (let issuers = env_get b ''issuers'';
             maps = (\<lambda>xs. concat (map (\<lambda>x. case x of VMap m \<Rightarrow> [m] | _ \<Rightarrow> []) xs)) in
         if \<not> truthy issuers then Inr []
         else case issuers of
             VList xs \<Rightarrow> Inr (maps xs)
           | VTuple xs \<Rightarrow> Inr (maps xs)
           | VStr _ \<Rightarrow> Inr [] | VBytes _ \<Rightarrow> Inr [] | VMap _ \<Rightarrow> Inr []
           | _ \<Rightarrow> Inl type_error)
     | _ \<Rightarrow> Inr [])"

definition signature_field :: "pydict \<Rightarrow> string \<Rightarrow> pyv" where
  "signature_field env k =
     (case env_get env ''receipt_signature'' of VMap sg \<Rightarrow> env_get sg k | _ \<Rightarrow> VNone)"

definition access_preimage :: "pydict \<Rightarrow> pydict" where
  "access_preimage env =
     (case env_get env ''receipt_signature'' of
        VMap sg \<Rightarrow> dset ''receipt_signature'' (VMap (filter (\<lambda>(k, v). k \<noteq> ''signature'') sg)) env
      | _ \<Rightarrow> env)"

definition trust_window_ok :: "'b access_tools \<Rightarrow> pydict \<Rightarrow> pydict \<Rightarrow> bool" where
  "trust_window_ok tools env issuer =
    (env_get issuer ''trusted'' = VBool True
     \<and> py_eq (env_get issuer ''issuer_id'') (env_get env ''issuer_id'')
     \<and> (case (at_instant tools (env_get env ''issued_at''),
              dget issuer ''not_before'', dget issuer ''not_after'') of
          (Some t, Some nb, Some na) \<Rightarrow>
            (case (at_instant tools nb, at_instant tools na) of
               (Some t0, Some t1) \<Rightarrow> t0 \<le> t \<and> t \<le> t1 | _ \<Rightarrow> False)
        | _ \<Rightarrow> False))"

definition issuer_accepts :: "'b access_tools \<Rightarrow> pydict \<Rightarrow> pydict \<Rightarrow> bool" where
  "issuer_accepts tools env issuer =
     (case (b64url_decode (env_get issuer ''public_key''),
            b64url_decode (signature_field env ''signature'')) of
        (Some key, Some sig) \<Rightarrow>
          if length key \<noteq> 32 \<or> length sig \<noteq> 64 then False
          else (case at_canon tools (VMap (access_preimage env)) of
              None \<Rightarrow> False
            | Some text \<Rightarrow> at_verify tools key sig text \<and> trust_window_ok tools env issuer)
      | _ \<Rightarrow> False)"

definition signature_valid :: "'b access_tools \<Rightarrow> pydict \<Rightarrow> pyv \<Rightarrow> (pyexc, bool) result" where
  "signature_valid tools env bundle =
     rbind (bundle_entries bundle) (\<lambda>entries.
       Inr (case filter (\<lambda>e. py_eq (env_get e ''key_id'') (signature_field env ''key_id'')) entries of
              [issuer] \<Rightarrow> issuer_accepts tools env issuer
            | _ \<Rightarrow> False))"

section \<open>Verification of an envelope\<close>

datatype verification = EnvelopeOk pydict | EnvelopeBad token

definition verify_and_parse_envelope ::
  "'b access_tools \<Rightarrow> 'b \<Rightarrow> receipt_handle \<Rightarrow> pyv \<Rightarrow> (pyexc, verification) result" where
  "verify_and_parse_envelope tools raw handle bundle =
    (case at_parse tools raw of
       Some (VMap env) \<Rightarrow>
         rbind (envelope_schema_error env) (\<lambda>bad.
           if bad then Inr (EnvelopeBad ''schema_failure'')
           else case enforce_raw_content_exclusion (VMap env) of
               Inl _ \<Rightarrow> Inr (EnvelopeBad ''schema_failure'')
             | Inr _ \<Rightarrow>
                 rbind (signature_valid tools env bundle) (\<lambda>valid.
                   if \<not> valid then Inr (EnvelopeBad ''signature_failure'')
                   else if env_get env ''receipt_id'' \<noteq> VStr (rh_receipt_id handle)
                   then Inr (EnvelopeBad ''identifier_mismatch'')
                   else if env_get env ''receipt_kind'' \<noteq> VStr (rh_receipt_kind handle)
                   then Inr (EnvelopeBad ''family_mismatch'')
                   else Inr (EnvelopeOk env)))
     | _ \<Rightarrow> Inr (EnvelopeBad ''malformed_envelope''))"

section \<open>Results\<close>

record verified_receipt =
  vr_handle :: receipt_handle
  vr_envelope :: pydict

record access_result =
  ar_handle :: receipt_handle
  ar_verified :: "verified_receipt option"
  ar_diagnostic :: "token option"

abbreviation value_error :: pyexc where "value_error \<equiv> PyException ''ValueError''"

definition make_access_result :: "access_result \<Rightarrow> (pyexc, access_result) result" where
  "make_access_result r =
     rbind (checks [require ((ar_verified r = None) \<noteq> (ar_diagnostic r = None)) value_error,
             require (case ar_diagnostic r of None \<Rightarrow> True
                      | Some c \<Rightarrow> c \<in> set RECEIPT_ACCESS_DIAGNOSTIC_CODES) value_error,
             require (case ar_verified r of None \<Rightarrow> True
                      | Some v \<Rightarrow> vr_handle v = ar_handle r) value_error])
       (\<lambda>_. Inr r)"

record composition =
  co_logical_call_id :: string
  co_admission :: "verified_receipt option"
  co_outcome :: "verified_receipt option"
  co_diagnostic :: "token option"

definition of_kind :: "token \<Rightarrow> verified_receipt option \<Rightarrow> bool" where
  "of_kind kind v = (case v of None \<Rightarrow> True | Some r \<Rightarrow> rh_receipt_kind (vr_handle r) = kind)"

definition make_composition :: "composition \<Rightarrow> (pyexc, composition) result" where
  "make_composition c =
     rbind (checks [require (case co_diagnostic c of None \<Rightarrow> True
                      | Some d \<Rightarrow> d \<in> set RECEIPT_ACCESS_DIAGNOSTIC_CODES) value_error,
             require (of_kind ''admission'' (co_admission c)) value_error,
             require (of_kind ''outcome'' (co_outcome c)) value_error])
       (\<lambda>_. Inr c)"

section \<open>Resolving one handle\<close>

definition diagnosed :: "receipt_handle \<Rightarrow> token \<Rightarrow> (pyexc, access_result) result" where
  "diagnosed handle code =
     make_access_result \<lparr>ar_handle = handle, ar_verified = None, ar_diagnostic = Some code\<rparr>"

definition verified_result :: "receipt_handle \<Rightarrow> pydict \<Rightarrow> (pyexc, access_result) result" where
  "verified_result handle env =
     make_access_result
       \<lparr>ar_handle = handle, ar_verified = Some \<lparr>vr_handle = handle, vr_envelope = env\<rparr>,
        ar_diagnostic = None\<rparr>"

text \<open>A reference of the context contradicts the envelope's field, when both are there.\<close>

definition contradicts :: "string option \<Rightarrow> pydict \<Rightarrow> string \<Rightarrow> bool" where
  "contradicts x env field =
     (case x of None \<Rightarrow> False
      | Some s \<Rightarrow> env_get env field \<noteq> VNone \<and> env_get env field \<noteq> VStr s)"

definition resolve_receipt ::
  "'b access_tools \<Rightarrow> 'b access_config \<Rightarrow> access_context option \<Rightarrow> receipt_handle
    \<Rightarrow> (pyexc, access_result) result" where
  "resolve_receipt tools cf cx handle =
    (let ctx = (case cx of Some c \<Rightarrow> c
                | None \<Rightarrow> \<lparr>xc_actor_ref = None, xc_tenant_ref = None, xc_request_ref = None\<rparr>) in
     if ac_require_actor cf \<and> xc_actor_ref ctx = None then diagnosed handle ''access_unauthorized''
     else if ac_require_tenant cf \<and> xc_tenant_ref ctx = None
     then diagnosed handle ''access_unauthorized''
     else case ac_provider cf handle ctx of
         ReceiptNotFound \<Rightarrow> diagnosed handle ''unknown_handle''
       | ReceiptSourceUnavailable \<Rightarrow> diagnosed handle ''receipt_unavailable''
       | FetchRaises e \<Rightarrow> if is_exception e then diagnosed handle ''provider_failure'' else Inl e
       | Fetched raw \<Rightarrow>
           rbind (verify_and_parse_envelope tools raw handle (ac_trust_bundle cf)) (\<lambda>v.
             case v of
               EnvelopeBad code \<Rightarrow> diagnosed handle code
             | EnvelopeOk env \<Rightarrow>
                 if contradicts (xc_actor_ref ctx) env ''actor_ref''
                    \<or> contradicts (xc_tenant_ref ctx) env ''tenant_id''
                    \<or> contradicts (xc_request_ref ctx) env ''logical_call_id''
                 then diagnosed handle ''association_mismatch''
                 else verified_result handle env))"

section \<open>Composing an admission with its outcome\<close>

definition compose_failed :: "string \<Rightarrow> token \<Rightarrow> (pyexc, composition) result" where
  "compose_failed call code =
     make_composition \<lparr>co_logical_call_id = call, co_admission = None, co_outcome = None,
                       co_diagnostic = Some code\<rparr>"

definition linked_fields :: "string list" where
  "linked_fields = [''runtime_instance_id'', ''boundary_id'', ''actor_ref'', ''tenant_id'']"

text \<open>The cross-checks of the two envelopes.\<close>

definition envelopes_agree ::
  "string \<Rightarrow> string option \<Rightarrow> pydict option \<Rightarrow> pydict option \<Rightarrow> bool" where
  "envelopes_agree call parent adm outc =
    (\<not> (outc \<noteq> None \<and> adm = None)
     \<and> list_all (\<lambda>e. case e of None \<Rightarrow> True
                     | Some env \<Rightarrow> env_get env ''logical_call_id'' = VStr call) [adm, outc]
     \<and> (case (parent, adm) of
          (Some p, Some env) \<Rightarrow> env_get env ''parent_receipt_ref'' = VStr p | _ \<Rightarrow> True)
     \<and> (case (adm, outc) of
          (Some a, Some b) \<Rightarrow>
            py_eq (env_get b ''admission_receipt_ref'') (env_get a ''receipt_id'')
            \<and> list_all (\<lambda>f. py_eq (env_get a f) (env_get b f)) linked_fields
        | _ \<Rightarrow> True))"

definition compose_receipts ::
  "'b access_tools \<Rightarrow> 'b access_config \<Rightarrow> access_context option \<Rightarrow> receipt_handle list
    \<Rightarrow> string \<Rightarrow> string option \<Rightarrow> (pyexc, composition) result" where
  "compose_receipts tools cf cx handles call parent =
    (let admissions = filter (\<lambda>h. rh_receipt_kind h = ''admission'') handles;
         outcomes = filter (\<lambda>h. rh_receipt_kind h = ''outcome'') handles;
         resolve = (\<lambda>hs. case hs of [] \<Rightarrow> Inr None
           | h # _ \<Rightarrow> rbind (resolve_receipt tools cf cx h) (\<lambda>r. Inr (Some r))) in
     if blank call then Inl value_error
     else if length admissions > 1 \<or> length outcomes > 1 then compose_failed call ''family_mismatch''
     else rbind (resolve admissions) (\<lambda>adm.
       case Option.bind adm ar_diagnostic of
         Some code \<Rightarrow> compose_failed call code
       | None \<Rightarrow> rbind (resolve outcomes) (\<lambda>outc.
           case Option.bind outc ar_diagnostic of
             Some code \<Rightarrow> compose_failed call code
           | None \<Rightarrow>
              (let a = Option.bind adm ar_verified; b = Option.bind outc ar_verified in
               if \<not> envelopes_agree call parent (map_option vr_envelope a) (map_option vr_envelope b)
               then compose_failed call ''association_mismatch''
               else make_composition \<lparr>co_logical_call_id = call, co_admission = a, co_outcome = b,
                                      co_diagnostic = None\<rparr>))))"

definition access_governed_call_receipts ::
  "'b access_tools \<Rightarrow> 'b access_config \<Rightarrow> access_context option \<Rightarrow> 'p governed_response
    \<Rightarrow> (pyexc, composition) result" where
  "access_governed_call_receipts tools cf cx r =
     compose_receipts tools cf cx (gr_receipts r) (gr_logical_call_id r) (gr_parent_ref r)"

end
