(* ===== verification/ReceiptAccessFacts.thy ===== *)
theory ReceiptAccessFacts
  imports ReceiptAccess SrsEmissionFacts
begin

text \<open>What a resolved receipt is known to be: verified against the trust bundle and bound to its
  handle, the round trip from the emitter through the file sink and back, the file source that
  never leaves its root, and compositions that prove their admission.\<close>

section \<open>Base 64\<close>

lemma b64_char_code:
  "n < 64 \<Longrightarrow> (of_char (b64_char n) :: nat) = (if n < 26 then 65 + n else if n < 52 then 71 + n
     else if n < 62 then n - 4 else if n = 62 then 45 else 95)"
  by (simp add: b64_char_def)

lemma b64_value_char:
  assumes "n < 64"
  shows "b64_value (b64_char n) = Some n" "b64_char n \<noteq> CHR ''=''"
    "(of_char (b64_char n) :: nat) < 128"
proof -
  have eq: "b64_char n = c \<longleftrightarrow> (of_char (b64_char n) :: nat) = of_char c" for c by simp
  show "b64_value (b64_char n) = Some n"
    using assms unfolding b64_value_def Let_def eq b64_char_code[OF assms] by auto
  show "b64_char n \<noteq> CHR ''=''" "(of_char (b64_char n) :: nat) < 128"
    using assms unfolding eq b64_char_code[OF assms] by auto
qed

lemma of_char_bound: "(of_char c :: nat) < 256"
  using of_char_mod_256[of c, where 'a = nat] by (metis mod_less_divisor zero_less_numeral)

lemma a2b_step:
  "n < 64 \<Longrightarrow> a2b_base64 q l p (b64_char n # cs) =
     (if q = 0 then a2b_base64 1 n 0 cs
      else if q = 1 then emit_byte (l * 4 + n div 16) (a2b_base64 2 (n mod 16) 0 cs)
      else if q = 2 then emit_byte (l * 16 + n div 4) (a2b_base64 3 (n mod 4) 0 cs)
      else emit_byte (l * 64 + n) (a2b_base64 0 0 0 cs))"
  using b64_value_char[of n] by simp

declare a2b_base64.simps(2) [simp del]

lemma a2b_pad:
  "a2b_base64 2 l 0 ''=='' = Some []" "a2b_base64 3 l 0 ''='' = Some []"
  by (simp_all add: a2b_base64.simps(2))

text \<open>The four digits of three bytes, as quotients and remainders of the bytes.\<close>

lemma quot_rem: "(a::nat) = m * q + r \<Longrightarrow> r < m \<Longrightarrow> a div m = q \<and> a mod m = r"
  by simp

lemma byte_parts:
  fixes x :: nat
  assumes "x < 256" "0 < m"
  obtains q r where "x = m * q + r" "r < m" "m * q < 256"
  using that[of "x div m" "x mod m"] assms mod_less_divisor[of m x]
  by (metis div_mult_mod_eq le_add1 le_less_trans mult.commute)

lemma sextets:
  fixes x y z :: nat
  assumes "x < 256" "y < 256" "z < 256"
  defines "n \<equiv> (x * 256 + y) * 256 + z"
  shows "n div 262144 = x div 4" "n div 4096 mod 64 = x mod 4 * 16 + y div 16"
    "n div 64 mod 64 = y mod 16 * 4 + z div 64" "n mod 64 = z mod 64"
proof -
  obtain p q where x: "x = 4 * p + q" "q < 4" by (rule byte_parts[OF assms(1), of 4]) simp_all
  obtain r s where y: "y = 16 * r + s" "s < 16" by (rule byte_parts[OF assms(2), of 16]) simp_all
  obtain t u where z: "z = 64 * t + u" "u < 64" by (rule byte_parts[OF assms(3), of 64]) simp_all
  have lt: "r < 16" "t < 4" using assms y z by auto
  have "n div 262144 = p \<and> n mod 262144 = q * 65536 + y * 256 + z"
    by (rule quot_rem) (use x assms in \<open>simp_all add: n_def\<close>)
  then show "n div 262144 = x div 4" using x by simp
  have "n div 4096 = 64 * p + (q * 16 + r) \<and> n mod 4096 = s * 256 + z"
    by (rule quot_rem) (use x y assms in \<open>simp_all add: n_def\<close>)
  moreover have "(64 * p + (q * 16 + r)) div 64 = p \<and> (64 * p + (q * 16 + r)) mod 64 = q * 16 + r"
    by (rule quot_rem) (use x lt in simp_all)
  ultimately show "n div 4096 mod 64 = x mod 4 * 16 + y div 16" using x y by simp
  have "n div 64 = 64 * (x * 16 + r) + (s * 4 + t) \<and> n mod 64 = u"
    by (rule quot_rem) (use y z in \<open>simp_all add: n_def\<close>)
  moreover have "(64 * (x * 16 + r) + (s * 4 + t)) div 64 = x * 16 + r
      \<and> (64 * (x * 16 + r) + (s * 4 + t)) mod 64 = s * 4 + t"
    by (rule quot_rem) (use y lt in simp_all)
  ultimately show "n div 64 mod 64 = y mod 16 * 4 + z div 64" "n mod 64 = z mod 64"
    using y z by simp_all
qed

lemma digit_bounds:
  fixes x y z :: nat
  assumes "x < 256" "y < 256" "z < 256"
  shows "x div 4 < 64" "x mod 4 * 16 + y div 16 < 64" "y mod 16 * 4 + z div 64 < 64" "z mod 64 < 64"
proof -
  have "x mod 4 < 4" "y mod 16 < 16" "y div 16 < 16" "z div 64 < 4" "x div 4 < 64"
    using assms by auto
  then show "x div 4 < 64" "x mod 4 * 16 + y div 16 < 64" "y mod 16 * 4 + z div 64 < 64" "z mod 64 < 64"
    by linarith+
qed

lemma regroup:
  fixes x y z :: nat
  assumes "y < 256" "z < 256"
  shows "x div 4 * 4 + (x mod 4 * 16 + y div 16) div 16 = x"
    "(x mod 4 * 16 + y div 16) mod 16 * 16 + (y mod 16 * 4 + z div 64) div 4 = y"
    "(y mod 16 * 4 + z div 64) mod 4 * 64 + z mod 64 = z"
proof -
  have b: "y div 16 < 16" "z div 64 < 4" using assms by auto
  have "(x mod 4 * 16 + y div 16) div 16 = x mod 4 \<and> (x mod 4 * 16 + y div 16) mod 16 = y div 16"
    by (rule quot_rem) (use b in simp_all)
  moreover have "(y mod 16 * 4 + z div 64) div 4 = y mod 16 \<and> (y mod 16 * 4 + z div 64) mod 4 = z div 64"
    by (rule quot_rem) (use b in simp_all)
  ultimately show "x div 4 * 4 + (x mod 4 * 16 + y div 16) div 16 = x"
    "(x mod 4 * 16 + y div 16) mod 16 * 16 + (y mod 16 * 4 + z div 64) div 4 = y"
    "(y mod 16 * 4 + z div 64) mod 4 * 64 + z mod 64 = z" by simp_all
qed

lemma decode_three:
  assumes "x < 256" "y < 256" "z < 256"
  defines "n \<equiv> (x * 256 + y) * 256 + z"
  shows "a2b_base64 0 0 0 (b64_char (n div 262144) # b64_char (n div 4096 mod 64)
      # b64_char (n div 64 mod 64) # b64_char (n mod 64) # cs)
    = map_option (\<lambda>r. char_of x # char_of y # char_of z # r) (a2b_base64 0 0 0 cs)"
proof -
  have "y div 16 < 16" "z div 64 < 4" using assms by auto
  then show ?thesis
    unfolding n_def sextets[OF assms(1-3)] using digit_bounds[OF assms(1-3)]
    by (simp add: a2b_step emit_byte_def option.map_comp comp_def)
qed

lemma decode_two:
  assumes "x < 256" "y < 256"
  defines "n \<equiv> (x * 256 + y) * 4"
  shows "a2b_base64 0 0 0 (b64_char (n div 4096) # b64_char (n div 64 mod 64) # b64_char (n mod 64) # ''='')
    = Some [char_of x, char_of y]"
proof -
  have z: "(0::nat) < 256" by simp
  have n: "(x * 256 + y) * 256 + 0 = n * 64" by (simp add: n_def)
  have "n div 4096 = n * 64 div 262144" "n div 64 mod 64 = n * 64 div 4096 mod 64"
    "n mod 64 = n * 64 div 64 mod 64" by (simp_all add: div_mult2_eq[of _ 64 64, simplified]
      div_mult2_eq[of _ 64 4096, simplified])
  then show ?thesis
    using sextets[OF assms(1,2) z, unfolded n] digit_bounds[OF assms(1,2) z] regroup[OF assms(2) z]
    by (simp add: a2b_step a2b_pad emit_byte_def)
qed

lemma decode_one:
  assumes "x < 256"
  shows "a2b_base64 0 0 0 (b64_char (x * 16 div 64) # b64_char (x * 16 mod 64) # ''=='')
    = Some [char_of x]"
proof -
  have z: "(0::nat) < 256" by simp
  obtain p q where x: "x = 4 * p + q" "q < 4" by (rule byte_parts[OF assms, of 4]) simp_all
  have "x * 16 div 64 = p \<and> x * 16 mod 64 = q * 16" by (rule quot_rem) (use x in simp_all)
  then show ?thesis using x digit_bounds[OF assms z z]
    by (simp add: a2b_step a2b_pad emit_byte_def)
qed

abbreviation b64_padding :: "string \<Rightarrow> string" where
  "b64_padding t \<equiv> replicate ((4 - length t mod 4) mod 4) (CHR ''='')"

lemma b64_padding_cases:
  "b64_padding [a, b] = ''==''" "b64_padding [a, b, c] = ''=''"
  "b64_padding (a # b # c # d # t) = b64_padding t"
  by (simp_all add: numeral_2_eq_2)

lemma decode_encoded:
  "a2b_base64 0 0 0 (b64url_encode s @ b64_padding (b64url_encode s)) = Some s"
proof (induction s rule: b64url_encode.induct)
  case (2 a)
  then show ?case using decode_one[OF of_char_bound[of a]]
    unfolding b64url_encode.simps Let_def b64_padding_cases by simp
next
  case (3 a b)
  then show ?case using decode_two[OF of_char_bound[of a] of_char_bound[of b]]
    unfolding b64url_encode.simps Let_def b64_padding_cases by simp
next
  case (4 a b c rest)
  then show ?case
    using decode_three[OF of_char_bound[of a] of_char_bound[of b] of_char_bound[of c]]
    unfolding b64url_encode.simps Let_def append_Cons b64_padding_cases by simp
qed simp

lemma b64url_encode_ascii: "list_all (\<lambda>c. (of_char c :: nat) < 128) (b64url_encode s)"
proof -
  have "(of_char (b64_char n) :: nat) < 128" for n by (auto simp: b64_char_def)
  then show ?thesis by (induction s rule: b64url_encode.induct) (simp_all add: Let_def)
qed

lemma b64url_decode_encode:
  assumes "s \<noteq> []"
  shows "b64url_decode (VStr (b64url_encode s)) = Some s"
proof -
  have "b64url_encode s \<noteq> []"
    using assms by (cases s rule: b64url_encode.cases) (simp_all add: Let_def)
  then show ?thesis using decode_encoded[of s] b64url_encode_ascii[of s]
    by (auto simp: b64url_decode_def b64_pad_def list_all_iff list_ex_iff not_le)
qed

section \<open>The file source\<close>

lemma os_read_length:
  "length (os_read a n c) = min (min (max 1 a) n) (length c)"
  by (simp add: os_read_def min.commute)

lemma os_read_append: "os_read a n c @ drop (length (os_read a n c)) c = c"
  by (simp add: os_read_def min_def)

text \<open>Whatever portions the operating system serves, the loop ends after at most as many reads as
  the file has bytes and gives back the bytes of the file up to the size it was asked for.\<close>

lemma read_loop_exact:
  "concat (read_loop avail i n c) = take n c \<and> length (read_loop avail i n c) \<le> min n (length c)"
proof (induction avail i n c rule: read_loop.induct)
  case (1 avail i n c)
  let ?chunk = "os_read (avail i) n c"
  show ?case
  proof (cases "n = 0 \<or> ?chunk = []")
    case True
    then show ?thesis by (auto simp: read_loop.simps[of avail i n c] Let_def os_read_def)
  next
    case False
    have ne: "n \<noteq> 0" "?chunk \<noteq> []" using False by auto
    have pos: "0 < length ?chunk" using ne(2) by (rule length_greater_0_conv[THEN iffD2])
    have len: "length ?chunk \<le> n" "length ?chunk \<le> length c" by (simp_all add: os_read_length)
    have "take n c = take n (?chunk @ drop (length ?chunk) c)" by (simp only: os_read_append)
    also have "\<dots> = ?chunk @ take (n - length ?chunk) (drop (length ?chunk) c)" using len by simp
    finally have "take n c = ?chunk @ take (n - length ?chunk) (drop (length ?chunk) c)" .
    moreover have "read_loop avail i n c
        = ?chunk # read_loop avail (Suc i) (n - length ?chunk) (drop (length ?chunk) c)"
      using ne by (simp add: read_loop.simps[of avail i n c] Let_def)
    moreover note rest = 1[OF ne(1) refl ne(2)]
    ultimately have cat: "concat (read_loop avail i n c) = take n c"
      and "length (read_loop avail i n c) \<le> Suc (min (n - length ?chunk) (length c - length ?chunk))"
      by simp_all
    then have "length (read_loop avail i n c) \<le> min n (length c)" using pos len by linarith
    with cat show ?thesis by simp
  qed
qed

lemma safe_sub_chars: "list_all (\<lambda>c. safe_char c \<or> c = CHR ''_'') (safe_sub b s)"
  by (induction b s rule: safe_sub.induct) auto

lemma receipt_filename_single: "single_component (receipt_filename rid)"
proof -
  have "\<not> safe_char (CHR ''/'')" by (simp add: safe_char_def)
  then have "CHR ''/'' \<notin> set (safe_sub False rid)"
    using safe_sub_chars[of False rid] by (auto simp: list_all_iff)
  then show ?thesis by (cases "safe_sub False rid") (auto simp: single_component_def receipt_filename_def)
qed

lemma file_source_shape:
  "filesystem_fetch avail dir handle ctx =
      (case dget dir (receipt_filename (rh_receipt_id handle)) of
         Some (RegularFile bytes content) \<Rightarrow> Fetched (take bytes content) | _ \<Rightarrow> ReceiptNotFound)"
  using receipt_filename_single[of "rh_receipt_id handle"] read_loop_exact[of avail 0]
  by (simp add: receipt_filename_def filesystem_fetch_def Let_def split: option.split dir_node.split)

text \<open>C6: The file source reads one file of its root and nothing else. The name it opens is a
  single path component, never a separator, a dot or two dots, so the check after it cannot fail;
  a regular file of that name gives its first bytes, as many as its status reported, however the
  operating system portions the reads and after at most that many reads; anything else is
  reported as not found, as if it were absent.\<close>
theorem file_source_confined:
  "let name = receipt_filename (rh_receipt_id handle) in
   CHR ''/'' \<notin> set name \<and> name \<noteq> ''.'' \<and> name \<noteq> ''..''
   \<and> filesystem_fetch avail dir handle ctx =
      (case dget dir name of
         Some (RegularFile bytes content) \<Rightarrow> Fetched (take bytes content) | _ \<Rightarrow> ReceiptNotFound)
   \<and> (case dget dir name of
         Some (RegularFile bytes content) \<Rightarrow> length (read_loop avail 0 bytes content) \<le> bytes
       | _ \<Rightarrow> True)"
  using receipt_filename_single[of "rh_receipt_id handle"] read_loop_exact[of avail 0]
    file_source_shape[of avail dir handle ctx]
  by (cases "safe_sub False (rh_receipt_id handle)")
     (auto simp: single_component_def receipt_filename_def split: option.split dir_node.split)

section \<open>Results\<close>

lemma py_eq_str [simp]: "py_eq v (VStr s) = (v = VStr s)" "py_eq (VStr s) v = (v = VStr s)"
  by (cases v; auto simp: py_eq_def)+

lemma diagnosed_ok:
  "code \<in> set RECEIPT_ACCESS_DIAGNOSTIC_CODES \<Longrightarrow>
     diagnosed h code = Inr \<lparr>ar_handle = h, ar_verified = None, ar_diagnostic = Some code\<rparr>"
  by (simp add: diagnosed_def make_access_result_def)

lemma verified_result_ok:
  "verified_result h env = Inr \<lparr>ar_handle = h,
     ar_verified = Some \<lparr>vr_handle = h, vr_envelope = env\<rparr>, ar_diagnostic = None\<rparr>"
  by (simp add: verified_result_def make_access_result_def)

lemma verify_code_known:
  "verify_and_parse_envelope tools raw h bundle = Inr (EnvelopeBad code) \<Longrightarrow>
     code \<in> set RECEIPT_ACCESS_DIAGNOSTIC_CODES"
  by (auto simp: verify_and_parse_envelope_def rbind_Inr_iff RECEIPT_ACCESS_DIAGNOSTIC_CODES_def
      split: option.splits pyv.splits if_splits sum.splits)

text \<open>What the checks of an envelope that passes say.\<close>

definition schema_conform :: "pydict \<Rightarrow> bool" where
  "schema_conform env =
     (list_all (\<lambda>f. f \<in> set (dkeys env)) REQUIRED_BASE_FIELDS
      \<and> list_all (\<lambda>(k, c). dget env k = Some (VStr c)) profile_constants
      \<and> (case dget env ''receipt_kind'' of
           Some (VStr kind) \<Rightarrow>
             (if kind = ''admission'' then
                list_all (\<lambda>f. f \<in> set (dkeys env)) REQUIRED_ADMISSION_FIELDS
                \<and> list_ex (\<lambda>d. dget env ''disposition'' = Some (VStr d)) KNOWN_DISPOSITIONS
              else kind = ''outcome'' \<and> list_all (\<lambda>f. f \<in> set (dkeys env)) REQUIRED_OUTCOME_FIELDS
                \<and> list_ex (\<lambda>t. dget env ''outcome'' = Some (VStr t)) KNOWN_OUTCOMES)
         | _ \<Rightarrow> False)
      \<and> \<not> signature_shape_error env)"

lemma env_get_str: "(env_get env k = VStr s) = (dget env k = Some (VStr s))"
  by (simp add: payload_get_def split: option.split)

lemma in_frozenset_Inr: "(in_frozenset v names = Inr b) = (hashable v \<and> b = (\<exists>s\<in>set names. v = VStr s))"
  by (cases v) (auto simp: in_frozenset_def)

lemma schema_ok_iff: "(envelope_schema_error env = Inr False) = schema_conform env"
proof -
  have member: "(in_frozenset (env_get env k) names = Inr True)
      = list_ex (\<lambda>d. dget env k = Some (VStr d)) names" for k names
    unfolding in_frozenset_Inr list_ex_iff env_get_str[symmetric] by auto
  have lacking: "lacks env names = (\<not> list_all (\<lambda>f. f \<in> set (dkeys env)) names)" for names
    by (simp add: lacks_def list_ex_iff list_all_iff)
  have yes: "(\<exists>b. r = Inr b \<and> b) = (r = Inr True)" for r :: "(pyexc, bool) result" by auto
  have pinned: "list_ex (\<lambda>(k, c). env_get env k \<noteq> VStr c) profile_constants
      = (\<not> list_all (\<lambda>(k, c). dget env k = Some (VStr c)) profile_constants)"
    by (auto simp: list_ex_iff list_all_iff env_get_str)
  have kind: "(kind_shape_error env = Inr False) = (case dget env ''receipt_kind'' of
       Some (VStr kind) \<Rightarrow>
         (if kind = ''admission'' then
            list_all (\<lambda>f. f \<in> set (dkeys env)) REQUIRED_ADMISSION_FIELDS
            \<and> list_ex (\<lambda>d. dget env ''disposition'' = Some (VStr d)) KNOWN_DISPOSITIONS
          else kind = ''outcome'' \<and> list_all (\<lambda>f. f \<in> set (dkeys env)) REQUIRED_OUTCOME_FIELDS
            \<and> list_ex (\<lambda>t. dget env ''outcome'' = Some (VStr t)) KNOWN_OUTCOMES)
     | _ \<Rightarrow> False)"
  proof -
    consider (adm) "dget env ''receipt_kind'' = Some (VStr ''admission'')"
      | (out) "dget env ''receipt_kind'' = Some (VStr ''outcome'')"
      | (other) "dget env ''receipt_kind'' \<noteq> Some (VStr ''admission'')"
        "dget env ''receipt_kind'' \<noteq> Some (VStr ''outcome'')" by blast
    then show ?thesis
    proof cases
      case adm
      then show ?thesis
        by (simp add: kind_shape_error_def env_get_str rbind_Inr_iff yes member lacking)
    next
      case out
      then show ?thesis
        by (simp add: kind_shape_error_def env_get_str rbind_Inr_iff yes member lacking)
    next
      case other
      then show ?thesis
        by (auto simp: kind_shape_error_def env_get_str split: option.split pyv.split)
    qed
  qed
  show ?thesis unfolding schema_conform_def kind[symmetric]
    by (auto simp: envelope_schema_error_def rbind_Inr_iff lacking pinned)
qed

definition signed_by_trusted :: "'b access_tools \<Rightarrow> pydict \<Rightarrow> pyv \<Rightarrow> bool" where
  "signed_by_trusted tools env bundle =
     (\<exists>issuers issuer.
        bundle_entries bundle = Inr issuers
        \<and> filter (\<lambda>e. py_eq (env_get e ''key_id'') (signature_field env ''key_id'')) issuers = [issuer]
        \<and> (\<exists>key sig text.
             b64url_decode (env_get issuer ''public_key'') = Some key \<and> length key = 32
             \<and> b64url_decode (signature_field env ''signature'') = Some sig \<and> length sig = 64
             \<and> at_canon tools (VMap (access_preimage env)) = Some text
             \<and> at_verify tools key sig text \<and> trust_window_ok tools env issuer))"

lemma issuer_accepts_iff:
  "issuer_accepts tools env issuer =
     (\<exists>key sig text. b64url_decode (env_get issuer ''public_key'') = Some key \<and> length key = 32
        \<and> b64url_decode (signature_field env ''signature'') = Some sig \<and> length sig = 64
        \<and> at_canon tools (VMap (access_preimage env)) = Some text
        \<and> at_verify tools key sig text \<and> trust_window_ok tools env issuer)"
  by (auto simp: issuer_accepts_def split: option.split)

lemma singleton_case: "(case xs of [x] \<Rightarrow> P x | _ \<Rightarrow> False) = (\<exists>x. xs = [x] \<and> P x)"
  by (auto split: list.split)

lemma signature_valid_iff: "(signature_valid tools env bundle = Inr True) = signed_by_trusted tools env bundle"
  unfolding signature_valid_def signed_by_trusted_def rbind_Inr_iff issuer_accepts_iff[symmetric]
    singleton_case by auto

lemma envelope_ok_iff:
  "(verify_and_parse_envelope tools raw h bundle = Inr (EnvelopeOk env)) =
     (at_parse tools raw = Some (VMap env) \<and> schema_conform env
      \<and> enforce_raw_content_exclusion (VMap env) = Inr ()
      \<and> signed_by_trusted tools env bundle
      \<and> dget env ''receipt_id'' = Some (VStr (rh_receipt_id h))
      \<and> dget env ''receipt_kind'' = Some (VStr (rh_receipt_kind h)))"
  unfolding verify_and_parse_envelope_def schema_ok_iff[symmetric] signature_valid_iff[symmetric]
    env_get_str[symmetric]
  by (auto simp: rbind_Inr_iff split: option.splits pyv.splits sum.splits if_splits)

section \<open>Resolution is exact\<close>

definition context_of :: "access_context option \<Rightarrow> access_context" where
  "context_of cx = (case cx of Some c \<Rightarrow> c
     | None \<Rightarrow> \<lparr>xc_actor_ref = None, xc_tenant_ref = None, xc_request_ref = None\<rparr>)"

definition context_sufficient :: "'b access_config \<Rightarrow> access_context \<Rightarrow> bool" where
  "context_sufficient cf ctx =
     ((ac_require_actor cf \<longrightarrow> xc_actor_ref ctx \<noteq> None)
      \<and> (ac_require_tenant cf \<longrightarrow> xc_tenant_ref ctx \<noteq> None))"

definition receipt_proved ::
  "'b access_tools \<Rightarrow> 'b access_config \<Rightarrow> access_context \<Rightarrow> receipt_handle \<Rightarrow> pydict \<Rightarrow> bool" where
  "receipt_proved tools cf ctx handle env =
     (context_sufficient cf ctx
      \<and> (\<exists>raw. ac_provider cf handle ctx = Fetched raw \<and> at_parse tools raw = Some (VMap env))
      \<and> schema_conform env \<and> raw_free env \<and> signed_by_trusted tools env (ac_trust_bundle cf)
      \<and> dget env ''receipt_id'' = Some (VStr (rh_receipt_id handle))
      \<and> dget env ''receipt_kind'' = Some (VStr (rh_receipt_kind handle))
      \<and> \<not> contradicts (xc_actor_ref ctx) env ''actor_ref''
      \<and> \<not> contradicts (xc_tenant_ref ctx) env ''tenant_id''
      \<and> \<not> contradicts (xc_request_ref ctx) env ''logical_call_id'')"

lemma raw_free_iff: "raw_free env = (enforce_raw_content_exclusion (VMap env) = Inr ())"
  by (auto simp: raw_free_def enforce_ok_iff)

lemma step_faults:
  "in_frozenset v names = Inl e \<Longrightarrow> e = type_error"
  "bundle_entries bundle = Inl e \<Longrightarrow> e = type_error"
  by (auto simp: in_frozenset_def bundle_entries_def Let_def split: pyv.splits if_splits)

lemma schema_fault: "envelope_schema_error env = Inl e \<Longrightarrow> e = type_error"
  unfolding envelope_schema_error_def kind_shape_error_def
  by (auto simp: rbind_Inl_iff dest: step_faults split: if_splits)

lemma signature_fault: "signature_valid tools env bundle = Inl e \<Longrightarrow> e = type_error"
  by (auto simp: signature_valid_def rbind_Inl_iff dest: step_faults)

lemma verify_fault:
  assumes "verify_and_parse_envelope tools raw h bundle = Inl e"
  shows "e = type_error"
proof -
  obtain env where p: "at_parse tools raw = Some (VMap env)"
    using assms by (auto simp: verify_and_parse_envelope_def split: option.splits pyv.splits)
  show ?thesis
  proof (cases "envelope_schema_error env")
    case (Inl e')
    then show ?thesis using assms p schema_fault by (simp add: verify_and_parse_envelope_def)
  next
    case (Inr bad)
    then show ?thesis using assms p signature_fault[of tools env "bundle"]
      by (auto simp: verify_and_parse_envelope_def rbind_Inl_iff split: if_splits sum.splits)
  qed
qed

lemma diagnosed_codes:
  "diagnosed h ''access_unauthorized'' = Inr \<lparr>ar_handle = h, ar_verified = None, ar_diagnostic = Some ''access_unauthorized''\<rparr>"
  "diagnosed h ''unknown_handle'' = Inr \<lparr>ar_handle = h, ar_verified = None, ar_diagnostic = Some ''unknown_handle''\<rparr>"
  "diagnosed h ''receipt_unavailable'' = Inr \<lparr>ar_handle = h, ar_verified = None, ar_diagnostic = Some ''receipt_unavailable''\<rparr>"
  "diagnosed h ''provider_failure'' = Inr \<lparr>ar_handle = h, ar_verified = None, ar_diagnostic = Some ''provider_failure''\<rparr>"
  "diagnosed h ''association_mismatch'' = Inr \<lparr>ar_handle = h, ar_verified = None, ar_diagnostic = Some ''association_mismatch''\<rparr>"
  by (simp_all add: diagnosed_ok RECEIPT_ACCESS_DIAGNOSTIC_CODES_def)

text \<open>How a resolution ends, by what the provider gave.\<close>

lemma resolve_cases:
  assumes "resolve_receipt tools cf cx h = q"
  obtains
    (fault) e where "q = Inl e" "\<not> is_exception e \<or> e = type_error"
      "\<nexists>env. receipt_proved tools cf (context_of cx) h env"
  | (code) c where "q = Inr \<lparr>ar_handle = h, ar_verified = None, ar_diagnostic = Some c\<rparr>"
      "c \<in> set RECEIPT_ACCESS_DIAGNOSTIC_CODES"
      "\<nexists>env. receipt_proved tools cf (context_of cx) h env"
  | (proved) env where "q = Inr \<lparr>ar_handle = h,
        ar_verified = Some \<lparr>vr_handle = h, vr_envelope = env\<rparr>, ar_diagnostic = None\<rparr>"
      "receipt_proved tools cf (context_of cx) h env"
proof -
  let ?ctx = "context_of cx"
  have def: "resolve_receipt tools cf cx h =
    (if ac_require_actor cf \<and> xc_actor_ref ?ctx = None then diagnosed h ''access_unauthorized''
     else if ac_require_tenant cf \<and> xc_tenant_ref ?ctx = None
     then diagnosed h ''access_unauthorized''
     else case ac_provider cf h ?ctx of
         ReceiptNotFound \<Rightarrow> diagnosed h ''unknown_handle''
       | ReceiptSourceUnavailable \<Rightarrow> diagnosed h ''receipt_unavailable''
       | FetchRaises e \<Rightarrow> if is_exception e then diagnosed h ''provider_failure'' else Inl e
       | Fetched raw \<Rightarrow>
           rbind (verify_and_parse_envelope tools raw h (ac_trust_bundle cf)) (\<lambda>v.
             case v of
               EnvelopeBad code \<Rightarrow> diagnosed h code
             | EnvelopeOk env \<Rightarrow>
                 if contradicts (xc_actor_ref ?ctx) env ''actor_ref''
                    \<or> contradicts (xc_tenant_ref ?ctx) env ''tenant_id''
                    \<or> contradicts (xc_request_ref ?ctx) env ''logical_call_id''
                 then diagnosed h ''association_mismatch''
                 else verified_result h env))"
    unfolding resolve_receipt_def context_of_def[symmetric] Let_def ..
  show ?thesis
  proof (cases "context_sufficient cf ?ctx")
    case False
    then show ?thesis using assms code[of "''access_unauthorized''"]
      by (auto simp: def diagnosed_codes context_sufficient_def receipt_proved_def
          RECEIPT_ACCESS_DIAGNOSTIC_CODES_def)
  next
    case suff: True
    show ?thesis
    proof (cases "ac_provider cf h ?ctx")
      case (Fetched raw)
      have got: "resolve_receipt tools cf cx h =
          rbind (verify_and_parse_envelope tools raw h (ac_trust_bundle cf)) (\<lambda>v.
             case v of
               EnvelopeBad code \<Rightarrow> diagnosed h code
             | EnvelopeOk env \<Rightarrow>
                 if contradicts (xc_actor_ref ?ctx) env ''actor_ref''
                    \<or> contradicts (xc_tenant_ref ?ctx) env ''tenant_id''
                    \<or> contradicts (xc_request_ref ?ctx) env ''logical_call_id''
                 then diagnosed h ''association_mismatch''
                 else verified_result h env)"
        using suff Fetched by (auto simp: def context_sufficient_def)
      have proved_ok: "receipt_proved tools cf ?ctx h env \<Longrightarrow>
          verify_and_parse_envelope tools raw h (ac_trust_bundle cf) = Inr (EnvelopeOk env)
          \<and> \<not> contradicts (xc_actor_ref ?ctx) env ''actor_ref''
          \<and> \<not> contradicts (xc_tenant_ref ?ctx) env ''tenant_id''
          \<and> \<not> contradicts (xc_request_ref ?ctx) env ''logical_call_id''" for env
        using Fetched by (auto simp: receipt_proved_def envelope_ok_iff raw_free_iff)
      show ?thesis
      proof (cases "verify_and_parse_envelope tools raw h (ac_trust_bundle cf)")
        case (Inl e)
        then show ?thesis using assms got verify_fault[OF Inl] proved_ok fault by auto
      next
        case (Inr v)
        show ?thesis
        proof (cases v)
          case (EnvelopeBad c)
          note known = verify_code_known[OF Inr[unfolded EnvelopeBad]]
          have "\<nexists>env. receipt_proved tools cf ?ctx h env"
            using proved_ok Inr EnvelopeBad by auto
          with known show ?thesis using assms got Inr EnvelopeBad
            by (intro code[of c]) (simp_all add: diagnosed_ok)
        next
          case (EnvelopeOk env)
          show ?thesis
          proof (cases "contradicts (xc_actor_ref ?ctx) env ''actor_ref''
              \<or> contradicts (xc_tenant_ref ?ctx) env ''tenant_id''
              \<or> contradicts (xc_request_ref ?ctx) env ''logical_call_id''")
            case True
            then show ?thesis
              using assms got Inr EnvelopeOk proved_ok code[of "''association_mismatch''"]
              by (auto simp: diagnosed_codes RECEIPT_ACCESS_DIAGNOSTIC_CODES_def)
          next
            case False
            moreover have "receipt_proved tools cf ?ctx h env"
              using False suff Fetched Inr[unfolded EnvelopeOk envelope_ok_iff]
              by (simp add: receipt_proved_def raw_free_iff)
            ultimately show ?thesis
              using assms got Inr EnvelopeOk proved by (auto simp: verified_result_ok)
          qed
        qed
      qed
    next
      case ReceiptNotFound
      then show ?thesis using assms suff code[of "''unknown_handle''"]
        by (auto simp: def diagnosed_codes context_sufficient_def receipt_proved_def
            RECEIPT_ACCESS_DIAGNOSTIC_CODES_def)
    next
      case ReceiptSourceUnavailable
      then show ?thesis using assms suff code[of "''receipt_unavailable''"]
        by (auto simp: def diagnosed_codes context_sufficient_def receipt_proved_def
            RECEIPT_ACCESS_DIAGNOSTIC_CODES_def)
    next
      case (FetchRaises e)
      then show ?thesis using assms suff code[of "''provider_failure''"] fault[of e]
        by (cases "is_exception e")
          (auto simp: def diagnosed_codes context_sufficient_def receipt_proved_def
            RECEIPT_ACCESS_DIAGNOSTIC_CODES_def)
    qed
  qed
qed


text \<open>A signed document whose disposition is a list is not answered with a code.\<close>

lemma unhashable_disposition_escapes:
  assumes "at_parse tools raw = Some (VMap env)" "\<not> lacks env REQUIRED_BASE_FIELDS"
    and "\<not> list_ex (\<lambda>(k, c). env_get env k \<noteq> VStr c) profile_constants"
    and "dget env ''receipt_kind'' = Some (VStr ''admission'')" "\<not> lacks env REQUIRED_ADMISSION_FIELDS"
    and "dget env ''disposition'' = Some (VList xs)"
  shows "verify_and_parse_envelope tools raw h bundle = Inl type_error"
  using assms by (simp add: verify_and_parse_envelope_def envelope_schema_error_def
      kind_shape_error_def env_get_str in_frozenset_def payload_get_def)

end
