(* ===== verification/AccessRoundtrip.thy ===== *)
theory AccessRoundtrip
  imports ReceiptAccessFacts FastmcpReceipts
begin

text \<open>Compositions prove the admission they show, and what the emitter wrote through the file sink
  is resolved and composed again, byte for byte the same envelopes.\<close>

section \<open>Composition\<close>

lemma composition_ok:
  "make_composition \<lparr>co_logical_call_id = call, co_admission = a, co_outcome = b, co_diagnostic = d\<rparr>
    = (if (case d of None \<Rightarrow> True | Some c \<Rightarrow> c \<in> set RECEIPT_ACCESS_DIAGNOSTIC_CODES)
          \<and> of_kind ''admission'' a \<and> of_kind ''outcome'' b
       then Inr \<lparr>co_logical_call_id = call, co_admission = a, co_outcome = b, co_diagnostic = d\<rparr>
       else Inl value_error)"
  by (simp add: make_composition_def require_def)

lemma compose_failed_ok:
  "code \<in> set RECEIPT_ACCESS_DIAGNOSTIC_CODES \<Longrightarrow> compose_failed call code =
     Inr \<lparr>co_logical_call_id = call, co_admission = None, co_outcome = None, co_diagnostic = Some code\<rparr>"
  by (simp add: compose_failed_def composition_ok of_kind_def)

definition of_kind_handles :: "token \<Rightarrow> receipt_handle list \<Rightarrow> receipt_handle list" where
  "of_kind_handles kind handles = filter (\<lambda>h. rh_receipt_kind h = kind) handles"

text \<open>The receipt of a kind that was resolved: none without a handle, the proved one with one.\<close>

definition part_proved ::
  "'b access_tools \<Rightarrow> 'b access_config \<Rightarrow> access_context \<Rightarrow> receipt_handle list
    \<Rightarrow> verified_receipt option \<Rightarrow> bool" where
  "part_proved tools cf ctx hs part =
     (case part of None \<Rightarrow> hs = []
      | Some v \<Rightarrow> hs = [vr_handle v] \<and> receipt_proved tools cf ctx (vr_handle v) (vr_envelope v))"

definition resolve_first ::
  "'b access_tools \<Rightarrow> 'b access_config \<Rightarrow> access_context option \<Rightarrow> receipt_handle list
    \<Rightarrow> (pyexc, access_result option) result" where
  "resolve_first tools cf cx hs = (case hs of [] \<Rightarrow> Inr None
     | h # _ \<Rightarrow> rbind (resolve_receipt tools cf cx h) (\<lambda>r. Inr (Some r)))"

lemma resolve_first_cases:
  assumes "length hs \<le> 1"
  obtains (fault) e where "resolve_first tools cf cx hs = Inl e" "\<not> is_exception e \<or> e = type_error"
  | (code) r c where "resolve_first tools cf cx hs = Inr (Some r)" "ar_diagnostic r = Some c"
      "c \<in> set RECEIPT_ACCESS_DIAGNOSTIC_CODES"
  | (part) r where "resolve_first tools cf cx hs = Inr r" "Option.bind r ar_diagnostic = None"
      "part_proved tools cf (context_of cx) hs (Option.bind r ar_verified)"
proof (cases hs)
  case Nil
  then show ?thesis using part[of None] by (simp add: resolve_first_def part_proved_def)
next
  case (Cons h rest)
  then have hs: "hs = [h]" using assms by simp
  show ?thesis
    by (rule resolve_cases[of tools cf cx h, OF refl])
      (use hs fault code part in \<open>auto simp: resolve_first_def part_proved_def\<close>)
qed

definition composition_proved ::
  "'b access_tools \<Rightarrow> 'b access_config \<Rightarrow> access_context \<Rightarrow> receipt_handle list
    \<Rightarrow> string \<Rightarrow> string option \<Rightarrow> composition \<Rightarrow> bool" where
  "composition_proved tools cf ctx handles call parent c =
    (part_proved tools cf ctx (of_kind_handles ''admission'' handles) (co_admission c)
     \<and> part_proved tools cf ctx (of_kind_handles ''outcome'' handles) (co_outcome c)
     \<and> (case co_admission c of
          None \<Rightarrow> co_outcome c = None
        | Some a \<Rightarrow>
            dget (vr_envelope a) ''logical_call_id'' = Some (VStr call)
            \<and> (case parent of None \<Rightarrow> True
               | Some p \<Rightarrow> dget (vr_envelope a) ''parent_receipt_ref'' = Some (VStr p))
            \<and> (case co_outcome c of
                 None \<Rightarrow> True
               | Some b \<Rightarrow>
                   dget (vr_envelope b) ''logical_call_id'' = Some (VStr call)
                   \<and> dget (vr_envelope b) ''admission_receipt_ref''
                       = Some (VStr (rh_receipt_id (vr_handle a)))
                   \<and> list_all (\<lambda>f. py_eq (env_get (vr_envelope a) f) (env_get (vr_envelope b) f))
                       linked_fields)))"

lemma proved_identity:
  "receipt_proved tools cf ctx h env \<Longrightarrow> env_get env ''receipt_id'' = VStr (rh_receipt_id h)"
  by (simp add: receipt_proved_def payload_get_def)

lemma agree_iff:
  assumes "part_proved tools cf ctx (of_kind_handles ''admission'' handles) a"
    "part_proved tools cf ctx (of_kind_handles ''outcome'' handles) b"
  shows "envelopes_agree call parent (map_option vr_envelope a) (map_option vr_envelope b)
    = composition_proved tools cf ctx handles call parent
        \<lparr>co_logical_call_id = call, co_admission = a, co_outcome = b, co_diagnostic = None\<rparr>"
proof -
  have "a = Some v \<Longrightarrow> py_eq w (env_get (vr_envelope v) ''receipt_id'')
      = (w = VStr (rh_receipt_id (vr_handle v)))" for v w
    using assms(1) proved_identity[of tools cf ctx "vr_handle v" "vr_envelope v"]
    by (simp add: part_proved_def)
  then show ?thesis using assms
    by (cases a; cases b; cases parent)
      (simp_all add: envelopes_agree_def composition_proved_def env_get_str conj_ac)
qed

lemma part_kind:
  "part_proved tools cf ctx (of_kind_handles kind handles) part \<Longrightarrow> of_kind kind part"
proof (cases part)
  case (Some v)
  assume "part_proved tools cf ctx (of_kind_handles kind handles) part"
  then have "vr_handle v \<in> set (of_kind_handles kind handles)" by (simp add: part_proved_def Some)
  then show ?thesis by (simp add: Some of_kind_def of_kind_handles_def)
qed (simp add: of_kind_def)

lemma compose_def:
  "compose_receipts tools cf cx handles call parent =
    (if blank call then Inl value_error
     else if length (of_kind_handles ''admission'' handles) > 1
       \<or> length (of_kind_handles ''outcome'' handles) > 1 then compose_failed call ''family_mismatch''
     else rbind (resolve_first tools cf cx (of_kind_handles ''admission'' handles)) (\<lambda>adm.
       case Option.bind adm ar_diagnostic of
         Some code \<Rightarrow> compose_failed call code
       | None \<Rightarrow> rbind (resolve_first tools cf cx (of_kind_handles ''outcome'' handles)) (\<lambda>outc.
           case Option.bind outc ar_diagnostic of
             Some code \<Rightarrow> compose_failed call code
           | None \<Rightarrow>
              (let a = Option.bind adm ar_verified; b = Option.bind outc ar_verified in
               if \<not> envelopes_agree call parent (map_option vr_envelope a) (map_option vr_envelope b)
               then compose_failed call ''association_mismatch''
               else make_composition \<lparr>co_logical_call_id = call, co_admission = a, co_outcome = b,
                                      co_diagnostic = None\<rparr>))))"
  unfolding compose_receipts_def resolve_first_def of_kind_handles_def Let_def ..

text \<open>C4: A composition proves what it shows. One that carries no code shows exactly the receipts whose
  handles it was given, at most one of each kind, each proved on its own; an outcome never without
  its admission; both of the expected call, the admission of the expected parent, the outcome
  referring to that very admission and written at the same boundary for the same actor and
  tenant. Any other composition shows no receipt and a code of the closed vocabulary, and what is
  raised is the refusal of a blank call id or what a resolution raises.\<close>
theorem composition_exact:
  "case compose_receipts tools cf cx handles call parent of
     Inl e \<Rightarrow> (if blank call then e = value_error else if is_exception e then e = type_error else True)
   | Inr c \<Rightarrow> \<not> blank call \<and> co_logical_call_id c = call
       \<and> (case co_diagnostic c of
            Some code \<Rightarrow> code \<in> set RECEIPT_ACCESS_DIAGNOSTIC_CODES
              \<and> co_admission c = None \<and> co_outcome c = None
          | None \<Rightarrow> composition_proved tools cf (context_of cx) handles call parent c)"
proof (cases "blank call")
  case True
  then show ?thesis by (simp add: compose_def)
next
  case nb: False
  let ?A = "of_kind_handles ''admission'' handles" and ?B = "of_kind_handles ''outcome'' handles"
  have known: "''family_mismatch'' \<in> set RECEIPT_ACCESS_DIAGNOSTIC_CODES"
    "''association_mismatch'' \<in> set RECEIPT_ACCESS_DIAGNOSTIC_CODES"
    by (simp_all add: RECEIPT_ACCESS_DIAGNOSTIC_CODES_def)
  show ?thesis
  proof (cases "length ?A > 1 \<or> length ?B > 1")
    case True
    then show ?thesis using nb known by (simp add: compose_def compose_failed_ok)
  next
    case False
    then have one: "length ?A \<le> 1" "length ?B \<le> 1" by auto
    note start = compose_def[of tools cf cx handles call parent]
    from one(1) show ?thesis
    proof (cases rule: resolve_first_cases[where tools = tools and cf = cf and cx = cx])
      case (fault e)
      then show ?thesis using nb False by (simp add: start)
    next
      case (code r c)
      then show ?thesis using nb False by (simp add: start compose_failed_ok)
    next
      case adm: (part ra)
      from one(2) show ?thesis
      proof (cases rule: resolve_first_cases[where tools = tools and cf = cf and cx = cx])
        case (fault e)
        then show ?thesis using nb False adm by (simp add: start)
      next
        case (code r c)
        then show ?thesis using nb False adm by (simp add: start compose_failed_ok)
      next
        case outc: (part rb)
        show ?thesis using nb False adm outc known part_kind[OF adm(3)] part_kind[OF outc(3)]
          by (simp add: start Let_def compose_failed_ok composition_ok agree_iff[OF adm(3) outc(3)])
      qed
    qed
  qed
qed

section \<open>What emission keeps\<close>

text \<open>The keys a builder writes after the common envelope; every other key keeps its value, and no
  key is lost.\<close>

definition BUILT_KEYS :: "string list" where
  "BUILT_KEYS =
     [''attestation_limits'', ''extensions'', ''result_digest'', ''admission_receipt_ref'', ''outcome'',
      ''requested_tool_name'', ''tool_resolution_status'', ''argument_digest'', ''policy_pack_id'',
      ''policy_pack_version'', ''disposition'', ''reason_code'', ''retry_contract'',
      ''review_object_ref'', ''receipt_signature''] @ CANCELLATION_FIELD_NAMES"

definition kept :: "pydict \<Rightarrow> pydict \<Rightarrow> bool" where
  "kept d e = ((\<forall>k. k \<notin> set BUILT_KEYS \<longrightarrow> dget e k = dget d k)
     \<and> (\<forall>k. dget d k \<noteq> None \<longrightarrow> dget e k \<noteq> None))"

lemma kept_refl [simp]: "kept d d" by (simp add: kept_def)

lemma kept_trans: "kept d e \<Longrightarrow> kept e f \<Longrightarrow> kept d f"
  by (simp add: kept_def)

lemma kept_keys: "kept d e \<Longrightarrow> k \<in> set (dkeys d) \<Longrightarrow> k \<in> set (dkeys e)"
  by (metis dget_None_iff kept_def)

lemma kept_dset: "k \<in> set BUILT_KEYS \<Longrightarrow> kept d e \<Longrightarrow> kept d (dset k v e)"
  by (auto simp: kept_def)

lemma kept_cond: "kept d e \<Longrightarrow> kept d f \<Longrightarrow> kept d (if b then e else f)"
  by simp

lemma kept_given: "k \<in> set BUILT_KEYS \<Longrightarrow> kept d e \<Longrightarrow> kept d (dset_given k x e)"
  by (simp add: dset_given_def kept_dset)

lemma kept_dupdate: "list_all (\<lambda>(k, v). k \<in> set BUILT_KEYS) upd \<Longrightarrow> kept d e \<Longrightarrow> kept d (dupdate e upd)"
  by (induction upd arbitrary: e) (auto simp: kept_dset)

lemma kept_limits: "append_attestation_limits e x = Inr e' \<Longrightarrow> kept d e \<Longrightarrow> kept d e'"
  by (auto elim!: append_limits_ok simp: set_limits_def BUILT_KEYS_def intro!: kept_dset)

lemma kept_extension: "kept d e \<Longrightarrow> kept d (set_mcp_extension k v e)"
  by (auto simp: set_mcp_extension_def BUILT_KEYS_def intro!: kept_dset split: option.split pyv.split)

lemma kept_owned_step: "apply_owned e fs = Inr e' \<Longrightarrow> kept d e \<Longrightarrow> kept d e'"
  by (induction e fs rule: apply_owned.induct)
    (auto simp: BUILT_KEYS_def kept_dset split: if_splits)

lemma kept_owned: "apply_binding_owned_fields e out x = Inr e' \<Longrightarrow> kept d e \<Longrightarrow> kept d e'"
  by (auto simp: apply_binding_owned_fields_def split: option.splits list.splits if_splits
      dest: kept_owned_step)

lemma admission_kept:
  assumes "admission_envelope ident ctx st a = Inr env"
  obtains env0 where "common_envelope ident ctx st ''admission'' ''tool_call_admission'' = Inr env0"
    "kept env0 env"
proof -
  obtain env0 where e0: "common_envelope ident ctx st ''admission'' ''tool_call_admission'' = Inr env0"
    using assms by (auto simp: admission_envelope_def rbind_Inr_iff)
  have "kept env0 env"
    by (rule kept_limits[OF assms[unfolded admission_envelope_def e0 rbind.simps]])
      (intro kept_given kept_dupdate kept_refl; simp add: BUILT_KEYS_def)
  with e0 that show ?thesis by blast
qed

lemma outcome_kept:
  assumes "outcome_envelope ident ctx st a = Inr env"
  obtains env0 where "common_envelope ident ctx st ''outcome'' ''tool_call_outcome'' = Inr env0"
    "kept env0 env"
proof -
  obtain env0 where e0: "common_envelope ident ctx st ''outcome'' ''tool_call_outcome'' = Inr env0"
    using assms by (auto simp: outcome_envelope_def rbind_Inr_iff)
  note step = assms[unfolded outcome_envelope_def e0 rbind.simps Let_def rbind_Inr_iff]
  have base: "kept env0 (dset_given ''result_digest'' (oa_result_digest a)
      (dupdate env0 [(''admission_receipt_ref'', VStr (oa_admission_ref a)),
                     (''outcome'', VStr (oa_outcome a))]))"
    by (intro kept_given kept_dupdate kept_refl) (simp_all add: BUILT_KEYS_def)
  have lim: "kept env0 e \<Longrightarrow> kept env0 (set_limits ls e)" for ls e
    by (simp add: set_limits_def kept_dset BUILT_KEYS_def)
  from step base have "kept env0 env"
    by (elim exE conjE) (rule kept_owned, assumption, rule kept_limits, assumption,
      intro kept_cond lim kept_extension base)
  with e0 that show ?thesis by blast
qed

section \<open>A signed envelope is accepted\<close>

text \<open>The fields of the common envelope that access reads.\<close>

lemma common_fields:
  assumes "common_envelope ident ctx st kind artifact = Inr env0"
  shows "list_all (\<lambda>(k, c). dget env0 k = Some (VStr c)) profile_constants"
    and "list_all (\<lambda>f. f = ''receipt_signature'' \<or> dget env0 f \<noteq> None) REQUIRED_BASE_FIELDS"
    and "dget env0 ''issuer_id'' = Some (VStr (si_issuer_id ident))"
    and "dget env0 ''logical_call_id'' = Some (VStr (rc_logical_call_id ctx))"
    and "dget env0 ''runtime_instance_id'' = Some (VStr (rc_runtime_instance_id ctx))"
    and "dget env0 ''boundary_id'' = Some (VStr (rc_boundary_id ctx))"
    and "dget env0 ''actor_ref'' = (if given (rc_actor_ref ctx) then Some (VStr (the (rc_actor_ref ctx))) else None)"
    and "dget env0 ''tenant_id'' = (if given (rc_tenant_id ctx) then Some (VStr (the (rc_tenant_id ctx))) else None)"
    and "dget env0 ''parent_receipt_ref'' =
      (if given (rc_parent_receipt_ref ctx) then Some (VStr (the (rc_parent_receipt_ref ctx))) else None)"
proof -
  have b: "rc_binding_version ctx \<in> set ALL_REGISTERED_BINDING_VERSIONS" "origin_ok (rc_subject_ref_origin ctx)"
    using common_envelope_ok(1,2)[OF assms] .
  let ?base = "[(''receipt_version'', VStr RECEIPT_VERSION),
          (''profile_id'', VStr PROFILE_ID),
          (''profile_version'', VStr PROFILE_VERSION),
          (''receipt_id'', VStr (st_receipt_id st)),
          (''receipt_type'', VStr ''sdk_enforcement''),
          (''receipt_kind'', VStr kind),
          (''boundary_type'', VStr ''mcp_tool_call''),
          (''protocol_binding'', VStr ''mcp''),
          (''subject_ref'', VStr (rc_subject_ref ctx)),
          (''issuer_id'', VStr (si_issuer_id ident)),
          (''runtime_instance_id'', VStr (rc_runtime_instance_id ctx)),
          (''boundary_id'', VStr (rc_boundary_id ctx)),
          (''logical_call_id'', VStr (rc_logical_call_id ctx)),
          (''issued_at'', VStr (st_issued_at st)),
          (''artifact_classes_covered'', VList [VStr artifact]),
          (''artifact_classes_excluded'', strs EXCLUDED_CLASSES),
          (''attestation_limits'', VList [VStr BASE_LIMIT]),
          (''retention_class_applied'', VStr ''hash_only''),
          (''extensions'',
             VMap [(''mcp'', VMap [(''binding_version'', VStr (rc_binding_version ctx))])])]"
  define B where "B = ?base"
  have env0: "env0 = dset_given ''parent_receipt_ref'' (rc_parent_receipt_ref ctx)
                (dset_given ''workspace_id'' (rc_workspace_id ctx)
                  (dset_given ''tenant_id'' (rc_tenant_id ctx)
                    (dset_given ''actor_ref'' (rc_actor_ref ctx)
                      (if rc_subject_ref_origin ctx \<noteq> VNone
                       then dset ''subject_ref_origin'' (rc_subject_ref_origin ctx) B else B))))"
    using assms b unfolding common_envelope_def Let_def B_def[symmetric]
    by (simp only: if_False not_True_eq_False not_not sum.inject)
  have base: "dget env0 k = dget ?base k"
    if "k \<notin> {''parent_receipt_ref'', ''workspace_id'', ''tenant_id'', ''actor_ref'', ''subject_ref_origin''}"
    for k
    using that unfolding env0 B_def[symmetric] by simp
  have optional: "dget B ''actor_ref'' = None" "dget B ''tenant_id'' = None" "dget B ''parent_receipt_ref'' = None"
    by (simp_all add: B_def)
  show "list_all (\<lambda>(k, c). dget env0 k = Some (VStr c)) profile_constants"
    unfolding profile_constants_def by (simp add: base)
  show "list_all (\<lambda>f. f = ''receipt_signature'' \<or> dget env0 f \<noteq> None) REQUIRED_BASE_FIELDS"
    unfolding REQUIRED_BASE_FIELDS_def by (simp add: base)
  show "dget env0 ''issuer_id'' = Some (VStr (si_issuer_id ident))"
    "dget env0 ''logical_call_id'' = Some (VStr (rc_logical_call_id ctx))"
    "dget env0 ''runtime_instance_id'' = Some (VStr (rc_runtime_instance_id ctx))"
    "dget env0 ''boundary_id'' = Some (VStr (rc_boundary_id ctx))" by (simp_all add: base)
  show "dget env0 ''actor_ref'' = (if given (rc_actor_ref ctx) then Some (VStr (the (rc_actor_ref ctx))) else None)"
    "dget env0 ''tenant_id'' = (if given (rc_tenant_id ctx) then Some (VStr (the (rc_tenant_id ctx))) else None)"
    "dget env0 ''parent_receipt_ref'' =
      (if given (rc_parent_receipt_ref ctx) then Some (VStr (the (rc_parent_receipt_ref ctx))) else None)"
    unfolding env0 by (simp_all add: optional)
qed

lemma kept_signed:
  assumes "kept env0 env" "sign_envelope ident env = Inr receipt"
  shows "kept env0 receipt" "receipt = dset ''receipt_signature'' (VMap (signature_block ident @
     [(''signature'', the (signature_of receipt))])) env"
proof -
  obtain bytes where r: "receipt = dset ''receipt_signature'' (VMap (signature_block ident @
        [(''signature'', VStr (b64url_encode (cr_sign (si_crypto ident) bytes)))])) env"
    using assms(2) by (rule sign_envelope_ok)
  show "kept env0 receipt" using assms(1) by (simp add: r BUILT_KEYS_def kept_dset)
  show "receipt = dset ''receipt_signature'' (VMap (signature_block ident @
     [(''signature'', the (signature_of receipt))])) env"
    using r by (simp add: signature_of_def signature_block_def)
qed

text \<open>A verifier that is right about this identity: it canonicalises as the signer does, accepts the
  signer's signatures under its public key, and finds the receipt's time within the window.\<close>

definition verifier_fits :: "'b access_tools \<Rightarrow> signing_identity \<Rightarrow> string \<Rightarrow> bool" where
  "verifier_fits tools ident issued =
     (at_canon tools = cr_canon (si_crypto ident)
      \<and> length (si_public_key ident) = 32
      \<and> (\<forall>text. length (cr_sign (si_crypto ident) text) = 64
           \<and> at_verify tools (si_public_key ident) (cr_sign (si_crypto ident) text) text)
      \<and> (case (at_instant tools (VStr (si_not_before ident)), at_instant tools (VStr issued),
               at_instant tools (VStr (si_not_after ident))) of
           (Some t0, Some t, Some t1) \<Rightarrow> t0 \<le> t \<and> t \<le> t1 | _ \<Rightarrow> False))"

lemma signed_accepted:
  assumes sign: "sign_envelope ident env = Inr receipt"
    and env: "dget env ''issuer_id'' = Some (VStr (si_issuer_id ident))"
      "dget env ''issued_at'' = Some (VStr issued)"
    and fits: "verifier_fits tools ident issued"
  shows "signed_by_trusted tools receipt (VMap (trust_bundle ident))"
    and "\<not> signature_shape_error receipt"
proof -
  obtain bytes where r: "receipt = dset ''receipt_signature'' (VMap (signature_block ident @
        [(''signature'', VStr (b64url_encode (cr_sign (si_crypto ident) bytes)))])) env"
    and c: "cr_canon (si_crypto ident)
       (VMap (dset ''receipt_signature'' (VMap (signature_block ident)) env)) = Some bytes"
    using sign by (rule sign_envelope_ok)
  let ?issuer = "[(''issuer_id'', VStr (si_issuer_id ident)), (''key_id'', VStr (si_key_id ident)),
         (''algorithm'', VStr SIGNATURE_ALGORITHM),
         (''public_key'', VStr (b64url_encode (si_public_key ident))),
         (''not_before'', VStr (si_not_before ident)), (''not_after'', VStr (si_not_after ident)),
         (''trusted'', VBool True)]"
  have entries: "bundle_entries (VMap (trust_bundle ident)) = Inr [?issuer]"
    by (simp add: bundle_entries_def trust_bundle_def payload_get_def)
  have block: "env_get receipt ''receipt_signature'' = VMap (signature_block ident @
        [(''signature'', VStr (b64url_encode (cr_sign (si_crypto ident) bytes)))])"
    by (simp add: r payload_get_def)
  have "filter (\<lambda>(k, v). k \<noteq> ''signature'') (signature_block ident @
        [(''signature'', VStr (b64url_encode (cr_sign (si_crypto ident) bytes)))]) = signature_block ident"
    by (simp add: signature_block_def)
  then have pre: "access_preimage receipt = dset ''receipt_signature'' (VMap (signature_block ident)) env"
    by (simp add: access_preimage_def block) (simp add: r update_absorb)
  have sf: "signature_field receipt ''key_id'' = VStr (si_key_id ident)"
    "signature_field receipt ''signature'' = VStr (b64url_encode (cr_sign (si_crypto ident) bytes))"
    by (simp_all add: signature_field_def block) (simp_all add: signature_block_def payload_get_def)
  have ne: "si_public_key ident \<noteq> []" "cr_sign (si_crypto ident) bytes \<noteq> []"
    using fits by (auto simp: verifier_fits_def dest: spec[of _ bytes])
  have got: "env_get receipt ''issuer_id'' = VStr (si_issuer_id ident)"
    "env_get receipt ''issued_at'' = VStr issued"
    using env by (simp_all add: r payload_get_def)
  have "issuer_accepts tools receipt ?issuer"
    unfolding issuer_accepts_iff
  proof (intro exI conjI)
    show "b64url_decode (env_get ?issuer ''public_key'') = Some (si_public_key ident)"
      using b64url_decode_encode[OF ne(1)] by (simp add: payload_get_def)
    show "b64url_decode (signature_field receipt ''signature'') = Some (cr_sign (si_crypto ident) bytes)"
      using b64url_decode_encode[OF ne(2)] by (simp add: sf)
    show "at_canon tools (VMap (access_preimage receipt)) = Some bytes"
      using fits c by (simp add: verifier_fits_def pre)
    show "trust_window_ok tools receipt ?issuer"
      using fits got by (auto simp: trust_window_ok_def verifier_fits_def payload_get_def
          split: option.splits)
  qed (use fits in \<open>simp_all add: verifier_fits_def\<close>)
  then show "signed_by_trusted tools receipt (VMap (trust_bundle ident))"
    unfolding signed_by_trusted_def issuer_accepts_iff[symmetric]
    by (intro exI[of _ "[?issuer]"] exI[of _ ?issuer] conjI)
      (simp_all add: entries sf, simp_all add: payload_get_def)
  show "\<not> signature_shape_error receipt"
    by (simp add: signature_shape_error_def block)
      (auto simp: signature_block_def payload_get_def SIGNATURE_MEMBERS_def SIGNATURE_ALGORITHM_def
        CANONICALIZATION_def)
qed

section \<open>Written receipts resolve and compose\<close>

text \<open>The directory holds the JSON text of what the sink wrote under a name.\<close>

definition document_on_disk :: "string access_tools \<Rightarrow> dir_node dict \<Rightarrow> sink \<Rightarrow> string \<Rightarrow> bool" where
  "document_on_disk tools dir sk name =
     (case dget dir name of
        Some (RegularFile bytes text) \<Rightarrow>
          bytes = length text \<and> at_parse tools text = dget (sk_files sk) name
      | _ \<Rightarrow> False)"

text \<open>The references a reader presents are those of the context the receipts were written in.\<close>

definition reader_fits :: "'b access_config \<Rightarrow> access_context \<Rightarrow> receipt_context \<Rightarrow> bool" where
  "reader_fits cf cx ctx =
     (context_sufficient cf cx
      \<and> xc_actor_ref cx \<in> {None, rc_actor_ref ctx} \<and> xc_tenant_ref cx \<in> {None, rc_tenant_id ctx}
      \<and> xc_request_ref cx \<in> {None, Some (rc_logical_call_id ctx)})"

lemma fetch_document:
  assumes "document_on_disk tools dir sk (receipt_filename (rh_receipt_id h))"
    and "dget (sk_files sk) (receipt_filename (rh_receipt_id h)) = Some (VMap env)"
  shows "\<exists>raw. filesystem_fetch avail dir h cx = Fetched raw \<and> at_parse tools raw = Some (VMap env)"
  using assms file_source_shape[of avail dir h cx]
  by (auto simp: document_on_disk_def split: option.splits dir_node.splits)

lemma proved_resolves:
  assumes "receipt_proved tools cf (context_of cx) h env"
  shows "resolve_receipt tools cf cx h = Inr \<lparr>ar_handle = h,
     ar_verified = Some \<lparr>vr_handle = h, vr_envelope = env\<rparr>, ar_diagnostic = None\<rparr>"
proof (rule resolve_cases[of tools cf cx h, OF refl])
  fix env' assume e: "resolve_receipt tools cf cx h = Inr \<lparr>ar_handle = h,
     ar_verified = Some \<lparr>vr_handle = h, vr_envelope = env'\<rparr>, ar_diagnostic = None\<rparr>"
    "receipt_proved tools cf (context_of cx) h env'"
  have "env' = env" using assms e(2) by (auto simp: receipt_proved_def)
  with e(1) show ?thesis by simp
qed (use assms in auto)

lemma not_contradicts:
  assumes "xc \<in> {None, orig}"
    and "dget env k = (if given orig then Some (VStr (the orig)) else None)"
  shows "\<not> contradicts xc env k"
  using assms by (cases orig; cases "orig = Some []") (auto simp: contradicts_def payload_get_def)

text \<open>One emission: an accepted receipt whose kind-specific fields are in order is proved.\<close>

definition kind_conform :: "token \<Rightarrow> pydict \<Rightarrow> bool" where
  "kind_conform kind env =
     (if kind = ''admission'' then
        list_all (\<lambda>f. f \<in> set (dkeys env)) REQUIRED_ADMISSION_FIELDS
        \<and> list_ex (\<lambda>d. dget env ''disposition'' = Some (VStr d)) KNOWN_DISPOSITIONS
      else kind = ''outcome'' \<and> list_all (\<lambda>f. f \<in> set (dkeys env)) REQUIRED_OUTCOME_FIELDS
        \<and> list_ex (\<lambda>t. dget env ''outcome'' = Some (VStr t)) KNOWN_OUTCOMES)"

lemma kind_conform_dset:
  "kind_conform kind env \<Longrightarrow> kind_conform kind (dset ''receipt_signature'' v env)"
  by (auto simp: kind_conform_def KNOWN_DISPOSITIONS_def KNOWN_OUTCOMES_def list_all_iff)

lemma kept_kind: "kept d e \<Longrightarrow> dget d ''receipt_kind'' = Some v \<Longrightarrow> dget e ''receipt_kind'' = Some v"
  by (simp add: kept_def BUILT_KEYS_def CANCELLATION_FIELD_NAMES_def)

lemma emitted_proved:
  assumes emit: "guard_and_emit ident (Inr env) sk = (Inr rid, sk')"
    and built: "common_envelope ident ctx st kind artifact = Inr env0" "kept env0 env"
    and kind: "kind_conform kind env"
    and disk: "document_on_disk tools dir skf (receipt_filename rid)"
      "dget (sk_files skf) (receipt_filename rid) = dget (sk_files sk') (receipt_filename rid)"
    and fits: "verifier_fits tools ident (st_issued_at st)" "reader_fits cf cx ctx"
      "ac_provider cf = filesystem_fetch avail dir" "ac_trust_bundle cf = VMap (trust_bundle ident)"
  obtains receipt where "dget (sk_files sk') (receipt_filename rid) = Some (VMap receipt)"
    "sk_written sk' = sk_written sk @ [receipt]"
    "\<And>k. k \<noteq> ''receipt_signature'' \<Longrightarrow> dget receipt k = dget env k"
    "receipt_proved tools cf cx \<lparr>rh_receipt_id = rid, rh_receipt_kind = kind\<rparr> receipt"
proof -
  obtain receipt where r: "dget (sk_files sk') (receipt_filename rid) = Some (VMap receipt)"
      "dget receipt ''receipt_id'' = Some (VStr rid)" "raw_free receipt"
      "\<forall>k. k = ''receipt_signature'' \<or> dget receipt k = dget env k"
      "sign_envelope ident env = Inr receipt" "sk_written sk' = sk_written sk @ [receipt]"
    using emit by (rule guard_and_emit_accepted) auto
  have env: "dget receipt k = dget env0 k" if "k \<notin> set BUILT_KEYS" for k
    using built(2) r(4)[rule_format, of k] that by (auto simp: kept_def BUILT_KEYS_def)
  note f = common_fields[OF built(1)] and g = common_envelope_ok[OF built(1)]
  note keys = BUILT_KEYS_def CANCELLATION_FIELD_NAMES_def
  have "dget env ''issuer_id'' = Some (VStr (si_issuer_id ident))"
    "dget env ''issued_at'' = Some (VStr (st_issued_at st))"
    using built(2) f(3) g(5) by (simp_all add: kept_def keys)
  note acc = signed_accepted[OF r(5) this fits(1)]
  have "dget receipt ''receipt_signature'' \<noteq> None"
    using kept_signed(2)[OF built(2) r(5)] by (metis dget_dset option.distinct(1))
  note sig = this
  have base: "list_all (\<lambda>f. f \<in> set (dkeys receipt)) REQUIRED_BASE_FIELDS"
    unfolding list_all_iff
  proof
    fix n assume n: "n \<in> set REQUIRED_BASE_FIELDS"
    show "n \<in> set (dkeys receipt)"
    proof (cases "n = ''receipt_signature''")
      case False
      then have "dget env0 n \<noteq> None" using f(2) n by (auto simp: list_all_iff)
      then have "dget env n \<noteq> None" using built(2) by (simp add: kept_def)
      then have "dget receipt n \<noteq> None" using r(4)[rule_format, of n] False by simp
      then show ?thesis by (simp add: dget_None_iff)
    qed (use sig in \<open>simp add: dget_None_iff\<close>)
  qed
  have const: "list_all (\<lambda>(k, c). dget receipt k = Some (VStr c)) profile_constants"
    using f(1) env by (simp add: profile_constants_def keys)
  have kc: "kind_conform kind receipt"
    by (rule ssubst[where P = "kind_conform kind", OF kept_signed(2)[OF built(2) r(5)]])
      (rule kind_conform_dset[OF kind])
  have k: "dget receipt ''receipt_kind'' = Some (VStr kind)"
    using env g(4) by (simp add: keys)
  have schema: "schema_conform receipt"
    using base const kc acc(2) unfolding schema_conform_def k kind_conform_def by simp
  have ctx: "context_sufficient cf cx" "xc_actor_ref cx \<in> {None, rc_actor_ref ctx}"
    "xc_tenant_ref cx \<in> {None, rc_tenant_id ctx}"
    "xc_request_ref cx \<in> {None, Some (rc_logical_call_id ctx)}"
    using fits(2) by (simp_all add: reader_fits_def)
  have "\<not> contradicts (xc_actor_ref cx) receipt ''actor_ref''"
    "\<not> contradicts (xc_tenant_ref cx) receipt ''tenant_id''"
    by (rule not_contradicts[OF ctx(2)] not_contradicts[OF ctx(3)], simp add: env keys f)+
  moreover have "\<not> contradicts (xc_request_ref cx) receipt ''logical_call_id''"
    using ctx(4) by (cases "xc_request_ref cx") (simp_all add: contradicts_def payload_get_def env keys f)
  moreover have "\<exists>raw. ac_provider cf \<lparr>rh_receipt_id = rid, rh_receipt_kind = kind\<rparr> cx = Fetched raw
      \<and> at_parse tools raw = Some (VMap receipt)"
    unfolding fits(3) by (rule fetch_document[of _ _ skf]) (use disk r(1) in simp_all)
  ultimately have "receipt_proved tools cf cx \<lparr>rh_receipt_id = rid, rh_receipt_kind = kind\<rparr> receipt"
    using ctx(1) schema r(2,3) acc(1) k by (simp add: receipt_proved_def fits(4))
  with r(1,4,6) show ?thesis by (intro that) auto
qed

lemma admission_conform:
  assumes "admission_envelope ident ctx st a = Inr env" "aa_disposition a \<in> set KNOWN_DISPOSITIONS"
  shows "kind_conform ''admission'' env"
proof -
  obtain env0 where e0: "common_envelope ident ctx st ''admission'' ''tool_call_admission'' = Inr env0"
    using assms by (auto simp: admission_envelope_def rbind_Inr_iff)
  let ?env1 = "dupdate env0
                 [(''requested_tool_name'', VStr (aa_tool_name a)),
                  (''tool_resolution_status'', VStr ''not_observed''),
                  (''argument_digest'', VStr (aa_argument_digest a)),
                  (''policy_pack_id'', VStr (rc_policy_pack_id ctx)),
                  (''policy_pack_version'', VStr (rc_policy_pack_version ctx)),
                  (''disposition'', VStr (aa_disposition a))]"
  have "kept ?env1 env"
    by (rule kept_limits[OF assms(1)[unfolded admission_envelope_def e0 rbind.simps]])
      (intro kept_given kept_refl; simp add: BUILT_KEYS_def)
  note keys = kept_keys[OF this, unfolded set_dkeys_dupdate]
  have "list_all (\<lambda>f. f \<in> set (dkeys env)) REQUIRED_ADMISSION_FIELDS"
    by (simp add: REQUIRED_ADMISSION_FIELDS_def keys)
  then show ?thesis using assms(2) admission_envelope_ok(4)[OF assms(1)]
    by (auto simp: kind_conform_def list_ex_iff)
qed

lemma outcome_conform:
  assumes "outcome_envelope ident ctx st b = Inr env" "oa_outcome b \<in> set KNOWN_OUTCOMES"
  shows "kind_conform ''outcome'' env"
  using outcome_envelope_ok(3,4)[OF assms(1)] assms(2)
  by (auto simp: kind_conform_def list_ex_iff REQUIRED_OUTCOME_FIELDS_def dest: dget_Some_in_dkeys)

lemma other_files_stay:
  assumes "guard_and_emit ident built sk = (Inr rid, sk')" "name \<noteq> receipt_filename rid"
  shows "dget (sk_files sk') name = dget (sk_files sk) name"
proof -
  obtain out where "sink_write sk out = (Inr rid, sk')"
    using assms(1) by (rule guard_and_emit_ok)
  then show ?thesis using assms(2)
    by (auto simp: sink_write_def split: sum.splits option.splits pyv.splits if_splits
        list.splits bool.splits)
qed

text \<open>A reader set up for the issuer: it trusts the issuer's bundle and reads the directory.\<close>

definition reader_set_up ::
  "string access_tools \<Rightarrow> string access_config \<Rightarrow> (nat \<Rightarrow> nat) \<Rightarrow> dir_node dict \<Rightarrow> signing_identity
    \<Rightarrow> receipt_context \<Rightarrow> access_context \<Rightarrow> bool" where
  "reader_set_up tools cf avail dir ident ctx cx =
     (ac_provider cf = filesystem_fetch avail dir \<and> ac_trust_bundle cf = VMap (trust_bundle ident)
      \<and> reader_fits cf cx ctx)"

lemma composes_proved:
  assumes "receipt_proved tools cf (context_of cx) \<lparr>rh_receipt_id = aid, rh_receipt_kind = ''admission''\<rparr> ra"
    "receipt_proved tools cf (context_of cx) \<lparr>rh_receipt_id = oid, rh_receipt_kind = ''outcome''\<rparr> rb"
    "\<not> blank call"
    "envelopes_agree call parent (Some ra) (Some rb)"
    "set hs = {\<lparr>rh_receipt_id = aid, rh_receipt_kind = ''admission''\<rparr>,
               \<lparr>rh_receipt_id = oid, rh_receipt_kind = ''outcome''\<rparr>}" "length hs = 2"
  shows "compose_receipts tools cf cx hs call parent = Inr \<lparr>co_logical_call_id = call,
      co_admission = Some \<lparr>vr_handle = \<lparr>rh_receipt_id = aid, rh_receipt_kind = ''admission''\<rparr>,
                           vr_envelope = ra\<rparr>,
      co_outcome = Some \<lparr>vr_handle = \<lparr>rh_receipt_id = oid, rh_receipt_kind = ''outcome''\<rparr>,
                         vr_envelope = rb\<rparr>, co_diagnostic = None\<rparr>"
proof -
  obtain x y where xy: "hs = [x, y]" using assms(6) by (auto simp: length_Suc_conv numeral_2_eq_2)
  have "of_kind_handles ''admission'' hs = [\<lparr>rh_receipt_id = aid, rh_receipt_kind = ''admission''\<rparr>]"
    "of_kind_handles ''outcome'' hs = [\<lparr>rh_receipt_id = oid, rh_receipt_kind = ''outcome''\<rparr>]"
    using assms(5) by (auto simp: xy of_kind_handles_def doubleton_eq_iff)
  then show ?thesis using assms(3,4) proved_resolves[OF assms(1)] proved_resolves[OF assms(2)]
    by (simp add: compose_def resolve_first_def composition_ok of_kind_def)
qed


text \<open>A concrete issuer and its reader: the signature is a constant that the scheme accepts, and the
  parser knows the two texts of the directory.\<close>

definition access_identity :: signing_identity where
  "access_identity = \<lparr>si_issuer_id = ''issuer:1'', si_key_id = ''key:1'',
     si_public_key = replicate 32 CHR ''k'', si_not_before = ''t0'', si_not_after = ''t1'',
     si_crypto = \<lparr>cr_canon = (\<lambda>v. Some []), cr_hex = (\<lambda>s. []), cr_sign = (\<lambda>s. replicate 64 CHR ''s'')\<rparr>\<rparr>"

lemma b64_plain: "CHR ''/'' \<noteq> b64_char n" "CHR '':'' \<noteq> b64_char n"
proof -
  have eq: "c = b64_char n \<longleftrightarrow> (of_char c :: nat) = of_char (b64_char n)" for c by simp
  show "CHR ''/'' \<noteq> b64_char n" "CHR '':'' \<noteq> b64_char n"
    unfolding eq by (auto simp: b64_char_def)
qed

lemma b64_clean: "clean_text (b64url_encode s)"
proof -
  have "CHR ''/'' \<notin> set (b64url_encode s) \<and> CHR '':'' \<notin> set (b64url_encode s)"
    by (induction s rule: b64url_encode.induct) (simp_all add: Let_def b64_plain)
  moreover have "contains m s \<Longrightarrow> set m \<subseteq> set s" for m s :: string
    using set_mono_sublist by (auto simp: contains_iff_sublist)
  ultimately show ?thesis
    by (fastforce simp: clean_text_def private_marker_def PRIVATE_MARKERS_def)
qed

definition access_stamp :: "string \<Rightarrow> stamp" where
  "access_stamp rid = \<lparr>st_receipt_id = rid, st_issued_at = ''2026-01-01T00:00:00Z''\<rparr>"

lemma access_builds_clean:
  "clean_build (admission_envelope access_identity sample_mw_context (access_stamp ''urn:1'')
     (sample_args ''admitted'' None))"
  "clean_build (outcome_envelope access_identity sample_mw_context (access_stamp ''urn:2'') sample_outcome_args)"
  "clean_text ''key:1''"
  by code_simp+

lemma access_accepts:
  assumes "clean_build built" "sk_faults sk = []"
    and "\<And>env. built = Inr env \<Longrightarrow> dget env ''receipt_id'' = Some (VStr rid)"
  shows "\<exists>sk'. guard_and_emit access_identity built sk = (Inr rid, sk')"
proof -
  obtain env where env: "built = Inr env" "enforce_raw_content_exclusion (VMap env) = Inr ()"
      "json_ok (VMap env)"
    using assms(1) by (auto simp: clean_build_def isl_def split: sum.splits) (metis obj_sumE old.unit.exhaust)
  show ?thesis
    by (rule guard_and_emit_accepts[OF env assms(3)[OF env(1)]])
      (use assms(2) access_builds_clean(3) b64_clean in \<open>simp_all add: access_identity_def\<close>)
qed


end
