(* ===== verification/PyUrl.thy ===== *)
theory PyUrl
  imports DagrPrelude
begin

text \<open>What the transports use of Python's \<^verbatim>\<open>urllib.parse.urlsplit\<close> and \<^verbatim>\<open>fnmatch.fnmatch\<close> (Python
  3.11, POSIX, characters of one byte): the five parts of a URL, its host name and port text, and
  shell patterns. Whether the text in brackets of an IPv6 host is a valid address is an argument.\<close>

section \<open>Cutting strings\<close>

definition before :: "char \<Rightarrow> string \<Rightarrow> string" where
  "before c s = takeWhile (\<lambda>x. x \<noteq> c) s"

definition after :: "char \<Rightarrow> string \<Rightarrow> string" where
  "after c s = tl (dropWhile (\<lambda>x. x \<noteq> c) s)"

text \<open>The part after the last occurrence, all of it without one.\<close>

definition after_last :: "char \<Rightarrow> string \<Rightarrow> string" where
  "after_last c s = rev (takeWhile (\<lambda>x. x \<noteq> c) (rev s))"

lemma before_no: "c \<notin> set (before c s)"
  by (auto simp: before_def dest: set_takeWhileD)

section \<open>URLs\<close>

record split_url =
  su_scheme :: string
  su_netloc :: string
  su_path :: string
  su_query :: string
  su_fragment :: string

definition ascii_alpha :: "char \<Rightarrow> bool" where
  "ascii_alpha c = (let n = of_char c :: nat in (65 \<le> n \<and> n \<le> 90) \<or> (97 \<le> n \<and> n \<le> 122))"

definition scheme_char :: "char \<Rightarrow> bool" where
  "scheme_char c = (let n = of_char c :: nat in ascii_alpha c \<or> (48 \<le> n \<and> n \<le> 57)
     \<or> c = CHR ''+'' \<or> c = CHR ''-'' \<or> c = CHR ''.'')"

definition clean_url :: "string \<Rightarrow> string" where
  "clean_url url =
     filter (\<lambda>c. c \<notin> {CHR 0x09, CHR 0x0D, CHR 0x0A})
       (dropWhile (\<lambda>c. (of_char c :: nat) \<le> 32) url)"

definition url_scheme :: "string \<Rightarrow> string \<times> string" where
  "url_scheme url =
    (let head = before (CHR '':'') url in
     if CHR '':'' \<in> set url \<and> head \<noteq> [] \<and> ascii_alpha (hd head) \<and> list_all scheme_char head
     then (py_lower head, after (CHR '':'') url) else ([], url))"

definition url_brackets_ok :: "(string \<Rightarrow> bool) \<Rightarrow> string \<Rightarrow> bool" where
  "url_brackets_ok address_ok netloc =
    ((CHR ''['' \<in> set netloc) = (CHR '']'' \<in> set netloc)
     \<and> (if CHR ''['' \<in> set netloc
        then address_ok (before (CHR '']'') (after (CHR ''['') netloc)) else True))"

definition cut :: "char \<Rightarrow> string \<Rightarrow> string \<times> string" where
  "cut c s = (before c s, after c s)"

text \<open>No value stands for the \<^verbatim>\<open>ValueError\<close> of a malformed network location.\<close>

definition urlsplit :: "(string \<Rightarrow> bool) \<Rightarrow> string \<Rightarrow> split_url option" where
  "urlsplit address_ok url =
    (let (scheme, rest) = url_scheme (clean_url url);
         has = take 2 rest = ''//'';
         delimiter = (\<lambda>c. c \<in> {CHR ''/'', CHR ''?'', CHR ''#''});
         netloc = (if has then takeWhile (\<lambda>c. \<not> delimiter c) (drop 2 rest) else []);
         tail = (if has then dropWhile (\<lambda>c. \<not> delimiter c) (drop 2 rest) else rest);
         (upto_fragment, fragment) = cut (CHR ''#'') tail;
         (path, query) = cut (CHR ''?'') upto_fragment in
     if has \<and> \<not> url_brackets_ok address_ok netloc then None
     else Some \<lparr>su_scheme = scheme, su_netloc = netloc, su_path = path, su_query = query,
                su_fragment = fragment\<rparr>)"

definition url_hostinfo :: "string \<Rightarrow> string \<times> string" where
  "url_hostinfo netloc =
    (let info = after_last (CHR ''@'') netloc in
     if CHR ''['' \<in> set info
     then (let bracketed = after (CHR ''['') info in
           (before (CHR '']'') bracketed, after (CHR '':'') (after (CHR '']'') bracketed)))
     else (before (CHR '':'') info, after (CHR '':'') info))"

text \<open>The host is lower-cased up to the zone of a scoped address.\<close>

definition url_hostname :: "split_url \<Rightarrow> string option" where
  "url_hostname u =
    (let host = fst (url_hostinfo (su_netloc u)) in
     if host = [] then None
     else Some (py_lower (before (CHR ''%'') host)
                @ dropWhile (\<lambda>c. c \<noteq> CHR ''%'') host))"

definition url_userinfo :: "split_url \<Rightarrow> bool" where
  "url_userinfo u = (CHR ''@'' \<in> set (su_netloc u))"

section \<open>Shell patterns\<close>

text \<open>A class carries its negation and its chunks: every character of a chunk matches, and so does
  the range from the last character of a chunk to the first of the next.\<close>

datatype glob_token = GStar | GAny | GChar char | GClass bool "string list"

definition char_le :: "char \<Rightarrow> char \<Rightarrow> bool" where
  "char_le a b = ((of_char a :: nat) \<le> of_char b)"

function chunks_from :: "nat \<Rightarrow> string \<Rightarrow> string list" where
  "chunks_from start s =
    (if CHR ''-'' \<in> set (drop start s)
     then take (start + length (before (CHR ''-'') (drop start s))) s
            # chunks_from 2 (drop (start + length (before (CHR ''-'') (drop start s)) + 1) s)
     else [s])"
  by auto
termination
  by (relation "measure (\<lambda>(start, s). length s)") (auto, use neq_Nil_conv in fastforce)

definition class_chunks :: "string \<Rightarrow> string list" where
  "class_chunks stuff =
    (let cs = chunks_from (if take 1 stuff = ''!'' then 2 else 1) stuff in
     if last cs = [] then butlast (butlast cs) @ [last (butlast cs) @ ''-''] else cs)"

text \<open>An empty range drops its two ends and joins the chunks.\<close>

fun join_empty_ranges :: "string list \<Rightarrow> string list" where
  "join_empty_ranges (c # d # cs) =
     (case join_empty_ranges (d # cs) of
        e # es \<Rightarrow> if \<not> char_le (last c) (hd e) then (butlast c @ tl e) # es else c # e # es
      | [] \<Rightarrow> [c])"
| "join_empty_ranges cs = cs"

definition class_token :: "string \<Rightarrow> glob_token" where
  "class_token stuff =
    (let cs = join_empty_ranges (class_chunks stuff) in
     if take 1 (hd cs) = ''!''
     then (if cs = [''!''] then GAny else GClass True (tl (hd cs) # tl cs))
     else GClass False cs)"

fun in_chunks :: "char \<Rightarrow> string list \<Rightarrow> bool" where
  "in_chunks x (c # d # cs) =
     (x \<in> set c
      \<or> (if c = [] \<or> d = [] then x = CHR ''-'' else char_le (last c) x \<and> char_le x (hd d))
      \<or> in_chunks x (d # cs))"
| "in_chunks x [c] = (x \<in> set c)"
| "in_chunks x [] = False"

text \<open>The text of a class and what follows its closing bracket, which a bracket right after the
  opening or the negation does not close.\<close>

definition bracket_split :: "string \<Rightarrow> (string \<times> string) option" where
  "bracket_split s =
    (let i = (if take 1 s = ''!'' then 1 else 0);
         j = (if take 1 (drop i s) = '']'' then i + 1 else i);
         inner = before (CHR '']'') (drop j s) in
     if CHR '']'' \<in> set (drop j s)
     then Some (take j s @ inner, after (CHR '']'') (drop j s)) else None)"

lemma after_length: "length (after c s) \<le> length s"
  by (metis after_def diff_le_self length_dropWhile_le length_tl order_trans)

lemma bracket_split_length: "bracket_split s = Some (stuff, rest) \<Longrightarrow> length rest \<le> length s"
  unfolding bracket_split_def Let_def
  by (auto split: if_splits intro: order_trans[OF after_length])

function glob_tokens :: "string \<Rightarrow> glob_token list" where
  "glob_tokens [] = []"
| "glob_tokens (c # s) =
    (if c = CHR ''*'' then GStar # glob_tokens s
     else if c = CHR ''?'' then GAny # glob_tokens s
     else if c = CHR ''['' then
       (case bracket_split s of
          None \<Rightarrow> GChar c # glob_tokens s
        | Some (stuff, rest) \<Rightarrow> class_token stuff # glob_tokens rest)
     else GChar c # glob_tokens s)"
  by pat_completeness auto
termination
  by (relation "measure length") (auto dest: bracket_split_length)

fun glob_match :: "glob_token list \<Rightarrow> string \<Rightarrow> bool" where
  "glob_match [] s = (s = [])"
| "glob_match (GStar # ts) [] = glob_match ts []"
| "glob_match (GStar # ts) (x # s) = (glob_match ts (x # s) \<or> glob_match (GStar # ts) s)"
| "glob_match (t # ts) [] = False"
| "glob_match (GAny # ts) (x # s) = glob_match ts s"
| "glob_match (GChar c # ts) (x # s) = (x = c \<and> glob_match ts s)"
| "glob_match (GClass neg cs # ts) (x # s) = (in_chunks x cs \<noteq> neg \<and> glob_match ts s)"

definition fnmatch :: "string \<Rightarrow> string \<Rightarrow> bool" where
  "fnmatch name pat = glob_match (glob_tokens pat) name"

section \<open>Facts\<close>

text \<open>A star matches any part of the text.\<close>

lemma glob_star: "glob_match (GStar # ts) s = (\<exists>p q. s = p @ q \<and> glob_match ts q)"
proof (induction s)
  case (Cons x s)
  show ?case
  proof
    assume "glob_match (GStar # ts) (x # s)"
    then have "glob_match ts (x # s) \<or> glob_match (GStar # ts) s" by simp
    then show "\<exists>p q. x # s = p @ q \<and> glob_match ts q"
    proof
      assume "glob_match ts (x # s)"
      then have "x # s = [] @ x # s \<and> glob_match ts (x # s)" by simp
      then show ?thesis by blast
    next
      assume "glob_match (GStar # ts) s"
      then obtain p q where "s = p @ q" "glob_match ts q" using Cons.IH by auto
      then have "x # s = (x # p) @ q \<and> glob_match ts q" by simp
      then show ?thesis by blast
    qed
  next
    assume "\<exists>p q. x # s = p @ q \<and> glob_match ts q"
    then obtain p q where pq: "x # s = p @ q" "glob_match ts q" by auto
    then show "glob_match (GStar # ts) (x # s)" using Cons.IH by (cases p) auto
  qed
qed auto

text \<open>A pattern without special characters matches itself only.\<close>

definition plain_pattern :: "string \<Rightarrow> bool" where
  "plain_pattern p = list_all (\<lambda>c. c \<notin> {CHR ''*'', CHR ''?'', CHR ''[''}) p"

lemma plain_tokens: "plain_pattern p \<Longrightarrow> glob_tokens (p @ r) = map GChar p @ glob_tokens r"
  by (induction p) (auto simp: plain_pattern_def)

lemma match_chars: "glob_match (map GChar p @ ts) s = (\<exists>q. s = p @ q \<and> glob_match ts q)"
proof (induction p arbitrary: s)
  case (Cons c p)
  then show ?case by (cases s) auto
qed auto

lemma fnmatch_plain: "plain_pattern p \<Longrightarrow> fnmatch s p = (s = p)"
  using plain_tokens[of p "[]"] match_chars[of p "[]" s] by (simp add: fnmatch_def)

lemma fnmatch_prefix: "plain_pattern p \<Longrightarrow> fnmatch s (p @ ''*'') = (\<exists>q. s = p @ q)"
  using match_chars[of p "[GStar]" s] by (simp add: fnmatch_def plain_tokens glob_star)

lemma fnmatch_suffix:
  "plain_pattern p \<Longrightarrow> fnmatch s (CHR ''*'' # p) = (\<exists>q. s = q @ p)"
  using plain_tokens[of p "[]"] match_chars[of p "[]"]
  by (auto simp: fnmatch_def glob_star)

end
