(* ===== verification/IronTransform.thy ===== *)
theory IronTransform
  imports PyUrl SrsBridge GatewayContract ToolCallDisposition FastmcpTypes
begin

text \<open>The Iron transform boundary (\<^verbatim>\<open>src/dagr_mcp_service/iron_transform.py\<close>): which HTTP requests are in
  scope, how a JSON-RPC tool call is read out of one, who decides on it, the admission receipt it
  leaves and the answer the proxy gets. JSON reading and writing, SHA-256 and the check of an IPv6
  address are arguments, the answer of the operator's resolver is an input; exceptions are the
  left values of the results.\<close>

section \<open>Requests and answers\<close>

record http_request =
  hq_method :: string
  hq_url :: string
  hq_headers :: "(string \<times> string list) list"
  hq_body :: string
  hq_host :: string

record http_response =
  hs_status :: nat
  hs_headers :: "(string \<times> string list) list"
  hs_body :: string

text \<open>Of the transform context only the tunnel is read: the annotations of its request transforms.\<close>

type_synonym tunnel = "pydict list option"

datatype transform_action = CONTINUE | REJECT

record transform_answer =
  ta_action :: transform_action
  ta_response :: "http_response option"
  ta_annotations :: "string dict"

record server_scope =
  ss_host_patterns :: "string list"
  ss_path_patterns :: "string list"
  ss_allowed_tools :: "string list"
  ss_server_name :: "string option"

record iron_decision =
  id_disposition :: token
  id_reason_code :: "string option"
  id_review_object_ref :: "string option"

record call_facts =
  mf_request_ref :: string
  mf_jsonrpc_id :: "string option"
  mf_tool_name :: string
  mf_arguments :: pydict
  mf_host :: string
  mf_path :: string
  mf_request_digest :: string
  mf_operation_digest :: string

datatype iron_error =
    IronValueError
  | IronDigest receipt_error
  | IronReceipt receipt_error
  | IronContract contract_error
  | IronResolver pyexc

definition make_server_scope :: "server_scope \<Rightarrow> (iron_error, server_scope) result" where
  "make_server_scope sc =
     (if ss_host_patterns sc = [] \<or> ss_allowed_tools sc = [] then Inl IronValueError else Inr sc)"

definition make_iron_decision ::
  "token \<Rightarrow> string option \<Rightarrow> string option \<Rightarrow> (iron_error, iron_decision) result" where
  "make_iron_decision disp reason review =
    (if disp \<notin> set [''admitted'', ''refused'', ''deferred''] then Inl IronValueError
     else if disp = ''admitted'' \<and> reason \<noteq> None then Inl IronValueError
     else if disp \<noteq> ''admitted'' \<and> reason = None then Inl IronValueError
     else Inr \<lparr>id_disposition = disp, id_reason_code = reason, id_review_object_ref = review\<rparr>)"

text \<open>What a resolver hands back: a decision it built, or a value of another type. A decision the
  constructor refuses raises inside the resolver.\<close>

datatype resolver_value = ResolverDecides token "string option" "string option" | ResolverOther

record iron_config =
  ic_scopes :: "server_scope list"
  ic_runtime_instance_id :: string
  ic_boundary_id :: string
  ic_policy_pack_id :: string
  ic_policy_pack_version :: string
  ic_source_repo :: string
  ic_source_commit :: string
  ic_source_proto_path :: string
  ic_source_proto_sha256 :: string
  ic_source_grpc_path :: string
  ic_source_grpc_sha256 :: string
  ic_governed_scope_ref :: string
  ic_actor_ref :: string
  ic_tenant_id :: "string option"
  ic_binding_version :: string
  ic_resolver :: "(call_facts \<Rightarrow> (pyexc, resolver_value) result) option"
  ic_bridge :: "(signing_identity \<times> bridge_config) option"
  ic_reason_message :: string
  ic_malformed_message :: string

record iron_tools =
  it_address_ok :: "string \<Rightarrow> bool"
  it_loads :: "string \<Rightarrow> pyv option"
  it_dumps :: "pyv \<Rightarrow> string"
  it_sha256 :: "string \<Rightarrow> string"
  it_hash :: hash_params
  it_crypto :: crypto

definition IRON_ERROR_CODE :: int where
  "IRON_ERROR_CODE = - 32001"
definition IRON_ERROR_MESSAGE :: string where
  "IRON_ERROR_MESSAGE = ''blocked by dagr governance''"
definition MALFORMED_MESSAGE :: string where
  "MALFORMED_MESSAGE = ''malformed mcp tools/call''"

section \<open>The pinned contract\<close>

definition iron_manifest_required :: "(string \<times> string) list" where
  "iron_manifest_required =
     [(''upstream_repo'', ''https://github.com/paradigmxyz/iron-proxy''),
      (''upstream_commit'', ''564f7bac971dd3d3f077c23a7aaa7484671ed39f''),
      (''source_proto_path'', ''proto/transform/v1/transform.proto''),
      (''source_proto_sha256'', ''7a47034c89081111b43b742ff399192489fb22173b36336e184a924b89aa0a86''),
      (''source_grpc_path'', ''internal/transform/grpc/grpc.go''),
      (''source_grpc_sha256'', ''afe63faaf8bace57f098153369208f12b0c816accae4f4bbc7ff0eab5434034e''),
      (''license'', ''Apache-2.0'')]"

datatype manifest_error = ManifestNotMapping | ManifestDrift string | ManifestFixture

definition validate_iron_contract_manifest :: "pyv \<Rightarrow> (manifest_error, unit) result" where
  "validate_iron_contract_manifest m =
    (case m of
       VMap d \<Rightarrow>
         rbind (each (\<lambda>(k, expected). require (payload_get d k VNone = VStr expected) (ManifestDrift k))
                  iron_manifest_required)
           (\<lambda>_. require (payload_get d ''fixture_path'' VNone = VNone
                          \<or> is_vstr (payload_get d ''fixture_path'' VNone)) ManifestFixture)
     | _ \<Rightarrow> Inl ManifestNotMapping)"

section \<open>Reading a request\<close>

fun header_lookup :: "(string \<times> string list) list \<Rightarrow> string \<Rightarrow> string option" where
  "header_lookup [] name = None"
| "header_lookup ((k, vs) # hs) name =
     (if py_lower k = py_lower name then Some (case vs of [] \<Rightarrow> [] | v # _ \<Rightarrow> v)
      else header_lookup hs name)"

definition split_or_raise :: "iron_tools \<Rightarrow> string \<Rightarrow> (iron_error, split_url) result" where
  "split_or_raise tools url =
     (case urlsplit (it_address_ok tools) url of None \<Rightarrow> Inl IronValueError | Some u \<Rightarrow> Inr u)"

definition request_host :: "iron_tools \<Rightarrow> http_request \<Rightarrow> (iron_error, string) result" where
  "request_host tools rq =
     rbind (if hq_host rq = [] then Inr None
            else rbind (split_or_raise tools (''//'' @ hq_host rq)) (\<lambda>u. Inr (url_hostname u)))
       (\<lambda>direct. case direct of
          Some h \<Rightarrow> Inr h
        | None \<Rightarrow> rbind (split_or_raise tools (hq_url rq))
            (\<lambda>u. Inr (case url_hostname u of Some h \<Rightarrow> h | None \<Rightarrow> hq_host rq)))"

definition request_path :: "iron_tools \<Rightarrow> http_request \<Rightarrow> (iron_error, string) result" where
  "request_path tools rq =
     rbind (split_or_raise tools (hq_url rq))
       (\<lambda>u. Inr (if su_path u = [] then ''/'' else su_path u))"

definition scope_covers :: "server_scope \<Rightarrow> string \<Rightarrow> string \<Rightarrow> bool" where
  "scope_covers sc host path =
     (list_ex (fnmatch host) (ss_host_patterns sc) \<and> list_ex (fnmatch path) (ss_path_patterns sc))"

fun match_scope ::
  "iron_tools \<Rightarrow> server_scope list \<Rightarrow> http_request \<Rightarrow> (iron_error, server_scope option) result" where
  "match_scope tools [] rq = Inr None"
| "match_scope tools (sc # scs) rq =
     rbind (request_host tools rq) (\<lambda>host. rbind (request_path tools rq) (\<lambda>path.
       if scope_covers sc host path then Inr (Some sc) else match_scope tools scs rq))"

definition content_type :: "http_request \<Rightarrow> string" where
  "content_type rq = (case header_lookup (hq_headers rq) ''content-type'' of None \<Rightarrow> [] | Some v \<Rightarrow> v)"

definition is_json_request :: "http_request \<Rightarrow> bool" where
  "is_json_request rq = contains ''application/json'' (py_lower (content_type rq))"

text \<open>\<^verbatim>\<open>request.method.upper() == "POST"\<close>, characters of one byte.\<close>

definition is_post :: "http_request \<Rightarrow> bool" where
  "is_post rq = (py_lower (hq_method rq) = ''post'')"

definition raw_body_digest :: "iron_tools \<Rightarrow> string \<Rightarrow> string" where
  "raw_body_digest tools body = ''sha256:'' @ it_sha256 tools body"

definition jsonrpc_id_text :: "iron_tools \<Rightarrow> pyv \<Rightarrow> (iron_error, string option) result" where
  "jsonrpc_id_text tools v =
    (case v of
       VNone \<Rightarrow> Inr None
     | VStr s \<Rightarrow> Inr (Some s)
     | VBool _ \<Rightarrow> Inr (Some (it_dumps tools v))
     | VInt _ \<Rightarrow> Inr (Some (it_dumps tools v))
     | VFloat _ \<Rightarrow> Inr (Some (it_dumps tools v))
     | _ \<Rightarrow> map_err IronDigest (rbind (sha256_digest (it_crypto tools) v) (\<lambda>d. Inr (Some d))))"

definition scope_name :: "server_scope \<Rightarrow> string" where
  "scope_name sc = (if given (ss_server_name sc) then the (ss_server_name sc)
                    else hd (ss_host_patterns sc))"

definition operation_payload ::
  "server_scope \<Rightarrow> string \<Rightarrow> string \<Rightarrow> string \<Rightarrow> pydict \<Rightarrow> pyv" where
  "operation_payload sc host path tool args =
     VMap [(''scope'', VStr (scope_name sc)), (''host'', VStr host), (''path'', VStr path),
           (''method'', VStr ''tools/call''), (''tool_name'', VStr tool), (''arguments'', VMap args)]"

text \<open>The tool call a body holds, if it holds one: the identifier value, the tool and the arguments.\<close>

definition tools_call :: "iron_tools \<Rightarrow> string \<Rightarrow> (pyv \<times> string \<times> pydict) option" where
  "tools_call tools body =
    (case it_loads tools body of
       Some (VMap p) \<Rightarrow>
         if dget p ''jsonrpc'' \<noteq> Some (VStr ''2.0'') \<or> dget p ''method'' \<noteq> Some (VStr ''tools/call'')
         then None
         else (case dget p ''params'' of
             Some (VMap ps) \<Rightarrow>
               (case (dget ps ''name'', dget ps ''arguments'') of
                  (Some (VStr tool), Some (VMap args)) \<Rightarrow>
                     if blank tool then None else Some (payload_get p ''id'' VNone, tool, args)
                | _ \<Rightarrow> None)
           | _ \<Rightarrow> None)
     | _ \<Rightarrow> None)"

definition parse_call ::
  "iron_tools \<Rightarrow> http_request \<Rightarrow> server_scope \<Rightarrow> (iron_error, call_facts option) result" where
  "parse_call tools rq sc =
    (case tools_call tools (hq_body rq) of
       None \<Rightarrow> Inr None
     | Some (ident, tool, args) \<Rightarrow>
         rbind (request_host tools rq) (\<lambda>host. rbind (request_path tools rq) (\<lambda>path.
           let operation = stable_payload_hash (it_hash tools) (operation_payload sc host path tool args) in
           rbind (jsonrpc_id_text tools ident) (\<lambda>ident'.
             Inr (Some \<lparr>mf_request_ref = ''iron:'' @ operation, mf_jsonrpc_id = ident',
                        mf_tool_name = tool, mf_arguments = args, mf_host = host, mf_path = path,
                        mf_request_digest = raw_body_digest tools (hq_body rq),
                        mf_operation_digest = operation\<rparr>)))))"

definition incoming_operation_digests :: "tunnel \<Rightarrow> string list" where
  "incoming_operation_digests tn =
    (case tn of None \<Rightarrow> []
     | Some transforms \<Rightarrow>
         concat (map (\<lambda>annotations. concat (map (\<lambda>(k, v).
             case v of VStr s \<Rightarrow> if k \<in> set [''operation_digest'', ''dagr.operation_digest''] then [s] else []
             | _ \<Rightarrow> []) annotations)) transforms))"

section \<open>Deciding\<close>

definition jsonrpc_error_response :: "iron_tools \<Rightarrow> string option \<Rightarrow> string \<Rightarrow> http_response" where
  "jsonrpc_error_response tools request_id message =
     \<lparr>hs_status = 200, hs_headers = [(''Content-Type'', [''application/json''])],
      hs_body = utf8 (it_dumps tools (VMap
        [(''jsonrpc'', VStr ''2.0''), (''id'', vopt request_id),
         (''error'', VMap [(''code'', VInt IRON_ERROR_CODE), (''message'', VStr message)])]))\<rparr>"

definition binding_unavailable :: iron_decision where
  "binding_unavailable = \<lparr>id_disposition = ''refused'', id_reason_code = Some ''binding_unavailable'',
     id_review_object_ref = None\<rparr>"

definition governed_iron_decision ::
  "iron_config \<Rightarrow> call_facts \<Rightarrow> server_scope \<Rightarrow> (iron_error, iron_decision) result" where
  "governed_iron_decision cf facts sc =
    (if mf_tool_name facts \<notin> set (ss_allowed_tools sc)
     then Inr \<lparr>id_disposition = ''refused'', id_reason_code = Some ''unknown_tool_fail_closed'',
               id_review_object_ref = None\<rparr>
     else case ic_resolver cf of
         None \<Rightarrow> Inr binding_unavailable
       | Some resolver \<Rightarrow>
           (case resolver facts of
              Inl e \<Rightarrow> if is_exception e then Inr binding_unavailable else Inl (IronResolver e)
            | Inr ResolverOther \<Rightarrow> Inr binding_unavailable
            | Inr (ResolverDecides d r v) \<Rightarrow>
                (case make_iron_decision d r v of
                   Inl _ \<Rightarrow> Inr binding_unavailable | Inr dec \<Rightarrow> Inr dec)))"

section \<open>Annotations\<close>

definition opt_annotation :: "string \<Rightarrow> string option \<Rightarrow> string dict \<Rightarrow> string dict" where
  "opt_annotation k v d = (case v of None \<Rightarrow> d | Some s \<Rightarrow> dset k s d)"

definition admission_annotations ::
  "iron_config \<Rightarrow> server_scope \<Rightarrow> call_facts \<Rightarrow> iron_decision \<Rightarrow> string option \<Rightarrow> string option
    \<Rightarrow> string dict" where
  "admission_annotations cf sc facts dec receipt_ref status =
     opt_annotation ''dagr.status'' status
      (opt_annotation ''dagr.receipt_ref'' receipt_ref
       (opt_annotation ''dagr.review_object_ref'' (id_review_object_ref dec)
        (opt_annotation ''dagr.reason_code'' (id_reason_code dec)
          [(''dagr.scope'', ic_governed_scope_ref cf), (''dagr.scope_name'', scope_name sc),
           (''dagr.scope_state'', ''in_scope''), (''dagr.request_ref'', mf_request_ref facts),
           (''dagr.jsonrpc_id'', (case mf_jsonrpc_id facts of None \<Rightarrow> [] | Some i \<Rightarrow> i)),
           (''dagr.operation_digest'', mf_operation_digest facts),
           (''dagr.request_digest'', mf_request_digest facts),
           (''dagr.source_repo'', ic_source_repo cf), (''dagr.source_commit'', ic_source_commit cf),
           (''dagr.source_proto_path'', ic_source_proto_path cf),
           (''dagr.source_proto_sha256'', ic_source_proto_sha256 cf),
           (''dagr.source_grpc_path'', ic_source_grpc_path cf),
           (''dagr.source_grpc_sha256'', ic_source_grpc_sha256 cf),
           (''dagr.decision'', id_disposition dec)])))"

definition source_annotations :: "iron_config \<Rightarrow> string dict" where
  "source_annotations cf =
     [(''dagr.source_repo'', ic_source_repo cf), (''dagr.source_commit'', ic_source_commit cf),
      (''dagr.source_proto_path'', ic_source_proto_path cf),
      (''dagr.source_proto_sha256'', ic_source_proto_sha256 cf)]"

definition out_of_scope_annotations ::
  "iron_tools \<Rightarrow> iron_config \<Rightarrow> http_request \<Rightarrow> (iron_error, string dict) result" where
  "out_of_scope_annotations tools cf rq =
     rbind (request_host tools rq) (\<lambda>host. rbind (request_path tools rq) (\<lambda>path. Inr
       ([(''dagr.scope'', ic_governed_scope_ref cf), (''dagr.scope_state'', ''out_of_scope''),
         (''dagr.request_host'', host), (''dagr.request_path'', path)] @ source_annotations cf)))"

definition response_kind :: "iron_tools \<Rightarrow> string \<Rightarrow> string" where
  "response_kind tools body =
    (case it_loads tools body of
       None \<Rightarrow> ''opaque''
     | Some (VMap p) \<Rightarrow> (if dget p ''error'' \<noteq> None then ''jsonrpc_error''
                         else if dget p ''result'' \<noteq> None then ''jsonrpc_result'' else ''jsonrpc_object'')
     | Some (VList _) \<Rightarrow> ''jsonrpc_batch''
     | Some _ \<Rightarrow> ''unknown'')"

definition observation_annotations ::
  "iron_tools \<Rightarrow> iron_config \<Rightarrow> http_request \<Rightarrow> http_response \<Rightarrow> (iron_error, string dict) result" where
  "observation_annotations tools cf rq rs =
     rbind (request_host tools rq) (\<lambda>host. rbind (request_path tools rq) (\<lambda>path. Inr
       ([(''dagr.scope'', ic_governed_scope_ref cf), (''dagr.scope_state'', ''observed_only''),
         (''dagr.request_host'', host), (''dagr.request_path'', path),
         (''dagr.observed.response_digest'', raw_body_digest tools (hs_body rs)),
         (''dagr.observed.response_kind'', response_kind tools (hs_body rs))]
        @ source_annotations cf)))"

section \<open>The admission receipt\<close>

text \<open>The bridge reads the four references of the context and nothing else of it.\<close>

definition iron_receipt_context :: "iron_config \<Rightarrow> call_facts \<Rightarrow> harness_context" where
  "iron_receipt_context cf facts =
     \<lparr>hc_harness_version = [], hc_adapter_type = [], hc_module_id = [], hc_module_version = [],
      hc_profile_ref = [], hc_policy_ref = [], hc_tool_name = [],
      hc_arguments_hash = mf_operation_digest facts, hc_actor_ref = Some (ic_actor_ref cf),
      hc_session_ref = None, hc_request_ref = Some (mf_request_ref facts),
      hc_raw_arguments_allowed = False, hc_result_hash = None, hc_raw_result_allowed = False,
      hc_event_chain_refs = [], hc_receipt_refs = [], hc_review_object_ref = None,
      hc_admission_receipt_ref = None, hc_sink_health_snapshot = [], hc_attestation_limits = []\<rparr>"

definition iron_review_ref :: "iron_decision \<Rightarrow> call_facts \<Rightarrow> string" where
  "iron_review_ref dec facts =
     (if given (id_review_object_ref dec) then the (id_review_object_ref dec)
      else ''iron-review:'' @ mf_operation_digest facts)"

definition iron_admission_args :: "call_facts \<Rightarrow> iron_decision \<Rightarrow> admission_args" where
  "iron_admission_args facts dec =
    (let base = \<lparr>aa_tool_name = mf_tool_name facts, aa_argument_digest = mf_operation_digest facts,
                 aa_disposition = ''refused'', aa_review_object_ref = None, aa_retry_contract = None,
                 aa_reason_code = id_reason_code dec, aa_limits = VTuple []\<rparr> in
     if id_disposition dec = ''admitted''
     then base\<lparr>aa_disposition := ''admitted'', aa_reason_code := None\<rparr>
     else if id_disposition dec = ''deferred''
     then base\<lparr>aa_disposition := ''deferred'',
               aa_review_object_ref := Some (iron_review_ref dec facts),
               aa_retry_contract := Some ''retry_after_approval''\<rparr>
     else base)"

definition record_iron_admission ::
  "iron_config \<Rightarrow> string \<Rightarrow> stamp \<Rightarrow> call_facts \<Rightarrow> iron_decision \<Rightarrow> sink
    \<Rightarrow> (iron_error, receipt_handle list) result \<times> sink" where
  "record_iron_admission cf uuid st facts dec sk =
    (case ic_bridge cf of
       None \<Rightarrow> (Inr [], sk)
     | Some (ident, bc) \<Rightarrow>
         (case bridge_emit_admission ident bc uuid st (iron_receipt_context cf facts)
                 (iron_admission_args facts dec) None None sk of
            (Inl e, sk') \<Rightarrow> (Inl (IronReceipt e), sk')
          | (Inr rid, sk') \<Rightarrow>
              (map_err IronContract (rbind (make_receipt_handle (VStr rid) ''admission'')
                 (\<lambda>h. Inr [h])), sk')))"

section \<open>Evaluating a request\<close>

definition governed_answer ::
  "string \<Rightarrow> token \<Rightarrow> receipt_handle list \<Rightarrow> string option \<Rightarrow> string option \<Rightarrow> string option
    \<Rightarrow> (iron_error, unit governed_response) result" where
  "governed_answer ref disp handles review retry diagnostic =
     map_err IronContract
      (rbind (make_governed_decision disp None) (\<lambda>d. make_response
        \<lparr>gr_request_ref = ref, gr_logical_call_id = ref, gr_decision = Some d,
         gr_business_result = None, gr_receipts = handles, gr_review_object_ref = review,
         gr_custody_ref = None, gr_parent_ref = None, gr_retry_instruction = retry,
         gr_diagnostic_code = diagnostic, gr_cancellation_facts = None\<rparr>))"

type_synonym iron_result = "(iron_error, transform_answer \<times> unit governed_response option) result"

definition malformed_answer :: "iron_tools \<Rightarrow> iron_config \<Rightarrow> http_request \<Rightarrow> iron_result" where
  "malformed_answer tools cf rq =
    (let ref = ''iron:'' @ raw_body_digest tools (hq_body rq) in
     rbind (out_of_scope_annotations tools cf rq) (\<lambda>ann.
     rbind (governed_answer ref ''refused'' [] None None (Some ''malformed_request'')) (\<lambda>gov. Inr
       (\<lparr>ta_action = REJECT, ta_response = Some (jsonrpc_error_response tools None MALFORMED_MESSAGE),
         ta_annotations = dset ''dagr.reason_code'' ''malformed_request''
           (dset ''dagr.decision'' ''refused'' (dset ''dagr.scope_state'' ''in_scope'' ann))\<rparr>,
        Some gov))))"

definition tampered_answer ::
  "iron_tools \<Rightarrow> iron_config \<Rightarrow> server_scope \<Rightarrow> call_facts \<Rightarrow> iron_result" where
  "tampered_answer tools cf sc facts =
     rbind (make_iron_decision ''refused'' (Some ''malformed_request'') None) (\<lambda>dec.
     rbind (governed_answer (mf_request_ref facts) ''refused'' [] None None (Some ''malformed_request''))
      (\<lambda>gov. Inr
       (\<lparr>ta_action = REJECT,
         ta_response = Some (jsonrpc_error_response tools (mf_jsonrpc_id facts) MALFORMED_MESSAGE),
         ta_annotations = dset ''dagr.tampered_operation_digest'' ''true''
           (admission_annotations cf sc facts dec None (Some ''tampered_operation_digest''))\<rparr>, Some gov)))"

definition decided_answer ::
  "iron_tools \<Rightarrow> iron_config \<Rightarrow> server_scope \<Rightarrow> call_facts \<Rightarrow> iron_decision \<Rightarrow> receipt_handle list
    \<Rightarrow> iron_result" where
  "decided_answer tools cf sc facts dec handles =
    (let ref = mf_request_ref facts;
         receipt = (case handles of [] \<Rightarrow> None | h # _ \<Rightarrow> Some (rh_receipt_id h));
         blocked = Some (jsonrpc_error_response tools (mf_jsonrpc_id facts) (ic_reason_message cf)) in
     if id_disposition dec = ''admitted''
     then rbind (governed_answer ref ''admitted'' handles None None None) (\<lambda>gov. Inr
       (\<lparr>ta_action = CONTINUE, ta_response = None,
         ta_annotations = admission_annotations cf sc facts dec receipt None\<rparr>, Some gov))
     else if id_disposition dec = ''deferred''
     then rbind (governed_answer ref ''deferred'' handles (Some (iron_review_ref dec facts))
                   (Some ''retry_after_approval'') (Some ''deferred_for_review'')) (\<lambda>gov. Inr
       (\<lparr>ta_action = REJECT, ta_response = blocked,
         ta_annotations = admission_annotations cf sc facts dec receipt (Some ''deferred'')\<rparr>, Some gov))
     else rbind (governed_answer ref ''refused'' handles None None
                   (Some (if given (id_reason_code dec) then the (id_reason_code dec)
                          else ''policy_refused''))) (\<lambda>gov. Inr
       (\<lparr>ta_action = REJECT, ta_response = blocked,
         ta_annotations = admission_annotations cf sc facts dec receipt (Some ''refused'')\<rparr>, Some gov)))"

definition evaluate_request ::
  "iron_tools \<Rightarrow> iron_config \<Rightarrow> string \<Rightarrow> stamp \<Rightarrow> tunnel \<Rightarrow> http_request \<Rightarrow> sink
    \<Rightarrow> iron_result \<times> sink" where
  "evaluate_request tools cf uuid st tn rq sk =
    (case match_scope tools (ic_scopes cf) rq of
       Inl e \<Rightarrow> (Inl e, sk)
     | Inr None \<Rightarrow>
         (rbind (out_of_scope_annotations tools cf rq) (\<lambda>ann. Inr
            (\<lparr>ta_action = CONTINUE, ta_response = None, ta_annotations = ann\<rparr>, None)), sk)
     | Inr (Some sc) \<Rightarrow>
         if \<not> is_post rq \<or> \<not> is_json_request rq then (malformed_answer tools cf rq, sk)
         else (case parse_call tools rq sc of
             Inl e \<Rightarrow> (Inl e, sk)
           | Inr None \<Rightarrow> (malformed_answer tools cf rq, sk)
           | Inr (Some facts) \<Rightarrow>
               let incoming = incoming_operation_digests tn in
               if incoming \<noteq> [] \<and> mf_operation_digest facts \<notin> set incoming
               then (tampered_answer tools cf sc facts, sk)
               else (case governed_iron_decision cf facts sc of
                   Inl e \<Rightarrow> (Inl e, sk)
                 | Inr dec \<Rightarrow>
                     (case record_iron_admission cf uuid st facts dec sk of
                        (Inl e, sk') \<Rightarrow> (Inl e, sk')
                      | (Inr handles, sk') \<Rightarrow> (decided_answer tools cf sc facts dec handles, sk')))))"

definition transform_request ::
  "iron_tools \<Rightarrow> iron_config \<Rightarrow> string \<Rightarrow> stamp \<Rightarrow> tunnel \<Rightarrow> http_request \<Rightarrow> sink
    \<Rightarrow> (iron_error, transform_answer) result \<times> sink" where
  "transform_request tools cf uuid st tn rq sk =
    (case evaluate_request tools cf uuid st tn rq sk of
       (q, sk') \<Rightarrow> (rbind q (\<lambda>(answer, _). Inr answer), sk'))"

definition transform_response ::
  "iron_tools \<Rightarrow> iron_config \<Rightarrow> http_request \<Rightarrow> http_response \<Rightarrow> (iron_error, transform_answer) result" where
  "transform_response tools cf rq rs =
     rbind (match_scope tools (ic_scopes cf) rq) (\<lambda>sc.
     rbind (case sc of None \<Rightarrow> out_of_scope_annotations tools cf rq
            | Some _ \<Rightarrow> observation_annotations tools cf rq rs) (\<lambda>ann.
       Inr \<lparr>ta_action = CONTINUE, ta_response = None, ta_annotations = ann\<rparr>))"

text \<open>The bridge of embedded use.\<close>

definition build_default_admission_bridge ::
  "signing_identity \<Rightarrow> string \<Rightarrow> string \<Rightarrow> string \<Rightarrow> string \<Rightarrow> string \<Rightarrow> string option
    \<Rightarrow> signing_identity \<times> bridge_config" where
  "build_default_admission_bridge ident runtime boundary pack version binding parent =
     (ident, \<lparr>bc_runtime_instance_id = runtime, bc_boundary_id = boundary, bc_policy_pack_id = pack,
              bc_policy_pack_version = version, bc_binding_version = binding,
              bc_parent_receipt_ref = parent\<rparr>)"

end
