(* ===== verification/IronFacts.thy ===== *)
theory IronFacts
  imports IronTransform ReceiptAccessFacts
begin

text \<open>The gate of the Iron boundary: what is let through, what receipt it leaves, and which requests
  a scope covers.\<close>

section \<open>Answers\<close>

lemma iron_ref_named: "\<not> blank (''iron:'' @ x)"
  by (simp add: blank_iff py_space_def)

lemma iron_ref_cases:
  "parse_call tools rq sc = Inr (Some facts) \<Longrightarrow> \<not> blank (mf_request_ref facts)"
  by (auto simp: parse_call_def rbind_Inr_iff Let_def iron_ref_named[simplified]
      split: option.splits prod.splits)

text \<open>The contract accepts every answer but one with a blank review reference or a diagnostic code
  outside the vocabulary.\<close>

definition answer_fault :: "string option \<Rightarrow> string option \<Rightarrow> contract_error option" where
  "answer_fault review diagnostic =
    (if review \<noteq> None \<and> blank (the review) then Some (EmptyField ''review_object_ref'')
     else if diagnostic \<noteq> None \<and> blank (the diagnostic) then Some (EmptyField ''diagnostic_code'')
     else if diagnostic \<noteq> None \<and> the diagnostic \<notin> set ALL_DIAGNOSTIC_CODES
     then Some (UnknownDiagnostic (the diagnostic)) else None)"

lemma governed_answer_cases:
  assumes "\<not> blank ref" "length handles \<le> 1" "disp \<in> {''admitted'', ''refused'', ''deferred''}"
    and "retry = None \<or> retry = Some ''retry_after_approval'' \<and> disp = ''deferred''"
  shows "case governed_answer ref disp handles review retry diagnostic of
     Inl e \<Rightarrow> (case answer_fault review diagnostic of Some f \<Rightarrow> e = IronContract f | None \<Rightarrow> False)
   | Inr gov \<Rightarrow> answer_fault review diagnostic = None"
proof -
  have card: "dget RECEIPT_CARDINALITY ''admitted'' = Some 2" "dget RECEIPT_CARDINALITY ''refused'' = Some 1"
    "dget RECEIPT_CARDINALITY ''deferred'' = Some 1" by code_simp+
  have rt: "\<not> blank ''retry_after_approval''" by code_simp
  show ?thesis using assms card rt
    by (cases review; cases diagnostic; cases retry)
      (auto simp: governed_answer_def make_governed_decision_def NEUTRAL_DISPOSITIONS_def make_response_def
        non_empty_str_def optional_text_def require_def answer_fault_def decided_response_checks_def
        DEFERRAL_CONTINUATION_CONTRACT_def)
qed

definition decision_fault :: "iron_decision \<Rightarrow> call_facts \<Rightarrow> contract_error option" where
  "decision_fault dec facts =
    (if id_disposition dec = ''admitted'' then None
     else if id_disposition dec = ''deferred''
     then answer_fault (Some (iron_review_ref dec facts)) (Some ''deferred_for_review'')
     else answer_fault None (Some (if given (id_reason_code dec) then the (id_reason_code dec)
                                   else ''policy_refused'')))"

lemma decided_cases:
  assumes "\<not> blank (mf_request_ref facts)" "length handles \<le> 1"
    and "id_disposition dec \<in> {''admitted'', ''refused'', ''deferred''}"
  shows "case decided_answer tools cf sc facts dec handles of
     Inl e \<Rightarrow> (case decision_fault dec facts of Some f \<Rightarrow> e = IronContract f | None \<Rightarrow> False)
   | Inr (a, gov) \<Rightarrow> decision_fault dec facts = None
       \<and> (ta_action a = CONTINUE) = (id_disposition dec = ''admitted'')"
proof -
  have none: "answer_fault None None = None" by (simp add: answer_fault_def)
  note gov = governed_answer_cases[OF assms(1,2)]
  define code where "code = (if given (id_reason_code dec) then the (id_reason_code dec) else ''policy_refused'')"
  consider "id_disposition dec = ''admitted''" | "id_disposition dec = ''deferred''"
    | "id_disposition dec = ''refused''" using assms(3) by blast
  then show ?thesis
  proof cases
    case 1
    then show ?thesis using gov[of "''admitted''" None None None] none
      by (cases "governed_answer (mf_request_ref facts) ''admitted'' handles None None None")
        (simp_all add: decided_answer_def decision_fault_def Let_def)
  next
    case 2
    then show ?thesis using gov[of "''deferred''" "Some ''retry_after_approval''"
        "Some (iron_review_ref dec facts)" "Some ''deferred_for_review''"]
      by (cases "governed_answer (mf_request_ref facts) ''deferred'' handles
           (Some (iron_review_ref dec facts)) (Some ''retry_after_approval'') (Some ''deferred_for_review'')")
        (simp_all add: decided_answer_def decision_fault_def Let_def)
  next
    case 3
    then show ?thesis using gov[of "''refused''" None None "Some code"]
      by (cases "governed_answer (mf_request_ref facts) ''refused'' handles None None (Some code)")
        (simp_all add: decided_answer_def decision_fault_def Let_def code_def[symmetric])
  qed
qed

lemma made_decision:
  assumes "make_iron_decision d r v = Inr dec"
  shows "id_disposition dec = d" "d \<in> {''admitted'', ''refused'', ''deferred''}"
    "id_reason_code dec = r" "(d = ''admitted'') = (r = None)"
  using assms by (auto simp: make_iron_decision_def split: if_splits)

lemma decided_source:
  assumes "governed_iron_decision cf facts sc = Inr dec"
  obtains (refused) "id_disposition dec = ''refused''" "id_reason_code dec \<noteq> None"
  | (resolved) f d r v where "mf_tool_name facts \<in> set (ss_allowed_tools sc)" "ic_resolver cf = Some f"
      "f facts = Inr (ResolverDecides d r v)" "make_iron_decision d r v = Inr dec"
proof (cases "mf_tool_name facts \<in> set (ss_allowed_tools sc)")
  case False
  then show ?thesis using assms refused by (auto simp: governed_iron_decision_def)
next
  case tool: True
  have unavailable: "dec = binding_unavailable \<Longrightarrow> thesis"
    using refused by (simp add: binding_unavailable_def)
  show ?thesis
  proof (cases "ic_resolver cf")
    case None
    then show ?thesis using assms tool unavailable by (simp add: governed_iron_decision_def)
  next
    case (Some f)
    show ?thesis
    proof (cases "f facts")
      case (Inl e)
      then show ?thesis using assms tool Some unavailable
        by (simp add: governed_iron_decision_def split: if_splits)
    next
      case (Inr x)
      show ?thesis
      proof (cases x)
        case (ResolverDecides d r v)
        then show ?thesis using assms tool Some Inr unavailable resolved
          by (cases "make_iron_decision d r v") (simp_all add: governed_iron_decision_def)
      next
        case ResolverOther
        then show ?thesis using assms tool Some Inr unavailable by (simp add: governed_iron_decision_def)
      qed
    qed
  qed
qed

lemma iron_decision_kinds:
  assumes "governed_iron_decision cf facts sc = Inr dec"
  shows "id_disposition dec \<in> {''admitted'', ''refused'', ''deferred''}"
    and "id_disposition dec = ''admitted'' \<Longrightarrow> mf_tool_name facts \<in> set (ss_allowed_tools sc)
      \<and> (\<exists>f v. ic_resolver cf = Some f \<and> f facts = Inr (ResolverDecides ''admitted'' None v))"
proof -
  show "id_disposition dec \<in> {''admitted'', ''refused'', ''deferred''}"
    using assms
  proof (cases rule: decided_source)
    case (resolved f d r v)
    then show ?thesis using made_decision(1,2)[OF resolved(4)] by simp
  qed simp
  assume adm: "id_disposition dec = ''admitted''"
  show "mf_tool_name facts \<in> set (ss_allowed_tools sc)
      \<and> (\<exists>f v. ic_resolver cf = Some f \<and> f facts = Inr (ResolverDecides ''admitted'' None v))"
    using assms
  proof (cases rule: decided_source)
    case (resolved f d r v)
    then show ?thesis using made_decision[OF resolved(4)] adm by auto
  qed (simp add: adm)
qed

section \<open>The receipt\<close>

definition iron_receipt :: "call_facts \<Rightarrow> iron_decision \<Rightarrow> pydict \<Rightarrow> bool" where
  "iron_receipt facts dec receipt =
     (dget receipt ''receipt_kind'' = Some (VStr ''admission'')
      \<and> dget receipt ''requested_tool_name'' = Some (VStr (mf_tool_name facts))
      \<and> dget receipt ''argument_digest'' = Some (VStr (mf_operation_digest facts))
      \<and> dget receipt ''disposition'' = Some (VStr (id_disposition dec))
      \<and> raw_free receipt \<and> signature_of receipt \<noteq> None)"

lemma record_cases:
  assumes "id_disposition dec \<in> {''admitted'', ''refused'', ''deferred''}"
  shows "case record_iron_admission cf uuid st facts dec sk of
     (Inl e, sk') \<Rightarrow> ic_bridge cf \<noteq> None
       \<and> (sk_written sk' = sk_written sk \<and> (\<exists>f. e = IronReceipt f)
          \<or> (\<exists>receipt. sk_written sk' = sk_written sk @ [receipt] \<and> iron_receipt facts dec receipt
               \<and> e = IronContract (EmptyField ''receipt_id'')))
   | (Inr handles, sk') \<Rightarrow> length handles \<le> 1
       \<and> (case ic_bridge cf of None \<Rightarrow> sk' = sk
          | Some _ \<Rightarrow> \<exists>receipt. sk_written sk' = sk_written sk @ [receipt] \<and> iron_receipt facts dec receipt)"
proof (cases "ic_bridge cf")
  case None
  then show ?thesis by (simp add: record_iron_admission_def)
next
  case (Some bridge)
  obtain ident bc where b: "bridge = (ident, bc)" by (cases bridge)
  let ?a = "iron_admission_args facts dec\<lparr>aa_argument_digest := mf_operation_digest facts\<rparr>"
  let ?ctx = "bridge_context bc uuid (iron_receipt_context cf facts) None None"
  have emit: "bridge_emit_admission ident bc uuid st (iron_receipt_context cf facts)
      (iron_admission_args facts dec) None None sk = emit_admission ident ?ctx st ?a sk"
    by (simp add: bridge_emit_admission_def iron_receipt_context_def)
  have args: "aa_tool_name ?a = mf_tool_name facts" "aa_disposition ?a = id_disposition dec"
    using assms by (auto simp: iron_admission_args_def Let_def)
  obtain q sk' where e: "emit_admission ident ?ctx st ?a sk = (q, sk')" by (cases "emit_admission ident ?ctx st ?a sk")
  note facts = admission_emission_facts[where ident = ident and ctx = ?ctx and st = st and a = ?a and sk = sk,
      unfolded e prod.case args]
  show ?thesis
  proof (cases q)
    case (Inl f)
    then show ?thesis using facts by (simp add: record_iron_admission_def Some b emit e)
  next
    case (Inr rid)
    then have "\<exists>receipt. sk_written sk' = sk_written sk @ [receipt] \<and> iron_receipt facts dec receipt"
      using facts by (auto simp: iron_receipt_def)
    then show ?thesis using Inr
      by (auto simp: record_iron_admission_def Some b emit e make_receipt_handle_def non_empty_str_def)
  qed
qed

section \<open>The gate\<close>

text \<open>The call of a covered request that gets as far as the decision.\<close>

definition gate_call ::
  "iron_tools \<Rightarrow> tunnel \<Rightarrow> http_request \<Rightarrow> server_scope \<Rightarrow> call_facts option" where
  "gate_call tools tn rq sc =
    (if is_post rq \<and> is_json_request rq then
       (case parse_call tools rq sc of
          Inr (Some facts) \<Rightarrow>
            (if incoming_operation_digests tn = []
                \<or> mf_operation_digest facts \<in> set (incoming_operation_digests tn)
             then Some facts else None)
        | _ \<Rightarrow> None)
     else None)"

lemma malformed_cases:
  "malformed_answer tools cf rq = Inr (a, g) \<Longrightarrow> ta_action a = REJECT"
  "tampered_answer tools cf sc facts = Inr (a, g) \<Longrightarrow> ta_action a = REJECT"
  by (auto simp: malformed_answer_def tampered_answer_def Let_def rbind_Inr_iff)

lemma transform_gate:
  assumes "match_scope tools (ic_scopes cf) rq = Inr (Some sc)"
  shows "transform_request tools cf uuid st tn rq sk =
    (case gate_call tools tn rq sc of
       None \<Rightarrow> (rbind (if \<not> is_post rq \<or> \<not> is_json_request rq then malformed_answer tools cf rq
                 else (case parse_call tools rq sc of Inl e \<Rightarrow> Inl e | Inr None \<Rightarrow> malformed_answer tools cf rq
                       | Inr (Some facts) \<Rightarrow> tampered_answer tools cf sc facts)) (\<lambda>(a, _). Inr a), sk)
     | Some facts \<Rightarrow>
        (case governed_iron_decision cf facts sc of
           Inl e \<Rightarrow> (Inl e, sk)
         | Inr dec \<Rightarrow> (case record_iron_admission cf uuid st facts dec sk of
             (Inl e, sk') \<Rightarrow> (Inl e, sk')
           | (Inr handles, sk') \<Rightarrow>
               (rbind (decided_answer tools cf sc facts dec handles) (\<lambda>(a, _). Inr a), sk'))))"
  using assms
  by (auto simp: transform_request_def evaluate_request_def gate_call_def Let_def
      split: sum.split option.split prod.split)


section \<open>Scopes\<close>

text \<open>The default path patterns cover one path and what is below it, character by character: neither
  an escaped nor a normalised spelling of it.\<close>

lemma default_paths_exact:
  "list_ex (fnmatch path) [''/mcp'', ''/mcp/*''] = (path = ''/mcp'' \<or> (\<exists>rest. path = ''/mcp/'' @ rest))"
proof -
  have "plain_pattern ''/mcp''" "plain_pattern ''/mcp/''" by code_simp+
  then show ?thesis using fnmatch_plain[of "''/mcp''"] fnmatch_prefix[of "''/mcp/''"] by simp
qed

text \<open>The host of a URL is lower-cased, a pattern is not: a plain pattern with an upper-case letter
  covers no request whose host a URL gives, so such requests continue ungoverned.\<close>

lemma hostname_lower:
  assumes "url_hostname u = Some h" "CHR ''%'' \<notin> set h"
  shows "py_lower h = h"
proof -
  let ?host = "fst (url_hostinfo (su_netloc u))"
  have h: "h = py_lower (before CHR ''%'' ?host) @ dropWhile (\<lambda>c. c \<noteq> CHR ''%'') ?host"
    using assms(1) by (simp add: url_hostname_def Let_def split: if_splits)
  have "dropWhile (\<lambda>c. c \<noteq> CHR ''%'') ?host = []"
  proof (rule ccontr)
    assume ne: "dropWhile (\<lambda>c. c \<noteq> CHR ''%'') ?host \<noteq> []"
    from hd_dropWhile[OF ne] have "hd (dropWhile (\<lambda>c. c \<noteq> CHR ''%'') ?host) = CHR ''%''" by simp
    then have "CHR ''%'' \<in> set (dropWhile (\<lambda>c. c \<noteq> CHR ''%'') ?host)" using ne by (metis list.set_sel(1))
    then show False using assms(2) h by simp
  qed
  with h have "h = py_lower (before CHR ''%'' ?host)" by (simp only: append_Nil2)
  then show ?thesis by (metis py_lower_idem)
qed

lemma capital_host_uncovered:
  assumes "plain_pattern pat" "py_lower pat \<noteq> pat" "url_hostname u = Some h" "CHR ''%'' \<notin> set h"
  shows "\<not> fnmatch h pat"
  using fnmatch_plain[OF assms(1)] hostname_lower[OF assms(3,4)] assms(2) by auto

section \<open>What the receipts and the answers miss\<close>

text \<open>A deferral is recorded under a disposition receipt access does not know, so its receipt is never
  resolved.\<close>

lemma deferred_receipt_unresolvable:
  assumes "iron_receipt facts dec receipt" "id_disposition dec = ''deferred''"
  shows "\<not> receipt_proved tools cf ctx handle receipt"
proof
  assume "receipt_proved tools cf ctx handle receipt"
  then have "schema_conform receipt" by (simp add: receipt_proved_def)
  then show False using assms by (simp add: schema_conform_def iron_receipt_def KNOWN_DISPOSITIONS_def)
qed

text \<open>A refusal whose reason is not one of the diagnostic codes raises after its receipt was written.\<close>

lemma unknown_reason_raises:
  assumes "match_scope tools (ic_scopes cf) rq = Inr (Some sc)" "gate_call tools tn rq sc = Some facts"
    and "governed_iron_decision cf facts sc = Inr dec" "id_disposition dec = ''refused''"
    and "id_reason_code dec = Some code" "code \<noteq> []" "code \<notin> set ALL_DIAGNOSTIC_CODES"
  shows "\<exists>e sk'. transform_request tools cf uuid st tn rq sk = (Inl e, sk')"
proof -
  have named: "\<not> blank (mf_request_ref facts)"
    using assms(2) by (auto simp: gate_call_def iron_ref_cases split: if_splits sum.splits option.splits)
  obtain q sk' where rec: "record_iron_admission cf uuid st facts dec sk = (q, sk')"
    by (cases "record_iron_admission cf uuid st facts dec sk")
  have kind: "id_disposition dec \<in> {''admitted'', ''refused'', ''deferred''}" using assms(4) by simp
  note rc = record_cases[OF kind, where cf = cf and uuid = uuid and st = st and facts = facts and sk = sk,
      unfolded rec prod.case]
  have "decision_fault dec facts \<noteq> None"
    using assms(4-7) by (simp add: decision_fault_def answer_fault_def given_def)
  then have "q = Inr handles \<Longrightarrow> \<exists>e. decided_answer tools cf sc facts dec handles = Inl e" for handles
    using rc decided_cases[OF named _ kind, of handles tools cf sc]
    by (cases "decided_answer tools cf sc facts dec handles") auto
  then show ?thesis
    by (cases q) (auto simp: transform_gate[OF assms(1)] assms(2,3) rec)
qed

end
