(* ===== verification/RemoteConnector.thy ===== *)
theory RemoteConnector
  imports PyUrl GatewayAdapter
begin

text \<open>The connector to remote tool servers (\<^verbatim>\<open>src/dagr_mcp_service/connectors/remote.py\<close>): the targets an
  operator may configure, the credentials of one call and where a redirect may carry them, the
  translation of a transport failure, and the registry the gateway resolves against. The HTTP and
  session client is an argument, a function of everything it is given; a number that bounds a
  waiting time is only tested for being positive.\<close>

section \<open>Targets\<close>

datatype credential_answer = NoCredential | Credential "string dict" | NotACredential

record remote_target =
  rt_handle :: string
  rt_endpoint_uri :: string
  rt_timeout_seconds :: pyv
  rt_allow_redirects :: bool
  rt_tls_verify :: bool
  rt_allow_insecure_loopback :: bool
  rt_credential_provider :: "(trusted_context option \<Rightarrow> pyexc + credential_answer) option"

definition LOOPBACK_HOSTNAMES :: "string list" where
  "LOOPBACK_HOSTNAMES = [''127.0.0.1'', ''localhost'', ''::1'']"

text \<open>A number that is not below or equal to zero, which \<^verbatim>\<open>nan\<close> is not either.\<close>

definition positive_number :: "pyv \<Rightarrow> bool" where
  "positive_number v =
    (case v of
       VBool b \<Rightarrow> b | VInt i \<Rightarrow> i > 0
     | VFloat (Finite m e) \<Rightarrow> m > 0 | VFloat NegInf \<Rightarrow> False | VFloat _ \<Rightarrow> True
     | _ \<Rightarrow> False)"

abbreviation remote_value_error :: pyexc where
  "remote_value_error \<equiv> PyException ''ValueError''"

definition make_remote_target :: "(string \<Rightarrow> bool) \<Rightarrow> remote_target \<Rightarrow> pyexc + remote_target" where
  "make_remote_target address_ok t =
    (if blank (rt_handle t) \<or> blank (rt_endpoint_uri t) \<or> \<not> positive_number (rt_timeout_seconds t)
     then Inl remote_value_error
     else case urlsplit address_ok (rt_endpoint_uri t) of
         None \<Rightarrow> Inl remote_value_error
       | Some u \<Rightarrow>
           if url_userinfo u \<or> su_fragment u \<noteq> [] then Inl remote_value_error
           else if su_scheme u = ''https'' then Inr t
           else if su_scheme u = ''http''
             \<and> rt_allow_insecure_loopback t
             \<and> (case url_hostname u of None \<Rightarrow> False | Some h \<Rightarrow> h \<in> set LOOPBACK_HOSTNAMES)
           then Inr t
           else Inl remote_value_error)"

section \<open>Transport failures\<close>

text \<open>The classes of exception the translation tells apart; groups nest.\<close>

datatype transport_leaf = LeafCancelled | LeafConnect | LeafTimeout | LeafMcp int | LeafOther string

datatype raised = Leaf transport_leaf | Grouped "raised list"

fun flatten_exception_group :: "raised \<Rightarrow> transport_leaf list" where
  "flatten_exception_group (Leaf l) = [l]"
| "flatten_exception_group (Grouped rs) = concat (map flatten_exception_group rs)"

definition MCP_REQUEST_TIMEOUT_CODE :: int where
  "MCP_REQUEST_TIMEOUT_CODE = 408"

definition translate_transport_failure :: "raised \<Rightarrow> pyexc" where
  "translate_transport_failure r =
    (let leaves = flatten_exception_group r in
     if LeafCancelled \<in> set leaves then PyCancelled
     else if LeafConnect \<in> set leaves then PyException ''ConnectionError''
     else if list_ex (\<lambda>l. l = LeafMcp MCP_REQUEST_TIMEOUT_CODE \<or> l = LeafTimeout) leaves
     then PyTimeout ''TimeoutError''
     else PyException ''RuntimeError'')"

section \<open>Credentials and redirects\<close>

definition resolve_credential_headers ::
  "remote_target \<Rightarrow> trusted_context option \<Rightarrow> pyexc + string dict" where
  "resolve_credential_headers t ctx =
    (case rt_credential_provider t of
       None \<Rightarrow> Inr []
     | Some provider \<Rightarrow>
         (case provider ctx of
            Inl e \<Rightarrow> Inl e
          | Inr NoCredential \<Rightarrow> Inr []
          | Inr (Credential hs) \<Rightarrow> Inr hs
          | Inr NotACredential \<Rightarrow> Inl (PyException ''TypeError'')))"

text \<open>\<^verbatim>\<open>SplitResult.port\<close>: no value for the error of a port that is no number up to 65535.\<close>

definition ascii_digit :: "char \<Rightarrow> bool" where
  "ascii_digit c = (let n = of_char c :: nat in 48 \<le> n \<and> n \<le> 57)"

definition url_port :: "split_url \<Rightarrow> nat option option" where
  "url_port u =
    (let text = snd (url_hostinfo (su_netloc u));
         value = foldl (\<lambda>n c. 10 * n + (of_char c - 48)) 0 text :: nat in
     if text = [] then Some None
     else if list_all ascii_digit text \<and> value \<le> 65535 then Some (Some value) else None)"

type_synonym origin = "string \<times> string option \<times> nat option"

definition url_origin :: "(string \<Rightarrow> bool) \<Rightarrow> string \<Rightarrow> pyexc + origin" where
  "url_origin address_ok url =
    (case urlsplit address_ok url of
       None \<Rightarrow> Inl remote_value_error
     | Some u \<Rightarrow> (case url_port u of
           None \<Rightarrow> Inl remote_value_error
         | Some port \<Rightarrow> Inr (su_scheme u, url_hostname u, port)))"

text \<open>The request hook; the client's header names do not distinguish cases.\<close>

definition redirect_credential_guard ::
  "(string \<Rightarrow> bool) \<Rightarrow> origin \<Rightarrow> string list \<Rightarrow> string \<Rightarrow> string dict \<Rightarrow> pyexc + string dict" where
  "redirect_credential_guard address_ok target names url headers =
     (case url_origin address_ok url of
        Inl e \<Rightarrow> Inl e
      | Inr here \<Rightarrow>
          Inr (if here = target then headers
               else filter (\<lambda>(k, v). py_lower k \<notin> set (map py_lower names)) headers))"

section \<open>One call\<close>

text \<open>Everything the HTTP client and the session are given.\<close>

record remote_request =
  rq_endpoint :: string
  rq_headers :: "string dict"
  rq_timeout :: pyv
  rq_follow_redirects :: bool
  rq_verify :: bool
  rq_guard :: "(origin \<times> string list) option"
  rq_tool :: string
  rq_arguments :: pydict

type_synonym remote_session = "remote_request \<Rightarrow> raised + sdk_value"

definition call_remote_tool ::
  "(string \<Rightarrow> bool) \<Rightarrow> remote_session \<Rightarrow> remote_target \<Rightarrow> string \<Rightarrow> trusted_context option
    \<Rightarrow> tool_target" where
  "call_remote_tool address_ok session t tool ctx arguments =
    (case resolve_credential_headers t ctx of
       Inl e \<Rightarrow> DelegateRaises e
     | Inr headers \<Rightarrow>
        (case (if rt_allow_redirects t \<and> headers \<noteq> []
               then (case url_origin address_ok (rt_endpoint_uri t) of
                       Inl e \<Rightarrow> Inl e | Inr o' \<Rightarrow> Inr (Some (o', dkeys headers)))
               else Inr None) of
           Inl e \<Rightarrow> DelegateRaises e
         | Inr guard \<Rightarrow>
             (case session \<lparr>rq_endpoint = rt_endpoint_uri t, rq_headers = headers,
                            rq_timeout = rt_timeout_seconds t,
                            rq_follow_redirects = rt_allow_redirects t,
                            rq_verify = rt_tls_verify t, rq_guard = guard, rq_tool = tool,
                            rq_arguments = arguments\<rparr> of
                Inl r \<Rightarrow> DelegateRaises (translate_transport_failure r)
              | Inr v \<Rightarrow> DelegateReturns v)))"

section \<open>The registry\<close>

definition make_remote_connector :: "remote_target dict \<Rightarrow> pyexc + remote_target dict" where
  "make_remote_connector targets =
     (if list_all (\<lambda>(k, t). rt_handle t = k) targets then Inr (dupdate [] targets)
      else Inl remote_value_error)"

definition remote_resolve ::
  "(string \<Rightarrow> bool) \<Rightarrow> remote_session \<Rightarrow> remote_target dict \<Rightarrow> string \<Rightarrow> string
    \<Rightarrow> token + tool_target" where
  "remote_resolve address_ok session targets handle tool =
     (case dget targets handle of
        None \<Rightarrow> Inl ''remote_unavailable''
      | Some t \<Rightarrow> Inr (call_remote_tool address_ok session t tool None))"

text \<open>Binding the trusted context looks the target up again; without one the lookup would raise, which
  a handle that was just resolved excludes.\<close>

definition bind_trusted_context ::
  "(string \<Rightarrow> bool) \<Rightarrow> remote_session \<Rightarrow> remote_target dict \<Rightarrow> tool_target \<Rightarrow> trusted_context
    \<Rightarrow> tool_target" where
  "bind_trusted_context address_ok session targets handler tx =
     (case dget targets (tx_target_handle tx) of
        None \<Rightarrow> (\<lambda>_. DelegateRaises (PyException ''KeyError''))
      | Some t \<Rightarrow> call_remote_tool address_ok session t (tx_tool_name tx) (Some tx))"

section \<open>Targets, exactly\<close>

text \<open>C8: A remote target is https, or http to a loopback host the operator opted in, with a positive
  time-out and without user information or fragment; nothing else is constructed. With redirects
  allowed, a header the credential provider set leaves only on requests to the target's own scheme,
  host and port: the hook removes every such name, in any case, from a request to another origin
  and changes nothing on the target's own.\<close>
theorem credentials_confined:
  assumes "make_remote_target address_ok t = Inr t'"
    and "url_origin address_ok (rt_endpoint_uri t') = Inr target"
    and "redirect_credential_guard address_ok target names url headers = Inr headers'"
  shows "t' = t
    \<and> (fst target = ''https''
       \<or> fst target = ''http'' \<and> rt_allow_insecure_loopback t
         \<and> fst (snd target) \<in> set (map Some LOOPBACK_HOSTNAMES))
    \<and> (if url_origin address_ok url = Inr target then headers' = headers
       else \<forall>name value. (name, value) \<in> set headers' \<longrightarrow> py_lower name \<notin> set (map py_lower names))"
proof -
  have t: "t' = t" using assms(1)
    by (auto simp: make_remote_target_def split: if_splits option.splits)
  have "fst target = ''https'' \<or> fst target = ''http'' \<and> rt_allow_insecure_loopback t
         \<and> fst (snd target) \<in> set (map Some LOOPBACK_HOSTNAMES)"
    using assms(1,2) t
    by (auto simp: make_remote_target_def url_origin_def split: if_splits option.splits)
  moreover have "if url_origin address_ok url = Inr target then headers' = headers
       else \<forall>name value. (name, value) \<in> set headers' \<longrightarrow> py_lower name \<notin> set (map py_lower names)"
    using assms(3) by (auto simp: redirect_credential_guard_def split: sum.splits if_splits)
  ultimately show ?thesis using t by blast
qed

definition sample_target :: remote_target where
  "sample_target = \<lparr>rt_handle = ''mem'', rt_endpoint_uri = ''https://tools.example/mcp'',
     rt_timeout_seconds = VInt 30, rt_allow_redirects = True, rt_tls_verify = True,
     rt_allow_insecure_loopback = False,
     rt_credential_provider = Some (\<lambda>_. Inr (Credential [(''X-Token'', ''secret'')]))\<rparr>"

lemma sample_urls:
  "urlsplit (\<lambda>_. True) ''https://tools.example/mcp'' = Some \<lparr>su_scheme = ''https'',
     su_netloc = ''tools.example'', su_path = ''/mcp'', su_query = [], su_fragment = []\<rparr>"
  "url_origin (\<lambda>_. True) ''https://tools.example/mcp'' = Inr (''https'', Some ''tools.example'', None)"
  "url_origin (\<lambda>_. True) ''https://evil.example/mcp'' = Inr (''https'', Some ''evil.example'', None)"
  "\<not> blank ''mem''" "\<not> blank ''https://tools.example/mcp''"
  by code_simp+

lemma sample_target_made: "make_remote_target (\<lambda>_. True) sample_target = Inr sample_target"
  "url_origin (\<lambda>_. True) (rt_endpoint_uri sample_target) = Inr (''https'', Some ''tools.example'', None)"
  by (simp_all add: make_remote_target_def sample_target_def sample_urls url_userinfo_def positive_number_def)

theorem credentials_confined_witness:
  "redirect_credential_guard (\<lambda>_. True) (''https'', Some ''tools.example'', None) [''X-Token'']
     ''https://evil.example/mcp'' [(''x-token'', ''secret''), (''accept'', ''text'')] = Inr [(''accept'', ''text'')]
   \<and> fst (''https'', Some ''tools.example'', None :: nat option) = ''https''"
proof -
  have g: "redirect_credential_guard (\<lambda>_. True) (''https'', Some ''tools.example'', None) [''X-Token'']
     ''https://evil.example/mcp'' [(''x-token'', ''secret''), (''accept'', ''text'')] = Inr [(''accept'', ''text'')]"
    unfolding redirect_credential_guard_def sample_urls(3) by code_simp
  from credentials_confined[OF sample_target_made(1,2) g] show ?thesis using g by simp
qed

section \<open>Failures, exactly\<close>


text \<open>A credential provider that raises a connection error is reported as an unavailable target although
  no connection was attempted.\<close>

lemma provider_failure_blames_target:
  assumes "rt_credential_provider t = Some (\<lambda>_. Inl (PyException ''ConnectionError''))"
  shows "call_remote_tool address_ok session t tool ctx args = DelegateRaises (PyException ''ConnectionError'')"
    and "is_connection_error (PyException ''ConnectionError'')"
  using assms
  by (simp_all add: call_remote_tool_def resolve_credential_headers_def is_connection_error_def
      CONNECTION_ERROR_CLASSES_def)

text \<open>An interrupt of the interpreter while the session runs becomes a run-time error.\<close>

lemma interrupt_swallowed:
  "translate_transport_failure (Leaf (LeafOther ''KeyboardInterrupt'')) = PyException ''RuntimeError''"
  by (simp add: translate_transport_failure_def)

text \<open>A resolved handle is bound to the same target.\<close>

lemma bound_after_resolve:
  assumes "remote_resolve address_ok session targets (tx_target_handle tx) tool = Inr handler"
  shows "\<exists>t. dget targets (tx_target_handle tx) = Some t
     \<and> bind_trusted_context address_ok session targets handler tx
        = call_remote_tool address_ok session t (tx_tool_name tx) (Some tx)"
  using assms by (auto simp: remote_resolve_def bind_trusted_context_def split: option.splits)

end
