(* ===== verification/FlightRecorder.thy ===== *)
theory FlightRecorder
  imports PyValue
begin

text \<open>The evidence flight recorder (\<^verbatim>\<open>src/dagr_mcp/evidence_flight_recorder.py\<close>): the file-backed and the
  in-memory recorder, the manifest and the reader of a log. The log is the text of its file; the
  clock, the identifiers and the faults of the operating system are inputs, and so is what
  \<^verbatim>\<open>json.loads\<close> makes of a line. The writer of a line is written out.\<close>

section \<open>Vocabulary\<close>

definition KNOWN_PHASES :: "token list" where
  "KNOWN_PHASES = [''discovered'', ''fetched'', ''cited'', ''relied_upon'']"
definition KNOWN_STATUSES :: "token list" where
  "KNOWN_STATUSES = [''present'', ''absent'', ''failed'', ''error'', ''not_evaluated'']"
definition FAILURE_STATUSES :: "token list" where
  "FAILURE_STATUSES = [''failed'', ''error'']"
definition GAP_STATUSES :: "token list" where
  "GAP_STATUSES = [''absent'']"

section \<open>Records\<close>

record flight_record =
  fl_record_id :: string
  fl_session_ref :: string
  fl_phase :: token
  fl_occurred_at :: string
  fl_subject_ref :: string
  fl_source_ref :: "string option"
  fl_status :: token
  fl_detail :: "string option"
  fl_failure_code :: "string option"

definition flight_dict :: "flight_record \<Rightarrow> pydict" where
  "flight_dict r =
     [(''record_id'', VStr (fl_record_id r)), (''session_ref'', VStr (fl_session_ref r)),
      (''phase'', VStr (fl_phase r)), (''occurred_at'', VStr (fl_occurred_at r)),
      (''subject_ref'', VStr (fl_subject_ref r)), (''source_ref'', vopt (fl_source_ref r)),
      (''status'', VStr (fl_status r)), (''detail'', vopt (fl_detail r)),
      (''failure_code'', vopt (fl_failure_code r))]"

text \<open>\<^verbatim>\<open>json.dumps(..., ensure_ascii=False, separators=(",", ":"))\<close> of such a mapping.\<close>

definition json_hex_digit :: "nat \<Rightarrow> char" where
  "json_hex_digit n = char_of (if n < 10 then 48 + n else 87 + n)"

definition json_char :: "char \<Rightarrow> string" where
  "json_char c = (let n = of_char c :: nat; bs = CHR 0x5C in
     if n = 34 \<or> n = 92 then [bs, c]
     else if n = 10 then [bs, CHR ''n''] else if n = 13 then [bs, CHR ''r'']
     else if n = 9 then [bs, CHR ''t''] else if n = 8 then [bs, CHR ''b'']
     else if n = 12 then [bs, CHR ''f'']
     else if n < 32 then [bs, CHR ''u'', CHR ''0'', CHR ''0'', json_hex_digit (n div 16), json_hex_digit (n mod 16)]
     else [c])"

definition json_string :: "string \<Rightarrow> string" where
  "json_string s = CHR 0x22 # concat (map json_char s) @ [CHR 0x22]"

definition json_scalar :: "pyv \<Rightarrow> string" where
  "json_scalar v = (case v of VStr s \<Rightarrow> json_string s | _ \<Rightarrow> ''null'')"

fun json_members :: "pydict \<Rightarrow> string" where
  "json_members [] = []"
| "json_members [(k, v)] = json_string k @ CHR '':'' # json_scalar v"
| "json_members ((k, v) # kvs) = json_string k @ CHR '':'' # json_scalar v @ CHR '','' # json_members kvs"

definition to_json_line :: "flight_record \<Rightarrow> string" where
  "to_json_line r = CHR ''{'' # json_members (flight_dict r) @ [CHR ''}'']"

datatype flight_error = UnknownPhase token | UnknownStatus token | RecorderClosed | FlightOsError
  | FlightClosedFile | FlightAttributeError | FlightLoadsFault

record record_args =
  ra_phase :: token
  ra_subject_ref :: string
  ra_source_ref :: "string option"
  ra_status :: token
  ra_detail :: "string option"
  ra_failure_code :: "string option"
  ra_occurred_at :: "string option"

text \<open>The identifier and the time that are minted are inputs; an empty time counts as none given.\<close>

definition make_flight_record ::
  "string \<Rightarrow> string \<Rightarrow> string \<Rightarrow> record_args \<Rightarrow> (flight_error, flight_record) result" where
  "make_flight_record rid now session a =
    (if ra_phase a \<notin> set KNOWN_PHASES then Inl (UnknownPhase (ra_phase a))
     else if ra_status a \<notin> set KNOWN_STATUSES then Inl (UnknownStatus (ra_status a))
     else Inr \<lparr>fl_record_id = rid, fl_session_ref = session, fl_phase = ra_phase a,
               fl_occurred_at = (if given (ra_occurred_at a) then the (ra_occurred_at a) else now),
               fl_subject_ref = ra_subject_ref a, fl_source_ref = ra_source_ref a,
               fl_status = ra_status a, fl_detail = ra_detail a,
               fl_failure_code = ra_failure_code a\<rparr>)"

section \<open>The manifest\<close>

record flight_manifest =
  mn_session_ref :: string
  mn_opened_at :: string
  mn_closed_at :: string
  mn_log_path :: string
  mn_total_records :: nat
  mn_by_phase :: "nat dict"
  mn_by_status :: "nat dict"
  mn_gaps :: "pydict list"
  mn_failures :: "pydict list"

definition counted :: "token \<Rightarrow> nat dict \<Rightarrow> nat dict" where
  "counted k d = dset k ((case dget d k of None \<Rightarrow> 0 | Some n \<Rightarrow> n) + 1) d"

definition add_to_manifest :: "flight_record \<Rightarrow> flight_manifest \<Rightarrow> flight_manifest" where
  "add_to_manifest r m =
     m\<lparr>mn_by_phase := counted (fl_phase r) (mn_by_phase m),
       mn_by_status := counted (fl_status r) (mn_by_status m),
       mn_gaps := mn_gaps m @ (if fl_status r \<in> set GAP_STATUSES then [flight_dict r] else []),
       mn_failures := mn_failures m @ (if fl_status r \<in> set FAILURE_STATUSES then [flight_dict r] else [])\<rparr>"

definition assemble_manifest ::
  "string \<Rightarrow> string \<Rightarrow> string \<Rightarrow> string \<Rightarrow> flight_record list \<Rightarrow> flight_manifest" where
  "assemble_manifest session opened path now records =
     fold add_to_manifest records
       \<lparr>mn_session_ref = session, mn_opened_at = opened, mn_closed_at = now, mn_log_path = path,
        mn_total_records = length records, mn_by_phase = [], mn_by_status = [], mn_gaps = [],
        mn_failures = []\<rparr>"

definition counts_value :: "nat dict \<Rightarrow> pyv" where
  "counts_value d = VMap (map (\<lambda>(k, n). (k, VInt (int n))) d)"

definition manifest_dict :: "flight_manifest \<Rightarrow> pydict" where
  "manifest_dict m =
     [(''session_ref'', VStr (mn_session_ref m)), (''opened_at'', VStr (mn_opened_at m)),
      (''closed_at'', VStr (mn_closed_at m)), (''log_path'', VStr (mn_log_path m)),
      (''total_records'', VInt (int (mn_total_records m))),
      (''by_phase'', counts_value (mn_by_phase m)), (''by_status'', counts_value (mn_by_status m)),
      (''gaps'', VList (map VMap (mn_gaps m))), (''failures'', VList (map VMap (mn_failures m)))]"

section \<open>The file-backed recorder\<close>

text \<open>The log file's text and the manifest document are part of the state: they are what outlives the
  recorder. A path is its directory and its last component.\<close>

record recorder =
  rd_log_path :: "string \<times> string"
  rd_session_ref :: string
  rd_opened_at :: string
  rd_records :: "flight_record list"
  rd_handle_open :: bool
  rd_closed :: bool
  rd_manifest_path :: "(string \<times> string) option"
  rd_log_text :: string
  rd_manifest_file :: "pydict option"

text \<open>\<^verbatim>\<open>Path.with_suffix\<close> on the last component.\<close>

definition dot_suffix :: "string \<Rightarrow> string" where
  "dot_suffix name =
    (let ext = rev (takeWhile (\<lambda>c. c \<noteq> CHR ''.'') (rev name));
         stem = take (length name - length ext - 1) name in
     if CHR ''.'' \<in> set name \<and> ext \<noteq> [] \<and> stem \<noteq> [] then CHR ''.'' # ext else [])"

definition with_suffix :: "string \<Rightarrow> string \<Rightarrow> string" where
  "with_suffix ext name = take (length name - length (dot_suffix name)) name @ ext"

definition path_text :: "string \<times> string \<Rightarrow> string" where
  "path_text p = fst p @ CHR ''/'' # snd p"

text \<open>Opening truncates whatever the file held.\<close>

definition open_recorder :: "string \<times> string \<Rightarrow> string \<Rightarrow> string \<Rightarrow> recorder" where
  "open_recorder path session now =
     \<lparr>rd_log_path = path, rd_session_ref = session, rd_opened_at = now, rd_records = [],
      rd_handle_open = True, rd_closed = False, rd_manifest_path = None, rd_log_text = [], rd_manifest_file = None\<rparr>"

text \<open>One write: without a fault the line and its end reach the file, with one only the given part.\<close>

definition record_op ::
  "string \<Rightarrow> string \<Rightarrow> string option \<Rightarrow> record_args \<Rightarrow> recorder
    \<Rightarrow> (flight_error, string) result \<times> recorder" where
  "record_op rid now fault a rd =
    (if rd_closed rd then (Inl RecorderClosed, rd)
     else case make_flight_record rid now (rd_session_ref rd) a of
         Inl e \<Rightarrow> (Inl e, rd)
       | Inr r \<Rightarrow>
          (let rd1 = rd\<lparr>rd_records := rd_records rd @ [r]\<rparr> in
           if \<not> rd_handle_open rd then (Inl FlightClosedFile, rd1) else
           case fault of
             None \<Rightarrow> (Inr (fl_record_id r),
                      rd1\<lparr>rd_log_text := rd_log_text rd1 @ to_json_line r @ [CHR 0x0A]\<rparr>)
           | Some part \<Rightarrow> (Inl FlightOsError, rd1\<lparr>rd_log_text := rd_log_text rd1 @ part\<rparr>)))"

definition phase_args :: "token \<Rightarrow> record_args \<Rightarrow> record_args" where
  "phase_args phase a = a\<lparr>ra_phase := phase\<rparr>"

definition discovered :: "record_args \<Rightarrow> record_args" where
  "discovered = phase_args ''discovered''"
definition fetched_phase :: "record_args \<Rightarrow> record_args" where
  "fetched_phase = phase_args ''fetched''"
definition cited :: "record_args \<Rightarrow> record_args" where
  "cited = phase_args ''cited''"
definition relied_upon :: "record_args \<Rightarrow> record_args" where
  "relied_upon = phase_args ''relied_upon''"

text \<open>Closing: the handle may fail to close, which closes it all the same, and the manifest may fail to
  be written.\<close>

datatype close_fault = NoCloseFault | HandleFault | ManifestFault

definition build_manifest :: "string \<Rightarrow> recorder \<Rightarrow> flight_manifest" where
  "build_manifest now rd =
     assemble_manifest (rd_session_ref rd) (rd_opened_at rd) (path_text (rd_log_path rd)) now (rd_records rd)"

definition close_op ::
  "string \<Rightarrow> close_fault \<Rightarrow> recorder
    \<Rightarrow> (flight_error, (string \<times> string) option) result \<times> recorder" where
  "close_op now fault rd =
    (if rd_closed rd then (Inr (rd_manifest_path rd), rd)
     else if fault = HandleFault \<and> rd_handle_open rd
     then (Inl FlightOsError, rd\<lparr>rd_handle_open := False\<rparr>)
     else (let rd1 = rd\<lparr>rd_handle_open := False, rd_closed := True\<rparr>;
               path = (fst (rd_log_path rd), with_suffix ''.manifest.json'' (snd (rd_log_path rd))) in
           if fault = ManifestFault then (Inl FlightOsError, rd1)
           else (Inr (Some path),
                 rd1\<lparr>rd_manifest_file := Some (manifest_dict (build_manifest now rd1)),
                     rd_manifest_path := Some path\<rparr>)))"

section \<open>The in-memory recorder\<close>

record memory_recorder =
  mr_session_ref :: string
  mr_opened_at :: string
  mr_records :: "flight_record list"
  mr_closed :: bool
  mr_manifest :: "flight_manifest option"

definition open_memory_recorder :: "string \<Rightarrow> string \<Rightarrow> memory_recorder" where
  "open_memory_recorder session now =
     \<lparr>mr_session_ref = session, mr_opened_at = now, mr_records = [], mr_closed = False,
      mr_manifest = None\<rparr>"

definition memory_record_op ::
  "string \<Rightarrow> string \<Rightarrow> record_args \<Rightarrow> memory_recorder
    \<Rightarrow> (flight_error, string) result \<times> memory_recorder" where
  "memory_record_op rid now a mr =
    (if mr_closed mr then (Inl RecorderClosed, mr)
     else case make_flight_record rid now (mr_session_ref mr) a of
         Inl e \<Rightarrow> (Inl e, mr)
       | Inr r \<Rightarrow> (Inr (fl_record_id r), mr\<lparr>mr_records := mr_records mr @ [r]\<rparr>))"

definition memory_close_op :: "string \<Rightarrow> memory_recorder \<Rightarrow> flight_manifest option \<times> memory_recorder" where
  "memory_close_op now mr =
    (if mr_closed mr then (mr_manifest mr, mr)
     else (let m = assemble_manifest (mr_session_ref mr) (mr_opened_at mr) ''<in-memory>'' now (mr_records mr)
           in (Some m, mr\<lparr>mr_closed := True, mr_manifest := Some m\<rparr>)))"

section \<open>Reading a log\<close>

text \<open>Text mode reads every newline convention: a line ends at a line feed, a carriage return, or both.\<close>

function text_lines :: "string \<Rightarrow> string list" where
  "text_lines s =
    (let line = takeWhile (\<lambda>c. c \<notin> {CHR 0x0A, CHR 0x0D}) s;
         rest = dropWhile (\<lambda>c. c \<notin> {CHR 0x0A, CHR 0x0D}) s in
     if s = [] then []
     else if take 2 rest = [CHR 0x0D, CHR 0x0A] then line # text_lines (drop 2 rest)
     else line # text_lines (drop 1 rest))"
  by auto
termination
proof (relation "measure length")
  fix s :: string and line rest
  assume s: "s \<noteq> []" and r: "rest = dropWhile (\<lambda>c. c \<notin> {CHR 0x0A, CHR 0x0D}) s"
  have le: "length rest \<le> length s" unfolding r by (rule length_dropWhile_le)
  show "(drop 2 rest, s) \<in> measure length" "(drop 1 rest, s) \<in> measure length"
    using s le by (cases rest; auto)+
qed auto

declare text_lines.simps [simp del]

definition read_field :: "pydict \<Rightarrow> string \<Rightarrow> pyv \<Rightarrow> pyv" where
  "read_field obj k dflt = (case dget obj k of None \<Rightarrow> dflt | Some v \<Rightarrow> v)"

text \<open>A record as it was read: its fields hold whatever the line has.\<close>

definition read_object :: "pydict \<Rightarrow> pydict" where
  "read_object obj =
     [(''record_id'', read_field obj ''record_id'' (VStr [])),
      (''session_ref'', read_field obj ''session_ref'' (VStr [])),
      (''phase'', read_field obj ''phase'' (VStr [])),
      (''occurred_at'', read_field obj ''occurred_at'' (VStr [])),
      (''subject_ref'', read_field obj ''subject_ref'' (VStr [])),
      (''source_ref'', read_field obj ''source_ref'' VNone),
      (''status'', read_field obj ''status'' (VStr [])), (''detail'', read_field obj ''detail'' VNone),
      (''failure_code'', read_field obj ''failure_code'' VNone)]"

definition parse_error_record :: "string \<Rightarrow> string \<Rightarrow> string \<Rightarrow> nat \<Rightarrow> string \<Rightarrow> pydict" where
  "parse_error_record rid now path n line =
     flight_dict \<lparr>fl_record_id = rid, fl_session_ref = [], fl_phase = ''parse_error'', fl_occurred_at = now,
       fl_subject_ref = ''log_line:'' @ nat_str n, fl_source_ref = Some path, fl_status = ''error'',
       fl_detail = Some line, fl_failure_code = Some ''flight_log.parse_error''\<rparr>"

text \<open>What \<^verbatim>\<open>json.loads\<close> makes of a line is an argument: a value, the decoding error that is caught, or
  another exception. The identifier and the time minted for a bad
  line depend on its number. A value without \<^verbatim>\<open>get\<close> raises past the handler.\<close>

datatype line_value = JsonValue pyv | NotJson | LoadsRaises

fun read_lines ::
  "(string \<Rightarrow> line_value) \<Rightarrow> (nat \<Rightarrow> string \<times> string) \<Rightarrow> string \<Rightarrow> nat \<Rightarrow> string list
    \<Rightarrow> (flight_error, pydict list) result" where
  "read_lines loads mint path n [] = Inr []"
| "read_lines loads mint path n (line # ls) =
    (if line = [] then read_lines loads mint path (n + 1) ls
     else rbind (case loads line of
                   NotJson \<Rightarrow> Inr (parse_error_record (fst (mint n)) (snd (mint n)) path n line)
                 | JsonValue (VMap obj) \<Rightarrow> Inr (read_object obj)
                 | JsonValue _ \<Rightarrow> Inl FlightAttributeError
                 | LoadsRaises \<Rightarrow> Inl FlightLoadsFault)
            (\<lambda>r. rbind (read_lines loads mint path (n + 1) ls) (\<lambda>rs. Inr (r # rs))))"

definition read_flight_log ::
  "(string \<Rightarrow> line_value) \<Rightarrow> (nat \<Rightarrow> string \<times> string) \<Rightarrow> string \<Rightarrow> string
    \<Rightarrow> (flight_error, pydict list) result" where
  "read_flight_log loads mint path content = read_lines loads mint path 1 (text_lines content)"

end
