(* ===== verification/FlightFacts.thy ===== *)
theory FlightFacts
  imports FlightRecorder
begin

text \<open>A flight log is read back as it was recorded, and the manifest counts exactly what was recorded.\<close>

section \<open>Lines\<close>

lemma json_char_printable: "c \<in> set (json_char d) \<Longrightarrow> 32 \<le> (of_char c :: nat)"
proof -
  have hex: "n < 16 \<Longrightarrow> 32 \<le> (of_char (json_hex_digit n) :: nat)" for n
    by (simp add: json_hex_digit_def)
  have "(of_char d :: nat) mod 16 < 16" by simp
  moreover have "(of_char d :: nat) < 32 \<Longrightarrow> (of_char d :: nat) div 16 < 16" by simp
  ultimately show "c \<in> set (json_char d) \<Longrightarrow> 32 \<le> (of_char c :: nat)"
    using hex[of "of_char d div 16"] hex[of "of_char d mod 16"]
    by (auto simp: json_char_def Let_def split: if_splits)
qed

lemma json_string_printable: "c \<in> set (json_string s) \<Longrightarrow> 32 \<le> (of_char c :: nat)"
  by (auto simp: json_string_def dest: json_char_printable)

lemma json_members_printable: "c \<in> set (json_members kvs) \<Longrightarrow> 32 \<le> (of_char c :: nat)"
  by (induction kvs rule: json_members.induct)
    (auto simp: json_scalar_def dest: json_string_printable split: pyv.splits)

lemma line_printable: "c \<in> set (to_json_line r) \<Longrightarrow> 32 \<le> (of_char c :: nat)"
  by (auto simp: to_json_line_def dest: json_members_printable)

lemma line_breaks: "CHR 0x0A \<notin> set (to_json_line r)" "CHR 0x0D \<notin> set (to_json_line r)"
  using line_printable[of "CHR 0x0A" r] line_printable[of "CHR 0x0D" r] by auto

lemma line_nonempty: "to_json_line r \<noteq> []"
  by (simp add: to_json_line_def)

definition log_text :: "flight_record list \<Rightarrow> string" where
  "log_text rs = concat (map (\<lambda>r. to_json_line r @ [CHR 0x0A]) rs)"

lemma log_text_snoc: "log_text (rs @ [r]) = log_text rs @ to_json_line r @ [CHR 0x0A]"
  by (simp add: log_text_def)

lemma text_lines_log: "text_lines (log_text rs) = map to_json_line rs"
proof (induction rs)
  case Nil
  show ?case by (subst text_lines.simps) (simp add: log_text_def)
next
  case (Cons r rs)
  let ?P = "\<lambda>c. c \<notin> {CHR 0x0A, CHR 0x0D}"
  have plain: "\<forall>c\<in>set (to_json_line r). ?P c" using line_breaks[of r] by auto
  have parts: "log_text (r # rs) = to_json_line r @ CHR 0x0A # log_text rs" by (simp add: log_text_def)
  have "takeWhile ?P (log_text (r # rs)) = to_json_line r"
    "dropWhile ?P (log_text (r # rs)) = CHR 0x0A # log_text rs"
    unfolding parts using plain by (simp_all add: takeWhile_append2 dropWhile_append2)
  then show ?case using Cons.IH
    by (subst text_lines.simps) (simp add: Let_def, simp add: parts)
qed

lemma read_object_dict: "read_object (flight_dict r) = flight_dict r"
  by (simp add: read_object_def flight_dict_def read_field_def)

lemma read_lines_written:
  assumes "list_all (\<lambda>r. loads (to_json_line r) = JsonValue (VMap (flight_dict r))) rs"
  shows "read_lines loads mint path n (map to_json_line rs) = Inr (map flight_dict rs)"
  using assms by (induction rs arbitrary: n) (simp_all add: line_nonempty read_object_dict)

section \<open>The manifest\<close>

definition phase_count :: "token \<Rightarrow> flight_record list \<Rightarrow> nat" where
  "phase_count p rs = length (filter (\<lambda>r. fl_phase r = p) rs)"

definition status_count :: "token \<Rightarrow> flight_record list \<Rightarrow> nat" where
  "status_count t rs = length (filter (\<lambda>r. fl_status r = t) rs)"

definition as_count :: "nat \<Rightarrow> nat option" where
  "as_count n = (if n = 0 then None else Some n)"

lemma dget_counted:
  "dget (counted k d) x = (if x = k then Some ((case dget d k of None \<Rightarrow> 0 | Some n \<Rightarrow> n) + 1) else dget d x)"
  by (simp add: counted_def)

definition counts_exactly :: "flight_manifest \<Rightarrow> flight_record list \<Rightarrow> bool" where
  "counts_exactly m rs =
     ((\<forall>p. dget (mn_by_phase m) p = as_count (phase_count p rs))
      \<and> (\<forall>t. dget (mn_by_status m) t = as_count (status_count t rs))
      \<and> mn_gaps m = map flight_dict (filter (\<lambda>r. fl_status r = ''absent'') rs)
      \<and> mn_failures m = map flight_dict (filter (\<lambda>r. fl_status r \<in> {''failed'', ''error''}) rs))"

lemma counts_add: "counts_exactly m rs \<Longrightarrow> counts_exactly (add_to_manifest r m) (rs @ [r])"
  by (auto simp: counts_exactly_def add_to_manifest_def dget_counted as_count_def phase_count_def
      status_count_def GAP_STATUSES_def FAILURE_STATUSES_def)

lemma counts_fold: "counts_exactly m rs \<Longrightarrow> counts_exactly (fold add_to_manifest later m) (rs @ later)"
  by (induction later arbitrary: m rs) (use counts_add in fastforce)+

lemma manifest_kept:
  "mn_total_records (fold add_to_manifest rs m) = mn_total_records m"
  "mn_session_ref (fold add_to_manifest rs m) = mn_session_ref m"
  by (induction rs arbitrary: m) (simp_all add: add_to_manifest_def)

lemma assembled_counts:
  "counts_exactly (assemble_manifest session opened path now rs) rs"
  "mn_total_records (assemble_manifest session opened path now rs) = length rs"
  using counts_fold[of _ "[]" rs]
  by (simp_all add: assemble_manifest_def manifest_kept counts_exactly_def as_count_def
      phase_count_def status_count_def)

section \<open>Sequences of operations\<close>

datatype recorder_act = DoRecord string string "string option" record_args | DoClose string close_fault

fun act :: "recorder_act \<Rightarrow> recorder \<Rightarrow> recorder" where
  "act (DoRecord rid now fault a) rd = snd (record_op rid now fault a rd)"
| "act (DoClose now fault) rd = snd (close_op now fault rd)"

fun faultless :: "recorder_act \<Rightarrow> bool" where
  "faultless (DoRecord rid now fault a) = (fault = None)"
| "faultless (DoClose now fault) = (fault = NoCloseFault)"

definition used_recorder :: "string \<times> string \<Rightarrow> string \<Rightarrow> string \<Rightarrow> recorder_act list \<Rightarrow> recorder" where
  "used_recorder path session now acts = fold act acts (open_recorder path session now)"

text \<open>What every recorder keeps, with and without faults.\<close>

definition recorder_ok :: "string \<times> string \<Rightarrow> string \<Rightarrow> string \<Rightarrow> recorder \<Rightarrow> bool" where
  "recorder_ok path session opened rd =
     (rd_log_path rd = path \<and> rd_session_ref rd = session \<and> rd_opened_at rd = opened
      \<and> list_all (\<lambda>r. fl_session_ref r = session \<and> fl_phase r \<in> set KNOWN_PHASES
                     \<and> fl_status r \<in> set KNOWN_STATUSES) (rd_records rd)
      \<and> (rd_manifest_file rd = None) = (rd_manifest_path rd = None)
      \<and> (case rd_manifest_file rd of None \<Rightarrow> True
         | Some m \<Rightarrow> rd_closed rd \<and> (\<exists>now. m = manifest_dict
             (assemble_manifest session opened (path_text path) now (rd_records rd)))))"

lemma made_record:
  "make_flight_record rid now session a = Inr r \<Longrightarrow>
     fl_session_ref r = session \<and> fl_phase r \<in> set KNOWN_PHASES \<and> fl_status r \<in> set KNOWN_STATUSES
     \<and> fl_record_id r = rid"
  by (auto simp: make_flight_record_def split: if_splits)

lemma act_ok: "recorder_ok path session opened rd \<Longrightarrow> recorder_ok path session opened (act a rd)"
proof (cases a)
  case (DoRecord rid now fault args)
  assume ok: "recorder_ok path session opened rd"
  show ?thesis
  proof (cases "rd_closed rd")
    case True
    then show ?thesis using ok by (simp add: DoRecord record_op_def)
  next
    case False
    have none: "rd_manifest_file rd = None" "rd_manifest_path rd = None"
      using ok False by (auto simp: recorder_ok_def split: option.splits)
    show ?thesis
    proof (cases "make_flight_record rid now (rd_session_ref rd) args")
      case (Inl e)
      then show ?thesis using ok False by (simp add: DoRecord record_op_def)
    next
      case (Inr r)
      then show ?thesis using ok False made_record[OF Inr] none
        by (cases fault) (auto simp: DoRecord record_op_def Let_def recorder_ok_def)
    qed
  qed
next
  case (DoClose now fault)
  assume ok: "recorder_ok path session opened rd"
  then show ?thesis
    by (auto simp: DoClose close_op_def Let_def recorder_ok_def build_manifest_def split: option.splits)
qed

lemma used_ok: "recorder_ok path session now (used_recorder path session now acts)"
proof -
  have "recorder_ok path session now rd \<Longrightarrow> recorder_ok path session now (fold act acts rd)" for rd
    by (induction acts arbitrary: rd) (simp_all add: act_ok)
  then show ?thesis by (simp add: used_recorder_def recorder_ok_def open_recorder_def)
qed

text \<open>Without faults the log holds a line per record.\<close>

definition logged :: "recorder \<Rightarrow> bool" where
  "logged rd = (rd_log_text rd = log_text (rd_records rd)
     \<and> rd_handle_open rd = (\<not> rd_closed rd) \<and> (rd_manifest_file rd \<noteq> None) = rd_closed rd)"

lemma act_logged: "faultless a \<Longrightarrow> logged rd \<Longrightarrow> logged (act a rd)"
  by (cases a) (auto simp: logged_def record_op_def close_op_def Let_def log_text_snoc split: sum.splits)

lemma used_logged:
  "list_all faultless acts \<Longrightarrow> logged (used_recorder path session now acts)"
proof -
  have "list_all faultless acts \<Longrightarrow> logged rd \<Longrightarrow> logged (fold act acts rd)" for rd
    by (induction acts arbitrary: rd) (simp_all add: act_logged)
  then show "list_all faultless acts \<Longrightarrow> ?thesis"
    by (simp add: used_recorder_def logged_def open_recorder_def log_text_def)
qed

text \<open>A closed recorder does not change any more.\<close>

lemma closed_frozen: "rd_closed rd \<Longrightarrow> fold act acts rd = rd"
proof (induction acts)
  case (Cons a acts)
  then show ?case by (cases a) (simp_all add: record_op_def close_op_def)
qed simp

section \<open>The recorder\<close>

text \<open>C36: A flight log is read back as it was recorded. Whatever records and closings a recorder went
  through without a fault of the operating system, whatever text the observations hold, reading
  its log file gives one entry per record, in order, with exactly the recorded fields and no parse
  error, provided the JSON reader reads what the writer wrote: the writer escapes every character
  that could end a line.\<close>
theorem flight_log_roundtrip:
  assumes "list_all faultless acts"
    and "list_all (\<lambda>r. loads (to_json_line r) = JsonValue (VMap (flight_dict r)))
           (rd_records (used_recorder path session now acts))"
  shows "read_flight_log loads mint name (rd_log_text (used_recorder path session now acts))
    = Inr (map flight_dict (rd_records (used_recorder path session now acts)))"
  using used_logged[OF assms(1), of path session now] read_lines_written[OF assms(2)]
  by (simp add: read_flight_log_def logged_def text_lines_log)

definition sample_record_args :: record_args where
  "sample_record_args = \<lparr>ra_phase = ''cited'', ra_subject_ref = ''a'' @ [CHR 0x0A], ra_source_ref = None,
     ra_status = ''absent'', ra_detail = Some [CHR 0x22], ra_failure_code = None, ra_occurred_at = None\<rparr>"

definition sample_flight_record :: flight_record where
  "sample_flight_record = \<lparr>fl_record_id = ''efr:1'', fl_session_ref = ''s'', fl_phase = ''cited'',
     fl_occurred_at = ''t'', fl_subject_ref = ''a'' @ [CHR 0x0A], fl_source_ref = None,
     fl_status = ''absent'', fl_detail = Some [CHR 0x22], fl_failure_code = None\<rparr>"

definition sample_acts :: "recorder_act list" where
  "sample_acts = [DoRecord ''efr:1'' ''t'' None sample_record_args, DoClose ''u'' NoCloseFault]"

lemma sample_used:
  "rd_records (used_recorder (''/log'', ''s.ndjson'') ''s'' ''o'' sample_acts) = [sample_flight_record]"
  by (simp add: used_recorder_def sample_acts_def open_recorder_def record_op_def close_op_def Let_def
      make_flight_record_def sample_record_args_def sample_flight_record_def KNOWN_PHASES_def KNOWN_STATUSES_def)

theorem flight_log_roundtrip_witness:
  "read_flight_log (\<lambda>t. if t = to_json_line sample_flight_record
       then JsonValue (VMap (flight_dict sample_flight_record)) else NotJson) (\<lambda>n. ([], [])) ''s.ndjson''
     (rd_log_text (used_recorder (''/log'', ''s.ndjson'') ''s'' ''o'' sample_acts))
   = Inr [flight_dict sample_flight_record]"
  using flight_log_roundtrip[of sample_acts "\<lambda>t. if t = to_json_line sample_flight_record
       then JsonValue (VMap (flight_dict sample_flight_record)) else NotJson" "(''/log'', ''s.ndjson'')" "''s''"
       "''o''" "\<lambda>n. ([], [])" "''s.ndjson''"]
  by (simp add: sample_used) (simp add: sample_acts_def)

text \<open>C37: A recorder and its manifest are exact. Every record it holds is of its session and of the
  closed vocabularies, whatever was asked and whatever faults occurred; a manifest file exists only
  once it is closed and is the summary of exactly the records it holds: their number, the number of
  each phase and of each status that occurs, every absent one as a gap and every failed one as a
  failure, verbatim and in order. Once closed, nothing that is asked changes it, and without faults
  its log holds one line per record and closing it has written the manifest.\<close>
theorem recorder_exact:
  "let rd = used_recorder path session now acts in
     list_all (\<lambda>r. fl_session_ref r = session \<and> fl_phase r \<in> set KNOWN_PHASES
                  \<and> fl_status r \<in> set KNOWN_STATUSES) (rd_records rd)
     \<and> (case rd_manifest_file rd of
          None \<Rightarrow> rd_manifest_path rd = None
        | Some doc \<Rightarrow> rd_closed rd \<and> (\<exists>m. doc = manifest_dict m \<and> mn_total_records m = length (rd_records rd)
             \<and> counts_exactly m (rd_records rd)))
     \<and> (if rd_closed rd then fold act more_acts rd = rd else True)
     \<and> (if list_all faultless acts
        then rd_log_text rd = log_text (rd_records rd) \<and> (rd_manifest_file rd \<noteq> None) = rd_closed rd
        else True)"
proof -
  let ?rd = "used_recorder path session now acts"
  note ok = used_ok[of path session now acts, unfolded recorder_ok_def]
  have "case rd_manifest_file ?rd of
          None \<Rightarrow> rd_manifest_path ?rd = None
        | Some doc \<Rightarrow> rd_closed ?rd \<and> (\<exists>m. doc = manifest_dict m \<and> mn_total_records m = length (rd_records ?rd)
             \<and> counts_exactly m (rd_records ?rd))"
    using ok assembled_counts by (cases "rd_manifest_file ?rd") (simp_all, metis)
  then show ?thesis
    using ok closed_frozen[of ?rd more_acts] used_logged[of acts path session now]
    by (simp add: Let_def logged_def)
qed

section \<open>The in-memory recorder\<close>

fun memory_act :: "recorder_act \<Rightarrow> memory_recorder \<Rightarrow> memory_recorder" where
  "memory_act (DoRecord rid now fault a) mr = snd (memory_record_op rid now a mr)"
| "memory_act (DoClose now fault) mr = snd (memory_close_op now mr)"

text \<open>What the two recorders share.\<close>

definition same_recorder :: "recorder \<Rightarrow> memory_recorder \<Rightarrow> bool" where
  "same_recorder rd mr =
     (mr_session_ref mr = rd_session_ref rd \<and> mr_opened_at mr = rd_opened_at rd
      \<and> mr_records mr = rd_records rd \<and> mr_closed mr = rd_closed rd
      \<and> rd_handle_open rd = (\<not> rd_closed rd)
      \<and> rd_manifest_file rd = map_option (\<lambda>m. manifest_dict (m\<lparr>mn_log_path := path_text (rd_log_path rd)\<rparr>))
          (mr_manifest mr))"

lemma add_path:
  "add_to_manifest r m\<lparr>mn_log_path := path\<rparr> = add_to_manifest r (m\<lparr>mn_log_path := path\<rparr>)"
  by (cases m) (simp add: add_to_manifest_def)

lemma assemble_path:
  "assemble_manifest session opened path now rs\<lparr>mn_log_path := path'\<rparr>
     = assemble_manifest session opened path' now rs"
proof -
  have "fold add_to_manifest rs m\<lparr>mn_log_path := path'\<rparr>
      = fold add_to_manifest rs (m\<lparr>mn_log_path := path'\<rparr>)" for m
    by (induction rs arbitrary: m) (simp_all add: add_path)
  then show ?thesis by (simp add: assemble_manifest_def)
qed

lemma act_same: "faultless a \<Longrightarrow> same_recorder rd mr \<Longrightarrow> same_recorder (act a rd) (memory_act a mr)"
  by (cases a)
    (auto simp: same_recorder_def record_op_def memory_record_op_def close_op_def memory_close_op_def
      Let_def build_manifest_def assemble_path split: sum.splits)

text \<open>The in-memory recorder keeps the contract of the file-backed one: without faults the two hold the
  same records and, up to the path of the log, the same manifest.\<close>

lemma memory_recorder_same:
  assumes "list_all faultless acts"
  shows "same_recorder (used_recorder path session now acts)
    (fold memory_act acts (open_memory_recorder session now))"
proof -
  have run: "list_all faultless acts \<Longrightarrow> same_recorder rd mr \<Longrightarrow>
      same_recorder (fold act acts rd) (fold memory_act acts mr)" for rd mr
    by (induction acts arbitrary: rd mr) (simp_all add: act_same)
  have "same_recorder (open_recorder path session now) (open_memory_recorder session now)"
    by (simp add: same_recorder_def open_recorder_def open_memory_recorder_def)
  from run[OF assms this] show ?thesis by (simp add: used_recorder_def)
qed

section \<open>What faults leave\<close>

text \<open>A record whose write failed is counted all the same: the manifest has an entry the log lacks.\<close>

lemma failed_write_counted:
  assumes "rd_handle_open rd" "\<not> rd_closed rd" "make_flight_record rid now (rd_session_ref rd) a = Inr r"
  shows "record_op rid now (Some []) a rd = (Inl FlightOsError, rd\<lparr>rd_records := rd_records rd @ [r]\<rparr>)"
  using assms by (simp add: record_op_def)

text \<open>After the manifest could not be written, closing again succeeds without a manifest.\<close>

lemma second_close_returns_nothing:
  assumes "\<not> rd_closed rd" "rd_manifest_path rd = None"
  shows "fst (close_op now2 NoCloseFault (snd (close_op now ManifestFault rd))) = Inr None"
  using assms by (simp add: close_op_def)

text \<open>A line with a JSON value that is no object raises out of the reader.\<close>

lemma scalar_line_raises:
  "read_flight_log (\<lambda>t. JsonValue (VInt 1)) mint name ''1'' = Inl FlightAttributeError"
proof -
  have "text_lines ''1'' = [''1'']" by (simp add: text_lines.simps)
  then show ?thesis by (simp add: read_flight_log_def)
qed

end
