(* ===== verification/CoreReceipts.thy ===== *)
theory CoreReceipts
  imports SdkBindingMask
begin

text \<open>The receipt emitter of the extracted core package
  (\<^verbatim>\<open>packages/dagr-mcp-core/src/dagr_mcp_core/srs_receipts.py\<close>), a fork of the emitter that registers
  one more binding version. The parts the fork copies unchanged (raw-content guard, limits, binding-owned
  fields, signing, sink) are the ones of \<^verbatim>\<open>SrsReceipts\<close>; the envelope is written out, because its gate
  is what differs. The fork writes the same receipts as the emitter it was taken from, up to the stamp of
  the version that only it registers.\<close>

section \<open>The fork\<close>

definition CORE_ADDITIONAL_BINDING_VERSIONS :: "string list" where
  "CORE_ADDITIONAL_BINDING_VERSIONS =
     [''official-mcp-sdk.python.v0.1'', ''official-mcp-sdk.python.v0.2'']"

definition CORE_ALL_REGISTERED_BINDING_VERSIONS :: "string list" where
  "CORE_ALL_REGISTERED_BINDING_VERSIONS =
     REGISTERED_BINDING_VERSIONS @ CORE_ADDITIONAL_BINDING_VERSIONS"

definition core_common_envelope ::
  "signing_identity \<Rightarrow> receipt_context \<Rightarrow> stamp \<Rightarrow> string \<Rightarrow> string
    \<Rightarrow> (receipt_error, pydict) result" where
  "core_common_envelope ident ctx st kind artifact =
    (if rc_binding_version ctx \<notin> set CORE_ALL_REGISTERED_BINDING_VERSIONS
     then Inl (UnregisteredBinding (rc_binding_version ctx))
     else if \<not> origin_ok (rc_subject_ref_origin ctx)
     then Inl (OriginOutsideVocabulary (rc_subject_ref_origin ctx))
     else
      (let base =
         [(''receipt_version'', VStr RECEIPT_VERSION),
          (''profile_id'', VStr PROFILE_ID),
          (''profile_version'', VStr PROFILE_VERSION),
          (''receipt_id'', VStr (st_receipt_id st)),
          (''receipt_type'', VStr ''sdk_enforcement''),
          (''receipt_kind'', VStr kind),
          (''boundary_type'', VStr ''mcp_tool_call''),
          (''protocol_binding'', VStr ''mcp''),
          (''subject_ref'', VStr (rc_subject_ref ctx)),
          (''issuer_id'', VStr (si_issuer_id ident)),
          (''runtime_instance_id'', VStr (rc_runtime_instance_id ctx)),
          (''boundary_id'', VStr (rc_boundary_id ctx)),
          (''logical_call_id'', VStr (rc_logical_call_id ctx)),
          (''issued_at'', VStr (st_issued_at st)),
          (''artifact_classes_covered'', VList [VStr artifact]),
          (''artifact_classes_excluded'', strs EXCLUDED_CLASSES),
          (''attestation_limits'', VList [VStr BASE_LIMIT]),
          (''retention_class_applied'', VStr ''hash_only''),
          (''extensions'',
             VMap [(''mcp'', VMap [(''binding_version'', VStr (rc_binding_version ctx))])])];
        with_origin = (if rc_subject_ref_origin ctx \<noteq> VNone
                       then dset ''subject_ref_origin'' (rc_subject_ref_origin ctx) base else base)
       in Inr (dset_given ''parent_receipt_ref'' (rc_parent_receipt_ref ctx)
                (dset_given ''workspace_id'' (rc_workspace_id ctx)
                  (dset_given ''tenant_id'' (rc_tenant_id ctx)
                    (dset_given ''actor_ref'' (rc_actor_ref ctx) with_origin))))))"

definition core_admission_envelope ::
  "signing_identity \<Rightarrow> receipt_context \<Rightarrow> stamp \<Rightarrow> admission_args
    \<Rightarrow> (receipt_error, pydict) result" where
  "core_admission_envelope ident ctx st a =
     rbind (core_common_envelope ident ctx st ''admission'' ''tool_call_admission'') (\<lambda>env.
       append_attestation_limits
         (dset_given ''reason_code'' (aa_reason_code a)
           (dset_given ''retry_contract'' (aa_retry_contract a)
             (dset_given ''review_object_ref'' (aa_review_object_ref a)
               (dupdate env
                 [(''requested_tool_name'', VStr (aa_tool_name a)),
                  (''tool_resolution_status'', VStr ''not_observed''),
                  (''argument_digest'', VStr (aa_argument_digest a)),
                  (''policy_pack_id'', VStr (rc_policy_pack_id ctx)),
                  (''policy_pack_version'', VStr (rc_policy_pack_version ctx)),
                  (''disposition'', VStr (aa_disposition a))]))))
         (aa_limits a))"

definition core_outcome_envelope ::
  "signing_identity \<Rightarrow> receipt_context \<Rightarrow> stamp \<Rightarrow> outcome_args
    \<Rightarrow> (receipt_error, pydict) result" where
  "core_outcome_envelope ident ctx st a =
     rbind (core_common_envelope ident ctx st ''outcome'' ''tool_call_outcome'') (\<lambda>env0.
       let env1 = dset_given ''result_digest'' (oa_result_digest a)
                    (dupdate env0 [(''admission_receipt_ref'', VStr (oa_admission_ref a)),
                                   (''outcome'', VStr (oa_outcome a))]);
           env2 = (if given (oa_exception_class a)
                   then set_mcp_extension ''exception_class'' (VStr (the (oa_exception_class a))) env1
                   else env1);
           env3 = (if oa_outcome a \<in> set [''result_returned'', ''error_returned'']
                   then set_limits (limits_of env2 @ [VStr RESULT_LIMIT]) env2 else env2);
           env4 = (if oa_outcome a = ''task_submitted''
                   then set_limits (limits_of env3 @ [VStr TASK_LIMIT]) env3 else env3)
       in rbind (append_attestation_limits env4 (oa_limits a)) (\<lambda>env5.
            apply_binding_owned_fields env5 (oa_outcome a) (oa_owned_fields a)))"

definition core_emit_admission ::
  "signing_identity \<Rightarrow> receipt_context \<Rightarrow> stamp \<Rightarrow> admission_args \<Rightarrow> sink
    \<Rightarrow> (receipt_error, string) result \<times> sink" where
  "core_emit_admission ident ctx st a sk =
     guard_and_emit ident (core_admission_envelope ident ctx st a) sk"

definition core_emit_outcome ::
  "signing_identity \<Rightarrow> receipt_context \<Rightarrow> stamp \<Rightarrow> outcome_args \<Rightarrow> sink
    \<Rightarrow> (receipt_error, string) result \<times> sink" where
  "core_emit_outcome ident ctx st a sk =
     guard_and_emit ident (core_outcome_envelope ident ctx st a) sk"

section \<open>Parity with the emitter the fork was taken from\<close>

lemma core_versions:
  "set CORE_ALL_REGISTERED_BINDING_VERSIONS
     = insert ''official-mcp-sdk.python.v0.2'' (set ALL_REGISTERED_BINDING_VERSIONS)"
  by (auto simp: CORE_ALL_REGISTERED_BINDING_VERSIONS_def CORE_ADDITIONAL_BINDING_VERSIONS_def
      ALL_REGISTERED_BINDING_VERSIONS_def ADDITIONAL_BINDING_VERSIONS_def)

lemma core_envelopes_same:
  assumes "rc_binding_version ctx \<in> set ALL_REGISTERED_BINDING_VERSIONS"
  shows "core_common_envelope ident ctx st kind art = common_envelope ident ctx st kind art"
    and "core_admission_envelope ident ctx st a = admission_envelope ident ctx st a"
    and "core_outcome_envelope ident ctx st b = outcome_envelope ident ctx st b"
proof -
  show e: "core_common_envelope ident ctx st kind art = common_envelope ident ctx st kind art"
    for kind art
    using assms by (simp add: core_common_envelope_def common_envelope_def core_versions)
  show "core_admission_envelope ident ctx st a = admission_envelope ident ctx st a"
    "core_outcome_envelope ident ctx st b = outcome_envelope ident ctx st b"
    unfolding core_admission_envelope_def admission_envelope_def core_outcome_envelope_def
      outcome_envelope_def e by (rule refl)+
qed

lemma core_common_restamped:
  assumes "v \<in> set CORE_ALL_REGISTERED_BINDING_VERSIONS"
  shows "same_result (core_common_envelope ident (ctx\<lparr>rc_binding_version := v\<rparr>) st kind art)
     (common_envelope ident (ctx\<lparr>rc_binding_version := SDK_BINDING_VERSION\<rparr>) st kind art)"
  using assms sdk_version_registered
  by (cases "origin_ok (rc_subject_ref_origin ctx)")
     (simp_all add: core_common_envelope_def common_envelope_def Let_def same_dset_given same_dset
       same_but_stamp_def[of "_ # _"] strip_binding_stamp_def strip_extensions_def strip_mcp_def)

lemma core_admission_restamped:
  assumes "v \<in> set CORE_ALL_REGISTERED_BINDING_VERSIONS"
  shows "same_result (core_admission_envelope ident (ctx\<lparr>rc_binding_version := v\<rparr>) st a)
     (admission_envelope ident (ctx\<lparr>rc_binding_version := SDK_BINDING_VERSION\<rparr>) st a)"
  unfolding core_admission_envelope_def admission_envelope_def
  by (intro same_rbind[OF core_common_restamped[OF assms]] same_append_limits)
     (simp add: same_dset_given same_dupdate del: dupdate.simps)

lemma core_outcome_restamped:
  assumes "v \<in> set CORE_ALL_REGISTERED_BINDING_VERSIONS"
  shows "same_result (core_outcome_envelope ident (ctx\<lparr>rc_binding_version := v\<rparr>) st a)
     (outcome_envelope ident (ctx\<lparr>rc_binding_version := SDK_BINDING_VERSION\<rparr>) st a)"
proof -
  have step: "same_but_stamp x y \<Longrightarrow> same_but_stamp (set_limits (limits_of x @ l) x) (set_limits (limits_of y @ l) y)"
    for x y l by (simp add: same_limits same_set_limits)
  show ?thesis
    unfolding core_outcome_envelope_def outcome_envelope_def Let_def
    by (intro same_rbind[OF core_common_restamped[OF assms]] same_rbind same_append_limits
          same_owned_fields)
       (auto intro!: step same_set_mcp same_dset_given same_dupdate simp del: dupdate.simps)
qed

text \<open>C40: The forked emitter keeps parity with the emitter it was extracted from. For every binding version
  the original registers, both build the same envelopes and so leave the same sink and give the same
  result. For the version that only the fork registers, its envelopes are the ones of a registered
  version up to the binding stamp, and fail in the same cases; every other version is refused, before
  anything is written.\<close>
theorem core_fork_parity:
  "if rc_binding_version ctx \<in> set ALL_REGISTERED_BINDING_VERSIONS
   then core_emit_admission ident ctx st a sk = emit_admission ident ctx st a sk
        \<and> core_emit_outcome ident ctx st b sk = emit_outcome ident ctx st b sk
   else if rc_binding_version ctx = ''official-mcp-sdk.python.v0.2''
   then map_sum (\<lambda>e. e) strip_binding_stamp (core_admission_envelope ident ctx st a)
          = map_sum (\<lambda>e. e) strip_binding_stamp
              (admission_envelope ident (ctx\<lparr>rc_binding_version := SDK_BINDING_VERSION\<rparr>) st a)
        \<and> map_sum (\<lambda>e. e) strip_binding_stamp (core_outcome_envelope ident ctx st b)
          = map_sum (\<lambda>e. e) strip_binding_stamp
              (outcome_envelope ident (ctx\<lparr>rc_binding_version := SDK_BINDING_VERSION\<rparr>) st b)
   else core_emit_admission ident ctx st a sk = (Inl (UnregisteredBinding (rc_binding_version ctx)), sk)
        \<and> core_emit_outcome ident ctx st b sk = (Inl (UnregisteredBinding (rc_binding_version ctx)), sk)"
proof (cases "rc_binding_version ctx \<in> set ALL_REGISTERED_BINDING_VERSIONS")
  case True
  then show ?thesis
    by (simp add: core_emit_admission_def emit_admission_def core_emit_outcome_def emit_outcome_def
        core_envelopes_same)
next
  case False
  show ?thesis
  proof (cases "rc_binding_version ctx = ''official-mcp-sdk.python.v0.2''")
    case True
    have v2: "''official-mcp-sdk.python.v0.2'' \<in> set CORE_ALL_REGISTERED_BINDING_VERSIONS"
      by (simp add: core_versions)
    have self: "ctx\<lparr>rc_binding_version := ''official-mcp-sdk.python.v0.2''\<rparr> = ctx" using True by simp
    show ?thesis
      using False True core_admission_restamped[OF v2, of ident ctx st a, unfolded self]
        core_outcome_restamped[OF v2, of ident ctx st b, unfolded self] by (simp add: same_result_iff)
  next
    case other: False
    with False have "core_common_envelope ident ctx st kind art = Inl (UnregisteredBinding (rc_binding_version ctx))"
      for kind art by (simp add: core_common_envelope_def core_versions)
    then show ?thesis using False other
      by (simp add: core_emit_admission_def core_emit_outcome_def core_admission_envelope_def
          core_outcome_envelope_def guard_and_emit_def)
  qed
qed

section \<open>What the fork writes\<close>

text \<open>Envelopes that differ in the stamp only have the same fields beside the extensions.\<close>

lemma same_result_Inr:
  assumes "same_result (Inr d) r"
  obtains e where "r = Inr e" "same_but_stamp d e"
  using assms by (cases r) auto

lemma core_admission_fields:
  assumes "core_admission_envelope ident ctx st a = Inr env"
  shows "dget env ''receipt_id'' = Some (VStr (st_receipt_id st))"
    and "dget env ''receipt_kind'' = Some (VStr ''admission'')"
    and "dget env ''disposition'' = Some (VStr (aa_disposition a))"
    and "dget env ''argument_digest'' = Some (VStr (aa_argument_digest a))"
    and "dget env ''requested_tool_name'' = Some (VStr (aa_tool_name a))"
proof -
  have v: "rc_binding_version ctx \<in> set CORE_ALL_REGISTERED_BINDING_VERSIONS"
    using assms by (auto simp: core_admission_envelope_def core_common_envelope_def split: if_splits)
  obtain e where "admission_envelope ident (ctx\<lparr>rc_binding_version := SDK_BINDING_VERSION\<rparr>) st a = Inr e"
    and s: "same_but_stamp env e"
    using core_admission_restamped[OF v, of ident ctx st a] assms by (auto elim: same_result_Inr)
  note ok = admission_envelope_ok[OF this(1)]
  show "dget env ''receipt_id'' = Some (VStr (st_receipt_id st))"
    "dget env ''receipt_kind'' = Some (VStr ''admission'')"
    "dget env ''disposition'' = Some (VStr (aa_disposition a))"
    "dget env ''argument_digest'' = Some (VStr (aa_argument_digest a))"
    "dget env ''requested_tool_name'' = Some (VStr (aa_tool_name a))"
    using same_dget[OF s] ok by simp_all
qed

lemma core_outcome_fields:
  assumes "core_outcome_envelope ident ctx st a = Inr env"
  shows "dget env ''receipt_id'' = Some (VStr (st_receipt_id st))"
    and "dget env ''receipt_kind'' = Some (VStr ''outcome'')"
    and "dget env ''admission_receipt_ref'' = Some (VStr (oa_admission_ref a))"
    and "dget env ''outcome'' = Some (VStr (oa_outcome a))"
    and "dget env ''result_digest'' =
           (if given (oa_result_digest a) then Some (VStr (the (oa_result_digest a))) else None)"
proof -
  have v: "rc_binding_version ctx \<in> set CORE_ALL_REGISTERED_BINDING_VERSIONS"
    using assms by (auto simp: core_outcome_envelope_def core_common_envelope_def split: if_splits)
  obtain e where "outcome_envelope ident (ctx\<lparr>rc_binding_version := SDK_BINDING_VERSION\<rparr>) st a = Inr e"
    and s: "same_but_stamp env e"
    using core_outcome_restamped[OF v, of ident ctx st a] assms by (auto elim: same_result_Inr)
  note ok = outcome_envelope_ok[OF this(1)]
  show "dget env ''receipt_id'' = Some (VStr (st_receipt_id st))"
    "dget env ''receipt_kind'' = Some (VStr ''outcome'')"
    "dget env ''admission_receipt_ref'' = Some (VStr (oa_admission_ref a))"
    "dget env ''outcome'' = Some (VStr (oa_outcome a))"
    "dget env ''result_digest'' =
       (if given (oa_result_digest a) then Some (VStr (the (oa_result_digest a))) else None)"
    using same_dget[OF s] ok by simp_all
qed

end
