(* ===== verification/SdkV2.thy ===== *)
theory SdkV2
  imports CoreReceipts NeutralEdges
begin

text \<open>The binding of the official SDK v2 (\<^verbatim>\<open>packages/dagr-mcp-sdk-v2/src/dagr_mcp_sdk_v2/adapter.py\<close>) and its
  result projection (\<^verbatim>\<open>result_digest.py\<close>): \<^verbatim>\<open>governed_call_tool\<close> and every method it calls, over the core's
  planner and the forked emitter. What the resolvers, the delegate and the post-outcome hook answer,
  the identifiers and the minted call id are inputs; a model dump of the SDK's result class is one too.\<close>

section \<open>Vocabulary\<close>

definition V2_BINDING_VERSION :: string where
  "V2_BINDING_VERSION = ''official-mcp-sdk.python.v0.2''"

definition V2_OUTCOME_TOKEN_MAP :: "token dict" where [vocab]:
  "V2_OUTCOME_TOKEN_MAP =
     [(''result'', ''result_returned''), (''error'', ''error_returned''), (''exception'', ''exception''),
      (''cancellation'', ''indeterminate'')]"

definition V2_PROJECTION_KEYS :: "string list" where [vocab]:
  "V2_PROJECTION_KEYS = [''content'', ''structured_content'', ''_meta'', ''is_error'', ''result_type'']"

section \<open>Inputs, configuration and state\<close>

text \<open>The trusted request context: its method and its request identifier as text.\<close>

record v2_context =
  vc_method :: string
  vc_request_id :: "string option"

record v2_actor =
  va_actor_ref :: "string option"
  va_tenant_id :: "string option"
  va_workspace_id :: "string option"

datatype caller_answer = CallerAuth caller_auth | NotCallerAuth
datatype operator_answer = OperatorRequest admission_request | NotAnAdmissionRequest

text \<open>What a delegate returns: the unsupported result class, or a result with the \<^verbatim>\<open>result_type\<close> attribute
  (absent where the object has none) and what \<^verbatim>\<open>model_dump\<close> gives or raises.\<close>

datatype v2_value = InputRequiredResult | CallToolResult "string option" "string + pydict"

datatype v2_handler = V2Returns v2_value | V2Raises pyexc

record post_outcome_event =
  pe_tool_name :: string
  pe_arguments :: pydict
  pe_delegate_result :: "v2_value option"
  pe_actor :: v2_actor
  pe_caller_auth :: caller_auth
  pe_receipt_context :: receipt_context
  pe_admission_receipt_ref :: string
  pe_outcome_receipt_ref :: string
  pe_result_digest :: "string option"

record v2_config =
  vf_runtime_instance_id :: string
  vf_boundary_id :: string
  vf_policy_pack_id :: string
  vf_policy_pack_version :: string
  vf_tool_classes :: "token dict"
  vf_actor_resolver :: "(v2_context \<Rightarrow> string \<Rightarrow> v2_actor call_outcome) option"
  vf_caller_auth_resolver :: "(v2_context \<Rightarrow> string \<Rightarrow> caller_answer call_outcome) option"
  vf_admission_resolver ::
    "(v2_context \<Rightarrow> caller_auth \<Rightarrow> v2_actor \<Rightarrow> string \<Rightarrow> token \<Rightarrow> string
       \<Rightarrow> operator_answer call_outcome) option"
  vf_logical_call_id_override :: "string option"
  vf_subject_ref_override :: "string option"
  vf_mint_logical_call_id :: bool
  vf_pre_failure :: "token dict"
  vf_attestation_limits :: "string list"
  vf_post_outcome_hook :: "(post_outcome_event \<Rightarrow> pyexc option) option"

text \<open>\<^verbatim>\<open>__post_init__\<close>: a supplied call id and a minted one exclude each other.\<close>

definition make_v2_config :: "v2_config \<Rightarrow> pyexc + v2_config" where
  "make_v2_config cf =
     (if vf_logical_call_id_override cf \<noteq> None \<and> vf_mint_logical_call_id cf
      then Inl (PyException ''ValueError'') else Inr cf)"

text \<open>The environment of one call; the anonymous caller is a constant of \<^verbatim>\<open>dagr_sdk\<close>.\<close>

record v2_env =
  ve_identity :: signing_identity
  ve_config :: v2_config
  ve_stamps :: "nat \<Rightarrow> stamp"
  ve_minted_id :: string
  ve_anonymous :: caller_auth
  ve_canon_exc :: string

datatype v2_effect =
    AdmissionWritten token string
  | DelegateCalled pydict
  | OutcomeWritten token string
  | HookCalled post_outcome_event

record v2_state =
  vs_sink :: sink
  vs_stamp_count :: nat
  vs_telemetry :: "pydict list"
  vs_trace :: "v2_effect list"

datatype v2_end =
    V2Returned v2_value
  | V2WrongMethod
  | V2UnknownTool
  | V2AdmissionRefused "token option"
  | V2AdmissionReceiptRefused
  | V2DeferredUnsupported
  | V2NotAdmissionRequest
  | V2UnrecognizedDisposition token
  | V2NotCallerAuth
  | V2InputRequiredUnsupported
  | V2DelegateRaised pyexc
  | V2ResolverRaised pyexc
  | V2HookRaised pyexc
  | V2ReceiptRaised receipt_error
  | V2ProjectionRaised string
  | V2CoreRaised core_error
  | V2UnknownToken token
  | V2AssertionRaised
  | V2CoreInvariantBroken

section \<open>Trusted-context extraction\<close>

definition v2_resolve_caller_auth :: "v2_env \<Rightarrow> v2_context \<Rightarrow> string \<Rightarrow> (v2_end, caller_auth) result" where
  "v2_resolve_caller_auth env cx digest =
     (case vf_caller_auth_resolver (ve_config env) of
        None \<Rightarrow> Inr (ve_anonymous env)
      | Some f \<Rightarrow>
         (case await_call (f cx digest) of
            Inl e \<Rightarrow> Inl (V2ResolverRaised e)
          | Inr NotCallerAuth \<Rightarrow> Inl V2NotCallerAuth
          | Inr (CallerAuth a) \<Rightarrow> Inr a))"

definition no_actor :: v2_actor where
  "no_actor = \<lparr>va_actor_ref = None, va_tenant_id = None, va_workspace_id = None\<rparr>"

definition v2_resolve_actor ::
  "v2_env \<Rightarrow> v2_context \<Rightarrow> string \<Rightarrow> caller_auth \<Rightarrow> (v2_end, v2_actor) result" where
  "v2_resolve_actor env cx digest auth =
     (case vf_actor_resolver (ve_config env) of
        Some f \<Rightarrow> map_err V2ResolverRaised (await_call (f cx digest))
      | None \<Rightarrow> Inr (if ca_is_authenticated auth then no_actor\<lparr>va_actor_ref := ca_principal_ref auth\<rparr>
                    else no_actor))"

text \<open>The request of the unknown-tool refusal and the request the binding rebuilds: all other fields have
  the defaults of the request class.\<close>

definition v2_request :: "token \<Rightarrow> token \<Rightarrow> token option \<Rightarrow> admission_request" where
  "v2_request disp cls ground =
     \<lparr>ar_disposition = disp, ar_tool_class = cls, ar_refusal_ground = ground,
      ar_review_object_created = None, ar_emit_read_admission = True, ar_has_parent_boundary = False\<rparr>"

definition v2_narrow_operator_admission_request ::
  "admission_request \<Rightarrow> token \<Rightarrow> (v2_end, admission_request) result" where
  "v2_narrow_operator_admission_request rq cls =
     (let disp = ar_disposition rq in
      if disp = ''deferred'' then Inl V2DeferredUnsupported
      else if disp \<notin> set [''admitted'', ''refused''] then Inl (V2UnrecognizedDisposition disp)
      else if disp = ''refused'' then Inr (v2_request ''refused'' cls (ar_refusal_ground rq))
      else Inr (v2_request ''admitted'' cls None))"

definition v2_resolve_admission ::
  "v2_env \<Rightarrow> v2_context \<Rightarrow> caller_auth \<Rightarrow> v2_actor \<Rightarrow> string \<Rightarrow> token \<Rightarrow> string
    \<Rightarrow> (v2_end, admission_request) result" where
  "v2_resolve_admission env cx auth actor tool cls digest =
     (case vf_admission_resolver (ve_config env) of
        None \<Rightarrow> Inr (v2_request ''admitted'' cls None)
      | Some f \<Rightarrow>
         (case await_call (f cx auth actor tool cls digest) of
            Inl e \<Rightarrow> Inl (V2ResolverRaised e)
          | Inr NotAnAdmissionRequest \<Rightarrow> Inl V2NotAdmissionRequest
          | Inr (OperatorRequest rq) \<Rightarrow> v2_narrow_operator_admission_request rq cls))"

definition v2_request_ref :: "v2_context \<Rightarrow> string option" where
  "v2_request_ref cx = map_option (\<lambda>i. ''request:'' @ i) (vc_request_id cx)"

definition v2_logical_call_id :: "v2_env \<Rightarrow> v2_context \<Rightarrow> string" where
  "v2_logical_call_id env cx =
     (let cf = ve_config env in
      if given (vf_logical_call_id_override cf) then the (vf_logical_call_id_override cf)
      else if vf_mint_logical_call_id cf then ''call:'' @ ve_minted_id env
      else case v2_request_ref cx of Some r \<Rightarrow> r | None \<Rightarrow> ''call:'' @ ve_minted_id env)"

definition v2_subject :: "v2_env \<Rightarrow> v2_context \<Rightarrow> string \<times> token" where
  "v2_subject env cx =
     (let cf = ve_config env; call = v2_logical_call_id env cx in
      if given (vf_subject_ref_override cf) then (the (vf_subject_ref_override cf), ''supplied_subject'')
      else if vf_mint_logical_call_id cf then (''tool-call:'' @ call, ''binding_minted'')
      else case v2_request_ref cx of
          Some r \<Rightarrow> (r, ''derived_from_request'')
        | None \<Rightarrow>
           if given (vf_logical_call_id_override cf)
           then (''tool-call:'' @ call, ''derived_from_supplied_correlation'')
           else (''tool-call:'' @ call, ''binding_minted''))"

text \<open>The fork's context has no constitution field; that of the shared record is never serialised.\<close>

definition v2_receipt_context :: "v2_env \<Rightarrow> v2_context \<Rightarrow> v2_actor \<Rightarrow> receipt_context" where
  "v2_receipt_context env cx actor =
     (let cf = ve_config env in
      \<lparr>rc_runtime_instance_id = vf_runtime_instance_id cf, rc_boundary_id = vf_boundary_id cf,
       rc_policy_pack_id = vf_policy_pack_id cf, rc_policy_pack_version = vf_policy_pack_version cf,
       rc_subject_ref = fst (v2_subject env cx), rc_logical_call_id = v2_logical_call_id env cx,
       rc_subject_ref_origin = VStr (snd (v2_subject env cx)),
       rc_actor_ref = va_actor_ref actor, rc_tenant_id = va_tenant_id actor,
       rc_workspace_id = va_workspace_id actor, rc_binding_version = V2_BINDING_VERSION,
       rc_parent_receipt_ref = None, rc_dagr_constitution_id = []\<rparr>)"

section \<open>Emission\<close>

definition v2_failure_class :: "receipt_error \<Rightarrow> string" where
  "v2_failure_class e =
     (case e of ReceiptWriteError \<Rightarrow> ''ReceiptWriteError'' | OsError \<Rightarrow> ''OSError''
      | KeyMissing _ \<Rightarrow> ''KeyError'' | ArgumentTypeError \<Rightarrow> ''TypeError'' | _ \<Rightarrow> ''ReceiptContentError'')"

definition v2_record_receipt_failure ::
  "receipt_context \<Rightarrow> string \<Rightarrow> string \<Rightarrow> v2_state \<Rightarrow> v2_state" where
  "v2_record_receipt_failure ctx kind cls s =
     s\<lparr>vs_telemetry := vs_telemetry s @
        [[(''event_type'', VStr ''receipt_gap''),
          (''runtime_instance_id'', VStr (rc_runtime_instance_id ctx)),
          (''boundary_id'', VStr (rc_boundary_id ctx)),
          (''logical_call_id'', VStr (rc_logical_call_id ctx)),
          (''attempted_receipt_kind'', VStr kind), (''failure_class'', VStr cls)]]\<rparr>"

text \<open>Every emission takes the next identifier and clock reading.\<close>

definition v2_emitted ::
  "(string \<Rightarrow> v2_effect) \<Rightarrow> (receipt_error, string) result \<times> sink \<Rightarrow> v2_state
    \<Rightarrow> (receipt_error, string) result \<times> v2_state" where
  "v2_emitted effect rsk s =
    (fst rsk,
     s\<lparr>vs_sink := snd rsk, vs_stamp_count := Suc (vs_stamp_count s),
       vs_trace := vs_trace s @ (case fst rsk of Inr rid \<Rightarrow> [effect rid] | Inl _ \<Rightarrow> [])\<rparr>)"

definition v2_emit_admission ::
  "v2_env \<Rightarrow> receipt_context \<Rightarrow> string \<Rightarrow> string \<Rightarrow> token \<Rightarrow> token option \<Rightarrow> v2_state
    \<Rightarrow> (receipt_error, string) result \<times> v2_state" where
  "v2_emit_admission env ctx tool digest disp reason s =
     v2_emitted (AdmissionWritten disp)
       (core_emit_admission (ve_identity env) ctx (ve_stamps env (vs_stamp_count s))
         \<lparr>aa_tool_name = tool, aa_argument_digest = digest, aa_disposition = disp,
          aa_review_object_ref = None, aa_retry_contract = None, aa_reason_code = reason,
          aa_limits = vtuple (vf_attestation_limits (ve_config env))\<rparr>
         (vs_sink s)) s"

definition v2_emit_terminal_refusal ::
  "v2_env \<Rightarrow> admission_plan \<Rightarrow> receipt_context \<Rightarrow> string \<Rightarrow> string \<Rightarrow> v2_end \<Rightarrow> v2_state
    \<Rightarrow> v2_end \<times> v2_state" where
  "v2_emit_terminal_refusal env plan ctx tool digest refusal s =
    (case ap_record plan of
       None \<Rightarrow> (V2AssertionRaised, s)
     | Some rec \<Rightarrow>
        (case v2_emit_admission env ctx tool digest ''refused'' (ai_reason_code rec) s of
           (Inr _, s1) \<Rightarrow> (refusal, s1)
         | (Inl e, s1) \<Rightarrow>
            (refusal, v2_record_receipt_failure ctx ''admission'' (v2_failure_class e) s1)))"

text \<open>The values of one call that its stages share.\<close>

record v2_call =
  vk_tool :: string
  vk_digest :: string
  vk_auth :: caller_auth
  vk_actor :: v2_actor
  vk_context :: receipt_context

definition v2_run_hook ::
  "v2_env \<Rightarrow> v2_call \<Rightarrow> post_outcome_event \<Rightarrow> v2_state \<Rightarrow> (v2_end, unit) result \<times> v2_state" where
  "v2_run_hook env k ev s =
    (case vf_post_outcome_hook (ve_config env) of
       None \<Rightarrow> (Inr (), s)
     | Some hook \<Rightarrow>
        (let s1 = s\<lparr>vs_trace := vs_trace s @ [HookCalled ev]\<rparr> in
         case hook ev of
           None \<Rightarrow> (Inr (), s1)
         | Some e \<Rightarrow>
            if is_exception e
            then (Inr (), v2_record_receipt_failure (vk_context k) ''post_outcome_hook'' (exc_class e) s1)
            else (Inl (V2HookRaised e), s1)))"

definition v2_emit_outcome ::
  "v2_env \<Rightarrow> receipt_context \<Rightarrow> string \<Rightarrow> outcome_record_intent \<Rightarrow> token \<Rightarrow> string option \<Rightarrow> v2_state
    \<Rightarrow> (receipt_error, string) result \<times> v2_state" where
  "v2_emit_outcome env ctx aref rec tok digest s =
     v2_emitted (OutcomeWritten tok)
       (core_emit_outcome (ve_identity env) ctx (ve_stamps env (vs_stamp_count s))
         \<lparr>oa_admission_ref = aref, oa_outcome = tok, oa_result_digest = digest,
          oa_exception_class = oi_exception_class rec,
          oa_limits = vtuple (vf_attestation_limits (ve_config env)),
          oa_owned_fields =
            (if oi_governance_facts rec = [] then None
             else Some (map (\<lambda>f. (f, VBool (oi_governance_facts_value rec))) (oi_governance_facts rec)))\<rparr>
         (vs_sink s)) s"

definition v2_emit_outcome_from_observation ::
  "v2_env \<Rightarrow> v2_call \<Rightarrow> admission_plan \<Rightarrow> string \<Rightarrow> execution_observation \<Rightarrow> pydict
    \<Rightarrow> v2_value option \<Rightarrow> string option \<Rightarrow> v2_state \<Rightarrow> (v2_end, unit) result \<times> v2_state" where
  "v2_emit_outcome_from_observation env k plan aref ob arguments result digest s =
    (case plan_outcome_strict plan ob of
       Inl e \<Rightarrow> (Inl (V2CoreRaised e), s)
     | Inr outp \<Rightarrow>
        (case op_record outp of
           None \<Rightarrow> (Inr (), s)
         | Some rec \<Rightarrow>
            (case dget V2_OUTCOME_TOKEN_MAP (oi_outcome rec) of
               None \<Rightarrow> (Inl (V2UnknownToken (oi_outcome rec)), s)
             | Some tok \<Rightarrow>
                (let dg = (if oi_carries_result_digest rec then digest else None) in
                 case v2_emit_outcome env (vk_context k) aref rec tok dg s of
                   (Inl e, s1) \<Rightarrow>
                     (Inr (), v2_record_receipt_failure (vk_context k) ''outcome'' (v2_failure_class e) s1)
                 | (Inr rid, s1) \<Rightarrow>
                     v2_run_hook env k
                       \<lparr>pe_tool_name = vk_tool k, pe_arguments = arguments, pe_delegate_result = result,
                        pe_actor = vk_actor k, pe_caller_auth = vk_auth k,
                        pe_receipt_context = vk_context k, pe_admission_receipt_ref = aref,
                        pe_outcome_receipt_ref = rid, pe_result_digest = dg\<rparr> s1))))"

section \<open>The result projection\<close>

definition dumped_or :: "pydict \<Rightarrow> string \<Rightarrow> pyv \<Rightarrow> pyv" where
  "dumped_or d k dflt = (case dget d k of Some v \<Rightarrow> v | None \<Rightarrow> dflt)"

definition project_v2_tool_result :: "v2_env \<Rightarrow> string + pydict \<Rightarrow> (string, pydict) result" where
  "project_v2_tool_result env dumped =
    (case dumped of
       Inl cls \<Rightarrow> Inl cls
     | Inr d \<Rightarrow>
        (let p = [(''content'', dumped_or d ''content'' (VList [])),
                  (''structured_content'', dumped_or d ''structuredContent'' VNone),
                  (''_meta'', dumped_or d ''_meta'' VNone),
                  (''is_error'', VBool (truthy (dumped_or d ''isError'' (VBool False)))),
                  (''result_type'', dumped_or d ''resultType'' (VStr ''complete''))] in
         case cr_canon (si_crypto (ve_identity env)) (VMap p) of
           None \<Rightarrow> Inl (ve_canon_exc env) | Some _ \<Rightarrow> Inr p))"

definition v2_error_flag :: "pydict \<Rightarrow> bool" where
  "v2_error_flag p = (case dget p ''is_error'' of Some v \<Rightarrow> truthy v | None \<Rightarrow> False)"

section \<open>The call\<close>

definition v2_pre_execution_failure_mode :: "v2_config \<Rightarrow> token \<Rightarrow> token" where
  "v2_pre_execution_failure_mode cf cls =
     (case dget (vf_pre_failure cf) cls of Some m \<Rightarrow> m | None \<Rightarrow> ''fail_closed'')"

definition v2_observe_admission ::
  "v2_env \<Rightarrow> v2_call \<Rightarrow> admission_plan \<Rightarrow> token \<Rightarrow> v2_state
    \<Rightarrow> (v2_end, string option) result \<times> v2_state" where
  "v2_observe_admission env k plan cls s =
    (if \<not> ap_admission_recorded plan then (Inr None, s)
     else case v2_emit_admission env (vk_context k) (vk_tool k) (vk_digest k) ''admitted'' None s of
         (Inr rid, s1) \<Rightarrow> (Inr (Some rid), s1)
       | (Inl e, s1) \<Rightarrow>
          (let s2 = v2_record_receipt_failure (vk_context k) ''admission'' (v2_failure_class e) s1 in
           if v2_pre_execution_failure_mode (ve_config env) cls = ''fail_closed''
           then (Inl V2AdmissionReceiptRefused, s2) else (Inr None, s2)))"

definition v2_observed_raise :: "pyexc \<Rightarrow> execution_observation option" where
  "v2_observed_raise e = (case e of
       PyCancelled \<Rightarrow> Some (simple_observation ''cancellation'' None)
     | PyTimeout _ \<Rightarrow> Some (simple_observation ''timeout'' None)
     | PyException cls \<Rightarrow> Some (simple_observation ''exception'' (Some cls))
     | PyBase _ \<Rightarrow> None)"

definition v2_after_raise ::
  "v2_env \<Rightarrow> v2_call \<Rightarrow> admission_plan \<Rightarrow> string option \<Rightarrow> pyexc \<Rightarrow> pydict \<Rightarrow> v2_state
    \<Rightarrow> v2_end \<times> v2_state" where
  "v2_after_raise env k plan aref e arguments s =
    (case (aref, v2_observed_raise e) of
       (Some r, Some ob) \<Rightarrow>
         (case v2_emit_outcome_from_observation env k plan r ob arguments None None s of
            (Inl err, s1) \<Rightarrow> (err, s1) | (Inr _, s1) \<Rightarrow> (V2DelegateRaised e, s1))
     | _ \<Rightarrow> (V2DelegateRaised e, s))"

definition v2_input_required :: "v2_value \<Rightarrow> bool" where
  "v2_input_required v =
     (case v of InputRequiredResult \<Rightarrow> True
      | CallToolResult rt _ \<Rightarrow> rt = Some ''input_required'')"

definition v2_dumped :: "v2_value \<Rightarrow> string + pydict" where
  "v2_dumped v = (case v of InputRequiredResult \<Rightarrow> Inl [] | CallToolResult _ d \<Rightarrow> d)"

definition v2_unsupported_result ::
  "v2_env \<Rightarrow> admission_plan \<Rightarrow> string option \<Rightarrow> v2_end" where
  "v2_unsupported_result env plan aref =
    (if aref = None then V2InputRequiredUnsupported
     else case plan_outcome_strict plan (simple_observation ''input_required'' None) of
         Inr _ \<Rightarrow> V2CoreInvariantBroken
       | Inl (UnsupportedLifecycleEvent _ _ _) \<Rightarrow> V2InputRequiredUnsupported
       | Inl e \<Rightarrow> V2CoreRaised e)"

definition v2_after_return ::
  "v2_env \<Rightarrow> v2_call \<Rightarrow> admission_plan \<Rightarrow> string option \<Rightarrow> v2_value \<Rightarrow> pydict \<Rightarrow> v2_state
    \<Rightarrow> v2_end \<times> v2_state" where
  "v2_after_return env k plan aref v arguments s =
    (if v2_input_required v then (v2_unsupported_result env plan aref, s)
     else case aref of
         None \<Rightarrow> (V2Returned v, s)
       | Some r \<Rightarrow>
          (case project_v2_tool_result env (v2_dumped v) of
             Inl cls \<Rightarrow> (V2ProjectionRaised cls, s)
           | Inr p \<Rightarrow>
              (case sha256_digest (si_crypto (ve_identity env)) (VMap p) of
                 Inl e \<Rightarrow> (V2ReceiptRaised e, s)
               | Inr dg \<Rightarrow>
                  (case v2_emit_outcome_from_observation env k plan r
                          (simple_observation (if v2_error_flag p then ''error'' else ''result'') None)
                          arguments (Some v) (Some dg) s of
                     (Inl err, s1) \<Rightarrow> (err, s1) | (Inr _, s1) \<Rightarrow> (V2Returned v, s1)))))"

text \<open>The delegate gets the very mapping the hook sees later: it may leave it changed.\<close>

definition v2_execute ::
  "v2_env \<Rightarrow> v2_call \<Rightarrow> admission_plan \<Rightarrow> string option \<Rightarrow> (pydict \<Rightarrow> v2_handler \<times> pydict) \<Rightarrow> pydict
    \<Rightarrow> v2_state \<Rightarrow> v2_end \<times> v2_state" where
  "v2_execute env k plan aref delegate arguments s =
    (let s1 = s\<lparr>vs_trace := vs_trace s @ [DelegateCalled arguments]\<rparr> in
     case delegate arguments of
       (V2Raises e, left_over) \<Rightarrow> v2_after_raise env k plan aref e left_over s1
     | (V2Returns v, left_over) \<Rightarrow> v2_after_return env k plan aref v left_over s1)"

definition v2_planned ::
  "v2_env \<Rightarrow> v2_call \<Rightarrow> admission_plan \<Rightarrow> token \<Rightarrow> (pydict \<Rightarrow> v2_handler \<times> pydict) \<Rightarrow> pydict \<Rightarrow> v2_state
    \<Rightarrow> v2_end \<times> v2_state" where
  "v2_planned env k plan cls delegate arguments s =
    (if ap_resolved plan = ''refused''
     then v2_emit_terminal_refusal env plan (vk_context k) (vk_tool k) (vk_digest k)
            (V2AdmissionRefused (Option.bind (ap_record plan) ai_reason_code)) s
     else if ap_resolved plan = ''deferred'' then (V2DeferredUnsupported, s)
     else if ap_resolved plan \<noteq> ''admitted'' \<or> \<not> ap_execution_proceeds plan then (V2AssertionRaised, s)
     else case v2_observe_admission env k plan cls s of
         (Inl e, s1) \<Rightarrow> (e, s1)
       | (Inr aref, s1) \<Rightarrow> v2_execute env k plan aref delegate arguments s1)"

definition v2_resolve_call ::
  "v2_env \<Rightarrow> v2_context \<Rightarrow> string \<Rightarrow> pydict \<Rightarrow> (v2_end, v2_call) result" where
  "v2_resolve_call env cx tool arguments =
     rbind (map_err V2ReceiptRaised (sha256_digest (si_crypto (ve_identity env)) (VMap arguments))) (\<lambda>digest.
     rbind (v2_resolve_caller_auth env cx digest) (\<lambda>auth.
     rbind (v2_resolve_actor env cx digest auth) (\<lambda>actor.
       Inr \<lparr>vk_tool = tool, vk_digest = digest, vk_auth = auth, vk_actor = actor,
            vk_context = v2_receipt_context env cx actor\<rparr>)))"

definition v2_governed ::
  "v2_env \<Rightarrow> v2_context \<Rightarrow> v2_call \<Rightarrow> token \<Rightarrow> (pydict \<Rightarrow> v2_handler \<times> pydict) \<Rightarrow> pydict \<Rightarrow> v2_state
    \<Rightarrow> v2_end \<times> v2_state" where
  "v2_governed env cx k cls delegate arguments s =
    (case v2_resolve_admission env cx (vk_auth k) (vk_actor k) (vk_tool k) cls (vk_digest k) of
       Inl e \<Rightarrow> (e, s)
     | Inr rq \<Rightarrow>
        (case plan_admission rq of
           Inl e \<Rightarrow> (V2CoreRaised e, s)
         | Inr plan \<Rightarrow> v2_planned env k plan cls delegate arguments s))"

definition governed_call_tool ::
  "v2_env \<Rightarrow> v2_context \<Rightarrow> string \<Rightarrow> pydict option \<Rightarrow> (pydict \<Rightarrow> v2_handler \<times> pydict) \<Rightarrow> v2_state
    \<Rightarrow> v2_end \<times> v2_state" where
  "governed_call_tool env cx tool params delegate s =
    (let arguments = (case params of None \<Rightarrow> [] | Some a \<Rightarrow> a) in
     if vc_method cx \<noteq> ''tools/call'' then (V2WrongMethod, s)
     else case v2_resolve_call env cx tool arguments of
         Inl e \<Rightarrow> (e, s)
       | Inr k \<Rightarrow>
          (case dget (vf_tool_classes (ve_config env)) tool of
             None \<Rightarrow>
              (case plan_admission (v2_request ''refused'' ''read'' (Some ''unknown_tool_fail_closed'')) of
                 Inl e \<Rightarrow> (V2CoreRaised e, s)
               | Inr plan \<Rightarrow>
                   v2_emit_terminal_refusal env plan (vk_context k) tool (vk_digest k) V2UnknownTool s)
           | Some cls \<Rightarrow> v2_governed env cx k cls delegate arguments s))"

end
