(* ===== verification/SdkV2Facts.thy ===== *)
theory SdkV2Facts
  imports SdkV2
begin

text \<open>What a call of the SDK-v2 binding does: when the delegate runs, which effects a call has and in
  which order, what an operator's answer can reach, and the receipts a call leaves.\<close>

section \<open>Effects\<close>

text \<open>A call leaves a refusal, or an admission and what follows it; without an admission nothing follows
  the delegate, and a hook is called exactly after an accepted outcome.\<close>

fun v2_tail_ok :: "v2_env \<Rightarrow> string option \<Rightarrow> v2_effect list \<Rightarrow> bool" where
  "v2_tail_ok env aref [] = True"
| "v2_tail_ok env aref [OutcomeWritten tok rid] =
     (aref \<noteq> None \<and> vf_post_outcome_hook (ve_config env) = None)"
| "v2_tail_ok env aref [OutcomeWritten tok rid, HookCalled ev] =
     (vf_post_outcome_hook (ve_config env) \<noteq> None \<and> aref = Some (pe_admission_receipt_ref ev)
      \<and> pe_outcome_receipt_ref ev = rid)"
| "v2_tail_ok env aref _ = False"

fun v2_effects_ok :: "v2_env \<Rightarrow> pydict \<Rightarrow> v2_effect list \<Rightarrow> bool" where
  "v2_effects_ok env arguments [] = True"
| "v2_effects_ok env arguments [AdmissionWritten d rid] = (d = ''refused'')"
| "v2_effects_ok env arguments (AdmissionWritten d rid # DelegateCalled a # tail) =
     (d = ''admitted'' \<and> a = arguments \<and> v2_tail_ok env (Some rid) tail)"
| "v2_effects_ok env arguments [DelegateCalled a] = (a = arguments)"
| "v2_effects_ok env arguments _ = False"

definition delegate_called :: "v2_effect list \<Rightarrow> bool" where
  "delegate_called eff = list_ex (\<lambda>e. case e of DelegateCalled _ \<Rightarrow> True | _ \<Rightarrow> False) eff"

text \<open>The effects a step adds.\<close>

definition v2_adds :: "v2_state \<Rightarrow> v2_effect list \<Rightarrow> v2_state \<Rightarrow> bool" where
  "v2_adds s eff s' = (vs_trace s' = vs_trace s @ eff)"

lemma v2_adds_refl [simp]: "v2_adds s [] s"
  by (simp add: v2_adds_def)

lemma v2_adds_trans: "v2_adds s e1 s1 \<Longrightarrow> v2_adds s1 e2 s2 \<Longrightarrow> v2_adds s (e1 @ e2) s2"
  by (simp add: v2_adds_def)

lemma v2_failure_adds [simp]: "v2_adds s e (v2_record_receipt_failure ctx kind cls s1) = v2_adds s e s1"
  by (simp add: v2_adds_def v2_record_receipt_failure_def)

lemma v2_emitted_adds:
  "v2_emitted f rsk s = (Inr rid, s1) \<Longrightarrow> v2_adds s [f rid] s1"
  "v2_emitted f rsk s = (Inl e, s1) \<Longrightarrow> v2_adds s [] s1"
  by (auto simp: v2_emitted_def v2_adds_def)

lemma v2_hook_adds:
  assumes "v2_run_hook env k ev s = (r, s1)"
  shows "v2_adds s (if vf_post_outcome_hook (ve_config env) = None then [] else [HookCalled ev]) s1"
  using assms
  by (auto simp: v2_run_hook_def Let_def v2_adds_def v2_record_receipt_failure_def
      split: option.splits if_splits)

lemma v2_outcome_cases:
  assumes "v2_emit_outcome_from_observation env k plan aref ob arguments v dg s = (r, s1)"
  obtains (none) "s1 = s"
  | (failed) rec tok dg' e s2 where "v2_emit_outcome env (vk_context k) aref rec tok dg' s = (Inl e, s2)"
      "s1 = v2_record_receipt_failure (vk_context k) ''outcome'' (v2_failure_class e) s2" "r = Inr ()"
  | (written) rec tok dg' rid s2 ev where
      "v2_emit_outcome env (vk_context k) aref rec tok dg' s = (Inr rid, s2)"
      "v2_run_hook env k ev s2 = (r, s1)" "pe_admission_receipt_ref ev = aref"
      "pe_outcome_receipt_ref ev = rid"
proof -
  consider "s1 = s" | outp rec tok where "plan_outcome_strict plan ob = Inr outp" "op_record outp = Some rec"
      "dget V2_OUTCOME_TOKEN_MAP (oi_outcome rec) = Some tok"
    using assms by (auto simp: v2_emit_outcome_from_observation_def split: sum.splits option.splits)
  then show ?thesis
  proof cases
    case 1
    then show ?thesis by (rule none)
  next
    case 2
    let ?dg = "if oi_carries_result_digest rec then dg else None"
    show ?thesis
    proof (cases "v2_emit_outcome env (vk_context k) aref rec tok ?dg s")
      case (Pair q s2)
      show ?thesis
      proof (cases q)
        case (Inl e)
        show ?thesis using Pair Inl assms
          by (intro failed[of rec tok ?dg e s2]) (simp_all add: v2_emit_outcome_from_observation_def 2)
      next
        case (Inr rid)
        let ?ev = "\<lparr>pe_tool_name = vk_tool k, pe_arguments = arguments, pe_delegate_result = v,
            pe_actor = vk_actor k, pe_caller_auth = vk_auth k, pe_receipt_context = vk_context k,
            pe_admission_receipt_ref = aref, pe_outcome_receipt_ref = rid, pe_result_digest = ?dg\<rparr>"
        show ?thesis using Pair Inr assms
          by (intro written[of rec tok ?dg rid s2 ?ev])
             (simp_all add: v2_emit_outcome_from_observation_def 2 cong: if_cong)
      qed
    qed
  qed
qed

lemma v2_outcome_adds:
  assumes "v2_emit_outcome_from_observation env k plan aref ob arguments v dg s = (r, s1)"
  shows "\<exists>tail. v2_adds s tail s1 \<and> v2_tail_ok env (Some aref) tail"
  using assms
proof (cases rule: v2_outcome_cases)
  case none
  then show ?thesis by (intro exI[of _ "[]"]) simp
next
  case (failed rec tok dg' e s2)
  then have "v2_adds s [] s1" using v2_emitted_adds(2) by (simp add: v2_emit_outcome_def)
  then show ?thesis by (intro exI[of _ "[]"]) simp
next
  case (written rec tok dg' rid s2 ev)
  have "v2_adds s [OutcomeWritten tok rid] s2"
    using written(1) unfolding v2_emit_outcome_def by (rule v2_emitted_adds(1))
  from v2_adds_trans[OF this v2_hook_adds[OF written(2)]] show ?thesis
    by (intro exI[of _ "[OutcomeWritten tok rid] @ (if vf_post_outcome_hook (ve_config env) = None
          then [] else [HookCalled ev])"]) (simp add: written(3,4))
qed

lemma v2_raise_adds:
  assumes "v2_after_raise env k plan aref e arguments s = (r, s1)"
  shows "\<exists>tail. v2_adds s tail s1 \<and> v2_tail_ok env aref tail"
proof (cases "(\<exists>a ob v dg r'. aref = Some a \<and> v2_emit_outcome_from_observation env k plan a ob arguments v dg s = (r', s1))")
  case True
  then show ?thesis using v2_outcome_adds by blast
next
  case False
  then have "s1 = s" using assms
    by (auto simp: v2_after_raise_def Let_def split: option.splits prod.splits sum.splits pyexc.splits)
  then show ?thesis by (intro exI[of _ "[]"]) simp
qed

lemma v2_return_adds:
  assumes "v2_after_return env k plan aref v arguments s = (r, s1)"
  shows "\<exists>tail. v2_adds s tail s1 \<and> v2_tail_ok env aref tail"
proof (cases "(\<exists>a ob v dg r'. aref = Some a \<and> v2_emit_outcome_from_observation env k plan a ob arguments v dg s = (r', s1))")
  case True
  then show ?thesis using v2_outcome_adds by blast
next
  case False
  then have "s1 = s" using assms
    by (auto simp: v2_after_return_def split: option.splits prod.splits sum.splits if_splits)
  then show ?thesis by (intro exI[of _ "[]"]) simp
qed

lemma v2_execute_adds:
  assumes "v2_execute env k plan aref delegate arguments s = (r, s1)"
  shows "\<exists>tail. v2_adds s (DelegateCalled arguments # tail) s1 \<and> v2_tail_ok env aref tail"
proof -
  let ?s = "s\<lparr>vs_trace := vs_trace s @ [DelegateCalled arguments]\<rparr>"
  have start: "v2_adds s [DelegateCalled arguments] ?s" by (simp add: v2_adds_def)
  have "\<exists>tail. v2_adds ?s tail s1 \<and> v2_tail_ok env aref tail"
    using assms v2_raise_adds v2_return_adds
    by (fastforce simp: v2_execute_def Let_def split: prod.splits v2_handler.splits)
  then show ?thesis using v2_adds_trans[OF start] by fastforce
qed

section \<open>When the delegate runs\<close>

text \<open>The operator admits: there is no operator resolver, or it answers, in time or not, with a request that
  admits.\<close>

definition v2_operator_admits :: "v2_env \<Rightarrow> v2_context \<Rightarrow> v2_call \<Rightarrow> token \<Rightarrow> bool" where
  "v2_operator_admits env cx k cls =
     (case vf_admission_resolver (ve_config env) of
        None \<Rightarrow> True
      | Some f \<Rightarrow>
         (case await_call (f cx (vk_auth k) (vk_actor k) (vk_tool k) cls (vk_digest k)) of
            Inr (OperatorRequest rq) \<Rightarrow> ar_disposition rq = ''admitted''
          | _ \<Rightarrow> False))"

definition v2_admission_stands :: "v2_env \<Rightarrow> v2_call \<Rightarrow> token \<Rightarrow> v2_state \<Rightarrow> bool" where
  "v2_admission_stands env k cls s =
     (\<not> isl (fst (v2_emit_admission env (vk_context k) (vk_tool k) (vk_digest k) ''admitted'' None s))
      \<or> v2_pre_execution_failure_mode (ve_config env) cls \<noteq> ''fail_closed'')"

definition v2_goes_ahead :: "v2_env \<Rightarrow> v2_context \<Rightarrow> string \<Rightarrow> pydict \<Rightarrow> v2_state \<Rightarrow> bool" where
  "v2_goes_ahead env cx tool arguments s =
     (vc_method cx = ''tools/call''
      \<and> (case v2_resolve_call env cx tool arguments of
           Inl _ \<Rightarrow> False
         | Inr k \<Rightarrow>
            (case dget (vf_tool_classes (ve_config env)) tool of
               None \<Rightarrow> False
             | Some cls \<Rightarrow> v2_operator_admits env cx k cls \<and> v2_admission_stands env k cls s)))"

text \<open>What the end of a call says about the delegate.\<close>

definition v2_end_true :: "(pydict \<Rightarrow> v2_handler \<times> pydict) \<Rightarrow> pydict \<Rightarrow> bool \<Rightarrow> v2_end \<Rightarrow> bool" where
  "v2_end_true delegate arguments called r =
     (case r of
        V2Returned v \<Rightarrow> called \<and> fst (delegate arguments) = V2Returns v \<and> \<not> v2_input_required v
      | V2DelegateRaised e \<Rightarrow> called \<and> fst (delegate arguments) = V2Raises e
      | V2InputRequiredUnsupported \<Rightarrow>
          called \<and> (\<exists>v. fst (delegate arguments) = V2Returns v \<and> v2_input_required v)
      | V2ProjectionRaised _ \<Rightarrow> called
      | V2HookRaised _ \<Rightarrow> called
      | V2ReceiptRaised _ \<Rightarrow> True
      | V2CoreRaised _ \<Rightarrow> \<not> called
      | V2UnknownToken _ \<Rightarrow> False
      | V2AssertionRaised \<Rightarrow> False
      | V2CoreInvariantBroken \<Rightarrow> False
      | _ \<Rightarrow> \<not> called)"

lemma plan_v2_admitted:
  assumes "plan_admission (v2_request ''admitted'' cls None) = Inr plan"
  shows "ap_resolved plan = ''admitted''" "ap_execution_proceeds plan" "ap_admission_recorded plan"
  using assms by (auto simp: plan_admission_def v2_request_def admission_before_execution_def Let_def)

lemma plan_v2_refused:
  assumes "plan_admission (v2_request ''refused'' cls ground) = Inr plan"
  shows "ap_resolved plan = ''refused''" "\<exists>rec. ap_record plan = Some rec \<and> ai_reason_code rec = ground"
  using assms
  by (auto simp: plan_admission_def v2_request_def admission_record_def split: option.splits if_splits)

text \<open>The observations of the binding are planned as records the token map has, and only the paused result
  is unsupported.\<close>

lemma v2_planned_observation:
  assumes "plan_admission (v2_request ''admitted'' cls None) = Inr plan"
    and "ob \<in> {simple_observation ''cancellation'' None, simple_observation ''timeout'' None,
          simple_observation ''exception'' (Some c), simple_observation ''error'' None,
          simple_observation ''result'' None}"
  shows "\<exists>outp rec tok. plan_outcome_strict plan ob = Inr outp \<and> op_record outp = Some rec
     \<and> dget V2_OUTCOME_TOKEN_MAP (oi_outcome rec) = Some tok"
  using assms(2) plan_v2_admitted[OF assms(1)]
  by (auto simp: plan_outcome_strict_def plan_outcome_def outcome_record_def simple_observation_def Let_def
      raise_unsupported_def vocab)

lemma v2_outcome_ends:
  assumes "plan_admission (v2_request ''admitted'' cls None) = Inr plan"
    and "ob \<in> {simple_observation ''cancellation'' None, simple_observation ''timeout'' None,
          simple_observation ''exception'' (Some c), simple_observation ''error'' None,
          simple_observation ''result'' None}"
    and "v2_emit_outcome_from_observation env k plan aref ob arguments v dg s = (r, s1)"
  shows "r = Inr () \<or> (\<exists>e. r = Inl (V2HookRaised e))"
proof -
  obtain outp rec tok where "plan_outcome_strict plan ob = Inr outp" "op_record outp = Some rec"
    "dget V2_OUTCOME_TOKEN_MAP (oi_outcome rec) = Some tok"
    using v2_planned_observation[OF assms(1,2)] by blast
  then show ?thesis using assms(3)
    by (auto simp: v2_emit_outcome_from_observation_def v2_run_hook_def Let_def
        split: prod.splits sum.splits option.splits if_splits)
qed

lemma v2_raise_end:
  assumes "plan_admission (v2_request ''admitted'' cls None) = Inr plan"
    and "v2_after_raise env k plan aref e arguments s = (r, s1)"
  shows "r = V2DelegateRaised e \<or> (\<exists>x. r = V2HookRaised x)"
proof (cases "aref = None \<or> v2_observed_raise e = None")
  case True
  then show ?thesis using assms(2) by (auto simp: v2_after_raise_def split: option.splits)
next
  case False
  then obtain a ob where ob: "aref = Some a" "v2_observed_raise e = Some ob" by auto
  obtain q s2 where q: "v2_emit_outcome_from_observation env k plan a ob arguments None None s = (q, s2)"
    by (cases "v2_emit_outcome_from_observation env k plan a ob arguments None None s")
  have "q = Inr () \<or> (\<exists>x. q = Inl (V2HookRaised x))"
    using ob(2) by (intro v2_outcome_ends[OF assms(1) _ q, of "exc_class e"])
      (auto simp: v2_observed_raise_def exc_class_def split: pyexc.splits)
  then show ?thesis using assms(2) q ob by (auto simp: v2_after_raise_def)
qed

lemma v2_unsupported_end:
  assumes "plan_admission (v2_request ''admitted'' cls None) = Inr plan"
  shows "v2_unsupported_result env plan aref = V2InputRequiredUnsupported"
  by (simp add: v2_unsupported_result_def plan_outcome_strict_def plan_outcome_def simple_observation_def
      Let_def raise_unsupported_def unsupported_for_def vocab)

lemma v2_return_end:
  assumes "plan_admission (v2_request ''admitted'' cls None) = Inr plan"
    and "v2_after_return env k plan aref v arguments s = (r, s1)"
  shows "if v2_input_required v then r = V2InputRequiredUnsupported
    else r = V2Returned v \<or> (\<exists>c. r = V2ProjectionRaised c) \<or> (\<exists>e. r = V2ReceiptRaised e)
      \<or> (\<exists>x. r = V2HookRaised x)"
proof (cases "v2_input_required v")
  case True
  then show ?thesis using assms(2) v2_unsupported_end[OF assms(1)] by (simp add: v2_after_return_def)
next
  case False
  consider "r = V2Returned v" | "\<exists>c. r = V2ProjectionRaised c" | "\<exists>e. r = V2ReceiptRaised e"
    | a p dg q s2 where "v2_emit_outcome_from_observation env k plan a
        (simple_observation (if v2_error_flag p then ''error'' else ''result'') None) arguments (Some v) (Some dg) s
        = (q, s2)" "r = (case q of Inl err \<Rightarrow> err | Inr _ \<Rightarrow> V2Returned v)"
    using assms(2) False
    by (fastforce simp: v2_after_return_def split: option.splits sum.splits prod.splits)
  then show ?thesis
  proof cases
    case 4
    have "q = Inr () \<or> (\<exists>x. q = Inl (V2HookRaised x))"
      by (rule v2_outcome_ends[OF assms(1) _ 4(1)]) simp
    then show ?thesis using False 4(2) by auto
  qed (use False in simp_all)
qed

lemma v2_execute_end:
  assumes "plan_admission (v2_request ''admitted'' cls None) = Inr plan"
    and "v2_execute env k plan aref delegate arguments s = (r, s1)"
  shows "v2_end_true delegate arguments True r"
proof -
  obtain h left_over where d: "delegate arguments = (h, left_over)" by (cases "delegate arguments")
  show ?thesis
  proof (cases h)
    case (V2Raises e)
    have "v2_after_raise env k plan aref e left_over (s\<lparr>vs_trace := vs_trace s @ [DelegateCalled arguments]\<rparr>)
        = (r, s1)" using assms(2) by (simp add: v2_execute_def d V2Raises)
    from v2_raise_end[OF assms(1) this] show ?thesis by (auto simp: v2_end_true_def d V2Raises)
  next
    case (V2Returns v)
    have "v2_after_return env k plan aref v left_over (s\<lparr>vs_trace := vs_trace s @ [DelegateCalled arguments]\<rparr>)
        = (r, s1)" using assms(2) by (simp add: v2_execute_def d V2Returns)
    from v2_return_end[OF assms(1) this] show ?thesis
      by (auto simp: v2_end_true_def d V2Returns split: if_splits)
  qed
qed

section \<open>A call as a whole\<close>

definition v2_call_facts ::
  "v2_env \<Rightarrow> (pydict \<Rightarrow> v2_handler \<times> pydict) \<Rightarrow> pydict \<Rightarrow> bool \<Rightarrow> v2_state \<Rightarrow> v2_end \<times> v2_state \<Rightarrow> bool" where
  "v2_call_facts env delegate arguments goes s run =
     (\<exists>eff. v2_adds s eff (snd run) \<and> v2_effects_ok env arguments eff \<and> delegate_called eff = goes
        \<and> v2_end_true delegate arguments goes (fst run))"

lemma v2_nothing_facts:
  "v2_end_true delegate arguments False e \<Longrightarrow> v2_call_facts env delegate arguments False s (e, s)"
  unfolding v2_call_facts_def
  by (intro exI[of _ "[]"]) (simp add: delegate_called_def)

lemma tail_no_delegate: "v2_tail_ok env aref tail \<Longrightarrow> \<not> delegate_called tail"
  by (cases "(env, aref, tail)" rule: v2_tail_ok.cases) (auto simp: delegate_called_def)

lemma v2_refusal_facts:
  assumes "ap_record plan \<noteq> None" and "v2_end_true delegate arguments False e"
  shows "v2_call_facts env delegate arguments False s (v2_emit_terminal_refusal env plan ctx tool digest e s)"
proof -
  obtain rec where rec: "ap_record plan = Some rec" using assms(1) by blast
  obtain q s1 where q: "v2_emit_admission env ctx tool digest ''refused'' (ai_reason_code rec) s = (q, s1)"
    by (cases "v2_emit_admission env ctx tool digest ''refused'' (ai_reason_code rec) s")
  show ?thesis
  proof (cases q)
    case (Inl x)
    have "v2_adds s [] s1" using q Inl v2_emitted_adds(2) by (simp add: v2_emit_admission_def)
    then show ?thesis using assms(2) q Inl unfolding v2_call_facts_def
      by (intro exI[of _ "[]"])
         (simp add: v2_emit_terminal_refusal_def rec delegate_called_def)
  next
    case (Inr rid)
    have "v2_adds s [AdmissionWritten ''refused'' rid] s1"
      using q Inr v2_emitted_adds(1) by (simp add: v2_emit_admission_def)
    then show ?thesis using assms(2) q Inr unfolding v2_call_facts_def
      by (intro exI[of _ "[AdmissionWritten ''refused'' rid]"])
         (simp add: v2_emit_terminal_refusal_def rec delegate_called_def)
  qed
qed

lemma v2_admitted_facts:
  assumes "plan_admission (v2_request ''admitted'' cls None) = Inr plan"
  shows "v2_call_facts env delegate arguments (v2_admission_stands env k cls s) s
           (v2_planned env k plan cls delegate arguments s)"
proof -
  note plan = plan_v2_admitted[OF assms]
  obtain q s1 where q: "v2_emit_admission env (vk_context k) (vk_tool k) (vk_digest k) ''admitted'' None s = (q, s1)"
    by (cases "v2_emit_admission env (vk_context k) (vk_tool k) (vk_digest k) ''admitted'' None s")
  have run: "v2_call_facts env delegate arguments True s (v2_execute env k plan aref delegate arguments s')"
    if "v2_adds s pre s'" "pre = (case aref of None \<Rightarrow> [] | Some rid \<Rightarrow> [AdmissionWritten ''admitted'' rid])"
    for aref pre s'
  proof -
    obtain r s2 where r: "v2_execute env k plan aref delegate arguments s' = (r, s2)"
      by (cases "v2_execute env k plan aref delegate arguments s'")
    obtain tail where t: "v2_adds s' (DelegateCalled arguments # tail) s2" "v2_tail_ok env aref tail"
      using v2_execute_adds[OF r] by blast
    have "tail = []" if "aref = None"
      using t(2) that by (cases "(env, aref, tail)" rule: v2_tail_ok.cases) auto
    then have "v2_effects_ok env arguments (pre @ DelegateCalled arguments # tail)"
      using t(2) that(2) by (cases aref) simp_all
    moreover have "delegate_called (pre @ DelegateCalled arguments # tail)" by (simp add: delegate_called_def)
    ultimately show ?thesis
      using v2_adds_trans[OF that(1) t(1)] v2_execute_end[OF assms r] unfolding r v2_call_facts_def by auto
  qed
  show ?thesis
  proof (cases q)
    case (Inr rid)
    have "v2_adds s [AdmissionWritten ''admitted'' rid] s1"
      using q Inr v2_emitted_adds(1) by (simp add: v2_emit_admission_def)
    from run[OF this, of "Some rid"] show ?thesis
      by (simp add: v2_planned_def plan v2_observe_admission_def q Inr v2_admission_stands_def)
  next
    case (Inl e)
    have adds: "v2_adds s [] s1" using q Inl v2_emitted_adds(2) by (simp add: v2_emit_admission_def)
    let ?s2 = "v2_record_receipt_failure (vk_context k) ''admission'' (v2_failure_class e) s1"
    have adds2: "v2_adds s [] ?s2" using adds by simp
    show ?thesis
    proof (cases "v2_pre_execution_failure_mode (ve_config env) cls = ''fail_closed''")
      case True
      then show ?thesis using adds2
        by (auto simp: v2_planned_def plan v2_observe_admission_def q Inl v2_admission_stands_def
            v2_call_facts_def delegate_called_def v2_end_true_def Let_def
            intro!: exI[of _ "[]"])
    next
      case False
      then show ?thesis using run[OF adds2, of None]
        by (simp add: v2_planned_def plan v2_observe_admission_def q Inl v2_admission_stands_def Let_def)
    qed
  qed
qed

lemma v2_caller_errors: "v2_resolve_caller_auth env cx digest = Inl e \<Longrightarrow> (\<exists>x. e = V2ResolverRaised x) \<or> e = V2NotCallerAuth"
  by (auto simp: v2_resolve_caller_auth_def split: option.splits sum.splits caller_answer.splits)

lemma v2_actor_errors: "v2_resolve_actor env cx digest auth = Inl e \<Longrightarrow> \<exists>x. e = V2ResolverRaised x"
  by (auto simp: v2_resolve_actor_def map_err_Inl_iff split: option.splits)

lemma v2_resolve_errors:
  "v2_resolve_call env cx tool arguments = Inl e \<Longrightarrow>
     (\<exists>x. e = V2ReceiptRaised x) \<or> (\<exists>x. e = V2ResolverRaised x) \<or> e = V2NotCallerAuth"
  unfolding v2_resolve_call_def rbind_Inl_iff map_err_Inl_iff
  using v2_caller_errors v2_actor_errors by (elim disjE exE conjE) (simp | blast)+

text \<open>An operator's answer becomes one of two requests, or an error.\<close>

lemma v2_admission_shape:
  "case v2_resolve_admission env cx (vk_auth k) (vk_actor k) (vk_tool k) cls (vk_digest k) of
     Inr rq \<Rightarrow> if v2_operator_admits env cx k cls then rq = v2_request ''admitted'' cls None
              else (\<exists>g. rq = v2_request ''refused'' cls g)
   | Inl e \<Rightarrow> \<not> v2_operator_admits env cx k cls
       \<and> (e = V2DeferredUnsupported \<or> e = V2NotAdmissionRequest \<or> (\<exists>x. e = V2ResolverRaised x)
          \<or> (\<exists>x. e = V2UnrecognizedDisposition x))"
  by (auto simp: v2_resolve_admission_def v2_operator_admits_def Let_def
      v2_narrow_operator_admission_request_def split: option.splits sum.splits operator_answer.splits)

lemma v2_governed_facts:
  "v2_call_facts env delegate arguments (v2_operator_admits env cx k cls \<and> v2_admission_stands env k cls s) s
     (v2_governed env cx k cls delegate arguments s)"
proof (cases "v2_resolve_admission env cx (vk_auth k) (vk_actor k) (vk_tool k) cls (vk_digest k)")
  case (Inl e)
  have "\<not> v2_operator_admits env cx k cls \<and> v2_end_true delegate arguments False e"
    using v2_admission_shape[of env cx k cls] Inl by (auto simp: v2_end_true_def)
  then show ?thesis by (simp add: v2_governed_def Inl v2_nothing_facts)
next
  case rq: (Inr rq)
  show ?thesis
  proof (cases "v2_operator_admits env cx k cls")
    case True
    then have q: "rq = v2_request ''admitted'' cls None" using v2_admission_shape[of env cx k cls] rq by simp
    obtain plan where plan: "plan_admission (v2_request ''admitted'' cls None) = Inr plan"
      by (simp add: plan_admission_def v2_request_def Let_def)
    show ?thesis using v2_admitted_facts[OF plan] True by (simp add: v2_governed_def rq q plan)
  next
    case False
    then obtain g where q: "rq = v2_request ''refused'' cls g"
      using v2_admission_shape[of env cx k cls] rq by auto
    show ?thesis
    proof (cases "plan_admission (v2_request ''refused'' cls g)")
      case (Inl e)
      then show ?thesis using False by (simp add: v2_governed_def rq q v2_nothing_facts v2_end_true_def)
    next
      case (Inr plan)
      note ref = plan_v2_refused[OF Inr]
      have "ap_record plan \<noteq> None" using ref(2) by auto
      then show ?thesis using False ref(1)
        by (simp add: v2_governed_def rq q Inr v2_planned_def v2_refusal_facts v2_end_true_def)
    qed
  qed
qed

lemma v2_call_all:
  defines "arguments \<equiv> \<lambda>params. (case params of None \<Rightarrow> [] | Some a \<Rightarrow> a)"
  shows "v2_call_facts env delegate (arguments params) (v2_goes_ahead env cx tool (arguments params) s) s
           (governed_call_tool env cx tool params delegate s)"
proof (cases "vc_method cx = ''tools/call''")
  case False
  then show ?thesis
    by (simp add: v2_goes_ahead_def governed_call_tool_def Let_def v2_nothing_facts v2_end_true_def)
next
  case meth: True
  note defs = v2_goes_ahead_def governed_call_tool_def Let_def meth arguments_def
  show ?thesis
  proof (cases "v2_resolve_call env cx tool (arguments params)")
    case (Inl e)
    have "v2_end_true delegate (arguments params) False e"
      using v2_resolve_errors[OF Inl] by (auto simp: v2_end_true_def)
    then show ?thesis using Inl by (simp add: defs v2_nothing_facts)
  next
    case k: (Inr k)
    show ?thesis
    proof (cases "dget (vf_tool_classes (ve_config env)) tool")
      case None
      obtain plan where plan: "plan_admission (v2_request ''refused'' ''read'' (Some ''unknown_tool_fail_closed''))
          = Inr plan" by (simp add: plan_admission_def v2_request_def NEUTRAL_REFUSAL_GROUNDS_def)
      have "ap_record plan \<noteq> None" using plan_v2_refused(2)[OF plan] by auto
      then show ?thesis using k by (simp add: defs None plan v2_refusal_facts v2_end_true_def)
    next
      case (Some cls)
      then show ?thesis using k v2_governed_facts by (simp add: defs)
    qed
  qed
qed

text \<open>C13: When the delegate of an SDK-v2 call runs, and what surrounds it. It runs exactly for a tools/call
  whose caller, actor and digest resolve, of a tool the operator classified, admitted by the operator where
  there is an operator resolver, and only after its admission receipt was accepted unless the class is
  fail-open; then it runs once, on the call's arguments. The effects of any call are nothing, one refusal,
  or an admission, the run, at most one outcome and, exactly after an accepted outcome, the hook with
  the references of these two receipts; without an admission receipt nothing follows the run. How the
  call ends tells the truth about the delegate, and no internal assertion or unknown token is ever
  reached.\<close>
theorem v2_call_safe:
  "let arguments = (case params of None \<Rightarrow> [] | Some a \<Rightarrow> a);
       run = governed_call_tool env cx tool params delegate s;
       goes = v2_goes_ahead env cx tool arguments s in
     v2_end_true delegate arguments goes (fst run)
     \<and> (\<exists>eff. vs_trace (snd run) = vs_trace s @ eff \<and> v2_effects_ok env arguments eff
            \<and> delegate_called eff = goes)"
  using v2_call_all[of env delegate params cx tool s] by (auto simp: Let_def v2_call_facts_def v2_adds_def)

section \<open>What an operator's answer reaches\<close>

text \<open>An answer without everything the binding does not honour.\<close>

definition bare_answer :: "operator_answer \<Rightarrow> operator_answer" where
  "bare_answer a =
     (case a of
        NotAnAdmissionRequest \<Rightarrow> NotAnAdmissionRequest
      | OperatorRequest rq \<Rightarrow>
          OperatorRequest (v2_request (ar_disposition rq) ''read''
            (if ar_disposition rq = ''refused'' then ar_refusal_ground rq else None)))"

definition bare_resolver :: "v2_env \<Rightarrow> v2_env" where
  "bare_resolver env = env\<lparr>ve_config := (ve_config env)\<lparr>vf_admission_resolver :=
     map_option (\<lambda>f cx auth actor tool cls digest. map_call_outcome bare_answer (f cx auth actor tool cls digest))
       (vf_admission_resolver (ve_config env))\<rparr>\<rparr>"

lemma bare_fields [simp]:
  "ve_identity (bare_resolver env) = ve_identity env" "ve_stamps (bare_resolver env) = ve_stamps env"
  "ve_minted_id (bare_resolver env) = ve_minted_id env" "ve_anonymous (bare_resolver env) = ve_anonymous env"
  "ve_canon_exc (bare_resolver env) = ve_canon_exc env"
  "vf_tool_classes (ve_config (bare_resolver env)) = vf_tool_classes (ve_config env)"
  "vf_actor_resolver (ve_config (bare_resolver env)) = vf_actor_resolver (ve_config env)"
  "vf_caller_auth_resolver (ve_config (bare_resolver env)) = vf_caller_auth_resolver (ve_config env)"
  "vf_pre_failure (ve_config (bare_resolver env)) = vf_pre_failure (ve_config env)"
  "vf_attestation_limits (ve_config (bare_resolver env)) = vf_attestation_limits (ve_config env)"
  "vf_post_outcome_hook (ve_config (bare_resolver env)) = vf_post_outcome_hook (ve_config env)"
  "vf_runtime_instance_id (ve_config (bare_resolver env)) = vf_runtime_instance_id (ve_config env)"
  "vf_boundary_id (ve_config (bare_resolver env)) = vf_boundary_id (ve_config env)"
  "vf_policy_pack_id (ve_config (bare_resolver env)) = vf_policy_pack_id (ve_config env)"
  "vf_policy_pack_version (ve_config (bare_resolver env)) = vf_policy_pack_version (ve_config env)"
  "vf_logical_call_id_override (ve_config (bare_resolver env)) = vf_logical_call_id_override (ve_config env)"
  "vf_subject_ref_override (ve_config (bare_resolver env)) = vf_subject_ref_override (ve_config env)"
  "vf_mint_logical_call_id (ve_config (bare_resolver env)) = vf_mint_logical_call_id (ve_config env)"
  by (simp_all add: bare_resolver_def)

lemma await_bare: "await_call (map_call_outcome g c) = map_sum id g (await_call c)"
  by (cases c) (auto simp: await_call_def)

lemma bare_admission:
  "v2_resolve_admission (bare_resolver env) cx auth actor tool cls digest
     = v2_resolve_admission env cx auth actor tool cls digest"
proof (cases "vf_admission_resolver (ve_config env)")
  case None
  then show ?thesis by (simp add: v2_resolve_admission_def bare_resolver_def)
next
  case (Some f)
  have narrow: "v2_narrow_operator_admission_request (v2_request (ar_disposition rq) ''read''
      (if ar_disposition rq = ''refused'' then ar_refusal_ground rq else None)) cls
    = v2_narrow_operator_admission_request rq cls" for rq
    by (simp add: v2_narrow_operator_admission_request_def v2_request_def Let_def)
  show ?thesis using Some narrow
    by (cases "await_call (f cx auth actor tool cls digest)")
       (auto simp: v2_resolve_admission_def bare_resolver_def await_bare bare_answer_def split: operator_answer.splits)
qed

lemma bare_resolution:
  "v2_resolve_caller_auth (bare_resolver env) = v2_resolve_caller_auth env"
  "v2_resolve_actor (bare_resolver env) = v2_resolve_actor env"
  "v2_receipt_context (bare_resolver env) = v2_receipt_context env"
  unfolding v2_resolve_caller_auth_def v2_resolve_actor_def v2_receipt_context_def
      v2_logical_call_id_def v2_subject_def Let_def bare_fields
  by (rule refl)+

lemma bare_emission:
  "v2_emit_admission (bare_resolver env) = v2_emit_admission env"
  "v2_emit_outcome (bare_resolver env) = v2_emit_outcome env"
  "v2_run_hook (bare_resolver env) = v2_run_hook env"
  "project_v2_tool_result (bare_resolver env) = project_v2_tool_result env"
  unfolding v2_emit_admission_def v2_emit_outcome_def v2_run_hook_def
      project_v2_tool_result_def bare_fields
  by (rule refl)+

lemma bare_outcome:
  "v2_emit_outcome_from_observation (bare_resolver env) = v2_emit_outcome_from_observation env"
  "v2_emit_terminal_refusal (bare_resolver env) = v2_emit_terminal_refusal env"
  "v2_pre_execution_failure_mode (ve_config (bare_resolver env)) = v2_pre_execution_failure_mode (ve_config env)"
  "v2_unsupported_result (bare_resolver env) = v2_unsupported_result env"
  unfolding v2_emit_outcome_from_observation_def v2_emit_terminal_refusal_def
      v2_pre_execution_failure_mode_def v2_unsupported_result_def bare_emission bare_fields
  by (rule refl)+

lemma bare_planned: "v2_planned (bare_resolver env) = v2_planned env"
  unfolding v2_planned_def v2_execute_def v2_after_raise_def v2_after_return_def
      v2_observe_admission_def bare_outcome bare_emission bare_fields
  by (rule refl)+

text \<open>C39: An operator's answer reaches nothing but the disposition and the refusal ground. Replacing every
  request an operator resolver answers by a request that has only its disposition and, for a refusal, its
  ground changes nothing at all: neither the end of a call, nor its receipts, telemetry or effects. In
  particular an operator can suppress no admission record, present no other tool class, and manufacture
  no deferral.\<close>
theorem v2_operator_reach:
  "governed_call_tool (bare_resolver env) cx tool params delegate s = governed_call_tool env cx tool params delegate s"
  unfolding governed_call_tool_def v2_resolve_call_def v2_governed_def bare_admission bare_planned
    bare_outcome bare_resolution bare_fields ..

section \<open>The receipts of a call\<close>

definition v2_receipt :: "pydict \<Rightarrow> string \<Rightarrow> string \<Rightarrow> bool" where
  "v2_receipt receipt kind rid =
     (dget receipt ''receipt_kind'' = Some (VStr kind) \<and> dget receipt ''receipt_id'' = Some (VStr rid)
      \<and> raw_free receipt \<and> signature_of receipt \<noteq> None)"

lemma core_emission_accepted:
  assumes "guard_and_emit ident built sk = (Inr rid, sk')"
    and "\<forall>env. built = Inr env \<longrightarrow> dget env ''receipt_kind'' = Some (VStr kind)"
  shows "\<exists>env receipt. built = Inr env \<and> sk_written sk' = sk_written sk @ [receipt]
    \<and> v2_receipt receipt kind rid \<and> (\<forall>k. k = ''receipt_signature'' \<or> dget receipt k = dget env k)"
proof -
  obtain env receipt where w: "built = Inr env" "sk_written sk' = sk_written sk @ [receipt]"
    "dget receipt ''receipt_id'' = Some (VStr rid)" "raw_free receipt"
    "\<forall>k. k = ''receipt_signature'' \<or> dget receipt k = dget env k" "sign_envelope ident env = Inr receipt"
    using assms(1) by (rule guard_and_emit_accepted)
  have "signature_of receipt \<noteq> None" using signature_covers_envelope_aux[OF w(6)] by auto
  moreover have "dget receipt ''receipt_kind'' = Some (VStr kind)"
    using assms(2) w(1) w(5)[THEN spec, of "''receipt_kind''"] by simp
  ultimately show ?thesis using w(1-5) by (auto simp: v2_receipt_def)
qed

lemma v2_admission_written:
  assumes "v2_emit_admission env ctx tool digest disp reason s = (Inr rid, s1)"
  obtains receipt where "sk_written (vs_sink s1) = sk_written (vs_sink s) @ [receipt]"
    "vs_telemetry s1 = vs_telemetry s" "v2_receipt receipt ''admission'' rid"
    "dget receipt ''disposition'' = Some (VStr disp)"
    "dget receipt ''requested_tool_name'' = Some (VStr tool)"
    "dget receipt ''argument_digest'' = Some (VStr digest)"
proof -
  let ?built = "core_admission_envelope (ve_identity env) ctx (ve_stamps env (vs_stamp_count s))
      \<lparr>aa_tool_name = tool, aa_argument_digest = digest, aa_disposition = disp,
       aa_review_object_ref = None, aa_retry_contract = None, aa_reason_code = reason,
       aa_limits = vtuple (vf_attestation_limits (ve_config env))\<rparr>"
  have g: "guard_and_emit (ve_identity env) ?built (vs_sink s) = (Inr rid, vs_sink s1)"
    "vs_telemetry s1 = vs_telemetry s"
    using assms by (auto simp: v2_emit_admission_def v2_emitted_def core_emit_admission_def prod_eq_iff)
  have kinds: "\<forall>e. ?built = Inr e \<longrightarrow> dget e ''receipt_kind'' = Some (VStr ''admission'')"
    using core_admission_fields(2) by blast
  obtain e receipt where r: "?built = Inr e" "sk_written (vs_sink s1) = sk_written (vs_sink s) @ [receipt]"
    "v2_receipt receipt ''admission'' rid" "\<forall>k. k = ''receipt_signature'' \<or> dget receipt k = dget e k"
    using core_emission_accepted[OF g(1) kinds] by blast
  have kk: "dget receipt k = dget e k" if "k \<noteq> ''receipt_signature''" for k using r(4) that by blast
  note f = core_admission_fields[OF r(1)]
  show ?thesis using that[OF r(2) g(2) r(3)] f kk by simp
qed

lemma v2_outcome_written:
  assumes "v2_emit_outcome env ctx aref rec tok digest s = (Inr rid, s1)"
  obtains receipt where "sk_written (vs_sink s1) = sk_written (vs_sink s) @ [receipt]"
    "vs_telemetry s1 = vs_telemetry s" "v2_receipt receipt ''outcome'' rid"
    "dget receipt ''admission_receipt_ref'' = Some (VStr aref)"
    "dget receipt ''outcome'' = Some (VStr tok)"
    "dget receipt ''result_digest'' = (if given digest then Some (VStr (the digest)) else None)"
proof -
  let ?built = "core_outcome_envelope (ve_identity env) ctx (ve_stamps env (vs_stamp_count s))
         \<lparr>oa_admission_ref = aref, oa_outcome = tok, oa_result_digest = digest,
          oa_exception_class = oi_exception_class rec,
          oa_limits = vtuple (vf_attestation_limits (ve_config env)),
          oa_owned_fields =
            (if oi_governance_facts rec = [] then None
             else Some (map (\<lambda>f. (f, VBool (oi_governance_facts_value rec))) (oi_governance_facts rec)))\<rparr>"
  have g: "guard_and_emit (ve_identity env) ?built (vs_sink s) = (Inr rid, vs_sink s1)"
    "vs_telemetry s1 = vs_telemetry s"
    using assms by (auto simp: v2_emit_outcome_def v2_emitted_def core_emit_outcome_def prod_eq_iff)
  have kinds: "\<forall>e. ?built = Inr e \<longrightarrow> dget e ''receipt_kind'' = Some (VStr ''outcome'')"
    using core_outcome_fields(2) by blast
  obtain e receipt where r: "?built = Inr e" "sk_written (vs_sink s1) = sk_written (vs_sink s) @ [receipt]"
    "v2_receipt receipt ''outcome'' rid" "\<forall>k. k = ''receipt_signature'' \<or> dget receipt k = dget e k"
    using core_emission_accepted[OF g(1) kinds] by blast
  have kk: "dget receipt k = dget e k" if "k \<noteq> ''receipt_signature''" for k using r(4) that by blast
  note f = core_outcome_fields[OF r(1)]
  show ?thesis using that[OF r(2) g(2) r(3)] f kk by simp
qed

text \<open>A failed emission writes nothing.\<close>

lemma v2_emission_failed:
  "v2_emit_admission env ctx tool digest disp reason s = (Inl e, s1) \<Longrightarrow>
     sk_written (vs_sink s1) = sk_written (vs_sink s) \<and> vs_telemetry s1 = vs_telemetry s"
  "v2_emit_outcome env ctx aref rec tok dg s = (Inl e, s1) \<Longrightarrow>
     sk_written (vs_sink s1) = sk_written (vs_sink s) \<and> vs_telemetry s1 = vs_telemetry s"
proof -
  assume a: "v2_emit_admission env ctx tool digest disp reason s = (Inl e, s1)"
  from a obtain built where "guard_and_emit (ve_identity env) built (vs_sink s) = (Inl e, vs_sink s1)"
    "vs_telemetry s1 = vs_telemetry s"
    unfolding v2_emit_admission_def v2_emitted_def core_emit_admission_def by (auto simp: prod_eq_iff)
  then show "sk_written (vs_sink s1) = sk_written (vs_sink s) \<and> vs_telemetry s1 = vs_telemetry s"
    using guard_and_emit_err(1) by blast
next
  assume a: "v2_emit_outcome env ctx aref rec tok dg s = (Inl e, s1)"
  from a obtain built where "guard_and_emit (ve_identity env) built (vs_sink s) = (Inl e, vs_sink s1)"
    "vs_telemetry s1 = vs_telemetry s"
    unfolding v2_emit_outcome_def v2_emitted_def core_emit_outcome_def by (auto simp: prod_eq_iff)
  then show "sk_written (vs_sink s1) = sk_written (vs_sink s) \<and> vs_telemetry s1 = vs_telemetry s"
    using guard_and_emit_err(1) by blast
qed

lemma v2_planned_result:
  assumes "plan_admission (v2_request ''admitted'' cls None) = Inr plan"
  shows "\<exists>outp rec. plan_outcome_strict plan (simple_observation (if f then ''error'' else ''result'') None) = Inr outp
    \<and> op_record outp = Some rec \<and> oi_carries_result_digest rec
    \<and> dget V2_OUTCOME_TOKEN_MAP (oi_outcome rec) = Some (if f then ''error_returned'' else ''result_returned'')"
  using plan_v2_admitted[OF assms]
  by (cases f) (simp_all add: plan_outcome_strict_def plan_outcome_def outcome_record_def simple_observation_def
      Let_def raise_unsupported_def vocab)

text \<open>After a returned result that is no paused one.\<close>

lemma v2_returned_outcome:
  assumes "plan_admission (v2_request ''admitted'' cls None) = Inr plan"
    and "v2_after_return env k plan (Some aref) v left_over s = (V2Returned w, s1)"
    and "vs_telemetry s1 = vs_telemetry s"
  shows "\<exists>p dg out rid. project_v2_tool_result env (v2_dumped v) = Inr p
     \<and> sha256_digest (si_crypto (ve_identity env)) (VMap p) = Inr dg
     \<and> sk_written (vs_sink s1) = sk_written (vs_sink s) @ [out] \<and> v2_receipt out ''outcome'' rid
     \<and> dget out ''admission_receipt_ref'' = Some (VStr aref)
     \<and> dget out ''outcome'' = Some (VStr (if v2_error_flag p then ''error_returned'' else ''result_returned''))
     \<and> dget out ''result_digest'' = Some (VStr dg)"
proof -
  obtain p dg x where p: "project_v2_tool_result env (v2_dumped v) = Inr p"
    "sha256_digest (si_crypto (ve_identity env)) (VMap p) = Inr dg"
    and x: "v2_emit_outcome_from_observation env k plan aref
        (simple_observation (if v2_error_flag p then ''error'' else ''result'') None) left_over (Some v) (Some dg) s
      = (x, s1)"
    using assms(2) v2_unsupported_end[OF assms(1), of env "Some aref"]
    by (fastforce simp: v2_after_return_def split: if_splits sum.splits prod.splits)
  have dg: "given (Some dg)"
    using p(2) by (auto simp: sha256_digest_def split: option.splits)
  obtain outp rec where rec: "plan_outcome_strict plan
        (simple_observation (if v2_error_flag p then ''error'' else ''result'') None) = Inr outp"
      "op_record outp = Some rec" "oi_carries_result_digest rec"
      "dget V2_OUTCOME_TOKEN_MAP (oi_outcome rec)
        = Some (if v2_error_flag p then ''error_returned'' else ''result_returned'')"
    using v2_planned_result[OF assms(1)] by blast
  let ?tok = "if v2_error_flag p then ''error_returned'' else ''result_returned''"
  obtain q s2 where q: "v2_emit_outcome env (vk_context k) aref rec ?tok (Some dg) s = (q, s2)"
    by (cases "v2_emit_outcome env (vk_context k) aref rec ?tok (Some dg) s")
  show ?thesis
  proof (cases q)
    case (Inl e)
    have "vs_telemetry s1 = vs_telemetry s2 @ [[]] \<or> length (vs_telemetry s1) = Suc (length (vs_telemetry s2))"
      using x q rec Inl
      by (auto simp: v2_emit_outcome_from_observation_def v2_record_receipt_failure_def)
    then show ?thesis using v2_emission_failed(2)[OF q[unfolded Inl]] assms(3) by auto
  next
    case (Inr rid)
    obtain ev where h: "v2_run_hook env k ev s2 = (x, s1)"
      using x q rec Inr by (simp add: v2_emit_outcome_from_observation_def)
    have "vs_sink s1 = vs_sink s2"
      using h by (auto simp: v2_run_hook_def v2_record_receipt_failure_def Let_def split: option.splits if_splits)
    then show ?thesis using v2_outcome_written[OF q[unfolded Inr]] p dg by (metis option.sel)
  qed
qed

definition v2_admission_receipt :: "string \<Rightarrow> string \<Rightarrow> token \<Rightarrow> string \<Rightarrow> pydict \<Rightarrow> bool" where
  "v2_admission_receipt tool digest disp rid receipt =
     (v2_receipt receipt ''admission'' rid
      \<and> dget receipt ''disposition'' = Some (VStr disp)
      \<and> dget receipt ''requested_tool_name'' = Some (VStr tool)
      \<and> dget receipt ''argument_digest'' = Some (VStr digest))"

definition v2_chain ::
  "v2_env \<Rightarrow> v2_call \<Rightarrow> v2_value \<Rightarrow> v2_state \<Rightarrow> v2_state \<Rightarrow> bool" where
  "v2_chain env k v s s' =
     (\<exists>ad out rid oid p dg. sk_written (vs_sink s') = sk_written (vs_sink s) @ [ad, out]
        \<and> v2_admission_receipt (vk_tool k) (vk_digest k) ''admitted'' rid ad
        \<and> v2_receipt out ''outcome'' oid \<and> dget out ''admission_receipt_ref'' = Some (VStr rid)
        \<and> project_v2_tool_result env (v2_dumped v) = Inr p
        \<and> sha256_digest (si_crypto (ve_identity env)) (VMap p) = Inr dg
        \<and> dget out ''outcome'' = Some (VStr (if v2_error_flag p then ''error_returned'' else ''result_returned''))
        \<and> dget out ''result_digest'' = Some (VStr dg))"

lemma v2_outcome_telemetry:
  assumes "v2_emit_outcome_from_observation env k plan aref ob arguments v dg s = (r, s1)"
  shows "\<exists>more. vs_telemetry s1 = vs_telemetry s @ more"
  using assms
proof (cases rule: v2_outcome_cases)
  case none
  then show ?thesis by simp
next
  case (failed rec tok dg' e s2)
  then show ?thesis using v2_emission_failed(2)[OF failed(1)] by (simp add: v2_record_receipt_failure_def)
next
  case (written rec tok dg' rid s2 ev)
  have "vs_telemetry s2 = vs_telemetry s"
    using written(1) by (auto simp: v2_emit_outcome_def v2_emitted_def)
  then show ?thesis using written(2)
    by (auto simp: v2_run_hook_def v2_record_receipt_failure_def Let_def split: option.splits if_splits)
qed

lemma v2_execute_telemetry:
  assumes "v2_execute env k plan aref delegate arguments s = (r, s1)"
  shows "\<exists>more. vs_telemetry s1 = vs_telemetry s @ more"
  using assms v2_outcome_telemetry
  by (fastforce simp: v2_execute_def v2_after_raise_def v2_after_return_def Let_def
      split: prod.splits v2_handler.splits option.splits if_splits sum.splits)

lemma v2_planned_chain:
  assumes "plan_admission (v2_request ''admitted'' cls None) = Inr plan"
    and "v2_planned env k plan cls delegate arguments s = (V2Returned w, s')"
    and "vs_telemetry s' = vs_telemetry s"
  shows "v2_chain env k w s s'"
proof -
  note plan = plan_v2_admitted[OF assms(1)]
  obtain q s1 where q: "v2_emit_admission env (vk_context k) (vk_tool k) (vk_digest k) ''admitted'' None s = (q, s1)"
    by (cases "v2_emit_admission env (vk_context k) (vk_tool k) (vk_digest k) ''admitted'' None s")
  show ?thesis
  proof (cases q)
    case (Inl e)
    then obtain s2 where "v2_execute env k plan None delegate arguments s2 = (V2Returned w, s')"
      "length (vs_telemetry s2) = Suc (length (vs_telemetry s1))"
      using assms(2) q by (auto simp: v2_planned_def plan v2_observe_admission_def Let_def
          v2_record_receipt_failure_def split: if_splits)
    then show ?thesis
      using v2_emission_failed(1)[OF q[unfolded Inl]] v2_execute_telemetry assms(3)
      by (metis (no_types, lifting) Suc_n_not_le_n append_eq_conv_conj length_append le_add1)
  next
    case (Inr rid)
    have run: "v2_execute env k plan (Some rid) delegate arguments s1 = (V2Returned w, s')"
      using assms(2) q Inr by (simp add: v2_planned_def plan v2_observe_admission_def)
    obtain ad where ad: "sk_written (vs_sink s1) = sk_written (vs_sink s) @ [ad]"
      "vs_telemetry s1 = vs_telemetry s" "v2_admission_receipt (vk_tool k) (vk_digest k) ''admitted'' rid ad"
      using v2_admission_written[OF q[unfolded Inr]] unfolding v2_admission_receipt_def by metis
    obtain v left_over where v: "delegate arguments = (V2Returns v, left_over)" "w = v"
      using v2_execute_end[OF assms(1) run] by (cases "delegate arguments") (auto simp: v2_end_true_def)
    let ?s = "s1\<lparr>vs_trace := vs_trace s1 @ [DelegateCalled arguments]\<rparr>"
    have ret: "v2_after_return env k plan (Some rid) v left_over ?s = (V2Returned w, s')"
      using run v by (simp add: v2_execute_def)
    from v2_returned_outcome[OF assms(1) ret] assms(3) ad v(2) show ?thesis
      unfolding v2_chain_def by (fastforce)
  qed
qed

text \<open>What is left of a refusal: its one receipt.\<close>

definition v2_refusal :: "string \<Rightarrow> string \<Rightarrow> v2_state \<Rightarrow> v2_state \<Rightarrow> bool" where
  "v2_refusal tool digest s s' =
     (\<exists>ad rid. sk_written (vs_sink s') = sk_written (vs_sink s) @ [ad]
        \<and> v2_admission_receipt tool digest ''refused'' rid ad)"

lemma v2_terminal_refusal:
  assumes "v2_emit_terminal_refusal env plan ctx tool digest e s = (r, s')" "ap_record plan \<noteq> None"
    and "vs_telemetry s' = vs_telemetry s"
  shows "v2_refusal tool digest s s'"
proof -
  obtain rec where rec: "ap_record plan = Some rec" using assms(2) by blast
  obtain q s1 where q: "v2_emit_admission env ctx tool digest ''refused'' (ai_reason_code rec) s = (q, s1)"
    by (cases "v2_emit_admission env ctx tool digest ''refused'' (ai_reason_code rec) s")
  show ?thesis
  proof (cases q)
    case (Inl x)
    then have "length (vs_telemetry s') = Suc (length (vs_telemetry s1))"
      using assms(1) q by (auto simp: v2_emit_terminal_refusal_def rec v2_record_receipt_failure_def)
    then show ?thesis using v2_emission_failed(1)[OF q[unfolded Inl]] assms(3) by simp
  next
    case (Inr rid)
    then have "s' = s1" using assms(1) q by (simp add: v2_emit_terminal_refusal_def rec)
    then show ?thesis using v2_admission_written[OF q[unfolded Inr]]
      unfolding v2_refusal_def v2_admission_receipt_def by metis
  qed
qed

lemma v2_governed_receipts:
  assumes "v2_governed env cx k cls delegate arguments s = (r, s')" "vs_telemetry s' = vs_telemetry s"
  shows "case r of V2Returned w \<Rightarrow> v2_chain env k w s s'
    | V2AdmissionRefused _ \<Rightarrow> v2_refusal (vk_tool k) (vk_digest k) s s' | V2UnknownTool \<Rightarrow> False | _ \<Rightarrow> True"
proof -
  consider "case r of V2Returned _ \<Rightarrow> False | V2AdmissionRefused _ \<Rightarrow> False | V2UnknownTool \<Rightarrow> False | _ \<Rightarrow> True"
    | plan where "plan_admission (v2_request ''admitted'' cls None) = Inr plan"
        "v2_planned env k plan cls delegate arguments s = (r, s')"
    | g plan where "plan_admission (v2_request ''refused'' cls g) = Inr plan"
        "v2_planned env k plan cls delegate arguments s = (r, s')"
    using assms(1) v2_admission_shape[of env cx k cls]
    by (auto simp: v2_governed_def split: sum.splits if_splits)
  then show ?thesis
  proof cases
    case 1
    then show ?thesis by (cases r) simp_all
  next
    case 2
    have "r \<noteq> V2AdmissionRefused g \<and> r \<noteq> V2UnknownTool" for g
      using 2(2) plan_v2_admitted[OF 2(1)] v2_execute_end[OF 2(1)]
      by (fastforce simp: v2_planned_def v2_observe_admission_def v2_end_true_def Let_def
          split: prod.splits sum.splits if_splits)
    then show ?thesis using v2_planned_chain[OF 2(1)] 2(2) assms(2) by (cases r) auto
  next
    case 3
    have "v2_emit_terminal_refusal env plan (vk_context k) (vk_tool k) (vk_digest k)
        (V2AdmissionRefused (Option.bind (ap_record plan) ai_reason_code)) s = (r, s')"
      using 3 plan_v2_refused(1) by (simp add: v2_planned_def)
    moreover have "r \<noteq> V2Returned w \<and> r \<noteq> V2UnknownTool" for w
      using calculation by (auto simp: v2_emit_terminal_refusal_def split: option.splits prod.splits sum.splits)
    ultimately show ?thesis
      using v2_terminal_refusal[of env plan "vk_context k" "vk_tool k" "vk_digest k"] plan_v2_refused(2)[OF 3(1)]
        assms(2) by (cases r) auto
  qed
qed

text \<open>C38: The receipts of an SDK-v2 call form a chain. A call that returns without recording a gap has
  written exactly two receipts, both signed and free of raw content: an admitted admission of its tool and
  argument digest, and an outcome that references this admission, says error or result as the result's flag
  does, and carries the digest of the frozen projection of the returned result. A refused call, and a
  call of an unknown tool, without a gap has written exactly one receipt, a refusal of its tool and digest.\<close>
theorem v2_receipts_chain:
  "case governed_call_tool env cx tool params delegate s of (r, s') \<Rightarrow>
     case v2_resolve_call env cx tool (case params of None \<Rightarrow> [] | Some a \<Rightarrow> a) of
       Inl _ \<Rightarrow> vs_sink s' = vs_sink s
     | Inr k \<Rightarrow>
         if vs_telemetry s' = vs_telemetry s
         then case r of
             V2Returned v \<Rightarrow> v2_chain env k v s s'
           | V2UnknownTool \<Rightarrow> v2_refusal tool (vk_digest k) s s'
           | V2AdmissionRefused _ \<Rightarrow> v2_refusal tool (vk_digest k) s s'
           | _ \<Rightarrow> True
         else True"
proof (cases "vc_method cx = ''tools/call''")
  case False
  then show ?thesis by (simp add: governed_call_tool_def Let_def split: sum.splits)
next
  case meth: True
  let ?a = "case params of None \<Rightarrow> [] | Some a \<Rightarrow> a"
  show ?thesis
  proof (cases "v2_resolve_call env cx tool ?a")
    case (Inl e)
    then show ?thesis by (simp add: governed_call_tool_def Let_def meth)
  next
    case k: (Inr k)
    have tool: "vk_tool k = tool" using k by (auto simp: v2_resolve_call_def rbind_Inr_iff)
    obtain r s' where run: "governed_call_tool env cx tool params delegate s = (r, s')"
      by (cases "governed_call_tool env cx tool params delegate s")
    show ?thesis
    proof (cases "dget (vf_tool_classes (ve_config env)) tool")
      case None
      obtain plan where plan: "plan_admission (v2_request ''refused'' ''read'' (Some ''unknown_tool_fail_closed''))
          = Inr plan" by (simp add: plan_admission_def v2_request_def NEUTRAL_REFUSAL_GROUNDS_def)
      have out: "v2_emit_terminal_refusal env plan (vk_context k) tool (vk_digest k) V2UnknownTool s = (r, s')"
        using run by (simp add: governed_call_tool_def Let_def meth k None plan)
      have "r = V2UnknownTool" using out plan_v2_refused(2)[OF plan]
        by (auto simp: v2_emit_terminal_refusal_def split: prod.splits sum.splits)
      then show ?thesis using v2_terminal_refusal[OF out] plan_v2_refused(2)[OF plan] run k by auto
    next
      case (Some cls)
      have "v2_governed env cx k cls delegate ?a s = (r, s')"
        using run by (simp add: governed_call_tool_def Let_def meth k Some)
      from v2_governed_receipts[OF this] show ?thesis using run k tool by (cases r) auto
    qed
  qed
qed

section \<open>Where a call falls short\<close>

text \<open>A result whose projection cannot be made is raised out of the call after the delegate ran: its
  admission receipt stays without an outcome, and no gap is recorded.\<close>

lemma projection_failure_leaves_gap:
  assumes "\<not> v2_input_required v" "project_v2_tool_result env (v2_dumped v) = Inl c"
  shows "v2_after_return env k plan (Some aref) v arguments s = (V2ProjectionRaised c, s)"
  using assms by (simp add: v2_after_return_def)

text \<open>The origin of the subject is always declared, and never a session.\<close>

lemma v2_origin_declared:
  "snd (v2_subject env cx) \<in> set SUBJECT_REF_ORIGINS \<and> snd (v2_subject env cx) \<noteq> ''derived_from_session''"
  by (auto simp: v2_subject_def Let_def SUBJECT_REF_ORIGINS_def split: option.splits)

end
