(* ===== verification/CustodyGateway.thy ===== *)
theory CustodyGateway
  imports FlightRecorder "HOL-Library.List_Lexorder" "HOL-Library.Char_ord"
begin

text \<open>The record custody gateway object (\<^verbatim>\<open>src/dagr_mcp/mcp_record_custody_gateway.py\<close>): a projection of
  references and hashes that is validated, normalised and screened as it is constructed. The keyword
  arguments are a dictionary, so an unknown or a missing one is a branch; the text of
  \<^verbatim>\<open>_now_utc_iso()\<close>, the digest of the canonical JSON of a mapping and \<^verbatim>\<open>json.loads\<close> are inputs. What
  \<^verbatim>\<open>json.dumps\<close> and back makes of the extensions is written out.\<close>

section \<open>Vocabulary\<close>

definition MCP_RECORD_CUSTODY_GATEWAY_SCHEMA :: string where
  "MCP_RECORD_CUSTODY_GATEWAY_SCHEMA = ''garp.mcp_record_custody_gateway.v0.1''"
definition MCP_RECORD_CUSTODY_GATEWAY_KIND :: string where
  "MCP_RECORD_CUSTODY_GATEWAY_KIND = ''mcp_record_custody_gateway''"

definition MCP_RECORD_CUSTODY_GATEWAY_VOCABULARY :: "string list" where
  "MCP_RECORD_CUSTODY_GATEWAY_VOCABULARY =
     [''This records a custody record candidate composed at an MCP boundary.'',
      ''It does not admit a record.'',
      ''It does not modify the MCP protocol.'',
      ''It does not verify model output.'',
      ''It does not grant MCP authority.'',
      ''It does not decide public eligibility.'',
      ''It does not act as a stealth interception layer.'',
      ''It does not produce reconstructed receipts.'',
      ''It does not act as an identity provider.'',
      ''It does not introduce a new SRS receipt family.'',
      ''It carries refs and hashes only, never raw prompt, transcript, ''
        @ ''tool-argument, HTTP, header, credential-secret, or private-path payloads.'',
      ''Body kind agent_delegation_issued and agent_delegation_revoked are ''
        @ ''registered SovereigntyReceipt GARP body kinds.'']"

definition PRIVATE_REFERENCE_MARKERS :: "string list" where
  "PRIVATE_REFERENCE_MARKERS =
     [''/Users/'', ''/home/'', ''/private/'', ''/var/folders/'', ''/mnt/user-data'',
      ''C:'' @ [CHR 0x5C, CHR 0x5C], ''C:/'', ''file://'', ''query_logs/'', ''garp-local-main/'']"

definition RAW_PAYLOAD_FIELD_NAMES :: "string list" where
  "RAW_PAYLOAD_FIELD_NAMES =
     [''prompt'', ''prompt_text'', ''system_prompt'', ''completion'', ''completion_text'', ''model_output'',
      ''output_text'', ''response_text'', ''transcript'', ''transcript_text'', ''messages'', ''message_text'',
      ''raw_text'', ''raw_payload'', ''raw_input'', ''raw_output'', ''input_text'', ''private_text'',
      ''private_prompt'', ''private_completion'', ''tool_arguments'', ''tool_args'', ''arguments'',
      ''request_body'', ''response_body'', ''http_body'', ''raw_headers'', ''request_headers'',
      ''response_headers'', ''headers'']"

definition CREDENTIAL_SECRET_FIELD_NAMES :: "string list" where
  "CREDENTIAL_SECRET_FIELD_NAMES =
     [''credential_secret'', ''client_secret'', ''access_token'', ''refresh_token'', ''id_token'',
      ''bearer_token'', ''api_key'', ''private_key'', ''password'', ''passphrase'', ''signing_key'',
      ''shared_secret'']"

datatype gateway_protocol = GpMcp | GpAuthMd | GpUnspecified
datatype gateway_boundary = GbToolCall | GbResourceRead | GbPromptRetrieval | GbAgentDelegation
datatype gateway_family = GfConnection | GfProvenance | GfSdkEnforcement
datatype custody_status = CsReady | CsPartial | CsTraceOnly | CsUnsupportedBoundary | CsMissingActor
  | CsMissingTarget | CsPrivacyBlocked | CsPolicyRefused | CsNeedsReview

fun protocol_value :: "gateway_protocol \<Rightarrow> token" where
  "protocol_value GpMcp = ''mcp''"
| "protocol_value GpAuthMd = ''auth_md''"
| "protocol_value GpUnspecified = ''unspecified''"

fun boundary_value :: "gateway_boundary \<Rightarrow> token" where
  "boundary_value GbToolCall = ''mcp_tool_call''"
| "boundary_value GbResourceRead = ''mcp_resource_read''"
| "boundary_value GbPromptRetrieval = ''mcp_prompt_retrieval''"
| "boundary_value GbAgentDelegation = ''agent_delegation''"

fun family_value :: "gateway_family \<Rightarrow> token" where
  "family_value GfConnection = ''connection''"
| "family_value GfProvenance = ''provenance''"
| "family_value GfSdkEnforcement = ''sdk_enforcement''"

fun status_value :: "custody_status \<Rightarrow> token" where
  "status_value CsReady = ''custody_record_ready''"
| "status_value CsPartial = ''custody_record_partial''"
| "status_value CsTraceOnly = ''trace_only''"
| "status_value CsUnsupportedBoundary = ''unsupported_boundary_type''"
| "status_value CsMissingActor = ''missing_actor_context''"
| "status_value CsMissingTarget = ''missing_target_context''"
| "status_value CsPrivacyBlocked = ''privacy_blocked''"
| "status_value CsPolicyRefused = ''policy_refused''"
| "status_value CsNeedsReview = ''needs_review''"

definition protocol_members :: "gateway_protocol list" where
  "protocol_members = [GpMcp, GpAuthMd, GpUnspecified]"
definition boundary_members :: "gateway_boundary list" where
  "boundary_members = [GbToolCall, GbResourceRead, GbPromptRetrieval, GbAgentDelegation]"
definition family_members :: "gateway_family list" where
  "family_members = [GfConnection, GfProvenance, GfSdkEnforcement]"
definition status_members :: "custody_status list" where
  "status_members = [CsReady, CsPartial, CsTraceOnly, CsUnsupportedBoundary, CsMissingActor,
     CsMissingTarget, CsPrivacyBlocked, CsPolicyRefused, CsNeedsReview]"

datatype gw_error =
    GwKeyword string | GwSchema | GwEmpty string | GwEmptyWhenProvided string
  | GwNotOneOf string | GwNotEnum string | GwMustBeTrue string | GwMustBeFalse string
  | GwNotRefList string | GwExtensionsNotMapping | GwNotJsonStable
  | GwRawField string | GwSecretField string | GwPrivateMarker string
  | GwNotMapping | GwJsonInvalid | GwLoadsRaised

section \<open>Validators\<close>

definition require_non_empty :: "string \<Rightarrow> pyv \<Rightarrow> (gw_error, string) result" where
  "require_non_empty name v =
     (case v of VStr s \<Rightarrow> if py_strip s = [] then Inl (GwEmpty name) else Inr (py_strip s)
      | _ \<Rightarrow> Inl (GwEmpty name))"

definition custody_optional_str :: "string \<Rightarrow> pyv \<Rightarrow> (gw_error, string option) result" where
  "custody_optional_str name v =
     (case v of VNone \<Rightarrow> Inr None
      | VStr s \<Rightarrow> if py_strip s = [] then Inl (GwEmptyWhenProvided name) else Inr (Some (py_strip s))
      | _ \<Rightarrow> Inl (GwEmptyWhenProvided name))"

text \<open>A member of the enumeration is the text of its value.\<close>

definition coerce_enum ::
  "string \<Rightarrow> 'a list \<Rightarrow> ('a \<Rightarrow> token) \<Rightarrow> pyv \<Rightarrow> (gw_error, 'a) result" where
  "coerce_enum name members val v =
     (case v of VStr s \<Rightarrow> (case List.find (\<lambda>m. val m = s) members of
                             Some m \<Rightarrow> Inr m | None \<Rightarrow> Inl (GwNotOneOf name))
      | _ \<Rightarrow> Inl (GwNotEnum name))"

definition require_true :: "string \<Rightarrow> pyv \<Rightarrow> (gw_error, bool) result" where
  "require_true name v = (if v = VBool True then Inr True else Inl (GwMustBeTrue name))"

definition require_false :: "string \<Rightarrow> pyv \<Rightarrow> (gw_error, bool) result" where
  "require_false name v = (if v = VBool False then Inr False else Inl (GwMustBeFalse name))"

definition normalize_ref_list :: "string \<Rightarrow> pyv \<Rightarrow> (gw_error, string list) result" where
  "normalize_ref_list name v =
     (case v of VNone \<Rightarrow> Inr []
      | VList xs \<Rightarrow> rmap (require_non_empty (name @ ''[]'')) xs
      | VTuple xs \<Rightarrow> rmap (require_non_empty (name @ ''[]'')) xs
      | _ \<Rightarrow> Inl (GwNotRefList name))"

section \<open>Screens\<close>

text \<open>A set of hashable values holds no mapping, so only lists and tuples are descended into.\<close>

fun iter_strings :: "pyv \<Rightarrow> string list"
  and iter_strings_map :: "pydict \<Rightarrow> string list"
  and iter_strings_list :: "pyv list \<Rightarrow> string list" where
  "iter_strings (VStr s) = [s]"
| "iter_strings (VMap kvs) = iter_strings_map kvs"
| "iter_strings (VList xs) = iter_strings_list xs"
| "iter_strings (VTuple xs) = iter_strings_list xs"
| "iter_strings VNone = []"
| "iter_strings (VBool _) = []"
| "iter_strings (VInt _) = []"
| "iter_strings (VFloat _) = []"
| "iter_strings (VBytes _) = []"
| "iter_strings (VObj _) = []"
| "iter_strings_map [] = []"
| "iter_strings_map ((k, v) # kvs) = k # iter_strings v @ iter_strings_map kvs"
| "iter_strings_list [] = []"
| "iter_strings_list (x # xs) = iter_strings x @ iter_strings_list xs"

definition assert_public_safe :: "pyv \<Rightarrow> (gw_error, unit) result" where
  "assert_public_safe payload =
     each (\<lambda>text. each (\<lambda>marker. require (\<not> contains marker text) (GwPrivateMarker marker))
                       PRIVATE_REFERENCE_MARKERS)
       (iter_strings payload)"

definition payload_field_check :: "string \<Rightarrow> (gw_error, unit) result" where
  "payload_field_check key =
     (let key_lower = py_lower (py_strip key) in
      if key_lower \<in> set RAW_PAYLOAD_FIELD_NAMES then Inl (GwRawField key)
      else if key_lower \<in> set CREDENTIAL_SECRET_FIELD_NAMES then Inl (GwSecretField key)
      else Inr ())"

fun assert_no_raw_payload_fields :: "pyv \<Rightarrow> (gw_error, unit) result"
  and no_raw_fields_map :: "pydict \<Rightarrow> (gw_error, unit) result"
  and no_raw_fields_list :: "pyv list \<Rightarrow> (gw_error, unit) result" where
  "assert_no_raw_payload_fields (VMap kvs) = no_raw_fields_map kvs"
| "assert_no_raw_payload_fields (VList xs) = no_raw_fields_list xs"
| "assert_no_raw_payload_fields (VTuple xs) = no_raw_fields_list xs"
| "assert_no_raw_payload_fields VNone = Inr ()"
| "assert_no_raw_payload_fields (VBool _) = Inr ()"
| "assert_no_raw_payload_fields (VInt _) = Inr ()"
| "assert_no_raw_payload_fields (VFloat _) = Inr ()"
| "assert_no_raw_payload_fields (VStr _) = Inr ()"
| "assert_no_raw_payload_fields (VBytes _) = Inr ()"
| "assert_no_raw_payload_fields (VObj _) = Inr ()"
| "no_raw_fields_map [] = Inr ()"
| "no_raw_fields_map ((k, v) # kvs) =
     rbind (payload_field_check k) (\<lambda>_. rbind (assert_no_raw_payload_fields v) (\<lambda>_. no_raw_fields_map kvs))"
| "no_raw_fields_list [] = Inr ()"
| "no_raw_fields_list (x # xs) =
     rbind (assert_no_raw_payload_fields x) (\<lambda>_. no_raw_fields_list xs)"

section \<open>Extensions\<close>

text \<open>\<^verbatim>\<open>json.loads(json.dumps(value, ensure_ascii=False, sort_keys=True))\<close>: a tuple becomes a list, the keys
  are sorted at every level, bytes and foreign objects are refused, and so is an integer of more than 4300
  digits, the limit of the conversion to text. Not-a-number and the infinities pass.\<close>

definition json_int_limit :: int where "json_int_limit = 10 ^ 4300"

fun json_stable :: "pyv \<Rightarrow> (gw_error, pyv) result"
  and json_stable_map :: "pydict \<Rightarrow> (gw_error, pydict) result"
  and json_stable_list :: "pyv list \<Rightarrow> (gw_error, pyv list) result" where
  "json_stable (VMap kvs) = rbind (json_stable_map kvs) (\<lambda>ys. Inr (VMap (sort_key fst ys)))"
| "json_stable (VList xs) = rbind (json_stable_list xs) (\<lambda>ys. Inr (VList ys))"
| "json_stable (VTuple xs) = rbind (json_stable_list xs) (\<lambda>ys. Inr (VList ys))"
| "json_stable VNone = Inr VNone"
| "json_stable (VBool b) = Inr (VBool b)"
| "json_stable (VInt i) = (if \<bar>i\<bar> < json_int_limit then Inr (VInt i) else Inl GwNotJsonStable)"
| "json_stable (VFloat f) = Inr (VFloat f)"
| "json_stable (VStr s) = Inr (VStr s)"
| "json_stable (VBytes _) = Inl GwNotJsonStable"
| "json_stable (VObj _) = Inl GwNotJsonStable"
| "json_stable_map [] = Inr []"
| "json_stable_map ((k, v) # kvs) =
     rbind (json_stable v) (\<lambda>y. rbind (json_stable_map kvs) (\<lambda>ys. Inr ((k, y) # ys)))"
| "json_stable_list [] = Inr []"
| "json_stable_list (x # xs) =
     rbind (json_stable x) (\<lambda>y. rbind (json_stable_list xs) (\<lambda>ys. Inr (y # ys)))"

definition normalize_extensions :: "pyv \<Rightarrow> (gw_error, pydict) result" where
  "normalize_extensions v =
     (case v of VNone \<Rightarrow> Inr []
      | VMap kvs \<Rightarrow>
          rbind (assert_no_raw_payload_fields (VMap kvs)) (\<lambda>_.
          rbind (json_stable_map kvs) (\<lambda>ys. Inr (sort_key fst ys)))
      | _ \<Rightarrow> Inl GwExtensionsNotMapping)"

section \<open>The object\<close>

text \<open>Its slots, the optional references, the reference lists and the flags in records of their own.\<close>

record custody_refs =
  cr_actor_ref :: "string option"
  cr_target_ref :: "string option"
  cr_session_ref :: "string option"
  cr_boundary_ref :: "string option"
  cr_trace_context_ref :: "string option"
  cr_bridge_ref :: "string option"
  cr_user_context_ref :: "string option"
  cr_delegated_credential_ref :: "string option"
  cr_policy_outcome_ref :: "string option"
  cr_request_hash :: "string option"
  cr_response_hash :: "string option"
  cr_output_ref :: "string option"

record custody_lists =
  cl_span_refs :: "string list"
  cl_event_refs :: "string list"
  cl_receipt_refs :: "string list"
  cl_linkage_refs :: "string list"
  cl_blocker_codes :: "string list"
  cl_refusal_codes :: "string list"

record custody_flags =
  cf_raw_payload_excluded :: bool
  cf_private_path_redacted :: bool
  cf_tool_arguments_excluded :: bool
  cf_credential_secret_excluded :: bool
  cf_record_admission_claimed :: bool
  cf_mcp_protocol_modified :: bool
  cf_mcp_authority_granted :: bool
  cf_model_output_verified :: bool

record custody_gateway =
  cg_schema_version :: string
  cg_gateway_event_id :: string
  cg_record_candidate_ref :: string
  cg_generated_by :: string
  cg_observed_at :: string
  cg_refs :: custody_refs
  cg_boundary_type :: gateway_boundary
  cg_receipt_family :: gateway_family
  cg_protocol_binding :: gateway_protocol
  cg_custody_status :: custody_status
  cg_flags :: custody_flags
  cg_lists :: custody_lists
  cg_extensions :: pydict

definition CUSTODY_REQUIRED_FIELDS :: "string list" where
  "CUSTODY_REQUIRED_FIELDS = [''gateway_event_id'', ''record_candidate_ref'', ''generated_by'',
     ''boundary_type'', ''receipt_family'']"

definition CUSTODY_DEFAULTED_FIELDS :: "string list" where
  "CUSTODY_DEFAULTED_FIELDS = [''protocol_binding'', ''custody_status'', ''actor_ref'', ''target_ref'',
     ''session_ref'', ''boundary_ref'', ''trace_context_ref'', ''bridge_ref'', ''user_context_ref'',
     ''delegated_credential_ref'', ''policy_outcome_ref'', ''request_hash'', ''response_hash'',
     ''output_ref'', ''span_refs'', ''event_refs'', ''receipt_refs'', ''linkage_refs'', ''blocker_codes'',
     ''refusal_codes'', ''extensions'', ''schema_version'', ''raw_payload_excluded'',
     ''private_path_redacted'', ''tool_arguments_excluded'', ''credential_secret_excluded'',
     ''record_admission_claimed'', ''mcp_protocol_modified'', ''mcp_authority_granted'',
     ''model_output_verified'', ''observed_at'']"

section \<open>Projection\<close>

definition vtexts :: "string list \<Rightarrow> pyv" where
  "vtexts xs = VList (map VStr xs)"

definition refs_dict :: "custody_refs \<Rightarrow> pydict" where
  "refs_dict r =
     [(''actor_ref'', vopt (cr_actor_ref r)), (''target_ref'', vopt (cr_target_ref r)),
      (''session_ref'', vopt (cr_session_ref r)), (''boundary_ref'', vopt (cr_boundary_ref r)),
      (''trace_context_ref'', vopt (cr_trace_context_ref r)), (''bridge_ref'', vopt (cr_bridge_ref r)),
      (''user_context_ref'', vopt (cr_user_context_ref r)),
      (''delegated_credential_ref'', vopt (cr_delegated_credential_ref r)),
      (''policy_outcome_ref'', vopt (cr_policy_outcome_ref r)),
      (''request_hash'', vopt (cr_request_hash r)), (''response_hash'', vopt (cr_response_hash r)),
      (''output_ref'', vopt (cr_output_ref r))]"

definition lists_dict :: "custody_lists \<Rightarrow> pydict" where
  "lists_dict l =
     [(''span_refs'', vtexts (cl_span_refs l)), (''event_refs'', vtexts (cl_event_refs l)),
      (''receipt_refs'', vtexts (cl_receipt_refs l)), (''linkage_refs'', vtexts (cl_linkage_refs l)),
      (''blocker_codes'', vtexts (cl_blocker_codes l)), (''refusal_codes'', vtexts (cl_refusal_codes l))]"

definition flags_dict :: "custody_flags \<Rightarrow> pydict" where
  "flags_dict f =
     [(''raw_payload_excluded'', VBool (cf_raw_payload_excluded f)),
      (''private_path_redacted'', VBool (cf_private_path_redacted f)),
      (''tool_arguments_excluded'', VBool (cf_tool_arguments_excluded f)),
      (''credential_secret_excluded'', VBool (cf_credential_secret_excluded f)),
      (''record_admission_claimed'', VBool (cf_record_admission_claimed f)),
      (''mcp_protocol_modified'', VBool (cf_mcp_protocol_modified f)),
      (''mcp_authority_granted'', VBool (cf_mcp_authority_granted f)),
      (''model_output_verified'', VBool (cf_model_output_verified f))]"

text \<open>\<^verbatim>\<open>to_dict(include_hash=False)\<close>, the hash over a body, and \<^verbatim>\<open>to_dict()\<close>.\<close>

definition custody_body :: "custody_gateway \<Rightarrow> pydict" where
  "custody_body g =
     [(''schema_version'', VStr (cg_schema_version g)),
      (''gateway_kind'', VStr MCP_RECORD_CUSTODY_GATEWAY_KIND),
      (''gateway_event_id'', VStr (cg_gateway_event_id g)),
      (''record_candidate_ref'', VStr (cg_record_candidate_ref g)),
      (''generated_by'', VStr (cg_generated_by g)),
      (''boundary_type'', VStr (boundary_value (cg_boundary_type g))),
      (''receipt_family'', VStr (family_value (cg_receipt_family g))),
      (''protocol_binding'', VStr (protocol_value (cg_protocol_binding g))),
      (''custody_status'', VStr (status_value (cg_custody_status g)))]
     @ refs_dict (cg_refs g) @ lists_dict (cg_lists g)
     @ [(''extensions'', VMap (cg_extensions g))] @ flags_dict (cg_flags g)
     @ [(''observed_at'', VStr (cg_observed_at g)),
        (''gateway_vocabulary'', vtexts MCP_RECORD_CUSTODY_GATEWAY_VOCABULARY),
        (''gateway_hash'', VStr [])]"

definition mcp_record_custody_gateway_hash :: "(pydict \<Rightarrow> string) \<Rightarrow> pydict \<Rightarrow> string" where
  "mcp_record_custody_gateway_hash digest payload = digest (dset ''gateway_hash'' (VStr []) payload)"

definition custody_to_dict :: "(pydict \<Rightarrow> string) \<Rightarrow> custody_gateway \<Rightarrow> pydict" where
  "custody_to_dict digest g =
     dset ''gateway_hash'' (VStr (mcp_record_custody_gateway_hash digest (custody_body g))) (custody_body g)"

section \<open>Construction\<close>

definition kwarg :: "pydict \<Rightarrow> string \<Rightarrow> pyv \<Rightarrow> pyv" where
  "kwarg kw name dflt = (case dget kw name of None \<Rightarrow> dflt | Some v \<Rightarrow> v)"

definition check_keywords :: "pydict \<Rightarrow> (gw_error, unit) result" where
  "check_keywords kw =
     rbind (each (\<lambda>k. require (k \<in> set CUSTODY_REQUIRED_FIELDS \<union> set CUSTODY_DEFAULTED_FIELDS) (GwKeyword k))
              (dkeys kw)) (\<lambda>_.
     each (\<lambda>f. require (f \<in> set (dkeys kw)) (GwKeyword f)) CUSTODY_REQUIRED_FIELDS)"

definition opt_arg :: "pydict \<Rightarrow> string \<Rightarrow> (gw_error, string option) result" where
  "opt_arg kw name = custody_optional_str name (kwarg kw name VNone)"

definition post_init_refs :: "pydict \<Rightarrow> (gw_error, custody_refs) result" where
  "post_init_refs kw =
     rbind (opt_arg kw ''actor_ref'') (\<lambda>actor.
     rbind (opt_arg kw ''target_ref'') (\<lambda>target.
     rbind (opt_arg kw ''session_ref'') (\<lambda>sess.
     rbind (opt_arg kw ''boundary_ref'') (\<lambda>boundary.
     rbind (opt_arg kw ''trace_context_ref'') (\<lambda>trace.
     rbind (opt_arg kw ''bridge_ref'') (\<lambda>bridge.
     rbind (opt_arg kw ''user_context_ref'') (\<lambda>user.
     rbind (opt_arg kw ''delegated_credential_ref'') (\<lambda>credential.
     rbind (opt_arg kw ''policy_outcome_ref'') (\<lambda>policy.
     rbind (opt_arg kw ''request_hash'') (\<lambda>request.
     rbind (opt_arg kw ''response_hash'') (\<lambda>response.
     rbind (opt_arg kw ''output_ref'') (\<lambda>output.
       Inr \<lparr>cr_actor_ref = actor, cr_target_ref = target, cr_session_ref = sess,
            cr_boundary_ref = boundary, cr_trace_context_ref = trace, cr_bridge_ref = bridge,
            cr_user_context_ref = user, cr_delegated_credential_ref = credential,
            cr_policy_outcome_ref = policy, cr_request_hash = request, cr_response_hash = response,
            cr_output_ref = output\<rparr>))))))))))))"

definition true_arg :: "pydict \<Rightarrow> string \<Rightarrow> (gw_error, bool) result" where
  "true_arg kw name = require_true name (kwarg kw name (VBool True))"

definition false_arg :: "pydict \<Rightarrow> string \<Rightarrow> (gw_error, bool) result" where
  "false_arg kw name = require_false name (kwarg kw name (VBool False))"

definition post_init_flags :: "pydict \<Rightarrow> (gw_error, custody_flags) result" where
  "post_init_flags kw =
     rbind (true_arg kw ''raw_payload_excluded'') (\<lambda>raw.
     rbind (true_arg kw ''private_path_redacted'') (\<lambda>path.
     rbind (true_arg kw ''tool_arguments_excluded'') (\<lambda>args.
     rbind (true_arg kw ''credential_secret_excluded'') (\<lambda>secret.
     rbind (false_arg kw ''record_admission_claimed'') (\<lambda>claimed.
     rbind (false_arg kw ''mcp_protocol_modified'') (\<lambda>modified.
     rbind (false_arg kw ''mcp_authority_granted'') (\<lambda>granted.
     rbind (false_arg kw ''model_output_verified'') (\<lambda>verified.
       Inr \<lparr>cf_raw_payload_excluded = raw, cf_private_path_redacted = path,
            cf_tool_arguments_excluded = args, cf_credential_secret_excluded = secret,
            cf_record_admission_claimed = claimed, cf_mcp_protocol_modified = modified,
            cf_mcp_authority_granted = granted, cf_model_output_verified = verified\<rparr>))))))))"

definition list_arg :: "pydict \<Rightarrow> string \<Rightarrow> (gw_error, string list) result" where
  "list_arg kw name = normalize_ref_list name (kwarg kw name (VList []))"

definition post_init_lists :: "pydict \<Rightarrow> (gw_error, custody_lists) result" where
  "post_init_lists kw =
     rbind (list_arg kw ''span_refs'') (\<lambda>spans.
     rbind (list_arg kw ''event_refs'') (\<lambda>events.
     rbind (list_arg kw ''receipt_refs'') (\<lambda>receipts.
     rbind (list_arg kw ''linkage_refs'') (\<lambda>linkage.
     rbind (list_arg kw ''blocker_codes'') (\<lambda>blockers.
     rbind (list_arg kw ''refusal_codes'') (\<lambda>refusals.
       Inr \<lparr>cl_span_refs = spans, cl_event_refs = events, cl_receipt_refs = receipts,
            cl_linkage_refs = linkage, cl_blocker_codes = blockers, cl_refusal_codes = refusals\<rparr>))))))"

text \<open>\<^verbatim>\<open>__post_init__\<close>, in its order; the last two screens see the projection without its hash.\<close>

definition custody_post_init :: "string \<Rightarrow> pydict \<Rightarrow> (gw_error, custody_gateway) result" where
  "custody_post_init now kw =
     rbind (require (kwarg kw ''schema_version'' (VStr MCP_RECORD_CUSTODY_GATEWAY_SCHEMA)
                       = VStr MCP_RECORD_CUSTODY_GATEWAY_SCHEMA) GwSchema) (\<lambda>_.
     rbind (require_non_empty ''gateway_event_id'' (kwarg kw ''gateway_event_id'' VNone)) (\<lambda>event.
     rbind (require_non_empty ''record_candidate_ref'' (kwarg kw ''record_candidate_ref'' VNone)) (\<lambda>candidate.
     rbind (require_non_empty ''generated_by'' (kwarg kw ''generated_by'' VNone)) (\<lambda>by_whom.
     rbind (require_non_empty ''observed_at'' (kwarg kw ''observed_at'' (VStr now))) (\<lambda>observed.
     rbind (post_init_refs kw) (\<lambda>refs.
     rbind (coerce_enum ''boundary_type'' boundary_members boundary_value
              (kwarg kw ''boundary_type'' VNone)) (\<lambda>boundary.
     rbind (coerce_enum ''receipt_family'' family_members family_value
              (kwarg kw ''receipt_family'' VNone)) (\<lambda>family.
     rbind (coerce_enum ''protocol_binding'' protocol_members protocol_value
              (kwarg kw ''protocol_binding'' (VStr ''mcp''))) (\<lambda>protocol.
     rbind (coerce_enum ''custody_status'' status_members status_value
              (kwarg kw ''custody_status'' (VStr ''custody_record_ready''))) (\<lambda>status.
     rbind (post_init_flags kw) (\<lambda>flags.
     rbind (post_init_lists kw) (\<lambda>lists.
     rbind (normalize_extensions (kwarg kw ''extensions'' (VMap []))) (\<lambda>ext.
       let g = \<lparr>cg_schema_version = MCP_RECORD_CUSTODY_GATEWAY_SCHEMA, cg_gateway_event_id = event,
                cg_record_candidate_ref = candidate, cg_generated_by = by_whom, cg_observed_at = observed,
                cg_refs = refs, cg_boundary_type = boundary, cg_receipt_family = family,
                cg_protocol_binding = protocol, cg_custody_status = status, cg_flags = flags,
                cg_lists = lists, cg_extensions = ext\<rparr> in
       rbind (assert_no_raw_payload_fields (VMap (custody_body g))) (\<lambda>_.
       rbind (assert_public_safe (VMap (custody_body g))) (\<lambda>_. Inr g)))))))))))))))"

definition construct_custody_gateway :: "string \<Rightarrow> pydict \<Rightarrow> (gw_error, custody_gateway) result" where
  "construct_custody_gateway now kw = rbind (check_keywords kw) (\<lambda>_. custody_post_init now kw)"

definition custody_from_dict :: "string \<Rightarrow> pyv \<Rightarrow> (gw_error, custody_gateway) result" where
  "custody_from_dict now data =
     (case data of
        VMap kvs \<Rightarrow> construct_custody_gateway now
          (AList.delete ''gateway_kind'' (AList.delete ''gateway_vocabulary'' (AList.delete ''gateway_hash'' kvs)))
      | _ \<Rightarrow> Inl GwNotMapping)"

definition custody_from_json ::
  "(string \<Rightarrow> line_value) \<Rightarrow> string \<Rightarrow> string \<Rightarrow> (gw_error, custody_gateway) result" where
  "custody_from_json loads now text =
     (case loads text of
        NotJson \<Rightarrow> Inl GwJsonInvalid
      | LoadsRaises \<Rightarrow> Inl GwLoadsRaised
      | JsonValue data \<Rightarrow> custody_from_dict now data)"

definition build_mcp_record_custody_gateway ::
  "(pydict \<Rightarrow> string) \<Rightarrow> string \<Rightarrow> pydict \<Rightarrow> (gw_error, pydict) result" where
  "build_mcp_record_custody_gateway digest now kw =
     rbind (construct_custody_gateway now kw) (\<lambda>g. Inr (custody_to_dict digest g))"

end
