(* ===== verification/CustodyFacts.thy ===== *)
theory CustodyFacts
  imports CustodyGateway
begin

text \<open>What a custody gateway object can be: the constructor yields exactly the objects that satisfy the
  class's documented invariant, and reading a projection back gives the object it was made from.\<close>

section \<open>JSON normal form\<close>

fun json_normal :: "pyv \<Rightarrow> bool" where
  "json_normal (VMap kvs) = (sorted (map fst kvs) \<and> list_all (\<lambda>kv. json_normal (snd kv)) kvs)"
| "json_normal (VList xs) = list_all json_normal xs"
| "json_normal (VInt i) = (\<bar>i\<bar> < json_int_limit)"
| "json_normal (VTuple _) = False"
| "json_normal (VBytes _) = False"
| "json_normal (VObj _) = False"
| "json_normal _ = True"

fun tuple_free :: "pyv \<Rightarrow> bool" where
  "tuple_free (VMap kvs) = list_all (\<lambda>kv. tuple_free (snd kv)) kvs"
| "tuple_free (VList xs) = list_all tuple_free xs"
| "tuple_free (VTuple _) = False"
| "tuple_free _ = True"

lemma json_normal_tuple_free: "json_normal v \<Longrightarrow> tuple_free v"
  by (induction v rule: json_normal.induct) (auto simp: list_all_iff)

lemma json_stable_map_iff:
  "(json_stable_map kvs = Inr ys) =
     list_all2 (\<lambda>kv jw. fst jw = fst kv \<and> json_stable (snd kv) = Inr (snd jw)) kvs ys"
  by (induction kvs arbitrary: ys) (auto simp: rbind_Inr_iff list_all2_Cons1)

lemma json_stable_list_iff:
  "(json_stable_list xs = Inr ys) = list_all2 (\<lambda>x y. json_stable x = Inr y) xs ys"
  by (induction xs arbitrary: ys) (auto simp: rbind_Inr_iff list_all2_Cons1)

lemma json_stable_normal_all:
  "\<And>w. json_stable v = Inr w \<Longrightarrow> json_normal w"
  "\<And>ys. json_stable_map kvs = Inr ys \<Longrightarrow> list_all (\<lambda>kv. json_normal (snd kv)) ys"
  "\<And>ys. json_stable_list xs = Inr ys \<Longrightarrow> list_all json_normal ys"
  by (induction v and kvs and xs rule: json_stable_json_stable_map_json_stable_list.induct)
     (force simp: rbind_Inr_iff list_all_iff split: if_splits)+

lemma json_normal_stable: "json_normal v \<Longrightarrow> json_stable v = Inr v"
proof (induction v rule: json_normal.induct)
  case (1 kvs)
  then have "json_stable_map kvs = Inr kvs"
    by (auto simp: json_stable_map_iff list_all_iff list.rel_refl_strong)
  with 1 show ?case by (simp add: sort_key_id_if_sorted)
next
  case (2 xs)
  then have "json_stable_list xs = Inr xs"
    by (auto simp: json_stable_list_iff list_all_iff list.rel_refl_strong)
  then show ?case by simp
qed simp_all

section \<open>What a value carries\<close>

text \<open>A text occurs in a value as itself, as an item at any depth or as a key at any depth.\<close>

definition says :: "string \<Rightarrow> pyv \<Rightarrow> bool" where
  "says s v = (v = VStr s \<or> (\<exists>k. occurs (k, VStr s) v) \<or> (\<exists>x. occurs (Some s, x) v))"

definition forbidden_field :: "string \<Rightarrow> bool" where
  "forbidden_field k =
     (py_lower (py_strip k) \<in> set RAW_PAYLOAD_FIELD_NAMES \<union> set CREDENTIAL_SECRET_FIELD_NAMES)"

definition private_text :: "string \<Rightarrow> bool" where
  "private_text s = (\<exists>m\<in>set PRIVATE_REFERENCE_MARKERS. sublist m s)"

definition public_safe :: "pyv \<Rightarrow> bool" where
  "public_safe v =
     ((\<forall>k x. \<not> (occurs (Some k, x) v \<and> forbidden_field k)) \<and> (\<forall>s. \<not> (says s v \<and> private_text s)))"

lemma occurs_map:
  "occurs e (VMap kvs) = (\<exists>kv\<in>set kvs. e = (Some (fst kv), snd kv) \<or> occurs e (snd kv))"
  by (simp add: occurs_Map_iff split_beta)

lemma says_map: "says s (VMap kvs) = (\<exists>kv\<in>set kvs. s = fst kv \<or> says s (snd kv))"
proof -
  have "says s (VMap kvs) = ((\<exists>k. \<exists>kv\<in>set kvs. k = Some (fst kv) \<and> VStr s = snd kv \<or> occurs (k, VStr s) (snd kv))
      \<or> (\<exists>x. \<exists>kv\<in>set kvs. s = fst kv \<and> x = snd kv \<or> occurs (Some s, x) (snd kv)))"
    unfolding says_def occurs_map by simp
  also have "\<dots> = (\<exists>kv\<in>set kvs. s = fst kv \<or> says s (snd kv))"
    unfolding says_def by (metis (no_types, opaque_lifting))
  finally show ?thesis .
qed

lemma payload_field_check_iff: "(payload_field_check k = Inr ()) = (\<not> forbidden_field k)"
  by (auto simp: payload_field_check_def forbidden_field_def Let_def)

lemma no_raw_fields_map_iff:
  "(no_raw_fields_map kvs = Inr ()) =
     (\<forall>kv\<in>set kvs. \<not> forbidden_field (fst kv) \<and> assert_no_raw_payload_fields (snd kv) = Inr ())"
  by (induction kvs) (auto simp: rbind_Inr_iff payload_field_check_iff)

lemma no_raw_fields_list_iff:
  "(no_raw_fields_list xs = Inr ()) = (\<forall>x\<in>set xs. assert_no_raw_payload_fields x = Inr ())"
  by (induction xs) (auto simp: rbind_Inr_iff)

lemma no_raw_iff_occurs:
  "tuple_free v \<Longrightarrow>
     (assert_no_raw_payload_fields v = Inr ()) = (\<forall>k x. \<not> (occurs (Some k, x) v \<and> forbidden_field k))"
proof (induction v rule: tuple_free.induct)
  case (1 kvs)
  have IH: "(assert_no_raw_payload_fields (snd kv) = Inr ())
      = (\<forall>k x. \<not> (occurs (Some k, x) (snd kv) \<and> forbidden_field k))" if "kv \<in> set kvs" for kv
    using 1 that by (simp add: list_all_iff)
  have "(assert_no_raw_payload_fields (VMap kvs) = Inr ()) = (\<forall>kv\<in>set kvs. \<not> forbidden_field (fst kv)
      \<and> (\<forall>k x. \<not> (occurs (Some k, x) (snd kv) \<and> forbidden_field k)))"
    using IH by (simp add: no_raw_fields_map_iff cong: ball_cong)
  then show ?case unfolding occurs_map by blast
next
  case (2 xs)
  then have IH: "(assert_no_raw_payload_fields w = Inr ()) = (\<forall>k x. \<not> (occurs (Some k, x) w \<and> forbidden_field k))"
    if "w \<in> set xs" for w using that by (fastforce simp: list_all_iff)
  show ?case
    by (simp add: no_raw_fields_list_iff occurs_List_iff) (use IH in blast)
qed simp_all

lemma set_iter_strings_map:
  "set (iter_strings_map kvs) = (\<Union>kv\<in>set kvs. insert (fst kv) (set (iter_strings (snd kv))))"
  by (induction kvs) (force simp: split_beta)+

lemma set_iter_strings_list: "set (iter_strings_list xs) = (\<Union>x\<in>set xs. set (iter_strings x))"
  by (induction xs) auto

lemma iter_strings_iff_says: "tuple_free v \<Longrightarrow> (s \<in> set (iter_strings v)) = says s v"
proof (induction v rule: tuple_free.induct)
  case (1 kvs)
  have IH: "(s \<in> set (iter_strings (snd kv))) = says s (snd kv)" if "kv \<in> set kvs" for kv
    using 1 that by (simp add: list_all_iff)
  have "(s \<in> set (iter_strings (VMap kvs))) = (\<exists>kv\<in>set kvs. s = fst kv \<or> says s (snd kv))"
    using IH by (auto simp: set_iter_strings_map)
  then show ?case by (simp only: says_map)
next
  case (2 xs)
  then have IH: "(s \<in> set (iter_strings w)) = says s w" if "w \<in> set xs" for w
    using that by (fastforce simp: list_all_iff)
  show ?case
    by (simp add: set_iter_strings_list says_def occurs_List_iff) (use IH in \<open>auto simp: says_def\<close>)
qed (auto simp: says_def)

lemma assert_public_safe_iff:
  "tuple_free v \<Longrightarrow> (assert_public_safe v = Inr ()) = (\<forall>s. \<not> (says s v \<and> private_text s))"
  by (auto simp: assert_public_safe_def each_Inr_iff require_Inr_iff iter_strings_iff_says
      contains_iff_sublist private_text_def)

section \<open>The invariant\<close>

definition trimmed :: "string \<Rightarrow> bool" where
  "trimmed s = (s \<noteq> [] \<and> py_strip s = s)"

definition opt_trimmed :: "string option \<Rightarrow> bool" where
  "opt_trimmed x = (case x of None \<Rightarrow> True | Some s \<Rightarrow> trimmed s)"

definition refs_wf :: "custody_refs \<Rightarrow> bool" where
  "refs_wf r = list_all opt_trimmed
     [cr_actor_ref r, cr_target_ref r, cr_session_ref r, cr_boundary_ref r, cr_trace_context_ref r,
      cr_bridge_ref r, cr_user_context_ref r, cr_delegated_credential_ref r, cr_policy_outcome_ref r,
      cr_request_hash r, cr_response_hash r, cr_output_ref r]"

definition lists_wf :: "custody_lists \<Rightarrow> bool" where
  "lists_wf l = list_all (list_all trimmed)
     [cl_span_refs l, cl_event_refs l, cl_receipt_refs l, cl_linkage_refs l, cl_blocker_codes l,
      cl_refusal_codes l]"

definition flags_wf :: "custody_flags \<Rightarrow> bool" where
  "flags_wf f =
     (cf_raw_payload_excluded f \<and> cf_private_path_redacted f \<and> cf_tool_arguments_excluded f
      \<and> cf_credential_secret_excluded f \<and> \<not> cf_record_admission_claimed f
      \<and> \<not> cf_mcp_protocol_modified f \<and> \<not> cf_mcp_authority_granted f \<and> \<not> cf_model_output_verified f)"

definition custody_wf :: "custody_gateway \<Rightarrow> bool" where
  "custody_wf g =
     (cg_schema_version g = MCP_RECORD_CUSTODY_GATEWAY_SCHEMA
      \<and> list_all trimmed [cg_gateway_event_id g, cg_record_candidate_ref g, cg_generated_by g, cg_observed_at g]
      \<and> refs_wf (cg_refs g) \<and> lists_wf (cg_lists g) \<and> flags_wf (cg_flags g)
      \<and> json_normal (VMap (cg_extensions g)) \<and> public_safe (VMap (custody_body g)))"

section \<open>Validators establish it and keep what satisfies it\<close>

lemma require_non_empty_Inr: "(require_non_empty n v = Inr s) = (\<exists>t. v = VStr t \<and> s = py_strip t \<and> s \<noteq> [])"
  by (auto simp: require_non_empty_def split: pyv.splits if_splits)

lemma require_non_empty_trimmed: "require_non_empty n v = Inr s \<Longrightarrow> trimmed s"
  by (auto simp: require_non_empty_Inr trimmed_def)

lemma require_non_empty_id: "trimmed s \<Longrightarrow> require_non_empty n (VStr s) = Inr s"
  by (simp add: require_non_empty_Inr trimmed_def)

lemma custody_optional_str_trimmed: "custody_optional_str n v = Inr x \<Longrightarrow> opt_trimmed x"
  by (auto simp: custody_optional_str_def opt_trimmed_def trimmed_def split: pyv.splits if_splits)

lemma custody_optional_str_id: "opt_trimmed x \<Longrightarrow> custody_optional_str n (vopt x) = Inr x"
  by (cases x) (auto simp: custody_optional_str_def opt_trimmed_def trimmed_def)

lemma normalize_ref_list_trimmed: "normalize_ref_list n v = Inr xs \<Longrightarrow> list_all trimmed xs"
  by (auto simp: normalize_ref_list_def rmap_Inr_iff list_all_iff list_all2_conv_all_nth in_set_conv_nth
      split: pyv.splits) (blast intro: require_non_empty_trimmed)+

lemma normalize_ref_list_id: "list_all trimmed xs \<Longrightarrow> normalize_ref_list n (vtexts xs) = Inr xs"
  by (induction xs) (auto simp: normalize_ref_list_def vtexts_def require_non_empty_id)

lemma coerce_enum_id:
  assumes "inj_on val (set members)" "m \<in> set members"
  shows "coerce_enum n members val (VStr (val m)) = Inr m"
proof -
  have "List.find (\<lambda>x. val x = val m) members \<noteq> None" using assms(2) by (auto simp: find_None_iff)
  then obtain x where x: "List.find (\<lambda>x. val x = val m) members = Some x" by auto
  then have "x \<in> set members" "val x = val m" by (auto simp: find_Some_iff)
  with assms have "x = m" by (auto dest: inj_onD)
  with x show ?thesis by (simp add: coerce_enum_def)
qed

lemma coerce_custody_enums [simp]:
  "coerce_enum n boundary_members boundary_value (VStr (boundary_value b)) = Inr b"
  "coerce_enum n family_members family_value (VStr (family_value f)) = Inr f"
  "coerce_enum n protocol_members protocol_value (VStr (protocol_value p)) = Inr p"
  "coerce_enum n status_members status_value (VStr (status_value s)) = Inr s"
  by (rule coerce_enum_id;
      auto simp: inj_on_def boundary_members_def family_members_def protocol_members_def status_members_def
           intro: gateway_boundary.exhaust[of b] gateway_family.exhaust[of f] gateway_protocol.exhaust[of p]
             custody_status.exhaust[of s])+

lemma normalize_extensions_normal: "normalize_extensions v = Inr ext \<Longrightarrow> json_normal (VMap ext)"
  by (fastforce simp: normalize_extensions_def rbind_Inr_iff list_all_iff split: pyv.splits
      dest: json_stable_normal_all(2))

lemma normalize_extensions_id:
  assumes "json_normal (VMap ext)" "assert_no_raw_payload_fields (VMap ext) = Inr ()"
  shows "normalize_extensions (VMap ext) = Inr ext"
proof -
  have "json_stable (VMap ext) = Inr (VMap ext)" by (rule json_normal_stable) (rule assms(1))
  then obtain ys where "json_stable_map ext = Inr ys" "sort_key fst ys = ext" by (auto simp: rbind_Inr_iff)
  with assms(2) show ?thesis by (simp add: normalize_extensions_def)
qed

lemma post_init_refs_wf: "post_init_refs kw = Inr r \<Longrightarrow> refs_wf r"
  by (auto simp: post_init_refs_def opt_arg_def rbind_Inr_iff refs_wf_def dest!: custody_optional_str_trimmed)

lemma post_init_lists_wf: "post_init_lists kw = Inr l \<Longrightarrow> lists_wf l"
  by (auto simp: post_init_lists_def list_arg_def rbind_Inr_iff lists_wf_def dest!: normalize_ref_list_trimmed)

lemma post_init_flags_wf: "post_init_flags kw = Inr f \<Longrightarrow> flags_wf f"
  by (auto simp: post_init_flags_def true_arg_def false_arg_def require_true_def require_false_def
      rbind_Inr_iff flags_wf_def split: if_splits)

text \<open>A dictionary that holds the entries of another.\<close>

definition holds :: "pydict \<Rightarrow> pydict \<Rightarrow> bool" where
  "holds kw d = (\<forall>kv\<in>set d. dget kw (fst kv) = Some (snd kv))"

lemma kwarg_held: "dget kw n = Some v \<Longrightarrow> kwarg kw n d = v"
  by (simp add: kwarg_def)

lemma post_init_refs_id: "holds kw (refs_dict r) \<Longrightarrow> refs_wf r \<Longrightarrow> post_init_refs kw = Inr r"
  by (simp add: post_init_refs_def opt_arg_def holds_def refs_dict_def kwarg_held refs_wf_def
      custody_optional_str_id)

lemma post_init_lists_id: "holds kw (lists_dict l) \<Longrightarrow> lists_wf l \<Longrightarrow> post_init_lists kw = Inr l"
  by (simp add: post_init_lists_def list_arg_def holds_def lists_dict_def kwarg_held lists_wf_def
      normalize_ref_list_id)

lemma post_init_flags_id: "holds kw (flags_dict f) \<Longrightarrow> flags_wf f \<Longrightarrow> post_init_flags kw = Inr f"
  by (simp add: post_init_flags_def true_arg_def false_arg_def require_true_def require_false_def
      holds_def flags_dict_def kwarg_held flags_wf_def)

section \<open>Construction\<close>

lemma tuple_free_dicts:
  "list_all (\<lambda>kv. tuple_free (snd kv)) (refs_dict r)"
  "list_all (\<lambda>kv. tuple_free (snd kv)) (lists_dict l)"
  "list_all (\<lambda>kv. tuple_free (snd kv)) (flags_dict f)"
proof -
  have o: "tuple_free (vopt x)" for x by (cases x) simp_all
  show "list_all (\<lambda>kv. tuple_free (snd kv)) (refs_dict r)" by (simp add: refs_dict_def o)
  show "list_all (\<lambda>kv. tuple_free (snd kv)) (lists_dict l)"
    by (simp add: lists_dict_def vtexts_def list_all_iff)
  show "list_all (\<lambda>kv. tuple_free (snd kv)) (flags_dict f)" by (simp add: flags_dict_def)
qed

lemma tuple_free_body:
  assumes "json_normal (VMap (cg_extensions g))"
  shows "tuple_free (VMap (custody_body g))"
  using json_normal_tuple_free[OF assms]
  by (simp add: custody_body_def tuple_free_dicts vtexts_def list_all_iff[of tuple_free])

lemma body_guards:
  assumes "json_normal (VMap (cg_extensions g))"
  shows "(assert_no_raw_payload_fields (VMap (custody_body g)) = Inr ()
          \<and> assert_public_safe (VMap (custody_body g)) = Inr ()) = public_safe (VMap (custody_body g))"
  using no_raw_iff_occurs[OF tuple_free_body[OF assms]] assert_public_safe_iff[OF tuple_free_body[OF assms]]
  by (simp only: public_safe_def)

lemma custody_post_init_wf:
  assumes "custody_post_init now kw = Inr g"
  shows "custody_wf g"
proof -
  obtain event candidate by_whom observed where
    texts: "require_non_empty ''gateway_event_id'' (kwarg kw ''gateway_event_id'' VNone) = Inr event"
      "require_non_empty ''record_candidate_ref'' (kwarg kw ''record_candidate_ref'' VNone) = Inr candidate"
      "require_non_empty ''generated_by'' (kwarg kw ''generated_by'' VNone) = Inr by_whom"
      "require_non_empty ''observed_at'' (kwarg kw ''observed_at'' (VStr now)) = Inr observed"
    and slots: "cg_gateway_event_id g = event" "cg_record_candidate_ref g = candidate"
      "cg_generated_by g = by_whom" "cg_observed_at g = observed"
      "cg_schema_version g = MCP_RECORD_CUSTODY_GATEWAY_SCHEMA"
    and groups: "post_init_refs kw = Inr (cg_refs g)" "post_init_flags kw = Inr (cg_flags g)"
      "post_init_lists kw = Inr (cg_lists g)"
      "normalize_extensions (kwarg kw ''extensions'' (VMap [])) = Inr (cg_extensions g)"
    and guards: "assert_no_raw_payload_fields (VMap (custody_body g)) = Inr ()"
      "assert_public_safe (VMap (custody_body g)) = Inr ()"
    using assms unfolding custody_post_init_def Let_def rbind_Inr_iff by auto
  have ext: "json_normal (VMap (cg_extensions g))" using groups(4) by (rule normalize_extensions_normal)
  with guards have "public_safe (VMap (custody_body g))" using body_guards by blast
  then show ?thesis
    unfolding custody_wf_def
    using texts[THEN require_non_empty_trimmed] slots post_init_refs_wf[OF groups(1)]
      post_init_flags_wf[OF groups(2)] post_init_lists_wf[OF groups(3)] ext by simp
qed

section \<open>Reading a projection back\<close>

text \<open>The projection without the three fields that reading drops.\<close>

definition custody_payload :: "custody_gateway \<Rightarrow> pydict" where
  "custody_payload g =
     [(''schema_version'', VStr (cg_schema_version g)),
      (''gateway_event_id'', VStr (cg_gateway_event_id g)),
      (''record_candidate_ref'', VStr (cg_record_candidate_ref g)),
      (''generated_by'', VStr (cg_generated_by g)),
      (''boundary_type'', VStr (boundary_value (cg_boundary_type g))),
      (''receipt_family'', VStr (family_value (cg_receipt_family g))),
      (''protocol_binding'', VStr (protocol_value (cg_protocol_binding g))),
      (''custody_status'', VStr (status_value (cg_custody_status g)))]
     @ refs_dict (cg_refs g) @ lists_dict (cg_lists g)
     @ [(''extensions'', VMap (cg_extensions g))] @ flags_dict (cg_flags g)
     @ [(''observed_at'', VStr (cg_observed_at g))]"

lemma delete_from_body:
  "AList.delete ''gateway_kind'' (AList.delete ''gateway_vocabulary''
     (AList.delete ''gateway_hash'' (custody_body g))) = custody_payload g"
  by (simp add: custody_body_def custody_payload_def refs_dict_def lists_dict_def flags_dict_def)

lemma from_dict_body:
  "custody_from_dict now (VMap (dset ''gateway_hash'' x (custody_body g)))
     = construct_custody_gateway now (custody_payload g)"
  by (simp add: custody_from_dict_def delete_update_same delete_from_body)

lemma keys_payload:
  "dkeys (custody_payload g) =
     [''schema_version'', ''gateway_event_id'', ''record_candidate_ref'', ''generated_by'', ''boundary_type'',
      ''receipt_family'', ''protocol_binding'', ''custody_status'', ''actor_ref'', ''target_ref'',
      ''session_ref'', ''boundary_ref'', ''trace_context_ref'', ''bridge_ref'', ''user_context_ref'',
      ''delegated_credential_ref'', ''policy_outcome_ref'', ''request_hash'', ''response_hash'',
      ''output_ref'', ''span_refs'', ''event_refs'', ''receipt_refs'', ''linkage_refs'', ''blocker_codes'',
      ''refusal_codes'', ''extensions'', ''raw_payload_excluded'',
      ''private_path_redacted'', ''tool_arguments_excluded'', ''credential_secret_excluded'',
      ''record_admission_claimed'', ''mcp_protocol_modified'', ''mcp_authority_granted'',
      ''model_output_verified'', ''observed_at'']"
  by (simp add: custody_payload_def refs_dict_def lists_dict_def flags_dict_def)

lemma payload_wf: "wf_dict (custody_payload g)"
  by (simp add: wf_dict_def keys_payload)

lemma payload_keywords: "check_keywords (custody_payload g) = Inr ()"
  by (simp add: check_keywords_def keys_payload CUSTODY_REQUIRED_FIELDS_def CUSTODY_DEFAULTED_FIELDS_def)

lemma payload_holds: "holds (custody_payload g) (custody_payload g)"
  using payload_wf by (auto simp: holds_def wf_dict_def dkeys_def)

lemma holds_append: "holds kw (d @ e) = (holds kw d \<and> holds kw e)"
  by (auto simp: holds_def)

lemma holds_Cons: "holds kw ((k, v) # d) = (dget kw k = Some v \<and> holds kw d)"
  by (auto simp: holds_def)

lemma held_entries:
  assumes "holds kw (custody_payload g)"
  shows "holds kw (refs_dict (cg_refs g))"
    "holds kw (lists_dict (cg_lists g))"
    "holds kw (flags_dict (cg_flags g))"
    and "dget kw ''schema_version'' = Some (VStr (cg_schema_version g))"
    "dget kw ''gateway_event_id'' = Some (VStr (cg_gateway_event_id g))"
    "dget kw ''record_candidate_ref'' = Some (VStr (cg_record_candidate_ref g))"
    "dget kw ''generated_by'' = Some (VStr (cg_generated_by g))"
    "dget kw ''boundary_type'' = Some (VStr (boundary_value (cg_boundary_type g)))"
    "dget kw ''receipt_family'' = Some (VStr (family_value (cg_receipt_family g)))"
    "dget kw ''protocol_binding'' = Some (VStr (protocol_value (cg_protocol_binding g)))"
    "dget kw ''custody_status'' = Some (VStr (status_value (cg_custody_status g)))"
    "dget kw ''extensions'' = Some (VMap (cg_extensions g))"
    "dget kw ''observed_at'' = Some (VStr (cg_observed_at g))"
  using assms unfolding custody_payload_def holds_append holds_Cons by blast+

lemma custody_post_init_id:
  assumes "custody_wf g"
  shows "custody_post_init now (custody_payload g) = Inr g"
proof -
  note wf = assms[unfolded custody_wf_def]
  note held = held_entries[OF payload_holds]
  have groups: "post_init_refs (custody_payload g) = Inr (cg_refs g)"
    "post_init_lists (custody_payload g) = Inr (cg_lists g)"
    "post_init_flags (custody_payload g) = Inr (cg_flags g)"
    using wf held(1-3) by (blast intro: post_init_refs_id post_init_lists_id post_init_flags_id)+
  have guards: "assert_no_raw_payload_fields (VMap (custody_body g)) = Inr ()"
    "assert_public_safe (VMap (custody_body g)) = Inr ()"
    using body_guards wf by blast+
  have "(''extensions'', VMap (cg_extensions g)) \<in> set (custody_body g)" by (simp add: custody_body_def)
  with guards(1) have "assert_no_raw_payload_fields (VMap (cg_extensions g)) = Inr ()"
    by (force simp: no_raw_fields_map_iff)
  then have ext: "normalize_extensions (VMap (cg_extensions g)) = Inr (cg_extensions g)"
    using wf by (blast intro: normalize_extensions_id)
  have g: "\<lparr>cg_schema_version = MCP_RECORD_CUSTODY_GATEWAY_SCHEMA, cg_gateway_event_id = cg_gateway_event_id g,
      cg_record_candidate_ref = cg_record_candidate_ref g, cg_generated_by = cg_generated_by g,
      cg_observed_at = cg_observed_at g, cg_refs = cg_refs g, cg_boundary_type = cg_boundary_type g,
      cg_receipt_family = cg_receipt_family g, cg_protocol_binding = cg_protocol_binding g,
      cg_custody_status = cg_custody_status g, cg_flags = cg_flags g, cg_lists = cg_lists g,
      cg_extensions = cg_extensions g\<rparr> = g"
    using wf by (cases g) simp
  show ?thesis
    unfolding custody_post_init_def
    using wf by (simp add: held(4-)[THEN kwarg_held] require_non_empty_id groups ext g guards Let_def del: assert_no_raw_payload_fields.simps)
qed

lemma construct_wf_id:
  "custody_wf g \<Longrightarrow> construct_custody_gateway now (custody_payload g) = Inr g"
  by (simp add: construct_custody_gateway_def payload_keywords custody_post_init_id)

lemma construct_wf: "construct_custody_gateway now kw = Inr g \<Longrightarrow> custody_wf g"
  by (auto simp: construct_custody_gateway_def rbind_Inr_iff dest: custody_post_init_wf)

text \<open>C15: The custody objects are exactly the ones the class documents. An object can be constructed from some
  keyword arguments if and only if its texts and references are trimmed and not empty, its exclusion flags
  are set and its claims are not, its extensions are sorted JSON values, and its projection carries no raw
  payload or credential field under any spelling of its name and no private marker in any key or text,
  at any depth.\<close>
theorem custody_objects_exact:
  "(\<exists>now kw. construct_custody_gateway now kw = Inr g) = custody_wf g"
  using construct_wf construct_wf_id by blast

text \<open>C17: Reading back the projection of a constructed custody object gives that object, whatever the clock, and
  whatever its hash field holds; and the hash of the projection, computed over it in place, is the one
  it carries.\<close>
theorem custody_roundtrip:
  "case construct_custody_gateway now kw of
     Inl _ \<Rightarrow> True
   | Inr g \<Rightarrow>
       custody_from_dict later (VMap (custody_to_dict digest g)) = Inr g
       \<and> custody_from_dict later (VMap (dset ''gateway_hash'' x (custody_to_dict digest g))) = Inr g
       \<and> dget (custody_to_dict digest g) ''gateway_hash''
           = Some (VStr (mcp_record_custody_gateway_hash digest (custody_to_dict digest g)))"
proof (cases "construct_custody_gateway now kw")
  case (Inr g)
  have wf: "custody_wf g" using Inr by (rule construct_wf)
  have twice: "dset ''gateway_hash'' y (custody_to_dict digest g) = dset ''gateway_hash'' y (custody_body g)" for y
    by (simp add: custody_to_dict_def update_last)
  show ?thesis
    using Inr construct_wf_id[OF wf]
    by (simp add: twice from_dict_body mcp_record_custody_gateway_hash_def)
      (simp add: custody_to_dict_def from_dict_body mcp_record_custody_gateway_hash_def)
qed simp

end
