(* ===== verification/ExternalProfile.thy ===== *)
theory ExternalProfile
  imports CoreReceipts FlightRecorder
begin

text \<open>Receipts under an external profile
  (\<^verbatim>\<open>packages/dagr-mcp-core/src/dagr_mcp_core/external_profile_receipts.py\<close>): the guard over a profile
  declaration, the contract that binds an emitter to the bytes of an envelope schema and of a profile, and
  the emitter that overrides the envelope of the core's. The hash functions and what \<^verbatim>\<open>json.loads\<close> makes of
  bytes are inputs; the patterns are written out.\<close>

section \<open>Vocabulary\<close>

definition ENVELOPE_SCHEMA_VERSION :: string where "ENVELOPE_SCHEMA_VERSION = ''srs-envelope-v0-next''"
definition ARCS_SRS_VNEXT_ENVELOPE_GIT_BLOB :: string where
  "ARCS_SRS_VNEXT_ENVELOPE_GIT_BLOB = ''39beaeaa65ab97e6e81d32057b52ac20c3f8a1ea''"
definition SUPPORTED_ENVELOPE_CONTRACT_ID :: string where
  "SUPPORTED_ENVELOPE_CONTRACT_ID = ''srs-envelope-v0-next''"
definition SUPPORTED_ENVELOPE_CONTRACT_VERSION :: string where
  "SUPPORTED_ENVELOPE_CONTRACT_VERSION = ''v0-next''"
definition SUPPORTED_ENVELOPE_SCHEMA_ID :: string where
  "SUPPORTED_ENVELOPE_SCHEMA_ID =
     ''https://arcs.example/schemas/srs/successor/envelope-v0-next.schema.json''"
definition EXTERNAL_PROFILE_DECLARATION_SCHEMA :: string where
  "EXTERNAL_PROFILE_DECLARATION_SCHEMA = ''srs.external-profile-declaration/v0.1''"
definition EXTERNAL_PROFILE_UNKNOWN_BEHAVIOR :: string where
  "EXTERNAL_PROFILE_UNKNOWN_BEHAVIOR = ''preserve_identity_and_do_not_infer''"

definition PROFILE_REQUIRED_KEYS :: "string list" where
  "PROFILE_REQUIRED_KEYS = [''schema'', ''profile_id'', ''profile_version'', ''publisher_ref'',
     ''compatible_envelopes'', ''permitted_receipt_types'', ''receipt_type_classifications'',
     ''extension_namespace'', ''raw_content_posture'', ''signing_required'',
     ''attestation_limits_required'', ''unknown_profile_behavior'', ''conformance_vectors_ref'']"
definition PROFILE_ALLOWED_KEYS :: "string list" where
  "PROFILE_ALLOWED_KEYS = PROFILE_REQUIRED_KEYS @ [''external_contract_refs'', ''migration_ref'']"
definition RECEIPT_CLASSES :: "string list" where
  "RECEIPT_CLASSES =
     [''governance_decision'', ''lifecycle_event'', ''outcome'', ''provenance'', ''verification_report'']"
definition RAW_CONTENT_POSTURES :: "string list" where
  "RAW_CONTENT_POSTURES = [''profile_defined'', ''metadata_only'', ''hash_only'']"
definition FROZEN_V0_2_1_RECEIPT_TYPES :: "string list" where
  "FROZEN_V0_2_1_RECEIPT_TYPES = [''sdk_enforcement'', ''grace_session'', ''connection'', ''provenance'']"

section \<open>Patterns\<close>

fun split_on :: "char \<Rightarrow> string \<Rightarrow> string list" where
  "split_on c [] = [[]]"
| "split_on c (x # s) =
     (if x = c then [] # split_on c s
      else (case split_on c s of [] \<Rightarrow> [[x]] | p # ps \<Rightarrow> (x # p) # ps))"

definition ep_digit :: "char \<Rightarrow> bool" where
  "ep_digit c = (let n = of_char c :: nat in 48 \<le> n \<and> n \<le> 57)"

definition ascii_alnum :: "char \<Rightarrow> bool" where
  "ascii_alnum c = (let n = of_char c :: nat in
     ep_digit c \<or> (65 \<le> n \<and> n \<le> 90) \<or> (97 \<le> n \<and> n \<le> 122))"

text \<open>One segment, \<^verbatim>\<open>[A-Za-z0-9][A-Za-z0-9_-]*\<close>, and the four patterns over dotted segments, all of them
  under \<^verbatim>\<open>fullmatch\<close>.\<close>

definition name_segment :: "string \<Rightarrow> bool" where
  "name_segment p = (case p of [] \<Rightarrow> False
     | c # cs \<Rightarrow> ascii_alnum c \<and> list_all (\<lambda>d. ascii_alnum d \<or> d = CHR ''_'' \<or> d = CHR ''-'') cs)"

definition digits_segment :: "string \<Rightarrow> bool" where
  "digits_segment p = (p \<noteq> [] \<and> list_all ep_digit p)"

definition version_segment :: "string \<Rightarrow> bool" where
  "version_segment p = (case p of [] \<Rightarrow> False | c # cs \<Rightarrow> c = CHR ''v'' \<and> digits_segment cs)"

definition external_profile_id :: "string \<Rightarrow> bool" where
  "external_profile_id s = (let ps = split_on CHR ''.'' s in
     3 \<le> length ps \<and> list_all name_segment ps \<and> version_segment (last ps))"

definition namespaced_id :: "string \<Rightarrow> bool" where
  "namespaced_id s = (let ps = split_on CHR ''.'' s in 2 \<le> length ps \<and> list_all name_segment ps)"

definition reserved_prefix :: "string \<Rightarrow> bool" where
  "reserved_prefix s = (starts_with s ''srs.'' \<or> starts_with s ''garp.'')"

definition external_receipt_type :: "string \<Rightarrow> bool" where
  "external_receipt_type s = (let ps = split_on CHR ''.'' s in
     \<not> reserved_prefix s \<and> 3 \<le> length ps \<and> list_all name_segment ps)"

definition external_profile_version :: "string \<Rightarrow> bool" where
  "external_profile_version s = (case split_on CHR ''.'' s of
     [] \<Rightarrow> False | p # ps \<Rightarrow> version_segment p \<and> list_all digits_segment ps)"

definition hex64 :: "string \<Rightarrow> bool" where
  "hex64 s = (length s = 64 \<and> list_all hex_char s)"

definition digest_ref :: "string \<Rightarrow> bool" where
  "digest_ref s = (take 7 s = ''sha256:'' \<and> hex64 (drop 7 s))"

section \<open>The declaration guard\<close>

datatype ext_profile_error =
    NotObjectBytes | MissingKeys | UnknownKeys | BadSchema | BadProfileId | ReservedProfile | BadVersion
  | EmptyRef string | BadNamespace | ReservedNamespace | BadPosture | SigningNotBoolean | SigningNotRequired
  | LimitsNotRequired | BadUnknownBehavior | BadMigrationRef | NotUniqueStrings string
  | NoCompatibility | MalformedCompatibility | EmptyCompatVersion | BadCompatDigest | DuplicateCompat
  | EnvelopeNotBound | BadPermittedType | NonFrozenType | NoClassifications | ClassificationNotObject
  | BadClassificationKeys | TypeNotPermitted | BadReceiptClass | BadReceiptKind | DuplicateClassification
  | ConflictingClassification | Unclassified | EnforcementKindMissing string | EnforcementUnqualified
  | EmptyEmitter | BadReceiptType string | EmptyBinding string | UnsupportedEnvelopeId
  | UnsupportedEnvelopeVersion | BadDigest string | BlobMismatch | SchemaIdMismatch | PropertiesMissing
  | SchemaVersionMismatch | ReceiptVersionMismatch | DigestMismatch string | FieldMismatch string
  | TypeNotInProfile string | KindNotCovered string | LoadsFault | UnhashableValue | NoGetAttribute

definition load_json_object :: "(string \<Rightarrow> line_value) \<Rightarrow> string \<Rightarrow> (ext_profile_error, pydict) result" where
  "load_json_object loads data =
     (if data = [] then Inl NotObjectBytes
      else case loads data of
          JsonValue (VMap d) \<Rightarrow> Inr d
        | LoadsRaises \<Rightarrow> Inl LoadsFault
        | _ \<Rightarrow> Inl NotObjectBytes)"

text \<open>The strings of a list, \<^verbatim>\<open>None\<close> when an item is no string.\<close>

fun str_items :: "pyv list \<Rightarrow> string list option" where
  "str_items [] = Some []"
| "str_items (VStr s # xs) = (case str_items xs of None \<Rightarrow> None | Some ss \<Rightarrow> Some (s # ss))"
| "str_items (_ # xs) = None"

definition require_unique_strings :: "string \<Rightarrow> pyv \<Rightarrow> (ext_profile_error, string list) result" where
  "require_unique_strings label v =
     (case v of VList xs \<Rightarrow>
        if xs = [] then Inl (NotUniqueStrings label)
        else (case str_items xs of
            None \<Rightarrow> Inl (NotUniqueStrings label)
          | Some ss \<Rightarrow> if [] \<in> set ss then Inl (NotUniqueStrings label)
                       else if \<not> distinct ss then Inl (NotUniqueStrings label) else Inr ss)
      | _ \<Rightarrow> Inl (NotUniqueStrings label))"

text \<open>Membership of a value in a set of strings: an unhashable value raises.\<close>

definition in_string_set :: "pyv \<Rightarrow> string list \<Rightarrow> ext_profile_error \<Rightarrow> (ext_profile_error, string) result" where
  "in_string_set v ss e =
     (case v of VStr s \<Rightarrow> if s \<in> set ss then Inr s else Inl e
      | VList _ \<Rightarrow> Inl UnhashableValue | VMap _ \<Rightarrow> Inl UnhashableValue | _ \<Rightarrow> Inl e)"

definition declared_text :: "(string \<Rightarrow> bool) \<Rightarrow> ext_profile_error \<Rightarrow> pyv \<Rightarrow> (ext_profile_error, string) result" where
  "declared_text ok e v = (case v of VStr s \<Rightarrow> if ok s then Inr s else Inl e | _ \<Rightarrow> Inl e)"

definition reserved_namespace :: "string \<Rightarrow> bool" where
  "reserved_namespace s = (reserved_prefix s \<or> s = ''srs'' \<or> s = ''garp'')"

text \<open>The scalar fields, in the order of the code.\<close>

definition check_declared_fields :: "pydict \<Rightarrow> (ext_profile_error, unit) result" where
  "check_declared_fields p =
    (let get = (\<lambda>k. read_field p k VNone) in
     rbind (require (set PROFILE_REQUIRED_KEYS \<subseteq> set (dkeys p)) MissingKeys) (\<lambda>_.
     rbind (require (set (dkeys p) \<subseteq> set PROFILE_ALLOWED_KEYS) UnknownKeys) (\<lambda>_.
     rbind (require (get ''schema'' = VStr EXTERNAL_PROFILE_DECLARATION_SCHEMA) BadSchema) (\<lambda>_.
     rbind (declared_text external_profile_id BadProfileId (get ''profile_id'')) (\<lambda>pid.
     rbind (require (\<not> reserved_prefix pid) ReservedProfile) (\<lambda>_.
     rbind (declared_text external_profile_version BadVersion (get ''profile_version'')) (\<lambda>_.
     rbind (declared_text (\<lambda>s. s \<noteq> []) (EmptyRef ''publisher_ref'') (get ''publisher_ref'')) (\<lambda>_.
     rbind (declared_text (\<lambda>s. s \<noteq> []) (EmptyRef ''conformance_vectors_ref'') (get ''conformance_vectors_ref'')) (\<lambda>_.
     rbind (declared_text namespaced_id BadNamespace (get ''extension_namespace'')) (\<lambda>ns.
     rbind (require (\<not> reserved_namespace ns) ReservedNamespace) (\<lambda>_.
     rbind (in_string_set (get ''raw_content_posture'') RAW_CONTENT_POSTURES BadPosture) (\<lambda>_.
     rbind (require (is_vbool (get ''signing_required'')) SigningNotBoolean) (\<lambda>_.
     rbind (require (get ''signing_required'' = VBool True) SigningNotRequired) (\<lambda>_.
     rbind (require (get ''attestation_limits_required'' = VBool True) LimitsNotRequired) (\<lambda>_.
     rbind (require (get ''unknown_profile_behavior'' = VStr EXTERNAL_PROFILE_UNKNOWN_BEHAVIOR) BadUnknownBehavior) (\<lambda>_.
     rbind (require (get ''migration_ref'' = VNone \<or> is_vstr (get ''migration_ref'')) BadMigrationRef) (\<lambda>_.
     if get ''external_contract_refs'' = VNone then Inr ()
     else rbind (require_unique_strings ''external_contract_refs'' (get ''external_contract_refs'')) (\<lambda>_. Inr ())
     )))))))))))))))))"

fun read_compatibility ::
  "(string \<times> string) list \<Rightarrow> pyv list \<Rightarrow> (ext_profile_error, (string \<times> string) list) result" where
  "read_compatibility seen [] = Inr seen"
| "read_compatibility seen (VMap d # items) =
     (if set (dkeys d) \<noteq> {''published_version'', ''sha256''} then Inl MalformedCompatibility
      else rbind (declared_text (\<lambda>s. s \<noteq> []) EmptyCompatVersion (read_field d ''published_version'' VNone)) (\<lambda>version.
           rbind (declared_text hex64 BadCompatDigest (read_field d ''sha256'' VNone)) (\<lambda>digest.
           if (version, digest) \<in> set seen then Inl DuplicateCompat
           else read_compatibility (seen @ [(version, digest)]) items)))"
| "read_compatibility seen (_ # items) = Inl MalformedCompatibility"

definition check_compatibility :: "string \<Rightarrow> pyv \<Rightarrow> (ext_profile_error, (string \<times> string) list) result" where
  "check_compatibility sha v =
     (case v of VList items \<Rightarrow>
        if items = [] then Inl NoCompatibility
        else rbind (read_compatibility [] items) (\<lambda>pairs.
             if (SUPPORTED_ENVELOPE_CONTRACT_VERSION, sha) \<notin> set pairs then Inl EnvelopeNotBound else Inr pairs)
      | _ \<Rightarrow> Inl NoCompatibility)"

definition check_permitted :: "(string \<times> string) list \<Rightarrow> pyv \<Rightarrow> (ext_profile_error, string list) result" where
  "check_permitted pairs v =
     rbind (require_unique_strings ''permitted_receipt_types'' v) (\<lambda>permitted.
     rbind (each (\<lambda>t. require (t \<in> set FROZEN_V0_2_1_RECEIPT_TYPES \<or> external_receipt_type t) BadPermittedType)
              permitted) (\<lambda>_.
     if (\<exists>p\<in>set pairs. fst p = ''0.2.1'') \<and> \<not> set permitted \<subseteq> set FROZEN_V0_2_1_RECEIPT_TYPES
     then Inl NonFrozenType else Inr permitted))"

text \<open>An entry is its type, its class and its kind, if it has one.\<close>

type_synonym class_entry = "string \<times> string \<times> string option"

definition read_classification :: "string list \<Rightarrow> pyv \<Rightarrow> (ext_profile_error, class_entry) result" where
  "read_classification permitted item =
     (case item of VMap d \<Rightarrow>
        if \<not> {''receipt_type'', ''receipt_class''} \<subseteq> set (dkeys d)
           \<or> \<not> set (dkeys d) \<subseteq> {''receipt_type'', ''receipt_class'', ''receipt_kind''}
        then Inl BadClassificationKeys
        else rbind (declared_text (\<lambda>t. t \<in> set permitted) TypeNotPermitted (read_field d ''receipt_type'' VNone)) (\<lambda>t.
             rbind (in_string_set (read_field d ''receipt_class'' VNone) RECEIPT_CLASSES BadReceiptClass) (\<lambda>c.
             if read_field d ''receipt_kind'' VNone = VNone then Inr (t, c, None)
             else rbind (declared_text (\<lambda>s. s \<noteq> []) BadReceiptKind (read_field d ''receipt_kind'' VNone)) (\<lambda>k.
               Inr (t, c, Some k))))
      | _ \<Rightarrow> Inl ClassificationNotObject)"

text \<open>The state of the loop: the exact entries seen and the class of every pair of type and kind.\<close>

fun read_classifications ::
  "string list \<Rightarrow> class_entry list \<Rightarrow> ((string \<times> string option) \<times> string) list \<Rightarrow> pyv list
    \<Rightarrow> (ext_profile_error, class_entry list \<times> ((string \<times> string option) \<times> string) list) result" where
  "read_classifications permitted seen classes [] = Inr (seen, classes)"
| "read_classifications permitted seen classes (item # items) =
     rbind (read_classification permitted item) (\<lambda>entry.
       case entry of (t, c, k) \<Rightarrow>
         if entry \<in> set seen then Inl DuplicateClassification
         else if map_of classes (t, k) \<noteq> None \<and> map_of classes (t, k) \<noteq> Some c
         then Inl ConflictingClassification
         else read_classifications permitted (seen @ [entry]) (AList.update (t, k) c classes) items)"

definition check_classifications ::
  "string list \<Rightarrow> pyv \<Rightarrow> (ext_profile_error, ((string \<times> string option) \<times> string) list) result" where
  "check_classifications permitted v =
     (case v of VList items \<Rightarrow>
        if items = [] then Inl NoClassifications
        else rbind (read_classifications permitted [] [] items) (\<lambda>(seen, classes).
          if \<not> set permitted \<subseteq> fst ` set seen then Inl Unclassified
          else if ''sdk_enforcement'' \<notin> set permitted then Inr classes
          else rbind (require (map_of classes (''sdk_enforcement'', Some ''admission'') \<noteq> None)
                       (EnforcementKindMissing ''admission'')) (\<lambda>_.
               rbind (require (map_of classes (''sdk_enforcement'', Some ''outcome'') \<noteq> None)
                       (EnforcementKindMissing ''outcome'')) (\<lambda>_.
               if map_of classes (''sdk_enforcement'', None) \<noteq> None then Inl EnforcementUnqualified
               else Inr classes)))
      | _ \<Rightarrow> Inl NoClassifications)"

definition validate_profile_declaration ::
  "pydict \<Rightarrow> string \<Rightarrow> (ext_profile_error, string list \<times> ((string \<times> string option) \<times> string) list) result" where
  "validate_profile_declaration p sha =
     rbind (check_declared_fields p) (\<lambda>_.
     rbind (check_compatibility sha (read_field p ''compatible_envelopes'' VNone)) (\<lambda>pairs.
     rbind (check_permitted pairs (read_field p ''permitted_receipt_types'' VNone)) (\<lambda>permitted.
     rbind (check_classifications permitted (read_field p ''receipt_type_classifications'' VNone)) (\<lambda>classes.
       Inr (permitted, classes)))))"

section \<open>The contract\<close>

record external_contract =
  xc_profile_id :: string
  xc_profile_version :: string
  xc_emitter_id :: string
  xc_extension_namespace :: string
  xc_admission_receipt_type :: string
  xc_outcome_receipt_type :: string
  xc_envelope_contract_id :: string
  xc_envelope_contract_version :: string
  xc_envelope_contract_digest :: string
  xc_profile_contract_digest :: string
  xc_envelope_contract_bytes :: string
  xc_profile_contract_bytes :: string
  xc_boundary_type :: string
  xc_protocol_binding :: string

record byte_hashes =
  bh_sha256 :: "string \<Rightarrow> string"
  bh_sha1 :: "string \<Rightarrow> string"

definition sha256_ref_of :: "byte_hashes \<Rightarrow> string \<Rightarrow> string" where
  "sha256_ref_of h data = ''sha256:'' @ bh_sha256 h data"

definition git_blob_sha :: "byte_hashes \<Rightarrow> string \<Rightarrow> string" where
  "git_blob_sha h data = bh_sha1 h (''blob '' @ nat_str (length data) @ [CHR 0x00] @ data)"

definition property_const :: "pydict \<Rightarrow> string \<Rightarrow> (ext_profile_error, pyv) result" where
  "property_const props k =
     (case read_field props k (VMap []) of VMap d \<Rightarrow> Inr (read_field d ''const'' VNone)
      | _ \<Rightarrow> Inl NoGetAttribute)"

definition check_contract_fields :: "external_contract \<Rightarrow> (ext_profile_error, unit) result" where
  "check_contract_fields c =
     checks [
       require (external_profile_id (xc_profile_id c)) BadProfileId,
       require (\<not> reserved_prefix (xc_profile_id c)) ReservedProfile,
       require (external_profile_version (xc_profile_version c)) BadVersion,
       require (xc_emitter_id c \<noteq> []) EmptyEmitter,
       require (namespaced_id (xc_extension_namespace c)) BadNamespace,
       require (\<not> reserved_namespace (xc_extension_namespace c)) ReservedNamespace,
       require (external_receipt_type (xc_admission_receipt_type c)) (BadReceiptType ''admission_receipt_type''),
       require (external_receipt_type (xc_outcome_receipt_type c)) (BadReceiptType ''outcome_receipt_type''),
       require (xc_boundary_type c \<noteq> []) (EmptyBinding ''boundary_type''),
       require (xc_protocol_binding c \<noteq> []) (EmptyBinding ''protocol_binding''),
       require (xc_envelope_contract_id c = SUPPORTED_ENVELOPE_CONTRACT_ID) UnsupportedEnvelopeId,
       require (xc_envelope_contract_version c = SUPPORTED_ENVELOPE_CONTRACT_VERSION) UnsupportedEnvelopeVersion,
       require (digest_ref (xc_envelope_contract_digest c)) (BadDigest ''envelope_contract_digest''),
       require (digest_ref (xc_profile_contract_digest c)) (BadDigest ''profile_contract_digest'')]"

definition check_envelope_bytes ::
  "byte_hashes \<Rightarrow> (string \<Rightarrow> line_value) \<Rightarrow> external_contract \<Rightarrow> (ext_profile_error, unit) result" where
  "check_envelope_bytes h loads c =
     rbind (load_json_object loads (xc_envelope_contract_bytes c)) (\<lambda>env.
     rbind (require (git_blob_sha h (xc_envelope_contract_bytes c) = ARCS_SRS_VNEXT_ENVELOPE_GIT_BLOB) BlobMismatch) (\<lambda>_.
     rbind (require (read_field env ''$id'' VNone = VStr SUPPORTED_ENVELOPE_SCHEMA_ID) SchemaIdMismatch) (\<lambda>_.
     case read_field env ''properties'' VNone of
       VMap props \<Rightarrow>
         rbind (property_const props ''envelope_schema_version'') (\<lambda>v.
         rbind (require (v = VStr ENVELOPE_SCHEMA_VERSION) SchemaVersionMismatch) (\<lambda>_.
         rbind (property_const props ''receipt_version'') (\<lambda>r.
         rbind (require (r = VStr ''srs.core.v5.1'') ReceiptVersionMismatch) (\<lambda>_.
         require (xc_envelope_contract_digest c = sha256_ref_of h (xc_envelope_contract_bytes c))
           (DigestMismatch ''envelope_contract_digest'')))))
     | _ \<Rightarrow> Inl PropertiesMissing)))"

definition kind_covered ::
  "((string \<times> string option) \<times> string) list \<Rightarrow> string \<Rightarrow> string \<Rightarrow> bool" where
  "kind_covered classes t k = (map_of classes (t, Some k) \<noteq> None \<or> map_of classes (t, None) \<noteq> None)"

definition check_profile_bytes ::
  "byte_hashes \<Rightarrow> (string \<Rightarrow> line_value) \<Rightarrow> external_contract \<Rightarrow> (ext_profile_error, unit) result" where
  "check_profile_bytes h loads c =
     rbind (load_json_object loads (xc_profile_contract_bytes c)) (\<lambda>p.
     rbind (validate_profile_declaration p (drop 7 (sha256_ref_of h (xc_envelope_contract_bytes c)))) (\<lambda>(permitted, classes).
     checks [
       require (read_field p ''profile_id'' VNone = VStr (xc_profile_id c)) (FieldMismatch ''profile_id''),
       require (read_field p ''profile_version'' VNone = VStr (xc_profile_version c)) (FieldMismatch ''profile_version''),
       require (read_field p ''extension_namespace'' VNone = VStr (xc_extension_namespace c))
         (FieldMismatch ''extension_namespace''),
       require (xc_admission_receipt_type c \<in> set permitted) (TypeNotInProfile (xc_admission_receipt_type c)),
       require (xc_outcome_receipt_type c \<in> set permitted) (TypeNotInProfile (xc_outcome_receipt_type c)),
       require (kind_covered classes (xc_admission_receipt_type c) ''admission'') (KindNotCovered ''admission''),
       require (kind_covered classes (xc_outcome_receipt_type c) ''outcome'') (KindNotCovered ''outcome''),
       require (xc_profile_contract_digest c = sha256_ref_of h (xc_profile_contract_bytes c))
         (DigestMismatch ''profile_contract_digest'')]))"

definition external_contract_post_init ::
  "byte_hashes \<Rightarrow> (string \<Rightarrow> line_value) \<Rightarrow> external_contract \<Rightarrow> (ext_profile_error, unit) result" where
  "external_contract_post_init h loads c =
     rbind (check_contract_fields c) (\<lambda>_.
     rbind (check_envelope_bytes h loads c) (\<lambda>_. check_profile_bytes h loads c))"

section \<open>The emitter\<close>

datatype external_error = ExtReceipt receipt_error | UnsupportedReceiptKind string

definition receipt_type_for :: "external_contract \<Rightarrow> string \<Rightarrow> (external_error, string) result" where
  "receipt_type_for c kind =
     (if kind = ''admission'' then Inr (xc_admission_receipt_type c)
      else if kind = ''outcome'' then Inr (xc_outcome_receipt_type c)
      else Inl (UnsupportedReceiptKind kind))"

definition contract_refs_value :: "external_contract \<Rightarrow> pyv" where
  "contract_refs_value c = VMap
     [(''envelope_contract'', VMap [(''id'', VStr (xc_envelope_contract_id c)),
         (''version'', VStr (xc_envelope_contract_version c)), (''digest'', VStr (xc_envelope_contract_digest c))]),
      (''profile_contract'', VMap [(''id'', VStr (xc_profile_id c)),
         (''version'', VStr (xc_profile_version c)), (''digest'', VStr (xc_profile_contract_digest c))])]"

definition legacy_binding_version :: "pydict \<Rightarrow> string \<Rightarrow> pyv" where
  "legacy_binding_version env dflt =
     (case read_field env ''extensions'' (VMap []) of
        VMap ext \<Rightarrow> (case read_field ext ''mcp'' (VMap []) of
                      VMap m \<Rightarrow> read_field m ''binding_version'' (VStr dflt) | _ \<Rightarrow> VStr dflt)
      | _ \<Rightarrow> VStr dflt)"

definition external_common_envelope ::
  "external_contract \<Rightarrow> signing_identity \<Rightarrow> receipt_context \<Rightarrow> stamp \<Rightarrow> string \<Rightarrow> string
    \<Rightarrow> (external_error, pydict) result" where
  "external_common_envelope c ident ctx st kind artifact =
     rbind (map_err ExtReceipt (core_common_envelope ident ctx st kind artifact)) (\<lambda>env.
     rbind (receipt_type_for c kind) (\<lambda>rtype.
       let env1 = dset ''contract_refs'' (contract_refs_value c)
                  (dset ''protocol_binding'' (VStr (xc_protocol_binding c))
                  (dset ''boundary_type'' (VStr (xc_boundary_type c))
                  (dset ''receipt_type'' (VStr rtype)
                  (dset ''profile_version'' (VStr (xc_profile_version c))
                  (dset ''profile_id'' (VStr (xc_profile_id c))
                  (dset ''emitter_id'' (VStr (xc_emitter_id c))
                  (dset ''envelope_schema_version'' (VStr ENVELOPE_SCHEMA_VERSION) env)))))))
       in Inr (dset ''extensions'' (VMap [(xc_extension_namespace c, VMap [(''mcp_binding'',
                 VMap [(''binding_version'', legacy_binding_version env1 (rc_binding_version ctx))])])]) env1)))"

definition external_admission_envelope ::
  "external_contract \<Rightarrow> signing_identity \<Rightarrow> receipt_context \<Rightarrow> stamp \<Rightarrow> admission_args
    \<Rightarrow> (external_error, pydict) result" where
  "external_admission_envelope c ident ctx st a =
     rbind (external_common_envelope c ident ctx st ''admission'' ''tool_call_admission'') (\<lambda>env.
       map_err ExtReceipt (append_attestation_limits
         (dset_given ''reason_code'' (aa_reason_code a)
           (dset_given ''retry_contract'' (aa_retry_contract a)
             (dset_given ''review_object_ref'' (aa_review_object_ref a)
               (dupdate env
                 [(''requested_tool_name'', VStr (aa_tool_name a)),
                  (''tool_resolution_status'', VStr ''not_observed''),
                  (''argument_digest'', VStr (aa_argument_digest a)),
                  (''policy_pack_id'', VStr (rc_policy_pack_id ctx)),
                  (''policy_pack_version'', VStr (rc_policy_pack_version ctx)),
                  (''disposition'', VStr (aa_disposition a))]))))
         (aa_limits a)))"

text \<open>A write into the mapping of the contract's extension namespace.\<close>

definition set_namespaced :: "string \<Rightarrow> string \<Rightarrow> pyv \<Rightarrow> pydict \<Rightarrow> pydict" where
  "set_namespaced ns k v env =
     (case dget env ''extensions'' of
        Some (VMap ext) \<Rightarrow>
          (case dget ext ns of
             Some (VMap m) \<Rightarrow> dset ''extensions'' (VMap (dset ns (VMap (dset k v m)) ext)) env
           | _ \<Rightarrow> env)
      | _ \<Rightarrow> env)"

fun project_owned :: "pydict \<Rightarrow> pydict \<Rightarrow> (receipt_error, pydict) result" where
  "project_owned projected [] = Inr projected"
| "project_owned projected ((k, v) # rest) =
     (if k \<notin> set CANCELLATION_FIELD_NAMES then Inl (UnknownBindingOwnedField k)
      else if \<not> is_vbool v then Inl (BindingOwnedFieldNotBoolean k)
      else project_owned (dset k v projected) rest)"

definition external_owned_fields ::
  "string \<Rightarrow> pydict \<Rightarrow> string \<Rightarrow> pydict option \<Rightarrow> (receipt_error, pydict) result" where
  "external_owned_fields ns env outcome owned =
    (case owned of
       None \<Rightarrow> Inr env
     | Some [] \<Rightarrow> Inr env
     | Some fs \<Rightarrow> if outcome \<noteq> ''indeterminate'' then Inl CancellationFieldsMisplaced
                  else rbind (project_owned [] fs) (\<lambda>projected.
                    Inr (set_namespaced ns ''delivery_state'' (VMap projected) env)))"

definition external_outcome_envelope ::
  "external_contract \<Rightarrow> signing_identity \<Rightarrow> receipt_context \<Rightarrow> stamp \<Rightarrow> outcome_args
    \<Rightarrow> (external_error, pydict) result" where
  "external_outcome_envelope c ident ctx st a =
     rbind (external_common_envelope c ident ctx st ''outcome'' ''tool_call_outcome'') (\<lambda>env0.
       let env1 = dset_given ''result_digest'' (oa_result_digest a)
                    (dupdate env0 [(''admission_receipt_ref'', VStr (oa_admission_ref a)),
                                   (''outcome'', VStr (oa_outcome a))]);
           env2 = (if given (oa_exception_class a)
                   then set_namespaced (xc_extension_namespace c) ''exception_class''
                          (VStr (the (oa_exception_class a))) env1
                   else env1);
           env3 = (if oa_outcome a \<in> set [''result_returned'', ''error_returned'']
                   then set_limits (limits_of env2 @ [VStr RESULT_LIMIT]) env2 else env2);
           env4 = (if oa_outcome a = ''task_submitted''
                   then set_limits (limits_of env3 @ [VStr TASK_LIMIT]) env3 else env3)
       in map_err ExtReceipt (rbind (append_attestation_limits env4 (oa_limits a)) (\<lambda>env5.
            external_owned_fields (xc_extension_namespace c) env5 (oa_outcome a) (oa_owned_fields a))))"

definition external_guard_and_emit ::
  "signing_identity \<Rightarrow> (external_error, pydict) result \<Rightarrow> sink
    \<Rightarrow> (external_error, string) result \<times> sink" where
  "external_guard_and_emit ident built sk =
     (case built of Inl e \<Rightarrow> (Inl e, sk)
      | Inr env \<Rightarrow> (case guard_and_emit ident (Inr env) sk of (r, sk') \<Rightarrow> (map_err ExtReceipt r, sk')))"

definition external_emit_admission ::
  "external_contract \<Rightarrow> signing_identity \<Rightarrow> receipt_context \<Rightarrow> stamp \<Rightarrow> admission_args \<Rightarrow> sink
    \<Rightarrow> (external_error, string) result \<times> sink" where
  "external_emit_admission c ident ctx st a sk =
     external_guard_and_emit ident (external_admission_envelope c ident ctx st a) sk"

definition external_emit_outcome ::
  "external_contract \<Rightarrow> signing_identity \<Rightarrow> receipt_context \<Rightarrow> stamp \<Rightarrow> outcome_args \<Rightarrow> sink
    \<Rightarrow> (external_error, string) result \<times> sink" where
  "external_emit_outcome c ident ctx st a sk =
     external_guard_and_emit ident (external_outcome_envelope c ident ctx st a) sk"

end
