(* ===== verification/ExternalFacts.thy ===== *)
theory ExternalFacts
  imports ExternalProfile
begin

text \<open>What an external profile contract promises: the loops of the declaration guard against a declarative
  reading of the declaration, the contract against the bytes it names, and the receipts of the external
  emitter against the receipts of the core's.\<close>

section \<open>The declaration, declaratively\<close>

text \<open>The lists of the declaration stand for lists of texts, of pairs and of class entries.\<close>

definition text_list :: "pyv \<Rightarrow> string list \<Rightarrow> bool" where
  "text_list v ss = (v = VList (map VStr ss) \<and> ss \<noteq> [] \<and> [] \<notin> set ss \<and> distinct ss)"

fun compat_item :: "pyv \<Rightarrow> string \<times> string \<Rightarrow> bool" where
  "compat_item item (version, digest) = (\<exists>d. item = VMap d
      \<and> set (dkeys d) = {''published_version'', ''sha256''}
      \<and> dget d ''published_version'' = Some (VStr version) \<and> version \<noteq> []
      \<and> dget d ''sha256'' = Some (VStr digest) \<and> hex64 digest)"

fun class_item :: "string list \<Rightarrow> pyv \<Rightarrow> class_entry \<Rightarrow> bool" where
  "class_item permitted item (t, c, k) = (\<exists>d. item = VMap d
      \<and> set (dkeys d) \<subseteq> {''receipt_type'', ''receipt_class'', ''receipt_kind''}
      \<and> dget d ''receipt_type'' = Some (VStr t) \<and> t \<in> set permitted
      \<and> dget d ''receipt_class'' = Some (VStr c) \<and> c \<in> set RECEIPT_CLASSES
      \<and> read_field d ''receipt_kind'' VNone = vopt k \<and> k \<noteq> Some [])"

fun entry_key :: "class_entry \<Rightarrow> string \<times> string option" where
  "entry_key (t, c, k) = (t, k)"

fun entry_class :: "class_entry \<Rightarrow> (string \<times> string option) \<times> string" where
  "entry_class (t, c, k) = ((t, k), c)"

lemma map_VStr_eq [simp]: "(map VStr xs = map VStr ys) = (xs = ys)"
  by (simp add: inj_map_eq_map inj_def)

lemma str_items_map [simp]: "str_items (map VStr ss) = Some ss"
  by (induction ss) simp_all

lemma str_items_iff: "(str_items xs = Some ss) = (xs = map VStr ss)"
proof
  show "str_items xs = Some ss \<Longrightarrow> xs = map VStr ss"
    by (induction xs arbitrary: ss rule: str_items.induct) (auto split: option.splits)
qed simp

lemma require_unique_strings_Inr: "(require_unique_strings l v = Inr ss) = text_list v ss"
  by (cases v) (auto simp: require_unique_strings_def text_list_def str_items_iff split: option.splits if_splits)

lemma declared_text_Inr: "(declared_text ok e v = Inr s) = (v = VStr s \<and> ok s)"
  by (cases v) (auto simp: declared_text_def)

lemma in_string_set_Inr: "(in_string_set v ss e = Inr s) = (v = VStr s \<and> s \<in> set ss)"
  by (cases v) (auto simp: in_string_set_def)

lemma read_field_text: "(read_field d k VNone = VStr s) = (dget d k = Some (VStr s))"
  by (auto simp: read_field_def split: option.splits)

lemma read_compatibility_Inr:
  "distinct seen \<Longrightarrow> (read_compatibility seen items = Inr out) =
     (\<exists>ps. list_all2 compat_item items ps \<and> out = seen @ ps \<and> distinct (seen @ ps))"
proof (induction seen items arbitrary: out rule: read_compatibility.induct)
  case (2 seen d items)
  show ?case
  proof (cases "\<exists>p. compat_item (VMap d) p")
    case False
    then have "read_compatibility seen (VMap d # items) \<noteq> Inr out"
      by (auto simp: rbind_Inr_iff declared_text_Inr read_field_text)
    with False show ?thesis by (auto simp: list_all2_Cons1)
  next
    case True
    then obtain version digest where p: "compat_item (VMap d) (version, digest)" by auto
    then have u: "compat_item (VMap d) q = (q = (version, digest))" for q by (cases q) auto
    have step: "read_compatibility seen (VMap d # items) =
        (if (version, digest) \<in> set seen then Inl DuplicateCompat
         else read_compatibility (seen @ [(version, digest)]) items)"
      using p by (simp add: read_field_def declared_text_def)
    show ?thesis
    proof (cases "(version, digest) \<in> set seen")
      case True
      then show ?thesis unfolding step by (auto simp: list_all2_Cons1 u)
    next
      case False
      have "(read_compatibility (seen @ [(version, digest)]) items = Inr out) =
          (\<exists>ps. list_all2 compat_item items ps \<and> out = (seen @ [(version, digest)]) @ ps
                 \<and> distinct ((seen @ [(version, digest)]) @ ps))"
        using 2 p False by (intro "2.IH"[of version digest]) (auto simp: read_field_def declared_text_def)
      with False show ?thesis unfolding step by (auto simp: list_all2_Cons1 u)
    qed
  qed
qed (auto simp: list_all2_Cons1)

lemma read_classification_Inr: "(read_classification permitted item = Inr e) = class_item permitted item e"
proof (cases item)
  case (VMap d)
  obtain t c k where e: "e = (t, c, k)" by (cases e)
  have keys: "dget d j = Some v \<Longrightarrow> j \<in> set (dkeys d)" for j v by (rule dget_Some_in_dkeys)
  show ?thesis
    unfolding VMap e
    by (cases k) (auto simp: read_classification_def rbind_Inr_iff declared_text_Inr in_string_set_Inr
        read_field_text dest: keys, auto simp: read_field_def)
qed (cases e; simp add: read_classification_def)+

lemma update_new: "k \<notin> fst ` set al \<Longrightarrow> AList.update k v al = al @ [(k, v)]"
  by (induction al) auto

lemma read_classifications_Inr:
  "classes = map entry_class seen \<Longrightarrow> distinct (map entry_key seen) \<Longrightarrow>
   (read_classifications permitted seen classes items = Inr (out, cl)) =
     (\<exists>es. list_all2 (class_item permitted) items es \<and> out = seen @ es \<and> cl = map entry_class (seen @ es)
           \<and> distinct (map entry_key (seen @ es)))"
proof (induction items arbitrary: seen classes)
  case Nil
  then show ?case by auto
next
  case (Cons item items)
  show ?case
  proof (cases "\<exists>e. class_item permitted item e")
    case False
    then have "read_classifications permitted seen classes (item # items) \<noteq> Inr (out, cl)"
      by (auto simp: rbind_Inr_iff read_classification_Inr)
    with False show ?thesis by (auto simp: list_all2_Cons1)
  next
    case True
    then obtain t c k where p: "class_item permitted item (t, c, k)" by auto
    then have u: "class_item permitted item q = (q = (t, c, k))" for q
      by (simp flip: read_classification_Inr) auto
    have fsts: "fst ` set classes = set (map entry_key seen)" unfolding Cons.prems(1) by force
    show ?thesis
    proof (cases "(t, k) \<in> set (map entry_key seen)")
      case True
      then obtain c' where old: "(t, c', k) \<in> set seen" by force
      then have "((t, k), c') \<in> set classes" unfolding Cons.prems(1) by force
      moreover have "distinct (map fst classes)"
        unfolding Cons.prems(1) using Cons.prems(2) by (simp add: comp_def case_prod_unfold)
          (metis (mono_tags, lifting) entry_class.elims entry_key.simps fst_conv map_eq_conv)
      ultimately have "map_of classes (t, k) = Some c'" by simp
      then have "read_classifications permitted seen classes (item # items) \<noteq> Inr (out, cl)"
        using p old by (cases "c' = c") (auto simp: rbind_Inr_iff read_classification_Inr[symmetric])
      then show ?thesis using True by (auto simp: list_all2_Cons1 u simp del: read_classifications.simps)
    next
      case False
      then have new: "(t, k) \<notin> fst ` set classes" using fsts by simp
      then have none: "map_of classes (t, k) = None" by (simp add: map_of_eq_None_iff)
      have unseen: "(t, c, k) \<notin> set seen" using False by force
      have step: "read_classifications permitted seen classes (item # items) =
          read_classifications permitted (seen @ [(t, c, k)]) (classes @ [((t, k), c)]) items"
        using p none unseen by (simp flip: read_classification_Inr) (simp add: update_new[OF new])
      have "(read_classifications permitted (seen @ [(t, c, k)]) (classes @ [((t, k), c)]) items = Inr (out, cl)) =
          (\<exists>es. list_all2 (class_item permitted) items es \<and> out = (seen @ [(t, c, k)]) @ es
             \<and> cl = map entry_class ((seen @ [(t, c, k)]) @ es)
             \<and> distinct (map entry_key ((seen @ [(t, c, k)]) @ es)))"
        using Cons.prems False by (intro Cons.IH) auto
      then show ?thesis unfolding step by (auto simp: list_all2_Cons1 u)
    qed
  qed
qed

text \<open>The scalar fields of a declaration.\<close>

definition declared_fields :: "pydict \<Rightarrow> bool" where
  "declared_fields p =
     (set PROFILE_REQUIRED_KEYS \<subseteq> set (dkeys p) \<and> set (dkeys p) \<subseteq> set PROFILE_ALLOWED_KEYS
      \<and> dget p ''schema'' = Some (VStr EXTERNAL_PROFILE_DECLARATION_SCHEMA)
      \<and> (\<exists>s. dget p ''profile_id'' = Some (VStr s) \<and> external_profile_id s \<and> \<not> reserved_prefix s)
      \<and> (\<exists>s. dget p ''profile_version'' = Some (VStr s) \<and> external_profile_version s)
      \<and> (\<exists>s. dget p ''publisher_ref'' = Some (VStr s) \<and> s \<noteq> [])
      \<and> (\<exists>s. dget p ''conformance_vectors_ref'' = Some (VStr s) \<and> s \<noteq> [])
      \<and> (\<exists>s. dget p ''extension_namespace'' = Some (VStr s) \<and> namespaced_id s \<and> \<not> reserved_namespace s)
      \<and> (\<exists>s. dget p ''raw_content_posture'' = Some (VStr s) \<and> s \<in> set RAW_CONTENT_POSTURES)
      \<and> dget p ''signing_required'' = Some (VBool True)
      \<and> dget p ''attestation_limits_required'' = Some (VBool True)
      \<and> dget p ''unknown_profile_behavior'' = Some (VStr EXTERNAL_PROFILE_UNKNOWN_BEHAVIOR)
      \<and> (\<exists>m. read_field p ''migration_ref'' VNone = vopt m)
      \<and> (read_field p ''external_contract_refs'' VNone = VNone
         \<or> (\<exists>ss. text_list (read_field p ''external_contract_refs'' VNone) ss)))"

text \<open>The whole declaration: it binds the envelope's bytes, permits frozen or external receipt types, and
  gives each permitted type a class, at most one per type and kind.\<close>

definition declaration_reads ::
  "pydict \<Rightarrow> string \<Rightarrow> string list \<Rightarrow> ((string \<times> string option) \<times> string) list \<Rightarrow> bool" where
  "declaration_reads p sha permitted classes =
     (declared_fields p
      \<and> text_list (read_field p ''permitted_receipt_types'' VNone) permitted
      \<and> (\<forall>t\<in>set permitted. t \<in> set FROZEN_V0_2_1_RECEIPT_TYPES \<or> external_receipt_type t)
      \<and> (\<exists>items pairs. read_field p ''compatible_envelopes'' VNone = VList items
           \<and> list_all2 compat_item items pairs \<and> distinct pairs
           \<and> (SUPPORTED_ENVELOPE_CONTRACT_VERSION, sha) \<in> set pairs
           \<and> (''0.2.1'' \<in> fst ` set pairs \<longrightarrow> set permitted \<subseteq> set FROZEN_V0_2_1_RECEIPT_TYPES))
      \<and> (\<exists>items es. read_field p ''receipt_type_classifications'' VNone = VList items
           \<and> list_all2 (class_item permitted) items es \<and> es \<noteq> [] \<and> distinct (map entry_key es)
           \<and> fst ` set es = set permitted \<and> classes = map entry_class es)
      \<and> (''sdk_enforcement'' \<in> set permitted \<longrightarrow>
           map_of classes (''sdk_enforcement'', Some ''admission'') \<noteq> None
           \<and> map_of classes (''sdk_enforcement'', Some ''outcome'') \<noteq> None
           \<and> map_of classes (''sdk_enforcement'', None) = None))"

lemma read_field_const: "v \<noteq> VNone \<Longrightarrow> (read_field d k VNone = v) = (dget d k = Some v)"
  by (auto simp: read_field_def split: option.splits)

lemma read_field_held: "dget d k = Some v \<Longrightarrow> read_field d k x = v"
  by (simp add: read_field_def)

lemma check_declared_fields_Inr: "(check_declared_fields p = Inr u) = declared_fields p"
proof -
  have m: "(v = VNone \<or> is_vstr v) = (\<exists>m. v = vopt m)" for v
  proof
    assume "v = VNone \<or> is_vstr v"
    then show "\<exists>m. v = vopt m" by (metis is_vstr_iff vopt_simps)
  qed (auto simp: vopt_def split: option.splits)
  have r: "((if v = VNone then Inr () else rbind (require_unique_strings l v) (\<lambda>_. Inr ())) = Inr u)
      = (v = VNone \<or> (\<exists>ss. text_list v ss))" for v l
    by (auto simp: rbind_Inr_iff require_unique_strings_Inr text_list_def)
  have b: "(is_vbool v \<and> v = VBool True) = (v = VBool True)" for v by auto
  show ?thesis
    unfolding check_declared_fields_def declared_fields_def Let_def
    by (simp only: rbind_Inr_iff require_Inr_iff declared_text_Inr in_string_set_Inr read_field_text m r
          read_field_const[OF pyv.distinct(3)[symmetric]] read_field_const simp_thms ex_simps)
       (auto simp: read_field_const read_field_held)
qed

lemma check_compatibility_Inr:
  "(check_compatibility sha v = Inr pairs) =
     (\<exists>items. v = VList items \<and> list_all2 compat_item items pairs \<and> distinct pairs
        \<and> (SUPPORTED_ENVELOPE_CONTRACT_VERSION, sha) \<in> set pairs)"
  by (cases v) (auto simp: check_compatibility_def rbind_Inr_iff read_compatibility_Inr)

lemma check_permitted_Inr:
  "(check_permitted pairs v = Inr permitted) =
     (text_list v permitted
      \<and> (\<forall>t\<in>set permitted. t \<in> set FROZEN_V0_2_1_RECEIPT_TYPES \<or> external_receipt_type t)
      \<and> (''0.2.1'' \<in> fst ` set pairs \<longrightarrow> set permitted \<subseteq> set FROZEN_V0_2_1_RECEIPT_TYPES))"
  by (auto simp: check_permitted_def rbind_Inr_iff require_unique_strings_Inr each_Inr_iff require_Inr_iff
      image_iff split: if_splits) (metis prod.collapse)+

lemma check_classifications_Inr:
  "(check_classifications permitted v = Inr classes) =
     ((\<exists>items es. v = VList items \<and> list_all2 (class_item permitted) items es \<and> es \<noteq> []
         \<and> distinct (map entry_key es) \<and> set permitted \<subseteq> fst ` set es \<and> classes = map entry_class es)
      \<and> (''sdk_enforcement'' \<in> set permitted \<longrightarrow>
           map_of classes (''sdk_enforcement'', Some ''admission'') \<noteq> None
           \<and> map_of classes (''sdk_enforcement'', Some ''outcome'') \<noteq> None
           \<and> map_of classes (''sdk_enforcement'', None) = None))"
  by (cases v) (auto simp: check_classifications_def rbind_Inr_iff read_classifications_Inr require_Inr_iff)

lemma class_item_permitted: "list_all2 (class_item permitted) items es \<Longrightarrow> fst ` set es \<subseteq> set permitted"
  by (induction rule: list_all2_induct) (auto elim!: class_item.elims)

lemma validate_profile_declaration_Inr:
  "(validate_profile_declaration p sha = Inr (permitted, classes)) = declaration_reads p sha permitted classes"
  unfolding validate_profile_declaration_def declaration_reads_def rbind_Inr_iff check_declared_fields_Inr
    check_compatibility_Inr check_permitted_Inr check_classifications_Inr
  using class_item_permitted by (auto; blast)

section \<open>The contract\<close>

definition contract_names :: "external_contract \<Rightarrow> bool" where
  "contract_names c =
     (external_profile_id (xc_profile_id c) \<and> \<not> reserved_prefix (xc_profile_id c)
      \<and> external_profile_version (xc_profile_version c) \<and> xc_emitter_id c \<noteq> []
      \<and> namespaced_id (xc_extension_namespace c) \<and> \<not> reserved_namespace (xc_extension_namespace c)
      \<and> external_receipt_type (xc_admission_receipt_type c) \<and> external_receipt_type (xc_outcome_receipt_type c)
      \<and> xc_boundary_type c \<noteq> [] \<and> xc_protocol_binding c \<noteq> []
      \<and> xc_envelope_contract_id c = SUPPORTED_ENVELOPE_CONTRACT_ID
      \<and> xc_envelope_contract_version c = SUPPORTED_ENVELOPE_CONTRACT_VERSION
      \<and> digest_ref (xc_envelope_contract_digest c) \<and> digest_ref (xc_profile_contract_digest c))"

definition pinned_envelope :: "byte_hashes \<Rightarrow> (string \<Rightarrow> line_value) \<Rightarrow> string \<Rightarrow> bool" where
  "pinned_envelope h loads data =
     (data \<noteq> [] \<and> git_blob_sha h data = ARCS_SRS_VNEXT_ENVELOPE_GIT_BLOB
      \<and> (\<exists>env props version receipt. loads data = JsonValue (VMap env)
           \<and> dget env ''$id'' = Some (VStr SUPPORTED_ENVELOPE_SCHEMA_ID)
           \<and> dget env ''properties'' = Some (VMap props)
           \<and> dget props ''envelope_schema_version'' = Some (VMap version)
           \<and> dget version ''const'' = Some (VStr ENVELOPE_SCHEMA_VERSION)
           \<and> dget props ''receipt_version'' = Some (VMap receipt)
           \<and> dget receipt ''const'' = Some (VStr ''srs.core.v5.1'')))"

definition contract_bound :: "byte_hashes \<Rightarrow> (string \<Rightarrow> line_value) \<Rightarrow> external_contract \<Rightarrow> bool" where
  "contract_bound h loads c =
     (contract_names c
      \<and> pinned_envelope h loads (xc_envelope_contract_bytes c)
      \<and> xc_envelope_contract_digest c = ''sha256:'' @ bh_sha256 h (xc_envelope_contract_bytes c)
      \<and> xc_profile_contract_digest c = ''sha256:'' @ bh_sha256 h (xc_profile_contract_bytes c)
      \<and> xc_profile_contract_bytes c \<noteq> []
      \<and> (\<exists>p permitted classes. loads (xc_profile_contract_bytes c) = JsonValue (VMap p)
           \<and> declaration_reads p (bh_sha256 h (xc_envelope_contract_bytes c)) permitted classes
           \<and> dget p ''profile_id'' = Some (VStr (xc_profile_id c))
           \<and> dget p ''profile_version'' = Some (VStr (xc_profile_version c))
           \<and> dget p ''extension_namespace'' = Some (VStr (xc_extension_namespace c))
           \<and> {xc_admission_receipt_type c, xc_outcome_receipt_type c} \<subseteq> set permitted
           \<and> kind_covered classes (xc_admission_receipt_type c) ''admission''
           \<and> kind_covered classes (xc_outcome_receipt_type c) ''outcome''))"

lemma load_json_object_Inr:
  "(load_json_object loads data = Inr d) = (data \<noteq> [] \<and> loads data = JsonValue (VMap d))"
  by (auto simp: load_json_object_def split: line_value.splits pyv.splits)

lemma property_const_Inr:
  "v \<noteq> VNone \<Longrightarrow> (property_const props k = Inr v) =
     (\<exists>d. dget props k = Some (VMap d) \<and> dget d ''const'' = Some v)"
  by (auto simp: property_const_def read_field_def split: option.splits pyv.splits)

lemma check_envelope_bytes_Inr:
  "(check_envelope_bytes h loads c = Inr ()) =
     (pinned_envelope h loads (xc_envelope_contract_bytes c)
      \<and> xc_envelope_contract_digest c = ''sha256:'' @ bh_sha256 h (xc_envelope_contract_bytes c))"
proof -
  have p: "(case v of VMap props \<Rightarrow> f props | _ \<Rightarrow> Inl PropertiesMissing) = Inr ()
      \<longleftrightarrow> (\<exists>props. v = VMap props \<and> f props = Inr ())" for v f by (cases v) auto
  have r: "rbind r (\<lambda>v. rbind (require (v = VStr x) e) (\<lambda>_. q)) = Inr () \<longleftrightarrow> r = Inr (VStr x) \<and> q = Inr ()"
    for r x e q by (cases r) (auto simp: require_def)
  show ?thesis
    unfolding check_envelope_bytes_def pinned_envelope_def
    by (auto simp: rbind_Inr_iff[of "load_json_object loads _"] rbind_Inr_iff[of "require _ _"] require_Inr_iff p r
        load_json_object_Inr property_const_Inr read_field_const sha256_ref_of_def)
qed

lemma check_profile_bytes_Inr:
  "(check_profile_bytes h loads c = Inr ()) =
     (xc_profile_contract_bytes c \<noteq> []
      \<and> xc_profile_contract_digest c = ''sha256:'' @ bh_sha256 h (xc_profile_contract_bytes c)
      \<and> (\<exists>p permitted classes. loads (xc_profile_contract_bytes c) = JsonValue (VMap p)
           \<and> declaration_reads p (bh_sha256 h (xc_envelope_contract_bytes c)) permitted classes
           \<and> dget p ''profile_id'' = Some (VStr (xc_profile_id c))
           \<and> dget p ''profile_version'' = Some (VStr (xc_profile_version c))
           \<and> dget p ''extension_namespace'' = Some (VStr (xc_extension_namespace c))
           \<and> {xc_admission_receipt_type c, xc_outcome_receipt_type c} \<subseteq> set permitted
           \<and> kind_covered classes (xc_admission_receipt_type c) ''admission''
           \<and> kind_covered classes (xc_outcome_receipt_type c) ''outcome''))"
  unfolding check_profile_bytes_def
  by (auto simp: rbind_Inr_iff load_json_object_Inr validate_profile_declaration_Inr sha256_ref_of_def
      require_Inr_iff read_field_const split: prod.splits)

text \<open>C14: Which external-profile contracts can be constructed. Exactly the ones whose names are well formed and
  unreserved, whose envelope bytes are the pinned schema, whose two digests are the digests of the bytes
  they come with, and whose profile bytes hold a declaration that carries the contract's identity, binds
  these envelope bytes, permits both receipt types, and classifies every permitted type, each pair of
  type and kind once.\<close>
theorem external_contract_exact:
  "(external_contract_post_init h loads c = Inr ()) = contract_bound h loads c"
proof -
  have "(check_contract_fields c = Inr ()) = contract_names c"
    by (simp add: check_contract_fields_def contract_names_def checks_Inr_iff require_Inr_iff
        del: checks_simps)
  then show ?thesis
    by (auto simp: external_contract_post_init_def rbind_Inr_iff check_envelope_bytes_Inr
        check_profile_bytes_Inr contract_bound_def)
qed

text \<open>A profile that is also compatible with v0.2.1 can carry no contract: its types are all frozen.\<close>

lemma compat_item_unique:
  assumes "compat_item item p" "compat_item item q"
  shows "p = q"
proof -
  obtain v d w e where pq: "p = (v, d)" "q = (w, e)" by (meson surj_pair)
  obtain m where m: "item = VMap m" "dget m ''published_version'' = Some (VStr v)" "dget m ''sha256'' = Some (VStr d)"
    using assms(1) unfolding pq compat_item.simps by blast
  then have "dget m ''published_version'' = Some (VStr w)" "dget m ''sha256'' = Some (VStr e)"
    using assms(2) unfolding pq compat_item.simps by auto
  with m show ?thesis by (simp add: pq)
qed

lemma compat_items_unique:
  assumes "list_all2 compat_item items ps" "list_all2 compat_item items qs"
  shows "ps = qs"
  using assms
proof (induction items arbitrary: ps qs)
  case (Cons item items)
  obtain p ps' q qs' where ps: "ps = p # ps'" "compat_item item p" "list_all2 compat_item items ps'"
    and qs: "qs = q # qs'" "compat_item item q" "list_all2 compat_item items qs'"
    using Cons.prems by (auto simp: list_all2_Cons1 simp del: compat_item.simps)
  from Cons.IH[OF ps(3) qs(3)] show ?case by (simp add: ps(1) qs(1) compat_item_unique[OF ps(2) qs(2)])
qed simp

lemma frozen_not_external: "t \<in> set FROZEN_V0_2_1_RECEIPT_TYPES \<Longrightarrow> \<not> external_receipt_type t"
  by (auto simp: FROZEN_V0_2_1_RECEIPT_TYPES_def external_receipt_type_def)

lemma frozen_profile_unusable:
  assumes "contract_bound h loads c" "loads (xc_profile_contract_bytes c) = JsonValue (VMap p)"
    and "read_field p ''compatible_envelopes'' VNone = VList items" "list_all2 compat_item items pairs"
  shows "''0.2.1'' \<notin> fst ` set pairs"
proof
  assume frozen: "''0.2.1'' \<in> fst ` set pairs"
  obtain permitted classes where
    reads: "declaration_reads p (bh_sha256 h (xc_envelope_contract_bytes c)) permitted classes"
    and t: "xc_admission_receipt_type c \<in> set permitted" "external_receipt_type (xc_admission_receipt_type c)"
    using assms(1,2) by (auto simp: contract_bound_def contract_names_def)
  obtain ps where ps: "list_all2 compat_item items ps"
    "''0.2.1'' \<in> fst ` set ps \<longrightarrow> set permitted \<subseteq> set FROZEN_V0_2_1_RECEIPT_TYPES"
    using reads assms(3) unfolding declaration_reads_def by (metis pyv.inject(6))
  have "pairs = ps" by (rule compat_items_unique[OF assms(4) ps(1)])
  with ps(2) frozen t frozen_not_external show False by blast
qed

section \<open>The receipts\<close>

text \<open>The fields that carry the profile, and the top-level slots of the older envelope.\<close>

definition CARRIER_FIELDS :: "string list" where
  "CARRIER_FIELDS = [''envelope_schema_version'', ''emitter_id'', ''profile_id'', ''profile_version'',
     ''receipt_type'', ''boundary_type'', ''protocol_binding'', ''contract_refs'', ''extensions''] @ CANCELLATION_FIELD_NAMES"

definition strip_carrier :: "pydict \<Rightarrow> pydict" where
  "strip_carrier d = filter (\<lambda>kv. fst kv \<notin> set CARRIER_FIELDS) d"

definition same_facts :: "pydict \<Rightarrow> pydict \<Rightarrow> bool" where
  "same_facts d e = (strip_carrier d = strip_carrier e)"

lemma strip_carrier_dset:
  "strip_carrier (dset k v d) = (if k \<in> set CARRIER_FIELDS then strip_carrier d else dset k v (strip_carrier d))"
  by (induction d) (auto simp: strip_carrier_def)

lemma facts_dset: "same_facts d e \<Longrightarrow> same_facts (dset k v d) (dset k v e)"
  by (simp add: same_facts_def strip_carrier_dset)

lemma facts_dset_carrier: "k \<in> set CARRIER_FIELDS \<Longrightarrow> same_facts (dset k v d) e = same_facts d e"
  by (simp add: same_facts_def strip_carrier_dset)

lemma facts_dset_given: "same_facts d e \<Longrightarrow> same_facts (dset_given k x d) (dset_given k x e)"
  by (simp add: dset_given_def facts_dset)

lemma facts_dupdate: "same_facts d e \<Longrightarrow> same_facts (dupdate d f) (dupdate e f)"
  by (induction d f arbitrary: e rule: dupdate.induct) (simp_all add: facts_dset)

lemma dget_strip_carrier: "k \<notin> set CARRIER_FIELDS \<Longrightarrow> dget (strip_carrier d) k = dget d k"
  by (induction d) (auto simp: strip_carrier_def)

lemma facts_dget: "same_facts d e \<Longrightarrow> k \<notin> set CARRIER_FIELDS \<Longrightarrow> dget d k = dget e k"
  by (metis dget_strip_carrier same_facts_def)

lemma facts_limits: "same_facts d e \<Longrightarrow> limits_of d = limits_of e"
  by (simp add: limits_of_def facts_dget CARRIER_FIELDS_def CANCELLATION_FIELD_NAMES_def)

lemma facts_set_limits: "same_facts d e \<Longrightarrow> same_facts (set_limits xs d) (set_limits xs e)"
  by (simp add: set_limits_def facts_dset)

text \<open>Both emitters fail together, and what they build has the same facts.\<close>

fun facts_result :: "('e, pydict) result \<Rightarrow> ('f, pydict) result \<Rightarrow> bool" where
  "facts_result (Inr d) (Inr e) = same_facts d e"
| "facts_result (Inl _) (Inl _) = True"
| "facts_result _ _ = False"

lemma facts_rbind:
  "facts_result r q \<Longrightarrow> (\<And>d e. same_facts d e \<Longrightarrow> facts_result (f d) (g e)) \<Longrightarrow> facts_result (rbind r f) (rbind q g)"
  by (cases r; cases q) auto

lemma facts_map_err [simp]: "facts_result (map_err h r) q = facts_result r q"
  by (cases r; cases q) auto

lemma facts_append_limits:
  assumes "same_facts d e"
  shows "facts_result (append_attestation_limits d xs) (append_attestation_limits e xs)"
proof -
  have "facts_result (rbind r (\<lambda>ls. Inr (set_limits ls d))) (rbind r (\<lambda>ls. Inr (set_limits ls e)))" for r :: "(receipt_error, pyv list) result"
    by (cases r) (simp_all add: facts_set_limits assms)
  then show ?thesis by (simp add: append_attestation_limits_def facts_limits[OF assms] split: pyv.split)
qed

lemma facts_set_namespaced: "same_facts d e \<Longrightarrow> same_facts (set_namespaced ns k v d) e"
  by (auto simp: set_namespaced_def facts_dset_carrier CARRIER_FIELDS_def split: option.split pyv.split)

lemma facts_set_mcp: "same_facts d e \<Longrightarrow> same_facts d (set_mcp_extension k v e)"
  by (auto simp: set_mcp_extension_def same_facts_def strip_carrier_dset CARRIER_FIELDS_def
      split: option.split pyv.split)

lemma facts_owned:
  assumes "same_facts d e"
  shows "facts_result (rbind (project_owned q fs) (\<lambda>p. Inr (set_namespaced ns k (VMap p) d))) (apply_owned e fs)"
  using assms
proof (induction fs arbitrary: q e)
  case Nil
  then show ?case by (simp add: facts_set_namespaced)
next
  case (Cons f fs)
  obtain j v where f: "f = (j, v)" by (cases f)
  show ?case
  proof (cases "j \<in> set CANCELLATION_FIELD_NAMES \<and> is_vbool v")
    case True
    then have j: "j \<notin> set CORE_RECEIPT_FIELDS" "j \<in> set CARRIER_FIELDS"
      by (auto simp: CANCELLATION_FIELD_NAMES_def CORE_RECEIPT_FIELDS_def CARRIER_FIELDS_def)
    then have "same_facts d (dset j v e)" using Cons.prems by (simp add: same_facts_def strip_carrier_dset)
    from Cons.IH[OF this] True j show ?thesis by (simp add: f)
  qed (auto simp: f)
qed

lemma facts_owned_fields:
  "same_facts d e \<Longrightarrow>
     facts_result (external_owned_fields ns d out fs) (apply_binding_owned_fields e out fs)"
  by (auto simp: external_owned_fields_def apply_binding_owned_fields_def facts_owned split: option.split list.split
      simp del: apply_owned.simps project_owned.simps)

lemma facts_common:
  assumes "kind = ''admission'' \<or> kind = ''outcome''"
  shows "facts_result (external_common_envelope c ident ctx st kind art) (core_common_envelope ident ctx st kind art)"
proof (cases "core_common_envelope ident ctx st kind art")
  case (Inr env)
  have "same_facts env env" by (simp add: same_facts_def)
  with Inr assms show ?thesis
    by (auto simp: external_common_envelope_def receipt_type_for_def Let_def facts_dset_carrier CARRIER_FIELDS_def)
qed (simp add: external_common_envelope_def)

lemma facts_admission:
  "facts_result (external_admission_envelope c ident ctx st a) (core_admission_envelope ident ctx st a)"
  unfolding external_admission_envelope_def core_admission_envelope_def
  by (rule facts_rbind[OF facts_common])
     (simp_all add: facts_append_limits facts_dset_given facts_dupdate del: dupdate.simps)

lemma facts_outcome:
  "facts_result (external_outcome_envelope c ident ctx st a) (core_outcome_envelope ident ctx st a)"
proof -
  have step: "same_facts x y \<Longrightarrow> same_facts (set_limits (limits_of x @ l) x) (set_limits (limits_of y @ l) y)"
    for x y l by (simp add: facts_limits facts_set_limits)
  show ?thesis
    unfolding external_outcome_envelope_def core_outcome_envelope_def Let_def
    by (rule facts_rbind[OF facts_common], simp, simp only: facts_map_err, rule facts_rbind)
       (auto intro!: facts_append_limits facts_owned_fields step facts_set_namespaced facts_set_mcp facts_dset_given
         facts_dupdate simp del: dupdate.simps)
qed

text \<open>What the external envelope says of its profile: the contract's identity and digests, everything of the
  binding inside the contract's one extension namespace, and none of the older top-level slots.\<close>

definition carries_profile ::
  "external_contract \<Rightarrow> receipt_context \<Rightarrow> string \<Rightarrow> pydict \<Rightarrow> pydict \<Rightarrow> bool" where
  "carries_profile c ctx rtype extra env =
     (dget env ''envelope_schema_version'' = Some (VStr ENVELOPE_SCHEMA_VERSION)
      \<and> dget env ''emitter_id'' = Some (VStr (xc_emitter_id c))
      \<and> dget env ''profile_id'' = Some (VStr (xc_profile_id c))
      \<and> dget env ''profile_version'' = Some (VStr (xc_profile_version c))
      \<and> dget env ''receipt_type'' = Some (VStr rtype)
      \<and> dget env ''boundary_type'' = Some (VStr (xc_boundary_type c))
      \<and> dget env ''protocol_binding'' = Some (VStr (xc_protocol_binding c))
      \<and> dget env ''contract_refs'' = Some (contract_refs_value c)
      \<and> dget env ''extensions'' = Some (VMap [(xc_extension_namespace c,
           VMap ((''mcp_binding'', VMap [(''binding_version'', VStr (rc_binding_version ctx))]) # extra))])
      \<and> (\<forall>k\<in>set CANCELLATION_FIELD_NAMES. dget env k = None))"

lemma carries_kept:
  assumes "carries_profile c ctx t x env" "\<And>k. k \<in> set CARRIER_FIELDS \<Longrightarrow> dget env' k = dget env k"
  shows "carries_profile c ctx t x env'"
  using assms unfolding carries_profile_def by (simp add: CARRIER_FIELDS_def)

lemma carries_dset_given:
  "carries_profile c ctx t x env \<Longrightarrow> k \<notin> set CARRIER_FIELDS \<Longrightarrow> carries_profile c ctx t x (dset_given k v env)"
  by (erule carries_kept) auto

lemma carries_dupdate:
  "carries_profile c ctx t x env \<Longrightarrow> wf_dict f \<Longrightarrow> set (dkeys f) \<inter> set CARRIER_FIELDS = {} \<Longrightarrow>
     carries_profile c ctx t x (dupdate env f)"
  by (erule carries_kept) (auto simp: dget_dupdate split: option.splits dest: dget_Some_in_dkeys)

lemma carries_set_limits:
  "carries_profile c ctx t x env \<Longrightarrow> carries_profile c ctx t x (set_limits l env)"
  by (erule carries_kept) (auto simp: CARRIER_FIELDS_def CANCELLATION_FIELD_NAMES_def)

lemma carries_add:
  "carries_profile c ctx t x env \<Longrightarrow> carries_profile c ctx t x (if b then set_limits (limits_of env @ l) env else env)"
  by (simp add: carries_set_limits)

lemma carries_append:
  "append_attestation_limits env l = Inr env' \<Longrightarrow> carries_profile c ctx t x env \<Longrightarrow> carries_profile c ctx t x env'"
  by (erule carries_kept) (auto simp: CARRIER_FIELDS_def CANCELLATION_FIELD_NAMES_def append_limits_dget)

lemma carries_set_namespaced:
  assumes "carries_profile c ctx t x env" "k \<noteq> ''mcp_binding''"
  shows "carries_profile c ctx t (dset k v x) (set_namespaced (xc_extension_namespace c) k v env)"
  using assms unfolding carries_profile_def set_namespaced_def
  by (simp add: CANCELLATION_FIELD_NAMES_def)

lemma carries_common:
  assumes "external_common_envelope c ident ctx st kind art = Inr env"
  shows "\<exists>rtype. receipt_type_for c kind = Inr rtype \<and> carries_profile c ctx rtype [] env"
proof -
  obtain e rtype where e: "core_common_envelope ident ctx st kind art = Inr e" and r: "receipt_type_for c kind = Inr rtype"
    using assms by (auto simp: external_common_envelope_def rbind_Inr_iff map_err_Inr_iff)
  from e have ext: "dget e ''extensions'' = Some (VMap [(''mcp'', VMap [(''binding_version'', VStr (rc_binding_version ctx))])])"
    and none: "dget e ''request_cancelled'' = None" "dget e ''execution_state_unknown'' = None" "dget e ''delivery_incomplete'' = None"
    by (auto simp: core_common_envelope_def Let_def split: if_splits)
  show ?thesis
    using assms e r ext none
    by (auto simp: external_common_envelope_def Let_def carries_profile_def legacy_binding_version_def read_field_def
        CANCELLATION_FIELD_NAMES_def)
qed

lemma carries_admission:
  assumes "external_admission_envelope c ident ctx st a = Inr env"
  shows "carries_profile c ctx (xc_admission_receipt_type c) [] env"
proof -
  obtain e where "external_common_envelope c ident ctx st ''admission'' ''tool_call_admission'' = Inr e"
    and app: "append_attestation_limits (dset_given ''reason_code'' (aa_reason_code a)
           (dset_given ''retry_contract'' (aa_retry_contract a)
             (dset_given ''review_object_ref'' (aa_review_object_ref a)
               (dupdate e
                 [(''requested_tool_name'', VStr (aa_tool_name a)),
                  (''tool_resolution_status'', VStr ''not_observed''),
                  (''argument_digest'', VStr (aa_argument_digest a)),
                  (''policy_pack_id'', VStr (rc_policy_pack_id ctx)),
                  (''policy_pack_version'', VStr (rc_policy_pack_version ctx)),
                  (''disposition'', VStr (aa_disposition a))])))) (aa_limits a) = Inr env"
    using assms by (auto simp: external_admission_envelope_def rbind_Inr_iff map_err_Inr_iff)
  then have "carries_profile c ctx (xc_admission_receipt_type c) [] e"
    using carries_common by (fastforce simp: receipt_type_for_def)
  then show ?thesis
    by (intro carries_append[OF app] carries_dset_given carries_dupdate)
       (simp_all add: CARRIER_FIELDS_def CANCELLATION_FIELD_NAMES_def wf_dict_def)
qed

text \<open>What an outcome adds inside the namespace.\<close>

definition outcome_extra :: "outcome_args \<Rightarrow> pydict" where
  "outcome_extra a =
     (if given (oa_exception_class a) then [(''exception_class'', VStr (the (oa_exception_class a)))] else [])
     @ (case oa_owned_fields a of None \<Rightarrow> [] | Some fs \<Rightarrow>
          if fs = [] then [] else [(''delivery_state'', VMap (dupdate [] fs))])"

lemma project_owned_dupdate: "project_owned q fs = Inr p \<Longrightarrow> p = dupdate q fs"
  by (induction q fs rule: project_owned.induct) (auto split: if_splits)

lemma carries_outcome:
  assumes "external_outcome_envelope c ident ctx st a = Inr env"
  shows "carries_profile c ctx (xc_outcome_receipt_type c) (outcome_extra a) env"
proof -
  let ?ns = "xc_extension_namespace c"
  let ?x = "if given (oa_exception_class a) then [(''exception_class'', VStr (the (oa_exception_class a)))] else []"
  let ?add = "\<lambda>b l env. if b then set_limits (limits_of env @ [VStr l]) env else env"
  obtain e env4 env5 where common: "external_common_envelope c ident ctx st ''outcome'' ''tool_call_outcome'' = Inr e"
    and env4: "env4 = ?add (oa_outcome a = ''task_submitted'') TASK_LIMIT
        (?add (oa_outcome a \<in> set [''result_returned'', ''error_returned'']) RESULT_LIMIT
          (if given (oa_exception_class a)
           then set_namespaced ?ns ''exception_class'' (VStr (the (oa_exception_class a)))
                  (dset_given ''result_digest'' (oa_result_digest a)
                    (dupdate e [(''admission_receipt_ref'', VStr (oa_admission_ref a)), (''outcome'', VStr (oa_outcome a))]))
           else dset_given ''result_digest'' (oa_result_digest a)
                    (dupdate e [(''admission_receipt_ref'', VStr (oa_admission_ref a)), (''outcome'', VStr (oa_outcome a))])))"
    and app: "append_attestation_limits env4 (oa_limits a) = Inr env5"
    and own: "external_owned_fields ?ns env5 (oa_outcome a) (oa_owned_fields a) = Inr env"
    using assms unfolding external_outcome_envelope_def Let_def
    by (auto simp: rbind_Inr_iff map_err_Inr_iff simp del: dupdate.simps)
  have "carries_profile c ctx (xc_outcome_receipt_type c) [] e"
    using carries_common[OF common] by (auto simp: receipt_type_for_def)
  then have base: "carries_profile c ctx (xc_outcome_receipt_type c) []
      (dset_given ''result_digest'' (oa_result_digest a)
         (dupdate e [(''admission_receipt_ref'', VStr (oa_admission_ref a)), (''outcome'', VStr (oa_outcome a))]))"
    by (intro carries_dset_given carries_dupdate)
       (simp_all add: CARRIER_FIELDS_def CANCELLATION_FIELD_NAMES_def wf_dict_def)
  have "carries_profile c ctx (xc_outcome_receipt_type c) ?x env4"
    unfolding env4 using base carries_set_namespaced[OF base, of "''exception_class''"]
    by (intro carries_add) (simp del: dupdate.simps)
  then have c5: "carries_profile c ctx (xc_outcome_receipt_type c) ?x env5" using app carries_append by blast
  show ?thesis
  proof (cases "oa_owned_fields a = None \<or> oa_owned_fields a = Some []")
    case True
    then show ?thesis using own c5 by (auto simp: external_owned_fields_def outcome_extra_def)
  next
    case False
    then obtain f fs where fs: "oa_owned_fields a = Some (f # fs)" by (metis list.exhaust not_None_eq)
    then obtain p where "project_owned [] (f # fs) = Inr p"
      and env: "env = set_namespaced ?ns ''delivery_state'' (VMap p) env5"
      using own by (auto simp: external_owned_fields_def rbind_Inr_iff simp del: project_owned.simps split: if_splits)
    then have "p = dupdate [] (f # fs)" using project_owned_dupdate by blast
    then show ?thesis
      unfolding env using carries_set_namespaced[OF c5, of "''delivery_state''" "VMap p"] fs
      by (cases "given (oa_exception_class a)") (simp_all add: outcome_extra_def del: dupdate.simps)
  qed
qed

text \<open>C16: An external profile changes what a receipt is filed under, never what it says. The external emitter
  builds an envelope exactly when the core's emitter does; the two agree, entry by entry and in order, on
  every field that is not the profile's or the binding's. The external one carries the contract's
  identity, receipt type and digests, holds the binding version, the exception class and the delivery
  facts inside the contract's one namespace, and has none of the older top-level slots.\<close>
theorem external_receipts_match:
  "(case external_admission_envelope c ident ctx st a of
      Inl _ \<Rightarrow> (\<exists>e. core_admission_envelope ident ctx st a = Inl e)
    | Inr env \<Rightarrow> (\<exists>core. core_admission_envelope ident ctx st a = Inr core
                       \<and> strip_carrier env = strip_carrier core)
        \<and> carries_profile c ctx (xc_admission_receipt_type c) [] env)
   \<and> (case external_outcome_envelope c ident ctx st b of
      Inl _ \<Rightarrow> (\<exists>e. core_outcome_envelope ident ctx st b = Inl e)
    | Inr env \<Rightarrow> (\<exists>core. core_outcome_envelope ident ctx st b = Inr core
                       \<and> strip_carrier env = strip_carrier core)
        \<and> carries_profile c ctx (xc_outcome_receipt_type c) (outcome_extra b) env)"
proof (intro conjI)
  show "case external_admission_envelope c ident ctx st a of
      Inl _ \<Rightarrow> (\<exists>e. core_admission_envelope ident ctx st a = Inl e)
    | Inr env \<Rightarrow> (\<exists>core. core_admission_envelope ident ctx st a = Inr core
                       \<and> strip_carrier env = strip_carrier core)
        \<and> carries_profile c ctx (xc_admission_receipt_type c) [] env"
    using facts_admission[of c ident ctx st a] carries_admission[of c ident ctx st a]
    by (cases "core_admission_envelope ident ctx st a") (auto simp: same_facts_def split: sum.splits)
  show "case external_outcome_envelope c ident ctx st b of
      Inl _ \<Rightarrow> (\<exists>e. core_outcome_envelope ident ctx st b = Inl e)
    | Inr env \<Rightarrow> (\<exists>core. core_outcome_envelope ident ctx st b = Inr core
                       \<and> strip_carrier env = strip_carrier core)
        \<and> carries_profile c ctx (xc_outcome_receipt_type c) (outcome_extra b) env"
    using facts_outcome[of c ident ctx st b] carries_outcome[of c ident ctx st b]
    by (cases "core_outcome_envelope ident ctx st b") (auto simp: same_facts_def split: sum.splits)
qed

end
