(* ===== verification/Spec2Isabelle.thy ===== *)
theory Spec2Isabelle
  imports LifecycleCore SrsEmissionFacts BindingMask FastmcpReceipts FastmcpGate SdkSinkFacts DeferredFacts
    PolicyProfile SrsBridge HarnessFacts GovernedActionFacts Coverage ObsGovernance NeutralEdges SdkBindingFacts
    GatewayFacts AccessRoundtrip IronFacts RemoteConnector FlightFacts SdkV2Facts CustodyFacts ExternalFacts
begin

chapter \<open>DAGR MCP: a model of the governed tool-call boundary\<close>

text \<open>DAGR MCP puts a governed boundary around MCP tool calls. A call is admitted, refused or deferred
  by an operator's policy; the decision leaves a signed admission receipt before the tool may run,
  and what the tool did leaves a signed outcome receipt that names the admission. The program has one
  neutral planner of these records, several bindings that drive a real tool handler by the plan, one
  receipt emitter they share, and services around them: a gateway with connectors, access to stored
  receipts, review and deferral of calls, coverage reports and a flight recorder.

  \<^bold>\<open>How the parts meet.\<close> A binding resolves actor and policy of a call, asks the planner for the
  admission plan, emits the admission through the receipt emitter, calls the handler, classifies what
  it did as a neutral observation, asks the planner for the outcome plan and emits the outcome. The
  gateway adapter drives either binding for a caller's request and answers with the receipts that were
  really written; receipt access reads these receipts back and composes an admission with its outcome.
  The synchronous harness reaches the emitter through a bridge and its sinks, and calls that await a
  review wait in the slots of the deferred boundary. The Iron boundary takes the same admission decision
  for HTTP traffic of a proxy.

  \<^bold>\<open>Conventions.\<close> Python values are the datatype \<^verbatim>\<open>pyv\<close>, dictionaries are association lists in
  insertion order, strings are lists of characters (code points below 256), unbounded integers are
  \<^verbatim>\<open>int\<close> or \<^verbatim>\<open>nat\<close>. A raise is the left value of a sum, each component with its own error datatype.
  State is passed explicitly in records named after the classes. What the code takes from outside (clock,
  minted identifiers, resolvers, handlers, faults of the operating system) is an input of the operation,
  and third-party functions (RFC 8785 canonical JSON, SHA-256, Ed25519, the JSON decoder, ISO time
  parsing) are arguments. A coroutine is run to its end: one call is one function, and sequences of calls
  are explicit lists of steps.\<close>

section \<open>Theories and the code they model\<close>

text \<open>Shared:
  \<^item> \<^verbatim>\<open>DagrPrelude\<close>: results, dictionaries, the vocabulary collections and generic lemmas.
    \<^verbatim>\<open>DagrInterfaces\<close>: the locales of the development (a handler behind a gate, sinks that mint
    references, frames of a step) that the components interpret on their own definitions.
    \<^verbatim>\<open>PyValue\<close>: values, truth, text and byte helpers. \<^verbatim>\<open>PyUrl\<close>: \<^verbatim>\<open>urlsplit\<close> and \<^verbatim>\<open>fnmatch\<close>.

  Planning and receipts:
  \<^item> \<^verbatim>\<open>LifecycleContract\<close> (\<^verbatim>\<open>src/dagr_mcp_lifecycle/contract.py\<close>): the token vocabularies and the
    cardinality table. \<^verbatim>\<open>LifecycleCore\<close> (\<^verbatim>\<open>models.py\<close>, \<^verbatim>\<open>core.py\<close>): plans and planners; they are total up
    to the documented errors and plan exactly the number of records of the table. The package
    \<^verbatim>\<open>dagr_mcp_core\<close> holds verbatim copies of these modules.
  \<^item> \<^verbatim>\<open>SrsReceipts\<close>, \<^verbatim>\<open>SrsReceiptFacts\<close>, \<^verbatim>\<open>SrsEmissionFacts\<close> (\<^verbatim>\<open>src/dagr_mcp/srs_receipts.py\<close>): the
    raw-content guard, the envelopes, signing, the file sink; what an emission adds to the sink, what the
    signature covers, the shapes of governed reads.
  \<^item> \<^verbatim>\<open>BindingMask\<close> (\<^verbatim>\<open>src/dagr_mcp_lifecycle/binding_mask.py\<close>), \<^verbatim>\<open>SdkBindingMask\<close>
    (\<^verbatim>\<open>src/dagr_mcp_sdk_binding/mask.py\<close>): projections of the tokens, stamps and drift guards.

  Bindings:
  \<^item> \<^verbatim>\<open>FastmcpTypes\<close>, \<^verbatim>\<open>FastmcpBinding\<close> (\<^verbatim>\<open>src/dagr_mcp/fastmcp_binding.py\<close>), with \<^verbatim>\<open>FastmcpFacts\<close>,
    \<^verbatim>\<open>FastmcpReceipts\<close>, \<^verbatim>\<open>FastmcpGate\<close>, \<^verbatim>\<open>FastmcpProperties\<close>: the state is \<^verbatim>\<open>mw_state\<close> (sink, telemetry, spool
    and the trace of effects); a call's trace, its receipts, its refinement of the neutral plan, and the
    operator-admission seam.
  \<^item> \<^verbatim>\<open>SdkBinding\<close>, \<^verbatim>\<open>SdkBindingFacts\<close> (\<^verbatim>\<open>src/dagr_mcp_sdk_binding/neutral.py\<close>, \<^verbatim>\<open>adapter.py\<close>): the
    official-SDK binding, shown to be the middleware under another stamp.
  \<^item> \<^verbatim>\<open>CoreReceipts\<close> (\<^verbatim>\<open>src/packages/dagr-mcp-core/src/dagr_mcp_core/srs_receipts.py\<close>): where the core's
    copy of the emitter differs, and its parity with the original. \<^verbatim>\<open>SdkV2\<close>, \<^verbatim>\<open>SdkV2Facts\<close>
    (\<^verbatim>\<open>src/packages/dagr-mcp-sdk-v2/src/dagr_mcp_sdk_v2/adapter.py\<close>, \<^verbatim>\<open>result_digest.py\<close>): the SDK-v2
    binding; its state is \<^verbatim>\<open>v2_state\<close> (sink, telemetry, trace), a call is one function from the request
    to how it ends, and the lemmas give its effects on every path and what an operator's answer reaches.
  \<^item> \<^verbatim>\<open>ExternalProfile\<close>, \<^verbatim>\<open>ExternalFacts\<close>
    (\<^verbatim>\<open>src/packages/dagr-mcp-core/src/dagr_mcp_core/external_profile_receipts.py\<close>): the declaration guard, the
    contract bound to bytes (record \<^verbatim>\<open>external_contract\<close>), the emitter that overrides the core's envelope;
    the guard against a declarative reading, and the receipts against the core's.
  \<^item> \<^verbatim>\<open>EnforcementHarness\<close>, \<^verbatim>\<open>HarnessFacts\<close> (\<^verbatim>\<open>src/dagr_mcp/enforcement_harness.py\<close>), \<^verbatim>\<open>SrsBridge\<close>
    (\<^verbatim>\<open>src/dagr_mcp/srs_bridge.py\<close>), \<^verbatim>\<open>PolicyProfile\<close> (\<^verbatim>\<open>src/dagr_mcp/policy_profile.py\<close>): the synchronous
    harness, when it runs the handler and which receipts it leaves.
  \<^item> \<^verbatim>\<open>GovernedAction\<close>, \<^verbatim>\<open>GovernedActionFacts\<close>
    (\<^verbatim>\<open>src/packages/dagr-mcp-core/src/dagr_mcp_core/lifecycle/governed_action.py\<close>): snapshots, the
    decision table and the run of an action.
  \<^item> \<^verbatim>\<open>ObsGovernance\<close> (\<^verbatim>\<open>src/dagr_obs_governance/\<close>): delegations, the policy over them, the governed call.

  Review, deferral and edges:
  \<^item> \<^verbatim>\<open>SdkSpine\<close>, \<^verbatim>\<open>SdkSinks\<close>, \<^verbatim>\<open>SdkSinkFacts\<close> (\<^verbatim>\<open>src/dagr_mcp/sdk_spine.py\<close>): vocabulary and in-memory
    sinks. \<^verbatim>\<open>ToolCallDisposition\<close>, \<^verbatim>\<open>DispositionFacts\<close> (\<^verbatim>\<open>src/dagr_mcp/tool_call_disposition.py\<close>): review rows
    and readiness. \<^verbatim>\<open>DeferredBoundary\<close>, \<^verbatim>\<open>DeferredFacts\<close> (\<^verbatim>\<open>src/dagr_mcp/deferred_boundary.py\<close>): slots as a
    state machine, at most one execution per slot.
  \<^item> \<^verbatim>\<open>Coverage\<close> (\<^verbatim>\<open>src/dagr_mcp/execution_coverage.py\<close>, \<^verbatim>\<open>coverage.py\<close>): builders, validators, postures.
    \<^verbatim>\<open>NeutralEdges\<close>: continuation, operator decision, caller principal, packet extension.
    \<^verbatim>\<open>FlightRecorder\<close>, \<^verbatim>\<open>FlightFacts\<close> (\<^verbatim>\<open>src/dagr_mcp/evidence_flight_recorder.py\<close>): recorders, manifest, log
    reader.
    \<^verbatim>\<open>CustodyGateway\<close>, \<^verbatim>\<open>CustodyFacts\<close> (\<^verbatim>\<open>src/dagr_mcp/mcp_record_custody_gateway.py\<close>): the validated
    object (record \<^verbatim>\<open>custody_gateway\<close>), its projection and hash, exactly which objects exist.

  Service (\<^verbatim>\<open>src/dagr_mcp_service/\<close>):
  \<^item> \<^verbatim>\<open>GatewayContract\<close> (\<^verbatim>\<open>contract.py\<close>, \<^verbatim>\<open>resolution.py\<close>), \<^verbatim>\<open>GatewayAdapter\<close>, \<^verbatim>\<open>GatewayFacts\<close> (\<^verbatim>\<open>adapter.py\<close>,
    \<^verbatim>\<open>connectors/memory.py\<close>): requests, responses and the in-process operation over both bindings.
  \<^item> \<^verbatim>\<open>ReceiptAccess\<close>, \<^verbatim>\<open>ReceiptAccessFacts\<close>, \<^verbatim>\<open>AccessRoundtrip\<close> (\<^verbatim>\<open>access.py\<close>): resolution and composition of
    stored receipts, and the way from the emitter through the file back.
  \<^item> \<^verbatim>\<open>IronTransform\<close>, \<^verbatim>\<open>IronFacts\<close> (\<^verbatim>\<open>iron_transform.py\<close>), \<^verbatim>\<open>RemoteConnector\<close> (\<^verbatim>\<open>connectors/remote.py\<close>).\<close>

section \<open>What the lemmas show\<close>

text \<open>The properties are numbered C1 to C40 over all theories. The safety group says when a handler runs:
  only for an admitted policy, behind a written admission where the class is fail-closed, and once
  (middleware, official SDK, harness, governed action, observation governance, deferred boundary, gateway,
  Iron boundary). The receipt group says what is left behind: which envelopes are written, how they refer
  to each other, what they may not hold, and that they resolve and compose back to what was written. The
  decision group gives total tables for policies, operator decisions, readiness and failure translation.
  Equivalences tie the two bindings together, refinements tie a binding to the neutral plan and the guards
  to their specifications. Round trips cover snapshots, review rows, stored receipts, custody
  projections and flight logs.

  \<^bold>\<open>Bounds and termination.\<close> No definition runs on fuel: recursion is structural or on a measure that
  shrinks (the text still to be split, the bytes still to be read, the nodes of a value still to be
  walked), so that every function is total and a theorem about its result is about every run. The read
  loop of the file source carries the remaining budget of bytes as the code does.\<close>

section \<open>Not modelled\<close>

text \<open>Third-party code is never given a body: the MCP and FastMCP runtimes, HTTP clients, cryptography
  and JSON parsing are arguments or inputs. Threads and the interleaving of concurrent calls on one
  sink or one slot are not modelled; the slot locks of the deferred boundary make its calls atomic. Within
  modelled modules the following is left out: reading profile files and environment variables,
  \<^verbatim>\<open>to_dict\<close> and \<^verbatim>\<open>to_json\<close> projections of the gateway contract, the custody vocabulary counts of the masks,
  capability probing of duck-typed sinks, and \<^verbatim>\<open>isinstance\<close> refusals of fields that the model types.

  Whole parts that are not modelled: the server registration modules of the official SDK and the package
  surfaces (no logic of their own); the stdio connector (process spawning and pipes), the SAM-native
  connector (a draft adapter over the remote connector) and the acquisition connector (pinned constants);
  the memory tools \<^verbatim>\<open>amnesiac_*\<close>, whose behaviour is that of a producer package outside the repository; the
  matter-scope linter; demos, examples and tools, which drive the modelled parts on fixed inputs.\<close>

end
